(* ===== verification/Prelude.thy ===== *)
theory Prelude
  imports Main "HOL-Library.Monad_Syntax" "HOL-Library.State_Monad" "HOL-Library.Sublist"
begin

text \<open>
  What the Go code of the repository takes from its language and standard library, and the
  generic reasoning the components share.

  \<^item> identifiers, instants and 64-bit integers: a UUID is a natural number with \<open>uuid_nil\<close> the
    zero UUID; an instant is an integer number of nanoseconds since the Unix epoch, with the Go
    zero time as a distinguished value; an \<open>int64\<close> is an integer, and Go arithmetic on it is
    followed by \<open>wrap64\<close>, the two's complement wrap-around;
  \<^item> errors: every Go error value the code builds, sentinels, driver errors and the wrapping of
    \<^verbatim>\<open>fmt.Errorf("...: %w", err)\<close>; a Go function returning \<open>(T, error)\<close> is a program whose
    result is of the sum type \<open>goerr + 'a\<close>;
  \<^item> the part of package \<^verbatim>\<open>strings\<close> the code uses, on byte strings; case conversion and trimming
    are those of ASCII;
  \<^item> stateful code: the state monad of the library, with a calculus of invariants
    (\<open>keeps\<close>) whose rules are collected in \<open>keeps_rules\<close>.
\<close>

named_theorems keeps_rules \<open>introduction rules for programs that keep an invariant\<close>
named_theorems go_simps \<open>evaluation of the Go runtime functions\<close>

section \<open>Identifiers, instants, machine integers\<close>

type_synonym uuid = nat
type_synonym instant = int

definition uuid_nil :: uuid where
  "uuid_nil = 0"

definition zero_time :: instant where
  "zero_time = - 62135596800000000000"

definition hour :: int where
  "hour = 3600000000000"

definition int64_min :: int where
  "int64_min = - 9223372036854775808"

definition int64_max :: int where
  "int64_max = 9223372036854775807"

definition in_int64 :: "int \<Rightarrow> bool" where
  "in_int64 x \<longleftrightarrow> int64_min \<le> x \<and> x \<le> int64_max"

definition wrap64 :: "int \<Rightarrow> int" where
  "wrap64 x = (x + 9223372036854775808) mod 18446744073709551616 - 9223372036854775808"

lemma wrap64_id: "in_int64 x \<Longrightarrow> wrap64 x = x"
  by (simp add: wrap64_def in_int64_def int64_min_def int64_max_def)

lemma wrap64_in_int64: "in_int64 (wrap64 x)"
proof -
  have "0 \<le> (x + 9223372036854775808) mod 18446744073709551616"
    and "(x + 9223372036854775808) mod 18446744073709551616 < 18446744073709551616"
    by simp_all
  then show ?thesis
    unfolding wrap64_def in_int64_def int64_min_def int64_max_def by linarith
qed

text \<open>Go's integer division and remainder truncate towards zero.\<close>

definition go_div :: "int \<Rightarrow> int \<Rightarrow> int" where
  "go_div a b = sgn a * sgn b * (\<bar>a\<bar> div \<bar>b\<bar>)"

definition go_mod :: "int \<Rightarrow> int \<Rightarrow> int" where
  "go_mod a b = a - b * go_div a b"

lemma go_div_nonneg: "0 \<le> a \<Longrightarrow> 0 < b \<Longrightarrow> go_div a b = a div b"
  by (cases "a = 0") (auto simp: go_div_def)

lemma go_mod_nonneg: "0 \<le> a \<Longrightarrow> 0 < b \<Longrightarrow> go_mod a b = a mod b"
  by (simp add: go_mod_def go_div_nonneg minus_mult_div_eq_mod)

lemma go_div_neg: "a < 0 \<Longrightarrow> 0 < b \<Longrightarrow> go_div a b = - ((- a) div b)"
  by (simp add: go_div_def)

section \<open>Errors\<close>

text \<open>The sentinel errors of the modelled packages, one constructor per Go variable.\<close>

datatype sentinel =
    ErrNoTenantInContext
  | ErrPriceNotFound | ErrLedgerEntryNotFound | ErrReceiptNotFound | ErrUserNotFound
  | ErrInvalidAmount | ErrInvalidPeriod | ErrInvalidResource | ErrInvalidCurrency
  | ErrDuplicateIdempotencyKey
  | ErrInvalidPaymentMethod | ErrPaymentMethodNotFound | ErrPlanNotFound | ErrPromoCodeNotFound
  | ErrPromoCodeExhausted | ErrSubscriptionNotFound | ErrInvalidPromoCode
  | ErrInvalidPlanName | ErrInvalidPlanInterval | ErrPlanNotPushed
  | DbErrPromoCodeExhausted
  | StripeErrNotFound | StripeErrInvalidSignature
  | ErrIPPoolExhausted
  | ErrPermissionDenied | ErrTenantScopeRequired | ErrUnauthenticated
  | ErrInvalidCredentials | ErrEmailTaken | ErrUserInactive | ErrEmailUnverified
  | ErrInvalidToken | ErrRefreshReuse | ErrEmailInvalid | ErrRegistrationDisabled
  | ErrPATNameRequired | ErrInvalidScope | ErrPATNotFound
  | SecretsErrInvalidToken
  | ErrPasswordTooWeak | ErrHashMalformed | EmailErrInvalidToken
  | ErrAdminUserNotFound | StateErrInvalid
  | ErrInstanceNotFound | ErrInvalidName | ErrIPPoolNotFound | ErrIPPoolNameTaken
  | ErrIPPoolRangeNotFound | ErrIPPoolRangeExists | ErrIPPoolInactive | ErrFloatingIPNotFound
  | ErrInvalidCIDR | ErrInvalidIPFamily | ErrFloatingIPAlreadyAttached | ErrFloatingIPNotAttached
  | ErrIPPoolHasAllocations | ErrFloatingIPAlreadyAllocated
  | DnsErrProviderDisabled | ErrZoneNotFound | ErrRecordNotFound | ErrZoneAlreadyExists
  | ErrRecordAlreadyExists | ErrInvalidZoneName | ErrInvalidRecordName | ErrInvalidRecordType
  | ErrInvalidRecordContent | ErrInvalidTTL | ErrTemplateNotFound | ErrCNAMEAtApex
  | PdnsErrNotFound | PdnsErrAlreadyExists | PdnsErrConflict | PdnsErrForbidden | PdnsErrBadRequest
  | PdnsErrUnauthenticated | PdnsErrOperationFailed

text \<open>What the PostgreSQL driver reports.\<close>

datatype pg_error =
    NoRows | UniqueViolation | ForeignKeyViolation | CheckViolation | NumericOutOfRange
  | NegativeLimit | ConnLost

datatype goerr =
    Sentinel sentinel
  | Pg pg_error
  | Msg string
  | Wrap string goerr

type_synonym 'a result = "goerr + 'a"

fun root :: "goerr \<Rightarrow> goerr" where
  "root (Wrap s e) = root e"
| "root e = e"

definition errors_is :: "goerr \<Rightarrow> sentinel \<Rightarrow> bool" where
  "errors_is e s \<longleftrightarrow> root e = Sentinel s"

definition IsNoRows :: "goerr \<Rightarrow> bool" where
  "IsNoRows e \<longleftrightarrow> root e = Pg NoRows"

text \<open>
  \<open>IsUniqueViolation\<close> of the source searches the text of the error for the SQL state or the
  words the server prints for it; on the errors of this model that is the driver's code.
\<close>

definition IsUniqueViolation :: "goerr \<Rightarrow> bool" where
  "IsUniqueViolation e \<longleftrightarrow> root e = Pg UniqueViolation"

lemma errors_is_simps [simp, go_simps]:
  "errors_is (Sentinel s) t \<longleftrightarrow> s = t"
  "errors_is (Wrap m e) t \<longleftrightarrow> errors_is e t"
  "\<not> errors_is (Pg p) t"
  "\<not> errors_is (Msg m) t"
  by (auto simp: errors_is_def)

lemma IsNoRows_simps [simp, go_simps]:
  "IsNoRows (Pg p) \<longleftrightarrow> p = NoRows"
  "IsNoRows (Wrap m e) \<longleftrightarrow> IsNoRows e"
  "\<not> IsNoRows (Sentinel s)"
  "\<not> IsNoRows (Msg m)"
  by (auto simp: IsNoRows_def)

lemma IsUniqueViolation_simps [simp, go_simps]:
  "IsUniqueViolation (Pg p) \<longleftrightarrow> p = UniqueViolation"
  "IsUniqueViolation (Wrap m e) \<longleftrightarrow> IsUniqueViolation e"
  "\<not> IsUniqueViolation (Sentinel s)"
  "\<not> IsUniqueViolation (Msg m)"
  by (auto simp: IsUniqueViolation_def)

text \<open>Values of a \<^verbatim>\<open>map[string]any\<close> that the code builds for audit and event metadata.\<close>

datatype jval =
    JStr string
  | JInt int
  | JBool bool
  | JUuid uuid
  | JUuidOpt "uuid option"
  | JTime instant
  | JErr goerr
  | JStrs "string list"
  | JStrOpt "string option"

type_synonym meta = "(string \<times> jval) list"

section \<open>Strings\<close>

definition is_upper :: "char \<Rightarrow> bool" where
  "is_upper c \<longleftrightarrow> of_char c \<ge> (65::nat) \<and> of_char c \<le> (90::nat)"

definition is_lower :: "char \<Rightarrow> bool" where
  "is_lower c \<longleftrightarrow> of_char c \<ge> (97::nat) \<and> of_char c \<le> (122::nat)"

definition is_digit :: "char \<Rightarrow> bool" where
  "is_digit c \<longleftrightarrow> of_char c \<ge> (48::nat) \<and> of_char c \<le> (57::nat)"

definition is_space :: "char \<Rightarrow> bool" where
  "is_space c \<longleftrightarrow> of_char c \<in> {9, 10, 11, 12, 13, 32 :: nat}"

definition up_char :: "char \<Rightarrow> char" where
  "up_char c = (if is_lower c then char_of (of_char c - (32::nat)) else c)"

definition low_char :: "char \<Rightarrow> char" where
  "low_char c = (if is_upper c then char_of (of_char c + (32::nat)) else c)"

definition ToUpper :: "string \<Rightarrow> string" where
  "ToUpper = map up_char"

definition ToLower :: "string \<Rightarrow> string" where
  "ToLower = map low_char"

definition TrimSpace :: "string \<Rightarrow> string" where
  "TrimSpace s = rev (dropWhile is_space (rev (dropWhile is_space s)))"

definition HasPrefix :: "string \<Rightarrow> string \<Rightarrow> bool" where
  "HasPrefix s p \<longleftrightarrow> prefix p s"

definition HasSuffix :: "string \<Rightarrow> string \<Rightarrow> bool" where
  "HasSuffix s p \<longleftrightarrow> suffix p s"

definition TrimSuffix :: "string \<Rightarrow> string \<Rightarrow> string" where
  "TrimSuffix s p = (if suffix p s then take (length s - length p) s else s)"

fun Contains :: "string \<Rightarrow> string \<Rightarrow> bool" where
  "Contains [] p \<longleftrightarrow> p = []"
| "Contains (c # s) p \<longleftrightarrow> prefix p (c # s) \<or> Contains s p"

definition CutPrefix :: "string \<Rightarrow> string \<Rightarrow> string option" where
  "CutPrefix s p = (if prefix p s then Some (drop (length p) s) else None)"

text \<open>\<^verbatim>\<open>strings.Split\<close> at a separator of one character.\<close>

fun split_on :: "char \<Rightarrow> string \<Rightarrow> string list" where
  "split_on c [] = [[]]"
| "split_on c (x # xs) =
     (if x = c then [] # split_on c xs
      else (case split_on c xs of [] \<Rightarrow> [[x]] | y # ys \<Rightarrow> (x # y) # ys))"

lemma split_on_nonempty: "split_on c s \<noteq> []"
  by (cases s) (auto split: list.split)

lemma split_on_append:
  "c \<notin> set a \<Longrightarrow> split_on c (a @ c # b) = a # split_on c b"
  by (induction a) auto

lemma split_on_none: "c \<notin> set a \<Longrightarrow> split_on c a = [a]"
  by (induction a) auto

lemma up_char_not_lower: "\<not> is_lower (up_char c)"
  by (auto simp: up_char_def is_lower_def)

lemma ToUpper_no_lower: "c \<in> set (ToUpper s) \<Longrightarrow> \<not> is_lower c"
  by (auto simp: ToUpper_def up_char_not_lower)

lemma ToUpper_idem [simp]: "ToUpper (ToUpper s) = ToUpper s"
  by (simp add: ToUpper_def) (metis up_char_def up_char_not_lower)

text \<open>Decimal digits of a natural number, and the \<^verbatim>\<open>%d\<close> verb.\<close>

fun nat_digits :: "nat \<Rightarrow> string" where
  "nat_digits n =
     (if n < 10 then [char_of (48 + n)] else nat_digits (n div 10) @ [char_of (48 + n mod 10)])"

declare nat_digits.simps [simp del]

definition fmt_d :: "int \<Rightarrow> string" where
  "fmt_d i = (if i < 0 then CHR ''-'' # nat_digits (nat (- i)) else nat_digits (nat i))"

text \<open>The verb \<^verbatim>\<open>%q\<close> on printable text.\<close>

definition quoted :: "string \<Rightarrow> string" where
  "quoted s = CHR 0x22 # s @ [CHR 0x22]"

text \<open>\<^verbatim>\<open>%0<w>d\<close>: zero padding to a width that counts the sign.\<close>

definition pad_left :: "nat \<Rightarrow> string \<Rightarrow> string" where
  "pad_left w s = replicate (w - length s) (CHR ''0'') @ s"

definition fmt_0d :: "nat \<Rightarrow> int \<Rightarrow> string" where
  "fmt_0d w i =
     (if i < 0 then CHR ''-'' # pad_left (w - 1) (nat_digits (nat (- i)))
      else pad_left w (nat_digits (nat i)))"

lemma nat_digits_nonempty: "nat_digits n \<noteq> []"
  by (subst nat_digits.simps) simp

lemma length_pad_left: "length (pad_left w s) = max w (length s)"
  by (simp add: pad_left_def)

section \<open>Calendar dates\<close>

text \<open>
  The proleptic Gregorian date of a day counted from the Unix epoch, as \<^verbatim>\<open>time.Time.Format\<close>
  computes it for the layouts \<^verbatim>\<open>2006-01-02\<close> and \<^verbatim>\<open>RFC3339\<close> on times in UTC.
\<close>

definition civil_from_days :: "int \<Rightarrow> int \<times> int \<times> int" where
  "civil_from_days days =
     (let z = days + 719468;
          era = z div 146097;
          doe = z mod 146097;
          yoe = (doe - doe div 1460 + doe div 36524 - doe div 146096) div 365;
          doy = doe - (365 * yoe + yoe div 4 - yoe div 100);
          mp = (5 * doy + 2) div 153;
          d = doy - (153 * mp + 2) div 5 + 1;
          m = (if mp < 10 then mp + 3 else mp - 9)
      in (yoe + era * 400 + (if m \<le> 2 then 1 else 0), m, d))"

definition unix_seconds :: "instant \<Rightarrow> int" where
  "unix_seconds t = t div 1000000000"

definition format_date :: "instant \<Rightarrow> string" where
  "format_date t =
     (case civil_from_days (unix_seconds t div 86400) of (y, m, d) \<Rightarrow>
        fmt_0d 4 y @ ''-'' @ fmt_0d 2 m @ ''-'' @ fmt_0d 2 d)"

definition format_rfc3339 :: "instant \<Rightarrow> string" where
  "format_rfc3339 t =
     (let s = unix_seconds t mod 86400
      in format_date t @ ''T'' @ fmt_0d 2 (s div 3600) @ '':'' @ fmt_0d 2 (s div 60 mod 60) @ '':'' @
         fmt_0d 2 (s mod 60) @ ''Z'')"

lemma format_date_sample: "format_date (1709164800 * 1000000000) = ''2024-02-29''"
  by code_simp

section \<open>Stateful programs\<close>

abbreviation ret :: "'a \<Rightarrow> ('s, 'a) state" where
  "ret \<equiv> State_Monad.return"

abbreviation ok :: "'a \<Rightarrow> ('s, 'a result) state" where
  "ok x \<equiv> State_Monad.return (Inr x)"

abbreviation fail :: "goerr \<Rightarrow> ('s, 'a result) state" where
  "fail e \<equiv> State_Monad.return (Inl e)"

text \<open>A program keeps an invariant when every run from a state with it ends in one.\<close>

definition keeps :: "('s \<Rightarrow> bool) \<Rightarrow> ('s, 'a) state \<Rightarrow> bool" where
  "keeps I m \<longleftrightarrow> (\<forall>s. I s \<longrightarrow> I (snd (run_state m s)))"

lemma keepsI: "(\<And>s. I s \<Longrightarrow> I (snd (run_state m s))) \<Longrightarrow> keeps I m"
  by (simp add: keeps_def)

lemma keepsD: "keeps I m \<Longrightarrow> I s \<Longrightarrow> I (snd (run_state m s))"
  by (simp add: keeps_def)

lemma keeps_runD: "keeps I m \<Longrightarrow> I s \<Longrightarrow> run_state m s = (r, s') \<Longrightarrow> I s'"
  by (auto simp: keeps_def dest: spec [of _ s])

lemma keeps_return [keeps_rules]: "keeps I (State_Monad.return x)"
  by (simp add: keeps_def)

lemma keeps_bind [keeps_rules]:
  "keeps I m \<Longrightarrow> (\<And>x. keeps I (f x)) \<Longrightarrow> keeps I (m \<bind> f)"
  by (auto simp: keeps_def split: prod.splits)

lemma keeps_if [keeps_rules]:
  "(b \<Longrightarrow> keeps I m) \<Longrightarrow> (\<not> b \<Longrightarrow> keeps I n) \<Longrightarrow> keeps I (if b then m else n)"
  by simp

lemma keeps_case_sum [keeps_rules]:
  "(\<And>e. x = Inl e \<Longrightarrow> keeps I (f e)) \<Longrightarrow> (\<And>v. x = Inr v \<Longrightarrow> keeps I (g v)) \<Longrightarrow>
     keeps I (case x of Inl e \<Rightarrow> f e | Inr v \<Rightarrow> g v)"
  by (cases x) simp_all

lemma keeps_case_option [keeps_rules]:
  "(x = None \<Longrightarrow> keeps I m) \<Longrightarrow> (\<And>v. x = Some v \<Longrightarrow> keeps I (g v)) \<Longrightarrow>
     keeps I (case x of None \<Rightarrow> m | Some v \<Rightarrow> g v)"
  by (cases x) simp_all

lemma keeps_case_prod [keeps_rules]:
  "(\<And>a b. x = (a, b) \<Longrightarrow> keeps I (f a b)) \<Longrightarrow> keeps I (case x of (a, b) \<Rightarrow> f a b)"
  by (cases x) simp_all

lemma keeps_Let [keeps_rules]: "(\<And>y. y = x \<Longrightarrow> keeps I (f y)) \<Longrightarrow> keeps I (let y = x in f y)"
  by simp

lemma keeps_get [keeps_rules]: "keeps I State_Monad.get"
  by (simp add: keeps_def)

text \<open>
  The loop \<^verbatim>\<open>for _, x := range xs\<close> whose body may not leave the loop early, counting the
  iterations whose body reports \<^verbatim>\<open>true\<close>.
\<close>

fun for_each :: "('a \<Rightarrow> ('s, bool) state) \<Rightarrow> 'a list \<Rightarrow> ('s, nat) state" where
  "for_each f [] = State_Monad.return 0"
| "for_each f (x # xs) = do {
     b \<leftarrow> f x;
     n \<leftarrow> for_each f xs;
     State_Monad.return (if b then Suc n else n) }"

lemma keeps_for_each [keeps_rules]: "(\<And>x. keeps I (f x)) \<Longrightarrow> keeps I (for_each f xs)"
  by (induction xs) (auto intro!: keeps_rules)

end
