(* ===== verification/Encoding.thy ===== *)
theory Encoding
  imports Prelude
begin

text \<open>
  Decimal numbers and the packages \<^verbatim>\<open>encoding/hex\<close> and \<^verbatim>\<open>encoding/base64\<close> of the Go library, on byte strings, for
  webhook signatures, signed tokens, password hashes and DNS records.
\<close>

section \<open>Decimal\<close>

definition digits_value :: "string \<Rightarrow> nat" where
  "digits_value s = foldl (\<lambda>n c. 10 * n + (of_char c - 48)) 0 s"

lemma digit_char: "d < 10 \<Longrightarrow> of_char (char_of (48 + d) :: char) = (48 + d :: nat)"
  by (simp add: of_char_of)

lemma is_digit_char: "d < 10 \<Longrightarrow> is_digit (char_of (48 + d :: nat))"
  by (simp add: is_digit_def digit_char)

lemma nat_digits_digits: "list_all is_digit (nat_digits n)"
proof (induction n rule: nat_digits.induct)
  case (1 n)
  then show ?case by (subst nat_digits.simps) (simp add: is_digit_char)
qed

lemma digits_value_snoc: "digits_value (s @ [c]) = 10 * digits_value s + (of_char c - 48)"
  by (simp add: digits_value_def)

lemma digits_value_nat_digits: "digits_value (nat_digits n) = n"
proof (induction n rule: nat_digits.induct)
  case (1 n)
  show ?case
  proof (cases "n < 10")
    case True
    then show ?thesis by (subst nat_digits.simps) (simp add: digits_value_def digit_char)
  next
    case False
    then show ?thesis
      by (subst nat_digits.simps) (simp add: digits_value_snoc digit_char 1)
  qed
qed

text \<open>\<^verbatim>\<open>strconv.ParseInt(s, 10, 64)\<close>, which is also \<^verbatim>\<open>strconv.Atoi\<close>.\<close>

definition ParseInt :: "string \<Rightarrow> int option" where
  "ParseInt s =
     (let neg = HasPrefix s ''-'';
          body = (if neg \<or> HasPrefix s ''+'' then tl s else s);
          v = (if neg then - int (digits_value body) else int (digits_value body))
      in if body \<noteq> [] \<and> list_all is_digit body \<and> in_int64 v then Some v else None)"

lemma digit_head: "is_digit c \<Longrightarrow> c \<noteq> CHR ''-'' \<and> c \<noteq> CHR ''+'' \<and> c \<noteq> CHR '','' \<and> c \<noteq> CHR ''=''"
  by (auto simp: is_digit_def)

lemma ParseInt_fmt_d:
  assumes "0 \<le> ts" "ts \<le> int64_max"
  shows "ParseInt (fmt_d ts) = Some ts"
proof -
  let ?s = "nat_digits (nat ts)"
  obtain c cs where s: "?s = c # cs" using nat_digits_nonempty by (metis list.exhaust)
  then have "is_digit c" using nat_digits_digits [of "nat ts"] by simp
  then have c: "c \<noteq> CHR ''-''" "c \<noteq> CHR ''+''" using digit_head by auto
  have d: "list_all is_digit ?s" "digits_value ?s = nat ts" "in_int64 ts"
    using assms by (simp_all add: nat_digits_digits digits_value_nat_digits in_int64_def
        int64_min_def int64_max_def)
  have "ParseInt ?s = Some ts"
    using c d assms(1) unfolding s by (simp add: ParseInt_def HasPrefix_def)
  then show ?thesis using assms(1) by (simp add: fmt_d_def)
qed

section \<open>Hexadecimal\<close>

definition hex_value :: "char \<Rightarrow> nat option" where
  "hex_value c =
     (let n = of_char c :: nat
      in if 48 \<le> n \<and> n \<le> 57 then Some (n - 48)
         else if 97 \<le> n \<and> n \<le> 102 then Some (n - 87)
         else if 65 \<le> n \<and> n \<le> 70 then Some (n - 55)
         else None)"

fun hex_decode :: "string \<Rightarrow> string option" where
  "hex_decode [] = Some []"
| "hex_decode [c] = None"
| "hex_decode (a # b # cs) =
     (case (hex_value a, hex_value b) of
        (Some x, Some y) \<Rightarrow> (case hex_decode cs of
                              None \<Rightarrow> None
                            | Some ds \<Rightarrow> Some (char_of (16 * x + y) # ds))
      | _ \<Rightarrow> None)"

definition hex_digit :: "nat \<Rightarrow> char" where
  "hex_digit n = (if n < 10 then char_of (48 + n) else char_of (87 + n))"

definition hex_encode :: "string \<Rightarrow> string" where
  "hex_encode s = concat (map (\<lambda>c. [hex_digit (of_char c div 16), hex_digit (of_char c mod 16)]) s)"

lemma hex_value_digit: "n < 16 \<Longrightarrow> hex_value (hex_digit n) = Some n"
  by (auto simp: hex_value_def hex_digit_def of_char_of Let_def)

lemma nibble: "(of_char (c :: char) :: nat) div 16 < 16"
proof -
  have "(of_char c :: nat) < 256" by (rule nat_of_char_less_256)
  then show ?thesis by linarith
qed

lemma hex_roundtrip: "hex_decode (hex_encode s) = Some s"
proof (induction s)
  case (Cons c s)
  then show ?case by (simp add: hex_encode_def hex_value_digit nibble)
qed (simp add: hex_encode_def)

section \<open>Base64 without padding\<close>

text \<open>
  \<^verbatim>\<open>base64.RawURLEncoding\<close> (\<open>url\<close>) and \<^verbatim>\<open>base64.RawStdEncoding\<close>. Decoding drops line ends and does
  not look at the unused low bits of the last character, so a byte string has several encodings
  that decode to it.
\<close>

definition b64_digit :: "bool \<Rightarrow> nat \<Rightarrow> char" where
  "b64_digit url n =
     (if n < 26 then char_of (65 + n)
      else if n < 52 then char_of (71 + n)
      else if n < 62 then char_of (n - 4)
      else if n = 62 then (if url then CHR ''-'' else CHR ''+'')
      else (if url then CHR ''_'' else CHR ''/''))"

definition b64_value :: "bool \<Rightarrow> char \<Rightarrow> nat option" where
  "b64_value url c =
     (let n = of_char c :: nat
      in if 65 \<le> n \<and> n \<le> 90 then Some (n - 65)
         else if 97 \<le> n \<and> n \<le> 122 then Some (n - 71)
         else if 48 \<le> n \<and> n \<le> 57 then Some (n + 4)
         else if c = (if url then CHR ''-'' else CHR ''+'') then Some 62
         else if c = (if url then CHR ''_'' else CHR ''/'') then Some 63
         else None)"

fun b64_bytes :: "nat list \<Rightarrow> nat list" where
  "b64_bytes [] = []"
| "b64_bytes [a] = [a div 4, (a mod 4) * 16]"
| "b64_bytes [a, b] = [a div 4, (a mod 4) * 16 + b div 16, (b mod 16) * 4]"
| "b64_bytes (a # b # c # r) =
     [a div 4, (a mod 4) * 16 + b div 16, (b mod 16) * 4 + c div 64, c mod 64] @ b64_bytes r"

fun b64_quanta :: "nat list \<Rightarrow> nat list option" where
  "b64_quanta [] = Some []"
| "b64_quanta [w] = None"
| "b64_quanta [w, x] = Some [w * 4 + x div 16]"
| "b64_quanta [w, x, y] = Some [w * 4 + x div 16, (x mod 16) * 16 + y div 4]"
| "b64_quanta (w # x # y # z # r) =
     (case b64_quanta r of
        None \<Rightarrow> None
      | Some bs \<Rightarrow> Some ([w * 4 + x div 16, (x mod 16) * 16 + y div 4, (y mod 4) * 64 + z] @ bs))"

definition b64_encode :: "bool \<Rightarrow> string \<Rightarrow> string" where
  "b64_encode url s = map (b64_digit url) (b64_bytes (map of_char s))"

definition is_line_end :: "char \<Rightarrow> bool" where
  "is_line_end c \<longleftrightarrow> of_char c \<in> {10, 13 :: nat}"

definition b64_decode :: "bool \<Rightarrow> string \<Rightarrow> string option" where
  "b64_decode url s =
     (case those (map (b64_value url) (filter (\<lambda>c. \<not> is_line_end c) s)) of
        None \<Rightarrow> None
      | Some vs \<Rightarrow> map_option (map char_of) (b64_quanta vs))"

lemma b64_value_digit: "n < 64 \<Longrightarrow> b64_value url (b64_digit url n) = Some n"
  by (cases url) (auto simp: b64_value_def b64_digit_def Let_def of_char_of)

lemma b64_digit_code:
  assumes "n < 64"
  shows "(of_char (b64_digit url n) :: nat) \<in> {43, 45, 47, 95} \<union> {48..57} \<union> {65..90} \<union> {97..122}"
  using assms by (cases url) (auto simp: b64_digit_def of_char_of)

lemma b64_bytes_bound: "list_all (\<lambda>b. b < 256) bs \<Longrightarrow> list_all (\<lambda>v. v < 64) (b64_bytes bs)"
  by (induction bs rule: b64_bytes.induct) auto

lemma b64_quanta_bytes: "list_all (\<lambda>b. b < 256) bs \<Longrightarrow> b64_quanta (b64_bytes bs) = Some bs"
proof (induction bs rule: b64_bytes.induct)
  case (4 a b c r)
  have "(a mod 4 * 16 + b div 16) div 16 = a mod 4" "(a mod 4 * 16 + b div 16) mod 16 = b div 16"
    using 4 by auto
  moreover have "(b mod 16 * 4 + c div 64) div 4 = b mod 16" "(b mod 16 * 4 + c div 64) mod 4 = c div 64"
    using 4 by auto
  ultimately show ?case using 4 by simp
next
  case (3 a b)
  have "(a mod 4 * 16 + b div 16) div 16 = a mod 4" "(a mod 4 * 16 + b div 16) mod 16 = b div 16"
    using 3 by auto
  then show ?case using 3 by simp
qed auto

lemma those_map_Some: "list_all (\<lambda>x. f x = Some (g x)) xs \<Longrightarrow> those (map f xs) = Some (map g xs)"
  by (induction xs) auto

text \<open>The characters of an encoding: letters, digits and the two others of the alphabet.\<close>

definition b64_code :: "char \<Rightarrow> bool" where
  "b64_code c \<longleftrightarrow> (of_char c :: nat) \<in> {43, 45, 47, 95} \<union> {48..57} \<union> {65..90} \<union> {97..122}"

lemma bytes_of_string: "list_all (\<lambda>b. b < 256) (map of_char (s :: string) :: nat list)"
  by (simp add: list_all_iff)

lemma b64_encode_plain: "list_all b64_code (b64_encode url s)"
  using b64_bytes_bound [OF bytes_of_string [of s]]
  unfolding b64_encode_def list_all_iff b64_code_def by (auto dest!: b64_digit_code simp del: Un_iff)

lemma b64_roundtrip: "b64_decode url (b64_encode url s) = Some s"
proof -
  let ?vs = "b64_bytes (map of_char s)"
  have v: "list_all (\<lambda>v. v < 64) ?vs" by (rule b64_bytes_bound [OF bytes_of_string])
  have "filter (\<lambda>c. \<not> is_line_end c) (map (b64_digit url) ?vs) = map (b64_digit url) ?vs"
  proof (rule filter_True, rule ballI)
    fix c assume "c \<in> set (map (b64_digit url) ?vs)"
    then obtain n where "n < 64" "c = b64_digit url n" using v by (auto simp: list_all_iff)
    then show "\<not> is_line_end c" using b64_digit_code [of n url] by (auto simp: is_line_end_def)
  qed
  moreover have "those (map (b64_value url) (map (b64_digit url) ?vs)) = Some ?vs"
    using v those_map_Some [of "\<lambda>n. b64_value url (b64_digit url n)" "\<lambda>n. n" ?vs]
    by (simp add: list_all_iff b64_value_digit comp_def)
  ultimately show ?thesis
    by (simp add: b64_decode_def b64_encode_def b64_quanta_bytes bytes_of_string comp_def)
qed

lemma b64_bytes_Nil: "b64_bytes bs = [] \<longleftrightarrow> bs = []"
  by (cases bs rule: b64_bytes.cases) simp_all

lemma b64_encode_Nil [simp]: "b64_encode url s = [] \<longleftrightarrow> s = []"
  by (simp add: b64_encode_def b64_bytes_Nil)

end
