(* ===== verification/Netip.thy ===== *)
theory Netip
  imports Encoding "HOL-Library.Word"
begin

unbundle bit_operations_syntax

text \<open>
  The part of \<^verbatim>\<open>net/netip\<close> that the allocation of addresses uses: addresses and prefixes with their
  arithmetic, their text forms and the parsers of these. The zero \<^verbatim>\<open>Addr\<close> of Go is \<open>None\<close>. The text
  form of a prefix that \<^verbatim>\<open>AddIPPoolRange\<close> stores is shown to parse back to the prefix.
\<close>

section \<open>Addresses and prefixes\<close>

text \<open>An address of version 6 carries a zone, mostly the empty one.\<close>

datatype ipaddr = V4 "32 word" | V6 "128 word" string

record ipprefix =
  pf_addr :: ipaddr
  pf_bits :: nat

fun Is4 :: "ipaddr \<Rightarrow> bool" where
  "Is4 (V4 _) = True"
| "Is4 (V6 _ _) = False"

fun BitLen :: "ipaddr \<Rightarrow> nat" where
  "BitLen (V4 _) = 32"
| "BitLen (V6 _ _) = 128"

fun addr_num :: "ipaddr \<Rightarrow> nat" where
  "addr_num (V4 a) = unat a"
| "addr_num (V6 a _) = unat a"

fun hasZone :: "ipaddr \<Rightarrow> bool" where
  "hasZone (V4 _) = False"
| "hasZone (V6 _ z) = (z \<noteq> '''')"

text \<open>The next address; there is none after the last one.\<close>

fun Next :: "ipaddr \<Rightarrow> ipaddr option" where
  "Next (V4 a) = (if a + 1 = 0 then None else Some (V4 (a + 1)))"
| "Next (V6 a z) = (if a + 1 = 0 then None else Some (V6 (a + 1) z))"

definition clear_low :: "nat \<Rightarrow> 'a::len word \<Rightarrow> 'a word" where
  "clear_low n a = push_bit n (drop_bit n a)"

fun Masked :: "ipprefix \<Rightarrow> ipprefix" where
  "Masked p =
     (case pf_addr p of
        V4 a \<Rightarrow> p\<lparr>pf_addr := V4 (clear_low (32 - pf_bits p) a)\<rparr>
      | V6 a _ \<Rightarrow> p\<lparr>pf_addr := V6 (clear_low (128 - pf_bits p) a) []\<rparr>)"

text \<open>An address of the other version, or one with a zone, is in no prefix.\<close>

fun prefix_contains :: "ipprefix \<Rightarrow> ipaddr \<Rightarrow> bool" where
  "prefix_contains p (V4 b) =
     (case pf_addr p of V4 a \<Rightarrow> drop_bit (32 - pf_bits p) (a XOR b) = 0 | V6 _ _ \<Rightarrow> False)"
| "prefix_contains p (V6 b z) =
     (case pf_addr p of
        V4 _ \<Rightarrow> False
      | V6 a _ \<Rightarrow> z = '''' \<and> clear_low (128 - pf_bits p) (a XOR b) = 0)"

definition prefix_valid :: "ipprefix \<Rightarrow> bool" where
  "prefix_valid p \<longleftrightarrow> pf_bits p \<le> BitLen (pf_addr p)"

section \<open>Text forms\<close>

fun join :: "char \<Rightarrow> string list \<Rightarrow> string" where
  "join c [] = []"
| "join c [s] = s"
| "join c (s # t # ss) = s @ c # join c (t # ss)"

text \<open>The digits of a number in base \<open>b\<close>, the last \<open>n\<close> of them.\<close>

fun places :: "nat \<Rightarrow> nat \<Rightarrow> nat \<Rightarrow> nat list" where
  "places b 0 x = []"
| "places b (Suc n) x = places b n (x div b) @ [x mod b]"

definition from_places :: "nat \<Rightarrow> nat list \<Rightarrow> nat" where
  "from_places b = foldl (\<lambda>a d. a * b + d) 0"

fun hex_nat :: "nat \<Rightarrow> string" where
  "hex_nat n = (if n < 16 then [hex_digit n] else hex_nat (n div 16) @ [hex_digit (n mod 16)])"

declare hex_nat.simps [simp del]

definition text4 :: "nat \<Rightarrow> string" where
  "text4 n = join (CHR ''.'') (map nat_digits (places 256 4 n))"

text \<open>
  The longest run of at least two zero groups, the first of the longest ones; 255 stands for no
  run.
\<close>

definition zero_end :: "nat list \<Rightarrow> nat \<Rightarrow> nat" where
  "zero_end gs i = i + length (takeWhile (\<lambda>g. g = 0) (drop i gs))"

definition zero_run :: "nat list \<Rightarrow> nat \<times> nat" where
  "zero_run gs =
     foldl (\<lambda>(s, e) i. if 2 \<le> zero_end gs i - i \<and> e - s < zero_end gs i - i then (i, zero_end gs i) else (s, e))
       (255, 255) [0..<8]"

definition text_groups :: "nat list \<Rightarrow> string" where
  "text_groups gs = join (CHR '':'') (map hex_nat gs)"

definition text6 :: "nat list \<Rightarrow> string" where
  "text6 gs =
     (let (s, e) = zero_run gs
      in if s = 255 then text_groups gs
         else text_groups (take s gs) @ ''::'' @ text_groups (drop e gs))"

definition is4in6 :: "nat list \<Rightarrow> bool" where
  "is4in6 gs \<longleftrightarrow> take 6 gs = [0, 0, 0, 0, 0, 65535]"

definition zone_text :: "string \<Rightarrow> string" where
  "zone_text z = (if z = '''' then '''' else CHR ''%'' # z)"

fun addr_text :: "ipaddr \<Rightarrow> string" where
  "addr_text (V4 a) = text4 (unat a)"
| "addr_text (V6 a z) =
     (let gs = places 65536 8 (unat a)
      in (if is4in6 gs then ''::ffff:'' @ text4 (unat a mod 2 ^ 32) else text6 gs) @ zone_text z)"

definition prefix_text :: "ipprefix \<Rightarrow> string" where
  "prefix_text p = addr_text (pf_addr p) @ ''/'' @ nat_digits (pf_bits p)"

section \<open>Parsing\<close>

definition octet :: "string \<Rightarrow> nat option" where
  "octet s =
     (if s = [] \<or> \<not> list_all is_digit s \<or> (1 < length s \<and> hd s = CHR ''0'') \<or> 255 < digits_value s
      then None else Some (digits_value s))"

definition parse4 :: "string \<Rightarrow> nat option" where
  "parse4 s =
     (let fs = split_on (CHR ''.'') s
      in if length fs \<noteq> 4 \<or> list_ex (\<lambda>f. octet f = None) fs then None
         else Some (from_places 256 (map (\<lambda>f. the (octet f)) fs)))"

text \<open>A group of up to four hexadecimal digits and what follows it.\<close>

definition hex_group :: "string \<Rightarrow> (nat \<times> string) option" where
  "hex_group s =
     (let ds = takeWhile (\<lambda>c. hex_value c \<noteq> None) s
      in if ds = [] \<or> 4 < length ds then None
         else Some (from_places 16 (map (\<lambda>c. the (hex_value c)) ds), drop (length ds) s))"

text \<open>
  The loop over the groups: what is left of the text, the groups so far and the position of the
  ellipsis.
\<close>

function groups6 :: "string \<Rightarrow> nat list \<Rightarrow> nat option \<Rightarrow> (nat list \<times> nat option) option" where
  "groups6 s gs ell =
     (if 8 \<le> length gs then (if s = [] then Some (gs, ell) else None)
      else case hex_group s of
        None \<Rightarrow> None
      | Some (v, r) \<Rightarrow>
          (case r of
             [] \<Rightarrow> Some (gs @ [v], ell)
           | c # r1 \<Rightarrow>
               if c = CHR ''.'' then
                 (if (ell = None \<and> length gs \<noteq> 6) \<or> 6 < length gs then None
                  else (case parse4 s of
                          None \<Rightarrow> None
                        | Some n \<Rightarrow> Some (gs @ [n div 65536, n mod 65536], ell)))
               else if c \<noteq> CHR '':'' then None
               else (case r1 of
                       [] \<Rightarrow> None
                     | d # r2 \<Rightarrow>
                         if d = CHR '':''
                         then (if ell \<noteq> None then None
                               else if r2 = [] then Some (gs @ [v], Some (length gs + 1))
                               else groups6 r2 (gs @ [v]) (Some (length gs + 1)))
                         else groups6 r1 (gs @ [v]) ell)))"
  by pat_completeness auto
termination by (relation "measure (\<lambda>(s, gs, ell). 8 - length gs)") auto

definition expand6 :: "nat list \<Rightarrow> nat option \<Rightarrow> nat list option" where
  "expand6 gs ell =
     (if length gs < 8
      then (case ell of
              None \<Rightarrow> None
            | Some e \<Rightarrow> Some (take e gs @ replicate (8 - length gs) 0 @ drop e gs))
      else if ell \<noteq> None then None
      else Some gs)"

definition parse6 :: "string \<Rightarrow> nat option" where
  "parse6 s =
     (let start = (case CutPrefix s ''::'' of None \<Rightarrow> groups6 s [] None
                   | Some r \<Rightarrow> if r = [] then Some ([], Some 0) else groups6 r [] (Some 0))
      in case start of
           None \<Rightarrow> None
         | Some (gs, ell) \<Rightarrow> map_option (from_places 65536) (expand6 gs ell))"

definition before_zone :: "string \<Rightarrow> string" where
  "before_zone s = takeWhile (\<lambda>c. c \<noteq> CHR ''%'') s"

definition ParseAddr :: "string \<Rightarrow> ipaddr option" where
  "ParseAddr s =
     (case find (\<lambda>c. c = CHR ''.'' \<or> c = CHR '':'' \<or> c = CHR ''%'') s of
        None \<Rightarrow> None
      | Some c \<Rightarrow>
          if c = CHR ''.'' then map_option (\<lambda>n. V4 (of_nat n)) (parse4 s)
          else if c = CHR ''%'' then None
          else (let zone = drop (length (before_zone s)) s
                in if zone = ''%'' then None
                   else map_option (\<lambda>n. V6 (of_nat n) (drop 1 zone)) (parse6 (before_zone s))))"

text \<open>The part before the last slash and the part behind it.\<close>

definition cut_slash :: "string \<Rightarrow> (string \<times> string) option" where
  "cut_slash s =
     (let bits = rev (takeWhile (\<lambda>c. c \<noteq> CHR ''/'') (rev s))
      in if length bits = length s then None
         else Some (take (length s - length bits - 1) s, bits))"

definition prefix_bits :: "nat \<Rightarrow> string \<Rightarrow> nat option" where
  "prefix_bits most s =
     (if s = [] \<or> \<not> list_all is_digit s \<or> (1 < length s \<and> hd s = CHR ''0'') \<or> most < digits_value s
      then None else Some (digits_value s))"

definition ParsePrefix :: "string \<Rightarrow> ipprefix option" where
  "ParsePrefix s =
     (case cut_slash s of
        None \<Rightarrow> None
      | Some (a, b) \<Rightarrow>
          (case ParseAddr a of
             None \<Rightarrow> None
           | Some ip \<Rightarrow>
               if hasZone ip then None
               else map_option (\<lambda>n. \<lparr>pf_addr = ip, pf_bits = n\<rparr>) (prefix_bits (BitLen ip) b)))"

section \<open>Round trips\<close>

lemma from_places_snoc: "from_places b (ds @ [d]) = from_places b ds * b + d"
  by (simp add: from_places_def)

lemma length_places [simp]: "length (places b n x) = n"
  by (induction n arbitrary: x) simp_all

lemma places_less: "0 < b \<Longrightarrow> d \<in> set (places b n x) \<Longrightarrow> d < b"
  by (induction n arbitrary: x) auto

lemma from_places_places: "from_places b (places b n x) = x mod b ^ n"
  by (induction n arbitrary: x) (simp_all add: from_places_def mod_mult2_eq)

lemma split_on_join: "xs \<noteq> [] \<Longrightarrow> \<forall>x\<in>set xs. c \<notin> set x \<Longrightarrow> split_on c (join c xs) = xs"
  by (induction c xs rule: join.induct) (simp_all add: split_on_append split_on_none)

lemma set_join: "set (join c xs) \<subseteq> insert c (\<Union>(set ` set xs))"
  by (induction c xs rule: join.induct) auto

lemma nat_digits_head: "0 < n \<Longrightarrow> hd (nat_digits n) \<noteq> CHR ''0''"
proof (induction n rule: nat_digits.induct)
  case (1 n)
  have zero: "(of_char (CHR ''0'') :: nat) = 48" by simp
  show ?case
  proof (cases "n < 10")
    case True
    then have "(of_char (hd (nat_digits n)) :: nat) = 48 + n"
      by (subst nat_digits.simps) (simp add: digit_char)
    then show ?thesis using 1(2) zero by (metis add_left_cancel add_0_right less_numeral_extra(3))
  next
    case False
    then have "0 < n div 10" by simp
    then show ?thesis using 1(1) False by (subst nat_digits.simps) (simp add: nat_digits_nonempty)
  qed
qed

lemma plain_number: "\<not> (1 < length (nat_digits n) \<and> hd (nat_digits n) = CHR ''0'')"
  using nat_digits_head [of n] by (cases n) (simp_all add: nat_digits.simps [of 0])

lemma octet_digits: "n < 256 \<Longrightarrow> octet (nat_digits n) = Some n"
  using plain_number [of n] nat_digits_nonempty [of n] nat_digits_digits [of n]
  by (auto simp: octet_def digits_value_nat_digits)

lemma digit_chars: "list_all is_digit s \<Longrightarrow> \<not> is_digit c \<Longrightarrow> c \<notin> set s"
  by (auto simp: list_all_iff)

lemma not_digits [simp]:
  "\<not> is_digit (CHR ''.'')" "\<not> is_digit (CHR '':'')" "\<not> is_digit (CHR ''%'')" "\<not> is_digit (CHR ''/'')"
  by (simp_all add: is_digit_def)

lemma text4_parts: "split_on (CHR ''.'') (text4 n) = map nat_digits (places 256 4 n)"
proof -
  have "places 256 4 n \<noteq> []" by (metis length_places length_0_conv zero_neq_numeral)
  then show ?thesis
    unfolding text4_def by (intro split_on_join) (auto simp: digit_chars nat_digits_digits)
qed

lemma parse4_text4: "n < 2 ^ 32 \<Longrightarrow> parse4 (text4 n) = Some n"
proof -
  assume "n < 2 ^ 32"
  have o: "octet (nat_digits d) = Some d" if "d \<in> set (places 256 4 n)" for d
    using octet_digits places_less [OF _ that] by simp
  then have "map (\<lambda>f. the (octet f)) (map nat_digits (places 256 4 n)) = places 256 4 n"
    by (simp add: map_idI)
  moreover have "\<not> list_ex (\<lambda>f. octet f = None) (map nat_digits (places 256 4 n))"
    using o by (auto simp: list_ex_iff)
  ultimately show ?thesis
    using \<open>n < 2 ^ 32\<close> by (simp add: parse4_def text4_parts from_places_places)
qed

lemma hex_nat_chars: "c \<in> set (hex_nat n) \<Longrightarrow> hex_value c \<noteq> None"
proof (induction n rule: hex_nat.induct)
  case (1 n)
  show ?case
  proof (cases "n < 16")
    case True
    then show ?thesis using 1(2) by (simp add: hex_nat.simps [of n] hex_value_digit)
  next
    case False
    then have "hex_nat n = hex_nat (n div 16) @ [hex_digit (n mod 16)]"
      by (simp add: hex_nat.simps [of n])
    then show ?thesis using 1 False by (auto simp: hex_value_digit)
  qed
qed

lemma hex_nat_nonempty [simp]: "hex_nat n \<noteq> []"
  by (simp add: hex_nat.simps [of n])

lemma hex_nat_value: "from_places 16 (map (\<lambda>c. the (hex_value c)) (hex_nat n)) = n"
proof (induction n rule: hex_nat.induct)
  case (1 n)
  show ?case
  proof (cases "n < 16")
    case True
    then show ?thesis by (simp add: hex_nat.simps [of n] hex_value_digit from_places_def)
  next
    case False
    then have "hex_nat n = hex_nat (n div 16) @ [hex_digit (n mod 16)]"
      by (simp add: hex_nat.simps [of n])
    then show ?thesis using 1 False by (simp add: from_places_snoc hex_value_digit)
  qed
qed

lemma hex_nat_length: "n < 16 ^ Suc k \<Longrightarrow> length (hex_nat n) \<le> Suc k"
proof (induction k arbitrary: n)
  case (Suc k)
  then show ?case
    using Suc.IH [of "n div 16"] by (simp add: hex_nat.simps [of n] less_mult_imp_div_less)
qed (simp add: hex_nat.simps)

lemma hex_group_text:
  assumes "n < 65536" "r = [] \<or> hex_value (hd r) = None"
  shows "hex_group (hex_nat n @ r) = Some (n, r)"
proof -
  have "takeWhile (\<lambda>c. hex_value c \<noteq> None) (hex_nat n @ r) = hex_nat n"
    using assms(2) hex_nat_chars [of _ n]
    by (cases r) (auto simp: takeWhile_append takeWhile_eq_all_conv)
  then show ?thesis
    using assms(1) hex_nat_length [of n 3] by (simp add: hex_group_def hex_nat_value)
qed

lemma hex_punct [simp]:
  "hex_value (CHR '':'') = None" "hex_value (CHR ''.'') = None" "hex_value (CHR ''%'') = None"
  "hex_value (CHR ''/'') = None"
  by (simp_all add: hex_value_def)

declare groups6.simps [simp del]

lemma hex_group_fits:
  "n < 65536 \<Longrightarrow> hex_group (hex_nat n) = Some (n, [])"
  "n < 65536 \<Longrightarrow> hex_group (hex_nat n @ CHR '':'' # r) = Some (n, CHR '':'' # r)"
  using hex_group_text [of n "[]"] hex_group_text [of n "CHR '':'' # r"] by simp_all

lemma hex_head: "\<exists>c t. hex_nat n @ r = c # t \<and> c \<noteq> CHR '':''"
proof -
  obtain c t where c: "hex_nat n = c # t" by (cases "hex_nat n") simp_all
  then have "hex_value c \<noteq> None" using hex_nat_chars [of c n] by simp
  then have "c \<noteq> CHR '':''" by auto
  then show ?thesis using c by simp
qed

lemma text_groups_Cons:
  "text_groups [g] = hex_nat g"
  "text_groups (g # h # gs) = hex_nat g @ CHR '':'' # text_groups (h # gs)"
  by (simp_all add: text_groups_def)

lemma text_head: "\<exists>c t. text_groups (g # gs) @ r = c # t \<and> c \<noteq> CHR '':''"
  using hex_head [of g] by (cases gs) (simp_all add: text_groups_Cons)

text \<open>A step of the loop over one group that is followed by another group.\<close>

lemma groups6_step:
  assumes "n < 65536" "length gs < 8" "r = c # t" "c \<noteq> CHR '':''"
  shows "groups6 (hex_nat n @ CHR '':'' # r) gs ell = groups6 r (gs @ [n]) ell"
  using assms by (subst groups6.simps) (simp add: hex_group_fits)

lemma groups6_plain:
  assumes "hs \<noteq> []" "\<forall>h\<in>set hs. h < 65536" "length gs + length hs \<le> 8"
  shows "groups6 (text_groups hs) gs ell = Some (gs @ hs, ell)"
  using assms
proof (induction hs arbitrary: gs)
  case (Cons h hs)
  show ?case
  proof (cases hs)
    case Nil
    then show ?thesis using Cons.prems
      by (subst groups6.simps) (simp add: text_groups_Cons hex_group_fits)
  next
    case (Cons g hs')
    obtain c t where "text_groups (g # hs') = c # t" "c \<noteq> CHR '':''" using text_head [of g hs' "[]"] by auto
    then show ?thesis
      using Cons Cons.prems Cons.IH [of "gs @ [h]"] groups6_step [of h gs "text_groups (g # hs')" c t]
      by (simp add: text_groups_Cons)
  qed
qed simp

lemma groups6_ellipsis:
  assumes "hs \<noteq> []" "\<forall>h\<in>set hs. h < 65536" "length gs + length hs \<le> 8"
  shows "groups6 (text_groups hs @ CHR '':'' # CHR '':'' # r) gs None =
    (if r = [] then Some (gs @ hs, Some (length gs + length hs))
     else groups6 r (gs @ hs) (Some (length gs + length hs)))"
  using assms
proof (induction hs arbitrary: gs)
  case (Cons h hs)
  show ?case
  proof (cases hs)
    case Nil
    then show ?thesis using Cons.prems
      by (subst groups6.simps) (simp add: text_groups_Cons hex_group_fits)
  next
    case (Cons g hs')
    let ?r = "text_groups (g # hs') @ CHR '':'' # CHR '':'' # r"
    obtain c t where "?r = c # t" "c \<noteq> CHR '':''" using text_head by meson
    then have "groups6 (hex_nat h @ CHR '':'' # ?r) gs None = groups6 ?r (gs @ [h]) None"
      using Cons Cons.prems by (intro groups6_step) simp_all
    then show ?thesis
      using Cons Cons.prems Cons.IH [of "gs @ [h]"] by (simp add: text_groups_Cons)
  qed
qed simp

text \<open>What \<open>zero_run\<close> finds is a run of zero groups.\<close>

definition run_ok :: "nat list \<Rightarrow> nat \<times> nat \<Rightarrow> bool" where
  "run_ok gs r \<longleftrightarrow> r = (255, 255) \<or>
     (fst r + 2 \<le> snd r \<and> snd r \<le> length gs \<and> (\<forall>k. fst r \<le> k \<and> k < snd r \<longrightarrow> gs ! k = 0))"

lemma zero_end_run:
  assumes "i < length gs" "2 \<le> zero_end gs i - i"
  shows "run_ok gs (i, zero_end gs i)"
proof -
  let ?z = "takeWhile (\<lambda>g. g = 0) (drop i gs)"
  have "length ?z \<le> length gs - i" using length_takeWhile_le [of _ "drop i gs"] by simp
  moreover have "gs ! k = 0" if "i \<le> k" "k < zero_end gs i" for k
  proof -
    have *: "k - i < length ?z" using that by (simp add: zero_end_def)
    then have "?z ! (k - i) = gs ! k" using that assms(1) by (simp add: takeWhile_nth)
    then show ?thesis using nth_mem [OF *] set_takeWhileD by metis
  qed
  ultimately show ?thesis using assms by (auto simp: run_ok_def zero_end_def)
qed

lemma zero_run_ok:
  assumes "length gs = 8"
  shows "run_ok gs (zero_run gs)"
proof -
  let ?f = "\<lambda>(s, e) i. if 2 \<le> zero_end gs i - i \<and> e - s < zero_end gs i - i then (i, zero_end gs i) else (s, e)"
  have "run_ok gs (foldl ?f r is)" if "run_ok gs r" "\<forall>i\<in>set is. i < length gs" for r "is"
    using that
  proof (induction "is" arbitrary: r)
    case (Cons i "is")
    have "run_ok gs (?f r i)" using Cons.prems zero_end_run by (cases r) simp
    then show ?case using Cons by simp
  qed simp
  then show ?thesis using assms by (simp add: zero_run_def run_ok_def)
qed

lemma CutPrefix_head: "s = c # t \<Longrightarrow> c \<noteq> CHR '':'' \<Longrightarrow> CutPrefix s ''::'' = None"
  by (simp add: CutPrefix_def)

lemma zeros_between:
  assumes "length gs = 8" "s \<le> e" "e \<le> 8" "\<forall>k. s \<le> k \<and> k < e \<longrightarrow> gs ! k = (0::nat)"
  shows "take s gs @ replicate (e - s) 0 @ drop e gs = gs"
proof (rule nth_equalityI)
  show "length (take s gs @ replicate (e - s) 0 @ drop e gs) = length gs" using assms by simp
  show "(take s gs @ replicate (e - s) 0 @ drop e gs) ! i = gs ! i"
    if "i < length (take s gs @ replicate (e - s) 0 @ drop e gs)" for i
    using assms that by (auto simp: nth_append)
qed

lemma parse6_text6:
  assumes "length gs = 8" "\<forall>g\<in>set gs. g < 65536"
  shows "parse6 (text6 gs) = Some (from_places 65536 gs)"
proof -
  obtain s e where r: "zero_run gs = (s, e)" by (cases "zero_run gs")
  show ?thesis
  proof (cases "s = 255")
    case True
    obtain g gs' where "gs = g # gs'" using assms(1) by (cases gs) auto
    then obtain c t where "text_groups gs = c # t" "c \<noteq> CHR '':''" using text_head [of g gs' "[]"] by auto
    then have "CutPrefix (text_groups gs) ''::'' = None" using CutPrefix_head by simp
    moreover have "groups6 (text_groups gs) [] None = Some (gs, None)"
      using assms groups6_plain [of gs "[]" None] \<open>gs = g # gs'\<close> by simp
    ultimately show ?thesis using r True assms by (simp add: text6_def parse6_def expand6_def)
  next
    case False
    let ?h = "take s gs" and ?t = "drop e gs"
    have se: "s + 2 \<le> e" "e \<le> 8" "\<forall>k. s \<le> k \<and> k < e \<longrightarrow> gs ! k = 0"
      using zero_run_ok [OF assms(1)] r False assms(1) by (auto simp: run_ok_def)
    have small: "\<forall>h\<in>set ?h. h < 65536" "\<forall>h\<in>set ?t. h < 65536"
      using assms(2) by (auto dest: in_set_takeD in_set_dropD)
    have len: "length ?h = s" "length ?t = 8 - e" using se assms(1) by simp_all
    have gs: "?h @ replicate (e - s) 0 @ ?t = gs" using se zeros_between [OF assms(1)] by simp
    have body: "text6 gs = text_groups ?h @ CHR '':'' # CHR '':'' # text_groups ?t"
      using r False by (simp add: text6_def)
    have expand: "expand6 (?h @ ?t) (Some s) = Some gs" using se assms(1) gs by (simp add: expand6_def)
    have "text_groups ?t = [] \<longleftrightarrow> ?t = []"
    proof (cases "?t")
      case (Cons g t)
      then show ?thesis using text_head [of g t "[]"] by auto
    qed (simp add: text_groups_def)
    then have tail: "(if text_groups ?t = [] then Some (?h, Some s) else groups6 (text_groups ?t) ?h (Some s)) =
        Some (?h @ ?t, Some s)"
      using small len se groups6_plain [of ?t ?h "Some s"] by auto
    show ?thesis
    proof (cases "?h = []")
      case True
      then have "s = 0" using len by (metis list.size(3))
      then have "CutPrefix (text6 gs) ''::'' = Some (text_groups ?t)"
        using body by (simp add: CutPrefix_def text_groups_def)
      then show ?thesis using tail expand True \<open>s = 0\<close> assms(1) by (auto simp: parse6_def split: if_splits)
    next
      case False
      then obtain c t where "text6 gs = c # t" "c \<noteq> CHR '':''"
        using text_head [of "hd ?h" "tl ?h"] body by (metis list.collapse)
      then have "CutPrefix (text6 gs) ''::'' = None" using CutPrefix_head by simp
      moreover have "groups6 (text6 gs) [] None = Some (?h @ ?t, Some s)"
        using groups6_ellipsis [OF False small(1), of "[]" "text_groups ?t"] tail len se body by auto
      ultimately show ?thesis using expand by (simp add: parse6_def)
    qed
  qed
qed

lemma nat_digits_length: "n < 10 ^ Suc k \<Longrightarrow> length (nat_digits n) \<le> Suc k"
proof (induction k arbitrary: n)
  case (Suc k)
  then show ?case
    using Suc.IH [of "n div 10"] by (simp add: nat_digits.simps [of n] less_mult_imp_div_less)
qed (simp add: nat_digits.simps)

lemma digit_is_hex: "is_digit c \<Longrightarrow> hex_value c \<noteq> None"
  by (simp add: is_digit_def hex_value_def Let_def)

lemma text4_head: "\<exists>d t. text4 n = nat_digits d @ CHR ''.'' # t \<and> d < 256"
proof -
  have "length (places 256 4 n) = 4" by simp
  then obtain a xs where a: "places 256 4 n = a # xs" "length xs = 3"
    by (cases "places 256 4 n") simp_all
  then obtain b ds where p: "places 256 4 n = a # b # ds" by (cases xs) simp_all
  then have "a < 256" using places_less [of 256 a 4 n] by simp
  then show ?thesis using p by (auto simp: text4_def)
qed

lemma parse6_mapped:
  assumes "n < 2 ^ 32"
  shows "parse6 (''::ffff:'' @ text4 n) = Some (65535 * 2 ^ 32 + n)"
proof -
  obtain d t where t: "text4 n = nat_digits d @ CHR ''.'' # t" "d < 256" using text4_head by meson
  have digits: "list_all is_digit (nat_digits d)" by (rule nat_digits_digits)
  have "takeWhile (\<lambda>c. hex_value c \<noteq> None) (text4 n) = nat_digits d"
    using digits t by (auto simp: takeWhile_append list_all_iff digit_is_hex takeWhile_eq_all_conv)
  then obtain v where v: "hex_group (text4 n) = Some (v, CHR ''.'' # t)"
    using t nat_digits_length [of d 2] nat_digits_nonempty [of d] by (simp add: hex_group_def)
  obtain c u where c: "text4 n = c # u" "is_digit c"
    using t digits nat_digits_nonempty [of d] by (cases "nat_digits d") simp_all
  then have "c \<noteq> CHR '':''" by auto
  moreover have "hex_nat 65535 = ''ffff''" by (simp add: hex_nat.simps hex_digit_def char_of_def bit_Suc_0_iff)
  ultimately have "groups6 (''ffff:'' @ text4 n) [] (Some 0) = groups6 (text4 n) [65535] (Some 0)"
    using groups6_step [of 65535 "[]" "text4 n" c u "Some 0"] c by simp
  also have "\<dots> = Some ([65535, n div 65536, n mod 65536], Some 0)"
    using v parse4_text4 [OF assms] by (subst groups6.simps) simp
  finally have g: "groups6 (''ffff:'' @ text4 n) [] (Some 0) =
    Some ([65535, n div 65536, n mod 65536], Some 0)" .
  have "replicate 5 (0::nat) = [0, 0, 0, 0, 0]" by (simp add: numeral_eq_Suc)
  then show ?thesis using g
    by (simp add: parse6_def CutPrefix_def expand6_def from_places_def)
qed

lemma mapped_number:
  assumes "is4in6 (places 65536 8 n)" "n < 2 ^ 128"
  shows "65535 * 2 ^ 32 + n mod 2 ^ 32 = n"
proof -
  have "places 65536 (Suc (Suc 6)) n =
      places 65536 6 (n div 65536 div 65536) @ [n div 65536 mod 65536, n mod 65536]"
    by (simp only: places.simps append_assoc append.simps)
  moreover have "Suc (Suc 6) = 8" by simp
  ultimately have "places 65536 8 n =
      places 65536 6 (n div 65536 div 65536) @ [n div 65536 mod 65536, n mod 65536]" by metis
  then have "places 65536 6 (n div 65536 div 65536) = [0, 0, 0, 0, 0, 65535]"
    using assms(1) by (simp add: is4in6_def)
  then have "n div 65536 div 65536 mod 65536 ^ 6 = 65535"
    using from_places_places [of 65536 6 "n div 65536 div 65536"] by (simp add: from_places_def)
  moreover have "n div 65536 div 65536 < 65536 ^ 6"
    using assms(2) by (simp add: div_mult2_eq [symmetric] less_mult_imp_div_less)
  ultimately have "n div 2 ^ 32 = 65535" by (simp add: div_mult2_eq [symmetric])
  then show ?thesis using div_mult_mod_eq [of n "2 ^ 32"] by simp
qed

lemma unat_below: "unat (a :: 'a::len word) < 2 ^ LENGTH('a)"
  by (rule unsigned_less)

lemma text_chars:
  "CHR ''%'' \<notin> set (text4 n)" "CHR ''/'' \<notin> set (text4 n)" "CHR '':'' \<notin> set (text4 n)"
  "CHR ''%'' \<notin> set (text_groups gs)" "CHR ''/'' \<notin> set (text_groups gs)"
proof -
  have "set (text4 n) \<subseteq> insert (CHR ''.'') {c. is_digit c}"
    using set_join [of "CHR ''.''" "map nat_digits (places 256 4 n)"] nat_digits_digits
    by (fastforce simp: text4_def list_all_iff)
  then show "CHR ''%'' \<notin> set (text4 n)" "CHR ''/'' \<notin> set (text4 n)" "CHR '':'' \<notin> set (text4 n)"
    by (auto dest: subsetD)
  have "set (text_groups gs) \<subseteq> insert (CHR '':'') {c. hex_value c \<noteq> None}"
    using set_join [of "CHR '':''" "map hex_nat gs"] hex_nat_chars
    by (fastforce simp: text_groups_def)
  then show "CHR ''%'' \<notin> set (text_groups gs)" "CHR ''/'' \<notin> set (text_groups gs)"
    by (auto dest: subsetD)
qed

lemma text6_chars: "CHR ''%'' \<notin> set (text6 gs)" "CHR ''/'' \<notin> set (text6 gs)"
  by (auto simp: text6_def text_chars split: prod.splits if_splits)

lemma find_mem: "x \<in> set xs \<Longrightarrow> P x \<Longrightarrow> \<exists>y. find P xs = Some y"
  by (induction xs) auto

text \<open>The first special character decides between the versions.\<close>

lemma first_special4: "find (\<lambda>c. c = CHR ''.'' \<or> c = CHR '':'' \<or> c = CHR ''%'') (text4 n) = Some (CHR ''.'')"
proof -
  obtain d t where t: "text4 n = nat_digits d @ CHR ''.'' # t" using text4_head by meson
  have "find (\<lambda>c. c = CHR ''.'' \<or> c = CHR '':'' \<or> c = CHR ''%'') (s @ CHR ''.'' # t) = Some (CHR ''.'')"
    if "list_all is_digit s" for s
    using that by (induction s) auto
  then show ?thesis using t nat_digits_digits by metis
qed

lemma first_special_hex:
  assumes "\<forall>c\<in>set s. hex_value c \<noteq> None"
  shows "find (\<lambda>c. c = CHR ''.'' \<or> c = CHR '':'' \<or> c = CHR ''%'') (s @ CHR '':'' # t) = Some (CHR '':'')"
  using assms by (induction s) auto

lemma first_special6:
  assumes "length gs = 8"
  shows "find (\<lambda>c. c = CHR ''.'' \<or> c = CHR '':'' \<or> c = CHR ''%'') (text6 gs) = Some (CHR '':'')"
proof -
  have "\<exists>s t. text6 gs = s @ CHR '':'' # t \<and> (\<forall>c\<in>set s. hex_value c \<noteq> None)"
  proof -
    obtain s e where r: "zero_run gs = (s, e)" by (cases "zero_run gs")
    have split: "\<exists>p q. text_groups hs @ CHR '':'' # t = p @ CHR '':'' # q \<and> (\<forall>c\<in>set p. hex_value c \<noteq> None)"
      for hs t
    proof (cases hs)
      case Nil
      then have "text_groups hs @ CHR '':'' # t = [] @ CHR '':'' # t" by (simp add: text_groups_def)
      then show ?thesis by force
    next
      case (Cons g hs')
      have "text_groups hs @ CHR '':'' # t =
          hex_nat g @ CHR '':'' # (case hs' of [] \<Rightarrow> t | h # hs'' \<Rightarrow> text_groups hs' @ CHR '':'' # t)"
        using Cons by (cases hs') (simp_all add: text_groups_Cons)
      then show ?thesis using hex_nat_chars by metis
    qed
    obtain g h gs' where "gs = g # h # gs'"
    proof -
      obtain g xs where g: "gs = g # xs" "length xs = 7" using assms by (cases gs) simp_all
      moreover obtain h ys where "xs = h # ys" using g(2) by (cases xs) simp_all
      ultimately show ?thesis using that by simp
    qed
    then have "text_groups gs = text_groups [g] @ CHR '':'' # text_groups (h # gs')"
      by (simp add: text_groups_Cons)
    then show ?thesis using r split by (auto simp: text6_def)
  qed
  then show ?thesis using first_special_hex by metis
qed

lemma before_zone_plain: "CHR ''%'' \<notin> set s \<Longrightarrow> before_zone s = s"
  unfolding before_zone_def takeWhile_eq_all_conv by auto

lemma parse_addr_text: "\<not> hasZone a \<Longrightarrow> ParseAddr (addr_text a) = Some a"
proof (cases a)
  case (V4 x)
  then show ?thesis
    using parse4_text4 [of "unat x"] unat_below [of x] by (simp add: ParseAddr_def first_special4)
next
  case (V6 x z)
  assume "\<not> hasZone a"
  then have z: "z = ''''" using V6 by simp
  let ?n = "unat x" and ?gs = "places 65536 8 (unat x)"
  have n: "?n < 2 ^ 128" using unat_below [of x] by simp
  show ?thesis
  proof (cases "is4in6 ?gs")
    case True
    have m: "?n mod 2 ^ 32 < 2 ^ 32" by simp
    have "parse6 (''::ffff:'' @ text4 (?n mod 2 ^ 32)) = Some ?n"
      using parse6_mapped [OF m] mapped_number [OF True n] by metis
    moreover have "before_zone (''::ffff:'' @ text4 (?n mod 2 ^ 32)) = ''::ffff:'' @ text4 (?n mod 2 ^ 32)"
      by (rule before_zone_plain) (simp add: text_chars)
    ultimately show ?thesis using V6 z True
      by (simp add: ParseAddr_def zone_text_def)
  next
    case False
    have "parse6 (text6 ?gs) = Some ?n"
      using parse6_text6 [of ?gs] places_less [of 65536 _ 8 ?n] n by (simp add: from_places_places)
    moreover have "before_zone (text6 ?gs) = text6 ?gs" by (rule before_zone_plain) (simp add: text6_chars)
    ultimately show ?thesis using V6 z False
      by (simp add: ParseAddr_def zone_text_def first_special6)
  qed
qed

lemma addr_text_slash: "\<not> hasZone a \<Longrightarrow> CHR ''/'' \<notin> set (addr_text a)"
  by (cases a) (auto simp: text_chars text6_chars zone_text_def Let_def)

lemma cut_slash_text: "CHR ''/'' \<notin> set b \<Longrightarrow> cut_slash (a @ CHR ''/'' # b) = Some (a, b)"
proof -
  assume b: "CHR ''/'' \<notin> set b"
  have "takeWhile (\<lambda>c. c \<noteq> CHR ''/'') (rev b @ CHR ''/'' # rev a) = rev b"
    using b by (subst takeWhile_append2) auto
  then show ?thesis by (simp add: cut_slash_def)
qed

lemma prefix_bits_digits: "n \<le> most \<Longrightarrow> prefix_bits most (nat_digits n) = Some n"
  using plain_number [of n] nat_digits_nonempty [of n] nat_digits_digits [of n]
  by (auto simp: prefix_bits_def digits_value_nat_digits)

lemma parse_prefix_text:
  "\<not> hasZone (pf_addr p) \<Longrightarrow> prefix_valid p \<Longrightarrow> ParsePrefix (prefix_text p) = Some p"
  using cut_slash_text [of "nat_digits (pf_bits p)" "addr_text (pf_addr p)"]
    digit_chars [OF nat_digits_digits, of "CHR ''/''" "pf_bits p"]
  by (simp add: ParsePrefix_def prefix_text_def parse_addr_text prefix_bits_digits prefix_valid_def)

end
