(* ===== verification/PdnsTypes.thy ===== *)
theory PdnsTypes
  imports Prelude
begin

text \<open>
  The requests of the driver of the PowerDNS daemon and the answers of the daemon
  (\<^verbatim>\<open>providers/powerdns/types.go\<close>), as values: a request is a constructor per endpoint with the
  decoded body, an answer a status with the decoded body or the message of the error envelope. The
  JSON text between the two is not modelled.
\<close>

record pdns_record =
  rd_content :: string
  rd_disabled :: bool
  rd_setptr :: bool

record rrset =
  rs_name :: string
  rs_type :: string
  rs_ttl :: int
  rs_change :: string
  rs_records :: "pdns_record list"

record pdns_zone =
  pz_id :: string
  pz_name :: string
  pz_type :: string
  pz_kind :: string
  pz_serial :: int
  pz_rrsets :: "rrset list"
  pz_soa_edit_api :: string
  pz_soa_edit :: string
  pz_account :: string
  pz_dnssec :: bool

record zone_create =
  zc_name :: string
  zc_kind :: string
  zc_soa_edit_api :: string
  zc_soa_edit :: string
  zc_account :: string
  zc_nameservers :: "string list"
  zc_rrsets :: "rrset list"

record zone_update =
  zu_soa_edit_api :: string
  zu_soa_edit :: string
  zu_account :: string
  zu_kind :: string
  zu_masters :: "string list"
  zu_rrsets :: "rrset list"

record crypto_key =
  ck_id :: int
  ck_keytype :: string
  ck_active :: bool
  ck_dnssec :: bool
  ck_bits :: int
  ck_algorithm :: string
  ck_content :: string
  ck_published :: bool

record key_create =
  kc_keytype :: string
  kc_bits :: int
  kc_algorithm :: string
  kc_active :: bool
  kc_published :: bool

record zone_meta =
  zm_kind :: string
  zm_values :: "string list"

record server_info =
  si_daemon_type :: string
  si_version :: string

datatype pdns_req =
    GetServer
  | GetZones
  | PostZone zone_create
  | GetZoneReq string bool
  | PatchZone string zone_update
  | DeleteZoneReq string
  | GetKeys string
  | PostKey string key_create
  | GetKeyReq string int bool
  | PutKey string int crypto_key
  | DeleteKeyReq string int
  | GetMetas string
  | GetMeta string string
  | PutMeta string zone_meta
  | DeleteMeta string string

datatype pdns_body =
    NoBody
  | BodyServer server_info
  | BodyZone pdns_zone
  | BodyZones "pdns_zone list"
  | BodyKey crypto_key
  | BodyKeys "crypto_key list"
  | BodyMeta zone_meta
  | BodyMetas "zone_meta list"

text \<open>What comes back: nothing (with what the client reports), or a status, an error message and a body.\<close>

datatype pdns_answer =
    Cancelled
  | DeadlineExceeded
  | Unreachable string
  | Reply nat string pdns_body

text \<open>
  A daemon, as it shows in the requests: what it was sent before and carried out decides whether it
  carries out the next request and what it answers.
\<close>

type_synonym pdns_daemon = "pdns_req list \<Rightarrow> pdns_req \<Rightarrow> bool \<times> pdns_answer"

end
