(* ===== verification/Store.thy ===== *)
theory Store
  imports Netip PdnsTypes
begin

text \<open>
  The state every service shares: the PostgreSQL database (one list of rows per table, in
  insertion order), the server clock and the supply of generated UUIDs, the events handed to
  the event bus, and the schedule of what happens at the next database calls.

  A call of a repository is atomic (one SQL statement). Before each call the schedule may say
  that the call fails (\<open>Fault\<close>: the connection is lost, nothing is changed) or that other
  transactions commit first (\<open>Other g\<close>: the database becomes \<open>g d\<close>); an empty schedule means
  that the calls of this request run undisturbed. Time passes only through the schedule. Beside the
  database the world holds the requests that the DNS daemon has carried out.

  The constraints of the migrations are part of the operations on the tables: a violated
  unique index, check or foreign key is an error value and leaves the database unchanged.
\<close>

section \<open>Rows\<close>

record price_row =
  pr_id :: uuid
  pr_tenant :: uuid
  pr_resource :: string
  pr_unit :: string
  pr_cents :: int
  pr_currency :: string
  pr_from :: instant
  pr_to :: "instant option"

record ledger_row =
  le_id :: uuid
  le_tenant :: uuid
  le_user :: uuid
  le_type :: string
  le_amount :: int
  le_currency :: string
  le_source :: string
  le_reference :: string
  le_key :: "string option"
  le_meta :: meta
  le_created :: instant

record balance_row =
  ub_tenant :: uuid
  ub_user :: uuid
  ub_cents :: int
  ub_currency :: string
  ub_last_entry :: instant
  ub_updated :: instant

record usage_row =
  ue_id :: uuid
  ue_tenant :: uuid
  ue_user :: uuid
  ue_resource :: string
  ue_qty :: int
  ue_unit :: string
  ue_started :: instant
  ue_ended :: instant
  ue_key :: "string option"

record receipt_row =
  rc_id :: uuid
  rc_tenant :: uuid
  rc_user :: uuid
  rc_start :: instant
  rc_end :: instant
  rc_total :: int
  rc_currency :: string
  rc_pdf :: string
  rc_status :: string

record plan_row =
  pl_id :: uuid
  pl_tenant :: uuid
  pl_slug :: string
  pl_name :: string
  pl_description :: string
  pl_interval :: string
  pl_price :: int
  pl_currency :: string
  pl_quota :: int
  pl_discount :: int
  pl_product :: "string option"
  pl_price_id :: "string option"
  pl_active :: bool
  pl_sort :: int

record pm_row =
  pm_id :: uuid
  pm_tenant :: uuid
  pm_user :: uuid
  pm_stripe :: string
  pm_customer :: string
  pm_brand :: string
  pm_last4 :: string
  pm_fingerprint :: string
  pm_exp_month :: "int option"
  pm_exp_year :: "int option"
  pm_default :: bool
  pm_active :: bool
  pm_meta :: meta
  pm_created :: instant

record sub_row =
  sb_id :: uuid
  sb_tenant :: uuid
  sb_user :: uuid
  sb_plan :: uuid
  sb_stripe :: string
  sb_interval :: string
  sb_price :: int
  sb_currency :: string
  sb_quota :: int
  sb_discount :: int
  sb_status :: string
  sb_period_end :: "instant option"
  sb_canceled :: "instant option"
  sb_meta :: meta
  sb_created :: instant

record promo_row =
  pc_id :: uuid
  pc_tenant :: uuid
  pc_code :: string
  pc_note :: string
  pc_credit :: int
  pc_currency :: string
  pc_plan :: "uuid option"
  pc_max_uses :: "int option"
  pc_used :: int
  pc_expires :: "instant option"
  pc_revoked :: "instant option"
  pc_created_by :: uuid
  pc_created :: instant

record webhook_row =
  wh_id :: uuid
  wh_tenant :: "uuid option"
  wh_stripe :: string
  wh_type :: string
  wh_api :: "string option"
  wh_payload :: string
  wh_status :: string
  wh_ledger :: "uuid list"
  wh_error :: "goerr option"
  wh_received :: instant
  wh_processed :: "instant option"

record audit_row =
  au_id :: uuid
  au_tenant :: "uuid option"
  au_actor :: "uuid option"
  au_actor_type :: string
  au_action :: string
  au_resource_type :: string
  au_resource :: "uuid option"
  au_status :: string
  au_meta :: meta

record outcome_row =
  oc_id :: uuid
  oc_audit :: uuid
  oc_status :: string
  oc_details :: meta

record user_row =
  us_id :: uuid
  us_email :: string
  us_hash :: "string option"
  us_active :: bool
  us_name :: "string option"
  us_locale :: string
  us_verified :: "instant option"
  us_deleted :: "instant option"
  us_created :: instant

record tenant_row =
  tn_id :: uuid
  tn_slug :: string
  tn_name :: string
  tn_active :: bool
  tn_deleted :: "instant option"
  tn_created :: instant

record role_row =
  rl_id :: uuid
  rl_slug :: string
  rl_name :: string
  rl_desc :: string
  rl_system :: bool
  rl_deleted :: "instant option"
  rl_created :: instant

record perm_row =
  pe_id :: uuid
  pe_slug :: string
  pe_desc :: string

record member_row =
  mb_id :: uuid
  mb_tenant :: uuid
  mb_user :: uuid
  mb_role :: "uuid option"
  mb_deleted :: "instant option"
  mb_created :: instant

record session_row =
  ss_id :: uuid
  ss_user :: uuid
  ss_hash :: string
  ss_expires :: instant
  ss_revoked :: "instant option"
  ss_created :: instant
  ss_seen :: instant
  ss_agent :: "string option"
  ss_ip :: "string option"

record refresh_row =
  rt_id :: uuid
  rt_user :: uuid
  rt_session :: uuid
  rt_family :: uuid
  rt_hash :: string
  rt_expires :: instant
  rt_revoked :: "instant option"
  rt_agent :: "string option"
  rt_ip :: "string option"

record pat_row =
  pt_id :: uuid
  pt_user :: uuid
  pt_name :: string
  pt_hash :: string
  pt_expires :: "instant option"
  pt_revoked :: "instant option"
  pt_used :: "instant option"
  pt_scopes :: "string list"
  pt_created :: instant

record email_token_row =
  et_id :: uuid
  et_user :: uuid
  et_hash :: string
  et_kind :: string
  et_new_email :: "string option"
  et_expires :: instant
  et_used :: "instant option"

text \<open>
  Of a compute instance only what the floating addresses need; the excluded addresses of a range
  are the texts of the JSON array.
\<close>

record instance_row =
  in_id :: uuid
  in_tenant :: uuid
  in_name :: string
  in_deleted :: "instant option"

record ippool_row =
  ip_id :: uuid
  ip_name :: string
  ip_desc :: "string option"
  ip_zone :: "uuid option"
  ip_active :: bool
  ip_created :: instant
  ip_deleted :: "instant option"

record iprange_row =
  ir_id :: uuid
  ir_pool :: uuid
  ir_cidr :: string
  ir_family :: int
  ir_excluded :: "string list"
  ir_created :: instant

record floating_row =
  fl_id :: uuid
  fl_tenant :: uuid
  fl_pool :: uuid
  fl_address :: ipaddr
  fl_family :: int
  fl_ptr :: "string option"
  fl_instance :: "uuid option"
  fl_network :: "string option"
  fl_push :: string
  fl_created :: instant
  fl_deleted :: "instant option"

text \<open>The zones and records of the tenants.\<close>

record zone_row =
  zn_id :: uuid
  zn_tenant :: uuid
  zn_canonical :: string
  zn_name :: string
  zn_kind :: string
  zn_dnssec :: bool
  zn_axfr :: bool
  zn_desc :: string
  zn_created :: instant

record dnsrec_row =
  dr_id :: uuid
  dr_tenant :: uuid
  dr_zone :: uuid
  dr_name :: string
  dr_type :: string
  dr_content :: string
  dr_ttl :: int
  dr_prio :: int
  dr_disabled :: bool
  dr_created :: instant

section \<open>The database and the world\<close>

record db =
  db_now :: instant
  db_next :: uuid
  db_tenants :: "uuid list"
  db_users :: "uuid list"
  prices :: "price_row list"
  ledger :: "ledger_row list"
  balances :: "balance_row list"
  usages :: "usage_row list"
  receipts :: "receipt_row list"
  plans :: "plan_row list"
  pms :: "pm_row list"
  subs :: "sub_row list"
  promos :: "promo_row list"
  webhooks :: "webhook_row list"
  audits :: "audit_row list"
  outcomes :: "outcome_row list"
  user_rows :: "user_row list"
  tenant_rows :: "tenant_row list"
  roles :: "role_row list"
  permissions :: "perm_row list"
  grants :: "(uuid \<times> uuid) list"
  memberships :: "member_row list"
  sessions :: "session_row list"
  refresh_tokens :: "refresh_row list"
  pats :: "pat_row list"
  email_tokens :: "email_token_row list"
  instances :: "instance_row list"
  ip_pools :: "ippool_row list"
  ip_ranges :: "iprange_row list"
  floating_ips :: "floating_row list"
  dns_zones :: "zone_row list"
  dns_records :: "dnsrec_row list"

text \<open>A database whose tables are empty, but for the identifiers of tenants and users.\<close>

definition empty_db :: "instant \<Rightarrow> uuid list \<Rightarrow> uuid list \<Rightarrow> db" where
  "empty_db now ts us =
     \<lparr>db_now = now, db_next = 1, db_tenants = ts, db_users = us, prices = [], ledger = [],
      balances = [], usages = [], receipts = [], plans = [], pms = [], subs = [], promos = [],
      webhooks = [], audits = [], outcomes = [], user_rows = [], tenant_rows = [],
      roles = [], permissions = [], grants = [], memberships = [], sessions = [],
      refresh_tokens = [], pats = [], email_tokens = [], instances = [],
      ip_pools = [], ip_ranges = [], floating_ips = [], dns_zones = [], dns_records = []\<rparr>"

datatype disturb = Quiet | Fault | Other "db \<Rightarrow> db"

record event =
  ev_topic :: string
  ev_tenant :: uuid
  ev_actor_type :: string
  ev_actor :: uuid
  ev_resource :: uuid
  ev_meta :: "meta option"
  ev_at :: instant

record world =
  wdb :: db
  sched :: "disturb list"
  events :: "event list"
  pdns :: "pdns_req list"

type_synonym 'a prog = "(world, 'a) state"
type_synonym ctx = "uuid option"

text \<open>A call whose result the code drops.\<close>

definition drop_result :: "'a result prog \<Rightarrow> unit prog" where
  "drop_result m = do { _ \<leftarrow> m; ret () }"

text \<open>The tenant a context carries (\<^verbatim>\<open>database/tenant.go\<close>).\<close>

definition WithTenant :: "ctx \<Rightarrow> uuid \<Rightarrow> ctx" where
  "WithTenant ctx t = Some t"

definition TenantFromContext :: "ctx \<Rightarrow> uuid result" where
  "TenantFromContext ctx =
     (case ctx of None \<Rightarrow> Inl (Sentinel ErrNoTenantInContext) | Some t \<Rightarrow> Inr t)"

section \<open>Database calls\<close>

definition db_call :: "(db \<Rightarrow> 'a result \<times> db) \<Rightarrow> 'a result prog" where
  "db_call f = State (\<lambda>w.
     case sched w of
       [] \<Rightarrow> (case f (wdb w) of (r, d) \<Rightarrow> (r, w\<lparr>wdb := d\<rparr>))
     | Quiet # ds \<Rightarrow> (case f (wdb w) of (r, d) \<Rightarrow> (r, w\<lparr>wdb := d, sched := ds\<rparr>))
     | Fault # ds \<Rightarrow> (Inl (Pg ConnLost), w\<lparr>sched := ds\<rparr>)
     | Other g # ds \<Rightarrow> (case f (g (wdb w)) of (r, d) \<Rightarrow> (r, w\<lparr>wdb := d, sched := ds\<rparr>)))"

definition time_now :: "instant prog" where
  "time_now = State (\<lambda>w. (db_now (wdb w), w))"

text \<open>
  A tenant-scoped call: the repository resolves the tenant from the context before it touches
  the database.
\<close>

definition tenant_call :: "ctx \<Rightarrow> (uuid \<Rightarrow> db \<Rightarrow> 'a result \<times> db) \<Rightarrow> 'a result prog" where
  "tenant_call ctx f =
     (case TenantFromContext ctx of Inl e \<Rightarrow> fail e | Inr t \<Rightarrow> db_call (f t))"

text \<open>Reads that leave the database unchanged.\<close>

definition sql_one :: "('r \<Rightarrow> bool) \<Rightarrow> 'r list \<Rightarrow> 'r result" where
  "sql_one P rows = (case find P rows of None \<Rightarrow> Inl (Pg NoRows) | Some r \<Rightarrow> Inr r)"

definition sql_page :: "int \<Rightarrow> int \<Rightarrow> 'r list \<Rightarrow> 'r list result" where
  "sql_page limit offset rows =
     (if limit < 0 \<or> offset < 0 then Inl (Pg NegativeLimit)
      else Inr (take (nat limit) (drop (nat offset) rows)))"

definition sql_bigint :: "int \<Rightarrow> int result" where
  "sql_bigint x = (if in_int64 x then Inr x else Inl (Pg NumericOutOfRange))"

definition sql_count :: "('r \<Rightarrow> bool) \<Rightarrow> 'r list \<Rightarrow> int" where
  "sql_count P rows = int (length (filter P rows))"

definition sql_update :: "('r \<Rightarrow> bool) \<Rightarrow> ('r \<Rightarrow> 'r) \<Rightarrow> 'r list \<Rightarrow> 'r list" where
  "sql_update P f rows = map (\<lambda>r. if P r then f r else r) rows"

definition read_db :: "(db \<Rightarrow> 'a result) \<Rightarrow> db \<Rightarrow> 'a result \<times> db" where
  "read_db f d = (f d, d)"

lemma find_SomeD: "find P xs = Some x \<Longrightarrow> x \<in> set xs \<and> P x"
  by (auto simp: find_Some_iff)

lemma sql_one_InrD: "sql_one P rows = Inr r \<Longrightarrow> P r \<and> r \<in> set rows"
  by (auto simp: sql_one_def split: option.splits dest!: find_SomeD)

subsection \<open>Evaluation and invariants of a call\<close>

lemma run_db_call_quiet [simp]:
  "sched w = [] \<Longrightarrow> run_state (db_call f) w = (case f (wdb w) of (r, d) \<Rightarrow> (r, w\<lparr>wdb := d\<rparr>))"
  by (simp add: db_call_def)

lemma run_db_call_fault [simp]:
  "sched w = Fault # ds \<Longrightarrow> run_state (db_call f) w = (Inl (Pg ConnLost), w\<lparr>sched := ds\<rparr>)"
  by (simp add: db_call_def)

lemma run_db_call_other [simp]:
  "sched w = Other g # ds \<Longrightarrow>
     run_state (db_call f) w = (case f (g (wdb w)) of (r, d) \<Rightarrow> (r, w\<lparr>wdb := d, sched := ds\<rparr>))"
  by (simp add: db_call_def)

lemma run_db_call_calm [simp]:
  "sched w = Quiet # ds \<Longrightarrow>
     run_state (db_call f) w = (case f (wdb w) of (r, d) \<Rightarrow> (r, w\<lparr>wdb := d, sched := ds\<rparr>))"
  by (simp add: db_call_def)

lemma run_time_now [simp]: "run_state time_now w = (db_now (wdb w), w)"
  by (simp add: time_now_def)

lemma TenantFromContext_simps [simp]:
  "TenantFromContext (Some t) = Inr t"
  "TenantFromContext None = Inl (Sentinel ErrNoTenantInContext)"
  by (simp_all add: TenantFromContext_def)

lemma tenant_call_Some [simp]: "tenant_call (Some t) f = db_call (f t)"
  by (simp add: tenant_call_def)

lemma tenant_call_None [simp]: "tenant_call None f = fail (Sentinel ErrNoTenantInContext)"
  by (simp add: tenant_call_def)

lemma read_db_simp [simp]: "read_db f d = (f d, d)"
  by (simp add: read_db_def)

text \<open>
  An invariant of the database that every transaction of the schedule honours. It is kept by
  a call whose statement keeps it, whatever the schedule.
\<close>

definition honors :: "(db \<Rightarrow> bool) \<Rightarrow> disturb list \<Rightarrow> bool" where
  "honors J ds \<longleftrightarrow> (\<forall>g. Other g \<in> set ds \<longrightarrow> (\<forall>d. J d \<longrightarrow> J (g d)))"

definition stable :: "(db \<Rightarrow> bool) \<Rightarrow> world \<Rightarrow> bool" where
  "stable J w \<longleftrightarrow> J (wdb w) \<and> honors J (sched w)"

lemma honors_simps [simp]:
  "honors J []"
  "honors J (Quiet # ds) \<longleftrightarrow> honors J ds"
  "honors J (Fault # ds) \<longleftrightarrow> honors J ds"
  "honors J (Other g # ds) \<longleftrightarrow> (\<forall>d. J d \<longrightarrow> J (g d)) \<and> honors J ds"
  by (auto simp: honors_def)

lemma stable_db: "stable J w \<Longrightarrow> J (wdb w)"
  by (simp add: stable_def)

lemma stable_quietI: "J (wdb w) \<Longrightarrow> sched w = [] \<Longrightarrow> stable J w"
  by (simp add: stable_def)

definition preserved :: "(db \<Rightarrow> bool) \<Rightarrow> (db \<Rightarrow> 'a \<times> db) \<Rightarrow> bool" where
  "preserved J f \<longleftrightarrow> (\<forall>d. J d \<longrightarrow> J (snd (f d)))"

lemma preservedI: "(\<And>d. J d \<Longrightarrow> J (snd (f d))) \<Longrightarrow> preserved J f"
  by (simp add: preserved_def)

lemma preserved_read [keeps_rules]: "preserved J (read_db f)"
  by (simp add: preserved_def)

lemma stable_call:
  assumes "preserved J f" "J d" "honors J ds" "f d = (r, d')"
  shows "stable J (w\<lparr>wdb := d', sched := ds\<rparr>)"
  using assms(1) [unfolded preserved_def, rule_format, OF assms(2)] assms(3,4)
  by (simp add: stable_def)

lemma keeps_db_call [keeps_rules]:
  assumes "preserved J f"
  shows "keeps (stable J) (db_call f)"
proof (rule keepsI)
  fix w
  assume w: "stable J w"
  then have J: "J (wdb w)" and ds: "honors J (sched w)"
    by (simp_all add: stable_def)
  show "stable J (snd (run_state (db_call f) w))"
  proof (cases "sched w")
    case Nil
    obtain r d' where f: "f (wdb w) = (r, d')" by (cases "f (wdb w)")
    have "stable J (w\<lparr>wdb := d', sched := []\<rparr>)"
      by (rule stable_call [OF assms J _ f]) simp
    moreover have "w\<lparr>wdb := d', sched := []\<rparr> = w\<lparr>wdb := d'\<rparr>"
      using Nil by (cases w) simp
    ultimately show ?thesis using Nil f by simp
  next
    case (Cons x ds')
    show ?thesis
    proof (cases x)
      case Quiet
      obtain r d' where f: "f (wdb w) = (r, d')" by (cases "f (wdb w)")
      have "stable J (w\<lparr>wdb := d', sched := ds'\<rparr>)"
        by (rule stable_call [OF assms J _ f]) (use ds Cons Quiet in simp)
      then show ?thesis using Cons Quiet f by simp
    next
      case Fault
      then show ?thesis using w Cons by (simp add: stable_def)
    next
      case (Other g)
      obtain r d' where f: "f (g (wdb w)) = (r, d')" by (cases "f (g (wdb w))")
      have "stable J (w\<lparr>wdb := d', sched := ds'\<rparr>)"
        by (rule stable_call [OF assms _ _ f]) (use J ds Cons Other in auto)
      then show ?thesis using Cons Other f by simp
    qed
  qed
qed

lemma keeps_tenant_call [keeps_rules]:
  "(\<And>t. ctx = Some t \<Longrightarrow> preserved J (f t)) \<Longrightarrow> keeps (stable J) (tenant_call ctx f)"
  by (cases ctx) (auto intro!: keeps_rules)

lemma keeps_time_now [keeps_rules]: "keeps I time_now"
  by (simp add: keeps_def)

section \<open>The event bus and the audit trail\<close>

text \<open>
  What a service does with its bus is to hand it an event and drop the answer; with no bus the
  event is dropped. Listeners run in other components.
\<close>

definition bus_emit :: "bool \<Rightarrow> event \<Rightarrow> unit prog" where
  "bus_emit has_bus e =
     State (\<lambda>w. ((), if has_bus then w\<lparr>events := events w @ [e]\<rparr> else w))"

lemma run_bus_emit [simp]:
  "run_state (bus_emit b e) w = ((), if b then w\<lparr>events := events w @ [e]\<rparr> else w)"
  by (simp add: bus_emit_def)

lemma keeps_bus_emit [keeps_rules]: "keeps (stable J) (bus_emit b e)"
  by (simp add: keeps_def stable_def)

text \<open>
  \<^verbatim>\<open>auth/audit/audit.go\<close>: the emitter that writes \<^verbatim>\<open>audit_log\<close>, whose tenant and actor are
  foreign keys, and the one that appends to \<^verbatim>\<open>audit_log_outcomes\<close>.
\<close>

record audit_event =
  ae_tenant :: "uuid option"
  ae_actor :: "uuid option"
  ae_actor_type :: string
  ae_action :: string
  ae_resource_type :: string
  ae_resource :: "uuid option"
  ae_status :: string
  ae_meta :: "meta option"

definition opt_ref :: "uuid option \<Rightarrow> uuid list \<Rightarrow> bool" where
  "opt_ref r ids \<longleftrightarrow> (case r of None \<Rightarrow> True | Some i \<Rightarrow> i \<in> set ids)"

definition sql_create_audit :: "audit_row \<Rightarrow> db \<Rightarrow> audit_row result \<times> db" where
  "sql_create_audit r d =
     (if opt_ref (au_tenant r) (db_tenants d) \<and> opt_ref (au_actor r) (db_users d)
      then let row = r\<lparr>au_id := db_next d\<rparr>
           in (Inr row, d\<lparr>db_next := Suc (db_next d), audits := audits d @ [row]\<rparr>)
      else (Inl (Pg ForeignKeyViolation), d))"

definition sql_create_outcome :: "uuid \<Rightarrow> string \<Rightarrow> meta \<Rightarrow> db \<Rightarrow> unit result \<times> db" where
  "sql_create_outcome aid status details d =
     (if aid \<in> au_id ` set (audits d)
      then (Inr (), d\<lparr>db_next := Suc (db_next d),
              outcomes := outcomes d @
                [\<lparr>oc_id = db_next d, oc_audit = aid, oc_status = status, oc_details = details\<rparr>]\<rparr>)
      else (Inl (Pg ForeignKeyViolation), d))"

definition DBEmitter_Emit :: "audit_event \<Rightarrow> uuid result prog" where
  "DBEmitter_Emit ev = do {
     let status = (if ae_status ev = '''' then ''success'' else ae_status ev);
     let actorType = (if ae_actor_type ev = '''' then ''user'' else ae_actor_type ev);
     let m = (case ae_meta ev of None \<Rightarrow> [] | Some m \<Rightarrow> m);
     r \<leftarrow> db_call (sql_create_audit
            \<lparr>au_id = uuid_nil, au_tenant = ae_tenant ev, au_actor = ae_actor ev,
             au_actor_type = actorType, au_action = ae_action ev,
             au_resource_type = ae_resource_type ev, au_resource = ae_resource ev,
             au_status = status, au_meta = m\<rparr>);
     case r of
       Inl e \<Rightarrow> fail (Wrap (''audit: emit '' @ ae_action ev) e)
     | Inr row \<Rightarrow> ok (au_id row) }"

definition DBEmitter_MarkOutcome :: "uuid \<Rightarrow> string \<Rightarrow> meta option \<Rightarrow> unit result prog" where
  "DBEmitter_MarkOutcome aid st details = do {
     let status = (if st = '''' then ''success'' else st);
     let m = (case details of None \<Rightarrow> [] | Some m \<Rightarrow> m);
     r \<leftarrow> db_call (sql_create_outcome aid status m);
     case r of
       Inl e \<Rightarrow> fail (Wrap ''audit: mark outcome'' e)
     | Inr _ \<Rightarrow> ok () }"

text \<open>
  An invariant that does not look at the audit tables or the UUID supply is kept by auditing:
  that is what the components state of theirs.
\<close>

definition ignores_audit :: "(db \<Rightarrow> bool) \<Rightarrow> bool" where
  "ignores_audit J \<longleftrightarrow>
     (\<forall>d n a oc. J d \<longrightarrow> db_next d \<le> n \<longrightarrow> J (d\<lparr>db_next := n, audits := a, outcomes := oc\<rparr>))"

lemma ignores_auditD:
  fixes d :: db and a :: "audit_row list" and oc :: "outcome_row list"
  assumes "ignores_audit J" "J d"
  shows "J (d\<lparr>db_next := Suc (db_next d), audits := a\<rparr>)"
    and "J (d\<lparr>db_next := Suc (db_next d), outcomes := oc\<rparr>)"
proof -
  have *: "J (d\<lparr>db_next := Suc (db_next d), audits := x, outcomes := y\<rparr>)" for x y
    using assms by (simp add: ignores_audit_def)
  have "d\<lparr>db_next := Suc (db_next d), audits := a, outcomes := outcomes d\<rparr>
      = d\<lparr>db_next := Suc (db_next d), audits := a\<rparr>"
    by (cases d) simp
  with * [where x = a and y = "outcomes d"] show "J (d\<lparr>db_next := Suc (db_next d), audits := a\<rparr>)"
    by simp
  have "d\<lparr>db_next := Suc (db_next d), audits := audits d, outcomes := oc\<rparr>
      = d\<lparr>db_next := Suc (db_next d), outcomes := oc\<rparr>"
    by (cases d) simp
  with * [where x = "audits d" and y = oc] show "J (d\<lparr>db_next := Suc (db_next d), outcomes := oc\<rparr>)"
    by simp
qed

lemma preserved_sql_create_audit [keeps_rules]:
  "ignores_audit J \<Longrightarrow> preserved J (sql_create_audit r)"
  by (auto simp: preserved_def sql_create_audit_def Let_def ignores_auditD)

lemma preserved_sql_create_outcome [keeps_rules]:
  "ignores_audit J \<Longrightarrow> preserved J (sql_create_outcome aid st m)"
  by (auto simp: preserved_def sql_create_outcome_def ignores_auditD)

lemma keeps_DBEmitter_Emit [keeps_rules]:
  "ignores_audit J \<Longrightarrow> keeps (stable J) (DBEmitter_Emit ev)"
  unfolding DBEmitter_Emit_def by (intro keeps_rules)

lemma keeps_DBEmitter_MarkOutcome [keeps_rules]:
  "ignores_audit J \<Longrightarrow> keeps (stable J) (DBEmitter_MarkOutcome aid st m)"
  unfolding DBEmitter_MarkOutcome_def by (intro keeps_rules)

text \<open>The emitter a service is given; the one without a database drops its events.\<close>

datatype emitter = NoopEmitter | DBEmitter

definition audit_Emit :: "emitter \<Rightarrow> audit_event \<Rightarrow> uuid result prog" where
  "audit_Emit e ev = (case e of NoopEmitter \<Rightarrow> ok uuid_nil | DBEmitter \<Rightarrow> DBEmitter_Emit ev)"

definition audit_MarkOutcome :: "emitter \<Rightarrow> uuid \<Rightarrow> string \<Rightarrow> meta option \<Rightarrow> unit result prog" where
  "audit_MarkOutcome e aid status details =
     (case e of NoopEmitter \<Rightarrow> ok () | DBEmitter \<Rightarrow> DBEmitter_MarkOutcome aid status details)"

lemma keeps_audit_Emit [keeps_rules]: "ignores_audit J \<Longrightarrow> keeps (stable J) (audit_Emit e ev)"
  unfolding audit_Emit_def by (cases e) (auto intro!: keeps_rules)

lemma keeps_audit_MarkOutcome [keeps_rules]:
  "ignores_audit J \<Longrightarrow> keeps (stable J) (audit_MarkOutcome e aid st m)"
  unfolding audit_MarkOutcome_def by (cases e) (auto intro!: keeps_rules)

text \<open>Without disturbances the audit trail changes nothing but its own tables.\<close>

lemma audit_tables_same:
  fixes d :: db
  shows "d\<lparr>db_next := db_next d, audits := audits d\<rparr> = d" "d\<lparr>db_next := db_next d, outcomes := outcomes d\<rparr> = d"
  by (cases d, simp)+

lemma run_audit_quiet:
  assumes "sched w = []"
  shows "\<exists>r n a. run_state (DBEmitter_Emit ev) w = (r, w\<lparr>wdb := (wdb w)\<lparr>db_next := n, audits := a\<rparr>\<rparr>) \<and>
    db_next (wdb w) \<le> n \<and> n \<le> Suc (db_next (wdb w))"
proof (cases "opt_ref (ae_tenant ev) (db_tenants (wdb w)) \<and> opt_ref (ae_actor ev) (db_users (wdb w))")
  case True
  then show ?thesis using assms
    by (auto simp: DBEmitter_Emit_def sql_create_audit_def Let_def intro: le_SucI)
next
  case False
  then obtain r where "run_state (DBEmitter_Emit ev) w = (r, w)"
    using assms by (simp add: DBEmitter_Emit_def sql_create_audit_def Let_def)
  moreover have "w\<lparr>wdb := (wdb w)\<lparr>db_next := db_next (wdb w), audits := audits (wdb w)\<rparr>\<rparr> = w"
    by (simp only: audit_tables_same) simp
  ultimately show ?thesis by (metis le_Suc_eq order_refl)
qed

lemma run_outcome_quiet:
  assumes "sched w = []"
  shows "\<exists>r n oc. run_state (DBEmitter_MarkOutcome i st m) w = (r, w\<lparr>wdb := (wdb w)\<lparr>db_next := n, outcomes := oc\<rparr>\<rparr>)"
proof (cases "i \<in> au_id ` set (audits (wdb w))")
  case True
  then show ?thesis using assms
    by (auto simp: DBEmitter_MarkOutcome_def sql_create_outcome_def Let_def)
next
  case False
  then obtain r where "run_state (DBEmitter_MarkOutcome i st m) w = (r, w)"
    using assms by (simp add: DBEmitter_MarkOutcome_def sql_create_outcome_def Let_def)
  moreover have "w\<lparr>wdb := (wdb w)\<lparr>db_next := db_next (wdb w), outcomes := outcomes (wdb w)\<rparr>\<rparr> = w"
    by (simp only: audit_tables_same) simp
  ultimately show ?thesis by metis
qed

lemma run_emitter_quiet:
  assumes "sched w = []"
  shows "\<exists>r n a. run_state (audit_Emit e ev) w = (r, w\<lparr>wdb := (wdb w)\<lparr>db_next := n, audits := a\<rparr>\<rparr>)"
proof (cases e)
  case NoopEmitter
  have same: "w = w\<lparr>wdb := (wdb w)\<lparr>db_next := db_next (wdb w), audits := audits (wdb w)\<rparr>\<rparr>"
    by (simp only: audit_tables_same) simp
  show ?thesis unfolding audit_Emit_def NoopEmitter by simp (intro exI, rule same)
next
  case DBEmitter
  then show ?thesis using run_audit_quiet [OF assms, of ev] by (auto simp: audit_Emit_def)
qed

lemma run_marker_quiet:
  assumes "sched w = []"
  shows "\<exists>r n oc. run_state (audit_MarkOutcome e i st m) w = (r, w\<lparr>wdb := (wdb w)\<lparr>db_next := n, outcomes := oc\<rparr>\<rparr>)"
proof (cases e)
  case NoopEmitter
  have same: "w = w\<lparr>wdb := (wdb w)\<lparr>db_next := db_next (wdb w), outcomes := outcomes (wdb w)\<rparr>\<rparr>"
    by (simp only: audit_tables_same) simp
  show ?thesis unfolding audit_MarkOutcome_def NoopEmitter by simp (intro exI, rule same)
next
  case DBEmitter
  then show ?thesis using run_outcome_quiet [OF assms, of i st m] by (auto simp: audit_MarkOutcome_def)
qed

end
