(* ===== verification/BillingRepo.thy ===== *)
theory BillingRepo
  imports Store
begin

text \<open>
  \<^verbatim>\<open>database/billing_repo.go\<close>: the repositories of the price catalog, the append-only ledger,
  the balance cache, the usage stream and the receipts. Each repository method resolves the
  tenant, fills in the defaults and runs the SQL statement of \<^verbatim>\<open>database/queries/billing.sql\<close>
  on the tables, with the constraints of migrations 0035 and 0036.

  Rows of equal sort key are returned in insertion order, where SQL leaves the order open.
\<close>

definition orUSD :: "string \<Rightarrow> string" where
  "orUSD c = (if c = '''' then ''USD'' else c)"

definition fk_ok :: "uuid \<Rightarrow> uuid \<Rightarrow> db \<Rightarrow> bool" where
  "fk_ok t u d \<longleftrightarrow> t \<in> set (db_tenants d) \<and> u \<in> set (db_users d)"

section \<open>Prices\<close>

record price_params =
  pp_resource :: string
  pp_unit :: string
  pp_cents :: int
  pp_currency :: string
  pp_from :: instant
  pp_to :: "instant option"

definition is_current_price :: "uuid \<Rightarrow> string \<Rightarrow> string \<Rightarrow> price_row \<Rightarrow> bool" where
  "is_current_price t res u r \<longleftrightarrow>
     pr_tenant r = t \<and> pr_resource r = res \<and> pr_unit r = u \<and> pr_to r = None"

definition sql_create_price :: "price_params \<Rightarrow> uuid \<Rightarrow> db \<Rightarrow> price_row result \<times> db" where
  "sql_create_price p t d =
     (if t \<notin> set (db_tenants d) then (Inl (Pg ForeignKeyViolation), d)
      else if pp_to p = None \<and>
              list_ex (is_current_price t (pp_resource p) (pp_unit p)) (prices d)
      then (Inl (Pg UniqueViolation), d)
      else let row = \<lparr>pr_id = db_next d, pr_tenant = t, pr_resource = pp_resource p,
                      pr_unit = pp_unit p, pr_cents = pp_cents p, pr_currency = pp_currency p,
                      pr_from = pp_from p, pr_to = pp_to p\<rparr>
           in (Inr row, d\<lparr>db_next := Suc (db_next d), prices := prices d @ [row]\<rparr>))"

definition sql_expire_price :: "string \<Rightarrow> string \<Rightarrow> instant \<Rightarrow> uuid \<Rightarrow> db \<Rightarrow> unit result \<times> db" where
  "sql_expire_price res u stop t d =
     (Inr (), d\<lparr>prices :=
        sql_update (is_current_price t res u) (\<lambda>r. r\<lparr>pr_to := Some stop\<rparr>) (prices d)\<rparr>)"

definition Prices_Create :: "ctx \<Rightarrow> price_params \<Rightarrow> price_row result prog" where
  "Prices_Create ctx arg =
     (case TenantFromContext ctx of
        Inl e \<Rightarrow> fail e
      | Inr t \<Rightarrow> do {
          now \<leftarrow> time_now;
          let from = (if pp_from arg = zero_time then now else pp_from arg);
          db_call (sql_create_price
            (arg\<lparr>pp_currency := orUSD (pp_currency arg), pp_from := from\<rparr>) t) })"

definition Prices_Get :: "ctx \<Rightarrow> uuid \<Rightarrow> price_row result prog" where
  "Prices_Get ctx i = tenant_call ctx (\<lambda>t. read_db (\<lambda>d.
     sql_one (\<lambda>r. pr_tenant r = t \<and> pr_id r = i) (prices d)))"

definition Prices_GetCurrentPrice :: "ctx \<Rightarrow> string \<Rightarrow> string \<Rightarrow> price_row result prog" where
  "Prices_GetCurrentPrice ctx res u = tenant_call ctx (\<lambda>t. read_db (\<lambda>d.
     sql_one (is_current_price t res u) (prices d)))"

definition price_covers :: "uuid \<Rightarrow> string \<Rightarrow> string \<Rightarrow> instant \<Rightarrow> price_row \<Rightarrow> bool" where
  "price_covers t res u ts r \<longleftrightarrow>
     pr_tenant r = t \<and> pr_resource r = res \<and> pr_unit r = u \<and> pr_from r \<le> ts \<and>
     (case pr_to r of None \<Rightarrow> True | Some stop \<Rightarrow> ts \<le> stop)"

definition price_at :: "uuid \<Rightarrow> string \<Rightarrow> string \<Rightarrow> instant \<Rightarrow> price_row list \<Rightarrow> price_row result" where
  "price_at t res u ts rows =
     (case sort_key (\<lambda>r. - pr_from r) (filter (price_covers t res u ts) rows) of
        [] \<Rightarrow> Inl (Pg NoRows)
      | r # _ \<Rightarrow> Inr r)"

definition Prices_GetPriceAt :: "ctx \<Rightarrow> string \<Rightarrow> string \<Rightarrow> instant \<Rightarrow> price_row result prog" where
  "Prices_GetPriceAt ctx res u ts = tenant_call ctx (\<lambda>t. read_db (\<lambda>d.
     price_at t res u ts (prices d)))"

definition Prices_Count :: "ctx \<Rightarrow> int result prog" where
  "Prices_Count ctx = tenant_call ctx (\<lambda>t. read_db (\<lambda>d.
     Inr (sql_count (\<lambda>r. pr_tenant r = t) (prices d))))"

text \<open>
  \<^verbatim>\<open>SetCurrentPrice\<close>: two statements, each its own transaction unless the caller opened one.
\<close>

definition Prices_SetCurrentPrice ::
  "ctx \<Rightarrow> string \<Rightarrow> string \<Rightarrow> int \<Rightarrow> string \<Rightarrow> instant \<Rightarrow> price_row result prog" where
  "Prices_SetCurrentPrice ctx res u cents currency eff =
     (case TenantFromContext ctx of
        Inl e \<Rightarrow> fail e
      | Inr t \<Rightarrow> do {
          now \<leftarrow> time_now;
          let from = (if eff = zero_time then now else eff);
          r \<leftarrow> db_call (sql_expire_price res u from t);
          case r of
            Inl e \<Rightarrow> fail (Wrap ''billing.prices: expire current'' e)
          | Inr _ \<Rightarrow> db_call (sql_create_price
              \<lparr>pp_resource = res, pp_unit = u, pp_cents = cents, pp_currency = orUSD currency,
               pp_from = from, pp_to = None\<rparr> t) })"

section \<open>Ledger\<close>

record ledger_params =
  lp_user :: uuid
  lp_type :: string
  lp_amount :: int
  lp_currency :: string
  lp_source :: string
  lp_reference :: string
  lp_key :: "string option"
  lp_meta :: "meta option"

text \<open>
  The unique index on the idempotency key is over the whole table, not per tenant.
\<close>

definition key_taken :: "string option \<Rightarrow> ledger_row list \<Rightarrow> bool" where
  "key_taken k rows \<longleftrightarrow> (case k of None \<Rightarrow> False | Some _ \<Rightarrow> list_ex (\<lambda>r. le_key r = k) rows)"

definition sql_create_ledger :: "ledger_params \<Rightarrow> uuid \<Rightarrow> db \<Rightarrow> ledger_row result \<times> db" where
  "sql_create_ledger p t d =
     (if lp_amount p < 0 then (Inl (Pg CheckViolation), d)
      else if key_taken (lp_key p) (ledger d) then (Inl (Pg UniqueViolation), d)
      else if \<not> fk_ok t (lp_user p) d then (Inl (Pg ForeignKeyViolation), d)
      else let row = \<lparr>le_id = db_next d, le_tenant = t, le_user = lp_user p, le_type = lp_type p,
                      le_amount = lp_amount p, le_currency = lp_currency p,
                      le_source = lp_source p, le_reference = lp_reference p,
                      le_key = lp_key p,
                      le_meta = (case lp_meta p of None \<Rightarrow> [] | Some m \<Rightarrow> m),
                      le_created = db_now d\<rparr>
           in (Inr row, d\<lparr>db_next := Suc (db_next d), ledger := ledger d @ [row]\<rparr>))"

definition Ledger_Create :: "ctx \<Rightarrow> ledger_params \<Rightarrow> ledger_row result prog" where
  "Ledger_Create ctx arg =
     tenant_call ctx (sql_create_ledger (arg\<lparr>lp_currency := orUSD (lp_currency arg)\<rparr>))"

definition Ledger_Get :: "ctx \<Rightarrow> uuid \<Rightarrow> ledger_row result prog" where
  "Ledger_Get ctx i = tenant_call ctx (\<lambda>t. read_db (\<lambda>d.
     sql_one (\<lambda>r. le_tenant r = t \<and> le_id r = i) (ledger d)))"

definition Ledger_GetByIdempotencyKey :: "ctx \<Rightarrow> string \<Rightarrow> ledger_row result prog" where
  "Ledger_GetByIdempotencyKey ctx k = tenant_call ctx (\<lambda>t. read_db (\<lambda>d.
     sql_one (\<lambda>r. le_tenant r = t \<and> le_key r = Some k) (ledger d)))"

definition mine :: "uuid \<Rightarrow> uuid \<Rightarrow> ledger_row \<Rightarrow> bool" where
  "mine t u r \<longleftrightarrow> le_tenant r = t \<and> le_user r = u"

definition Ledger_ListForUser :: "ctx \<Rightarrow> uuid \<Rightarrow> int \<Rightarrow> int \<Rightarrow> ledger_row list result prog" where
  "Ledger_ListForUser ctx u limit offset = tenant_call ctx (\<lambda>t. read_db (\<lambda>d.
     sql_page limit offset (sort_key (\<lambda>r. - le_created r) (filter (mine t u) (ledger d)))))"

definition Ledger_CountForUser :: "ctx \<Rightarrow> uuid \<Rightarrow> int result prog" where
  "Ledger_CountForUser ctx u = tenant_call ctx (\<lambda>t. read_db (\<lambda>d.
     Inr (sql_count (mine t u) (ledger d))))"

definition sum_type :: "string \<Rightarrow> ledger_row list \<Rightarrow> int" where
  "sum_type ty rows = sum_list (map (\<lambda>r. if le_type r = ty then le_amount r else 0) rows)"

definition balance_of :: "uuid \<Rightarrow> uuid \<Rightarrow> ledger_row list \<Rightarrow> int" where
  "balance_of t u rows =
     sum_type ''credit'' (filter (mine t u) rows) - sum_type ''debit'' (filter (mine t u) rows)"

definition Ledger_SumForUser :: "ctx \<Rightarrow> uuid \<Rightarrow> int result prog" where
  "Ledger_SumForUser ctx u = tenant_call ctx (\<lambda>t. read_db (\<lambda>d.
     sql_bigint (balance_of t u (ledger d))))"

definition Ledger_SumForUserUpTo :: "ctx \<Rightarrow> uuid \<Rightarrow> instant \<Rightarrow> int result prog" where
  "Ledger_SumForUserUpTo ctx u ts = tenant_call ctx (\<lambda>t. read_db (\<lambda>d.
     sql_bigint (balance_of t u (filter (\<lambda>r. le_created r \<le> ts) (ledger d)))))"

definition Ledger_SumChargesInPeriod ::
  "ctx \<Rightarrow> uuid \<Rightarrow> instant \<Rightarrow> instant \<Rightarrow> int result prog" where
  "Ledger_SumChargesInPeriod ctx u from to = tenant_call ctx (\<lambda>t. read_db (\<lambda>d.
     sql_bigint (sum_type ''debit''
       (filter (\<lambda>r. mine t u r \<and> from \<le> le_created r \<and> le_created r \<le> to) (ledger d)))))"

section \<open>Balances\<close>

definition is_balance :: "uuid \<Rightarrow> uuid \<Rightarrow> balance_row \<Rightarrow> bool" where
  "is_balance t u b \<longleftrightarrow> ub_tenant b = t \<and> ub_user b = u"

definition sql_upsert_balance ::
  "uuid \<Rightarrow> int \<Rightarrow> string \<Rightarrow> instant \<Rightarrow> uuid \<Rightarrow> db \<Rightarrow> unit result \<times> db" where
  "sql_upsert_balance u cents currency entry_at t d =
     (if \<not> fk_ok t u d then (Inl (Pg ForeignKeyViolation), d)
      else let row = \<lparr>ub_tenant = t, ub_user = u, ub_cents = cents, ub_currency = currency,
                      ub_last_entry = entry_at, ub_updated = db_now d\<rparr>
           in (Inr (), d\<lparr>balances :=
                if list_ex (is_balance t u) (balances d)
                then sql_update (is_balance t u) (\<lambda>_. row) (balances d)
                else balances d @ [row]\<rparr>))"

definition Balances_Get :: "ctx \<Rightarrow> uuid \<Rightarrow> balance_row result prog" where
  "Balances_Get ctx u = tenant_call ctx (\<lambda>t. read_db (\<lambda>d.
     sql_one (is_balance t u) (balances d)))"

definition Balances_Upsert ::
  "ctx \<Rightarrow> uuid \<Rightarrow> int \<Rightarrow> string \<Rightarrow> instant \<Rightarrow> unit result prog" where
  "Balances_Upsert ctx u cents currency entry_at =
     tenant_call ctx (sql_upsert_balance u cents (orUSD currency) entry_at)"

definition zero_balances :: "uuid \<Rightarrow> instant \<Rightarrow> balance_row list \<Rightarrow> balance_row list" where
  "zero_balances t cutoff rows =
     sort_key ub_last_entry
       (filter (\<lambda>b. ub_tenant b = t \<and> ub_cents b \<le> 0 \<and> ub_last_entry b \<le> cutoff) rows)"

definition Balances_ListZeroBalances :: "ctx \<Rightarrow> instant \<Rightarrow> balance_row list result prog" where
  "Balances_ListZeroBalances ctx cutoff = tenant_call ctx (\<lambda>t. read_db (\<lambda>d.
     Inr (zero_balances t cutoff (balances d))))"

section \<open>Usage\<close>

record usage_params =
  up_user :: uuid
  up_resource :: string
  up_qty :: int
  up_unit :: string
  up_started :: instant
  up_ended :: instant
  up_key :: "string option"

definition usage_key_taken :: "string option \<Rightarrow> usage_row list \<Rightarrow> bool" where
  "usage_key_taken k rows \<longleftrightarrow> (case k of None \<Rightarrow> False | Some _ \<Rightarrow> list_ex (\<lambda>r. ue_key r = k) rows)"

definition sql_create_usage :: "usage_params \<Rightarrow> uuid \<Rightarrow> db \<Rightarrow> usage_row result \<times> db" where
  "sql_create_usage p t d =
     (if up_qty p < 0 then (Inl (Pg CheckViolation), d)
      else if usage_key_taken (up_key p) (usages d) then (Inl (Pg UniqueViolation), d)
      else if \<not> fk_ok t (up_user p) d then (Inl (Pg ForeignKeyViolation), d)
      else let row = \<lparr>ue_id = db_next d, ue_tenant = t, ue_user = up_user p,
                      ue_resource = up_resource p, ue_qty = up_qty p, ue_unit = up_unit p,
                      ue_started = up_started p, ue_ended = up_ended p, ue_key = up_key p\<rparr>
           in (Inr row, d\<lparr>db_next := Suc (db_next d), usages := usages d @ [row]\<rparr>))"

definition Usage_Create :: "ctx \<Rightarrow> usage_params \<Rightarrow> usage_row result prog" where
  "Usage_Create ctx arg = tenant_call ctx (sql_create_usage arg)"

definition Usage_GetByIdempotencyKey :: "ctx \<Rightarrow> string \<Rightarrow> usage_row result prog" where
  "Usage_GetByIdempotencyKey ctx k = tenant_call ctx (\<lambda>t. read_db (\<lambda>d.
     sql_one (\<lambda>r. ue_tenant r = t \<and> ue_key r = Some k) (usages d)))"

record usage_filter =
  uf_resource :: "string option"
  uf_from :: "instant option"
  uf_to :: "instant option"

definition usage_matches :: "uuid \<Rightarrow> uuid \<Rightarrow> usage_filter \<Rightarrow> usage_row \<Rightarrow> bool" where
  "usage_matches t u f r \<longleftrightarrow>
     ue_tenant r = t \<and> ue_user r = u \<and>
     (case uf_resource f of None \<Rightarrow> True | Some x \<Rightarrow> ue_resource r = x) \<and>
     (case uf_from f of None \<Rightarrow> True | Some ts \<Rightarrow> ts \<le> ue_started r) \<and>
     (case uf_to f of None \<Rightarrow> True | Some ts \<Rightarrow> ue_started r \<le> ts)"

definition Usage_ListForUser ::
  "ctx \<Rightarrow> uuid \<Rightarrow> usage_filter \<Rightarrow> int \<Rightarrow> int \<Rightarrow> usage_row list result prog" where
  "Usage_ListForUser ctx u f limit offset = tenant_call ctx (\<lambda>t. read_db (\<lambda>d.
     sql_page limit offset
       (sort_key (\<lambda>r. - ue_started r) (filter (usage_matches t u f) (usages d)))))"

definition Usage_CountForUser :: "ctx \<Rightarrow> uuid \<Rightarrow> usage_filter \<Rightarrow> int result prog" where
  "Usage_CountForUser ctx u f = tenant_call ctx (\<lambda>t. read_db (\<lambda>d.
     Inr (sql_count (usage_matches t u f) (usages d))))"

text \<open>The rollup: \<^verbatim>\<open>GROUP BY resource_type, unit\<close>, one row per group, scanned into \<open>int64\<close>.\<close>

record rollup_row =
  ro_resource :: string
  ro_unit :: string
  ro_qty :: int

definition usage_groups :: "usage_row list \<Rightarrow> (string \<times> string) list" where
  "usage_groups rows = remdups (map (\<lambda>r. (ue_resource r, ue_unit r)) rows)"

definition group_qty :: "string \<Rightarrow> string \<Rightarrow> usage_row list \<Rightarrow> int" where
  "group_qty res u rows =
     sum_list (map ue_qty (filter (\<lambda>r. ue_resource r = res \<and> ue_unit r = u) rows))"

definition rollup_rows :: "usage_row list \<Rightarrow> rollup_row list" where
  "rollup_rows rows =
     map (\<lambda>(res, u). \<lparr>ro_resource = res, ro_unit = u, ro_qty = group_qty res u rows\<rparr>)
       (usage_groups rows)"

definition in_window :: "uuid \<Rightarrow> uuid \<Rightarrow> instant \<Rightarrow> instant \<Rightarrow> usage_row \<Rightarrow> bool" where
  "in_window t u from to r \<longleftrightarrow>
     ue_tenant r = t \<and> ue_user r = u \<and> from \<le> ue_started r \<and> ue_started r \<le> to"

definition Usage_SumForUserInPeriod ::
  "ctx \<Rightarrow> uuid \<Rightarrow> instant \<Rightarrow> instant \<Rightarrow> rollup_row list result prog" where
  "Usage_SumForUserInPeriod ctx u from to = tenant_call ctx (\<lambda>t. read_db (\<lambda>d.
     let rows = rollup_rows (filter (in_window t u from to) (usages d))
     in if list_all (\<lambda>r. in_int64 (ro_qty r)) rows then Inr rows
        else Inl (Pg NumericOutOfRange)))"

section \<open>Receipts\<close>

record receipt_params =
  rp_user :: uuid
  rp_start :: instant
  rp_end :: instant
  rp_total :: int
  rp_currency :: string
  rp_pdf :: string
  rp_status :: string

text \<open>The unique index of ready receipts does not mention the end of the period.\<close>

definition receipt_taken :: "uuid \<Rightarrow> uuid \<Rightarrow> instant \<Rightarrow> receipt_row \<Rightarrow> bool" where
  "receipt_taken t u start r \<longleftrightarrow>
     rc_tenant r = t \<and> rc_user r = u \<and> rc_start r = start \<and> rc_status r = ''ready''"

definition sql_create_receipt :: "receipt_params \<Rightarrow> uuid \<Rightarrow> db \<Rightarrow> receipt_row result \<times> db" where
  "sql_create_receipt p t d =
     (if rp_status p = ''ready'' \<and> list_ex (receipt_taken t (rp_user p) (rp_start p)) (receipts d)
      then (Inl (Pg UniqueViolation), d)
      else if \<not> fk_ok t (rp_user p) d then (Inl (Pg ForeignKeyViolation), d)
      else let row = \<lparr>rc_id = db_next d, rc_tenant = t, rc_user = rp_user p,
                      rc_start = rp_start p, rc_end = rp_end p, rc_total = rp_total p,
                      rc_currency = rp_currency p, rc_pdf = rp_pdf p, rc_status = rp_status p\<rparr>
           in (Inr row, d\<lparr>db_next := Suc (db_next d), receipts := receipts d @ [row]\<rparr>))"

definition sql_update_pdf :: "uuid \<Rightarrow> string \<Rightarrow> uuid \<Rightarrow> db \<Rightarrow> unit result \<times> db" where
  "sql_update_pdf i pdf t d =
     (let hit = (\<lambda>r. rc_tenant r = t \<and> rc_id r = i);
          rows = sql_update hit (\<lambda>r. r\<lparr>rc_pdf := pdf, rc_status := ''ready''\<rparr>) (receipts d)
      in if list_ex (\<lambda>r. hit r \<and>
              list_ex (\<lambda>q. rc_id q \<noteq> i \<and> receipt_taken t (rc_user r) (rc_start r) q) rows) rows
         then (Inl (Pg UniqueViolation), d)
         else (Inr (), d\<lparr>receipts := rows\<rparr>))"

definition Receipts_Create :: "ctx \<Rightarrow> receipt_params \<Rightarrow> receipt_row result prog" where
  "Receipts_Create ctx arg =
     tenant_call ctx (sql_create_receipt
       (arg\<lparr>rp_currency := orUSD (rp_currency arg),
            rp_status := (if rp_status arg = '''' then ''ready'' else rp_status arg)\<rparr>))"

definition Receipts_Get :: "ctx \<Rightarrow> uuid \<Rightarrow> receipt_row result prog" where
  "Receipts_Get ctx i = tenant_call ctx (\<lambda>t. read_db (\<lambda>d.
     sql_one (\<lambda>r. rc_tenant r = t \<and> rc_id r = i) (receipts d)))"

definition Receipts_GetForPeriod ::
  "ctx \<Rightarrow> uuid \<Rightarrow> instant \<Rightarrow> instant \<Rightarrow> receipt_row result prog" where
  "Receipts_GetForPeriod ctx u start stop = tenant_call ctx (\<lambda>t. read_db (\<lambda>d.
     sql_one (\<lambda>r. rc_tenant r = t \<and> rc_user r = u \<and> rc_start r = start \<and> rc_end r = stop)
       (receipts d)))"

definition Receipts_ListForUser :: "ctx \<Rightarrow> uuid \<Rightarrow> int \<Rightarrow> int \<Rightarrow> receipt_row list result prog" where
  "Receipts_ListForUser ctx u limit offset = tenant_call ctx (\<lambda>t. read_db (\<lambda>d.
     sql_page limit offset (sort_key (\<lambda>r. - rc_start r)
       (filter (\<lambda>r. rc_tenant r = t \<and> rc_user r = u) (receipts d)))))"

definition Receipts_CountForUser :: "ctx \<Rightarrow> uuid \<Rightarrow> int result prog" where
  "Receipts_CountForUser ctx u = tenant_call ctx (\<lambda>t. read_db (\<lambda>d.
     Inr (sql_count (\<lambda>r. rc_tenant r = t \<and> rc_user r = u) (receipts d))))"

definition Receipts_UpdatePDF :: "ctx \<Rightarrow> uuid \<Rightarrow> string \<Rightarrow> unit result prog" where
  "Receipts_UpdatePDF ctx i pdf = tenant_call ctx (sql_update_pdf i pdf)"

end
