(* ===== verification/Billing.thy ===== *)
theory Billing
  imports BillingRepo
begin

text \<open>
  \<^verbatim>\<open>billing/service.go\<close>, \<^verbatim>\<open>ledger.go\<close>, \<^verbatim>\<open>usage.go\<close>, \<^verbatim>\<open>catalog.go\<close>, \<^verbatim>\<open>meter.go\<close> and
  \<^verbatim>\<open>enforce.go\<close>: the billing service. Its definitions only; the lemmas about them are in
  \<^verbatim>\<open>Billing_Props\<close>.
\<close>

section \<open>The service and its configuration\<close>

definition DefaultCurrency :: string where
  "DefaultCurrency = ''USD''"

definition DefaultGracePeriod :: int where
  "DefaultGracePeriod = 24 * hour"

record config =
  cf_currency :: string
  cf_grace :: int
  cf_low :: int
  cf_cadence :: string
  cf_effective :: instant

text \<open>
  The enforcer and the meter are interfaces the service is given; the compute module and the
  providers implement them.
\<close>

record service =
  sv_audit :: emitter
  sv_bus :: bool
  sv_enforcer :: "ctx \<Rightarrow> uuid \<Rightarrow> uuid \<Rightarrow> string \<Rightarrow> unit result prog"
  sv_meter :: "ctx \<Rightarrow> uuid \<Rightarrow> instant \<Rightarrow> int result prog"
  sv_config :: config

definition NoopEnforcer :: "ctx \<Rightarrow> uuid \<Rightarrow> uuid \<Rightarrow> string \<Rightarrow> unit result prog" where
  "NoopEnforcer ctx t u reason = ok ()"

definition NoopMeter :: "ctx \<Rightarrow> uuid \<Rightarrow> instant \<Rightarrow> int result prog" where
  "NoopMeter ctx t minute = ok 0"

definition New ::
  "emitter option \<Rightarrow> bool \<Rightarrow> (ctx \<Rightarrow> uuid \<Rightarrow> uuid \<Rightarrow> string \<Rightarrow> unit result prog) option \<Rightarrow>
   (ctx \<Rightarrow> uuid \<Rightarrow> instant \<Rightarrow> int result prog) option \<Rightarrow> config \<Rightarrow> service prog" where
  "New emitter bus enforcer meter cfg = do {
     now \<leftarrow> time_now;
     State_Monad.return
       \<lparr>sv_audit = (case emitter of None \<Rightarrow> NoopEmitter | Some e \<Rightarrow> e),
        sv_bus = bus,
        sv_enforcer = (case enforcer of None \<Rightarrow> NoopEnforcer | Some e \<Rightarrow> e),
        sv_meter = (case meter of None \<Rightarrow> NoopMeter | Some m \<Rightarrow> m),
        sv_config =
          \<lparr>cf_currency = (if cf_currency cfg = '''' then DefaultCurrency else cf_currency cfg),
           cf_grace = (if cf_grace cfg \<le> 0 then DefaultGracePeriod else cf_grace cfg),
           cf_low = cf_low cfg,
           cf_cadence = (if cf_cadence cfg = '''' then ''monthly'' else cf_cadence cfg),
           cf_effective = (if cf_effective cfg = zero_time then now else cf_effective cfg)\<rparr>\<rparr> }"

definition emitEvent ::
  "service \<Rightarrow> ctx \<Rightarrow> string \<Rightarrow> uuid \<Rightarrow> uuid \<Rightarrow> uuid \<Rightarrow> meta option \<Rightarrow> unit prog" where
  "emitEvent s ctx topic tenantID userID resourceID m = do {
     now \<leftarrow> time_now;
     bus_emit (sv_bus s)
       \<lparr>ev_topic = topic, ev_tenant = tenantID,
        ev_actor_type = (if userID \<noteq> uuid_nil then ''user'' else ''system''),
        ev_actor = userID, ev_resource = resourceID, ev_meta = m, ev_at = now\<rparr> }"

definition validateAmount :: "int \<Rightarrow> unit result" where
  "validateAmount cents = (if cents \<le> 0 then Inl (Sentinel ErrInvalidAmount) else Inr ())"

definition validateResource :: "string \<Rightarrow> string \<Rightarrow> unit result" where
  "validateResource res u =
     (if res = '''' \<or> u = '''' then Inl (Sentinel ErrInvalidResource) else Inr ())"

definition is_letter :: "char \<Rightarrow> bool" where
  "is_letter c \<longleftrightarrow> is_upper c \<or> is_lower c"

definition validateCurrency :: "string \<Rightarrow> unit result" where
  "validateCurrency code =
     (if length code \<noteq> 3 then Inl (Sentinel ErrInvalidCurrency)
      else if list_all is_letter code then Inr ()
      else Inl (Sentinel ErrInvalidCurrency))"

definition currencyOrDefault :: "service \<Rightarrow> string \<Rightarrow> string" where
  "currencyOrDefault s code = (if code = '''' then cf_currency (sv_config s) else code)"

text \<open>
  \<^verbatim>\<open>auditEmit\<close> and \<^verbatim>\<open>auditMarkOutcome\<close> of both billing services: the audit never blocks the
  action, a failed emit gives the zero UUID and disables the outcome.
\<close>

definition auditEmit ::
  "emitter \<Rightarrow> string \<Rightarrow> string \<Rightarrow> uuid \<Rightarrow> uuid \<Rightarrow> uuid \<Rightarrow> meta option \<Rightarrow> uuid prog" where
  "auditEmit e action resourceType tenantID userID resourceID m = do {
     r \<leftarrow> audit_Emit e
            \<lparr>ae_tenant = Some tenantID, ae_actor = Some userID, ae_actor_type = ''user'',
             ae_action = action, ae_resource_type = resourceType, ae_resource = Some resourceID,
             ae_status = ''pending'', ae_meta = m\<rparr>;
     State_Monad.return (case r of Inl _ \<Rightarrow> uuid_nil | Inr i \<Rightarrow> i) }"

definition auditMarkOutcome :: "emitter \<Rightarrow> uuid \<Rightarrow> bool \<Rightarrow> meta option \<Rightarrow> unit prog" where
  "auditMarkOutcome e auditID success details =
     (if auditID = uuid_nil then State_Monad.return ()
      else do {
        _ \<leftarrow> audit_MarkOutcome e auditID (if success then ''success'' else ''failure'') details;
        State_Monad.return () })"

section \<open>The ledger\<close>

definition refreshBalance :: "service \<Rightarrow> ctx \<Rightarrow> uuid \<Rightarrow> unit result prog" where
  "refreshBalance s ctx userID =
     (case TenantFromContext ctx of
        Inl e \<Rightarrow> fail e
      | Inr tenantID \<Rightarrow> do {
          sum \<leftarrow> Ledger_SumForUser ctx userID;
          case sum of
            Inl e \<Rightarrow> fail (Wrap ''billing.balance.refresh: sum'' e)
          | Inr balance \<Rightarrow> do {
              prior \<leftarrow> Balances_Get ctx userID;
              let crossed =
                (case prior of
                   Inl _ \<Rightarrow> False
                 | Inr p \<Rightarrow> ub_cents p > cf_low (sv_config s) \<and> balance \<le> cf_low (sv_config s));
              now \<leftarrow> time_now;
              up \<leftarrow> Balances_Upsert ctx userID balance (cf_currency (sv_config s)) now;
              case up of
                Inl e \<Rightarrow> fail (Wrap ''billing.balance.refresh: upsert'' e)
              | Inr _ \<Rightarrow> do {
                  (if crossed
                   then emitEvent s ctx ''billing.balance.low'' tenantID userID uuid_nil
                          (Some [(''balance_cents'', JInt balance),
                                 (''threshold'', JInt (cf_low (sv_config s)))])
                   else State_Monad.return ());
                  ok () } } })"

record topup_params =
  tp_user :: uuid
  tp_amount :: int
  tp_currency :: string
  tp_reference :: string

text \<open>What \<^verbatim>\<open>Topup\<close> and \<^verbatim>\<open>Refund\<close> do once the row is in the ledger.\<close>

definition settle_credit ::
  "service \<Rightarrow> ctx \<Rightarrow> uuid \<Rightarrow> uuid \<Rightarrow> uuid \<Rightarrow> ledger_row \<Rightarrow> string \<Rightarrow> meta \<Rightarrow> ledger_row result prog" where
  "settle_credit s ctx tenantID userID auditID row topic m = do {
     refreshed \<leftarrow> refreshBalance s ctx userID;
     (case refreshed of
        Inl e \<Rightarrow> auditMarkOutcome (sv_audit s) auditID True
                 (Some [(''ledger_id'', JUuid (le_id row)), (''cache_warning'', JErr e)])
      | Inr _ \<Rightarrow> auditMarkOutcome (sv_audit s) auditID True
                 (Some [(''ledger_id'', JUuid (le_id row))]));
     emitEvent s ctx topic tenantID userID (le_id row) (Some m);
     ok row }"

definition Topup ::
  "service \<Rightarrow> ctx \<Rightarrow> uuid \<Rightarrow> uuid \<Rightarrow> topup_params \<Rightarrow> ledger_row result prog" where
  "Topup s ctx tenantID actorID params =
     (if tp_user params = uuid_nil then fail (Sentinel ErrUserNotFound)
      else case validateAmount (tp_amount params) of
        Inl e \<Rightarrow> fail e
      | Inr _ \<Rightarrow> (let currency = currencyOrDefault s (tp_currency params) in
          case validateCurrency currency of
            Inl e \<Rightarrow> fail e
          | Inr _ \<Rightarrow> do {
              auditID \<leftarrow> auditEmit (sv_audit s) ''billing.balance.topup'' ''ledger_entry''
                tenantID actorID uuid_nil
                (Some [(''user_id'', JUuid (tp_user params)),
                       (''amount'', JInt (tp_amount params)),
                       (''currency'', JStr currency),
                       (''reference'', JStr (tp_reference params)),
                       (''privileged'', JBool True)]);
              created \<leftarrow> Ledger_Create ctx
                \<lparr>lp_user = tp_user params, lp_type = ''credit'', lp_amount = tp_amount params,
                 lp_currency = currency, lp_source = ''topup'',
                 lp_reference = tp_reference params, lp_key = None,
                 lp_meta = Some [(''actor_user_id'', JUuid actorID)]\<rparr>;
              case created of
                Inl e \<Rightarrow> do {
                  auditMarkOutcome (sv_audit s) auditID False (Some [(''error'', JErr e)]);
                  fail (Wrap ''billing.topup'' e) }
              | Inr row \<Rightarrow>
                  settle_credit s ctx tenantID (tp_user params) auditID row
                    ''billing.balance.topped_up''
                    [(''amount_cents'', JInt (tp_amount params)),
                     (''currency'', JStr currency),
                     (''reference'', JStr (tp_reference params)),
                     (''ledger_id'', JUuid (le_id row))] }))"

record refund_params =
  rf_user :: uuid
  rf_amount :: int
  rf_currency :: string
  rf_reference :: string
  rf_charge :: "uuid option"

definition Refund ::
  "service \<Rightarrow> ctx \<Rightarrow> uuid \<Rightarrow> uuid \<Rightarrow> refund_params \<Rightarrow> ledger_row result prog" where
  "Refund s ctx tenantID actorID params =
     (if rf_user params = uuid_nil then fail (Sentinel ErrUserNotFound)
      else case validateAmount (rf_amount params) of
        Inl e \<Rightarrow> fail e
      | Inr _ \<Rightarrow> (let currency = currencyOrDefault s (rf_currency params) in
          case validateCurrency currency of
            Inl e \<Rightarrow> fail e
          | Inr _ \<Rightarrow> do {
              auditID \<leftarrow> auditEmit (sv_audit s) ''billing.balance.refund'' ''ledger_entry''
                tenantID actorID uuid_nil
                (Some [(''user_id'', JUuid (rf_user params)),
                       (''amount'', JInt (rf_amount params)),
                       (''currency'', JStr currency),
                       (''reference'', JStr (rf_reference params)),
                       (''charge_id'', JUuidOpt (rf_charge params)),
                       (''privileged'', JBool True)]);
              let m = (case rf_charge params of
                         None \<Rightarrow> [(''actor_user_id'', JUuid actorID)]
                       | Some c \<Rightarrow> [(''actor_user_id'', JUuid actorID),
                                   (''original_charge_id'', JUuid c)]);
              created \<leftarrow> Ledger_Create ctx
                \<lparr>lp_user = rf_user params, lp_type = ''credit'', lp_amount = rf_amount params,
                 lp_currency = currency, lp_source = ''refund'',
                 lp_reference = rf_reference params, lp_key = None, lp_meta = Some m\<rparr>;
              case created of
                Inl e \<Rightarrow> do {
                  auditMarkOutcome (sv_audit s) auditID False (Some [(''error'', JErr e)]);
                  fail (Wrap ''billing.refund'' e) }
              | Inr row \<Rightarrow>
                  settle_credit s ctx tenantID (rf_user params) auditID row
                    ''billing.balance.refunded''
                    [(''amount_cents'', JInt (rf_amount params)),
                     (''currency'', JStr currency),
                     (''reference'', JStr (rf_reference params)),
                     (''ledger_id'', JUuid (le_id row))] }))"

record charge_params =
  ch_user :: uuid
  ch_amount :: int
  ch_currency :: string
  ch_reference :: string
  ch_key :: "string option"
  ch_meta :: "meta option"

text \<open>
  The de-duplication both the ledger and the usage stream use before an insert: \<open>None\<close> says
  that nothing is recorded under the key, \<open>Some\<close> is the answer of the whole call.
\<close>

definition dedup ::
  "string option \<Rightarrow> (string \<Rightarrow> 'r result prog) \<Rightarrow> ('r \<Rightarrow> uuid) \<Rightarrow> string \<Rightarrow> 'r result option prog" where
  "dedup key lookup row_id context =
     (case key of
        None \<Rightarrow> State_Monad.return None
      | Some k \<Rightarrow>
          if k = '''' then State_Monad.return None
          else do {
            r \<leftarrow> lookup k;
            State_Monad.return
              (case r of
                 Inr existing \<Rightarrow> if row_id existing \<noteq> uuid_nil then Some (Inr existing) else None
               | Inl e \<Rightarrow> if IsNoRows e then None else Some (Inl (Wrap context e))) })"

text \<open>The answer when the insert failed: a unique violation is a lost race for the key.\<close>

definition insert_failed ::
  "string option \<Rightarrow> (string \<Rightarrow> 'r result prog) \<Rightarrow> string \<Rightarrow> goerr \<Rightarrow> 'r result prog" where
  "insert_failed key lookup context e =
     (if IsUniqueViolation e
      then (case key of
              None \<Rightarrow> fail (Sentinel ErrDuplicateIdempotencyKey)
            | Some k \<Rightarrow> do {
                r \<leftarrow> lookup k;
                case r of
                  Inr existing \<Rightarrow> ok existing
                | Inl _ \<Rightarrow> fail (Sentinel ErrDuplicateIdempotencyKey) })
      else fail (Wrap context e))"

definition PostCharge ::
  "service \<Rightarrow> ctx \<Rightarrow> uuid \<Rightarrow> charge_params \<Rightarrow> ledger_row result prog" where
  "PostCharge s ctx tenantID params =
     (if ch_user params = uuid_nil then fail (Sentinel ErrUserNotFound)
      else case validateAmount (ch_amount params) of
        Inl e \<Rightarrow> fail e
      | Inr _ \<Rightarrow> (let currency = currencyOrDefault s (ch_currency params) in
          case validateCurrency currency of
            Inl e \<Rightarrow> fail e
          | Inr _ \<Rightarrow> do {
              seen \<leftarrow> dedup (ch_key params) (Ledger_GetByIdempotencyKey ctx) le_id
                       ''billing.charge: dedup lookup'';
              case seen of
                Some answer \<Rightarrow> State_Monad.return answer
              | None \<Rightarrow> do {
                  created \<leftarrow> Ledger_Create ctx
                    \<lparr>lp_user = ch_user params, lp_type = ''debit'',
                     lp_amount = ch_amount params, lp_currency = currency,
                     lp_source = ''charge'', lp_reference = ch_reference params,
                     lp_key = ch_key params, lp_meta = ch_meta params\<rparr>;
                  case created of
                    Inl e \<Rightarrow> insert_failed (ch_key params) (Ledger_GetByIdempotencyKey ctx)
                               ''billing.charge'' e
                  | Inr row \<Rightarrow> do {
                      _ \<leftarrow> refreshBalance s ctx (ch_user params);
                      emitEvent s ctx ''billing.balance.charged'' tenantID (ch_user params)
                        (le_id row)
                        (Some [(''amount_cents'', JInt (ch_amount params)),
                               (''currency'', JStr currency),
                               (''reference'', JStr (ch_reference params)),
                               (''ledger_id'', JUuid (le_id row))]);
                      ok row } } }))"

definition GetBalance :: "service \<Rightarrow> ctx \<Rightarrow> uuid \<Rightarrow> balance_row result prog" where
  "GetBalance s ctx userID = do {
     r \<leftarrow> Balances_Get ctx userID;
     case r of
       Inr row \<Rightarrow> ok row
     | Inl e \<Rightarrow>
         if IsNoRows e
         then (case TenantFromContext ctx of
                 Inl e' \<Rightarrow> fail e'
               | Inr t \<Rightarrow> do {
                   now \<leftarrow> time_now;
                   ok \<lparr>ub_tenant = t, ub_user = userID, ub_cents = 0,
                       ub_currency = cf_currency (sv_config s),
                       ub_last_entry = zero_time, ub_updated = now\<rparr> })
         else fail (Wrap ''billing.balance.get'' e) }"

definition RebuildBalance ::
  "service \<Rightarrow> ctx \<Rightarrow> uuid \<Rightarrow> uuid \<Rightarrow> uuid \<Rightarrow> balance_row result prog" where
  "RebuildBalance s ctx tenantID actorID userID = do {
     auditID \<leftarrow> auditEmit (sv_audit s) ''billing.balance.rebuild'' ''balance'' tenantID actorID userID
       (Some [(''user_id'', JUuid userID), (''privileged'', JBool True)]);
     r \<leftarrow> refreshBalance s ctx userID;
     case r of
       Inl e \<Rightarrow> do {
         auditMarkOutcome (sv_audit s) auditID False (Some [(''error'', JErr e)]);
         fail (Wrap ''billing.balance.rebuild'' e) }
     | Inr _ \<Rightarrow> do {
         b \<leftarrow> Balances_Get ctx userID;
         case b of
           Inl e \<Rightarrow> do {
             auditMarkOutcome (sv_audit s) auditID False (Some [(''error'', JErr e)]);
             fail (Wrap ''billing.balance.rebuild: get'' e) }
         | Inr bal \<Rightarrow> do {
             auditMarkOutcome (sv_audit s) auditID True
               (Some [(''balance_cents'', JInt (ub_cents bal))]);
             ok bal } } }"

text \<open>A read whose error is wrapped, and one that also maps a missing row to a sentinel.\<close>

definition wrapped :: "string \<Rightarrow> 'a result prog \<Rightarrow> 'a result prog" where
  "wrapped context m = do {
     r \<leftarrow> m;
     case r of Inl e \<Rightarrow> fail (Wrap context e) | Inr v \<Rightarrow> ok v }"

definition found_or :: "sentinel \<Rightarrow> string \<Rightarrow> 'a result prog \<Rightarrow> 'a result prog" where
  "found_or missing context m = do {
     r \<leftarrow> m;
     case r of
       Inl e \<Rightarrow> if IsNoRows e then fail (Sentinel missing) else fail (Wrap context e)
     | Inr v \<Rightarrow> ok v }"

definition ListLedger :: "ctx \<Rightarrow> uuid \<Rightarrow> int \<Rightarrow> int \<Rightarrow> ledger_row list result prog" where
  "ListLedger ctx u limit offset =
     wrapped ''billing.ledger.list'' (Ledger_ListForUser ctx u limit offset)"

definition CountLedger :: "ctx \<Rightarrow> uuid \<Rightarrow> int result prog" where
  "CountLedger ctx u = wrapped ''billing.ledger.count'' (Ledger_CountForUser ctx u)"

definition GetLedgerEntry :: "ctx \<Rightarrow> uuid \<Rightarrow> ledger_row result prog" where
  "GetLedgerEntry ctx i = found_or ErrLedgerEntryNotFound ''billing.ledger.get'' (Ledger_Get ctx i)"

section \<open>The price catalog\<close>

definition UpsertPrice ::
  "service \<Rightarrow> ctx \<Rightarrow> uuid \<Rightarrow> uuid \<Rightarrow> price_params \<Rightarrow> price_row result prog" where
  "UpsertPrice s ctx tenantID actorID params =
     (case validateResource (pp_resource params) (pp_unit params) of
        Inl e \<Rightarrow> fail e
      | Inr _ \<Rightarrow>
          if pp_cents params < 0 then fail (Sentinel ErrInvalidAmount)
          else (let currency = currencyOrDefault s (pp_currency params) in
            case validateCurrency currency of
              Inl e \<Rightarrow> fail e
            | Inr _ \<Rightarrow> (let from = (if pp_from params = zero_time
                                   then cf_effective (sv_config s) else pp_from params) in do {
                auditID \<leftarrow> auditEmit (sv_audit s) ''billing.price.upsert'' ''price'' tenantID actorID
                  uuid_nil
                  (Some [(''resource_type'', JStr (pp_resource params)),
                         (''unit'', JStr (pp_unit params)),
                         (''price_cents'', JInt (pp_cents params)),
                         (''currency'', JStr currency),
                         (''effective_from'', JTime from)]);
                r \<leftarrow> Prices_SetCurrentPrice ctx (pp_resource params) (pp_unit params)
                       (pp_cents params) currency from;
                case r of
                  Inl e \<Rightarrow> do {
                    auditMarkOutcome (sv_audit s) auditID False (Some [(''error'', JErr e)]);
                    fail (Wrap ''billing.price.upsert'' e) }
                | Inr row \<Rightarrow> do {
                    auditMarkOutcome (sv_audit s) auditID True
                      (Some [(''new_price_id'', JUuid (pr_id row))]);
                    emitEvent s ctx ''billing.balance.charged'' tenantID actorID (pr_id row)
                      (Some [(''topic'', JStr ''billing.price.upserted''),
                             (''resource_type'', JStr (pr_resource row)),
                             (''unit'', JStr (pr_unit row)),
                             (''price_cents'', JInt (pr_cents row)),
                             (''effective_from'', JTime (pr_from row))]);
                    ok row } })))"

definition GetPrice :: "ctx \<Rightarrow> uuid \<Rightarrow> price_row result prog" where
  "GetPrice ctx i = found_or ErrPriceNotFound ''billing.price.get'' (Prices_Get ctx i)"

definition GetCurrentPrice :: "ctx \<Rightarrow> string \<Rightarrow> string \<Rightarrow> price_row result prog" where
  "GetCurrentPrice ctx res u =
     found_or ErrPriceNotFound ''billing.price.current'' (Prices_GetCurrentPrice ctx res u)"

definition CountPrices :: "ctx \<Rightarrow> int result prog" where
  "CountPrices ctx = wrapped ''billing.price.count'' (Prices_Count ctx)"

definition GetPriceAt :: "ctx \<Rightarrow> string \<Rightarrow> string \<Rightarrow> instant \<Rightarrow> price_row result prog" where
  "GetPriceAt ctx res u ts =
     found_or ErrPriceNotFound ''billing.price.at'' (Prices_GetPriceAt ctx res u ts)"

section \<open>Usage\<close>

definition RecordUsage :: "ctx \<Rightarrow> uuid \<Rightarrow> usage_params \<Rightarrow> usage_row result prog" where
  "RecordUsage ctx tenantID params =
     (if up_user params = uuid_nil then fail (Sentinel ErrUserNotFound)
      else case validateResource (up_resource params) (up_unit params) of
        Inl e \<Rightarrow> fail e
      | Inr _ \<Rightarrow>
          if up_qty params < 0 then fail (Sentinel ErrInvalidAmount)
          else if \<not> up_ended params > up_started params then fail (Sentinel ErrInvalidPeriod)
          else do {
            seen \<leftarrow> dedup (up_key params) (Usage_GetByIdempotencyKey ctx) ue_id
                     ''billing.usage: dedup lookup'';
            case seen of
              Some answer \<Rightarrow> State_Monad.return answer
            | None \<Rightarrow> do {
                created \<leftarrow> Usage_Create ctx params;
                case created of
                  Inl e \<Rightarrow> insert_failed (up_key params) (Usage_GetByIdempotencyKey ctx)
                             ''billing.usage.create'' e
                | Inr row \<Rightarrow> ok row } })"

definition ListUsage ::
  "ctx \<Rightarrow> uuid \<Rightarrow> usage_filter \<Rightarrow> int \<Rightarrow> int \<Rightarrow> usage_row list result prog" where
  "ListUsage ctx u f limit offset =
     wrapped ''billing.usage.list'' (Usage_ListForUser ctx u f limit offset)"

definition CountUsage :: "ctx \<Rightarrow> uuid \<Rightarrow> usage_filter \<Rightarrow> int result prog" where
  "CountUsage ctx u f = wrapped ''billing.usage.count'' (Usage_CountForUser ctx u f)"

definition RollupUsage :: "ctx \<Rightarrow> uuid \<Rightarrow> instant \<Rightarrow> instant \<Rightarrow> rollup_row list result prog" where
  "RollupUsage ctx u from to =
     (if \<not> to > from then fail (Sentinel ErrInvalidPeriod)
      else wrapped ''billing.usage.rollup'' (Usage_SumForUserInPeriod ctx u from to))"

text \<open>The accumulating loop of \<^verbatim>\<open>ChargeForRollup\<close>; the sum is an \<open>int64\<close>.\<close>

fun charge_loop :: "ctx \<Rightarrow> instant \<Rightarrow> rollup_row list \<Rightarrow> int \<Rightarrow> int result prog" where
  "charge_loop ctx from [] acc = ok acc"
| "charge_loop ctx from (row # rows) acc = do {
     p \<leftarrow> GetPriceAt ctx (ro_resource row) (ro_unit row) from;
     case p of
       Inl e \<Rightarrow> if errors_is e ErrPriceNotFound then charge_loop ctx from rows acc else fail e
     | Inr price \<Rightarrow>
         charge_loop ctx from rows (wrap64 (acc + wrap64 (ro_qty row * pr_cents price))) }"

definition ChargeForRollup :: "ctx \<Rightarrow> uuid \<Rightarrow> instant \<Rightarrow> instant \<Rightarrow> int result prog" where
  "ChargeForRollup ctx u from to = do {
     r \<leftarrow> RollupUsage ctx u from to;
     case r of
       Inl e \<Rightarrow> fail e
     | Inr rows \<Rightarrow> charge_loop ctx from rows 0 }"

section \<open>Metering and enforcement\<close>

definition minute_ns :: int where
  "minute_ns = 60000000000"

definition RunCollection :: "service \<Rightarrow> ctx \<Rightarrow> uuid \<Rightarrow> instant \<Rightarrow> int result prog" where
  "RunCollection s ctx tenantID minute = do {
     now \<leftarrow> time_now;
     let m = (if minute = zero_time then now - (now - zero_time) mod minute_ns else minute);
     r \<leftarrow> sv_meter s ctx tenantID m;
     case r of Inl e \<Rightarrow> fail (Wrap ''billing.meter.collect'' e) | Inr n \<Rightarrow> ok n }"

definition EnforceZeroBalances :: "service \<Rightarrow> ctx \<Rightarrow> uuid \<Rightarrow> nat result prog" where
  "EnforceZeroBalances s ctx tenantID = do {
     now \<leftarrow> time_now;
     let cutoff = now - cf_grace (sv_config s);
     r \<leftarrow> Balances_ListZeroBalances ctx cutoff;
     case r of
       Inl e \<Rightarrow> fail (Wrap ''billing.enforce: list zero balances'' e)
     | Inr rows \<Rightarrow> do {
         n \<leftarrow> for_each (\<lambda>row. do {
                e \<leftarrow> sv_enforcer s ctx tenantID (ub_user row)
                       (''zero balance since '' @ format_rfc3339 (ub_last_entry row));
                State_Monad.return (case e of Inl _ \<Rightarrow> False | Inr _ \<Rightarrow> True) }) rows;
         ok n } }"

end
