(* ===== verification/Billing_Inv.thy ===== *)
theory Billing_Inv
  imports Billing
begin

text \<open>
  Invariants of the billing tables. The locale \<open>cache_invariant\<close> is the contract of an invariant
  the balance cache and the audit trail cannot break, \<open>ledger_invariant\<close> of one that posting to
  the ledger keeps as well, and \<open>billing_invariant\<close> extends it to the statements of the whole
  billing service; \<open>U\<close> is the set of users whose requests the contract is about. Inside the
  locales every operation of the service is shown to keep such an invariant, under every schedule
  of faults and of foreign transactions that honour it. The interpretations are the ledger's
  well-formedness, the ledger being append-only, the uniqueness of the balance cache, of the
  usage keys and of the current prices, a key once taken staying taken, the inputs of the rollup,
  and the isolation of one user's account from the requests for the others.
\<close>

section \<open>The contracts\<close>

locale cache_invariant =
  fixes J :: "db \<Rightarrow> bool" and U :: "uuid \<Rightarrow> bool"
  assumes balance_upsert: "U u \<Longrightarrow> preserved J (sql_upsert_balance u c cur ts t)"
    and no_audit: "ignores_audit J"
begin

lemma keeps_emitEvent: "keeps (stable J) (emitEvent s ctx topic t u r m)"
  unfolding emitEvent_def by (intro keeps_rules)

lemma keeps_auditEmit: "keeps (stable J) (auditEmit e a ty t u r m)"
  unfolding auditEmit_def audit_Emit_def
  by (cases e) (auto intro!: keeps_rules no_audit)

lemma keeps_auditMarkOutcome: "keeps (stable J) (auditMarkOutcome e i b m)"
  unfolding auditMarkOutcome_def audit_MarkOutcome_def
  by (cases e) (auto intro!: keeps_rules no_audit)

lemma keeps_refreshBalance: "U u \<Longrightarrow> keeps (stable J) (refreshBalance s ctx u)"
  unfolding refreshBalance_def Ledger_SumForUser_def Balances_Get_def Balances_Upsert_def
  by (intro keeps_rules keeps_emitEvent balance_upsert)

lemmas keeps_helpers = keeps_emitEvent keeps_auditEmit keeps_auditMarkOutcome keeps_refreshBalance

lemma keeps_settle_credit: "U u \<Longrightarrow> keeps (stable J) (settle_credit s ctx t u a row topic m)"
  unfolding settle_credit_def by (intro keeps_rules keeps_helpers)

lemma keeps_GetBalance: "keeps (stable J) (GetBalance s ctx u)"
  unfolding GetBalance_def Balances_Get_def by (intro keeps_rules)

lemma keeps_RebuildBalance: "U u \<Longrightarrow> keeps (stable J) (RebuildBalance s ctx t a u)"
  unfolding RebuildBalance_def Balances_Get_def by (intro keeps_rules keeps_helpers)

lemma keeps_GetPriceAt: "keeps (stable J) (GetPriceAt ctx res u ts)"
  unfolding GetPriceAt_def found_or_def Prices_GetPriceAt_def by (intro keeps_rules)

lemma keeps_charge_loop: "keeps (stable J) (charge_loop ctx from rows acc)"
  by (induction rows arbitrary: acc) (auto intro!: keeps_rules keeps_GetPriceAt)

lemma keeps_ChargeForRollup: "keeps (stable J) (ChargeForRollup ctx u from to)"
  unfolding ChargeForRollup_def RollupUsage_def wrapped_def Usage_SumForUserInPeriod_def
  by (intro keeps_rules keeps_charge_loop)

lemma keeps_EnforceZeroBalances:
  assumes "\<And>c x u r. keeps (stable J) (sv_enforcer s c x u r)"
  shows "keeps (stable J) (EnforceZeroBalances s ctx t)"
  unfolding EnforceZeroBalances_def Balances_ListZeroBalances_def
  by (intro keeps_rules assms)

end

lemma validateAmount_pos: "validateAmount a = Inr x \<Longrightarrow> 0 < a"
  by (simp add: validateAmount_def split: if_splits)

locale ledger_invariant = cache_invariant J U for J :: "db \<Rightarrow> bool" and U :: "uuid \<Rightarrow> bool" +
  assumes ledger_insert:
      "U (lp_user p) \<Longrightarrow> lp_type p = ''credit'' \<or> lp_type p = ''debit'' \<Longrightarrow> 0 < lp_amount p \<Longrightarrow>
         preserved J (sql_create_ledger p t)"
begin

lemma keeps_dedup_ledger:
  "keeps (stable J) (dedup k (Ledger_GetByIdempotencyKey ctx) f context)"
  unfolding dedup_def Ledger_GetByIdempotencyKey_def by (intro keeps_rules)

lemma keeps_failed_ledger:
  "keeps (stable J) (insert_failed k (Ledger_GetByIdempotencyKey ctx) context e)"
  unfolding insert_failed_def Ledger_GetByIdempotencyKey_def by (intro keeps_rules)

lemma keeps_Ledger_Create:
  "U (lp_user p) \<Longrightarrow> lp_type p = ''credit'' \<or> lp_type p = ''debit'' \<Longrightarrow> 0 < lp_amount p \<Longrightarrow>
     keeps (stable J) (Ledger_Create ctx p)"
  unfolding Ledger_Create_def by (intro keeps_rules ledger_insert) auto

lemma keeps_Topup: "U (tp_user p) \<Longrightarrow> keeps (stable J) (Topup s ctx t a p)"
  unfolding Topup_def
  by (intro keeps_rules keeps_helpers keeps_settle_credit keeps_Ledger_Create)
    (auto dest: validateAmount_pos)

lemma keeps_Refund: "U (rf_user p) \<Longrightarrow> keeps (stable J) (Refund s ctx t a p)"
  unfolding Refund_def
  by (intro keeps_rules keeps_helpers keeps_settle_credit keeps_Ledger_Create)
    (auto dest: validateAmount_pos)

lemma keeps_PostCharge: "U (ch_user p) \<Longrightarrow> keeps (stable J) (PostCharge s ctx t p)"
  unfolding PostCharge_def
  by (intro keeps_rules keeps_helpers keeps_dedup_ledger keeps_failed_ledger keeps_Ledger_Create)
    (auto dest: validateAmount_pos)

end

locale billing_invariant = ledger_invariant J U for J :: "db \<Rightarrow> bool" and U :: "uuid \<Rightarrow> bool" +
  assumes usage_insert: "0 \<le> up_qty q \<Longrightarrow> preserved J (sql_create_usage q t)"
    and price_insert: "preserved J (sql_create_price pp t)"
    and price_expire: "preserved J (sql_expire_price res un ts t)"
    and receipt_insert: "preserved J (sql_create_receipt rp t)"
    and receipt_update: "preserved J (sql_update_pdf i pdf t)"
begin

lemma keeps_dedup_usage:
  "keeps (stable J) (dedup k (Usage_GetByIdempotencyKey ctx) f context)"
  unfolding dedup_def Usage_GetByIdempotencyKey_def by (intro keeps_rules)

lemma keeps_failed_usage:
  "keeps (stable J) (insert_failed k (Usage_GetByIdempotencyKey ctx) context e)"
  unfolding insert_failed_def Usage_GetByIdempotencyKey_def by (intro keeps_rules)

lemma keeps_RecordUsage: "keeps (stable J) (RecordUsage ctx t p)"
  unfolding RecordUsage_def Usage_Create_def
  by (intro keeps_rules keeps_dedup_usage keeps_failed_usage usage_insert) auto

lemma keeps_UpsertPrice: "keeps (stable J) (UpsertPrice s ctx t a p)"
  unfolding UpsertPrice_def Prices_SetCurrentPrice_def
  by (intro keeps_rules keeps_helpers price_insert price_expire)

end

section \<open>The invariants of the model\<close>

text \<open>
  Ledger rows have positive identifiers that were handed out already, no two of them the same
  identifier or idempotency key; every amount is positive and every type is a credit or a debit.
\<close>

definition keyed :: "ledger_row \<Rightarrow> bool" where
  "keyed r \<longleftrightarrow> le_key r \<noteq> None"

definition ledger_row_ok :: "ledger_row \<Rightarrow> bool" where
  "ledger_row_ok r \<longleftrightarrow>
     0 < le_id r \<and> 0 < le_amount r \<and> (le_type r = ''credit'' \<or> le_type r = ''debit'')"

definition ledger_ok :: "db \<Rightarrow> bool" where
  "ledger_ok d \<longleftrightarrow>
     0 < db_next d \<and>
     (\<forall>r \<in> set (ledger d). ledger_row_ok r \<and> le_id r < db_next d) \<and>
     distinct (map le_id (ledger d)) \<and>
     distinct (map le_key (filter keyed (ledger d)))"

definition ledger_extends :: "ledger_row list \<Rightarrow> db \<Rightarrow> bool" where
  "ledger_extends rows d \<longleftrightarrow> prefix rows (ledger d)"

definition balances_ok :: "db \<Rightarrow> bool" where
  "balances_ok d \<longleftrightarrow> distinct (map (\<lambda>b. (ub_tenant b, ub_user b)) (balances d))"

definition usage_keyed :: "usage_row \<Rightarrow> bool" where
  "usage_keyed r \<longleftrightarrow> ue_key r \<noteq> None"

definition usages_ok :: "db \<Rightarrow> bool" where
  "usages_ok d \<longleftrightarrow>
     (\<forall>r \<in> set (usages d). 0 \<le> ue_qty r) \<and>
     distinct (map ue_key (filter usage_keyed (usages d)))"

definition prices_ok :: "db \<Rightarrow> bool" where
  "prices_ok d \<longleftrightarrow>
     distinct (map (\<lambda>r. (pr_tenant r, pr_resource r, pr_unit r))
       (filter (\<lambda>r. pr_to r = None) (prices d)))"

lemmas sql_defs =
  sql_create_ledger_def sql_upsert_balance_def sql_create_usage_def sql_create_price_def
  sql_expire_price_def sql_create_receipt_def sql_update_pdf_def

lemma key_taken_iff:
  "key_taken k rows \<longleftrightarrow> k \<noteq> None \<and> k \<in> le_key ` set (filter keyed rows)"
  by (cases k) (force simp: key_taken_def keyed_def list_ex_iff)+

lemma ledger_ok_insert:
  assumes "ledger_ok d" "0 < lp_amount p" "lp_type p = ''credit'' \<or> lp_type p = ''debit''"
  shows "ledger_ok (snd (sql_create_ledger p t d))"
  using assms
  by (auto simp: sql_create_ledger_def ledger_ok_def ledger_row_ok_def key_taken_iff keyed_def
      Let_def less_Suc_eq)

abbreviation every :: "uuid \<Rightarrow> bool" where
  "every \<equiv> \<lambda>_. True"

interpretation ledger_inv: billing_invariant ledger_ok every
  by unfold_locales
    (auto simp: preserved_def ledger_ok_insert,
     auto simp: sql_defs ledger_ok_def ignores_audit_def Let_def less_Suc_eq)

text \<open>The statements of the cache and of the audit trail do not touch the ledger.\<close>

interpretation frozen_ledger: cache_invariant "\<lambda>d. ledger d = rows" every
  by unfold_locales
    (auto simp: preserved_def sql_upsert_balance_def ignores_audit_def Let_def)

interpretation append_only: billing_invariant "ledger_extends rows" every
  by unfold_locales
    (auto simp: preserved_def sql_defs ledger_extends_def ignores_audit_def Let_def)

lemma balances_upsert_ok:
  "balances_ok d \<Longrightarrow> balances_ok (snd (sql_upsert_balance u c cur ts t d))"
proof -
  let ?k = "\<lambda>b. (ub_tenant b, ub_user b)"
  let ?row = "\<lparr>ub_tenant = t, ub_user = u, ub_cents = c, ub_currency = cur,
    ub_last_entry = ts, ub_updated = db_now d\<rparr>"
  assume ok: "balances_ok d"
  have "map ?k (sql_update (is_balance t u) (\<lambda>_. ?row) (balances d)) = map ?k (balances d)"
    by (auto simp: sql_update_def is_balance_def)
  moreover have "\<not> list_ex (is_balance t u) (balances d) \<Longrightarrow> (t, u) \<notin> ?k ` set (balances d)"
    by (auto simp: list_ex_iff is_balance_def)
  ultimately show ?thesis
    using ok by (auto simp: sql_upsert_balance_def balances_ok_def Let_def)
qed

interpretation balances_inv: billing_invariant balances_ok every
  by unfold_locales
    (auto simp: preserved_def balances_upsert_ok,
     auto simp: sql_defs balances_ok_def ignores_audit_def Let_def)

lemma usage_key_taken_iff:
  "usage_key_taken k rows \<longleftrightarrow> k \<noteq> None \<and> k \<in> ue_key ` set (filter usage_keyed rows)"
  by (cases k) (force simp: usage_key_taken_def usage_keyed_def list_ex_iff)+

interpretation usages_inv: billing_invariant usages_ok every
  by unfold_locales
    (auto simp: preserved_def sql_defs usages_ok_def ignores_audit_def Let_def
      usage_key_taken_iff usage_keyed_def)

text \<open>At most one price of a resource and unit is current.\<close>

lemma expire_no_current:
  "pr_to r = None \<Longrightarrow> r \<in> set (sql_update (is_current_price t res u) (\<lambda>r. r\<lparr>pr_to := Some ts\<rparr>) rows) \<Longrightarrow>
     r \<in> set rows"
  by (auto simp: sql_update_def split: if_splits)

lemma expire_filter:
  "filter (\<lambda>r. pr_to r = None)
      (sql_update (is_current_price t res u) (\<lambda>r. r\<lparr>pr_to := Some ts\<rparr>) rows) =
    filter (\<lambda>r. pr_to r = None \<and> \<not> is_current_price t res u r) rows"
  by (induction rows) (auto simp: sql_update_def)

lemma distinct_map_filter_mono:
  "distinct (map f (filter P xs)) \<Longrightarrow> distinct (map f (filter (\<lambda>x. P x \<and> Q x) xs))"
  by (induction xs) (auto split: if_splits)

interpretation prices_inv: billing_invariant prices_ok every
proof unfold_locales
  fix res un :: string and ts t
  show "preserved prices_ok (sql_expire_price res un ts t)"
    by (auto simp: preserved_def sql_expire_price_def prices_ok_def expire_filter
        intro: distinct_map_filter_mono)
qed (auto simp: preserved_def sql_defs prices_ok_def ignores_audit_def Let_def
      is_current_price_def list_ex_iff)

text \<open>A key that is taken stays taken.\<close>

interpretation taken: billing_invariant "\<lambda>d. key_taken k (ledger d)" every
  by unfold_locales
    (auto simp: preserved_def sql_defs ignores_audit_def Let_def key_taken_def split: option.splits)

text \<open>Posting to the ledger does not change what a rollup reads.\<close>

definition inputs :: "db \<Rightarrow> usage_row list \<times> price_row list \<times> uuid list \<times> uuid list" where
  "inputs d = (usages d, prices d, db_tenants d, db_users d)"

interpretation fixed_inputs: ledger_invariant "\<lambda>d. inputs d = x" every
  by unfold_locales
    (auto simp: preserved_def sql_defs ignores_audit_def Let_def inputs_def)

text \<open>Requests for other users touch neither the ledger rows nor the cache row of a user.\<close>

definition account :: "uuid \<Rightarrow> uuid \<Rightarrow> db \<Rightarrow> ledger_row list \<times> balance_row list" where
  "account t u d = (filter (mine t u) (ledger d), filter (is_balance t u) (balances d))"

lemma filter_update_other:
  "(\<And>r. P r \<Longrightarrow> \<not> Q r) \<Longrightarrow> (\<And>r. P r \<Longrightarrow> \<not> Q (f r)) \<Longrightarrow>
     filter Q (sql_update P f rows) = filter Q rows"
  by (induction rows) (auto simp: sql_update_def)

interpretation isolation: billing_invariant "\<lambda>d. account t v d = x" "\<lambda>u. u \<noteq> v"
proof unfold_locales
  fix u c cur ts t'
  assume "u \<noteq> v"
  then show "preserved (\<lambda>d. account t v d = x) (sql_upsert_balance u c cur ts t')"
    by (auto simp: preserved_def sql_upsert_balance_def account_def Let_def is_balance_def
        intro!: filter_update_other)
qed (auto simp: preserved_def sql_defs ignores_audit_def Let_def account_def mine_def)

end
