(* ===== verification/Billing_Props.thy ===== *)
theory Billing_Props
  imports Billing_Inv
begin

text \<open>
  What the operations of the billing service do. Each is evaluated on a request whose database
  calls run undisturbed (an empty schedule); the claims that hold under every schedule are at
  the end, over the requests of the service as a transition system.
\<close>

section \<open>Sums of the ledger\<close>

definition signed :: "ledger_row \<Rightarrow> int" where
  "signed r = (if le_type r = ''credit'' then le_amount r
               else if le_type r = ''debit'' then - le_amount r else 0)"

lemma sum_type_simps [simp]:
  "sum_type ty [] = 0"
  "sum_type ty (r # rows) = (if le_type r = ty then le_amount r else 0) + sum_type ty rows"
  "sum_type ty (rows @ rows') = sum_type ty rows + sum_type ty rows'"
  by (simp_all add: sum_type_def)

lemma balance_of_append [simp]:
  "balance_of t u (rows @ rows') = balance_of t u rows + balance_of t u rows'"
  by (simp add: balance_of_def)

lemma balance_of_Nil [simp]: "balance_of t u [] = 0"
  by (simp add: balance_of_def)

lemma balance_of_single [simp]: "balance_of t u [r] = (if mine t u r then signed r else 0)"
  by (simp add: balance_of_def signed_def)

lemma balance_of_signed:
  "balance_of t u rows = sum_list (map signed (filter (mine t u) rows))"
proof (induction rows)
  case (Cons r rows)
  have "balance_of t u (r # rows) = balance_of t u [r] + balance_of t u rows"
    using balance_of_append [of t u "[r]" rows] by simp
  then show ?case using Cons by simp
qed simp

section \<open>Requests that run undisturbed\<close>

lemma quiet_helpers [simp]:
  "sched w = [] \<Longrightarrow> run_state (tenant_call (Some t) (\<lambda>t. read_db (f t))) w = (f t (wdb w), w)"
  by simp

lemma run_emitEvent [simp]:
  "run_state (emitEvent s ctx topic t u r m) w =
     ((), if sv_bus s then w\<lparr>events := events w @
        [\<lparr>ev_topic = topic, ev_tenant = t,
          ev_actor_type = (if u \<noteq> uuid_nil then ''user'' else ''system''),
          ev_actor = u, ev_resource = r, ev_meta = m, ev_at = db_now (wdb w)\<rparr>]\<rparr> else w)"
  by (simp add: emitEvent_def)

text \<open>Auditing leaves everything but the audit tables and the UUID supply alone.\<close>

definition but_audit :: "db \<Rightarrow> db" where
  "but_audit d = d\<lparr>db_next := 0, audits := [], outcomes := []\<rparr>"

definition audited :: "world \<Rightarrow> world \<Rightarrow> bool" where
  "audited w w' \<longleftrightarrow>
     but_audit (wdb w') = but_audit (wdb w) \<and> db_next (wdb w) \<le> db_next (wdb w') \<and>
     sched w' = sched w \<and> events w' = events w"

lemma audited_refl [simp]: "audited w w"
  by (simp add: audited_def)

lemma auditedD:
  assumes "audited w w'"
  shows "sched w' = sched w" "events w' = events w"
    "ledger (wdb w') = ledger (wdb w)" "balances (wdb w') = balances (wdb w)"
    "usages (wdb w') = usages (wdb w)" "prices (wdb w') = prices (wdb w)"
    "receipts (wdb w') = receipts (wdb w)" "db_now (wdb w') = db_now (wdb w)"
    "db_tenants (wdb w') = db_tenants (wdb w)" "db_users (wdb w') = db_users (wdb w)"
    "plans (wdb w') = plans (wdb w)" "pms (wdb w') = pms (wdb w)" "subs (wdb w') = subs (wdb w)"
    "promos (wdb w') = promos (wdb w)" "webhooks (wdb w') = webhooks (wdb w)"
    "db_next (wdb w) \<le> db_next (wdb w')"
  using assms
  by (cases "wdb w"; cases "wdb w'"; simp add: audited_def but_audit_def)+

lemma audited_emit:
  assumes "sched w = []"
  shows "audited w (snd (run_state (auditEmit e a ty t u r m) w))"
proof -
  have "audited w (snd (run_state (db_call (sql_create_audit row)) w))" for row
    using assms by (simp add: sql_create_audit_def Let_def audited_def but_audit_def)
  then show ?thesis
    by (cases e)
      (simp_all add: auditEmit_def audit_Emit_def DBEmitter_Emit_def Let_def split_beta
        split: sum.split)
qed

lemma audited_mark:
  assumes "sched w = []"
  shows "audited w (snd (run_state (auditMarkOutcome e i b m) w))"
proof -
  have "audited w (snd (run_state (db_call (sql_create_outcome i st m)) w))" for st m
    using assms by (simp add: sql_create_outcome_def Let_def audited_def but_audit_def)
  then show ?thesis
    by (cases e)
      (simp_all add: auditMarkOutcome_def audit_MarkOutcome_def DBEmitter_MarkOutcome_def Let_def
        split_beta split: sum.split)
qed

lemma auditEmit_cases:
  assumes "sched w = []"
  obtains i w' where "run_state (auditEmit e a ty t u r m) w = (i, w')" "audited w w'" "sched w' = []"
  using audited_emit [OF assms, of e a ty t u r m] assms
  by (metis auditedD(1) prod.collapse)

lemma auditMark_cases:
  assumes "sched w = []"
  obtains w' where "run_state (auditMarkOutcome e i b m) w = ((), w')" "audited w w'" "sched w' = []"
  using audited_mark [OF assms, of e i b m] assms
  by (metis (full_types) auditedD(1) prod.collapse old.unit.exhaust)

section \<open>The balance cache\<close>

definition cached :: "uuid \<Rightarrow> uuid \<Rightarrow> db \<Rightarrow> int option" where
  "cached t u d = (case find (is_balance t u) (balances d) of
     None \<Rightarrow> None | Some b \<Rightarrow> Some (ub_cents b))"

lemma find_update_same:
  "P r' \<Longrightarrow> list_ex P rows \<Longrightarrow> find P (sql_update P (\<lambda>_. r') rows) = Some r'"
  by (induction rows) (auto simp: sql_update_def)

lemma find_update_other:
  "(\<And>r. P r \<Longrightarrow> \<not> Q r) \<Longrightarrow> (\<And>r. P r \<Longrightarrow> \<not> Q (f r)) \<Longrightarrow>
     find Q (sql_update P f rows) = find Q rows"
  by (induction rows) (auto simp: sql_update_def)

lemma find_append: "find P (xs @ ys) = (case find P xs of None \<Rightarrow> find P ys | Some x \<Rightarrow> Some x)"
  by (induction xs) auto

lemma find_None_ex: "find P xs = None \<longleftrightarrow> \<not> list_ex P xs"
  by (induction xs) auto

lemma find_balance_upsert:
  assumes "fk_ok t u d"
  shows "find (is_balance t' u') (balances (snd (sql_upsert_balance u c cur ts t d))) =
    (if t' = t \<and> u' = u
     then Some \<lparr>ub_tenant = t, ub_user = u, ub_cents = c, ub_currency = cur,
                ub_last_entry = ts, ub_updated = db_now d\<rparr>
     else find (is_balance t' u') (balances d))"
    (is "_ = (if _ then Some ?row else _)")
proof -
  have row: "is_balance x y ?row \<longleftrightarrow> x = t \<and> y = u" for x y
    by (auto simp: is_balance_def)
  show ?thesis
  proof (cases "t' = t \<and> u' = u")
    case True
    then show ?thesis
      using assms find_update_same [of "is_balance t u" ?row "balances d"] row
      by (auto simp: sql_upsert_balance_def Let_def find_append find_None_ex [THEN iffD2])
  next
    case False
    then have "find (is_balance t' u') (sql_update (is_balance t u) (\<lambda>_. ?row) (balances d)) =
        find (is_balance t' u') (balances d)"
      by (intro find_update_other) (auto simp: is_balance_def)
    with False show ?thesis
      using assms row
      by (auto simp: sql_upsert_balance_def Let_def find_append split: option.splits)
  qed
qed

lemma fst_upsert [simp]: "fk_ok t u d \<Longrightarrow> fst (sql_upsert_balance u c cur ts t d) = Inr ()"
  by (simp add: sql_upsert_balance_def Let_def)

lemma upsert_frame [simp]:
  "ledger (snd (sql_upsert_balance u c cur ts t d)) = ledger d"
  "usages (snd (sql_upsert_balance u c cur ts t d)) = usages d"
  "db_users (snd (sql_upsert_balance u c cur ts t d)) = db_users d"
  "db_tenants (snd (sql_upsert_balance u c cur ts t d)) = db_tenants d"
  "db_now (snd (sql_upsert_balance u c cur ts t d)) = db_now d"
  "db_next (snd (sql_upsert_balance u c cur ts t d)) = db_next d"
  "audits (snd (sql_upsert_balance u c cur ts t d)) = audits d"
  "outcomes (snd (sql_upsert_balance u c cur ts t d)) = outcomes d"
  by (simp_all add: sql_upsert_balance_def Let_def)

text \<open>The row the cache holds after a refresh, and the event of a crossing.\<close>

definition refreshed_db :: "service \<Rightarrow> uuid \<Rightarrow> uuid \<Rightarrow> db \<Rightarrow> db" where
  "refreshed_db s t u d =
     snd (sql_upsert_balance u (balance_of t u (ledger d))
            (orUSD (cf_currency (sv_config s))) (db_now d) t d)"

definition crosses_low :: "service \<Rightarrow> uuid \<Rightarrow> uuid \<Rightarrow> db \<Rightarrow> bool" where
  "crosses_low s t u d \<longleftrightarrow>
     (case cached t u d of None \<Rightarrow> False
      | Some c \<Rightarrow> c > cf_low (sv_config s) \<and> balance_of t u (ledger d) \<le> cf_low (sv_config s))"

lemma run_refreshBalance:
  assumes "sched w = []" "fk_ok t u (wdb w)" "in_int64 (balance_of t u (ledger (wdb w)))"
  shows "run_state (refreshBalance s (Some t) u) w =
    (Inr (), w\<lparr>wdb := refreshed_db s t u (wdb w),
       events := events w @
         (if crosses_low s t u (wdb w) \<and> sv_bus s
          then [\<lparr>ev_topic = ''billing.balance.low'', ev_tenant = t,
                 ev_actor_type = (if u \<noteq> uuid_nil then ''user'' else ''system''), ev_actor = u,
                 ev_resource = uuid_nil,
                 ev_meta = Some [(''balance_cents'', JInt (balance_of t u (ledger (wdb w)))),
                                 (''threshold'', JInt (cf_low (sv_config s)))],
                 ev_at = db_now (wdb w)\<rparr>] else [])\<rparr>)"
proof -
  obtain d' where d': "sql_upsert_balance u (balance_of t u (ledger (wdb w)))
      (orUSD (cf_currency (sv_config s))) (db_now (wdb w)) t (wdb w) = (Inr (), d')"
    using fst_upsert [OF assms(2)] by (metis prod.collapse)
  then have r: "refreshed_db s t u (wdb w) = d'" and n: "db_now d' = db_now (wdb w)"
    using upsert_frame(5) [of u "balance_of t u (ledger (wdb w))" "orUSD (cf_currency (sv_config s))"
        "db_now (wdb w)" t "wdb w"]
    by (simp_all add: refreshed_db_def)
  show ?thesis
    using assms d' r n
    by (cases "find (is_balance t u) (balances (wdb w))")
      (simp_all add: refreshBalance_def Ledger_SumForUser_def Balances_Get_def Balances_Upsert_def
        sql_bigint_def sql_one_def crosses_low_def cached_def)
qed

lemma refreshed_frame [simp]:
  "ledger (refreshed_db s t u d) = ledger d"
  "usages (refreshed_db s t u d) = usages d"
  "db_users (refreshed_db s t u d) = db_users d"
  "db_tenants (refreshed_db s t u d) = db_tenants d"
  "db_now (refreshed_db s t u d) = db_now d"
  by (simp_all add: refreshed_db_def)

lemma cached_refreshed:
  "fk_ok t u d \<Longrightarrow> cached t' u' (refreshed_db s t u d) =
     (if t' = t \<and> u' = u then Some (balance_of t u (ledger d)) else cached t' u' d)"
  by (simp add: cached_def refreshed_db_def find_balance_upsert)

section \<open>Credits and charges\<close>

definition new_ledger_row :: "ledger_params \<Rightarrow> uuid \<Rightarrow> db \<Rightarrow> ledger_row" where
  "new_ledger_row p t d =
     \<lparr>le_id = db_next d, le_tenant = t, le_user = lp_user p, le_type = lp_type p,
      le_amount = lp_amount p, le_currency = lp_currency p, le_source = lp_source p,
      le_reference = lp_reference p, le_key = lp_key p,
      le_meta = (case lp_meta p of None \<Rightarrow> [] | Some m \<Rightarrow> m), le_created = db_now d\<rparr>"

lemma create_ledger_ok:
  "0 \<le> lp_amount p \<Longrightarrow> \<not> key_taken (lp_key p) (ledger d) \<Longrightarrow> fk_ok t (lp_user p) d \<Longrightarrow>
     sql_create_ledger p t d =
       (Inr (new_ledger_row p t d),
        d\<lparr>db_next := Suc (db_next d), ledger := ledger d @ [new_ledger_row p t d]\<rparr>)"
  by (simp add: sql_create_ledger_def new_ledger_row_def Let_def)

lemma new_ledger_row_simps [simp]:
  "le_id (new_ledger_row p t d) = db_next d" "le_tenant (new_ledger_row p t d) = t"
  "le_user (new_ledger_row p t d) = lp_user p" "le_type (new_ledger_row p t d) = lp_type p"
  "le_amount (new_ledger_row p t d) = lp_amount p" "le_key (new_ledger_row p t d) = lp_key p"
  "le_source (new_ledger_row p t d) = lp_source p"
  "le_reference (new_ledger_row p t d) = lp_reference p"
  "le_currency (new_ledger_row p t d) = lp_currency p"
  by (simp_all add: new_ledger_row_def)

lemma key_taken_None [simp]: "\<not> key_taken None rows"
  by (simp add: key_taken_def)

lemma fk_ok_simps [simp]:
  "fk_ok t u (d\<lparr>db_next := n\<rparr>) = fk_ok t u d" "fk_ok t u (d\<lparr>ledger := l\<rparr>) = fk_ok t u d"
  "fk_ok t u (d\<lparr>audits := a\<rparr>) = fk_ok t u d" "fk_ok t u (d\<lparr>balances := b\<rparr>) = fk_ok t u d"
  by (simp_all add: fk_ok_def)

lemma cached_simps [simp]:
  "cached t u (d\<lparr>db_next := n\<rparr>) = cached t u d" "cached t u (d\<lparr>ledger := l\<rparr>) = cached t u d"
  by (simp_all add: cached_def)

text \<open>
  The effect a posted entry has on the tables: the row at the end of the ledger, the cache of
  its user set to the new sum, every other user's cache untouched.
\<close>

definition posted :: "uuid \<Rightarrow> ledger_row \<Rightarrow> db \<Rightarrow> db \<Rightarrow> bool" where
  "posted t row d d' \<longleftrightarrow>
     ledger d' = ledger d @ [row] \<and> le_tenant row = t \<and>
     cached t (le_user row) d' = Some (balance_of t (le_user row) (ledger d) + signed row) \<and>
     (\<forall>t' u'. (t', u') = (t, le_user row) \<or> cached t' u' d' = cached t' u' d)"

lemma audited_fk_ok: "audited w w' \<Longrightarrow> fk_ok t u (wdb w') = fk_ok t u (wdb w)"
  by (simp add: fk_ok_def auditedD)

lemma audited_cached: "audited w w' \<Longrightarrow> cached t u (wdb w') = cached t u (wdb w)"
  by (simp add: cached_def auditedD)

lemma run_settle_credit:
  assumes w: "sched w = []" and fk: "fk_ok t u (wdb w)"
    and bal: "in_int64 (balance_of t u (ledger (wdb w)))"
  obtains w' where "run_state (settle_credit s (Some t) t u a row topic m) w = (Inr row, w')"
    "ledger (wdb w') = ledger (wdb w)" "sched w' = []"
    "\<And>t' u'. cached t' u' (wdb w') = (if t' = t \<and> u' = u
       then Some (balance_of t u (ledger (wdb w))) else cached t' u' (wdb w))"
    "\<exists>es. events w' = events w @ es \<and> (sv_bus s \<longrightarrow> (\<exists>e. es \<noteq> [] \<and> e = last es \<and>
       ev_topic e = topic \<and> ev_meta e = Some m \<and> ev_resource e = le_id row \<and> ev_actor e = u))"
proof -
  define w1 where "w1 = snd (run_state (refreshBalance s (Some t) u) w)"
  note run = run_refreshBalance [OF w fk bal, of s]
  have w1: "run_state (refreshBalance s (Some t) u) w = (Inr (), w1)" "sched w1 = []"
    "wdb w1 = refreshed_db s t u (wdb w)" "\<exists>es. events w1 = events w @ es"
    using run w by (auto simp: w1_def)
  obtain w2 where w2: "run_state (auditMarkOutcome (sv_audit s) a True
      (Some [(''ledger_id'', JUuid (le_id row))])) w1 = ((), w2)" "audited w1 w2" "sched w2 = []"
    using auditMark_cases [OF w1(2)] by metis
  define w' where "w' = snd (run_state (settle_credit s (Some t) t u a row topic m) w)"
  have run': "run_state (settle_credit s (Some t) t u a row topic m) w = (Inr row, w')"
    and w': "wdb w' = wdb w2" "sched w' = sched w2"
    "events w' = events w2 \<and> \<not> sv_bus s \<or> (\<exists>e. events w' = events w2 @ [e] \<and>
       ev_topic e = topic \<and> ev_meta e = Some m \<and> ev_resource e = le_id row \<and> ev_actor e = u)"
    using w1 w2 by (auto simp: w'_def settle_credit_def)
  obtain es where es: "events w2 = events w @ es"
    using w1(4) auditedD(2) [OF w2(2)] by auto
  show thesis
  proof (rule that [OF run'])
    show "ledger (wdb w') = ledger (wdb w)" "sched w' = []"
      using w' w1 w2 by (simp_all add: auditedD)
    show "cached t' u' (wdb w') = (if t' = t \<and> u' = u
       then Some (balance_of t u (ledger (wdb w))) else cached t' u' (wdb w))" for t' u'
      using w' w1(3) audited_cached [OF w2(2)] cached_refreshed [OF fk] by simp
    show "\<exists>es. events w' = events w @ es \<and> (sv_bus s \<longrightarrow> (\<exists>e. es \<noteq> [] \<and> e = last es \<and>
       ev_topic e = topic \<and> ev_meta e = Some m \<and> ev_resource e = le_id row \<and> ev_actor e = u))"
      using w'(3)
    proof
      assume "events w' = events w2 \<and> \<not> sv_bus s"
      then show ?thesis using es by auto
    next
      assume "\<exists>e. events w' = events w2 @ [e] \<and>
       ev_topic e = topic \<and> ev_meta e = Some m \<and> ev_resource e = le_id row \<and> ev_actor e = u"
      then obtain e where "events w' = events w @ (es @ [e])" "ev_topic e = topic"
        "ev_meta e = Some m" "ev_resource e = le_id row" "ev_actor e = u"
        using es by auto
      then show ?thesis by (intro exI [of _ "es @ [e]"]) auto
    qed
  qed
qed

lemma run_Ledger_Create:
  assumes "sched w = []" "0 \<le> lp_amount p" "\<not> key_taken (lp_key p) (ledger (wdb w))"
    "fk_ok t (lp_user p) (wdb w)"
  shows "run_state (Ledger_Create (Some t) p) w =
     (let q = p\<lparr>lp_currency := orUSD (lp_currency p)\<rparr>; row = new_ledger_row q t (wdb w)
      in (Inr row, w\<lparr>wdb := (wdb w)\<lparr>db_next := Suc (db_next (wdb w)),
                                      ledger := ledger (wdb w) @ [row]\<rparr>\<rparr>))"
  using assms by (simp add: Ledger_Create_def create_ledger_ok Let_def)

text \<open>The part \<open>Topup\<close> and \<open>Refund\<close> share: audit, insert, settle.\<close>

lemma run_credit:
  assumes w: "sched w = []" and amount: "0 \<le> lp_amount q" and key: "lp_key q = None"
    and fk: "fk_ok t (lp_user q) (wdb w)"
    and bal: "in_int64 (balance_of t (lp_user q) (ledger (wdb w)) + lp_amount q)"
    and ty: "lp_type q = ''credit''"
  obtains i row w' where
    "run_state (do {
       auditID \<leftarrow> auditEmit (sv_audit s) act ty' t actor r m;
       created \<leftarrow> Ledger_Create (Some t) q;
       case created of
         Inl e \<Rightarrow> bad auditID e
       | Inr row \<Rightarrow> settle_credit s (Some t) t (lp_user q) auditID row topic (mm row) }) w
     = (Inr row, w')"
    "posted t row (wdb w) (wdb w')" "sched w' = []"
    "le_user row = lp_user q" "le_amount row = lp_amount q" "le_type row = ''credit''"
    "le_source row = lp_source q" "le_currency row = orUSD (lp_currency q)" "le_key row = None"
    "\<exists>es. events w' = events w @ es \<and> (sv_bus s \<longrightarrow> (\<exists>e. es \<noteq> [] \<and> e = last es \<and>
       ev_topic e = topic \<and> ev_resource e = le_id row \<and> ev_actor e = lp_user q))"
proof -
  obtain i w1 where w1: "run_state (auditEmit (sv_audit s) act ty' t actor r m) w = (i, w1)"
    "audited w w1" "sched w1 = []"
    using auditEmit_cases [OF w] by metis
  define row where
    "row = new_ledger_row (q\<lparr>lp_currency := orUSD (lp_currency q)\<rparr>) t (wdb w1)"
  define w2 where "w2 = w1\<lparr>wdb := (wdb w1)\<lparr>db_next := Suc (db_next (wdb w1)),
    ledger := ledger (wdb w1) @ [row]\<rparr>\<rparr>"
  have fk1: "fk_ok t (lp_user q) (wdb w1)" using fk audited_fk_ok [OF w1(2)] by simp
  have create: "run_state (Ledger_Create (Some t) q) w1 = (Inr row, w2)"
    using w1(3) amount key fk1 by (simp add: run_Ledger_Create w2_def row_def Let_def)
  have row: "le_tenant row = t" "le_user row = lp_user q" "le_type row = ''credit''"
    "le_amount row = lp_amount q" "le_source row = lp_source q" "le_key row = None"
    "le_currency row = orUSD (lp_currency q)"
    using ty key by (simp_all add: row_def)
  have l2: "ledger (wdb w2) = ledger (wdb w) @ [row]"
    by (simp add: w2_def auditedD [OF w1(2)])
  have sum2: "balance_of t (lp_user q) (ledger (wdb w2)) =
      balance_of t (lp_user q) (ledger (wdb w)) + lp_amount q"
    by (simp add: l2 mine_def signed_def row)
  obtain w3 where w3: "run_state (settle_credit s (Some t) t (lp_user q) i row topic (mm row)) w2
      = (Inr row, w3)" "ledger (wdb w3) = ledger (wdb w2)" "sched w3 = []"
    "\<And>t' u'. cached t' u' (wdb w3) = (if t' = t \<and> u' = lp_user q
       then Some (balance_of t (lp_user q) (ledger (wdb w2))) else cached t' u' (wdb w2))"
    "\<exists>es. events w3 = events w2 @ es \<and> (sv_bus s \<longrightarrow> (\<exists>e. es \<noteq> [] \<and> e = last es \<and>
       ev_topic e = topic \<and> ev_meta e = Some (mm row) \<and> ev_resource e = le_id row \<and>
       ev_actor e = lp_user q))"
    by (rule run_settle_credit [of w2 t "lp_user q" s i row topic "mm row"])
      (use w1(3) fk1 bal sum2 in \<open>simp_all add: w2_def\<close>)
  have ev: "events w2 = events w" by (simp add: w2_def auditedD [OF w1(2)])
  show thesis
  proof (rule that)
    show "posted t row (wdb w) (wdb w3)"
      using w3(2,4) l2 sum2 row audited_cached [OF w1(2)]
      by (simp add: posted_def signed_def w2_def)
    show "\<exists>es. events w3 = events w @ es \<and> (sv_bus s \<longrightarrow> (\<exists>e. es \<noteq> [] \<and> e = last es \<and>
       ev_topic e = topic \<and> ev_resource e = le_id row \<and> ev_actor e = lp_user q))"
      using w3(5) ev by auto
  qed (use w1 create w3 row in simp_all)
qed

lemma validateAmount_iff [simp]:
  "validateAmount a = Inr x \<longleftrightarrow> 0 < a" "validateAmount a = Inl e \<longleftrightarrow> a \<le> 0 \<and> e = Sentinel ErrInvalidAmount"
  by (auto simp: validateAmount_def)

lemma validateAmount_ok: "0 < a \<Longrightarrow> validateAmount a = Inr ()"
  by (simp add: validateAmount_def)

definition currency_ok :: "service \<Rightarrow> string \<Rightarrow> bool" where
  "currency_ok s c \<longleftrightarrow> validateCurrency (currencyOrDefault s c) = Inr ()"

lemma run_Topup:
  assumes "sched w = []" "tp_user p \<noteq> uuid_nil" "0 < tp_amount p" "currency_ok s (tp_currency p)"
    "fk_ok t (tp_user p) (wdb w)"
    "in_int64 (balance_of t (tp_user p) (ledger (wdb w)) + tp_amount p)"
  obtains row w' where "run_state (Topup s (Some t) t actor p) w = (Inr row, w')"
    "posted t row (wdb w) (wdb w')" "sched w' = []"
    "le_user row = tp_user p" "le_amount row = tp_amount p" "le_type row = ''credit''"
    "le_source row = ''topup''" "le_key row = None"
    "\<exists>es. events w' = events w @ es \<and> (sv_bus s \<longrightarrow> (\<exists>e. es \<noteq> [] \<and> e = last es \<and>
       ev_topic e = ''billing.balance.topped_up'' \<and> ev_resource e = le_id row \<and>
       ev_actor e = tp_user p))"
proof -
  define q where "q = \<lparr>lp_user = tp_user p, lp_type = ''credit'', lp_amount = tp_amount p,
    lp_currency = currencyOrDefault s (tp_currency p), lp_source = ''topup'',
    lp_reference = tp_reference p, lp_key = None,
    lp_meta = Some [(''actor_user_id'', JUuid actor)]\<rparr>"
  have q: "lp_user q = tp_user p" "lp_amount q = tp_amount p" "lp_key q = None"
    "lp_type q = ''credit''" "lp_source q = ''topup''"
    by (simp_all add: q_def)
  show thesis
    by (rule run_credit [of w q t s "''billing.balance.topup''" "''ledger_entry''" actor uuid_nil
          "Some [(''user_id'', JUuid (tp_user p)), (''amount'', JInt (tp_amount p)),
             (''currency'', JStr (currencyOrDefault s (tp_currency p))),
             (''reference'', JStr (tp_reference p)), (''privileged'', JBool True)]"
          "\<lambda>auditID e. do {
             auditMarkOutcome (sv_audit s) auditID False (Some [(''error'', JErr e)]);
             fail (Wrap ''billing.topup'' e) }" "''billing.balance.topped_up''"
          "\<lambda>row. [(''amount_cents'', JInt (tp_amount p)),
             (''currency'', JStr (currencyOrDefault s (tp_currency p))),
             (''reference'', JStr (tp_reference p)), (''ledger_id'', JUuid (le_id row))]"])
      (use assms q in \<open>auto simp: Topup_def validateAmount_ok currency_ok_def Let_def
         simp flip: q_def intro: that\<close>)
qed

lemma run_Refund:
  assumes "sched w = []" "rf_user p \<noteq> uuid_nil" "0 < rf_amount p" "currency_ok s (rf_currency p)"
    "fk_ok t (rf_user p) (wdb w)"
    "in_int64 (balance_of t (rf_user p) (ledger (wdb w)) + rf_amount p)"
  obtains row w' where "run_state (Refund s (Some t) t actor p) w = (Inr row, w')"
    "posted t row (wdb w) (wdb w')" "sched w' = []"
    "le_user row = rf_user p" "le_amount row = rf_amount p" "le_type row = ''credit''"
    "le_source row = ''refund''" "le_key row = None"
proof -
  let ?cur = "currencyOrDefault s (rf_currency p)"
  let ?m = "case rf_charge p of None \<Rightarrow> [(''actor_user_id'', JUuid actor)]
    | Some c \<Rightarrow> [(''actor_user_id'', JUuid actor), (''original_charge_id'', JUuid c)]"
  define q where "q = \<lparr>lp_user = rf_user p, lp_type = ''credit'', lp_amount = rf_amount p,
    lp_currency = ?cur, lp_source = ''refund'', lp_reference = rf_reference p, lp_key = None,
    lp_meta = Some ?m\<rparr>"
  have q: "lp_user q = rf_user p" "lp_amount q = rf_amount p" "lp_key q = None"
    "lp_type q = ''credit''" "lp_source q = ''refund''"
    by (simp_all add: q_def)
  show thesis
    by (rule run_credit [of w q t s "''billing.balance.refund''" "''ledger_entry''" actor uuid_nil
          "Some [(''user_id'', JUuid (rf_user p)), (''amount'', JInt (rf_amount p)),
             (''currency'', JStr ?cur), (''reference'', JStr (rf_reference p)),
             (''charge_id'', JUuidOpt (rf_charge p)), (''privileged'', JBool True)]"
          "\<lambda>auditID e. do {
             auditMarkOutcome (sv_audit s) auditID False (Some [(''error'', JErr e)]);
             fail (Wrap ''billing.refund'' e) }" "''billing.balance.refunded''"
          "\<lambda>row. [(''amount_cents'', JInt (rf_amount p)), (''currency'', JStr ?cur),
             (''reference'', JStr (rf_reference p)), (''ledger_id'', JUuid (le_id row))]"])
      (use assms q in \<open>auto simp: Refund_def validateAmount_ok currency_ok_def Let_def
         simp flip: q_def intro: that\<close>)
qed

section \<open>Idempotent inserts\<close>

text \<open>
  The interface of a table with an idempotency key: a tenant's lookup finds the first row of
  that tenant with the key, and an insert under a key some row already carries is refused with
  a unique violation. \<open>dedup\<close> and \<open>insert_failed\<close> are used over it.
\<close>

locale keyed_table =
  fixes rows :: "db \<Rightarrow> 'r list"
    and row_id :: "'r \<Rightarrow> uuid" and row_tenant :: "'r \<Rightarrow> uuid" and row_key :: "'r \<Rightarrow> string option"
    and find_key :: "ctx \<Rightarrow> string \<Rightarrow> 'r result prog"
    and insert_row :: "'p \<Rightarrow> uuid \<Rightarrow> db \<Rightarrow> 'r result \<times> db"
    and key_of :: "'p \<Rightarrow> string option" and insertable :: "'p \<Rightarrow> bool"
  assumes find_key: "find_key (Some t) k =
      tenant_call (Some t) (\<lambda>t. read_db (\<lambda>d.
        sql_one (\<lambda>r. row_tenant r = t \<and> row_key r = Some k) (rows d)))"
    and insert_taken: "insertable p \<Longrightarrow> key_of p = Some k \<Longrightarrow> r \<in> set (rows d) \<Longrightarrow>
      row_key r = Some k \<Longrightarrow> insert_row p t d = (Inl (Pg UniqueViolation), d)"
begin

definition holder :: "uuid \<Rightarrow> string \<Rightarrow> db \<Rightarrow> 'r option" where
  "holder t k d = find (\<lambda>r. row_tenant r = t \<and> row_key r = Some k) (rows d)"

lemma holder_in: "holder t k d = Some r \<Longrightarrow> r \<in> set (rows d) \<and> row_tenant r = t \<and> row_key r = Some k"
  by (auto simp: holder_def find_Some_iff)

lemma run_find_key:
  "sched w = [] \<Longrightarrow> run_state (find_key (Some t) k) w =
     (case holder t k (wdb w) of None \<Rightarrow> Inl (Pg NoRows) | Some r \<Rightarrow> Inr r, w)"
  by (simp add: find_key sql_one_def holder_def split: option.split)

lemma dedup_seen:
  assumes "sched w = []" "k \<noteq> ''''" "holder t k (wdb w) = Some r" "row_id r \<noteq> uuid_nil"
  shows "run_state (dedup (Some k) (find_key (Some t)) row_id c) w = (Some (Inr r), w)"
  using assms by (simp add: dedup_def run_find_key)

lemma dedup_fresh:
  assumes "sched w = []" "\<And>k. key = Some k \<Longrightarrow> holder t k (wdb w) = None"
  shows "run_state (dedup key (find_key (Some t)) row_id c) w = (None, w)"
  using assms by (auto simp: dedup_def run_find_key split: option.split)

text \<open>
  The lost race: between the lookup and the insert another transaction takes the key. The
  caller gets the winner's row when it is of the same tenant, and the duplicate-key error
  otherwise; the table is as the winner left it.
\<close>

lemma lost_race:
  assumes "sched w = [Quiet, Other g]" "k \<noteq> ''''" "holder t k (wdb w) = None"
    "insertable p" "key_of p = Some k" "r \<in> set (rows (g (wdb w)))" "row_key r = Some k"
  shows "run_state (do {
      seen \<leftarrow> dedup (Some k) (find_key (Some t)) row_id c;
      case seen of
        Some answer \<Rightarrow> ret answer
      | None \<Rightarrow> do {
          created \<leftarrow> tenant_call (Some t) (insert_row p);
          case created of
            Inl e \<Rightarrow> insert_failed (Some k) (find_key (Some t)) c' e
          | Inr row \<Rightarrow> f row } }) w =
    (case holder t k (g (wdb w)) of
       None \<Rightarrow> Inl (Sentinel ErrDuplicateIdempotencyKey) | Some r' \<Rightarrow> Inr r',
     w\<lparr>wdb := g (wdb w), sched := []\<rparr>)"
proof -
  have calm: "run_state (find_key (Some t) k) w =
      (case holder t k (wdb w) of None \<Rightarrow> Inl (Pg NoRows) | Some r \<Rightarrow> Inr r,
       w\<lparr>sched := [Other g]\<rparr>)"
    using assms(1) by (cases w) (simp add: find_key sql_one_def holder_def split: option.split)
  have taken: "insert_row p t (g (wdb w)) = (Inl (Pg UniqueViolation), g (wdb w))"
    using assms(4-7) by (rule insert_taken)
  show ?thesis
    using assms(1-3) calm taken
    by (simp add: dedup_def insert_failed_def run_find_key split: option.split)
qed

end

lemma ledger_insert_taken:
  "0 \<le> lp_amount p \<Longrightarrow> lp_key p = Some k \<Longrightarrow> r \<in> set (ledger d) \<Longrightarrow> le_key r = Some k \<Longrightarrow>
     sql_create_ledger p t d = (Inl (Pg UniqueViolation), d)"
  by (auto simp: sql_create_ledger_def key_taken_def list_ex_iff)

lemma usage_insert_taken:
  "0 \<le> up_qty p \<Longrightarrow> up_key p = Some k \<Longrightarrow> r \<in> set (usages d) \<Longrightarrow> ue_key r = Some k \<Longrightarrow>
     sql_create_usage p t d = (Inl (Pg UniqueViolation), d)"
  by (auto simp: sql_create_usage_def usage_key_taken_def list_ex_iff)

interpretation charges: keyed_table ledger le_id le_tenant le_key Ledger_GetByIdempotencyKey
    sql_create_ledger lp_key "\<lambda>p. 0 \<le> lp_amount p"
  by unfold_locales (simp add: Ledger_GetByIdempotencyKey_def, rule ledger_insert_taken)

interpretation records: keyed_table usages ue_id ue_tenant ue_key Usage_GetByIdempotencyKey
    sql_create_usage up_key "\<lambda>p. 0 \<le> up_qty p"
  by unfold_locales (simp add: Usage_GetByIdempotencyKey_def, rule usage_insert_taken)

lemma key_fresh_holder: "\<not> key_taken (Some k) (ledger d) \<Longrightarrow> charges.holder t k d = None"
  by (auto simp: key_taken_def charges.holder_def list_ex_iff find_None_iff)

lemma run_PostCharge_new:
  assumes w: "sched w = []" and u: "ch_user p \<noteq> uuid_nil" and a: "0 < ch_amount p"
    and c: "currency_ok s (ch_currency p)" and fk: "fk_ok t (ch_user p) (wdb w)"
    and key: "\<not> key_taken (ch_key p) (ledger (wdb w))"
    and bal: "in_int64 (balance_of t (ch_user p) (ledger (wdb w)) - ch_amount p)"
  obtains row w' where "run_state (PostCharge s (Some t) t p) w = (Inr row, w')"
    "posted t row (wdb w) (wdb w')" "sched w' = []"
    "le_user row = ch_user p" "le_amount row = ch_amount p" "le_type row = ''debit''"
    "le_source row = ''charge''" "le_key row = ch_key p" "le_id row = db_next (wdb w)"
    "\<exists>b. find (is_balance t (ch_user p)) (balances (wdb w')) = Some b \<and>
       ub_last_entry b = db_now (wdb w)"
proof -
  define q where "q = \<lparr>lp_user = ch_user p, lp_type = ''debit'', lp_amount = ch_amount p,
    lp_currency = currencyOrDefault s (ch_currency p), lp_source = ''charge'',
    lp_reference = ch_reference p, lp_key = ch_key p, lp_meta = ch_meta p\<rparr>"
  define row where
    "row = new_ledger_row (q\<lparr>lp_currency := orUSD (lp_currency q)\<rparr>) t (wdb w)"
  define w2 where "w2 = w\<lparr>wdb := (wdb w)\<lparr>db_next := Suc (db_next (wdb w)),
    ledger := ledger (wdb w) @ [row]\<rparr>\<rparr>"
  have create: "run_state (Ledger_Create (Some t) q) w = (Inr row, w2)"
    using w a key fk by (simp add: run_Ledger_Create w2_def row_def Let_def q_def)
  have row: "le_tenant row = t" "le_user row = ch_user p" "le_type row = ''debit''"
    "le_amount row = ch_amount p" "le_source row = ''charge''" "le_key row = ch_key p"
    "le_id row = db_next (wdb w)"
    by (simp_all add: row_def q_def)
  have seen: "run_state (dedup (ch_key p) (Ledger_GetByIdempotencyKey (Some t)) le_id
      ''billing.charge: dedup lookup'') w = (None, w)"
    using key by (intro charges.dedup_fresh w) (auto dest: key_fresh_holder)
  have sum2: "balance_of t (ch_user p) (ledger (wdb w2)) =
      balance_of t (ch_user p) (ledger (wdb w)) - ch_amount p"
    by (simp add: w2_def mine_def signed_def row)
  have fk2: "fk_ok t (ch_user p) (wdb w2)" using fk by (simp add: w2_def)
  define w3 where "w3 = snd (run_state (refreshBalance s (Some t) (ch_user p)) w2)"
  have w2s: "sched w2 = []" and b2: "in_int64 (balance_of t (ch_user p) (ledger (wdb w2)))"
    using w bal sum2 by (simp_all add: w2_def)
  have w3: "run_state (refreshBalance s (Some t) (ch_user p)) w2 = (Inr (), w3)"
    "wdb w3 = refreshed_db s t (ch_user p) (wdb w2)" "sched w3 = []"
    using run_refreshBalance [OF w2s fk2 b2, of s] w2s by (simp_all add: w3_def)
  define w' where "w' = snd (run_state (PostCharge s (Some t) t p) w)"
  have run: "run_state (PostCharge s (Some t) t p) w = (Inr row, w')"
    "wdb w' = wdb w3" "sched w' = sched w3"
    using u a c seen create w3(1)
    by (simp_all add: w'_def PostCharge_def validateAmount_ok currency_ok_def Let_def
        flip: q_def)
  show thesis
  proof (rule that [OF run(1)])
    show "posted t row (wdb w) (wdb w')"
      using run(2) w3(2) sum2 row
      by (simp add: posted_def cached_refreshed [OF fk2] signed_def)
        (simp add: w2_def)
    show "\<exists>b. find (is_balance t (ch_user p)) (balances (wdb w')) = Some b \<and>
       ub_last_entry b = db_now (wdb w)"
      using run(2) w3(2) find_balance_upsert [OF fk2]
      by (simp add: refreshed_db_def) (simp add: w2_def)
  qed (use run w3 row in simp_all)
qed

lemma run_PostCharge_seen:
  assumes "sched w = []" "ch_user p \<noteq> uuid_nil" "0 < ch_amount p" "currency_ok s (ch_currency p)"
    "ch_key p = Some k" "k \<noteq> ''''" "charges.holder t k (wdb w) = Some r" "le_id r \<noteq> uuid_nil"
  shows "run_state (PostCharge s (Some t) t p) w = (Inr r, w)"
  using assms charges.dedup_seen [OF assms(1,6-8)]
  by (simp add: PostCharge_def validateAmount_ok currency_ok_def Let_def)

section \<open>Coherence of the cache with the ledger\<close>

text \<open>What a user is shown as the balance, and that it is the sum of the user's ledger.\<close>

definition shown :: "uuid \<Rightarrow> uuid \<Rightarrow> db \<Rightarrow> int" where
  "shown t u d = (case cached t u d of None \<Rightarrow> 0 | Some c \<Rightarrow> c)"

definition account_ids :: "db \<Rightarrow> (uuid \<times> uuid) list" where
  "account_ids d = map (\<lambda>b. (ub_tenant b, ub_user b)) (balances d) @
     map (\<lambda>r. (le_tenant r, le_user r)) (ledger d)"

definition coherent :: "db \<Rightarrow> bool" where
  "coherent d \<longleftrightarrow> list_all (\<lambda>(t, u). shown t u d = balance_of t u (ledger d)) (account_ids d)"

lemma balance_of_stranger:
  "(t, u) \<notin> (\<lambda>r. (le_tenant r, le_user r)) ` set rows \<Longrightarrow> balance_of t u rows = 0"
proof -
  assume "(t, u) \<notin> (\<lambda>r. (le_tenant r, le_user r)) ` set rows"
  then have "filter (mine t u) rows = []"
    by (force simp: filter_empty_conv mine_def)
  then show ?thesis by (simp add: balance_of_def)
qed

lemma cached_stranger:
  "(t, u) \<notin> (\<lambda>b. (ub_tenant b, ub_user b)) ` set (balances d) \<Longrightarrow> cached t u d = None"
  by (force simp: cached_def is_balance_def find_None_iff split: option.split)

lemma coherent_iff: "coherent d \<longleftrightarrow> (\<forall>t u. shown t u d = balance_of t u (ledger d))"
proof
  assume c: "coherent d"
  show "\<forall>t u. shown t u d = balance_of t u (ledger d)"
  proof (intro allI)
    fix t u
    show "shown t u d = balance_of t u (ledger d)"
    proof (cases "(t, u) \<in> set (account_ids d)")
      case True
      then show ?thesis using c by (auto simp: coherent_def list_all_iff)
    next
      case False
      then have "cached t u d = None" "balance_of t u (ledger d) = 0"
        by (auto simp: account_ids_def intro: cached_stranger balance_of_stranger)
      then show ?thesis by (simp add: shown_def)
    qed
  qed
qed (simp add: coherent_def list_all_iff split: prod.split)

lemma posted_coherent: "posted t row d d' \<Longrightarrow> coherent d \<Longrightarrow> coherent d'"
  unfolding coherent_iff posted_def shown_def by (auto simp: mine_def) (metis option.simps(5))+

lemma posted_shown: "posted t row d d' \<Longrightarrow> coherent d \<Longrightarrow>
    shown t' u' d' = shown t' u' d + (if t' = t \<and> u' = le_user row then signed row else 0)"
  using posted_coherent [of t row d d'] unfolding coherent_iff by (auto simp: posted_def mine_def)

section \<open>Prices over time\<close>

lemma insort_key_map: "(\<And>x. k (g x) = k x) \<Longrightarrow> insort_key k (g x) (map g xs) = map g (insort_key k x xs)"
  by (induction xs) auto

lemma sort_key_map: "(\<And>x. k (g x) = k x) \<Longrightarrow> sort_key k (map g xs) = map g (sort_key k xs)"
  by (induction xs) (simp_all add: insort_key_map)

lemma sort_key_least:
  assumes "x \<in> set xs" "\<And>y. y \<in> set xs \<Longrightarrow> y = x \<or> k x < k y"
  obtains ys where "sort_key k xs = x # ys"
proof (cases "sort_key k xs")
  case Nil
  then show ?thesis using assms(1) by (metis empty_iff empty_set set_sort)
next
  case (Cons y ys)
  have "sorted (map k (y # ys))" using sorted_sort_key [of k xs] Cons by simp
  moreover have "x \<in> set (y # ys)" using assms(1) Cons by (metis set_sort)
  ultimately have "k y \<le> k x" by auto
  moreover have "y \<in> set xs" using Cons by (metis list.set_intros(1) set_sort)
  ultimately have "y = x" using assms(2) by fastforce
  then show ?thesis using Cons that by simp
qed

definition expire :: "uuid \<Rightarrow> string \<Rightarrow> string \<Rightarrow> instant \<Rightarrow> price_row \<Rightarrow> price_row" where
  "expire t res u ts r = (if is_current_price t res u r then r\<lparr>pr_to := Some ts\<rparr> else r)"

lemma expire_sel [simp]:
  "pr_from (expire t res u ts r) = pr_from r" "pr_cents (expire t res u ts r) = pr_cents r"
  "pr_id (expire t res u ts r) = pr_id r"
  by (simp_all add: expire_def)

lemma expire_covers:
  "ts < from \<Longrightarrow> price_covers t res u ts (expire t' res' u' from r) = price_covers t res u ts r"
  by (auto simp: price_covers_def expire_def is_current_price_def)

lemma price_at_before:
  assumes "ts < from" "pr_from new = from"
  shows "price_at t res u ts (map (expire t' res' u' from) rows @ [new]) =
    map_sum id (expire t' res' u' from) (price_at t res u ts rows)"
proof -
  have "filter (price_covers t res u ts) (map (expire t' res' u' from) rows @ [new]) =
      map (expire t' res' u' from) (filter (price_covers t res u ts) rows)"
    using assms by (simp add: filter_map comp_def expire_covers) (simp add: price_covers_def)
  then show ?thesis
    by (simp add: price_at_def sort_key_map split: list.split)
qed

lemma price_at_after:
  assumes "from \<le> ts" "pr_from new = from" "pr_to new = None" "pr_tenant new = t"
    "pr_resource new = res" "pr_unit new = u" "\<And>r. r \<in> set rows \<Longrightarrow> pr_from r < from"
  shows "price_at t res u ts (rows @ [new]) = Inr new"
proof -
  have "new \<in> set (filter (price_covers t res u ts) (rows @ [new]))"
    using assms by (simp add: price_covers_def)
  moreover have "y = new \<or> - pr_from new < - pr_from y"
    if "y \<in> set (filter (price_covers t res u ts) (rows @ [new]))" for y
  proof (cases "y = new")
    case False
    then have "y \<in> set rows" using that by (auto split: if_splits)
    then show ?thesis using assms(2,7) by simp
  qed simp
  ultimately obtain ys where
    "sort_key (\<lambda>r. - pr_from r) (filter (price_covers t res u ts) (rows @ [new])) = new # ys"
    by (rule sort_key_least)
  then show ?thesis by (simp add: price_at_def)
qed

lemma sql_update_expire:
  "sql_update (is_current_price t res u) (\<lambda>r. r\<lparr>pr_to := Some ts\<rparr>) rows = map (expire t res u ts) rows"
  by (simp add: sql_update_def expire_def)

definition new_price_row :: "price_params \<Rightarrow> uuid \<Rightarrow> db \<Rightarrow> price_row" where
  "new_price_row p t d =
     \<lparr>pr_id = db_next d, pr_tenant = t, pr_resource = pp_resource p, pr_unit = pp_unit p,
      pr_cents = pp_cents p, pr_currency = pp_currency p, pr_from = pp_from p, pr_to = pp_to p\<rparr>"

lemma expire_not_current: "\<not> is_current_price t res u (expire t res u ts r)"
  by (cases "is_current_price t res u r") (simp_all add: expire_def, simp add: is_current_price_def)

lemma run_create_price:
  assumes "t \<in> set (db_tenants d)"
    "\<not> list_ex (is_current_price t (pp_resource p) (pp_unit p)) (prices d)"
  shows "sql_create_price p t d =
    (Inr (new_price_row p t d),
     d\<lparr>db_next := Suc (db_next d), prices := prices d @ [new_price_row p t d]\<rparr>)"
  using assms by (simp add: sql_create_price_def new_price_row_def Let_def)

lemma run_SetCurrentPrice:
  assumes "sched w = []" "t \<in> set (db_tenants (wdb w))" "from \<noteq> zero_time"
  obtains new w' where
    "run_state (Prices_SetCurrentPrice (Some t) res u cents cur from) w = (Inr new, w')"
    "prices (wdb w') = map (expire t res u from) (prices (wdb w)) @ [new]" "sched w' = []"
    "pr_tenant new = t" "pr_resource new = res" "pr_unit new = u" "pr_cents new = cents"
    "pr_from new = from" "pr_to new = None" "events w' = events w"
proof -
  let ?d = "(wdb w)\<lparr>prices := map (expire t res u from) (prices (wdb w))\<rparr>"
  let ?p = "\<lparr>pp_resource = res, pp_unit = u, pp_cents = cents, pp_currency = orUSD cur,
    pp_from = from, pp_to = None\<rparr>"
  have free: "\<not> list_ex (is_current_price t res u) (prices ?d)"
    by (simp add: list_ex_iff expire_not_current)
  define new where "new = new_price_row ?p t ?d"
  define d' where "d' = ?d\<lparr>db_next := Suc (db_next ?d), prices := prices ?d @ [new]\<rparr>"
  have new: "sql_create_price ?p t ?d = (Inr new, d')" "prices d' = prices ?d @ [new]"
    "pr_tenant new = t" "pr_resource new = res" "pr_unit new = u" "pr_cents new = cents"
    "pr_from new = from" "pr_to new = None"
    using run_create_price [of t ?d ?p] assms(2) free
    by (simp_all add: new_def d'_def) (simp_all add: new_price_row_def)
  have "sql_expire_price res u from t (wdb w) = (Inr (), ?d)"
    by (simp add: sql_expire_price_def sql_update_expire)
  then have "run_state (Prices_SetCurrentPrice (Some t) res u cents cur from) w =
      (Inr new, w\<lparr>wdb := d'\<rparr>)"
    using assms(1,3) new(1) by (simp add: Prices_SetCurrentPrice_def Let_def)
  then show ?thesis
    using that new assms(1) by simp
qed

lemma run_UpsertPrice:
  assumes w: "sched w = []" and t: "t \<in> set (db_tenants (wdb w))"
    and p: "validateResource (pp_resource p) (pp_unit p) = Inr ()" "0 \<le> pp_cents p"
      "currency_ok s (pp_currency p)" "pp_from p \<noteq> zero_time"
  obtains new w' where "run_state (UpsertPrice s (Some t) t' actor p) w = (Inr new, w')"
    "prices (wdb w') =
       map (expire t (pp_resource p) (pp_unit p) (pp_from p)) (prices (wdb w)) @ [new]"
    "pr_tenant new = t" "pr_resource new = pp_resource p" "pr_unit new = pp_unit p"
    "pr_cents new = pp_cents p" "pr_from new = pp_from p" "pr_to new = None" "sched w' = []"
proof -
  let ?c = "currencyOrDefault s (pp_currency p)"
  let ?m = "Some [(''resource_type'', JStr (pp_resource p)), (''unit'', JStr (pp_unit p)),
    (''price_cents'', JInt (pp_cents p)), (''currency'', JStr ?c),
    (''effective_from'', JTime (pp_from p))]"
  obtain i w1 where w1: "run_state (auditEmit (sv_audit s) ''billing.price.upsert'' ''price''
      t' actor uuid_nil ?m) w = (i, w1)" "audited w w1" "sched w1 = []"
    using auditEmit_cases [OF w] by metis
  have t1: "t \<in> set (db_tenants (wdb w1))" using t w1(2) by (simp add: auditedD)
  obtain new w2 where w2:
    "run_state (Prices_SetCurrentPrice (Some t) (pp_resource p) (pp_unit p) (pp_cents p) ?c
       (pp_from p)) w1 = (Inr new, w2)"
    "prices (wdb w2) =
       map (expire t (pp_resource p) (pp_unit p) (pp_from p)) (prices (wdb w1)) @ [new]"
    "sched w2 = []" "pr_tenant new = t" "pr_resource new = pp_resource p" "pr_unit new = pp_unit p"
    "pr_cents new = pp_cents p" "pr_from new = pp_from p" "pr_to new = None"
    by (rule run_SetCurrentPrice [OF w1(3) t1 p(4), of "pp_resource p" "pp_unit p" "pp_cents p" ?c])
  obtain w3 where w3: "run_state (auditMarkOutcome (sv_audit s) i True
      (Some [(''new_price_id'', JUuid (pr_id new))])) w2 = ((), w3)" "audited w2 w3" "sched w3 = []"
    using auditMark_cases [OF w2(3)] by metis
  define w' where "w' = snd (run_state (UpsertPrice s (Some t) t' actor p) w)"
  have "run_state (UpsertPrice s (Some t) t' actor p) w = (Inr new, w')"
    "wdb w' = wdb w3" "sched w' = sched w3"
    using p w1(1) w2(1) w3(1)
    by (simp_all add: w'_def UpsertPrice_def Let_def currency_ok_def)
  then show ?thesis
    using that w2 w3 auditedD(6) [OF w1(2)] auditedD(6) [OF w3(2)] by simp
qed

section \<open>Rollup charges\<close>

text \<open>What one line of the rollup costs, as an unbounded integer.\<close>

definition line_cost :: "uuid \<Rightarrow> instant \<Rightarrow> price_row list \<Rightarrow> rollup_row \<Rightarrow> int" where
  "line_cost t from ps row =
     (case price_at t (ro_resource row) (ro_unit row) from ps of
        Inl _ \<Rightarrow> 0 | Inr p \<Rightarrow> ro_qty row * pr_cents p)"

definition rollup_cost :: "uuid \<Rightarrow> instant \<Rightarrow> price_row list \<Rightarrow> rollup_row list \<Rightarrow> int" where
  "rollup_cost t from ps rows = sum_list (map (line_cost t from ps) rows)"

lemma wrap64_add_right: "wrap64 (a + wrap64 b) = wrap64 (a + b)"
  by (simp add: wrap64_def) presburger

lemma wrap64_add_left: "wrap64 (wrap64 a + b) = wrap64 (a + b)"
  by (metis add.commute wrap64_add_right)

lemma price_at_error: "price_at t res u ts ps = Inl e \<Longrightarrow> e = Pg NoRows"
  by (auto simp: price_at_def split: list.splits)

lemma run_GetPriceAt:
  "sched w = [] \<Longrightarrow> run_state (GetPriceAt (Some t) res u ts) w =
     (case price_at t res u ts (prices (wdb w)) of
        Inl _ \<Rightarrow> Inl (Sentinel ErrPriceNotFound) | Inr p \<Rightarrow> Inr p, w)"
  by (auto simp: GetPriceAt_def found_or_def Prices_GetPriceAt_def split: sum.split
      dest: price_at_error)

lemma run_charge_loop:
  assumes "sched w = []"
  shows "run_state (charge_loop (Some t) from rows (wrap64 acc)) w =
    (Inr (wrap64 (acc + rollup_cost t from (prices (wdb w)) rows)), w)"
proof (induction rows arbitrary: acc)
  case (Cons row rows)
  then show ?case
    using assms
    by (cases "price_at t (ro_resource row) (ro_unit row) from (prices (wdb w))")
      (simp_all add: run_GetPriceAt rollup_cost_def line_cost_def wrap64_add_right wrap64_add_left
        algebra_simps)
qed (simp add: rollup_cost_def)

definition rollup_of :: "uuid \<Rightarrow> uuid \<Rightarrow> instant \<Rightarrow> instant \<Rightarrow> db \<Rightarrow> rollup_row list" where
  "rollup_of t u from to d = rollup_rows (filter (in_window t u from to) (usages d))"

lemma run_ChargeForRollup:
  assumes "sched w = []" "from < to" "list_all (\<lambda>r. in_int64 (ro_qty r)) (rollup_of t u from to (wdb w))"
  shows "run_state (ChargeForRollup (Some t) u from to) w =
    (Inr (wrap64 (rollup_cost t from (prices (wdb w)) (rollup_of t u from to (wdb w)))), w)"
proof -
  have "wrap64 0 = 0" by (simp add: wrap64_def)
  then show ?thesis
    using assms run_charge_loop [OF assms(1), of t "from" "rollup_of t u from to (wdb w)" 0]
    by (simp add: ChargeForRollup_def RollupUsage_def wrapped_def Usage_SumForUserInPeriod_def
        rollup_of_def Let_def)
qed

lemma group_qty_split:
  "sum_list (map (\<lambda>(res, u). group_qty res u rows * c res u) (usage_groups rows)) =
    sum_list (map (\<lambda>r. ue_qty r * c (ue_resource r) (ue_unit r)) rows)"
proof -
  let ?g = "\<lambda>r. (ue_resource r, ue_unit r)"
  have grp: "group_qty a b rows = sum_list (map ue_qty (filter (\<lambda>r. ?g r = (a, b)) rows))" for a b
    by (simp add: group_qty_def)
  have "sum_list (map (\<lambda>(a, b). group_qty a b rows * c a b) (usage_groups rows)) =
      (\<Sum>(a, b) \<in> ?g ` set rows. group_qty a b rows * c a b)"
    by (simp add: usage_groups_def sum_list_distinct_conv_sum_set)
  also have "\<dots> = sum_list (map (\<lambda>r. ue_qty r * c (ue_resource r) (ue_unit r)) rows)"
  proof -
    have "(\<Sum>x \<in> S. sum_list (map ue_qty (filter (\<lambda>r. ?g r = x) rs)) * c (fst x) (snd x)) =
        sum_list (map (\<lambda>r. ue_qty r * c (ue_resource r) (ue_unit r)) rs)"
      if "finite S" "?g ` set rs \<subseteq> S" for S rs
      using that
    proof (induction rs)
      case (Cons r rs)
      have "(\<Sum>x \<in> S. sum_list (map ue_qty (filter (\<lambda>r. ?g r = x) (r # rs))) * c (fst x) (snd x)) =
          (\<Sum>x \<in> S. (if x = ?g r then ue_qty r * c (fst x) (snd x) else 0) +
             sum_list (map ue_qty (filter (\<lambda>r. ?g r = x) rs)) * c (fst x) (snd x))"
        by (rule sum.cong) (auto simp: algebra_simps)
      then show ?case using Cons by (simp add: sum.distrib sum.delta)
    qed simp
    from this [of "?g ` set rows" rows] show ?thesis
      by (simp add: grp split_beta prod_eq_iff)
  qed
  finally show ?thesis .
qed

end
