(* ===== verification/Billing_Claims.thy ===== *)
theory Billing_Claims
  imports Billing_Props
begin

text \<open>
  The properties of the billing ledger, the balance cache, the idempotency keys, the price
  catalog, the rollup and the enforcement of zero balances.
\<close>

section \<open>A concrete database\<close>

definition world0 :: world where
  "world0 = \<lparr>wdb = empty_db 1000 [100] [200, 201, 202], sched = [], events = [], pdns = []\<rparr>"

definition service0 :: service where
  "service0 =
     \<lparr>sv_audit = DBEmitter, sv_bus = True, sv_enforcer = NoopEnforcer, sv_meter = NoopMeter,
      sv_config = \<lparr>cf_currency = ''USD'', cf_grace = 24 * hour, cf_low = 500,
                   cf_cadence = ''monthly'', cf_effective = 0\<rparr>\<rparr>"

definition topup0 :: topup_params where
  "topup0 = \<lparr>tp_user = 200, tp_amount = 1500, tp_currency = '''', tp_reference = ''card''\<rparr>"

definition charge0 :: charge_params where
  "charge0 = \<lparr>ch_user = 200, ch_amount = 1200, ch_currency = ''USD'', ch_reference = ''march'',
              ch_key = Some ''k1'', ch_meta = None\<rparr>"

lemmas concrete = world0_def service0_def topup0_def charge0_def empty_db_def

lemma world0_facts:
  "sched world0 = []" "fk_ok 100 200 (wdb world0)" "ledger (wdb world0) = []"
  "currency_ok service0 ''''" "currency_ok service0 ''USD''" "coherent (wdb world0)"
  by (simp_all add: concrete fk_ok_def coherent_def account_ids_def currency_ok_def
      currencyOrDefault_def) code_simp+

section \<open>Posting to the ledger\<close>

text \<open>
  C1. A valid top-up of an existing user that runs undisturbed succeeds: exactly one row is
  appended to the ledger, a credit of the amount with source \<open>topup\<close>; the user's cached balance
  becomes the old ledger sum plus the amount, nobody else's changes; and with a bus the last
  event of the request announces the row.
\<close>

theorem Topup_credits:
  assumes "sched w = []" "tp_user p \<noteq> uuid_nil" "0 < tp_amount p" "currency_ok s (tp_currency p)"
    "fk_ok t (tp_user p) (wdb w)"
    "in_int64 (balance_of t (tp_user p) (ledger (wdb w)) + tp_amount p)"
  shows "\<exists>row w'. run_state (Topup s (Some t) t actor p) w = (Inr row, w') \<and>
    posted t row (wdb w) (wdb w') \<and>
    le_user row = tp_user p \<and> le_type row = ''credit'' \<and> le_amount row = tp_amount p \<and>
    le_source row = ''topup'' \<and>
    (\<exists>es. events w' = events w @ es \<and> (sv_bus s \<longrightarrow> es \<noteq> [] \<and>
       ev_topic (last es) = ''billing.balance.topped_up'' \<and> ev_resource (last es) = le_id row))"
  using run_Topup [OF assms] by (metis (no_types, lifting))

lemma Topup_credits_witness:
  "\<exists>row w'. run_state (Topup service0 (Some 100) 100 201 topup0) world0 = (Inr row, w') \<and>
    posted 100 row (wdb world0) (wdb w') \<and> le_amount row = 1500"
  using Topup_credits [of world0 topup0 service0 100 201] world0_facts
  by (auto simp: topup0_def uuid_nil_def in_int64_def int64_min_def int64_max_def)

text \<open>
  C2. A valid charge under a key nobody has used appends one debit row that carries the key, and
  lowers the user's cached balance to the ledger sum less the amount; nothing stops it from
  going below zero.
\<close>

theorem PostCharge_debits:
  assumes "sched w = []" "ch_user p \<noteq> uuid_nil" "0 < ch_amount p" "currency_ok s (ch_currency p)"
    "fk_ok t (ch_user p) (wdb w)" "\<not> key_taken (ch_key p) (ledger (wdb w))"
    "in_int64 (balance_of t (ch_user p) (ledger (wdb w)) - ch_amount p)"
  shows "\<exists>row w'. run_state (PostCharge s (Some t) t p) w = (Inr row, w') \<and>
    posted t row (wdb w) (wdb w') \<and>
    le_user row = ch_user p \<and> le_type row = ''debit'' \<and> le_amount row = ch_amount p \<and>
    le_source row = ''charge'' \<and> le_key row = ch_key p"
  using run_PostCharge_new [OF assms] by metis

lemma PostCharge_debits_witness:
  "\<exists>row w'. run_state (PostCharge service0 (Some 100) 100 charge0) world0 = (Inr row, w') \<and>
    posted 100 row (wdb world0) (wdb w') \<and> le_amount row = 1200"
  using PostCharge_debits [of world0 charge0 service0 100] world0_facts
  by (auto simp: charge0_def uuid_nil_def in_int64_def int64_min_def int64_max_def key_taken_def)

text \<open>
  C3. A charge is posted once per key: after a successful charge under a fresh key, repeating the
  request (whatever amount and reference it now carries) answers the row of the first one and
  changes nothing, neither the ledger nor the cache nor the events.
\<close>

theorem PostCharge_idempotent:
  assumes "sched w = []" "ch_user p \<noteq> uuid_nil" "0 < ch_amount p" "currency_ok s (ch_currency p)"
    "fk_ok t (ch_user p) (wdb w)" "ch_key p = Some k" "k \<noteq> ''''"
    "\<not> key_taken (Some k) (ledger (wdb w))" "0 < db_next (wdb w)"
    "in_int64 (balance_of t (ch_user p) (ledger (wdb w)) - ch_amount p)"
    "ch_user p' \<noteq> uuid_nil" "0 < ch_amount p'" "currency_ok s (ch_currency p')"
    "ch_key p' = Some k"
  shows "\<exists>row w'. run_state (PostCharge s (Some t) t p) w = (Inr row, w') \<and>
    run_state (PostCharge s (Some t) t p') w' = (Inr row, w')"
proof -
  obtain row w' where r: "run_state (PostCharge s (Some t) t p) w = (Inr row, w')"
    "posted t row (wdb w) (wdb w')" "sched w' = []" "le_key row = ch_key p"
    "le_id row = db_next (wdb w)"
    using run_PostCharge_new [OF assms(1-5) _ assms(10)] assms(6,8) by metis
  have "charges.holder t k (wdb w) = None" using assms(8) by (rule key_fresh_holder)
  then have "charges.holder t k (wdb w') = Some row"
    using r(2,4) assms(6) by (simp add: posted_def charges.holder_def find_append)
  then have "run_state (PostCharge s (Some t) t p') w' = (Inr row, w')"
    using r(3,5) assms by (intro run_PostCharge_seen) (auto simp: uuid_nil_def)
  then show ?thesis using r(1) by blast
qed

lemma PostCharge_idempotent_witness:
  "\<exists>row w'. run_state (PostCharge service0 (Some 100) 100 charge0) world0 = (Inr row, w') \<and>
    run_state (PostCharge service0 (Some 100) 100 (charge0\<lparr>ch_amount := 7\<rparr>)) w' = (Inr row, w')"
  by (rule PostCharge_idempotent)
    (use world0_facts in \<open>auto simp: charge0_def uuid_nil_def in_int64_def int64_min_def
      int64_max_def key_taken_def world0_def empty_db_def\<close>)

text \<open>
  The race for a key: when another transaction inserts a row with the key between the
  look-up and the insert of a charge, the charge posts nothing; it answers the winner's row if
  the winner is of the same tenant, and the duplicate-key error if the key now belongs to
  another tenant (the unique index is over all tenants, the look-up is not).
\<close>

theorem PostCharge_lost_race:
  assumes "sched w = [Quiet, Other g]" "ch_user p \<noteq> uuid_nil" "0 < ch_amount p"
    "currency_ok s (ch_currency p)" "ch_key p = Some k" "k \<noteq> ''''"
    "find (\<lambda>r. le_tenant r = t \<and> le_key r = Some k) (ledger (wdb w)) = None"
    "r \<in> set (ledger (g (wdb w)))" "le_key r = Some k"
  shows "run_state (PostCharge s (Some t) t p) w =
    (case find (\<lambda>r. le_tenant r = t \<and> le_key r = Some k) (ledger (g (wdb w))) of
       None \<Rightarrow> Inl (Sentinel ErrDuplicateIdempotencyKey)
     | Some winner \<Rightarrow> Inr winner,
     w\<lparr>wdb := g (wdb w), sched := []\<rparr>)"
proof -
  let ?q = "\<lparr>lp_user = ch_user p, lp_type = ''debit'', lp_amount = ch_amount p,
    lp_currency = orUSD (currencyOrDefault s (ch_currency p)), lp_source = ''charge'',
    lp_reference = ch_reference p, lp_key = ch_key p, lp_meta = ch_meta p\<rparr>"
  have h: "charges.holder t k (wdb w) = None" using assms(7) by (simp add: charges.holder_def)
  let ?rest = "\<lambda>row. do {
      _ \<leftarrow> refreshBalance s (Some t) (ch_user p);
      emitEvent s (Some t) ''billing.balance.charged'' t (ch_user p) (le_id row)
        (Some [(''amount_cents'', JInt (ch_amount p)),
               (''currency'', JStr (currencyOrDefault s (ch_currency p))),
               (''reference'', JStr (ch_reference p)),
               (''ledger_id'', JUuid (le_id row))]);
      ok row }"
  have "0 \<le> lp_amount ?q" "lp_key ?q = Some k" using assms(3,5) by simp_all
  note race = charges.lost_race [OF assms(1,6) h this assms(8,9),
      of "''billing.charge: dedup lookup''" "''billing.charge''" ?rest]
  show ?thesis
    by (rule trans [OF _ race [unfolded charges.holder_def]])
      (use assms(2-5) in \<open>simp add: PostCharge_def validateAmount_ok currency_ok_def Let_def
        Ledger_Create_def cong: option.case_cong\<close>)
qed

definition rival :: "uuid \<Rightarrow> db \<Rightarrow> db" where
  "rival t d = snd (sql_create_ledger
     \<lparr>lp_user = 200, lp_type = ''debit'', lp_amount = 5, lp_currency = ''USD'',
      lp_source = ''charge'', lp_reference = ''rival'', lp_key = Some ''k1'', lp_meta = None\<rparr> t d)"

lemma PostCharge_lost_race_witness:
  "fst (run_state (PostCharge service0 (Some 100) 100 charge0)
     (world0\<lparr>wdb := (empty_db 1000 [100, 101] [200]), sched := [Quiet, Other (rival 101)]\<rparr>))
   = Inl (Sentinel ErrDuplicateIdempotencyKey)"
  using PostCharge_lost_race
    [of "world0\<lparr>wdb := (empty_db 1000 [100, 101] [200]), sched := [Quiet, Other (rival 101)]\<rparr>"
      "rival 101" charge0 service0 "''k1''" 100
      "hd (ledger (rival 101 (empty_db 1000 [100, 101] [200])))"]
    world0_facts(5)
  by (simp add: charge0_def uuid_nil_def rival_def empty_db_def world0_def sql_create_ledger_def
      key_taken_def fk_ok_def Let_def)

section \<open>The balance cache\<close>

text \<open>
  A refresh that runs undisturbed stores the user's ledger sum in the cache, and emits the
  low-balance event exactly when the cached balance was above the threshold and the new one is
  at or below it (never on the first refresh of a user, and not while the balance stays low).
\<close>

theorem refreshBalance_low_event:
  assumes "sched w = []" "fk_ok t u (wdb w)" "in_int64 (balance_of t u (ledger (wdb w)))" "sv_bus s"
  shows "\<exists>w'. run_state (refreshBalance s (Some t) u) w = (Inr (), w') \<and>
    cached t u (wdb w') = Some (balance_of t u (ledger (wdb w))) \<and>
    ledger (wdb w') = ledger (wdb w) \<and>
    (events w' = events w \<longleftrightarrow>
       \<not> (\<exists>c. cached t u (wdb w) = Some c \<and> c > cf_low (sv_config s) \<and>
            balance_of t u (ledger (wdb w)) \<le> cf_low (sv_config s)))"
  using run_refreshBalance [OF assms(1-3), of s] assms(4) cached_refreshed [OF assms(2), of t u s]
  by (auto simp: crosses_low_def split: option.splits)

lemma refreshBalance_low_event_witness:
  "\<exists>w'. run_state (refreshBalance service0 (Some 100) 200) world0 = (Inr (), w') \<and>
    cached 100 200 (wdb w') = Some 0 \<and> events w' = []"
  using refreshBalance_low_event [of world0 100 200 service0] world0_facts
  by (auto simp: in_int64_def int64_min_def int64_max_def concrete cached_def)

datatype posting = PTopup uuid topup_params | PRefund uuid refund_params | PCharge charge_params

fun post :: "service \<Rightarrow> uuid \<Rightarrow> posting \<Rightarrow> ledger_row result prog" where
  "post s t (PTopup actor p) = Topup s (Some t) t actor p"
| "post s t (PRefund actor p) = Refund s (Some t) t actor p"
| "post s t (PCharge p) = PostCharge s (Some t) t p"

fun post_account :: "posting \<Rightarrow> uuid" where
  "post_account (PTopup actor p) = tp_user p"
| "post_account (PRefund actor p) = rf_user p"
| "post_account (PCharge p) = ch_user p"

fun post_delta :: "posting \<Rightarrow> int" where
  "post_delta (PTopup actor p) = tp_amount p"
| "post_delta (PRefund actor p) = rf_amount p"
| "post_delta (PCharge p) = - ch_amount p"

fun post_valid :: "service \<Rightarrow> uuid \<Rightarrow> db \<Rightarrow> posting \<Rightarrow> bool" where
  "post_valid s t d (PTopup actor p) \<longleftrightarrow> tp_user p \<noteq> uuid_nil \<and> 0 < tp_amount p \<and>
     currency_ok s (tp_currency p) \<and> fk_ok t (tp_user p) d"
| "post_valid s t d (PRefund actor p) \<longleftrightarrow> rf_user p \<noteq> uuid_nil \<and> 0 < rf_amount p \<and>
     currency_ok s (rf_currency p) \<and> fk_ok t (rf_user p) d"
| "post_valid s t d (PCharge p) \<longleftrightarrow> ch_user p \<noteq> uuid_nil \<and> 0 < ch_amount p \<and>
     currency_ok s (ch_currency p) \<and> fk_ok t (ch_user p) d \<and>
     \<not> key_taken (ch_key p) (ledger d)"

lemma post_posted:
  assumes "sched w = []" "post_valid s t (wdb w) q"
    "in_int64 (balance_of t (post_account q) (ledger (wdb w)) + post_delta q)"
  obtains row w' where "run_state (post s t q) w = (Inr row, w')" "sched w' = []"
    "posted t row (wdb w) (wdb w')" "le_user row = post_account q" "signed row = post_delta q"
proof (cases q)
  case (PTopup actor p)
  have pre: "sched w = []" "tp_user p \<noteq> uuid_nil" "0 < tp_amount p" "currency_ok s (tp_currency p)"
    "fk_ok t (tp_user p) (wdb w)"
    "in_int64 (balance_of t (tp_user p) (ledger (wdb w)) + tp_amount p)"
    using assms PTopup by simp_all
  obtain row w' where "run_state (Topup s (Some t) t actor p) w = (Inr row, w')"
    "posted t row (wdb w) (wdb w')" "sched w' = []" "le_user row = tp_user p"
    "le_amount row = tp_amount p" "le_type row = ''credit''"
    using run_Topup [of w p s t actor, OF pre] by metis
  then show ?thesis using PTopup that by (simp add: signed_def)
next
  case (PRefund actor p)
  have pre: "sched w = []" "rf_user p \<noteq> uuid_nil" "0 < rf_amount p" "currency_ok s (rf_currency p)"
    "fk_ok t (rf_user p) (wdb w)"
    "in_int64 (balance_of t (rf_user p) (ledger (wdb w)) + rf_amount p)"
    using assms PRefund by simp_all
  obtain row w' where "run_state (Refund s (Some t) t actor p) w = (Inr row, w')"
    "posted t row (wdb w) (wdb w')" "sched w' = []" "le_user row = rf_user p"
    "le_amount row = rf_amount p" "le_type row = ''credit''"
    using run_Refund [of w p s t actor, OF pre] by metis
  then show ?thesis using PRefund that by (simp add: signed_def)
next
  case (PCharge p)
  have pre: "sched w = []" "ch_user p \<noteq> uuid_nil" "0 < ch_amount p" "currency_ok s (ch_currency p)"
    "fk_ok t (ch_user p) (wdb w)"
      "\<not> key_taken (ch_key p) (ledger (wdb w))"
    "in_int64 (balance_of t (ch_user p) (ledger (wdb w)) - ch_amount p)"
    using assms PCharge by simp_all
  obtain row w' where "run_state (PostCharge s (Some t) t p) w = (Inr row, w')"
    "posted t row (wdb w) (wdb w')" "sched w' = []" "le_user row = ch_user p"
    "le_amount row = ch_amount p" "le_type row = ''debit''"
    using run_PostCharge_new [of w p s t, OF pre] by metis
  then show ?thesis using PCharge that by (simp add: signed_def)
qed

text \<open>
  C22. The cache stays coherent with the ledger: from a database in which every account's shown
  balance is the sum of its ledger rows, an undisturbed top-up, refund or first-time charge
  ends in such a database, and the shown balances move by exactly the posted amount, the user's
  and nobody else's.
\<close>

theorem postings_keep_coherence:
  assumes "coherent (wdb w)" "sched w = []" "post_valid s t (wdb w) q"
    "in_int64 (balance_of t (post_account q) (ledger (wdb w)) + post_delta q)"
  shows "\<exists>row w'. run_state (post s t q) w = (Inr row, w') \<and> coherent (wdb w') \<and>
    (\<forall>t' u'. shown t' u' (wdb w') =
       shown t' u' (wdb w) + (if t' = t \<and> u' = post_account q then post_delta q else 0))"
proof -
  obtain row w' where "run_state (post s t q) w = (Inr row, w')"
    "posted t row (wdb w) (wdb w')" "le_user row = post_account q" "signed row = post_delta q"
    using post_posted [OF assms(2-4)] by metis
  then show ?thesis
    using posted_coherent posted_shown assms(1) by metis
qed

lemma postings_keep_coherence_witness:
  "\<exists>row w'. run_state (post service0 100 (PTopup 201 topup0)) world0 = (Inr row, w') \<and>
    coherent (wdb w') \<and> shown 100 200 (wdb w') = 1500"
proof -
  have "in_int64 (balance_of 100 (post_account (PTopup 201 topup0)) (ledger (wdb world0)) +
      post_delta (PTopup 201 topup0))"
    by (simp add: world0_facts(3) topup0_def in_int64_def int64_min_def int64_max_def)
  moreover have "post_valid service0 100 (wdb world0) (PTopup 201 topup0)"
    using world0_facts by (simp add: topup0_def uuid_nil_def)
  ultimately show ?thesis
    using postings_keep_coherence
      [of world0 service0 100 "PTopup 201 topup0"] world0_facts
    by (auto simp: topup0_def shown_def cached_def world0_def empty_db_def)
qed

text \<open>
  What a user is told: with a coherent cache the balance handler answers the sum of the
  user's ledger, and a zero balance in the service's currency for a user who has no cache row
  (no error), stamped with the zero time.
\<close>

theorem GetBalance_answers_ledger_sum:
  assumes "coherent (wdb w)" "sched w = []"
  shows "\<exists>b. run_state (GetBalance s (Some t) u) w = (Inr b, w) \<and>
    ub_cents b = balance_of t u (ledger (wdb w)) \<and> ub_tenant b = t \<and> ub_user b = u \<and>
    (cached t u (wdb w) = None \<longrightarrow>
       ub_currency b = cf_currency (sv_config s) \<and> ub_last_entry b = zero_time)"
proof (cases "find (is_balance t u) (balances (wdb w))")
  have sum: "shown t u (wdb w) = balance_of t u (ledger (wdb w))"
    using assms(1) by (simp add: coherent_iff)
  case None
  then have "balance_of t u (ledger (wdb w)) = 0"
    using sum by (simp add: shown_def cached_def)
  then show ?thesis
    using assms(2) None by (simp add: GetBalance_def Balances_Get_def sql_one_def)
next
  have sum: "shown t u (wdb w) = balance_of t u (ledger (wdb w))"
    using assms(1) by (simp add: coherent_iff)
  case (Some b)
  then have "balance_of t u (ledger (wdb w)) = ub_cents b"
    using sum by (simp add: shown_def cached_def)
  moreover have "ub_tenant b = t \<and> ub_user b = u"
    using Some by (auto simp: find_Some_iff is_balance_def)
  ultimately show ?thesis
    using assms(2) Some by (auto simp: GetBalance_def Balances_Get_def sql_one_def cached_def)
qed

lemma GetBalance_answers_ledger_sum_witness:
  "\<exists>b. run_state (GetBalance service0 (Some 100) 200) world0 = (Inr b, world0) \<and>
    ub_cents b = 0 \<and> ub_currency b = ''USD''"
  using GetBalance_answers_ledger_sum [of world0 service0 100 200] world0_facts
  by (auto simp: concrete cached_def)

section \<open>Faults\<close>

text \<open>A schedule in which calls may fail but no other transaction commits.\<close>

fun is_other :: "disturb \<Rightarrow> bool" where
  "is_other (Other g) = True"
| "is_other _ = False"

definition fault_only :: "disturb list \<Rightarrow> bool" where
  "fault_only ds \<longleftrightarrow> list_all (\<lambda>x. \<not> is_other x) ds"

lemma fault_only_honors: "fault_only ds \<Longrightarrow> honors J ds"
  by (auto simp: fault_only_def honors_def list_all_iff)

lemma fault_only_call:
  assumes "fault_only (sched w)" "run_state (db_call f) w = (r, w')"
  shows "fault_only (sched w')"
    "(r = Inl (Pg ConnLost) \<and> wdb w' = wdb w) \<or> (r, wdb w') = f (wdb w)"
  using assms
  by (auto simp: db_call_def fault_only_def split: list.splits disturb.splits prod.splits)

lemma keeps_fault_only_call [keeps_rules]: "keeps (\<lambda>w. fault_only (sched w)) (db_call f)"
  using fault_only_call(1) by (metis keepsI prod.collapse)

lemma fault_only_audit: "keeps (\<lambda>w. fault_only (sched w)) (auditEmit e a ty t u r m)"
  unfolding auditEmit_def audit_Emit_def DBEmitter_Emit_def
  by (cases e) (auto intro!: keeps_rules)

text \<open>
  A posting is all or nothing whatever fails: under any schedule of lost connections, an
  answered row is the one row the ledger gained, and an answered error means the ledger is as
  it was. In particular a failure after the insert (of the refresh or of the audit outcome) is
  not reported as a failed top-up.
\<close>

theorem Topup_all_or_nothing:
  assumes "fault_only (sched w)" "run_state (Topup s (Some t) t' actor p) w = (r, w')"
  shows "ledger (wdb w') =
    (case r of Inl _ \<Rightarrow> ledger (wdb w) | Inr row \<Rightarrow> ledger (wdb w) @ [row])"
proof (cases "tp_user p = uuid_nil \<or> \<not> 0 < tp_amount p \<or> \<not> currency_ok s (tp_currency p)")
  case True
  then show ?thesis
    using assms(2) by (auto simp: Topup_def currency_ok_def Let_def validateAmount_def split: sum.splits if_splits)
next
  case False
  let ?m = "Some [(''user_id'', JUuid (tp_user p)), (''amount'', JInt (tp_amount p)),
    (''currency'', JStr (currencyOrDefault s (tp_currency p))),
    (''reference'', JStr (tp_reference p)), (''privileged'', JBool True)]"
  let ?q = "\<lparr>lp_user = tp_user p, lp_type = ''credit'', lp_amount = tp_amount p,
    lp_currency = currencyOrDefault s (tp_currency p), lp_source = ''topup'',
    lp_reference = tp_reference p, lp_key = None,
    lp_meta = Some [(''actor_user_id'', JUuid actor)]\<rparr>"
  obtain i w1 where w1: "run_state (auditEmit (sv_audit s) ''billing.balance.topup''
      ''ledger_entry'' t' actor uuid_nil ?m) w = (i, w1)" by (meson surj_pair)
  have p1: "fault_only (sched w1)" using keepsD [OF fault_only_audit assms(1)] w1 by (metis snd_conv)
  have l1: "ledger (wdb w1) = ledger (wdb w)"
    using keeps_runD [OF frozen_ledger.keeps_auditEmit _ w1, of "ledger (wdb w)"] assms(1)
    by (simp add: stable_def fault_only_honors)
  obtain r2 w2 where w2: "run_state (Ledger_Create (Some t) ?q) w1 = (r2, w2)"
    by (meson surj_pair)
  then have call: "run_state (db_call (sql_create_ledger
      (?q\<lparr>lp_currency := orUSD (lp_currency ?q)\<rparr>) t)) w1 = (r2, w2)"
    by (simp add: Ledger_Create_def)
  have p2: "fault_only (sched w2)" and c2: "(r2 = Inl (Pg ConnLost) \<and> wdb w2 = wdb w1) \<or>
      (r2, wdb w2) = sql_create_ledger (?q\<lparr>lp_currency := orUSD (lp_currency ?q)\<rparr>) t (wdb w1)"
    using fault_only_call [OF p1 call] by simp_all
  have l2: "ledger (wdb w2) =
      (case r2 of Inl _ \<Rightarrow> ledger (wdb w) | Inr row \<Rightarrow> ledger (wdb w) @ [row])"
    using c2 l1 by (auto simp: sql_create_ledger_def Let_def split: if_splits)
  have st: "stable (\<lambda>d. ledger d = ledger (wdb w2)) w2"
    using p2 by (simp add: stable_def fault_only_honors)
  show ?thesis
  proof (cases r2)
    case (Inl e)
    have "run_state (Topup s (Some t) t' actor p) w =
        (Inl (Wrap ''billing.topup'' e),
         snd (run_state (auditMarkOutcome (sv_audit s) i False (Some [(''error'', JErr e)])) w2))"
      using False w1 w2 Inl
      by (simp add: Topup_def validateAmount_ok currency_ok_def Let_def split: prod.splits)
    then show ?thesis
      using assms(2) l2 Inl stable_db [OF keepsD [OF frozen_ledger.keeps_auditMarkOutcome st]]
      by auto
  next
    case (Inr row)
    let ?mm = "[(''amount_cents'', JInt (tp_amount p)),
      (''currency'', JStr (currencyOrDefault s (tp_currency p))),
      (''reference'', JStr (tp_reference p)), (''ledger_id'', JUuid (le_id row))]"
    have "run_state (Topup s (Some t) t' actor p) w =
        run_state (settle_credit s (Some t) t' (tp_user p) i row ''billing.balance.topped_up'' ?mm) w2"
      using False w1 w2 Inr by (simp add: Topup_def validateAmount_ok currency_ok_def Let_def)
    moreover have "fst (run_state (settle_credit s (Some t) t' (tp_user p) i row
        ''billing.balance.topped_up'' ?mm) w2) = Inr row"
      by (simp add: settle_credit_def split: prod.split)
    ultimately show ?thesis
      using assms(2) l2 Inr stable_db [OF keepsD [OF frozen_ledger.keeps_settle_credit [OF TrueI] st]]
      by (metis fst_conv snd_conv sum.simps(6))
  qed
qed

lemma Topup_all_or_nothing_witness:
  "(case run_state (Topup service0 (Some 100) 100 201 topup0)
      (world0\<lparr>sched := [Quiet, Quiet, Fault]\<rparr>) of
     (r, w') \<Rightarrow> ledger (wdb w') = (case r of Inl _ \<Rightarrow> [] | Inr row \<Rightarrow> [row]))"
  using Topup_all_or_nothing [of "world0\<lparr>sched := [Quiet, Quiet, Fault]\<rparr>" service0 100 100 201 topup0]
    world0_facts(3)
  by (simp add: fault_only_def split: prod.split sum.split)

section \<open>Prices, rollups, enforcement\<close>

text \<open>
  A price change is not retroactive and leaves one current price: after an undisturbed
  upsert that takes effect at \<open>from\<close>, the price looked up at any earlier instant has the same
  identifier and amount as before; and when every known price starts before \<open>from\<close>, the look-up
  at \<open>from\<close> and at any later instant gives the new row.
\<close>

theorem UpsertPrice_not_retroactive:
  assumes "sched w = []" "t \<in> set (db_tenants (wdb w))"
    "validateResource (pp_resource p) (pp_unit p) = Inr ()" "0 \<le> pp_cents p"
    "currency_ok s (pp_currency p)" "pp_from p \<noteq> zero_time"
  shows "\<exists>new w'. run_state (UpsertPrice s (Some t) t' actor p) w = (Inr new, w') \<and>
    (\<forall>res u ts. ts < pp_from p \<longrightarrow>
       map_sum id (\<lambda>r. (pr_id r, pr_cents r)) (price_at t res u ts (prices (wdb w'))) =
       map_sum id (\<lambda>r. (pr_id r, pr_cents r)) (price_at t res u ts (prices (wdb w)))) \<and>
    ((\<forall>r \<in> set (prices (wdb w)). pr_from r < pp_from p) \<longrightarrow>
       (\<forall>ts. pp_from p \<le> ts \<longrightarrow>
          price_at t (pp_resource p) (pp_unit p) ts (prices (wdb w')) = Inr new)) \<and>
    pr_cents new = pp_cents p"
proof -
  let ?e = "expire t (pp_resource p) (pp_unit p) (pp_from p)"
  obtain new w' where r: "run_state (UpsertPrice s (Some t) t' actor p) w = (Inr new, w')"
    "prices (wdb w') = map ?e (prices (wdb w)) @ [new]" "pr_tenant new = t"
    "pr_resource new = pp_resource p" "pr_unit new = pp_unit p" "pr_cents new = pp_cents p"
    "pr_from new = pp_from p" "pr_to new = None"
    using run_UpsertPrice [OF assms] by metis
  have before: "map_sum id (\<lambda>r. (pr_id r, pr_cents r)) (price_at t res u ts (prices (wdb w'))) =
      map_sum id (\<lambda>r. (pr_id r, pr_cents r)) (price_at t res u ts (prices (wdb w)))"
    if "ts < pp_from p" for res u ts
    unfolding r(2) price_at_before [OF that r(7)]
    by (cases "price_at t res u ts (prices (wdb w))") simp_all
  have after: "price_at t (pp_resource p) (pp_unit p) ts (prices (wdb w')) = Inr new"
    if "\<forall>r \<in> set (prices (wdb w)). pr_from r < pp_from p" "pp_from p \<le> ts" for ts
    unfolding r(2) using that r by (intro price_at_after) auto
  show ?thesis using r(1,6) before after by blast
qed

definition price0 :: price_params where
  "price0 = \<lparr>pp_resource = ''vm'', pp_unit = ''hour'', pp_cents = 12, pp_currency = ''USD'',
             pp_from = 500, pp_to = None\<rparr>"

lemma UpsertPrice_not_retroactive_witness:
  "\<exists>new w'. run_state (UpsertPrice service0 (Some 100) 100 201 price0) world0 = (Inr new, w') \<and>
    price_at 100 ''vm'' ''hour'' 700 (prices (wdb w')) = Inr new \<and> pr_cents new = 12"
  using UpsertPrice_not_retroactive [of world0 100 price0 service0 100 201] world0_facts(5)
  by (auto simp: price0_def validateResource_def world0_def empty_db_def zero_time_def)

text \<open>
  The price history is never ambiguous: whatever requests and faults interleave, at most
  one price of a tenant's resource and unit is current.
\<close>

theorem UpsertPrice_keeps_one_current:
  assumes "prices_ok (wdb w)" "honors prices_ok (sched w)"
  shows "prices_ok (wdb (snd (run_state (UpsertPrice s ctx t actor p) w)))"
  by (rule stable_db [OF keepsD [OF prices_inv.keeps_UpsertPrice]]) (simp add: stable_def assms)

lemma UpsertPrice_keeps_one_current_witness:
  "prices_ok (wdb (snd (run_state (UpsertPrice service0 (Some 100) 100 201 price0)
     (world0\<lparr>sched := [Quiet, Fault]\<rparr>))))"
  by (rule UpsertPrice_keeps_one_current) (simp_all add: world0_def empty_db_def prices_ok_def)

definition unit_price :: "uuid \<Rightarrow> instant \<Rightarrow> price_row list \<Rightarrow> string \<Rightarrow> string \<Rightarrow> int" where
  "unit_price t from ps res u =
     (case price_at t res u from ps of Inl _ \<Rightarrow> 0 | Inr p \<Rightarrow> pr_cents p)"

definition metered_cost :: "uuid \<Rightarrow> uuid \<Rightarrow> instant \<Rightarrow> instant \<Rightarrow> db \<Rightarrow> int" where
  "metered_cost t u from to d =
     sum_list (map (\<lambda>r. ue_qty r * unit_price t from (prices d) (ue_resource r) (ue_unit r))
       (filter (in_window t u from to) (usages d)))"

lemma rollup_cost_metered:
  "rollup_cost t from (prices d) (rollup_of t u from to d) = metered_cost t u from to d"
proof -
  have "line_cost t from (prices d) \<lparr>ro_resource = a, ro_unit = b, ro_qty = q\<rparr> =
      q * unit_price t from (prices d) a b" for a b q
    by (simp add: line_cost_def unit_price_def split: sum.split)
  then have "rollup_cost t from (prices d) (rollup_of t u from to d) =
      sum_list (map (\<lambda>(a, b). group_qty a b (filter (in_window t u from to) (usages d)) *
        unit_price t from (prices d) a b)
        (usage_groups (filter (in_window t u from to) (usages d))))"
    by (simp add: rollup_cost_def rollup_of_def rollup_rows_def comp_def case_prod_unfold)
  then show ?thesis by (simp add: group_qty_split metered_cost_def)
qed

text \<open>
  C35. The charge of a rollup is exact: it is the sum, over the user's usage events that started
  in the window, of quantity times the unit price in force at the start of the window (nothing
  for events without a price), computed in 64-bit arithmetic; the state is only read. So a missing
  price leaves no trace: the warning in the audit trail of which the comment of \<^verbatim>\<open>ChargeForRollup\<close>
  speaks is not written by the code.
\<close>

theorem ChargeForRollup_exact:
  assumes "sched w = []" "from < to"
    "list_all (\<lambda>r. in_int64 (ro_qty r)) (rollup_of t u from to (wdb w))"
  shows "run_state (ChargeForRollup (Some t) u from to) w =
    (Inr (wrap64 (metered_cost t u from to (wdb w))), w)"
  using run_ChargeForRollup [OF assms] by (simp add: rollup_cost_metered)

definition metered_world :: world where
  "metered_world = world0\<lparr>wdb := (wdb world0)\<lparr>
     prices := [\<lparr>pr_id = 50, pr_tenant = 100, pr_resource = ''vm'', pr_unit = ''hour'', pr_cents = 12,
                 pr_currency = ''USD'', pr_from = 0, pr_to = None\<rparr>],
     usages := [\<lparr>ue_id = 60, ue_tenant = 100, ue_user = 200, ue_resource = ''vm'', ue_qty = 3,
                 ue_unit = ''hour'', ue_started = 600, ue_ended = 601, ue_key = None\<rparr>,
                \<lparr>ue_id = 61, ue_tenant = 100, ue_user = 200, ue_resource = ''disk'', ue_qty = 9,
                 ue_unit = ''gb'', ue_started = 650, ue_ended = 651, ue_key = None\<rparr>,
                \<lparr>ue_id = 62, ue_tenant = 100, ue_user = 200, ue_resource = ''vm'', ue_qty = 4,
                 ue_unit = ''hour'', ue_started = 700, ue_ended = 701, ue_key = None\<rparr>]\<rparr>\<rparr>"

lemma ChargeForRollup_exact_witness:
  "run_state (ChargeForRollup (Some 100) 200 500 800) metered_world = (Inr 84, metered_world)"
proof -
  have "list_all (\<lambda>r. in_int64 (ro_qty r)) (rollup_of 100 200 500 800 (wdb metered_world))"
    by code_simp
  moreover have "wrap64 (metered_cost 100 200 500 800 (wdb metered_world)) = 84" by code_simp
  moreover have "sched metered_world = []" by (simp add: metered_world_def world0_def)
  ultimately show ?thesis
    using ChargeForRollup_exact [of metered_world 500 800 100 200] by simp
qed

definition recorder ::
  "(uuid \<Rightarrow> bool) \<Rightarrow> ctx \<Rightarrow> uuid \<Rightarrow> uuid \<Rightarrow> string \<Rightarrow> unit result prog" where
  "recorder stops ctx t u reason = do {
     bus_emit True \<lparr>ev_topic = reason, ev_tenant = t, ev_actor_type = ''system'', ev_actor = u,
       ev_resource = uuid_nil, ev_meta = None, ev_at = 0\<rparr>;
     if stops u then ok () else fail (Msg ''refused'') }"

lemma run_for_each_recorder:
  "run_state (for_each (\<lambda>row. do {
      e \<leftarrow> recorder stops ctx t (ub_user row) (reason row);
      State_Monad.return (case e of Inl _ \<Rightarrow> False | Inr _ \<Rightarrow> True) }) rows) w =
   (length (filter (\<lambda>b. stops (ub_user b)) rows),
    w\<lparr>events := events w @ map (\<lambda>b.
       \<lparr>ev_topic = reason b, ev_tenant = t, ev_actor_type = ''system'', ev_actor = ub_user b,
        ev_resource = uuid_nil, ev_meta = None, ev_at = 0\<rparr>) rows\<rparr>)"
  by (induction rows arbitrary: w) (simp_all add: recorder_def)

text \<open>
  Enforcement calls the enforcer once for every user of the tenant whose cached balance is
  not positive and whose last entry is at least the grace period old, oldest entry first; a
  refused stop does not end the scan and is not counted.
\<close>

theorem EnforceZeroBalances_stops_overdue:
  assumes "sched w = []" "sv_enforcer s = recorder stops"
  shows "\<exists>w'. let overdue = zero_balances t (db_now (wdb w) - cf_grace (sv_config s))
                               (balances (wdb w)) in
    run_state (EnforceZeroBalances s (Some t) t) w =
      (Inr (length (filter (\<lambda>b. stops (ub_user b)) overdue)), w') \<and>
    wdb w' = wdb w \<and>
    map ev_actor (drop (length (events w)) (events w')) = map ub_user overdue \<and>
    sorted (map ub_last_entry overdue) \<and>
    set overdue = {b \<in> set (balances (wdb w)). ub_tenant b = t \<and> ub_cents b \<le> 0 \<and>
      ub_last_entry b + cf_grace (sv_config s) \<le> db_now (wdb w)}"
  using assms
  by (auto simp: EnforceZeroBalances_def Balances_ListZeroBalances_def run_for_each_recorder Let_def
      zero_balances_def comp_def)

definition overdue_world :: world where
  "overdue_world = world0\<lparr>wdb := (wdb world0)\<lparr>db_now := 25 * hour, balances :=
     [\<lparr>ub_tenant = 100, ub_user = 201, ub_cents = -5, ub_currency = ''USD'', ub_last_entry = 7,
       ub_updated = 7\<rparr>,
      \<lparr>ub_tenant = 100, ub_user = 200, ub_cents = 0, ub_currency = ''USD'', ub_last_entry = 3,
       ub_updated = 3\<rparr>]\<rparr>\<rparr>"

lemma EnforceZeroBalances_stops_overdue_witness:
  "fst (run_state (EnforceZeroBalances (service0\<lparr>sv_enforcer := recorder (\<lambda>u. u = 200)\<rparr>)
     (Some 100) 100) overdue_world) = Inr 1"
proof -
  let ?s = "service0\<lparr>sv_enforcer := recorder (\<lambda>u. u = 200)\<rparr>"
  have "length (filter (\<lambda>b. ub_user b = 200) (zero_balances 100
      (db_now (wdb overdue_world) - cf_grace (sv_config service0)) (balances (wdb overdue_world)))) = 1"
    by code_simp
  moreover have "sched overdue_world = []" by (simp add: overdue_world_def world0_def)
  ultimately show ?thesis
    using EnforceZeroBalances_stops_overdue [of overdue_world ?s "\<lambda>u. u = 200" 100]
    by (auto simp: Let_def)
qed

text \<open>
  C39. A charge restarts the grace period: an account that has just been charged is not among
  the overdue ones until the grace period after that charge is over, however long its balance
  has been negative.
\<close>

theorem charge_restarts_grace:
  assumes "sched w = []" "ch_user p \<noteq> uuid_nil" "0 < ch_amount p" "currency_ok s (ch_currency p)"
    "fk_ok t (ch_user p) (wdb w)" "\<not> key_taken (ch_key p) (ledger (wdb w))"
    "in_int64 (balance_of t (ch_user p) (ledger (wdb w)) - ch_amount p)"
    "balances_ok (wdb w)" "later < db_now (wdb w) + cf_grace (sv_config s)"
  shows "ch_user p \<notin> ub_user ` set (zero_balances t (later - cf_grace (sv_config s))
    (balances (wdb (snd (run_state (PostCharge s (Some t) t p) w)))))"
proof -
  let ?u = "ch_user p"
  obtain row w' b where r: "run_state (PostCharge s (Some t) t p) w = (Inr row, w')"
    "find (is_balance t ?u) (balances (wdb w')) = Some b" "ub_last_entry b = db_now (wdb w)"
    using run_PostCharge_new [OF assms(1-7)] by metis
  have ok: "balances_ok (wdb w')"
    using stable_db [OF keeps_runD [OF balances_inv.keeps_PostCharge [OF TrueI] stable_quietI r(1)]] assms(1,8)
    by blast
  have b: "b \<in> set (balances (wdb w'))" "ub_tenant b = t" "ub_user b = ?u"
    using r(2) by (auto simp: find_Some_iff is_balance_def)
  have "ub_last_entry c = db_now (wdb w)"
    if "c \<in> set (balances (wdb w'))" "ub_tenant c = t" "ub_user c = ?u" for c
    using ok that b r(3) unfolding balances_ok_def by (auto simp: distinct_map inj_on_def)
  then show ?thesis using r(1) assms(9) by (auto simp: zero_balances_def)
qed

lemma charge_restarts_grace_witness:
  "200 \<notin> ub_user ` set (zero_balances 100 (24 * hour - cf_grace (sv_config service0))
    (balances (wdb (snd (run_state (PostCharge service0 (Some 100) 100 charge0) world0)))))"
  using charge_restarts_grace [of world0 charge0 service0 100 "24 * hour"] world0_facts
  by (simp add: charge0_def uuid_nil_def key_taken_def balances_ok_def in_int64_def int64_min_def
      int64_max_def service0_def world0_def empty_db_def)

end
