(* ===== verification/Utf8.thy ===== *)
theory Utf8
  imports Prelude
begin

text \<open>
  The decoding of UTF-8 by the Go runtime, for the code that looks at the runes of a string:
  \<^verbatim>\<open>billing/receipts.go\<close> and \<^verbatim>\<open>auth/password/password.go\<close>.
\<close>

section \<open>Runes\<close>

text \<open>
  \<^verbatim>\<open>for _, r := range s\<close> decodes UTF-8: one rune and its width in bytes, the replacement
  character of width one for an invalid sequence.
\<close>

definition is_cont :: "nat \<Rightarrow> bool" where
  "is_cont b \<longleftrightarrow> 128 \<le> b \<and> b < 192"

definition bad_rune :: "nat \<times> nat" where
  "bad_rune = (65533, 1)"

fun decode_rune :: "nat list \<Rightarrow> nat \<times> nat" where
  "decode_rune (a # b # c # d # _) =
     (if a < 128 then (a, 1)
      else if 194 \<le> a \<and> a < 224 then (if is_cont b then ((a - 192) * 64 + (b - 128), 2) else bad_rune)
      else if 224 \<le> a \<and> a < 240 then
        (if is_cont b \<and> is_cont c \<and> (a = 224 \<longrightarrow> 160 \<le> b) \<and> (a = 237 \<longrightarrow> b < 160)
         then ((a - 224) * 4096 + (b - 128) * 64 + (c - 128), 3) else bad_rune)
      else if 240 \<le> a \<and> a < 245 then
        (if is_cont b \<and> is_cont c \<and> is_cont d \<and> (a = 240 \<longrightarrow> 144 \<le> b) \<and> (a = 244 \<longrightarrow> b < 144)
         then ((a - 240) * 262144 + (b - 128) * 4096 + (c - 128) * 64 + (d - 128), 4)
         else bad_rune)
      else bad_rune)"
| "decode_rune [a, b, c] =
     (if a < 128 then (a, 1)
      else if 194 \<le> a \<and> a < 224 then (if is_cont b then ((a - 192) * 64 + (b - 128), 2) else bad_rune)
      else if 224 \<le> a \<and> a < 240 \<and> is_cont b \<and> is_cont c \<and> (a = 224 \<longrightarrow> 160 \<le> b) \<and>
              (a = 237 \<longrightarrow> b < 160)
      then ((a - 224) * 4096 + (b - 128) * 64 + (c - 128), 3)
      else bad_rune)"
| "decode_rune [a, b] =
     (if a < 128 then (a, 1)
      else if 194 \<le> a \<and> a < 224 \<and> is_cont b then ((a - 192) * 64 + (b - 128), 2)
      else bad_rune)"
| "decode_rune [a] = (if a < 128 then (a, 1) else bad_rune)"
| "decode_rune [] = bad_rune"

lemma decode_rune_width: "0 < snd (decode_rune bs)"
  by (induction bs rule: decode_rune.induct) (simp_all add: bad_rune_def)

function runes_of :: "nat list \<Rightarrow> nat list" where
  "runes_of [] = []"
| "runes_of (b # bs) =
     (case decode_rune (b # bs) of (r, n) \<Rightarrow> r # runes_of (drop n (b # bs)))"
  by pat_completeness auto
termination
proof (relation "measure length", goal_cases)
  case (2 b bs r n)
  then have "0 < n" using decode_rune_width [of "b # bs"] by (cases "decode_rune (b # bs)") simp
  then show ?case by simp
qed simp

definition runes :: "string \<Rightarrow> nat list" where
  "runes s = runes_of (map of_char s)"

lemma decode_ascii: "b < 128 \<Longrightarrow> decode_rune (b # bs) = (b, 1)"
  by (cases "b # bs" rule: decode_rune.cases) auto

lemma runes_of_ascii: "list_all (\<lambda>b. b < 128) bs \<Longrightarrow> runes_of bs = bs"
  by (induction bs) (simp_all add: decode_ascii)

end
