(* ===== verification/Receipts.thy ===== *)
theory Receipts
  imports Billing_Props Utf8
begin

text \<open>
  \<^verbatim>\<open>billing/receipts.go\<close>: receipts of a billing period and the hand-written PDF they carry.
  The document is a byte string; the text form of a UUID (package \<^verbatim>\<open>google/uuid\<close>) is the
  parameter \<open>uuid_str\<close>.
\<close>

section \<open>The document\<close>

definition escape_rune :: "nat \<Rightarrow> string" where
  "escape_rune r =
     (if r = 92 then [char_of (92::nat), char_of (92::nat)]
      else if r = 40 then [char_of (92::nat), CHR ''('']
      else if r = 41 then [char_of (92::nat), CHR '')'']
      else if r = 13 then [char_of (92::nat), CHR ''r'']
      else if r = 10 then [char_of (92::nat), CHR ''n'']
      else if r > 126 then ''?''
      else [char_of r])"

definition escapePDFText :: "string \<Rightarrow> string" where
  "escapePDFText s = concat (map escape_rune (runes s))"

definition absCents :: "int \<Rightarrow> int" where
  "absCents cents = (if cents < 0 then wrap64 (- cents) else cents)"

record receipt_pdf_params =
  rd_tenant :: uuid
  rd_user :: uuid
  rd_start :: instant
  rd_end :: instant
  rd_total :: int
  rd_balance :: int
  rd_currency :: string
  rd_generated :: instant

definition nl :: string where
  "nl = [char_of (10::nat)]"

definition total_amount :: "int \<Rightarrow> string" where
  "total_amount c = fmt_d (go_div c 100) @ ''.'' @ fmt_0d 2 (go_mod c 100)"

definition balance_amount :: "int \<Rightarrow> string" where
  "balance_amount c = fmt_d (go_div c 100) @ ''.'' @ fmt_0d 2 (go_mod (absCents c) 100)"

definition receipt_lines :: "(uuid \<Rightarrow> string) \<Rightarrow> receipt_pdf_params \<Rightarrow> string list" where
  "receipt_lines uuid_str p =
     (let currency = (if rd_currency p = '''' then ''USD'' else rd_currency p) in
      [''Lahijan Cloud Platform'',
       ''Billing Receipt'',
       '''',
       ''Tenant:   '' @ uuid_str (rd_tenant p),
       ''User:     '' @ uuid_str (rd_user p),
       '''',
       ''Period:   '' @ format_date (rd_start p) @ '' to '' @ format_date (rd_end p),
       '''',
       ''Total charged:    '' @ currency @ '' '' @ total_amount (rd_total p),
       ''Balance at end:   '' @ currency @ '' '' @ balance_amount (rd_balance p),
       '''',
       ''Generated: '' @ format_rfc3339 (rd_generated p),
       '''',
       ''This document was generated automatically by Lahijan.''])"

definition show_line :: "string \<Rightarrow> string" where
  "show_line line = ''('' @ escapePDFText line @ '') Tj'' @ nl"

definition receipt_content :: "string list \<Rightarrow> string" where
  "receipt_content lines =
     ''BT'' @ nl @ ''/F1 12 Tf'' @ nl @ ''72 740 Td'' @ nl @ ''16 TL'' @ nl @
     (case lines of [] \<Rightarrow> [] | l # ls \<Rightarrow> show_line l @ concat (map (\<lambda>x. ''T*'' @ nl @ show_line x) ls)) @
     ''ET'' @ nl"

definition pdf_header :: string where
  "pdf_header = ''%PDF-1.4'' @ nl @ ''%'' @
     map char_of [226, 227, 207, 211 :: nat] @ nl"

definition pdf_catalog :: string where
  "pdf_catalog = ''1 0 obj'' @ nl @ ''<< /Type /Catalog /Pages 2 0 R >>'' @ nl @ ''endobj'' @ nl"

definition pdf_pages :: string where
  "pdf_pages = ''2 0 obj'' @ nl @ ''<< /Type /Pages /Kids [3 0 R] /Count 1 >>'' @ nl @ ''endobj'' @ nl"

definition pdf_page :: string where
  "pdf_page = ''3 0 obj'' @ nl @ ''<< /Type /Page /Parent 2 0 R /MediaBox [0 0 612 792] '' @
     ''/Resources << /Font << /F1 4 0 R >> >> /Contents 5 0 R >>'' @ nl @ ''endobj'' @ nl"

definition pdf_font :: string where
  "pdf_font = ''4 0 obj'' @ nl @ ''<< /Type /Font /Subtype /Type1 /BaseFont /Helvetica >>'' @ nl @
     ''endobj'' @ nl"

definition pdf_stream :: "string \<Rightarrow> string" where
  "pdf_stream content =
     ''5 0 obj'' @ nl @ ''<< /Length '' @ fmt_d (int (length content)) @ '' >>'' @ nl @
     ''stream'' @ nl @ content @ nl @ ''endstream'' @ nl @ ''endobj'' @ nl"

text \<open>The document, with the offsets the code records while it writes the objects.\<close>

definition pdf_layout :: "string \<Rightarrow> string \<times> nat list" where
  "pdf_layout content =
     (let b1 = pdf_header; o1 = length b1;
          b2 = b1 @ pdf_catalog; o2 = length b2;
          b3 = b2 @ pdf_pages; o3 = length b3;
          b4 = b3 @ pdf_page; o4 = length b4;
          b5 = b4 @ pdf_font; o5 = length b5;
          b6 = b5 @ pdf_stream content
      in (b6, [0, o1, o2, o3, o4, o5]))"

definition xref_line :: "nat \<Rightarrow> string" where
  "xref_line off = fmt_0d 10 (int off) @ '' 00000 n '' @ nl"

definition buildReceiptPDF :: "(uuid \<Rightarrow> string) \<Rightarrow> receipt_pdf_params \<Rightarrow> string" where
  "buildReceiptPDF uuid_str p =
     (case pdf_layout (receipt_content (receipt_lines uuid_str p)) of (body, offsets) \<Rightarrow>
        body @ ''xref'' @ nl @
        ''0 '' @ fmt_d (int (length offsets + 1)) @ nl @
        ''0000000000 65535 f '' @ nl @
        concat (map xref_line (tl offsets)) @
        ''trailer'' @ nl @
        ''<< /Size '' @ fmt_d (int (length offsets + 1)) @ '' /Root 1 0 R >>'' @ nl @
        ''startxref'' @ nl @ fmt_d (int (length body)) @ nl @ ''%%EOF'' @ nl)"

section \<open>The operations\<close>

record receipt_request =
  rq_user :: uuid
  rq_start :: instant
  rq_end :: instant

definition emitReceiptEvent ::
  "service \<Rightarrow> ctx \<Rightarrow> uuid \<Rightarrow> uuid \<Rightarrow> uuid \<Rightarrow> receipt_request \<Rightarrow> int \<Rightarrow> unit prog" where
  "emitReceiptEvent s ctx tenantID actorID receiptID params total_cents = do {
     auditID \<leftarrow> auditEmit (sv_audit s) ''billing.receipt.generate'' ''receipt'' tenantID actorID receiptID
       (Some [(''user_id'', JUuid (rq_user params)), (''period_start'', JTime (rq_start params)),
              (''period_end'', JTime (rq_end params)), (''total_cents'', JInt total_cents)]);
     auditMarkOutcome (sv_audit s) auditID True None;
     emitEvent s ctx ''billing.balance.charged'' tenantID (rq_user params) receiptID
       (Some [(''topic'', JStr ''billing.receipt.generated''),
              (''period_start'', JTime (rq_start params)), (''period_end'', JTime (rq_end params)),
              (''total_cents'', JInt total_cents), (''receipt_id'', JUuid receiptID)]) }"

definition GenerateReceipt ::
  "(uuid \<Rightarrow> string) \<Rightarrow> service \<Rightarrow> ctx \<Rightarrow> uuid \<Rightarrow> uuid \<Rightarrow> receipt_request \<Rightarrow> receipt_row result prog" where
  "GenerateReceipt uuid_str s ctx tenantID actorID params =
     (if rq_user params = uuid_nil then fail (Sentinel ErrUserNotFound)
      else if \<not> rq_end params > rq_start params then fail (Sentinel ErrInvalidPeriod)
      else do {
        charged \<leftarrow> Ledger_SumChargesInPeriod ctx (rq_user params) (rq_start params) (rq_end params);
        case charged of
          Inl e \<Rightarrow> fail (Wrap ''billing.receipt.generate: sum charges'' e)
        | Inr totalCents \<Rightarrow> do {
            atEnd \<leftarrow> Ledger_SumForUserUpTo ctx (rq_user params) (rq_end params);
            case atEnd of
              Inl e \<Rightarrow> fail (Wrap ''billing.receipt.generate: balance at end'' e)
            | Inr balanceAtEnd \<Rightarrow> do {
                now \<leftarrow> time_now;
                let pdf = buildReceiptPDF uuid_str
                  \<lparr>rd_tenant = tenantID, rd_user = rq_user params, rd_start = rq_start params,
                   rd_end = rq_end params, rd_total = totalCents, rd_balance = balanceAtEnd,
                   rd_currency = cf_currency (sv_config s), rd_generated = now\<rparr>;
                existing \<leftarrow> Receipts_GetForPeriod ctx (rq_user params) (rq_start params)
                  (rq_end params);
                case (case existing of Inr r \<Rightarrow> if rc_id r \<noteq> uuid_nil then Some r else None
                                     | Inl _ \<Rightarrow> None) of
                  Some r \<Rightarrow> do {
                    up \<leftarrow> Receipts_UpdatePDF ctx (rc_id r) pdf;
                    case up of
                      Inl e \<Rightarrow> fail (Wrap ''billing.receipt.generate: update pdf'' e)
                    | Inr _ \<Rightarrow> do {
                        emitReceiptEvent s ctx tenantID actorID (rc_id r) params totalCents;
                        ok (r\<lparr>rc_pdf := pdf, rc_total := totalCents\<rparr>) } }
                | None \<Rightarrow> do {
                    created \<leftarrow> Receipts_Create ctx
                      \<lparr>rp_user = rq_user params, rp_start = rq_start params,
                       rp_end = rq_end params, rp_total = totalCents,
                       rp_currency = cf_currency (sv_config s), rp_pdf = pdf,
                       rp_status = ''ready''\<rparr>;
                    case created of
                      Inl e \<Rightarrow> fail (Wrap ''billing.receipt.generate: create'' e)
                    | Inr row \<Rightarrow> do {
                        emitReceiptEvent s ctx tenantID actorID (rc_id row) params totalCents;
                        ok row } } } } })"

definition GetReceipt :: "ctx \<Rightarrow> uuid \<Rightarrow> receipt_row result prog" where
  "GetReceipt ctx i = found_or ErrReceiptNotFound ''billing.receipt.get'' (Receipts_Get ctx i)"

definition ListReceipts :: "ctx \<Rightarrow> uuid \<Rightarrow> int \<Rightarrow> int \<Rightarrow> receipt_row list result prog" where
  "ListReceipts ctx u limit offset =
     wrapped ''billing.receipt.list'' (Receipts_ListForUser ctx u limit offset)"

definition CountReceipts :: "ctx \<Rightarrow> uuid \<Rightarrow> int result prog" where
  "CountReceipts ctx u = wrapped ''billing.receipt.count'' (Receipts_CountForUser ctx u)"

end
