(* ===== verification/Receipts_Claims.thy ===== *)
theory Receipts_Claims
  imports Billing_Claims Receipts
begin

text \<open>
  Properties of receipts: the text of the document, its cross-reference table, the amounts it
  prints and the rows the generator leaves.
\<close>

section \<open>Text\<close>

text \<open>The reader of a PDF literal string, for the escapes the writer uses.\<close>

fun unescape :: "string \<Rightarrow> string" where
  "unescape [] = []"
| "unescape [c] = [c]"
| "unescape (c # d # cs) =
     (if c = char_of (92::nat)
      then (if d = CHR ''n'' then char_of (10::nat) else if d = CHR ''r'' then char_of (13::nat) else d)
             # unescape cs
      else c # unescape (d # cs))"

definition printable :: "string \<Rightarrow> bool" where
  "printable s \<longleftrightarrow> list_all (\<lambda>c. of_char c \<le> (126::nat)) s"

lemma unescape_plain: "c \<noteq> char_of (92::nat) \<Longrightarrow> unescape (c # cs) = c # unescape cs"
  by (cases cs) simp_all

lemma unescape_rune:
  assumes "r \<le> 126"
  shows "unescape (escape_rune r @ cs) = char_of r # unescape cs"
proof -
  have "char_of r \<noteq> (char_of (92::nat) :: char)" if "r \<noteq> 92"
    using that assms by (simp add: char_of_eq_iff take_bit_eq_mod)
  moreover have "char_of (92::nat) = CHR 0x5C" "char_of (10::nat) = CHR 0x0A"
    "char_of (13::nat) = CHR 0x0D" "char_of (40::nat) = CHR ''(''" "char_of (41::nat) = CHR '')''"
    by code_simp+
  ultimately show ?thesis
    using assms by (simp add: escape_rune_def unescape_plain)
qed

lemma runes_ascii: "printable s \<Longrightarrow> runes s = map of_char s"
  unfolding runes_def printable_def by (rule runes_of_ascii) (force simp: list_all_iff)

text \<open>
  Reading back the escaped text of a line gives the line, for lines of printable ASCII (and
  line breaks): no parenthesis, backslash or line break of the text ends the string early.
\<close>

theorem escapePDFText_roundtrip:
  "printable s \<Longrightarrow> unescape (escapePDFText s) = s"
proof -
  assume p: "printable s"
  have "unescape (concat (map escape_rune (map of_char s))) = s"
    using p by (induction s) (simp_all add: printable_def unescape_rune)
  then show ?thesis using runes_ascii [OF p] by (simp add: escapePDFText_def)
qed

lemma escapePDFText_roundtrip_witness:
  "unescape (escapePDFText ''a(b)c'') = ''a(b)c''"
  by (rule escapePDFText_roundtrip) (simp add: printable_def)

section \<open>The cross-reference table\<close>

lemma fmt_d_samples:
  "fmt_d 1 = ''1''" "fmt_d 2 = ''2''" "fmt_d 3 = ''3''" "fmt_d 4 = ''4''" "fmt_d 5 = ''5''" "fmt_d 7 = ''7''"
  by code_simp+

definition receipt_pdf_offsets :: "(uuid \<Rightarrow> string) \<Rightarrow> receipt_pdf_params \<Rightarrow> nat list" where
  "receipt_pdf_offsets uuid_str p = snd (pdf_layout (receipt_content (receipt_lines uuid_str p)))"

text \<open>
  Every offset the cross-reference table lists is the position of its object: at the \<open>i\<close>-th
  recorded offset the document continues with \<open>i 0 obj\<close>, for each of the five objects.
\<close>

theorem receipt_offsets_point_to_objects:
  assumes "i \<in> {1, 2, 3, 4, 5}"
  shows "HasPrefix (drop (receipt_pdf_offsets uuid_str p ! i) (buildReceiptPDF uuid_str p))
    (fmt_d (int i) @ '' 0 obj'')"
proof -
  let ?c = "receipt_content (receipt_lines uuid_str p)"
  obtain rest where doc: "buildReceiptPDF uuid_str p =
      pdf_header @ pdf_catalog @ pdf_pages @ pdf_page @ pdf_font @ pdf_stream ?c @ rest"
    by (simp add: buildReceiptPDF_def pdf_layout_def Let_def)
  have offs: "receipt_pdf_offsets uuid_str p =
     [0, length pdf_header, length (pdf_header @ pdf_catalog),
      length (pdf_header @ pdf_catalog @ pdf_pages),
      length (pdf_header @ pdf_catalog @ pdf_pages @ pdf_page),
      length (pdf_header @ pdf_catalog @ pdf_pages @ pdf_page @ pdf_font)]"
    by (simp add: receipt_pdf_offsets_def pdf_layout_def Let_def)
  have "drop (length pdf_header) (buildReceiptPDF uuid_str p) = pdf_catalog @
      pdf_pages @ pdf_page @ pdf_font @ pdf_stream ?c @ rest"
    "drop (length (pdf_header @ pdf_catalog)) (buildReceiptPDF uuid_str p) =
      pdf_pages @ pdf_page @ pdf_font @ pdf_stream ?c @ rest"
    "drop (length (pdf_header @ pdf_catalog @ pdf_pages)) (buildReceiptPDF uuid_str p) =
      pdf_page @ pdf_font @ pdf_stream ?c @ rest"
    "drop (length (pdf_header @ pdf_catalog @ pdf_pages @ pdf_page)) (buildReceiptPDF uuid_str p) =
      pdf_font @ pdf_stream ?c @ rest"
    "drop (length (pdf_header @ pdf_catalog @ pdf_pages @ pdf_page @ pdf_font))
       (buildReceiptPDF uuid_str p) = pdf_stream ?c @ rest"
    unfolding doc by simp_all
  then show ?thesis
    using assms unfolding offs HasPrefix_def
    by (auto simp: fmt_d_samples pdf_catalog_def pdf_pages_def pdf_page_def pdf_font_def pdf_stream_def)
qed

lemma receipt_offsets_point_to_objects_witness:
  "HasPrefix (drop (receipt_pdf_offsets (\<lambda>u. ''u'')
      \<lparr>rd_tenant = 1, rd_user = 2, rd_start = 0, rd_end = 1, rd_total = 5, rd_balance = 3,
       rd_currency = ''EUR'', rd_generated = 1\<rparr> ! 4)
     (buildReceiptPDF (\<lambda>u. ''u'')
      \<lparr>rd_tenant = 1, rd_user = 2, rd_start = 0, rd_end = 1, rd_total = 5, rd_balance = 3,
       rd_currency = ''EUR'', rd_generated = 1\<rparr>)) ''4 0 obj''"
  using receipt_offsets_point_to_objects [of 4 "\<lambda>u. ''u''"
      "\<lparr>rd_tenant = 1, rd_user = 2, rd_start = 0, rd_end = 1, rd_total = 5, rd_balance = 3,
       rd_currency = ''EUR'', rd_generated = 1\<rparr>"]
    fmt_d_samples by simp

text \<open>
  The table announces seven entries, and so does the trailer, but lists six: the free entry
  and the five objects.
\<close>

theorem receipt_xref_announces_one_too_many:
  "\<exists>rest. drop (length (fst (pdf_layout (receipt_content (receipt_lines uuid_str p)))))
      (buildReceiptPDF uuid_str p) =
    ''xref'' @ nl @ ''0 7'' @ nl @ ''0000000000 65535 f '' @ nl @
    concat (map xref_line (tl (receipt_pdf_offsets uuid_str p))) @
    ''trailer'' @ nl @ ''<< /Size 7 /Root 1 0 R >>'' @ rest \<and>
    length (tl (receipt_pdf_offsets uuid_str p)) = 5"
  by (simp add: fmt_d_samples buildReceiptPDF_def receipt_pdf_offsets_def pdf_layout_def Let_def)

section \<open>Amounts\<close>

lemma go_div_minus: "0 < b \<Longrightarrow> go_div (- a) b = - go_div a b"
  by (simp add: go_div_def sgn_if)

lemma fmt_d_minus: "0 < i \<Longrightarrow> fmt_d (- i) = CHR ''-'' # fmt_d i"
  by (simp add: fmt_d_def)

text \<open>
  The balance line: a negative balance is printed as the positive one with a minus sign when
  it is at least one whole unit, and exactly like the positive one when it is less than one unit.
\<close>

theorem balance_amount_sign:
  assumes "0 < c" "c \<le> int64_max"
  shows "balance_amount (- c) =
    (if c < 100 then balance_amount c else CHR ''-'' # balance_amount c)"
proof -
  have a: "absCents (- c) = c" "absCents c = c"
    using assms by (simp_all add: absCents_def wrap64_id in_int64_def int64_min_def int64_max_def)
  show ?thesis
  proof (cases "c < 100")
    case True
    then have "go_div (- c) 100 = 0" "go_div c 100 = 0"
      using assms by (simp_all add: go_div_neg go_div_nonneg)
    then show ?thesis using True a by (simp add: balance_amount_def)
  next
    case False
    then have "0 < go_div c 100" "go_div (- c) 100 = - go_div c 100"
      using assms by (simp_all add: go_div_nonneg go_div_minus)
    then show ?thesis using False a by (simp add: balance_amount_def fmt_d_minus)
  qed
qed

lemma balance_amount_sign_witness: "balance_amount (- 50) = balance_amount 50"
  using balance_amount_sign [of 50] by (simp add: int64_max_def)

section \<open>Rows\<close>

lemma emitReceiptEvent_frame:
  assumes "sched w = []"
  obtains w' where "run_state (emitReceiptEvent s ctx t a i p c) w = ((), w')"
    "receipts (wdb w') = receipts (wdb w)" "ledger (wdb w') = ledger (wdb w)"
proof -
  let ?m = "Some [(''user_id'', JUuid (rq_user p)), (''period_start'', JTime (rq_start p)),
    (''period_end'', JTime (rq_end p)), (''total_cents'', JInt c)]"
  obtain x w1 where w1: "run_state (auditEmit (sv_audit s) ''billing.receipt.generate'' ''receipt''
      t a i ?m) w = (x, w1)" "audited w w1" "sched w1 = []"
    using auditEmit_cases [OF assms] by metis
  obtain w2 where w2: "run_state (auditMarkOutcome (sv_audit s) x True None) w1 = ((), w2)"
    "audited w1 w2"
    using auditMark_cases [OF w1(3)] by metis
  define w' where "w' = snd (run_state (emitReceiptEvent s ctx t a i p c) w)"
  have "run_state (emitReceiptEvent s ctx t a i p c) w = ((), w')" "wdb w' = wdb w2"
    using w1(1) w2(1) by (simp_all add: w'_def emitReceiptEvent_def)
  then show thesis
    using that auditedD(3,7) [OF w1(2)] auditedD(3,7) [OF w2(2)] by simp
qed

definition period_charges :: "uuid \<Rightarrow> receipt_request \<Rightarrow> db \<Rightarrow> int" where
  "period_charges t p d = sum_type ''debit''
     (filter (\<lambda>r. mine t (rq_user p) r \<and> rq_start p \<le> le_created r \<and> le_created r \<le> rq_end p)
       (ledger d))"

definition balance_at_end :: "uuid \<Rightarrow> receipt_request \<Rightarrow> db \<Rightarrow> int" where
  "balance_at_end t p d =
     balance_of t (rq_user p) (filter (\<lambda>r. le_created r \<le> rq_end p) (ledger d))"

definition receipt_document ::
  "(uuid \<Rightarrow> string) \<Rightarrow> service \<Rightarrow> uuid \<Rightarrow> uuid \<Rightarrow> receipt_request \<Rightarrow> db \<Rightarrow> string" where
  "receipt_document uuid_str s t t' p d = buildReceiptPDF uuid_str
     \<lparr>rd_tenant = t', rd_user = rq_user p, rd_start = rq_start p, rd_end = rq_end p,
      rd_total = period_charges t p d, rd_balance = balance_at_end t p d,
      rd_currency = cf_currency (sv_config s), rd_generated = db_now d\<rparr>"

definition of_period :: "uuid \<Rightarrow> receipt_request \<Rightarrow> receipt_row \<Rightarrow> bool" where
  "of_period t p r \<longleftrightarrow> rc_tenant r = t \<and> rc_user r = rq_user p \<and> rc_start r = rq_start p \<and>
     rc_end r = rq_end p"

lemma run_Receipts_GetForPeriod:
  "sched w = [] \<Longrightarrow> run_state (Receipts_GetForPeriod (Some t) (rq_user p) (rq_start p) (rq_end p)) w =
     (case find (of_period t p) (receipts (wdb w)) of None \<Rightarrow> Inl (Pg NoRows) | Some r \<Rightarrow> Inr r, w)"
  by (simp add: Receipts_GetForPeriod_def sql_one_def of_period_def [abs_def] split: option.split)

text \<open>
  The first receipt of a period is a ready row whose total is the sum of the user's debits
  created within the period (both ends included), appended to the receipts with the document
  that prints this total and the balance at the end of the period.
\<close>

theorem GenerateReceipt_first:
  assumes "sched w = []" "rq_user p \<noteq> uuid_nil" "rq_start p < rq_end p"
    "in_int64 (period_charges t p (wdb w))" "in_int64 (balance_at_end t p (wdb w))"
    "fk_ok t (rq_user p) (wdb w)" "\<not> list_ex (receipt_taken t (rq_user p) (rq_start p)) (receipts (wdb w))"
    "\<not> list_ex (of_period t p) (receipts (wdb w))"
  shows "\<exists>row w'. run_state (GenerateReceipt uuid_str s (Some t) t' actor p) w = (Inr row, w') \<and>
    receipts (wdb w') = receipts (wdb w) @ [row] \<and> ledger (wdb w') = ledger (wdb w) \<and>
    of_period t p row \<and> rc_status row = ''ready'' \<and>
    rc_total row = period_charges t p (wdb w) \<and>
    rc_pdf row = receipt_document uuid_str s t t' p (wdb w)"
proof -
  let ?pdf = "receipt_document uuid_str s t t' p (wdb w)"
  define row where "row = \<lparr>rc_id = db_next (wdb w), rc_tenant = t, rc_user = rq_user p,
    rc_start = rq_start p, rc_end = rq_end p, rc_total = period_charges t p (wdb w),
    rc_currency = orUSD (cf_currency (sv_config s)), rc_pdf = ?pdf, rc_status = ''ready''\<rparr>"
  define w1 where "w1 = w\<lparr>wdb := (wdb w)\<lparr>db_next := Suc (db_next (wdb w)),
    receipts := receipts (wdb w) @ [row]\<rparr>\<rparr>"
  have none: "find (of_period t p) (receipts (wdb w)) = None"
    using assms(8) by (simp add: find_None_ex)
  have s1: "sched w1 = []" using assms(1) by (simp add: w1_def)
  obtain w' where w': "run_state (emitReceiptEvent s (Some t) t' actor (rc_id row) p
      (period_charges t p (wdb w))) w1 = ((), w')" "receipts (wdb w') = receipts (wdb w1)"
    "ledger (wdb w') = ledger (wdb w1)"
    using emitReceiptEvent_frame [OF s1] by metis
  have "run_state (GenerateReceipt uuid_str s (Some t) t' actor p) w = (Inr row, w')"
    using assms none w'(1)
    by (simp add: GenerateReceipt_def Ledger_SumChargesInPeriod_def Ledger_SumForUserUpTo_def
        sql_bigint_def period_charges_def [symmetric] balance_at_end_def [symmetric]
        run_Receipts_GetForPeriod Receipts_Create_def sql_create_receipt_def Let_def
        receipt_document_def [symmetric] row_def [symmetric] w1_def [symmetric])
  then show ?thesis using w' by (auto simp: w1_def row_def of_period_def)
qed

definition receipt_world :: world where
  "receipt_world = world0\<lparr>wdb := (wdb world0)\<lparr>ledger :=
     [\<lparr>le_id = 70, le_tenant = 100, le_user = 200, le_type = ''debit'', le_amount = 900,
       le_currency = ''USD'', le_source = ''charge'', le_reference = '''', le_key = None, le_meta = [],
       le_created = 50\<rparr>]\<rparr>\<rparr>"

definition receipt_request0 :: receipt_request where
  "receipt_request0 = \<lparr>rq_user = 200, rq_start = 0, rq_end = 100\<rparr>"

lemma receipt_request0_simps [simp]:
  "rq_user receipt_request0 = 200" "rq_start receipt_request0 = 0" "rq_end receipt_request0 = 100"
  by (simp_all add: receipt_request0_def)

lemma receipt_world_facts:
  "period_charges 100 receipt_request0 (wdb receipt_world) = 900"
  "balance_at_end 100 receipt_request0 (wdb receipt_world) = - 900"
  "fk_ok 100 200 (wdb receipt_world)" "sched receipt_world = []" "receipts (wdb receipt_world) = []"
  by (code_simp, code_simp, simp_all add: receipt_world_def world0_def empty_db_def fk_ok_def)

lemma GenerateReceipt_first_witness:
  "\<exists>row w'. run_state (GenerateReceipt (\<lambda>u. ''u'') service0 (Some 100) 100 201 receipt_request0)
      receipt_world = (Inr row, w') \<and> receipts (wdb w') = [row] \<and> rc_total row = 900"
  using GenerateReceipt_first
    [of receipt_world receipt_request0 100 "\<lambda>u. ''u''" service0 100 201] receipt_world_facts
  by (auto simp: uuid_nil_def in_int64_def int64_min_def int64_max_def)

text \<open>
  Regenerating a receipt answers the new total but does not store it: the row of the period
  gets the new document and the status \<open>ready\<close>, and keeps the total it was created with.
\<close>

theorem GenerateReceipt_again_keeps_stored_total:
  assumes "sched w = []" "rq_user p \<noteq> uuid_nil" "rq_start p < rq_end p"
    "in_int64 (period_charges t p (wdb w))" "in_int64 (balance_at_end t p (wdb w))"
    "receipts (wdb w) = [old]" "of_period t p old" "rc_id old \<noteq> uuid_nil"
  shows "\<exists>row w'. run_state (GenerateReceipt uuid_str s (Some t) t' actor p) w = (Inr row, w') \<and>
    rc_id row = rc_id old \<and> rc_total row = period_charges t p (wdb w) \<and>
    receipts (wdb w') =
      [old\<lparr>rc_pdf := receipt_document uuid_str s t t' p (wdb w), rc_status := ''ready''\<rparr>]"
proof -
  let ?pdf = "receipt_document uuid_str s t t' p (wdb w)"
  define row where "row = old\<lparr>rc_pdf := ?pdf, rc_total := period_charges t p (wdb w)\<rparr>"
  define w1 where "w1 = w\<lparr>wdb := (wdb w)\<lparr>receipts :=
    [old\<lparr>rc_pdf := ?pdf, rc_status := ''ready''\<rparr>]\<rparr>\<rparr>"
  have s1: "sched w1 = []" using assms(1) by (simp add: w1_def)
  obtain w' where w': "run_state (emitReceiptEvent s (Some t) t' actor (rc_id old) p
      (period_charges t p (wdb w))) w1 = ((), w')" "receipts (wdb w') = receipts (wdb w1)"
    using emitReceiptEvent_frame [OF s1] by metis
  have up: "sql_update_pdf (rc_id old) ?pdf t (wdb w) = (Inr (), wdb w1)"
    using assms(6,7) by (simp add: sql_update_pdf_def sql_update_def of_period_def w1_def Let_def)
  have "run_state (GenerateReceipt uuid_str s (Some t) t' actor p) w = (Inr row, w')"
    using assms w'(1) up
    by (simp add: GenerateReceipt_def Ledger_SumChargesInPeriod_def Ledger_SumForUserUpTo_def
        sql_bigint_def period_charges_def [symmetric] balance_at_end_def [symmetric]
        run_Receipts_GetForPeriod Receipts_UpdatePDF_def Let_def
        receipt_document_def [symmetric] row_def [symmetric])
      (simp add: w1_def)
  then show ?thesis using w' by (auto simp: w1_def row_def)
qed

definition stale_row :: receipt_row where
  "stale_row = \<lparr>rc_id = 80, rc_tenant = 100, rc_user = 200, rc_start = 0, rc_end = 100,
     rc_total = 5, rc_currency = ''USD'', rc_pdf = '''', rc_status = ''ready''\<rparr>"

lemma GenerateReceipt_again_keeps_stored_total_witness:
  "\<exists>row w'. run_state (GenerateReceipt (\<lambda>u. ''u'') service0 (Some 100) 100 201 receipt_request0)
      (receipt_world\<lparr>wdb := (wdb receipt_world)\<lparr>receipts := [stale_row]\<rparr>\<rparr>) = (Inr row, w') \<and>
    rc_total row = 900 \<and> map rc_total (receipts (wdb w')) = [5]"
  using GenerateReceipt_again_keeps_stored_total
    [of "receipt_world\<lparr>wdb := (wdb receipt_world)\<lparr>receipts := [stale_row]\<rparr>\<rparr>" receipt_request0 100
      stale_row "\<lambda>u. ''u''" service0 100 201] receipt_world_facts
  by (auto simp: uuid_nil_def in_int64_def int64_min_def int64_max_def stale_row_def of_period_def
      period_charges_def balance_at_end_def)

end
