(* ===== verification/Billing_System.thy ===== *)
theory Billing_System
  imports Receipts_Claims
begin

text \<open>
  The billing service as a transition system. A step serves one request while the statements of
  other requests commit in between and calls fail, in any order, or lets time pass. What holds of
  the initial database and is kept by the statements of the service holds in every reachable
  database.
\<close>

section \<open>Requests, statements, steps\<close>

datatype request =
    RTopup uuid topup_params
  | RRefund uuid refund_params
  | RCharge charge_params
  | RUsage usage_params
  | RRebuild uuid uuid
  | RPrice uuid price_params
  | RReceipt uuid receipt_request

definition discard :: "'a prog \<Rightarrow> unit prog" where
  "discard m = do { _ \<leftarrow> m; ret () }"

fun serve :: "(uuid \<Rightarrow> string) \<Rightarrow> service \<Rightarrow> ctx \<Rightarrow> uuid \<Rightarrow> request \<Rightarrow> unit prog" where
  "serve us s ctx t (RTopup actor p) = discard (Topup s ctx t actor p)"
| "serve us s ctx t (RRefund actor p) = discard (Refund s ctx t actor p)"
| "serve us s ctx t (RCharge p) = discard (PostCharge s ctx t p)"
| "serve us s ctx t (RUsage p) = discard (RecordUsage ctx t p)"
| "serve us s ctx t (RRebuild actor u) = discard (RebuildBalance s ctx t actor u)"
| "serve us s ctx t (RPrice actor p) = discard (UpsertPrice s ctx t actor p)"
| "serve us s ctx t (RReceipt actor p) = discard (GenerateReceipt us s ctx t actor p)"

text \<open>The effects other requests can have between two calls of a request.\<close>

inductive statement :: "(db \<Rightarrow> db) \<Rightarrow> bool" where
  post: "lp_type p = ''credit'' \<or> lp_type p = ''debit'' \<Longrightarrow> 0 < lp_amount p \<Longrightarrow>
     statement (\<lambda>d. snd (sql_create_ledger p t d))"
| cache: "statement (\<lambda>d. snd (sql_upsert_balance u c cur ts t d))"
| meter: "0 \<le> up_qty q \<Longrightarrow> statement (\<lambda>d. snd (sql_create_usage q t d))"
| price: "statement (\<lambda>d. snd (sql_create_price pp t d))"
| expire: "statement (\<lambda>d. snd (sql_expire_price res un ts t d))"
| receipt: "statement (\<lambda>d. snd (sql_create_receipt rp t d))"
| document: "statement (\<lambda>d. snd (sql_update_pdf i pdf t d))"
| audit: "statement (\<lambda>d. snd (sql_create_audit row d))"
| outcome: "statement (\<lambda>d. snd (sql_create_outcome i st m d))"
| clock: "statement (\<lambda>d. d\<lparr>db_now := db_now d + int n\<rparr>)"

definition admissible :: "disturb list \<Rightarrow> bool" where
  "admissible ds \<longleftrightarrow> (\<forall>g. Other g \<in> set ds \<longrightarrow> statement g)"

inductive step :: "(uuid \<Rightarrow> string) \<Rightarrow> service \<Rightarrow> db \<Rightarrow> db \<Rightarrow> bool"
  for us :: "uuid \<Rightarrow> string" and s :: service where
  request: "admissible (sched w) \<Longrightarrow>
     step us s (wdb w) (wdb (snd (run_state (serve us s ctx t req) w)))"
| other: "statement g \<Longrightarrow> step us s d (g d)"

inductive_cases step_cases: "step us s d d'"

section \<open>Invariants of the system\<close>

context billing_invariant
begin

lemma keeps_GenerateReceipt: "keeps (stable J) (GenerateReceipt us s ctx t a p)"
  unfolding GenerateReceipt_def emitReceiptEvent_def Ledger_SumChargesInPeriod_def
    Ledger_SumForUserUpTo_def Receipts_GetForPeriod_def Receipts_UpdatePDF_def Receipts_Create_def
  by (intro keeps_rules keeps_helpers receipt_insert receipt_update)

end

locale system_invariant = billing_invariant J every for J :: "db \<Rightarrow> bool" +
  assumes clock: "J d \<Longrightarrow> J (d\<lparr>db_now := n\<rparr>)"
begin

lemma statement_keeps: "statement g \<Longrightarrow> J d \<Longrightarrow> J (g d)"
proof (induction rule: statement.induct)
  case (post p t)
  then show ?case using ledger_insert [of p t] by (simp add: preserved_def)
next
  case (cache u c cur ts t)
  then show ?case using balance_upsert [of u c cur ts t] by (simp add: preserved_def)
next
  case (meter q t)
  then show ?case using usage_insert [of q t] by (simp add: preserved_def)
next
  case (price pp t)
  then show ?case using price_insert [of pp t] by (simp add: preserved_def)
next
  case (expire res un ts t)
  then show ?case using price_expire [of res un ts t] by (simp add: preserved_def)
next
  case (receipt rp t)
  then show ?case using receipt_insert [of rp t] by (simp add: preserved_def)
next
  case (document i pdf t)
  then show ?case using receipt_update [of i pdf t] by (simp add: preserved_def)
next
  case (audit row)
  then show ?case using preserved_sql_create_audit [OF no_audit, of row] by (simp add: preserved_def)
next
  case (outcome i st m)
  then show ?case using preserved_sql_create_outcome [OF no_audit, of i st m]
    by (simp add: preserved_def)
qed (rule clock)

lemma admissible_honors: "admissible ds \<Longrightarrow> honors J ds"
  by (auto simp: admissible_def honors_def statement_keeps)

lemma keeps_serve: "keeps (stable J) (serve us s ctx t req)"
  by (cases req)
    (auto simp: discard_def intro!: keeps_rules keeps_Topup keeps_Refund keeps_PostCharge
      keeps_RecordUsage keeps_RebuildBalance keeps_UpsertPrice keeps_GenerateReceipt)

lemma step_keeps: "step us s d d' \<Longrightarrow> J d \<Longrightarrow> J d'"
proof (induction rule: step.induct)
  case (request w ctx t req)
  then show ?case
    by (intro stable_db [OF keepsD [OF keeps_serve]]) (simp add: stable_def admissible_honors)
qed (rule statement_keeps)

lemma steps_keep: "(step us s)\<^sup>*\<^sup>* d d' \<Longrightarrow> J d \<Longrightarrow> J d'"
  by (induction rule: rtranclp_induct) (auto intro: step_keeps)

end

interpretation ledger_sys: system_invariant ledger_ok
  by unfold_locales (simp add: ledger_ok_def)

interpretation balances_sys: system_invariant balances_ok
  by unfold_locales (simp add: balances_ok_def)

interpretation usages_sys: system_invariant usages_ok
  by unfold_locales (simp add: usages_ok_def)

interpretation prices_sys: system_invariant prices_ok
  by unfold_locales (simp add: prices_ok_def)

interpretation append_sys: system_invariant "ledger_extends rows"
  by unfold_locales (simp add: ledger_extends_def)

section \<open>Safety\<close>

text \<open>
  C4. In every database reachable from an empty one, through any requests in any interleaving
  with any failures: every ledger row has a positive amount and is a credit or a debit, no two
  rows share an identifier or an idempotency key; a user has at most one balance row; no usage
  event is negative and no two share a key; and a resource and unit have at most one current
  price.
\<close>

theorem reachable_tables_ok:
  assumes "(step us s)\<^sup>*\<^sup>* (empty_db now tenants users) d"
  shows "ledger_ok d \<and> balances_ok d \<and> usages_ok d \<and> prices_ok d"
proof -
  let ?e = "empty_db now tenants users"
  have "ledger_ok ?e" "balances_ok ?e" "usages_ok ?e" "prices_ok ?e"
    by (simp_all add: empty_db_def ledger_ok_def balances_ok_def usages_ok_def prices_ok_def)
  then show ?thesis
    using ledger_sys.steps_keep [OF assms] balances_sys.steps_keep [OF assms]
      usages_sys.steps_keep [OF assms] prices_sys.steps_keep [OF assms] by blast
qed

lemma reachable_tables_ok_witness:
  "ledger_ok (wdb (snd (run_state (serve (\<lambda>u. ''u'') service0 (Some 100) 100 (RTopup 201 topup0))
     (world0\<lparr>sched := [Quiet, Fault]\<rparr>))))"
proof -
  let ?w = "world0\<lparr>sched := [Quiet, Fault]\<rparr>"
  have "step (\<lambda>u. ''u'') service0 (wdb ?w)
      (wdb (snd (run_state (serve (\<lambda>u. ''u'') service0 (Some 100) 100 (RTopup 201 topup0)) ?w)))"
    by (rule step.request) (simp add: admissible_def)
  then have "(step (\<lambda>u. ''u'') service0)\<^sup>*\<^sup>* (empty_db 1000 [100] [200, 201, 202])
      (wdb (snd (run_state (serve (\<lambda>u. ''u'') service0 (Some 100) 100 (RTopup 201 topup0)) ?w)))"
    by (simp add: world0_def)
  then show ?thesis using reachable_tables_ok by blast
qed

text \<open>
  C36. The ledger is append-only: whatever happens, the rows that are in it stay in it, unchanged
  and in their order.
\<close>

theorem ledger_is_append_only:
  assumes "(step us s)\<^sup>*\<^sup>* d d'"
  shows "prefix (ledger d) (ledger d')"
  using append_sys.steps_keep [OF assms, of "ledger d"] by (simp add: ledger_extends_def)

lemma ledger_is_append_only_witness:
  "prefix (ledger (wdb receipt_world))
     (ledger (snd (sql_upsert_balance 200 5 ''USD'' 0 100 (wdb receipt_world))))"
  by (rule ledger_is_append_only [of "\<lambda>u. ''u''" service0])
    (rule r_into_rtranclp, rule step.other, rule statement.cache)

end
