(* ===== verification/BillingJobs.thy ===== *)
theory BillingJobs
  imports Receipts
begin

text \<open>
  \<^verbatim>\<open>billing/jobs.go\<close>: the River workers of the billing module. A worker is run with the
  context the job queue hands it, the parameter \<open>ctx\<close>. UUIDs in job arguments are text;
  \<open>parse_uuid\<close> and \<open>uuid_str\<close> stand for package \<^verbatim>\<open>google/uuid\<close>. Log output is left out.
\<close>

section \<open>The workers\<close>

record meter_args =
  ma_tenant :: string
  ma_minute :: instant

definition MeterCollect_Work ::
  "(string \<Rightarrow> uuid result) \<Rightarrow> service \<Rightarrow> ctx \<Rightarrow> meter_args \<Rightarrow> unit result prog" where
  "MeterCollect_Work parse_uuid s ctx args =
     (case parse_uuid (ma_tenant args) of
        Inl e \<Rightarrow> fail (Wrap ''billing.meter.collect: parse tenant id'' e)
      | Inr tenantID \<Rightarrow> do {
          r \<leftarrow> RunCollection s ctx tenantID (ma_minute args);
          case r of Inl e \<Rightarrow> fail e | Inr n \<Rightarrow> ok () })"

text \<open>\<^verbatim>\<open>time.Date(9999, 1, 1, 0, 0, 0, 0, time.UTC)\<close>.\<close>

definition year_9999 :: instant where
  "year_9999 = 253370764800 * 1000000000"

definition usersWithUsage :: "ctx \<Rightarrow> uuid \<Rightarrow> instant \<Rightarrow> instant \<Rightarrow> uuid list result prog" where
  "usersWithUsage ctx tenantID from to = do {
     r \<leftarrow> Balances_ListZeroBalances ctx year_9999;
     case r of
       Inl e \<Rightarrow> fail (Wrap ''billing.users_with_usage'' e)
     | Inr rows \<Rightarrow> ok (map ub_user rows) }"

record rollup_args =
  ra_tenant :: string
  ra_from :: instant
  ra_to :: instant

definition rollup_key :: "(uuid \<Rightarrow> string) \<Rightarrow> uuid \<Rightarrow> uuid \<Rightarrow> rollup_args \<Rightarrow> string" where
  "rollup_key uuid_str t u args =
     uuid_str t @ '':charge:'' @ uuid_str u @ '':'' @ fmt_d (unix_seconds (ra_from args)) @ '':'' @
     fmt_d (unix_seconds (ra_to args))"

definition rollup_charge :: "(uuid \<Rightarrow> string) \<Rightarrow> uuid \<Rightarrow> uuid \<Rightarrow> int \<Rightarrow> rollup_args \<Rightarrow> charge_params" where
  "rollup_charge uuid_str t u amount args =
     \<lparr>ch_user = u, ch_amount = amount, ch_currency = '''',
      ch_reference = ''usage '' @ format_date (ra_from args) @ '' to '' @ format_date (ra_to args),
      ch_key = Some (rollup_key uuid_str t u args),
      ch_meta = Some [(''period_from'', JTime (ra_from args)), (''period_to'', JTime (ra_to args)),
                      (''source'', JStr ''metering_rollup'')]\<rparr>"

text \<open>The body of the loop over the users: a failed charge is logged and skipped.\<close>

definition rollup_user ::
  "(uuid \<Rightarrow> string) \<Rightarrow> service \<Rightarrow> ctx \<Rightarrow> uuid \<Rightarrow> rollup_args \<Rightarrow> uuid \<Rightarrow> bool prog" where
  "rollup_user uuid_str s ctx tenantID args userID = do {
     r \<leftarrow> ChargeForRollup ctx userID (ra_from args) (ra_to args);
     case r of
       Inl e \<Rightarrow> ret False
     | Inr amount \<Rightarrow>
         if amount \<le> 0 then ret False
         else do {
           p \<leftarrow> PostCharge s ctx tenantID (rollup_charge uuid_str tenantID userID amount args);
           case p of Inl e \<Rightarrow> ret False | Inr row \<Rightarrow> ret True } }"

definition UsageRollup_Work ::
  "(string \<Rightarrow> uuid result) \<Rightarrow> (uuid \<Rightarrow> string) \<Rightarrow> service \<Rightarrow> ctx \<Rightarrow> rollup_args \<Rightarrow> unit result prog" where
  "UsageRollup_Work parse_uuid uuid_str s ctx args =
     (case parse_uuid (ra_tenant args) of
        Inl e \<Rightarrow> fail (Wrap ''billing.usage.rollup: parse tenant id'' e)
      | Inr tenantID \<Rightarrow> do {
          us \<leftarrow> usersWithUsage ctx tenantID (ra_from args) (ra_to args);
          case us of
            Inl e \<Rightarrow> fail (Wrap ''billing.usage.rollup: list users'' e)
          | Inr users \<Rightarrow> do {
              _ \<leftarrow> for_each (rollup_user uuid_str s ctx tenantID args) users;
              ok () } })"

definition BalanceCheck_Work ::
  "(string \<Rightarrow> uuid result) \<Rightarrow> service \<Rightarrow> ctx \<Rightarrow> string \<Rightarrow> unit result prog" where
  "BalanceCheck_Work parse_uuid s ctx tenant =
     (case parse_uuid tenant of
        Inl e \<Rightarrow> fail (Wrap ''billing.balance.check: parse tenant id'' e)
      | Inr tenantID \<Rightarrow> do {
          r \<leftarrow> EnforceZeroBalances s ctx tenantID;
          case r of Inl e \<Rightarrow> fail e | Inr n \<Rightarrow> ok () })"

record receipt_args =
  ga_tenant :: string
  ga_user :: string
  ga_start :: instant
  ga_end :: instant

definition ReceiptGenerate_Work ::
  "(string \<Rightarrow> uuid result) \<Rightarrow> (uuid \<Rightarrow> string) \<Rightarrow> service \<Rightarrow> ctx \<Rightarrow> receipt_args \<Rightarrow> unit result prog" where
  "ReceiptGenerate_Work parse_uuid uuid_str s ctx args =
     (case parse_uuid (ga_tenant args) of
        Inl e \<Rightarrow> fail (Wrap ''billing.receipt.generate: parse tenant id'' e)
      | Inr tenantID \<Rightarrow>
          (case parse_uuid (ga_user args) of
             Inl e \<Rightarrow> fail (Wrap ''billing.receipt.generate: parse user id'' e)
           | Inr userID \<Rightarrow> do {
               r \<leftarrow> GenerateReceipt uuid_str s ctx tenantID uuid_nil
                 \<lparr>rq_user = userID, rq_start = ga_start args, rq_end = ga_end args\<rparr>;
               case r of Inl e \<Rightarrow> fail e | Inr row \<Rightarrow> ok () }))"

section \<open>A run of the rollup\<close>

text \<open>What the charge of a user is, as a function of the tables it reads.\<close>

definition rollup_amount :: "uuid \<Rightarrow> uuid \<Rightarrow> rollup_args \<Rightarrow> db \<Rightarrow> int" where
  "rollup_amount t u args d =
     (if ra_from args < ra_to args \<and>
         list_all (\<lambda>r. in_int64 (ro_qty r)) (rollup_of t u (ra_from args) (ra_to args) d)
      then wrap64 (rollup_cost t (ra_from args) (prices d)
             (rollup_of t u (ra_from args) (ra_to args) d))
      else 0)"

lemma run_rollup_charge:
  assumes "sched w = []"
  obtains r where "run_state (ChargeForRollup (Some t) u (ra_from args) (ra_to args)) w = (r, w)"
    "(case r of Inl _ \<Rightarrow> rollup_amount t u args (wdb w) = 0
      | Inr a \<Rightarrow> a = rollup_amount t u args (wdb w))"
proof (cases "ra_from args < ra_to args \<and>
    list_all (\<lambda>r. in_int64 (ro_qty r)) (rollup_of t u (ra_from args) (ra_to args) (wdb w))")
  case True
  then show ?thesis
    using that run_ChargeForRollup [OF assms, of "ra_from args" "ra_to args" t u]
    by (simp add: rollup_amount_def)
next
  case False
  then have "\<exists>e. run_state (ChargeForRollup (Some t) u (ra_from args) (ra_to args)) w = (Inl e, w)"
    using assms
    by (cases "ra_from args < ra_to args")
      (simp_all add: ChargeForRollup_def RollupUsage_def wrapped_def Usage_SumForUserInPeriod_def
        rollup_of_def Let_def)
  then obtain e where
    "run_state (ChargeForRollup (Some t) u (ra_from args) (ra_to args)) w = (Inl e, w)" ..
  then show ?thesis using that [of "Inl e"] False by (auto simp: rollup_amount_def)
qed

text \<open>A user for whom the rollup of this window has nothing left to do.\<close>

definition settled :: "(uuid \<Rightarrow> string) \<Rightarrow> service \<Rightarrow> uuid \<Rightarrow> rollup_args \<Rightarrow> db \<Rightarrow> uuid \<Rightarrow> bool" where
  "settled uuid_str s t args d u \<longleftrightarrow>
     rollup_amount t u args d \<le> 0 \<or> u = uuid_nil \<or> \<not> currency_ok s '''' \<or> \<not> fk_ok t u d \<or>
     key_taken (Some (rollup_key uuid_str t u args)) (ledger d)"

lemma rollup_key_nonempty: "rollup_key uuid_str t u args \<noteq> []"
  by (simp add: rollup_key_def)

lemma PostCharge_key_taken:
  assumes "sched w = []" "ch_key p = Some k" "key_taken (Some k) (ledger (wdb w))"
  shows "snd (run_state (PostCharge s (Some t) t p) w) = w"
proof (cases "ch_user p = uuid_nil \<or> \<not> 0 < ch_amount p \<or> \<not> currency_ok s (ch_currency p)")
  case True
  then show ?thesis
    by (auto simp: PostCharge_def currency_ok_def Let_def validateAmount_def split: sum.splits if_splits)
next
  case False
  have dedup: "\<exists>seen. run_state (dedup (Some k) (Ledger_GetByIdempotencyKey (Some t)) le_id
      ''billing.charge: dedup lookup'') w = (seen, w)"
    using assms(1) by (simp add: dedup_def Ledger_GetByIdempotencyKey_def)
  have failed: "\<exists>r. run_state (insert_failed (Some k) (Ledger_GetByIdempotencyKey (Some t))
      ''billing.charge'' (Pg UniqueViolation)) w = (r, w)"
    using assms(1)
    by (simp add: insert_failed_def Ledger_GetByIdempotencyKey_def sql_one_def split: option.split)
  have create: "run_state (Ledger_Create (Some t) q) w = (Inl (Pg UniqueViolation), w)"
    if "lp_key q = Some k" "0 < lp_amount q" for q
    using that assms(1,3) by (simp add: Ledger_Create_def sql_create_ledger_def)
  show ?thesis
    using False dedup failed assms(2)
    by (auto simp: PostCharge_def currency_ok_def Let_def validateAmount_ok create split: option.splits)
qed

lemma PostCharge_no_user:
  assumes "sched w = []" "\<not> fk_ok t (ch_user p) (wdb w)" "ch_key p = Some k"
    "\<not> key_taken (Some k) (ledger (wdb w))"
  shows "snd (run_state (PostCharge s (Some t) t p) w) = w"
proof (cases "ch_user p = uuid_nil \<or> \<not> 0 < ch_amount p \<or> \<not> currency_ok s (ch_currency p)")
  case True
  then show ?thesis
    by (auto simp: PostCharge_def currency_ok_def Let_def validateAmount_def split: sum.splits if_splits)
next
  case False
  have dedup: "run_state (dedup (Some k) (Ledger_GetByIdempotencyKey (Some t)) le_id
      ''billing.charge: dedup lookup'') w = (None, w)"
    by (rule charges.dedup_fresh [OF assms(1)]) (use assms(4) in \<open>simp add: key_fresh_holder\<close>)
  have create: "run_state (Ledger_Create (Some t) q) w = (Inl (Pg ForeignKeyViolation), w)"
    if "lp_key q = Some k" "0 < lp_amount q" "lp_user q = ch_user p" for q
    using that assms by (simp add: Ledger_Create_def sql_create_ledger_def)
  show ?thesis
    using False dedup assms(3)
    by (simp add: PostCharge_def currency_ok_def Let_def validateAmount_ok create insert_failed_def)
qed

lemma settled_noop:
  assumes "sched w = []" "settled uuid_str s t args (wdb w) u"
  shows "snd (run_state (rollup_user uuid_str s (Some t) t args u) w) = w"
proof -
  obtain r where r: "run_state (ChargeForRollup (Some t) u (ra_from args) (ra_to args)) w = (r, w)"
    "(case r of Inl _ \<Rightarrow> rollup_amount t u args (wdb w) = 0
      | Inr a \<Rightarrow> a = rollup_amount t u args (wdb w))"
    using run_rollup_charge [OF assms(1)] by metis
  show ?thesis
  proof (cases "\<exists>a. r = Inr a \<and> 0 < a")
    case False
    then show ?thesis using r(1) by (cases r) (auto simp: rollup_user_def)
  next
    case True
    then obtain a where a: "r = Inr a" "0 < a" "a = rollup_amount t u args (wdb w)"
      using r(2) by auto
    let ?p = "rollup_charge uuid_str t u a args"
    have "snd (run_state (PostCharge s (Some t) t ?p) w) = w"
    proof (cases "key_taken (Some (rollup_key uuid_str t u args)) (ledger (wdb w))")
      case True
      then show ?thesis by (intro PostCharge_key_taken assms) (simp_all add: rollup_charge_def)
    next
      case False
      then consider "u = uuid_nil" | "\<not> currency_ok s ''''" | "\<not> fk_ok t u (wdb w)"
        using assms(2) a unfolding settled_def by auto
      then show ?thesis
      proof cases
        case 3
        then show ?thesis
          using False by (intro PostCharge_no_user assms) (simp_all add: rollup_charge_def)
      qed (auto simp: PostCharge_def rollup_charge_def currency_ok_def Let_def a(2) validateAmount_ok
           split: sum.split)
    qed
    then show ?thesis
      using r(1) a by (cases "run_state (PostCharge s (Some t) t ?p) w")
        (auto simp: rollup_user_def split: sum.split)
  qed
qed

lemma quiet_call [keeps_rules]: "keeps (\<lambda>w. sched w = []) (db_call f)"
  by (rule keepsI) (simp split: prod.split)

lemma quiet_tenant_call [keeps_rules]: "keeps (\<lambda>w. sched w = []) (tenant_call ctx f)"
  by (cases ctx) (auto intro!: keeps_rules)

lemma quiet_emit [keeps_rules]: "keeps (\<lambda>w. sched w = []) (emitEvent s ctx topic t u r m)"
  by (rule keepsI) simp

lemma quiet_refresh [keeps_rules]: "keeps (\<lambda>w. sched w = []) (refreshBalance s ctx u)"
  unfolding refreshBalance_def Ledger_SumForUser_def Balances_Get_def Balances_Upsert_def
  by (intro keeps_rules)

lemma quiet_PostCharge: "keeps (\<lambda>w. sched w = []) (PostCharge s ctx t p)"
  unfolding PostCharge_def dedup_def insert_failed_def Ledger_GetByIdempotencyKey_def
    Ledger_Create_def
  by (intro keeps_rules)

lemma quiet_rollup_user:
  assumes "sched w = []"
  shows "sched (snd (run_state (rollup_user uuid_str s (Some t) t args u) w)) = []"
proof -
  obtain r where r: "run_state (ChargeForRollup (Some t) u (ra_from args) (ra_to args)) w = (r, w)"
    using run_rollup_charge [OF assms] by metis
  show ?thesis
    using r assms
    by (cases r) (auto simp: rollup_user_def dest: keeps_runD [OF quiet_PostCharge]
        split: prod.splits sum.split)
qed

context ledger_invariant
begin

lemma keeps_rollup_user: "U u \<Longrightarrow> keeps (stable J) (rollup_user uuid_str s ctx t args u)"
  unfolding rollup_user_def
  by (intro keeps_rules keeps_ChargeForRollup keeps_PostCharge) (simp add: rollup_charge_def)

lemma keeps_rollup_users:
  "list_all U us \<Longrightarrow> keeps (stable J) (for_each (rollup_user uuid_str s ctx t args) us)"
  by (induction us) (auto intro!: keeps_rules keeps_rollup_user)

end

lemma for_each_quiet:
  assumes "\<And>x w. sched w = [] \<Longrightarrow> sched (snd (run_state (f x) w)) = []" "sched w = []"
  shows "sched (snd (run_state (for_each f xs) w)) = []"
  using assms(2)
proof (induction xs arbitrary: w)
  case (Cons x xs)
  then show ?case
    using assms(1) [of w x] Cons.IH [of "snd (run_state (f x) w)"]
    by (simp add: split_beta)
qed simp

lemma settled_stays:
  assumes "sched w = []" "settled uuid_str s t args (wdb w) v"
  shows "settled uuid_str s t args (wdb (snd (run_state (rollup_user uuid_str s (Some t) t args u) w))) v"
proof -
  let ?w' = "snd (run_state (rollup_user uuid_str s (Some t) t args u) w)"
  have "inputs (wdb ?w') = inputs (wdb w)"
    using stable_db [OF keepsD [OF fixed_inputs.keeps_rollup_user [OF TrueI] stable_quietI]]
      assms(1) by blast
  then have "rollup_amount t v args (wdb ?w') = rollup_amount t v args (wdb w)"
    "fk_ok t v (wdb ?w') = fk_ok t v (wdb w)"
    by (simp_all add: rollup_amount_def rollup_of_def inputs_def fk_ok_def)
  moreover have "key_taken k (ledger (wdb ?w'))" if "key_taken k (ledger (wdb w))" for k
    using stable_db [OF keepsD [OF taken.keeps_rollup_user [OF TrueI] stable_quietI]] assms(1) that
    by blast
  ultimately show ?thesis using assms(2) by (auto simp: settled_def)
qed

lemma PostCharge_takes_key:
  assumes "sched w = []" "ch_user p \<noteq> uuid_nil" "0 < ch_amount p" "currency_ok s (ch_currency p)"
    "fk_ok t (ch_user p) (wdb w)" "ch_key p = Some k" "\<not> key_taken (Some k) (ledger (wdb w))"
  shows "key_taken (Some k) (ledger (wdb (snd (run_state (PostCharge s (Some t) t p) w))))"
proof -
  have dedup: "run_state (dedup (Some k) (Ledger_GetByIdempotencyKey (Some t)) le_id
      ''billing.charge: dedup lookup'') w = (None, w)"
    by (rule charges.dedup_fresh [OF assms(1)]) (use assms(7) in \<open>simp add: key_fresh_holder\<close>)
  define q where "q = \<lparr>lp_user = ch_user p, lp_type = ''debit'', lp_amount = ch_amount p,
    lp_currency = currencyOrDefault s (ch_currency p), lp_source = ''charge'',
    lp_reference = ch_reference p, lp_key = Some k, lp_meta = ch_meta p\<rparr>"
  obtain row w1 where w1: "run_state (Ledger_Create (Some t) q) w = (Inr row, w1)"
    "key_taken (Some k) (ledger (wdb w1))" "sched w1 = []"
    using assms by (simp add: run_Ledger_Create q_def Let_def key_taken_def)
  have st: "stable (\<lambda>d. key_taken (Some k) (ledger d)) w1"
    by (rule stable_quietI) (fact w1(2), fact w1(3))
  have keep: "keeps (stable (\<lambda>d. key_taken (Some k) (ledger d))) (do {
      _ \<leftarrow> refreshBalance s (Some t) (ch_user p);
      emitEvent s (Some t) topic t (ch_user p) i m;
      ok row })" for topic i m
    by (intro keeps_rules taken.keeps_helpers TrueI)
  define w2 where "w2 = snd (run_state (do {
      _ \<leftarrow> refreshBalance s (Some t) (ch_user p);
      emitEvent s (Some t) ''billing.balance.charged'' t (ch_user p) (le_id row)
        (Some [(''amount_cents'', JInt (ch_amount p)),
               (''currency'', JStr (currencyOrDefault s (ch_currency p))),
               (''reference'', JStr (ch_reference p)), (''ledger_id'', JUuid (le_id row))]);
      ok row }) w1)"
  have "snd (run_state (PostCharge s (Some t) t p) w) = w2"
    using assms(2-4,6) dedup w1(1) unfolding w2_def
    by (simp add: PostCharge_def validateAmount_ok currency_ok_def Let_def flip: q_def)
  then show ?thesis using stable_db [OF keepsD [OF keep st]] by (simp add: w2_def)
qed

lemma rollup_settles:
  assumes "sched w = []"
  shows "settled uuid_str s t args (wdb (snd (run_state (rollup_user uuid_str s (Some t) t args u) w))) u"
proof (cases "settled uuid_str s t args (wdb w) u")
  case True
  then show ?thesis by (rule settled_stays [OF assms])
next
  case False
  let ?k = "rollup_key uuid_str t u args"
  obtain r where r: "run_state (ChargeForRollup (Some t) u (ra_from args) (ra_to args)) w = (r, w)"
    "(case r of Inl _ \<Rightarrow> rollup_amount t u args (wdb w) = 0
      | Inr a \<Rightarrow> a = rollup_amount t u args (wdb w))"
    using run_rollup_charge [OF assms] by metis
  then obtain a where a: "r = Inr a" "0 < a"
    using False by (cases r) (auto simp: settled_def)
  let ?p = "rollup_charge uuid_str t u a args"
  have key: "\<not> key_taken (Some ?k) (ledger (wdb w))" and fk: "fk_ok t u (wdb w)"
    and u: "u \<noteq> uuid_nil" and c: "currency_ok s ''''"
    using False by (simp_all add: settled_def)
  have "key_taken (Some ?k) (ledger (wdb (snd (run_state (PostCharge s (Some t) t ?p) w))))"
    by (rule PostCharge_takes_key)
      (use assms a key fk u c in \<open>simp_all add: rollup_charge_def\<close>)
  then have "key_taken (Some ?k)
      (ledger (wdb (snd (run_state (rollup_user uuid_str s (Some t) t args u) w))))"
    using r(1) a by (auto simp: rollup_user_def split: prod.splits sum.split)
  then show ?thesis by (simp add: settled_def)
qed

lemma rollup_users_settled:
  assumes "sched w = []" "u \<in> set us \<or> settled uuid_str s t args (wdb w) u"
  shows "settled uuid_str s t args
    (wdb (snd (run_state (for_each (rollup_user uuid_str s (Some t) t args) us) w))) u"
  using assms
proof (induction us arbitrary: w)
  case (Cons v us)
  let ?w' = "snd (run_state (rollup_user uuid_str s (Some t) t args v) w)"
  have "sched ?w' = []" by (rule quiet_rollup_user [OF Cons.prems(1)])
  moreover have "u \<in> set us \<or> settled uuid_str s t args (wdb ?w') u"
    using Cons.prems rollup_settles settled_stays by (metis set_ConsD)
  ultimately show ?case using Cons.IH [of ?w'] by (simp add: split_beta)
qed simp

lemma rollup_users_noop:
  assumes "sched w = []" "\<And>u. u \<in> set us \<Longrightarrow> settled uuid_str s t args (wdb w) u"
  shows "snd (run_state (for_each (rollup_user uuid_str s (Some t) t args) us) w) = w"
  using assms(2)
proof (induction us)
  case (Cons v us)
  then have "snd (run_state (rollup_user uuid_str s (Some t) t args v) w) = w"
    by (intro settled_noop assms(1)) simp
  then show ?case using Cons by (auto split: prod.splits)
qed simp

end
