(* ===== verification/Jobs_Claims.thy ===== *)
theory Jobs_Claims
  imports Billing_Claims BillingJobs
begin

text \<open>Properties of the billing workers.\<close>

section \<open>The tenant of a job\<close>

text \<open>
  A worker that is run with a context that carries no tenant does nothing: the rollup, the
  balance check and the receipt generator answer the missing-tenant error, for every valid
  argument, and leave the world as it is.
\<close>

theorem workers_without_tenant_do_nothing:
  assumes "parse_uuid tenant = Inr t" "parse_uuid user = Inr u" "u \<noteq> uuid_nil" "start < stop"
  shows "\<exists>e1 e2 e3.
    run_state (UsageRollup_Work parse_uuid uuid_str s None
      \<lparr>ra_tenant = tenant, ra_from = start, ra_to = stop\<rparr>) w = (Inl e1, w) \<and>
    run_state (BalanceCheck_Work parse_uuid s None tenant) w = (Inl e2, w) \<and>
    run_state (ReceiptGenerate_Work parse_uuid uuid_str s None
      \<lparr>ga_tenant = tenant, ga_user = user, ga_start = start, ga_end = stop\<rparr>) w = (Inl e3, w) \<and>
    list_all (\<lambda>e. errors_is e ErrNoTenantInContext) [e1, e2, e3]"
  using assms
  by (simp add: UsageRollup_Work_def usersWithUsage_def BalanceCheck_Work_def
      EnforceZeroBalances_def Balances_ListZeroBalances_def ReceiptGenerate_Work_def
      GenerateReceipt_def Ledger_SumChargesInPeriod_def)

definition parse0 :: "string \<Rightarrow> uuid result" where
  "parse0 s = (if s = ''t'' then Inr 100 else if s = ''u'' then Inr 200 else Inl (Msg ''bad uuid''))"

lemma workers_without_tenant_do_nothing_witness:
  "\<exists>e. run_state (BalanceCheck_Work parse0 service0 None ''t'') world0 = (Inl e, world0) \<and>
    errors_is e ErrNoTenantInContext"
  using workers_without_tenant_do_nothing
    [of parse0 "''t''" 100 "''u''" 200 0 1 "\<lambda>u. ''x''" service0 world0]
  by (auto simp: parse0_def uuid_nil_def)

section \<open>The rollup\<close>

lemma run_usersWithUsage:
  "sched w = [] \<Longrightarrow> run_state (usersWithUsage (Some t) t' from to) w =
     (Inr (map ub_user (zero_balances t year_9999 (balances (wdb w)))), w)"
  by (simp add: usersWithUsage_def Balances_ListZeroBalances_def)

lemma run_UsageRollup:
  assumes "sched w = []" "parse_uuid (ra_tenant args) = Inr t"
  shows "run_state (UsageRollup_Work parse_uuid uuid_str s (Some t) args) w =
    (Inr (), snd (run_state (for_each (rollup_user uuid_str s (Some t) t args)
       (map ub_user (zero_balances t year_9999 (balances (wdb w))))) w))"
  using assms by (simp add: UsageRollup_Work_def run_usersWithUsage split: prod.split)

lemma find_in: "find P xs = Some x \<Longrightarrow> x \<in> set xs \<and> P x"
  by (auto simp: find_Some_iff)

lemma list_all_neq: "v \<notin> set us \<Longrightarrow> list_all (\<lambda>u. u \<noteq> v) us"
  by (auto simp: list_all_iff)

lemma rollup_isolates:
  assumes "sched w = []" "list_all (\<lambda>u. u \<noteq> v) us"
  shows "account t v (wdb (snd (run_state (for_each (rollup_user uuid_str s ctx t' args) us) w))) =
    account t v (wdb w)"
proof -
  let ?J = "\<lambda>d. account t v d = account t v (wdb w)"
  have "keeps (stable ?J) (for_each (rollup_user uuid_str s ctx t' args) us)"
    by (rule isolation.keeps_rollup_users [OF assms(2)])
  moreover have "stable ?J w" using assms(1) by (simp add: stable_def)
  ultimately have "stable ?J (snd (run_state (for_each (rollup_user uuid_str s ctx t' args) us) w))"
    by (rule keepsD)
  then show ?thesis by (simp add: stable_def)
qed

text \<open>
  The rollup charges only accounts that are not in credit: a user whose cached balance is
  positive gets no ledger row and keeps the cached balance, whatever was metered for them.
\<close>

theorem rollup_skips_users_in_credit:
  assumes "sched w = []" "parse_uuid (ra_tenant args) = Inr t" "balances_ok (wdb w)"
    "cached t v (wdb w) = Some c" "0 < c"
  shows "\<exists>w'. run_state (UsageRollup_Work parse_uuid uuid_str s (Some t) args) w = (Inr (), w') \<and>
    account t v (wdb w') = account t v (wdb w)"
proof -
  let ?us = "map ub_user (zero_balances t year_9999 (balances (wdb w)))"
  obtain b where f: "find (is_balance t v) (balances (wdb w)) = Some b" "ub_cents b = c"
    using assms(4) by (auto simp: cached_def split: option.splits)
  note b = find_in [OF f(1), unfolded is_balance_def] f(2)
  have same: "x = b" if "x \<in> set (balances (wdb w))" "ub_tenant x = t" "ub_user x = v" for x
    using assms(3) that b unfolding balances_ok_def distinct_map inj_on_def by simp
  have "v \<notin> set ?us"
  proof
    assume "v \<in> set ?us"
    then obtain x where x: "x \<in> set (balances (wdb w))" "ub_tenant x = t" "ub_user x = v"
      "ub_cents x \<le> 0"
      by (auto simp: zero_balances_def)
    then show False using same [OF x(1-3)] b assms(5) by simp
  qed
  then have others: "list_all (\<lambda>u. u \<noteq> v) ?us" by (rule list_all_neq)
  have "account t v (wdb (snd (run_state (for_each (rollup_user uuid_str s (Some t) t args) ?us) w)))
      = account t v (wdb w)"
    by (rule rollup_isolates [OF assms(1) others])
  then show ?thesis
    using run_UsageRollup [where parse_uuid = parse_uuid, OF assms(1,2), of uuid_str s] by simp
qed

definition credit_world :: world where
  "credit_world = metered_world\<lparr>wdb := (wdb metered_world)\<lparr>balances :=
     [\<lparr>ub_tenant = 100, ub_user = 200, ub_cents = 5000, ub_currency = ''USD'', ub_last_entry = 7,
       ub_updated = 7\<rparr>]\<rparr>\<rparr>"

definition rollup_args0 :: rollup_args where
  "rollup_args0 = \<lparr>ra_tenant = ''t'', ra_from = 500, ra_to = 800\<rparr>"

lemma rollup_skips_users_in_credit_witness:
  "\<exists>w'. run_state (UsageRollup_Work parse0 (\<lambda>u. ''x'') service0 (Some 100) rollup_args0)
      credit_world = (Inr (), w') \<and>
    filter (mine 100 200) (ledger (wdb w')) = [] \<and>
    metered_cost 100 200 500 800 (wdb credit_world) = 84"
proof -
  have "metered_cost 100 200 500 800 (wdb credit_world) = 84" by code_simp
  then show ?thesis
    using rollup_skips_users_in_credit
      [of credit_world parse0 rollup_args0 100 200 5000 "\<lambda>u. ''x''" service0]
    by (auto simp: credit_world_def metered_world_def world0_def empty_db_def rollup_args0_def
        parse0_def balances_ok_def cached_def is_balance_def account_def)
qed

text \<open>
  C40. The rollup of a window is idempotent: when a run that is not disturbed is followed by a
  second one with the same arguments, the second changes nothing at all, neither the tables nor
  the events.
\<close>

theorem rollup_rerun_changes_nothing:
  assumes "sched w = []" "parse_uuid (ra_tenant args) = Inr t"
  shows "\<exists>w'. run_state (UsageRollup_Work parse_uuid uuid_str s (Some t) args) w = (Inr (), w') \<and>
    run_state (UsageRollup_Work parse_uuid uuid_str s (Some t) args) w' = (Inr (), w')"
proof -
  let ?run = "\<lambda>us. for_each (rollup_user uuid_str s (Some t) t args) us"
  let ?us = "map ub_user (zero_balances t year_9999 (balances (wdb w)))"
  define w' where "w' = snd (run_state (?run ?us) w)"
  let ?us' = "map ub_user (zero_balances t year_9999 (balances (wdb w')))"
  have quiet: "sched w' = []"
    unfolding w'_def by (rule for_each_quiet [OF quiet_rollup_user assms(1)])
  have "settled uuid_str s t args (wdb w') u" if "u \<in> set ?us'" for u
  proof (cases "u \<in> set ?us")
    case True
    then show ?thesis unfolding w'_def by (intro rollup_users_settled assms) simp
  next
    case False
    then have others: "list_all (\<lambda>v. v \<noteq> u) ?us" by (rule list_all_neq)
    have "account t u (wdb w') = account t u (wdb w)"
      unfolding w'_def
      by (rule rollup_isolates [OF assms(1) others])
    then have "filter (is_balance t u) (balances (wdb w')) = filter (is_balance t u) (balances (wdb w))"
      by (simp add: account_def)
    then have same: "b \<in> set (balances (wdb w)) \<longleftrightarrow> b \<in> set (balances (wdb w'))"
      if "ub_tenant b = t" "ub_user b = u" for b
    proof -
      have "b \<in> set (filter (is_balance t u) (balances (wdb w'))) \<longleftrightarrow>
          b \<in> set (filter (is_balance t u) (balances (wdb w)))"
        by (simp only: \<open>filter (is_balance t u) (balances (wdb w')) = _\<close>)
      then show ?thesis using that by (simp add: is_balance_def)
    qed
    obtain b where "b \<in> set (zero_balances t year_9999 (balances (wdb w')))" "ub_user b = u"
      using \<open>u \<in> set ?us'\<close> by auto
    then have "b \<in> set (zero_balances t year_9999 (balances (wdb w)))"
      using same [of b] by (simp add: zero_balances_def)
    then show ?thesis using False \<open>ub_user b = u\<close> by auto
  qed
  then have "snd (run_state (?run ?us') w') = w'" by (rule rollup_users_noop [OF quiet])
  then show ?thesis
    using run_UsageRollup [where parse_uuid = parse_uuid, OF assms, of uuid_str s]
      run_UsageRollup [where parse_uuid = parse_uuid, OF quiet assms(2), of uuid_str s]
    by (simp add: w'_def)
qed

definition used_up_world :: world where
  "used_up_world = metered_world\<lparr>wdb := (wdb metered_world)\<lparr>balances :=
     [\<lparr>ub_tenant = 100, ub_user = 200, ub_cents = 0, ub_currency = ''USD'', ub_last_entry = 7,
       ub_updated = 7\<rparr>]\<rparr>\<rparr>"

definition used_up_run :: "unit result \<times> world" where
  "used_up_run = run_state (UsageRollup_Work parse0 (\<lambda>u. ''x'') service0 (Some 100) rollup_args0) used_up_world"

lemma used_up_charge:
  "map (\<lambda>e. (le_user e, le_type e, le_amount e)) (ledger (wdb (snd used_up_run))) = [(200, ''debit'', 84)]"
  "map ub_cents (balances (wdb (snd used_up_run))) = [- 84]"
  by code_simp code_simp

text \<open>
  A user whose balance is used up and who has metered usage for 84 cents: the first run charges
  them, the second one does not.
\<close>

lemma rollup_rerun_changes_nothing_witness:
  "\<exists>w'. run_state (UsageRollup_Work parse0 (\<lambda>u. ''x'') service0 (Some 100) rollup_args0)
      used_up_world = (Inr (), w') \<and>
    ledger (wdb used_up_world) = [] \<and>
    map (\<lambda>e. (le_user e, le_type e, le_amount e)) (ledger (wdb w')) = [(200, ''debit'', 84)] \<and>
    map ub_cents (balances (wdb w')) = [- 84] \<and>
    run_state (UsageRollup_Work parse0 (\<lambda>u. ''x'') service0 (Some 100) rollup_args0) w' = (Inr (), w')"
proof -
  have "sched used_up_world = []" "parse0 (ra_tenant rollup_args0) = Inr 100"
    "ledger (wdb used_up_world) = []"
    by (simp_all add: used_up_world_def metered_world_def world0_def empty_db_def rollup_args0_def parse0_def)
  then show ?thesis
    using rollup_rerun_changes_nothing [of used_up_world parse0 rollup_args0 100 "\<lambda>u. ''x''" service0]
      used_up_charge by (auto simp: used_up_run_def)
qed

end
