(* ===== verification/PaymentsRepo.thy ===== *)
theory PaymentsRepo
  imports BillingRepo
begin

text \<open>
  \<^verbatim>\<open>database/billing_payments_repo.go\<close>: the repositories of plans, payment methods,
  subscriptions, promo codes and webhook events, on the statements of
  \<^verbatim>\<open>database/queries/billing_payments.sql\<close> with the constraints of migrations 0041 to 0045.
  The two listings of plans are left out: they order by a text column, so by the collation of
  the database.
\<close>

section \<open>Plans\<close>

record plan_params =
  pn_slug :: string
  pn_name :: string
  pn_description :: string
  pn_interval :: string
  pn_price :: int
  pn_currency :: string
  pn_quota :: int
  pn_discount :: int
  pn_active :: bool
  pn_sort :: int

definition plan_checks :: "plan_params \<Rightarrow> bool" where
  "plan_checks p \<longleftrightarrow> 0 \<le> pn_price p \<and> 0 \<le> pn_discount p \<and> pn_discount p \<le> 100"

definition is_plan :: "uuid \<Rightarrow> uuid \<Rightarrow> plan_row \<Rightarrow> bool" where
  "is_plan t i r \<longleftrightarrow> pl_tenant r = t \<and> pl_id r = i"

definition sql_create_plan :: "plan_params \<Rightarrow> uuid \<Rightarrow> db \<Rightarrow> plan_row result \<times> db" where
  "sql_create_plan p t d =
     (if \<not> plan_checks p then (Inl (Pg CheckViolation), d)
      else if list_ex (\<lambda>r. pl_tenant r = t \<and> pl_slug r = pn_slug p) (plans d)
      then (Inl (Pg UniqueViolation), d)
      else if t \<notin> set (db_tenants d) then (Inl (Pg ForeignKeyViolation), d)
      else let row = \<lparr>pl_id = db_next d, pl_tenant = t, pl_slug = pn_slug p, pl_name = pn_name p,
                      pl_description = pn_description p, pl_interval = pn_interval p,
                      pl_price = pn_price p, pl_currency = pn_currency p, pl_quota = pn_quota p,
                      pl_discount = pn_discount p, pl_product = None, pl_price_id = None,
                      pl_active = pn_active p, pl_sort = pn_sort p\<rparr>
           in (Inr row, d\<lparr>db_next := Suc (db_next d), plans := plans d @ [row]\<rparr>))"

definition sql_update_plan :: "uuid \<Rightarrow> plan_params \<Rightarrow> uuid \<Rightarrow> db \<Rightarrow> unit result \<times> db" where
  "sql_update_plan i p t d =
     (if list_ex (is_plan t i) (plans d) \<and> \<not> plan_checks p then (Inl (Pg CheckViolation), d)
      else (Inr (), d\<lparr>plans := sql_update (is_plan t i)
        (\<lambda>r. r\<lparr>pl_name := pn_name p, pl_description := pn_description p,
               pl_interval := pn_interval p, pl_price := pn_price p, pl_currency := pn_currency p,
               pl_quota := pn_quota p, pl_discount := pn_discount p, pl_active := pn_active p,
               pl_sort := pn_sort p\<rparr>) (plans d)\<rparr>))"

definition sql_set_stripe_ids ::
  "uuid \<Rightarrow> string option \<Rightarrow> string option \<Rightarrow> uuid \<Rightarrow> db \<Rightarrow> unit result \<times> db" where
  "sql_set_stripe_ids i product price t d =
     (Inr (), d\<lparr>plans := sql_update (is_plan t i)
        (\<lambda>r. r\<lparr>pl_product := product, pl_price_id := price\<rparr>) (plans d)\<rparr>)"

text \<open>
  A plan some subscription refers to cannot be deleted; promo codes tied to a deleted plan lose
  the reference.
\<close>

definition sql_delete_plan :: "uuid \<Rightarrow> uuid \<Rightarrow> db \<Rightarrow> unit result \<times> db" where
  "sql_delete_plan i t d =
     (if list_ex (is_plan t i) (plans d) \<and> list_ex (\<lambda>s. sb_plan s = i) (subs d)
      then (Inl (Pg ForeignKeyViolation), d)
      else if list_ex (is_plan t i) (plans d)
      then (Inr (), d\<lparr>plans := filter (\<lambda>r. \<not> is_plan t i r) (plans d),
                      promos := sql_update (\<lambda>c. pc_plan c = Some i) (\<lambda>c. c\<lparr>pc_plan := None\<rparr>)
                        (promos d)\<rparr>)
      else (Inr (), d))"

definition Plans_Create :: "ctx \<Rightarrow> plan_params \<Rightarrow> plan_row result prog" where
  "Plans_Create ctx arg =
     tenant_call ctx (sql_create_plan (arg\<lparr>pn_currency := orUSD (pn_currency arg)\<rparr>))"

definition Plans_Get :: "ctx \<Rightarrow> uuid \<Rightarrow> plan_row result prog" where
  "Plans_Get ctx i = tenant_call ctx (\<lambda>t. read_db (\<lambda>d. sql_one (is_plan t i) (plans d)))"

definition Plans_GetBySlug :: "ctx \<Rightarrow> string \<Rightarrow> plan_row result prog" where
  "Plans_GetBySlug ctx slug = tenant_call ctx (\<lambda>t. read_db (\<lambda>d.
     sql_one (\<lambda>r. pl_tenant r = t \<and> pl_slug r = slug) (plans d)))"

definition Plans_Count :: "ctx \<Rightarrow> int result prog" where
  "Plans_Count ctx = tenant_call ctx (\<lambda>t. read_db (\<lambda>d.
     Inr (sql_count (\<lambda>r. pl_tenant r = t) (plans d))))"

definition Plans_CountActive :: "ctx \<Rightarrow> int result prog" where
  "Plans_CountActive ctx = tenant_call ctx (\<lambda>t. read_db (\<lambda>d.
     Inr (sql_count (\<lambda>r. pl_tenant r = t \<and> pl_active r) (plans d))))"

definition Plans_Update :: "ctx \<Rightarrow> uuid \<Rightarrow> plan_params \<Rightarrow> unit result prog" where
  "Plans_Update ctx i arg =
     tenant_call ctx (sql_update_plan i (arg\<lparr>pn_currency := orUSD (pn_currency arg)\<rparr>))"

definition Plans_SetStripeIDs ::
  "ctx \<Rightarrow> uuid \<Rightarrow> string option \<Rightarrow> string option \<Rightarrow> unit result prog" where
  "Plans_SetStripeIDs ctx i product price = tenant_call ctx (sql_set_stripe_ids i product price)"

definition Plans_Delete :: "ctx \<Rightarrow> uuid \<Rightarrow> unit result prog" where
  "Plans_Delete ctx i = tenant_call ctx (sql_delete_plan i)"

section \<open>Payment methods\<close>

record pm_params =
  pq_user :: uuid
  pq_stripe :: string
  pq_customer :: string
  pq_brand :: string
  pq_last4 :: string
  pq_fingerprint :: string
  pq_exp_month :: "int option"
  pq_exp_year :: "int option"
  pq_default :: bool
  pq_active :: bool
  pq_meta :: "meta option"

text \<open>The unique indexes: the Stripe id, an active fingerprint of a user, a user's default.\<close>

definition pm_conflict :: "uuid \<Rightarrow> pm_params \<Rightarrow> pm_row \<Rightarrow> bool" where
  "pm_conflict t p r \<longleftrightarrow>
     pm_stripe r = pq_stripe p \<or>
     pm_tenant r = t \<and> pm_user r = pq_user p \<and>
       (pm_active r \<and> pq_active p \<and> pq_fingerprint p \<noteq> '''' \<and> pm_fingerprint r = pq_fingerprint p \<or>
        pm_default r \<and> pq_default p)"

definition sql_create_pm :: "pm_params \<Rightarrow> uuid \<Rightarrow> db \<Rightarrow> pm_row result \<times> db" where
  "sql_create_pm p t d =
     (if list_ex (pm_conflict t p) (pms d) then (Inl (Pg UniqueViolation), d)
      else if \<not> fk_ok t (pq_user p) d then (Inl (Pg ForeignKeyViolation), d)
      else let row = \<lparr>pm_id = db_next d, pm_tenant = t, pm_user = pq_user p, pm_stripe = pq_stripe p,
                      pm_customer = pq_customer p, pm_brand = pq_brand p, pm_last4 = pq_last4 p,
                      pm_fingerprint = pq_fingerprint p, pm_exp_month = pq_exp_month p,
                      pm_exp_year = pq_exp_year p, pm_default = pq_default p,
                      pm_active = pq_active p,
                      pm_meta = (case pq_meta p of None \<Rightarrow> [] | Some m \<Rightarrow> m),
                      pm_created = db_now d\<rparr>
           in (Inr row, d\<lparr>db_next := Suc (db_next d), pms := pms d @ [row]\<rparr>))"

definition user_pms :: "uuid \<Rightarrow> uuid \<Rightarrow> db \<Rightarrow> pm_row list" where
  "user_pms t u d = filter (\<lambda>r. pm_tenant r = t \<and> pm_user r = u \<and> pm_active r) (pms d)"

definition PMs_Create :: "ctx \<Rightarrow> pm_params \<Rightarrow> pm_row result prog" where
  "PMs_Create ctx arg = tenant_call ctx (sql_create_pm arg)"

definition PMs_Get :: "ctx \<Rightarrow> uuid \<Rightarrow> pm_row result prog" where
  "PMs_Get ctx i = tenant_call ctx (\<lambda>t. read_db (\<lambda>d.
     sql_one (\<lambda>r. pm_tenant r = t \<and> pm_id r = i) (pms d)))"

definition PMs_GetByStripeID :: "ctx \<Rightarrow> string \<Rightarrow> pm_row result prog" where
  "PMs_GetByStripeID ctx i = tenant_call ctx (\<lambda>t. read_db (\<lambda>d.
     sql_one (\<lambda>r. pm_tenant r = t \<and> pm_stripe r = i) (pms d)))"

text \<open>\<^verbatim>\<open>ORDER BY is_default DESC, created_at DESC\<close>.\<close>

definition PMs_ListForUser :: "ctx \<Rightarrow> uuid \<Rightarrow> int \<Rightarrow> int \<Rightarrow> pm_row list result prog" where
  "PMs_ListForUser ctx u limit offset = tenant_call ctx (\<lambda>t. read_db (\<lambda>d.
     sql_page limit offset
       (sort_key (\<lambda>r. if pm_default r then 0 else 1 :: nat)
         (sort_key (\<lambda>r. - pm_created r) (user_pms t u d)))))"

definition PMs_CountForUser :: "ctx \<Rightarrow> uuid \<Rightarrow> int result prog" where
  "PMs_CountForUser ctx u = tenant_call ctx (\<lambda>t. read_db (\<lambda>d.
     Inr (int (length (user_pms t u d)))))"

definition PMs_ListByFingerprint :: "ctx \<Rightarrow> uuid \<Rightarrow> string \<Rightarrow> pm_row list result prog" where
  "PMs_ListByFingerprint ctx u fp = tenant_call ctx (\<lambda>t. read_db (\<lambda>d.
     Inr (filter (\<lambda>r. pm_fingerprint r = fp) (user_pms t u d))))"

definition sql_clear_default :: "uuid \<Rightarrow> uuid \<Rightarrow> db \<Rightarrow> unit result \<times> db" where
  "sql_clear_default u t d =
     (Inr (), d\<lparr>pms := sql_update (\<lambda>r. pm_tenant r = t \<and> pm_user r = u \<and> pm_default r)
        (\<lambda>r. r\<lparr>pm_default := False\<rparr>) (pms d)\<rparr>)"

definition sql_mark_default :: "uuid \<Rightarrow> uuid \<Rightarrow> db \<Rightarrow> unit result \<times> db" where
  "sql_mark_default i t d =
     (let hit = (\<lambda>r. pm_tenant r = t \<and> pm_id r = i)
      in if list_ex (\<lambda>r. hit r \<and> list_ex (\<lambda>q. pm_id q \<noteq> i \<and> pm_tenant q = t \<and>
              pm_user q = pm_user r \<and> pm_default q) (pms d)) (pms d)
         then (Inl (Pg UniqueViolation), d)
         else (Inr (), d\<lparr>pms := sql_update hit (\<lambda>r. r\<lparr>pm_default := True\<rparr>) (pms d)\<rparr>))"

definition PMs_SetDefault :: "ctx \<Rightarrow> uuid \<Rightarrow> uuid \<Rightarrow> unit result prog" where
  "PMs_SetDefault ctx u i =
     (case TenantFromContext ctx of
        Inl e \<Rightarrow> fail e
      | Inr t \<Rightarrow> do {
          r \<leftarrow> db_call (sql_clear_default u t);
          case r of
            Inl e \<Rightarrow> fail (Wrap ''billing.payment_methods.set_default: clear'' e)
          | Inr _ \<Rightarrow> db_call (sql_mark_default i t) })"

definition sql_deactivate_pm :: "uuid \<Rightarrow> uuid \<Rightarrow> db \<Rightarrow> unit result \<times> db" where
  "sql_deactivate_pm i t d =
     (Inr (), d\<lparr>pms := sql_update (\<lambda>r. pm_tenant r = t \<and> pm_id r = i)
        (\<lambda>r. r\<lparr>pm_active := False, pm_default := False\<rparr>) (pms d)\<rparr>)"

definition PMs_Deactivate :: "ctx \<Rightarrow> uuid \<Rightarrow> unit result prog" where
  "PMs_Deactivate ctx i = tenant_call ctx (sql_deactivate_pm i)"

section \<open>Subscriptions\<close>

record sub_params =
  sq_user :: uuid
  sq_plan :: uuid
  sq_stripe :: string
  sq_interval :: string
  sq_price :: int
  sq_currency :: string
  sq_quota :: int
  sq_discount :: int
  sq_status :: string
  sq_period_end :: "instant option"
  sq_meta :: "meta option"

definition sql_create_sub :: "sub_params \<Rightarrow> uuid \<Rightarrow> db \<Rightarrow> sub_row result \<times> db" where
  "sql_create_sub p t d =
     (if list_ex (\<lambda>r. sb_stripe r = sq_stripe p) (subs d) then (Inl (Pg UniqueViolation), d)
      else if \<not> fk_ok t (sq_user p) d \<or> \<not> list_ex (\<lambda>r. pl_id r = sq_plan p) (plans d)
      then (Inl (Pg ForeignKeyViolation), d)
      else let row = \<lparr>sb_id = db_next d, sb_tenant = t, sb_user = sq_user p, sb_plan = sq_plan p,
                      sb_stripe = sq_stripe p, sb_interval = sq_interval p, sb_price = sq_price p,
                      sb_currency = sq_currency p, sb_quota = sq_quota p,
                      sb_discount = sq_discount p, sb_status = sq_status p,
                      sb_period_end = sq_period_end p, sb_canceled = None,
                      sb_meta = (case sq_meta p of None \<Rightarrow> [] | Some m \<Rightarrow> m),
                      sb_created = db_now d\<rparr>
           in (Inr row, d\<lparr>db_next := Suc (db_next d), subs := subs d @ [row]\<rparr>))"

definition Subs_Create :: "ctx \<Rightarrow> sub_params \<Rightarrow> sub_row result prog" where
  "Subs_Create ctx arg = tenant_call ctx (sql_create_sub
     (arg\<lparr>sq_currency := orUSD (sq_currency arg),
          sq_status := (if sq_status arg = '''' then ''active'' else sq_status arg)\<rparr>))"

definition Subs_Get :: "ctx \<Rightarrow> uuid \<Rightarrow> sub_row result prog" where
  "Subs_Get ctx i = tenant_call ctx (\<lambda>t. read_db (\<lambda>d.
     sql_one (\<lambda>r. sb_tenant r = t \<and> sb_id r = i) (subs d)))"

definition Subs_GetByStripeID :: "ctx \<Rightarrow> string \<Rightarrow> sub_row result prog" where
  "Subs_GetByStripeID ctx i = tenant_call ctx (\<lambda>t. read_db (\<lambda>d.
     sql_one (\<lambda>r. sb_tenant r = t \<and> sb_stripe r = i) (subs d)))"

definition live_sub :: "uuid \<Rightarrow> uuid \<Rightarrow> sub_row \<Rightarrow> bool" where
  "live_sub t u r \<longleftrightarrow> sb_tenant r = t \<and> sb_user r = u \<and> sb_status r \<noteq> ''expired''"

definition Subs_ListForUser :: "ctx \<Rightarrow> uuid \<Rightarrow> int \<Rightarrow> int \<Rightarrow> sub_row list result prog" where
  "Subs_ListForUser ctx u limit offset = tenant_call ctx (\<lambda>t. read_db (\<lambda>d.
     sql_page limit offset (sort_key (\<lambda>r. - sb_created r) (filter (live_sub t u) (subs d)))))"

definition Subs_CountForUser :: "ctx \<Rightarrow> uuid \<Rightarrow> int result prog" where
  "Subs_CountForUser ctx u = tenant_call ctx (\<lambda>t. read_db (\<lambda>d.
     Inr (sql_count (live_sub t u) (subs d))))"

definition Subs_ListActive :: "ctx \<Rightarrow> sub_row list result prog" where
  "Subs_ListActive ctx = tenant_call ctx (\<lambda>t. read_db (\<lambda>d.
     Inr (filter (\<lambda>r. sb_tenant r = t \<and> sb_status r = ''active'') (subs d))))"

definition sql_set_sub_status ::
  "uuid \<Rightarrow> string \<Rightarrow> instant option \<Rightarrow> instant option \<Rightarrow> uuid \<Rightarrow> db \<Rightarrow> unit result \<times> db" where
  "sql_set_sub_status i status period_end canceled t d =
     (Inr (), d\<lparr>subs := sql_update (\<lambda>r. sb_tenant r = t \<and> sb_id r = i)
        (\<lambda>r. r\<lparr>sb_status := status, sb_period_end := period_end, sb_canceled := canceled\<rparr>)
        (subs d)\<rparr>)"

definition Subs_SetStatus ::
  "ctx \<Rightarrow> uuid \<Rightarrow> string \<Rightarrow> instant option \<Rightarrow> instant option \<Rightarrow> unit result prog" where
  "Subs_SetStatus ctx i status period_end canceled =
     tenant_call ctx (sql_set_sub_status i status period_end canceled)"

section \<open>Promo codes\<close>

record promo_params =
  po_code :: string
  po_note :: string
  po_credit :: int
  po_currency :: string
  po_plan :: "uuid option"
  po_max_uses :: "int option"
  po_expires :: "instant option"
  po_created_by :: uuid

definition sql_create_promo :: "promo_params \<Rightarrow> uuid \<Rightarrow> db \<Rightarrow> promo_row result \<times> db" where
  "sql_create_promo p t d =
     (if po_credit p \<le> 0 then (Inl (Pg CheckViolation), d)
      else if list_ex (\<lambda>r. pc_tenant r = t \<and> pc_code r = po_code p) (promos d)
      then (Inl (Pg UniqueViolation), d)
      else if \<not> fk_ok t (po_created_by p) d \<or> \<not> opt_ref (po_plan p) (map pl_id (plans d))
      then (Inl (Pg ForeignKeyViolation), d)
      else let row = \<lparr>pc_id = db_next d, pc_tenant = t, pc_code = po_code p, pc_note = po_note p,
                      pc_credit = po_credit p, pc_currency = po_currency p,
                      pc_plan = po_plan p, pc_max_uses = po_max_uses p, pc_used = 0,
                      pc_expires = po_expires p, pc_revoked = None,
                      pc_created_by = po_created_by p, pc_created = db_now d\<rparr>
           in (Inr row, d\<lparr>db_next := Suc (db_next d), promos := promos d @ [row]\<rparr>))"

definition is_promo :: "uuid \<Rightarrow> uuid \<Rightarrow> promo_row \<Rightarrow> bool" where
  "is_promo t i r \<longleftrightarrow> pc_tenant r = t \<and> pc_id r = i"

definition promo_usable :: "promo_row \<Rightarrow> bool" where
  "promo_usable r \<longleftrightarrow> pc_revoked r = None \<and>
     (case pc_max_uses r of None \<Rightarrow> True | Some m \<Rightarrow> pc_used r < m)"

definition sql_increment_use :: "uuid \<Rightarrow> uuid \<Rightarrow> db \<Rightarrow> unit result \<times> db" where
  "sql_increment_use i t d =
     (let hit = (\<lambda>r. is_promo t i r \<and> promo_usable r)
      in if list_ex (\<lambda>r. hit r \<and> pc_used r \<ge> 2147483647) (promos d)
         then (Inl (Pg NumericOutOfRange), d)
         else (Inr (), d\<lparr>promos := sql_update hit (\<lambda>r. r\<lparr>pc_used := pc_used r + 1\<rparr>) (promos d)\<rparr>))"

definition sql_revoke_promo :: "uuid \<Rightarrow> uuid \<Rightarrow> db \<Rightarrow> unit result \<times> db" where
  "sql_revoke_promo i t d =
     (Inr (), d\<lparr>promos := sql_update (\<lambda>r. is_promo t i r \<and> pc_revoked r = None)
        (\<lambda>r. r\<lparr>pc_revoked := Some (db_now d)\<rparr>) (promos d)\<rparr>)"

definition Promos_Create :: "ctx \<Rightarrow> promo_params \<Rightarrow> promo_row result prog" where
  "Promos_Create ctx arg =
     tenant_call ctx (sql_create_promo (arg\<lparr>po_currency := orUSD (po_currency arg)\<rparr>))"

definition Promos_Get :: "ctx \<Rightarrow> uuid \<Rightarrow> promo_row result prog" where
  "Promos_Get ctx i = tenant_call ctx (\<lambda>t. read_db (\<lambda>d. sql_one (is_promo t i) (promos d)))"

definition Promos_GetByCode :: "ctx \<Rightarrow> string \<Rightarrow> promo_row result prog" where
  "Promos_GetByCode ctx code = tenant_call ctx (\<lambda>t. read_db (\<lambda>d.
     sql_one (\<lambda>r. pc_tenant r = t \<and> pc_code r = code) (promos d)))"

definition Promos_List :: "ctx \<Rightarrow> int \<Rightarrow> int \<Rightarrow> promo_row list result prog" where
  "Promos_List ctx limit offset = tenant_call ctx (\<lambda>t. read_db (\<lambda>d.
     sql_page limit offset (sort_key (\<lambda>r. - pc_created r)
       (filter (\<lambda>r. pc_tenant r = t \<and> pc_revoked r = None) (promos d)))))"

definition Promos_Count :: "ctx \<Rightarrow> int result prog" where
  "Promos_Count ctx = tenant_call ctx (\<lambda>t. read_db (\<lambda>d.
     Inr (sql_count (\<lambda>r. pc_tenant r = t \<and> pc_revoked r = None) (promos d))))"

text \<open>
  \<^verbatim>\<open>IncrementUse\<close>: a conditional update and a read, two statements; whether the update hit the
  row is guessed from the counter that is read back.
\<close>

definition Promos_IncrementUse :: "ctx \<Rightarrow> uuid \<Rightarrow> unit result prog" where
  "Promos_IncrementUse ctx i =
     (case TenantFromContext ctx of
        Inl e \<Rightarrow> fail e
      | Inr t \<Rightarrow> do {
          r \<leftarrow> db_call (sql_increment_use i t);
          case r of
            Inl e \<Rightarrow> fail (Wrap ''billing.promo_codes.increment_use'' e)
          | Inr _ \<Rightarrow> do {
              q \<leftarrow> db_call (read_db (\<lambda>d. sql_one (is_promo t i) (promos d)));
              case q of
                Inl e \<Rightarrow> fail (Wrap ''billing.promo_codes.increment_use: re-read'' e)
              | Inr after \<Rightarrow>
                  if pc_used after = 0 then fail (Sentinel DbErrPromoCodeExhausted) else ok () } })"

definition Promos_Revoke :: "ctx \<Rightarrow> uuid \<Rightarrow> unit result prog" where
  "Promos_Revoke ctx i = tenant_call ctx (sql_revoke_promo i)"

section \<open>Webhook events\<close>

record webhook_params =
  wp_tenant :: "uuid option"
  wp_stripe :: string
  wp_type :: string
  wp_api :: "string option"
  wp_payload :: "string option"
  wp_status :: string

definition sql_create_webhook :: "webhook_params \<Rightarrow> db \<Rightarrow> webhook_row result \<times> db" where
  "sql_create_webhook p d =
     (if list_ex (\<lambda>r. wh_stripe r = wp_stripe p) (webhooks d) then (Inl (Pg UniqueViolation), d)
      else if \<not> opt_ref (wp_tenant p) (db_tenants d) then (Inl (Pg ForeignKeyViolation), d)
      else let row = \<lparr>wh_id = db_next d, wh_tenant = wp_tenant p, wh_stripe = wp_stripe p,
                      wh_type = wp_type p, wh_api = wp_api p,
                      wh_payload = (case wp_payload p of None \<Rightarrow> ''{}'' | Some x \<Rightarrow> x),
                      wh_status = wp_status p, wh_ledger = [], wh_error = None,
                      wh_received = db_now d, wh_processed = None\<rparr>
           in (Inr row, d\<lparr>db_next := Suc (db_next d), webhooks := webhooks d @ [row]\<rparr>))"

definition is_webhook :: "uuid \<Rightarrow> uuid \<Rightarrow> webhook_row \<Rightarrow> bool" where
  "is_webhook t i r \<longleftrightarrow> wh_tenant r = Some t \<and> wh_id r = i"

definition sql_mark_webhook ::
  "(instant \<Rightarrow> webhook_row \<Rightarrow> webhook_row) \<Rightarrow> uuid \<Rightarrow> uuid \<Rightarrow> db \<Rightarrow> unit result \<times> db" where
  "sql_mark_webhook f i t d =
     (Inr (), d\<lparr>webhooks := sql_update (is_webhook t i) (f (db_now d)) (webhooks d)\<rparr>)"

definition Webhooks_Create :: "webhook_params \<Rightarrow> webhook_row result prog" where
  "Webhooks_Create arg = db_call (sql_create_webhook
     (arg\<lparr>wp_status := (if wp_status arg = '''' then ''received'' else wp_status arg)\<rparr>))"

definition Webhooks_GetByStripeID :: "string \<Rightarrow> webhook_row result prog" where
  "Webhooks_GetByStripeID i = db_call (read_db (\<lambda>d.
     sql_one (\<lambda>r. wh_stripe r = i) (webhooks d)))"

definition Webhooks_MarkApplied :: "ctx \<Rightarrow> uuid \<Rightarrow> uuid list \<Rightarrow> unit result prog" where
  "Webhooks_MarkApplied ctx i ids = tenant_call ctx (sql_mark_webhook
     (\<lambda>now r. r\<lparr>wh_status := ''applied'', wh_ledger := ids, wh_processed := Some now\<rparr>) i)"

definition Webhooks_MarkDuplicate :: "ctx \<Rightarrow> uuid \<Rightarrow> unit result prog" where
  "Webhooks_MarkDuplicate ctx i = tenant_call ctx (sql_mark_webhook
     (\<lambda>now r. r\<lparr>wh_status := ''duplicate'', wh_processed := Some now\<rparr>) i)"

definition Webhooks_MarkFailed :: "ctx \<Rightarrow> uuid \<Rightarrow> goerr \<Rightarrow> unit result prog" where
  "Webhooks_MarkFailed ctx i e = tenant_call ctx (sql_mark_webhook
     (\<lambda>now r. r\<lparr>wh_status := ''failed'', wh_error := Some e, wh_processed := Some now\<rparr>) i)"

definition Webhooks_List :: "ctx \<Rightarrow> int \<Rightarrow> int \<Rightarrow> webhook_row list result prog" where
  "Webhooks_List ctx limit offset = tenant_call ctx (\<lambda>t. read_db (\<lambda>d.
     sql_page limit offset (sort_key (\<lambda>r. - wh_received r)
       (filter (\<lambda>r. wh_tenant r = Some t) (webhooks d)))))"

definition Webhooks_Count :: "ctx \<Rightarrow> int result prog" where
  "Webhooks_Count ctx = tenant_call ctx (\<lambda>t. read_db (\<lambda>d.
     Inr (sql_count (\<lambda>r. wh_tenant r = Some t) (webhooks d))))"

end
