(* ===== verification/StripeHook.thy ===== *)
theory StripeHook
  imports Encoding
begin

text \<open>
  \<^verbatim>\<open>providers/stripe/webhooks.go\<close> and the event types of \<^verbatim>\<open>types.go\<close>: the verification of the
  \<^verbatim>\<open>Stripe-Signature\<close> header and the decoding of the payload.

  HMAC-SHA256 is the parameter \<open>mac\<close> (key, message). The syntax of JSON is the parameter
  \<open>parse_json\<close>, which gives the value a text denotes; how \<^verbatim>\<open>encoding/json\<close> stores a value into
  the fields of a struct is written out.
\<close>

section \<open>JSON values and struct fields\<close>

datatype json =
    Nul
  | Boolean bool
  | Integer int
  | Fraction
  | Text string
  | Arr "json list"
  | Obj "(string \<times> json) list"

text \<open>
  The values stored into a field: those whose key is the field's name up to case, in order, so
  the last one wins; a \<^verbatim>\<open>null\<close> leaves a field of basic type as it is.
\<close>

definition field_values :: "string \<Rightarrow> (string \<times> json) list \<Rightarrow> json list" where
  "field_values name fs = map snd (filter (\<lambda>(k, _). ToLower k = name) fs)"

definition type_error :: "string \<Rightarrow> goerr" where
  "type_error name = Msg (''json: cannot unmarshal into field '' @ name)"

fun store_all :: "('a \<Rightarrow> json \<Rightarrow> 'a option) \<Rightarrow> string \<Rightarrow> json list \<Rightarrow> 'a \<Rightarrow> 'a result" where
  "store_all f name [] x = Inr x"
| "store_all f name (v # vs) x =
     (case f x v of
        None \<Rightarrow> Inl (type_error name)
      | Some y \<Rightarrow> store_all f name vs y)"

fun store_string :: "string \<Rightarrow> json \<Rightarrow> string option" where
  "store_string x Nul = Some x"
| "store_string x (Text s) = Some s"
| "store_string x _ = None"

fun store_int64 :: "int \<Rightarrow> json \<Rightarrow> int option" where
  "store_int64 x Nul = Some x"
| "store_int64 x (Integer i) = (if in_int64 i then Some i else None)"
| "store_int64 x _ = None"

fun store_bool :: "bool \<Rightarrow> json \<Rightarrow> bool option" where
  "store_bool x Nul = Some x"
| "store_bool x (Boolean b) = Some b"
| "store_bool x _ = None"

text \<open>A \<^verbatim>\<open>map[string]any\<close>; \<open>None\<close> is the nil map. Entries are added to a map that is there.\<close>

fun store_map ::
  "(string \<times> json) list option \<Rightarrow> json \<Rightarrow> (string \<times> json) list option option" where
  "store_map x Nul = Some None"
| "store_map x (Obj kvs) = Some (Some ((case x of None \<Rightarrow> [] | Some m \<Rightarrow> m) @ kvs))"
| "store_map x _ = None"

definition string_field :: "string \<Rightarrow> (string \<times> json) list \<Rightarrow> string result" where
  "string_field name fs = store_all store_string name (field_values name fs) ''''"

definition int_field :: "string \<Rightarrow> (string \<times> json) list \<Rightarrow> int result" where
  "int_field name fs = store_all store_int64 name (field_values name fs) 0"

definition bool_field :: "string \<Rightarrow> (string \<times> json) list \<Rightarrow> bool result" where
  "bool_field name fs = store_all store_bool name (field_values name fs) False"

definition map_field ::
  "string \<Rightarrow> (string \<times> json) list \<Rightarrow> (string \<times> json) list option result" where
  "map_field name fs = store_all store_map name (field_values name fs) None"

text \<open>The entry of a map under a key: the last one stored.\<close>

definition map_entry :: "string \<Rightarrow> (string \<times> json) list \<Rightarrow> json option" where
  "map_entry k kvs = map_of (rev kvs) k"

definition both :: "'a result \<Rightarrow> ('a \<Rightarrow> 'b result) \<Rightarrow> 'b result" where
  "both r f = (case r of Inl e \<Rightarrow> Inl e | Inr x \<Rightarrow> f x)"

text \<open>The fields of a JSON document for a struct: \<^verbatim>\<open>null\<close> stores nothing.\<close>

fun store_struct :: "(string \<times> json) list \<Rightarrow> json \<Rightarrow> (string \<times> json) list option" where
  "store_struct x Nul = Some x"
| "store_struct x (Obj kvs) = Some (x @ kvs)"
| "store_struct x _ = None"

definition object_fields :: "json \<Rightarrow> (string \<times> json) list result" where
  "object_fields j = store_all store_struct '''' [j] []"

definition struct_field :: "string \<Rightarrow> (string \<times> json) list \<Rightarrow> (string \<times> json) list result" where
  "struct_field name fs = store_all store_struct name (field_values name fs) []"

fun store_array :: "json list \<Rightarrow> json \<Rightarrow> json list option" where
  "store_array x Nul = Some []"
| "store_array x (Arr js) = Some js"
| "store_array x _ = None"

text \<open>Fields that are decoded and not used: only their types matter.\<close>

fun check_all :: "('a \<Rightarrow> 'b result) \<Rightarrow> 'a list \<Rightarrow> unit result" where
  "check_all f [] = Inr ()"
| "check_all f (x # xs) = both (f x) (\<lambda>_. check_all f xs)"

definition check_strings :: "string list \<Rightarrow> (string \<times> json) list \<Rightarrow> unit result" where
  "check_strings names fs = check_all (\<lambda>n. string_field n fs) names"

definition check_ints :: "string list \<Rightarrow> (string \<times> json) list \<Rightarrow> unit result" where
  "check_ints names fs = check_all (\<lambda>n. int_field n fs) names"

section \<open>The objects of an event\<close>

record stripe_event =
  se_id :: string
  se_type :: string
  se_api :: string
  se_object :: "json option"

record payment_intent =
  pi_id :: string
  pi_amount :: int
  pi_currency :: string
  pi_secret :: string
  pi_meta :: "(string \<times> json) list option"

record stripe_sub =
  ss_id :: string
  ss_period_end :: int
  ss_meta :: "(string \<times> json) list option"

record stripe_invoice =
  si_id :: string
  si_subscription :: string
  si_total :: int
  si_currency :: string
  si_paid :: bool
  si_meta :: "(string \<times> json) list option"

text \<open>A line of a subscription; its price is declared as a string.\<close>

definition check_item :: "json \<Rightarrow> unit result" where
  "check_item j =
     both (object_fields j) (\<lambda>ob.
     both (check_strings [''id'', ''price'', ''subscription''] ob) (\<lambda>_.
       check_ints [''quantity''] ob))"

definition check_items :: "(string \<times> json) list \<Rightarrow> unit result" where
  "check_items fs =
     both (struct_field ''items'' fs) (\<lambda>ob.
     both (check_strings [''object''] ob) (\<lambda>_.
     both (store_all store_array ''data'' (field_values ''data'' ob) []) (\<lambda>js.
       check_all check_item js)))"

definition decode_intent :: "json \<Rightarrow> payment_intent result" where
  "decode_intent j =
     both (object_fields j) (\<lambda>ob. both (string_field ''id'' ob) (\<lambda>i.
     both (int_field ''amount'' ob) (\<lambda>a. both (string_field ''currency'' ob) (\<lambda>c.
     both (string_field ''client_secret'' ob) (\<lambda>s. both (map_field ''metadata'' ob) (\<lambda>m.
     both (check_strings [''status'', ''customer'', ''payment_method'', ''latest_charge''] ob) (\<lambda>_.
       Inr \<lparr>pi_id = i, pi_amount = a, pi_currency = c, pi_secret = s, pi_meta = m\<rparr>)))))))"

definition decode_sub :: "json \<Rightarrow> stripe_sub result" where
  "decode_sub j =
     both (object_fields j) (\<lambda>ob. both (string_field ''id'' ob) (\<lambda>i.
     both (int_field ''current_period_end'' ob) (\<lambda>e. both (map_field ''metadata'' ob) (\<lambda>m.
     both (check_strings [''status'', ''customer''] ob) (\<lambda>_.
     both (check_ints [''current_period_start'', ''cancel_at'', ''canceled_at''] ob) (\<lambda>_.
     both (check_items ob) (\<lambda>_.
       Inr \<lparr>ss_id = i, ss_period_end = e, ss_meta = m\<rparr>)))))))"

definition decode_invoice :: "json \<Rightarrow> stripe_invoice result" where
  "decode_invoice j =
     both (object_fields j) (\<lambda>ob. both (string_field ''id'' ob) (\<lambda>i.
     both (string_field ''subscription'' ob) (\<lambda>s. both (int_field ''total'' ob) (\<lambda>t.
     both (string_field ''currency'' ob) (\<lambda>c. both (bool_field ''paid'' ob) (\<lambda>p.
     both (map_field ''metadata'' ob) (\<lambda>m.
     both (check_strings [''status'', ''customer'', ''charge''] ob) (\<lambda>_.
       Inr \<lparr>si_id = i, si_subscription = s, si_total = t, si_currency = c, si_paid = p,
            si_meta = m\<rparr>))))))))"

definition decode_dispute :: "json \<Rightarrow> unit result" where
  "decode_dispute j =
     both (object_fields j) (\<lambda>ob.
     both (check_strings [''id'', ''currency'', ''status'', ''reason'', ''charge''] ob) (\<lambda>_.
       check_ints [''amount''] ob))"

definition raw_object :: "json list \<Rightarrow> json option" where
  "raw_object vs = (if vs = [] then None else Some (List.last vs))"

definition decode_event :: "json \<Rightarrow> stripe_event result" where
  "decode_event j =
     both (object_fields j) (\<lambda>ob. both (string_field ''id'' ob) (\<lambda>i.
     both (string_field ''type'' ob) (\<lambda>ty. both (string_field ''api_version'' ob) (\<lambda>v.
     both (int_field ''created'' ob) (\<lambda>_. both (bool_field ''livemode'' ob) (\<lambda>_.
     both (struct_field ''data'' ob) (\<lambda>d. both (map_field ''previous_attributes'' d) (\<lambda>_.
     both (struct_field ''request'' ob) (\<lambda>q. both (check_strings [''idempotency_key''] q) (\<lambda>_.
       Inr \<lparr>se_id = i, se_type = ty, se_api = v,
            se_object = raw_object (field_values ''object'' d)\<rparr>))))))))))"

text \<open>
  The metadata of an object when the error of \<^verbatim>\<open>json.Unmarshal\<close> is dropped: a value of the wrong
  type leaves the map as it was.
\<close>

definition probe_metadata :: "json \<Rightarrow> (string \<times> json) list option" where
  "probe_metadata j =
     (case object_fields j of
        Inl _ \<Rightarrow> None
      | Inr ob \<Rightarrow>
          foldl (\<lambda>x v. case store_map x v of None \<Rightarrow> x | Some y \<Rightarrow> y) None (field_values ''metadata'' ob))"

lemma store_all_foldl:
  "store_all f name vs x = Inr y \<Longrightarrow> foldl (\<lambda>x v. case f x v of None \<Rightarrow> x | Some z \<Rightarrow> z) x vs = y"
  by (induction vs arbitrary: x) (auto split: option.splits)

lemma probe_metadata_ok:
  "object_fields j = Inr ob \<Longrightarrow> map_field ''metadata'' ob = Inr m \<Longrightarrow> probe_metadata j = m"
  by (simp add: probe_metadata_def map_field_def store_all_foldl)

text \<open>\<^verbatim>\<open>json.Unmarshal\<close> of the raw object: a missing object is an empty document.\<close>

definition unmarshal :: "(json \<Rightarrow> 'a result) \<Rightarrow> json option \<Rightarrow> 'a result" where
  "unmarshal decode raw =
     (case raw of None \<Rightarrow> Inl (Msg ''unexpected end of JSON input'') | Some j \<Rightarrow> decode j)"

section \<open>The signature header\<close>

definition cut :: "char \<Rightarrow> string \<Rightarrow> (string \<times> string) option" where
  "cut c s = (if c \<in> set s then Some (takeWhile (\<lambda>x. x \<noteq> c) s, tl (dropWhile (\<lambda>x. x \<noteq> c) s)) else None)"

definition bad_header :: "string \<Rightarrow> goerr" where
  "bad_header what = Wrap what (Sentinel StripeErrInvalidSignature)"

fun scan_header :: "string list \<Rightarrow> int \<Rightarrow> string list \<Rightarrow> (int \<times> string list) result" where
  "scan_header [] ts sigs = Inr (ts, sigs)"
| "scan_header (raw # raws) ts sigs =
     (case cut (CHR ''='') (TrimSpace raw) of
        None \<Rightarrow> scan_header raws ts sigs
      | Some (k, v) \<Rightarrow>
          if TrimSpace k = ''t''
          then (case ParseInt (TrimSpace v) of
                  None \<Rightarrow> Inl (bad_header ''malformed timestamp'')
                | Some n \<Rightarrow> scan_header raws n sigs)
          else if TrimSpace k = ''v1'' then scan_header raws ts (sigs @ [TrimSpace v])
          else scan_header raws ts sigs)"

definition parseSignatureHeader :: "string \<Rightarrow> (int \<times> string list) result" where
  "parseSignatureHeader header =
     (if header = '''' then Inl (bad_header ''empty header'')
      else (case scan_header (split_on (CHR '','') header) 0 [] of
              Inl e \<Rightarrow> Inl e
            | Inr (ts, sigs) \<Rightarrow>
                if ts = 0 then Inl (bad_header ''missing timestamp'')
                else if sigs = [] then Inl (bad_header ''missing v1 signature'')
                else Inr (ts, sigs)))"

section \<open>Verification\<close>

definition DefaultWebhookTolerance :: int where
  "DefaultWebhookTolerance = 5 * 60 * 1000000000"

definition MaxWebhookBodyBytes :: nat where
  "MaxWebhookBodyBytes = 1048576"

text \<open>\<^verbatim>\<open>time.Unix(ts, 0)\<close> counts seconds from year 1 in 64 bits; \<^verbatim>\<open>Sub\<close> saturates.\<close>

definition unix_time :: "int \<Rightarrow> instant" where
  "unix_time ts = (wrap64 (ts + 62135596800) - 62135596800) * 1000000000"

definition sat64 :: "int \<Rightarrow> int" where
  "sat64 x = max int64_min (min int64_max x)"

definition signed_payload :: "int \<Rightarrow> string \<Rightarrow> string" where
  "signed_payload ts body = fmt_d ts @ ''.'' @ body"

definition VerifyWebhook ::
  "(string \<Rightarrow> string \<Rightarrow> string) \<Rightarrow> (string \<Rightarrow> json option) \<Rightarrow> string \<Rightarrow> string \<Rightarrow> string \<Rightarrow>
   instant \<Rightarrow> int \<Rightarrow> stripe_event result" where
  "VerifyWebhook mac parse_json secret sigHeader body now tol =
     (if secret = '''' then Inl (Sentinel StripeErrInvalidSignature)
      else if length body > MaxWebhookBodyBytes then Inl (bad_header ''body too large'')
      else (let tolerance = (if tol \<le> 0 then DefaultWebhookTolerance else tol) in
        case parseSignatureHeader sigHeader of
          Inl e \<Rightarrow> Inl e
        | Inr (ts, sigs) \<Rightarrow>
            (let age = sat64 (now - unix_time ts) in
             if age > tolerance \<or> age < - tolerance
             then Inl (bad_header ''timestamp outside tolerance'')
             else if \<not> list_ex (\<lambda>sig. hex_decode sig = Some (mac secret (signed_payload ts body))) sigs
             then Inl (bad_header ''signature mismatch'')
             else (case (if body = '''' then None else parse_json body) of
                     None \<Rightarrow> Inl (bad_header ''decode payload'')
                   | Some j \<Rightarrow> (case decode_event j of
                                  Inl e \<Rightarrow> Inl (bad_header ''decode payload'')
                                | Inr ev \<Rightarrow> Inr ev)))))"

end
