(* ===== verification/Payments.thy ===== *)
theory Payments
  imports PaymentsRepo StripeHook Billing
begin

text \<open>
  \<^verbatim>\<open>billing/payments.go\<close>, \<^verbatim>\<open>subscriptions.go\<close> and \<^verbatim>\<open>promo_codes.go\<close>: the payments service. The
  Stripe gateway is a record of operations on the remote system, each a program of its own; the
  packages the service only calls (UUID text, HMAC, JSON syntax, the encryption envelope) are
  fields of the service record.
\<close>

section \<open>The gateway and the service\<close>

record card =
  cd_brand :: string
  cd_last4 :: string
  cd_fingerprint :: string
  cd_exp_month :: int
  cd_exp_year :: int

record customer_req =
  cr_email :: string
  cr_name :: string
  cr_meta :: meta

record intent_req =
  ir_amount :: int
  ir_currency :: string
  ir_customer :: string
  ir_meta :: meta
  ir_description :: string
  ir_receipt_email :: string

record product_req =
  qr_name :: string
  qr_description :: string
  qr_meta :: meta

record price_req =
  xr_currency :: string
  xr_amount :: int
  xr_product :: string
  xr_interval :: string
  xr_count :: int
  xr_meta :: meta

record subscription_req =
  ur_customer :: string
  ur_price :: string
  ur_default_pm :: string
  ur_meta :: meta

record gateway =
  gw_find_customer :: "string \<Rightarrow> string result prog"
  gw_create_customer :: "customer_req \<Rightarrow> string \<Rightarrow> string result prog"
  gw_get_pm :: "string \<Rightarrow> card result prog"
  gw_attach :: "string \<Rightarrow> string \<Rightarrow> unit result prog"
  gw_detach :: "string \<Rightarrow> unit result prog"
  gw_create_intent :: "intent_req \<Rightarrow> string \<Rightarrow> payment_intent result prog"
  gw_create_product :: "product_req \<Rightarrow> string \<Rightarrow> string result prog"
  gw_create_price :: "price_req \<Rightarrow> string \<Rightarrow> string result prog"
  gw_create_sub :: "subscription_req \<Rightarrow> string \<Rightarrow> (string \<times> int) result prog"
  gw_cancel_sub :: "string \<Rightarrow> bool \<Rightarrow> unit result prog"
  gw_secret :: string

record payments_config =
  pf_publishable :: string
  pf_currency :: string
  pf_min :: int
  pf_max :: int

record packages =
  pk_uuid_str :: "uuid \<Rightarrow> string"
  pk_parse_uuid :: "string \<Rightarrow> uuid option"
  pk_mac :: "string \<Rightarrow> string \<Rightarrow> string"
  pk_parse_json :: "string \<Rightarrow> json option"
  pk_seal :: "string \<Rightarrow> string result prog"
  pk_open :: "string \<Rightarrow> string result"

record payments =
  ps_billing :: service
  ps_gw :: gateway
  ps_pk :: packages
  ps_audit :: emitter
  ps_bus :: bool
  ps_config :: payments_config

definition NewPaymentsService ::
  "service \<Rightarrow> gateway \<Rightarrow> packages \<Rightarrow> emitter option \<Rightarrow> bool \<Rightarrow> payments_config \<Rightarrow> payments" where
  "NewPaymentsService billing gw pk emitter bus cfg =
     \<lparr>ps_billing = billing, ps_gw = gw, ps_pk = pk,
      ps_audit = (case emitter of None \<Rightarrow> NoopEmitter | Some e \<Rightarrow> e),
      ps_bus = bus,
      ps_config = \<lparr>pf_publishable = pf_publishable cfg,
        pf_currency = (if pf_currency cfg = '''' then ''usd'' else pf_currency cfg),
        pf_min = (if pf_min cfg = 0 then 50 else pf_min cfg),
        pf_max = (if pf_max cfg = 0 then 1000000 else pf_max cfg)\<rparr>\<rparr>"

definition PS_emitEvent ::
  "payments \<Rightarrow> string \<Rightarrow> uuid \<Rightarrow> uuid \<Rightarrow> uuid \<Rightarrow> meta option \<Rightarrow> unit prog" where
  "PS_emitEvent s topic tenantID userID resourceID m = do {
     now \<leftarrow> time_now;
     bus_emit (ps_bus s)
       \<lparr>ev_topic = topic, ev_tenant = tenantID,
        ev_actor_type = (if userID \<noteq> uuid_nil then ''user'' else ''system''),
        ev_actor = userID, ev_resource = resourceID, ev_meta = m, ev_at = now\<rparr> }"

definition owner_meta :: "payments \<Rightarrow> uuid \<Rightarrow> uuid \<Rightarrow> meta" where
  "owner_meta s t u =
     [(''tenant_id'', JStr (pk_uuid_str (ps_pk s) t)), (''user_id'', JStr (pk_uuid_str (ps_pk s) u))]"

section \<open>Customers\<close>

text \<open>The first cached envelope that opens.\<close>

fun cached_customer :: "payments \<Rightarrow> pm_row list \<Rightarrow> string option" where
  "cached_customer s [] = None"
| "cached_customer s (pm # rest) =
     (if pm_customer pm = '''' then cached_customer s rest
      else (case pk_open (ps_pk s) (pm_customer pm) of
              Inl _ \<Rightarrow> cached_customer s rest
            | Inr cus \<Rightarrow> Some cus))"

definition find_or_create_customer ::
  "payments \<Rightarrow> uuid \<Rightarrow> uuid \<Rightarrow> string \<Rightarrow> string \<Rightarrow> string result prog" where
  "find_or_create_customer s tenantID userID email displayName = do {
     r \<leftarrow> gw_find_customer (ps_gw s) email;
     case r of
       Inr cus \<Rightarrow> ok cus
     | Inl e \<Rightarrow>
         if \<not> errors_is e StripeErrNotFound
         then fail (Wrap ''billing.payments.customer: find by email'' e)
         else do {
           c \<leftarrow> gw_create_customer (ps_gw s)
             \<lparr>cr_email = email, cr_name = displayName, cr_meta = owner_meta s tenantID userID\<rparr>
             (''cus:'' @ pk_uuid_str (ps_pk s) tenantID @ '':'' @ pk_uuid_str (ps_pk s) userID);
           case c of
             Inl e' \<Rightarrow> fail (Wrap ''billing.payments.customer: create'' e')
           | Inr cus \<Rightarrow> ok cus } }"

definition getOrCreateStripeCustomer ::
  "payments \<Rightarrow> ctx \<Rightarrow> uuid \<Rightarrow> uuid \<Rightarrow> string \<Rightarrow> string \<Rightarrow> string result prog" where
  "getOrCreateStripeCustomer s ctx tenantID userID email displayName = do {
     existing \<leftarrow> PMs_ListForUser ctx userID 50 0;
     case (case existing of
             Inl e \<Rightarrow> if IsNoRows e then Inr [] else Inl e
           | Inr rows \<Rightarrow> Inr rows) of
       Inl e \<Rightarrow> fail (Wrap ''billing.payments.customer: list'' e)
     | Inr rows \<Rightarrow>
         (case cached_customer s rows of
            Some cus \<Rightarrow> ok cus
          | None \<Rightarrow> do {
              found \<leftarrow> find_or_create_customer s tenantID userID email displayName;
              case found of
                Inl e \<Rightarrow> fail e
              | Inr cus \<Rightarrow> do {
                  enc \<leftarrow> pk_seal (ps_pk s) cus;
                  case enc of
                    Inl e \<Rightarrow> fail (Wrap ''billing.payments.customer: encrypt'' e)
                  | Inr sealed \<Rightarrow> do {
                      cache \<leftarrow> PMs_Create ctx
                        \<lparr>pq_user = userID, pq_stripe = ''pending_'' @ pk_uuid_str (ps_pk s) userID,
                         pq_customer = sealed, pq_brand = '''', pq_last4 = '''',
                         pq_fingerprint = '''', pq_exp_month = None, pq_exp_year = None,
                         pq_default = False, pq_active = False,
                         pq_meta = Some [(''sentinel'', JBool True), (''email'', JStr email)]\<rparr>;
                      case cache of
                        Inr row \<Rightarrow> ok cus
                      | Inl _ \<Rightarrow> do {
                          again \<leftarrow> PMs_ListForUser ctx userID 50 0;
                          case again of
                            Inl _ \<Rightarrow> ok cus
                          | Inr rows' \<Rightarrow>
                              ok (case cached_customer s rows' of None \<Rightarrow> cus | Some cus2 \<Rightarrow> cus2)
                        } } } }) }"

section \<open>Payment methods\<close>

definition int32 :: "int \<Rightarrow> int" where
  "int32 x = (x + 2147483648) mod 4294967296 - 2147483648"

definition AddPaymentMethod ::
  "payments \<Rightarrow> ctx \<Rightarrow> uuid \<Rightarrow> uuid \<Rightarrow> string \<Rightarrow> string \<Rightarrow> string \<Rightarrow> bool \<Rightarrow> pm_row result prog" where
  "AddPaymentMethod s ctx tenantID userID email displayName paymentMethodID setDefault =
     (if paymentMethodID = '''' then fail (Sentinel ErrInvalidPaymentMethod)
      else do {
        customer \<leftarrow> getOrCreateStripeCustomer s ctx tenantID userID email displayName;
        case customer of
          Inl e \<Rightarrow> fail e
        | Inr customerID \<Rightarrow> do {
            got \<leftarrow> gw_get_pm (ps_gw s) paymentMethodID;
            case got of
              Inl e \<Rightarrow> fail (Wrap ''billing.payments.add_pm: get'' e)
            | Inr cd \<Rightarrow> do {
                same \<leftarrow> PMs_ListByFingerprint ctx userID (cd_fingerprint cd);
                case (case same of Inl _ \<Rightarrow> None | Inr rows \<Rightarrow> find pm_active rows) of
                  Some e \<Rightarrow> ok e
                | None \<Rightarrow> do {
                    att \<leftarrow> gw_attach (ps_gw s) paymentMethodID customerID;
                    case att of
                      Inl e \<Rightarrow> fail (Wrap ''billing.payments.add_pm: attach'' e)
                    | Inr _ \<Rightarrow> do {
                        enc \<leftarrow> pk_seal (ps_pk s) customerID;
                        case enc of
                          Inl e \<Rightarrow> fail (Wrap ''billing.payments.add_pm: encrypt'' e)
                        | Inr sealed \<Rightarrow> do {
                            auditID \<leftarrow> auditEmit (ps_audit s) ''billing.payment_method.add''
                              ''billing_payment_method'' tenantID userID uuid_nil
                              (Some [(''stripe_pm_id'', JStr paymentMethodID),
                                     (''brand'', JStr (cd_brand cd)),
                                     (''last4'', JStr (cd_last4 cd))]);
                            listed \<leftarrow> PMs_ListForUser ctx userID 1 0;
                            _ \<leftarrow> (case listed of
                                    Inl _ \<Rightarrow> ret 0
                                  | Inr rows \<Rightarrow> for_each (\<lambda>e.
                                      if HasPrefix (pm_stripe e) ''pending_''
                                      then do { _ \<leftarrow> PMs_Deactivate ctx (pm_id e); ret True }
                                      else ret False) rows);
                            created \<leftarrow> PMs_Create ctx
                              \<lparr>pq_user = userID, pq_stripe = paymentMethodID,
                               pq_customer = sealed, pq_brand = cd_brand cd,
                               pq_last4 = cd_last4 cd, pq_fingerprint = cd_fingerprint cd,
                               pq_exp_month = Some (int32 (cd_exp_month cd)),
                               pq_exp_year = Some (int32 (cd_exp_year cd)),
                               pq_default = setDefault, pq_active = True, pq_meta = None\<rparr>;
                            case created of
                              Inl e \<Rightarrow> do {
                                auditMarkOutcome (ps_audit s) auditID False
                                  (Some [(''error'', JErr e)]);
                                fail (Wrap ''billing.payments.add_pm: cache'' e) }
                            | Inr row \<Rightarrow> do {
                                row' \<leftarrow> (if setDefault
                                         then do {
                                           _ \<leftarrow> PMs_SetDefault ctx userID (pm_id row);
                                           ret (row\<lparr>pm_default := True\<rparr>) }
                                         else ret row);
                                auditMarkOutcome (ps_audit s) auditID True
                                  (Some [(''payment_method_id'', JUuid (pm_id row))]);
                                PS_emitEvent s ''billing.payment_method.added'' tenantID userID
                                  (pm_id row)
                                  (Some [(''brand'', JStr (cd_brand cd)),
                                         (''last4'', JStr (cd_last4 cd))]);
                                ok row' } } } } } } })"

definition ListPaymentMethods :: "ctx \<Rightarrow> uuid \<Rightarrow> int \<Rightarrow> int \<Rightarrow> pm_row list result prog" where
  "ListPaymentMethods ctx userID limit offset = do {
     r \<leftarrow> PMs_ListForUser ctx userID limit offset;
     case r of
       Inl e \<Rightarrow> fail (Wrap ''billing.payments.list_pm'' e)
     | Inr rows \<Rightarrow> ok (filter (\<lambda>pm. \<not> HasPrefix (pm_stripe pm) ''pending_'') rows) }"

definition RemovePaymentMethod ::
  "payments \<Rightarrow> ctx \<Rightarrow> uuid \<Rightarrow> uuid \<Rightarrow> uuid \<Rightarrow> unit result prog" where
  "RemovePaymentMethod s ctx tenantID userID rowID = do {
     got \<leftarrow> PMs_Get ctx rowID;
     case got of
       Inl e \<Rightarrow> if IsNoRows e then fail (Sentinel ErrPaymentMethodNotFound)
                else fail (Wrap ''billing.payments.remove_pm: get'' e)
     | Inr row \<Rightarrow>
         if pm_user row \<noteq> userID then fail (Sentinel ErrPaymentMethodNotFound)
         else do {
           auditID \<leftarrow> auditEmit (ps_audit s) ''billing.payment_method.drop'' ''billing_payment_method''
             tenantID userID (pm_id row)
             (Some [(''stripe_pm_id'', JStr (pm_stripe row)), (''brand'', JStr (pm_brand row)),
                    (''last4'', JStr (pm_last4 row))]);
           d \<leftarrow> gw_detach (ps_gw s) (pm_stripe row);
           case (case d of Inl e \<Rightarrow> if errors_is e StripeErrNotFound then None else Some e
                         | Inr _ \<Rightarrow> None) of
             Some e \<Rightarrow> do {
               auditMarkOutcome (ps_audit s) auditID False (Some [(''error'', JErr e)]);
               fail (Wrap ''billing.payments.remove_pm: detach'' e) }
           | None \<Rightarrow> do {
               u \<leftarrow> PMs_Deactivate ctx rowID;
               case u of
                 Inl e \<Rightarrow> do {
                   auditMarkOutcome (ps_audit s) auditID False (Some [(''error'', JErr e)]);
                   fail (Wrap ''billing.payments.remove_pm: cache'' e) }
               | Inr _ \<Rightarrow> do {
                   auditMarkOutcome (ps_audit s) auditID True None;
                   ok () } } } }"

section \<open>Top-up intents\<close>

record topup_intent =
  ti_id :: string
  ti_secret :: string
  ti_amount :: int
  ti_currency :: string

definition topup_intent_key :: "payments \<Rightarrow> uuid \<Rightarrow> uuid \<Rightarrow> int \<Rightarrow> string \<Rightarrow> string" where
  "topup_intent_key s t u amount cur =
     ''pi:topup:'' @ pk_uuid_str (ps_pk s) t @ '':'' @ pk_uuid_str (ps_pk s) u @ '':'' @
     fmt_d amount @ '':'' @ cur"

definition CreateTopupIntent ::
  "payments \<Rightarrow> ctx \<Rightarrow> uuid \<Rightarrow> uuid \<Rightarrow> string \<Rightarrow> string \<Rightarrow> int \<Rightarrow> string \<Rightarrow> topup_intent result prog" where
  "CreateTopupIntent s ctx tenantID userID email displayName amountCents currency =
     (if amountCents < pf_min (ps_config s) \<or> amountCents > pf_max (ps_config s)
      then fail (Sentinel ErrInvalidAmount)
      else (let cur = (if ToLower currency = '''' then pf_currency (ps_config s) else ToLower currency) in do {
        customer \<leftarrow> getOrCreateStripeCustomer s ctx tenantID userID email displayName;
        case customer of
          Inl e \<Rightarrow> fail e
        | Inr customerID \<Rightarrow> do {
            r \<leftarrow> gw_create_intent (ps_gw s)
              \<lparr>ir_amount = amountCents, ir_currency = cur, ir_customer = customerID,
               ir_meta = owner_meta s tenantID userID @
                 [(''lahijan_kind'', JStr ''topup''), (''customer_email'', JStr email)],
               ir_description = ''Lahijan balance top-up ('' @ displayName @ '')'',
               ir_receipt_email = email\<rparr>
              (topup_intent_key s tenantID userID amountCents cur);
            case r of
              Inl e \<Rightarrow> fail (Wrap ''billing.payments.topup'' e)
            | Inr pi \<Rightarrow> ok \<lparr>ti_id = pi_id pi, ti_secret = pi_secret pi, ti_amount = pi_amount pi,
                           ti_currency = pi_currency pi\<rparr> } }))"

section \<open>The webhook receiver\<close>

definition uuid_entry :: "payments \<Rightarrow> string \<Rightarrow> (string \<times> json) list \<Rightarrow> uuid option" where
  "uuid_entry s k m =
     (case map_entry k m of
        Some (Text x) \<Rightarrow> pk_parse_uuid (ps_pk s) x
      | _ \<Rightarrow> None)"

definition idsFromMetadata ::
  "payments \<Rightarrow> (string \<times> json) list option \<Rightarrow> (uuid \<times> uuid) option" where
  "idsFromMetadata s m =
     (case m of
        None \<Rightarrow> None
      | Some kvs \<Rightarrow>
          (case (uuid_entry s ''tenant_id'' kvs, uuid_entry s ''user_id'' kvs) of
             (Some t, Some u) \<Rightarrow> Some (t, u)
           | _ \<Rightarrow> None))"

definition tenantIDFromEvent :: "payments \<Rightarrow> stripe_event \<Rightarrow> uuid" where
  "tenantIDFromEvent s ev =
     (case se_object ev of
        None \<Rightarrow> uuid_nil
      | Some j \<Rightarrow>
          (case idsFromMetadata s (probe_metadata j) of None \<Rightarrow> uuid_nil | Some (t, _) \<Rightarrow> t))"

definition onPaymentIntentSucceeded :: "payments \<Rightarrow> ctx \<Rightarrow> stripe_event \<Rightarrow> uuid list result prog" where
  "onPaymentIntentSucceeded s ctx event =
     (case unmarshal decode_intent (se_object event) of
        Inl e \<Rightarrow> fail (Wrap ''decode payment_intent'' e)
      | Inr pi \<Rightarrow>
          (case idsFromMetadata s (pi_meta pi) of
             None \<Rightarrow> ok []
           | Some (tenantID, userID) \<Rightarrow> do {
               r \<leftarrow> Topup (ps_billing s) (WithTenant ctx tenantID) tenantID uuid_nil
                 \<lparr>tp_user = userID, tp_amount = pi_amount pi,
                  tp_currency = ToUpper (pi_currency pi),
                  tp_reference = ''stripe_topup:'' @ pi_id pi\<rparr>;
               case r of
                 Inl e \<Rightarrow> if errors_is e ErrDuplicateIdempotencyKey then ok []
                          else fail (Wrap ''ledger credit'' e)
               | Inr credit \<Rightarrow> do {
                   PS_emitEvent s ''billing.payment.succeeded'' tenantID userID (le_id credit)
                     (Some [(''amount_cents'', JInt (pi_amount pi)),
                            (''currency'', JStr (pi_currency pi)),
                            (''stripe_event'', JStr (se_id event)),
                            (''ledger_id'', JUuid (le_id credit))]);
                   ok [le_id credit] } }))"

definition onDisputeCreated :: "stripe_event \<Rightarrow> uuid list result prog" where
  "onDisputeCreated event =
     (case unmarshal decode_dispute (se_object event) of
        Inl e \<Rightarrow> fail (Wrap ''decode dispute'' e)
      | Inr _ \<Rightarrow> ok [])"

definition onDisputeClosed :: "stripe_event \<Rightarrow> uuid list result prog" where
  "onDisputeClosed event = ok []"

definition onSubscriptionUpdated :: "payments \<Rightarrow> ctx \<Rightarrow> stripe_event \<Rightarrow> uuid list result prog" where
  "onSubscriptionUpdated s ctx event =
     (case unmarshal decode_sub (se_object event) of
        Inl e \<Rightarrow> fail (Wrap ''decode subscription'' e)
      | Inr sub \<Rightarrow>
          (case idsFromMetadata s (ss_meta sub) of
             None \<Rightarrow> ok []
           | Some (tenantID, _) \<Rightarrow> do {
               r \<leftarrow> Subs_GetByStripeID (WithTenant ctx tenantID) (ss_id sub);
               case r of
                 Inl e \<Rightarrow> if IsNoRows e then ok [] else fail (Wrap ''get local sub'' e)
               | Inr loc \<Rightarrow> do {
                   u \<leftarrow> Subs_SetStatus (WithTenant ctx tenantID) (sb_id loc) ''active''
                     (Some (unix_time (ss_period_end sub))) None;
                   case u of
                     Inl e \<Rightarrow> fail (Wrap ''update local sub'' e)
                   | Inr _ \<Rightarrow> ok [] } }))"

definition onSubscriptionDeleted :: "payments \<Rightarrow> ctx \<Rightarrow> stripe_event \<Rightarrow> uuid list result prog" where
  "onSubscriptionDeleted s ctx event =
     (case unmarshal decode_sub (se_object event) of
        Inl e \<Rightarrow> fail (Wrap ''decode subscription'' e)
      | Inr sub \<Rightarrow>
          (case idsFromMetadata s (ss_meta sub) of
             None \<Rightarrow> ok []
           | Some (tenantID, _) \<Rightarrow> do {
               r \<leftarrow> Subs_GetByStripeID (WithTenant ctx tenantID) (ss_id sub);
               case r of
                 Inl e \<Rightarrow> if IsNoRows e then ok [] else fail (Wrap ''get local sub'' e)
               | Inr loc \<Rightarrow> do {
                   now \<leftarrow> time_now;
                   u \<leftarrow> Subs_SetStatus (WithTenant ctx tenantID) (sb_id loc) ''expired'' None
                     (Some now);
                   case u of
                     Inl e \<Rightarrow> fail (Wrap ''update local sub'' e)
                   | Inr _ \<Rightarrow> do {
                       PS_emitEvent s ''billing.subscription.canceled'' tenantID (sb_user loc)
                         (sb_id loc) (Some [(''stripe_subscription_id'', JStr (ss_id sub))]);
                       ok [] } } }))"

definition onInvoicePaid :: "payments \<Rightarrow> ctx \<Rightarrow> stripe_event \<Rightarrow> uuid list result prog" where
  "onInvoicePaid s ctx event =
     (case unmarshal decode_invoice (se_object event) of
        Inl e \<Rightarrow> fail (Wrap ''decode invoice'' e)
      | Inr bill \<Rightarrow>
          if \<not> si_paid bill \<or> si_total bill \<le> 0 then ok []
          else (case idsFromMetadata s (si_meta bill) of
             None \<Rightarrow> ok []
           | Some (tenantID, userID) \<Rightarrow> do {
               quota \<leftarrow> (if si_subscription bill = '''' then ret 0
                        else do {
                          r \<leftarrow> Subs_GetByStripeID (WithTenant ctx tenantID) (si_subscription bill);
                          ret (case r of Inl _ \<Rightarrow> 0 | Inr loc \<Rightarrow> sb_quota loc) });
               if quota \<le> 0 then ok []
               else do {
                 r \<leftarrow> Topup (ps_billing s) (WithTenant ctx tenantID) tenantID uuid_nil
                   \<lparr>tp_user = userID, tp_amount = quota,
                    tp_currency = ToUpper (si_currency bill),
                    tp_reference = ''stripe_subscription:'' @ si_subscription bill\<rparr>;
                 case r of
                   Inl e \<Rightarrow> if errors_is e ErrDuplicateIdempotencyKey then ok []
                            else fail (Wrap ''ledger sub credit'' e)
                 | Inr credit \<Rightarrow> do {
                     PS_emitEvent s ''billing.payment.succeeded'' tenantID userID (le_id credit)
                       (Some [(''amount_cents'', JInt quota),
                              (''currency'', JStr (si_currency bill)),
                              (''kind'', JStr ''subscription_credit''),
                              (''invoice_id'', JStr (si_id bill)),
                              (''ledger_id'', JUuid (le_id credit))]);
                     ok [le_id credit] } } }))"

definition dispatchEvent :: "payments \<Rightarrow> ctx \<Rightarrow> stripe_event \<Rightarrow> uuid list result prog" where
  "dispatchEvent s ctx event =
     (if se_type event = ''payment_intent.succeeded'' then onPaymentIntentSucceeded s ctx event
      else if se_type event = ''charge.dispute.created'' then onDisputeCreated event
      else if se_type event = ''charge.dispute.closed'' then onDisputeClosed event
      else if se_type event = ''customer.subscription.created'' \<or>
              se_type event = ''customer.subscription.updated''
      then onSubscriptionUpdated s ctx event
      else if se_type event = ''customer.subscription.deleted''
      then onSubscriptionDeleted s ctx event
      else if se_type event = ''invoice.paid'' then onInvoicePaid s ctx event
      else ok [])"

definition HandleWebhook :: "payments \<Rightarrow> ctx \<Rightarrow> string \<Rightarrow> string \<Rightarrow> unit result prog" where
  "HandleWebhook s ctx signatureHeader body = do {
     now \<leftarrow> time_now;
     case VerifyWebhook (pk_mac (ps_pk s)) (pk_parse_json (ps_pk s)) (gw_secret (ps_gw s))
            signatureHeader body now 0 of
       Inl e \<Rightarrow> fail (Wrap ''billing.payments.webhook: verify'' e)
     | Inr event \<Rightarrow> do {
         seen \<leftarrow> Webhooks_GetByStripeID (se_id event);
         case seen of
           Inr _ \<Rightarrow> ok ()
         | Inl e \<Rightarrow>
             if \<not> IsNoRows e then fail (Wrap ''billing.payments.webhook: dedup lookup'' e)
             else (let tenantID = tenantIDFromEvent s event in do {
               created \<leftarrow> Webhooks_Create
                 \<lparr>wp_tenant = (if tenantID = uuid_nil then None else Some tenantID),
                  wp_stripe = se_id event, wp_type = se_type event, wp_api = Some (se_api event),
                  wp_payload = Some body, wp_status = ''received''\<rparr>;
               case created of
                 Inl e' \<Rightarrow> if IsUniqueViolation e' then ok ()
                           else fail (Wrap ''billing.payments.webhook: insert event'' e')
               | Inr whEvent \<Rightarrow> do {
                   r \<leftarrow> dispatchEvent s ctx event;
                   case r of
                     Inl e' \<Rightarrow> do {
                       _ \<leftarrow> Webhooks_MarkFailed (WithTenant ctx tenantID) (wh_id whEvent) e';
                       fail (Wrap (''billing.payments.webhook: dispatch '' @ se_type event) e') }
                   | Inr ledgerIDs \<Rightarrow> do {
                       m \<leftarrow> Webhooks_MarkApplied (WithTenant ctx tenantID) (wh_id whEvent) ledgerIDs;
                       case m of
                         Inl e' \<Rightarrow> fail (Wrap ''billing.payments.webhook: mark applied'' e')
                       | Inr _ \<Rightarrow> ok () } } }) } }"

section \<open>Plans\<close>

definition is_slug_char :: "char \<Rightarrow> bool" where
  "is_slug_char c \<longleftrightarrow> is_lower c \<or> is_digit c \<or> c = CHR ''-'' \<or> c = CHR ''_''"

definition validatePlanSlug :: "string \<Rightarrow> unit result" where
  "validatePlanSlug slug =
     (if slug = '''' then Inl (Sentinel ErrInvalidPlanName)
      else if list_all is_slug_char slug then Inr ()
      else Inl (Sentinel ErrInvalidPlanName))"

definition validatePlanInterval :: "string \<Rightarrow> unit result" where
  "validatePlanInterval i =
     (if i = ''monthly'' \<or> i = ''yearly'' then Inr () else Inl (Sentinel ErrInvalidPlanInterval))"

definition planIntervalToStripe :: "string \<Rightarrow> string" where
  "planIntervalToStripe i = (if i = ''yearly'' then ''year'' else ''month'')"

definition plan_currency :: "string \<Rightarrow> string" where
  "plan_currency c = (if ToUpper c = '''' then ''USD'' else ToUpper c)"

text \<open>The checks \<open>CreatePlan\<close> and \<open>UpdatePlan\<close> make on the fields they share.\<close>

definition validate_plan :: "plan_params \<Rightarrow> unit result" where
  "validate_plan p =
     (if pn_name p = '''' then Inl (Sentinel ErrInvalidPlanName)
      else case validatePlanInterval (pn_interval p) of
        Inl e \<Rightarrow> Inl e
      | Inr _ \<Rightarrow>
          if pn_price p < 0 then Inl (Sentinel ErrInvalidAmount)
          else if pn_quota p < 0 then Inl (Sentinel ErrInvalidAmount)
          else if pn_discount p < 0 \<or> pn_discount p > 100 then Inl (Sentinel ErrInvalidAmount)
          else validateCurrency (plan_currency (pn_currency p)))"

definition CreatePlan ::
  "payments \<Rightarrow> ctx \<Rightarrow> uuid \<Rightarrow> uuid \<Rightarrow> plan_params \<Rightarrow> plan_row result prog" where
  "CreatePlan s ctx tenantID actorID params =
     (case validatePlanSlug (pn_slug params) of
        Inl e \<Rightarrow> fail e
      | Inr _ \<Rightarrow> (case validate_plan params of
          Inl e \<Rightarrow> fail e
        | Inr _ \<Rightarrow> do {
            auditID \<leftarrow> auditEmit (ps_audit s) ''billing.plan.create'' ''billing_plan'' tenantID
              actorID uuid_nil
              (Some [(''slug'', JStr (pn_slug params)), (''name'', JStr (pn_name params)),
                     (''interval'', JStr (pn_interval params)),
                     (''price_cents'', JInt (pn_price params))]);
            r \<leftarrow> Plans_Create ctx (params\<lparr>pn_currency := plan_currency (pn_currency params)\<rparr>);
            case r of
              Inl e \<Rightarrow> do {
                auditMarkOutcome (ps_audit s) auditID False (Some [(''error'', JErr e)]);
                fail (Wrap ''billing.plans.create'' e) }
            | Inr row \<Rightarrow> do {
                auditMarkOutcome (ps_audit s) auditID True (Some [(''plan_id'', JUuid (pl_id row))]);
                PS_emitEvent s ''billing.plan.created'' tenantID actorID (pl_id row)
                  (Some [(''slug'', JStr (pl_slug row)), (''name'', JStr (pl_name row)),
                         (''price_cents'', JInt (pl_price row)),
                         (''interval'', JStr (pl_interval row))]);
                ok row } }))"

definition GetPlan :: "ctx \<Rightarrow> uuid \<Rightarrow> plan_row result prog" where
  "GetPlan ctx i = found_or ErrPlanNotFound ''billing.plans.get'' (Plans_Get ctx i)"

definition GetPlanBySlug :: "ctx \<Rightarrow> string \<Rightarrow> plan_row result prog" where
  "GetPlanBySlug ctx slug = found_or ErrPlanNotFound ''billing.plans.by_slug'' (Plans_GetBySlug ctx slug)"

definition CountPlans :: "ctx \<Rightarrow> int result prog" where
  "CountPlans ctx = wrapped ''billing.plans.count'' (Plans_Count ctx)"

definition UpdatePlan ::
  "payments \<Rightarrow> ctx \<Rightarrow> uuid \<Rightarrow> uuid \<Rightarrow> uuid \<Rightarrow> plan_params \<Rightarrow> unit result prog" where
  "UpdatePlan s ctx tenantID actorID planID params =
     (case validate_plan params of
        Inl e \<Rightarrow> fail e
      | Inr _ \<Rightarrow> do {
          auditID \<leftarrow> auditEmit (ps_audit s) ''billing.plan.update'' ''billing_plan'' tenantID actorID
            planID
            (Some [(''name'', JStr (pn_name params)), (''price_cents'', JInt (pn_price params)),
                   (''interval'', JStr (pn_interval params)),
                   (''active'', JBool (pn_active params))]);
          r \<leftarrow> Plans_Update ctx planID
            (params\<lparr>pn_currency := plan_currency (pn_currency params)\<rparr>);
          case r of
            Inl e \<Rightarrow> do {
              auditMarkOutcome (ps_audit s) auditID False (Some [(''error'', JErr e)]);
              fail (Wrap ''billing.plans.update'' e) }
          | Inr _ \<Rightarrow> do {
              auditMarkOutcome (ps_audit s) auditID True None;
              PS_emitEvent s ''billing.plan.updated'' tenantID actorID planID
                (Some [(''name'', JStr (pn_name params)), (''price_cents'', JInt (pn_price params)),
                       (''interval'', JStr (pn_interval params))]);
              ok () } })"

definition DeletePlan :: "payments \<Rightarrow> ctx \<Rightarrow> uuid \<Rightarrow> uuid \<Rightarrow> uuid \<Rightarrow> unit result prog" where
  "DeletePlan s ctx tenantID actorID planID = do {
     auditID \<leftarrow> auditEmit (ps_audit s) ''billing.plan.delete'' ''billing_plan'' tenantID actorID
       planID None;
     r \<leftarrow> Plans_Delete ctx planID;
     case r of
       Inl e \<Rightarrow> do {
         auditMarkOutcome (ps_audit s) auditID False (Some [(''error'', JErr e)]);
         fail (Wrap ''billing.plans.delete'' e) }
     | Inr _ \<Rightarrow> do {
         auditMarkOutcome (ps_audit s) auditID True None;
         ok () } }"

definition plan_meta :: "payments \<Rightarrow> uuid \<Rightarrow> plan_row \<Rightarrow> meta" where
  "plan_meta s t row =
     [(''tenant_id'', JStr (pk_uuid_str (ps_pk s) t)),
      (''plan_id'', JStr (pk_uuid_str (ps_pk s) (pl_id row))), (''slug'', JStr (pl_slug row))]"

definition pushed :: "plan_row \<Rightarrow> bool" where
  "pushed row \<longleftrightarrow> (case pl_price_id row of None \<Rightarrow> False | Some i \<Rightarrow> i \<noteq> '''')"

definition PushPlanToStripe ::
  "payments \<Rightarrow> ctx \<Rightarrow> uuid \<Rightarrow> uuid \<Rightarrow> uuid \<Rightarrow> plan_row result prog" where
  "PushPlanToStripe s ctx tenantID actorID planID = do {
     got \<leftarrow> Plans_Get ctx planID;
     case got of
       Inl e \<Rightarrow> if IsNoRows e then fail (Sentinel ErrPlanNotFound)
                else fail (Wrap ''billing.plans.push: get'' e)
     | Inr row \<Rightarrow>
         if pushed row then ok row
         else do {
           auditID \<leftarrow> auditEmit (ps_audit s) ''billing.plan.update'' ''billing_plan'' tenantID actorID
             planID (Some [(''op'', JStr ''push_to_stripe'')]);
           p \<leftarrow> gw_create_product (ps_gw s)
             \<lparr>qr_name = pl_name row, qr_description = pl_description row,
              qr_meta = plan_meta s tenantID row\<rparr>
             (''prod:'' @ pk_uuid_str (ps_pk s) tenantID @ '':'' @ pl_slug row);
           case p of
             Inl e \<Rightarrow> do {
               auditMarkOutcome (ps_audit s) auditID False (Some [(''error'', JErr e)]);
               fail (Wrap ''billing.plans.push: create product'' e) }
           | Inr prodID \<Rightarrow> do {
               c \<leftarrow> gw_create_price (ps_gw s)
                 \<lparr>xr_currency = ToLower (pl_currency row), xr_amount = pl_price row,
                  xr_product = prodID, xr_interval = planIntervalToStripe (pl_interval row),
                  xr_count = 1, xr_meta = plan_meta s tenantID row\<rparr>
                 (''price:'' @ pk_uuid_str (ps_pk s) tenantID @ '':'' @ pl_slug row);
               case c of
                 Inl e \<Rightarrow> do {
                   auditMarkOutcome (ps_audit s) auditID False (Some [(''error'', JErr e)]);
                   fail (Wrap ''billing.plans.push: create price'' e) }
               | Inr priceID \<Rightarrow> do {
                   u \<leftarrow> Plans_SetStripeIDs ctx planID (Some prodID) (Some priceID);
                   case u of
                     Inl e \<Rightarrow> do {
                       auditMarkOutcome (ps_audit s) auditID False (Some [(''error'', JErr e)]);
                       fail (Wrap ''billing.plans.push: set ids'' e) }
                   | Inr _ \<Rightarrow> do {
                       auditMarkOutcome (ps_audit s) auditID True
                         (Some [(''stripe_product_id'', JStr prodID),
                                (''stripe_price_id'', JStr priceID)]);
                       ok (row\<lparr>pl_product := Some prodID, pl_price_id := Some priceID\<rparr>) } } } } }"

section \<open>Subscriptions\<close>

definition CreateSubscription ::
  "payments \<Rightarrow> ctx \<Rightarrow> uuid \<Rightarrow> uuid \<Rightarrow> string \<Rightarrow> string \<Rightarrow> uuid \<Rightarrow> uuid option \<Rightarrow> sub_row result prog" where
  "CreateSubscription s ctx tenantID userID email displayName planID pmRowID = do {
     got \<leftarrow> Plans_Get ctx planID;
     case got of
       Inl e \<Rightarrow> if IsNoRows e then fail (Sentinel ErrPlanNotFound)
                else fail (Wrap ''billing.subscriptions.create: get plan'' e)
     | Inr plan \<Rightarrow>
         if \<not> pl_active plan then fail (Sentinel ErrPlanNotFound)
         else if \<not> pushed plan then fail (Sentinel ErrPlanNotPushed)
         else do {
           customer \<leftarrow> getOrCreateStripeCustomer s ctx tenantID userID email displayName;
           case customer of
             Inl e \<Rightarrow> fail e
           | Inr customerID \<Rightarrow> do {
               defaultPM \<leftarrow> (case pmRowID of
                   None \<Rightarrow> ret ''''
                 | Some i \<Rightarrow> do {
                     r \<leftarrow> PMs_Get ctx i;
                     ret (case r of
                            Inl _ \<Rightarrow> ''''
                          | Inr pm \<Rightarrow> if pm_user pm = userID \<and> pm_active pm then pm_stripe pm else '''') });
               auditID \<leftarrow> auditEmit (ps_audit s) ''billing.subscription.create''
                 ''billing_subscription'' tenantID userID uuid_nil
                 (Some [(''plan_id'', JUuid (pl_id plan)), (''plan_slug'', JStr (pl_slug plan)),
                        (''price_cents'', JInt (pl_price plan))]);
               r \<leftarrow> gw_create_sub (ps_gw s)
                 \<lparr>ur_customer = customerID,
                  ur_price = (case pl_price_id plan of None \<Rightarrow> '''' | Some x \<Rightarrow> x),
                  ur_default_pm = defaultPM,
                  ur_meta = owner_meta s tenantID userID @
                    [(''plan_id'', JStr (pk_uuid_str (ps_pk s) (pl_id plan)))]\<rparr>
                 (''sub:'' @ pk_uuid_str (ps_pk s) tenantID @ '':'' @ pk_uuid_str (ps_pk s) userID @
                  '':'' @ pk_uuid_str (ps_pk s) (pl_id plan));
               case r of
                 Inl e \<Rightarrow> do {
                   auditMarkOutcome (ps_audit s) auditID False (Some [(''error'', JErr e)]);
                   fail (Wrap ''billing.subscriptions.create: gateway'' e) }
               | Inr (stripeID, periodEnd) \<Rightarrow> do {
                   c \<leftarrow> Subs_Create ctx
                     \<lparr>sq_user = userID, sq_plan = pl_id plan, sq_stripe = stripeID,
                      sq_interval = pl_interval plan, sq_price = pl_price plan,
                      sq_currency = pl_currency plan, sq_quota = pl_quota plan,
                      sq_discount = pl_discount plan, sq_status = ''active'',
                      sq_period_end = Some (unix_time periodEnd),
                      sq_meta = Some [(''stripe_subscription_id'', JStr stripeID)]\<rparr>;
                   case c of
                     Inl e \<Rightarrow> do {
                       auditMarkOutcome (ps_audit s) auditID False (Some [(''error'', JErr e)]);
                       fail (Wrap ''billing.subscriptions.create: cache'' e) }
                   | Inr row \<Rightarrow> do {
                       auditMarkOutcome (ps_audit s) auditID True
                         (Some [(''subscription_id'', JUuid (sb_id row))]);
                       PS_emitEvent s ''billing.subscription.activated'' tenantID userID (sb_id row)
                         (Some [(''plan_slug'', JStr (pl_slug plan)),
                                (''price_cents'', JInt (pl_price plan)),
                                (''included_quota_cents'', JInt (pl_quota plan)),
                                (''interval'', JStr (pl_interval plan))]);
                       ok row } } } } }"

definition ListSubscriptions :: "ctx \<Rightarrow> uuid \<Rightarrow> int \<Rightarrow> int \<Rightarrow> sub_row list result prog" where
  "ListSubscriptions ctx u limit offset =
     wrapped ''billing.subscriptions.list'' (Subs_ListForUser ctx u limit offset)"

definition CountSubscriptions :: "ctx \<Rightarrow> uuid \<Rightarrow> int result prog" where
  "CountSubscriptions ctx u = wrapped ''billing.subscriptions.count'' (Subs_CountForUser ctx u)"

definition CancelSubscription ::
  "payments \<Rightarrow> ctx \<Rightarrow> uuid \<Rightarrow> uuid \<Rightarrow> uuid \<Rightarrow> bool \<Rightarrow> unit result prog" where
  "CancelSubscription s ctx tenantID userID subID cancelAtPeriodEnd = do {
     got \<leftarrow> Subs_Get ctx subID;
     case got of
       Inl e \<Rightarrow> if IsNoRows e then fail (Sentinel ErrSubscriptionNotFound)
                else fail (Wrap ''billing.subscriptions.cancel: get'' e)
     | Inr row \<Rightarrow>
         if sb_user row \<noteq> userID then fail (Sentinel ErrSubscriptionNotFound)
         else do {
           auditID \<leftarrow> auditEmit (ps_audit s) ''billing.subscription.cancel'' ''billing_subscription''
             tenantID userID (sb_id row)
             (Some [(''cancel_at_period_end'', JBool cancelAtPeriodEnd),
                    (''plan_id'', JUuid (sb_plan row))]);
           g \<leftarrow> gw_cancel_sub (ps_gw s) (sb_stripe row) cancelAtPeriodEnd;
           case (case g of Inl e \<Rightarrow> if errors_is e StripeErrNotFound then None else Some e
                         | Inr _ \<Rightarrow> None) of
             Some e \<Rightarrow> do {
               auditMarkOutcome (ps_audit s) auditID False (Some [(''error'', JErr e)]);
               fail (Wrap ''billing.subscriptions.cancel: gateway'' e) }
           | None \<Rightarrow> do {
               now \<leftarrow> time_now;
               u \<leftarrow> Subs_SetStatus ctx subID
                 (if cancelAtPeriodEnd then ''canceled'' else ''expired'') (sb_period_end row)
                 (if cancelAtPeriodEnd then None else Some now);
               case u of
                 Inl e \<Rightarrow> do {
                   auditMarkOutcome (ps_audit s) auditID False (Some [(''error'', JErr e)]);
                   fail (Wrap ''billing.subscriptions.cancel: cache'' e) }
               | Inr _ \<Rightarrow> do {
                   auditMarkOutcome (ps_audit s) auditID True None;
                   PS_emitEvent s ''billing.subscription.canceled'' tenantID userID (sb_id row)
                     (Some [(''cancel_at_period_end'', JBool cancelAtPeriodEnd)]);
                   ok () } } } }"

section \<open>Promo codes\<close>

definition is_promo_char :: "char \<Rightarrow> bool" where
  "is_promo_char c \<longleftrightarrow> is_upper c \<or> is_digit c \<or> c = CHR ''-''"

definition validatePromoCode :: "string \<Rightarrow> unit result" where
  "validatePromoCode code =
     (if code = '''' then Inl (Sentinel ErrInvalidPromoCode)
      else if list_all is_promo_char code then Inr ()
      else Inl (Sentinel ErrInvalidPromoCode))"

definition canonical_code :: "string \<Rightarrow> string" where
  "canonical_code c = ToUpper (TrimSpace c)"

definition CreatePromoCode ::
  "payments \<Rightarrow> ctx \<Rightarrow> uuid \<Rightarrow> uuid \<Rightarrow> promo_params \<Rightarrow> promo_row result prog" where
  "CreatePromoCode s ctx tenantID actorID params =
     (let code = canonical_code (po_code params); currency = plan_currency (po_currency params) in
      case validatePromoCode code of
        Inl e \<Rightarrow> fail e
      | Inr _ \<Rightarrow>
          if po_credit params \<le> 0 then fail (Sentinel ErrInvalidAmount)
          else (case validateCurrency currency of
            Inl e \<Rightarrow> fail e
          | Inr _ \<Rightarrow> do {
              auditID \<leftarrow> auditEmit (ps_audit s) ''billing.promo_code.create'' ''billing_promo_code''
                tenantID actorID uuid_nil
                (Some [(''code'', JStr code), (''credit_cents'', JInt (po_credit params)),
                       (''currency'', JStr currency), (''note'', JStr (po_note params))]);
              r \<leftarrow> Promos_Create ctx
                (params\<lparr>po_code := code, po_currency := currency, po_created_by := actorID\<rparr>);
              case r of
                Inl e \<Rightarrow> do {
                  auditMarkOutcome (ps_audit s) auditID False (Some [(''error'', JErr e)]);
                  fail (Wrap ''billing.promo_codes.create'' e) }
              | Inr row \<Rightarrow> do {
                  auditMarkOutcome (ps_audit s) auditID True
                    (Some [(''promo_code_id'', JUuid (pc_id row))]);
                  ok row } }))"

definition GetPromoCode :: "ctx \<Rightarrow> uuid \<Rightarrow> promo_row result prog" where
  "GetPromoCode ctx i = found_or ErrPromoCodeNotFound ''billing.promo_codes.get'' (Promos_Get ctx i)"

definition ListPromoCodes :: "ctx \<Rightarrow> int \<Rightarrow> int \<Rightarrow> promo_row list result prog" where
  "ListPromoCodes ctx limit offset =
     wrapped ''billing.promo_codes.list'' (Promos_List ctx limit offset)"

definition CountPromoCodes :: "ctx \<Rightarrow> int result prog" where
  "CountPromoCodes ctx = wrapped ''billing.promo_codes.count'' (Promos_Count ctx)"

definition RevokePromoCode :: "payments \<Rightarrow> ctx \<Rightarrow> uuid \<Rightarrow> uuid \<Rightarrow> uuid \<Rightarrow> unit result prog" where
  "RevokePromoCode s ctx tenantID actorID promoID = do {
     auditID \<leftarrow> auditEmit (ps_audit s) ''billing.promo_code.revoke'' ''billing_promo_code'' tenantID
       actorID promoID None;
     r \<leftarrow> Promos_Revoke ctx promoID;
     case r of
       Inl e \<Rightarrow> do {
         auditMarkOutcome (ps_audit s) auditID False (Some [(''error'', JErr e)]);
         fail (Wrap ''billing.promo_codes.revoke'' e) }
     | Inr _ \<Rightarrow> do {
         auditMarkOutcome (ps_audit s) auditID True None;
         ok () } }"

text \<open>The checks of a code that was read, before its counter is increased.\<close>

definition redeemable :: "instant \<Rightarrow> promo_row \<Rightarrow> bool" where
  "redeemable now row \<longleftrightarrow>
     pc_revoked row = None \<and>
     (case pc_expires row of None \<Rightarrow> True | Some e \<Rightarrow> \<not> e < now) \<and>
     (case pc_max_uses row of None \<Rightarrow> True | Some m \<Rightarrow> pc_used row < m)"

definition RedeemPromoCode ::
  "payments \<Rightarrow> ctx \<Rightarrow> uuid \<Rightarrow> uuid \<Rightarrow> string \<Rightarrow> ledger_row result prog" where
  "RedeemPromoCode s ctx tenantID userID rawCode =
     (let code = canonical_code rawCode in
      case validatePromoCode code of
        Inl e \<Rightarrow> fail e
      | Inr _ \<Rightarrow> do {
          got \<leftarrow> Promos_GetByCode ctx code;
          case got of
            Inl e \<Rightarrow> if IsNoRows e then fail (Sentinel ErrPromoCodeNotFound)
                     else fail (Wrap ''billing.promo_codes.redeem: get'' e)
          | Inr row \<Rightarrow> do {
              now \<leftarrow> time_now;
              if \<not> redeemable now row then fail (Sentinel ErrPromoCodeExhausted)
              else do {
                i \<leftarrow> Promos_IncrementUse ctx (pc_id row);
                case i of
                  Inl e \<Rightarrow> if errors_is e DbErrPromoCodeExhausted
                           then fail (Sentinel ErrPromoCodeExhausted)
                           else fail (Wrap ''billing.promo_codes.redeem: increment'' e)
                | Inr _ \<Rightarrow> do {
                    auditID \<leftarrow> auditEmit (ps_audit s) ''billing.promo_code.redeem''
                      ''billing_promo_code'' tenantID userID (pc_id row)
                      (Some [(''code'', JStr code), (''credit_cents'', JInt (pc_credit row)),
                             (''currency'', JStr (pc_currency row))]);
                    r \<leftarrow> Topup (ps_billing s) ctx tenantID userID
                      \<lparr>tp_user = userID, tp_amount = pc_credit row, tp_currency = pc_currency row,
                       tp_reference = ''promo_code:'' @ code\<rparr>;
                    case r of
                      Inl e \<Rightarrow>
                        if errors_is e ErrDuplicateIdempotencyKey
                        then do {
                          auditMarkOutcome (ps_audit s) auditID True
                            (Some [(''deduplicated'', JBool True)]);
                          fail (Sentinel ErrPromoCodeExhausted) }
                        else do {
                          auditMarkOutcome (ps_audit s) auditID False (Some [(''error'', JErr e)]);
                          fail (Wrap ''billing.promo_codes.redeem: topup'' e) }
                    | Inr credit \<Rightarrow> do {
                        auditMarkOutcome (ps_audit s) auditID True
                          (Some [(''ledger_id'', JUuid (le_id credit))]);
                        PS_emitEvent s ''billing.promo_code.redeemed'' tenantID userID (le_id credit)
                          (Some [(''code'', JStr code), (''amount_cents'', JInt (pc_credit row)),
                                 (''ledger_id'', JUuid (le_id credit)),
                                 (''promo_code_id'', JStr (pk_uuid_str (ps_pk s) (pc_id row)))]);
                        ok credit } } } } })"

end
