(* ===== verification/Payments_Inv.thy ===== *)
theory Payments_Inv
  imports Payments Billing_Inv
begin

text \<open>
  Invariants of the payment tables. The locale \<open>payments_invariant\<close> extends the ledger's contract
  by the statements of the plans, payment methods, subscriptions, promo codes and webhook events;
  inside it every operation of the payments service keeps the invariant, under every schedule and
  with every gateway that keeps it. The interpretations are the well-formedness of those tables
  and the frames the properties use.
\<close>

section \<open>The contract\<close>

text \<open>The remote system does not write to the database: its calls keep every invariant of it.\<close>

definition gateway_keeps :: "(db \<Rightarrow> bool) \<Rightarrow> payments \<Rightarrow> bool" where
  "gateway_keeps J s \<longleftrightarrow>
     (\<forall>email. keeps (stable J) (gw_find_customer (ps_gw s) email)) \<and>
     (\<forall>q k. keeps (stable J) (gw_create_customer (ps_gw s) q k)) \<and>
     (\<forall>i. keeps (stable J) (gw_get_pm (ps_gw s) i)) \<and>
     (\<forall>i c. keeps (stable J) (gw_attach (ps_gw s) i c)) \<and>
     (\<forall>i. keeps (stable J) (gw_detach (ps_gw s) i)) \<and>
     (\<forall>q k. keeps (stable J) (gw_create_intent (ps_gw s) q k)) \<and>
     (\<forall>q k. keeps (stable J) (gw_create_product (ps_gw s) q k)) \<and>
     (\<forall>q k. keeps (stable J) (gw_create_price (ps_gw s) q k)) \<and>
     (\<forall>q k. keeps (stable J) (gw_create_sub (ps_gw s) q k)) \<and>
     (\<forall>i b. keeps (stable J) (gw_cancel_sub (ps_gw s) i b)) \<and>
     (\<forall>x. keeps (stable J) (pk_seal (ps_pk s) x))"

lemma gateway_keepsD:
  assumes "gateway_keeps J s"
  shows "keeps (stable J) (gw_find_customer (ps_gw s) email)"
    "keeps (stable J) (gw_create_customer (ps_gw s) cq k)"
    "keeps (stable J) (gw_get_pm (ps_gw s) i)"
    "keeps (stable J) (gw_attach (ps_gw s) i c)"
    "keeps (stable J) (gw_detach (ps_gw s) i)"
    "keeps (stable J) (gw_create_intent (ps_gw s) iq k)"
    "keeps (stable J) (gw_create_product (ps_gw s) pq k)"
    "keeps (stable J) (gw_create_price (ps_gw s) xq k)"
    "keeps (stable J) (gw_create_sub (ps_gw s) sq k)"
    "keeps (stable J) (gw_cancel_sub (ps_gw s) i b)"
    "keeps (stable J) (pk_seal (ps_pk s) x)"
  using assms by (simp_all add: gateway_keeps_def)

locale payments_invariant = ledger_invariant J every for J :: "db \<Rightarrow> bool" +
  assumes plan_insert: "preserved J (sql_create_plan np t)"
    and plan_update: "preserved J (sql_update_plan i np t)"
    and plan_stripe_ids: "preserved J (sql_set_stripe_ids i prod_id price_id t)"
    and plan_delete: "preserved J (sql_delete_plan i t)"
    and pm_insert: "preserved J (sql_create_pm mp t)"
    and pm_clear: "preserved J (sql_clear_default u t)"
    and pm_mark: "preserved J (sql_mark_default i t)"
    and pm_deactivate: "preserved J (sql_deactivate_pm i t)"
    and sub_insert: "preserved J (sql_create_sub up t)"
    and sub_status: "preserved J (sql_set_sub_status i st pe ca t)"
    and promo_insert: "preserved J (sql_create_promo cp t)"
    and promo_use: "preserved J (sql_increment_use i t)"
    and promo_revoke: "preserved J (sql_revoke_promo i t)"
    and webhook_insert: "preserved J (sql_create_webhook hp)"
    and webhook_mark:
      "(\<And>now r. wh_id (f now r) = wh_id r \<and> wh_stripe (f now r) = wh_stripe r) \<Longrightarrow>
         preserved J (sql_mark_webhook f i t)"
begin

lemma keeps_PS_emitEvent: "keeps (stable J) (PS_emitEvent s topic t u r m)"
  unfolding PS_emitEvent_def by (intro keeps_rules)

lemma keeps_plan_calls:
  "keeps (stable J) (Plans_Create ctx np)" "keeps (stable J) (Plans_Get ctx i)"
  "keeps (stable J) (Plans_Update ctx i np)" "keeps (stable J) (Plans_SetStripeIDs ctx i a b)"
  "keeps (stable J) (Plans_Delete ctx i)"
  unfolding Plans_Create_def Plans_Get_def Plans_Update_def Plans_SetStripeIDs_def Plans_Delete_def
  by (intro keeps_rules plan_insert plan_update plan_stripe_ids plan_delete)+

lemma keeps_pm_calls:
  "keeps (stable J) (PMs_Create ctx mp)" "keeps (stable J) (PMs_Get ctx i)"
  "keeps (stable J) (PMs_ListForUser ctx u lim off)"
  "keeps (stable J) (PMs_ListByFingerprint ctx u fp)" "keeps (stable J) (PMs_SetDefault ctx u i)"
  "keeps (stable J) (PMs_Deactivate ctx i)"
  unfolding PMs_Create_def PMs_Get_def PMs_ListForUser_def PMs_ListByFingerprint_def
    PMs_SetDefault_def PMs_Deactivate_def
  by (intro keeps_rules pm_insert pm_clear pm_mark pm_deactivate)+

lemma keeps_sub_calls:
  "keeps (stable J) (Subs_Create ctx up)" "keeps (stable J) (Subs_Get ctx i)"
  "keeps (stable J) (Subs_GetByStripeID ctx x)" "keeps (stable J) (Subs_SetStatus ctx i st pe ca)"
  unfolding Subs_Create_def Subs_Get_def Subs_GetByStripeID_def Subs_SetStatus_def
  by (intro keeps_rules sub_insert sub_status)+

lemma keeps_promo_calls:
  "keeps (stable J) (Promos_Create ctx cp)" "keeps (stable J) (Promos_GetByCode ctx c)"
  "keeps (stable J) (Promos_IncrementUse ctx i)" "keeps (stable J) (Promos_Revoke ctx i)"
  unfolding Promos_Create_def Promos_GetByCode_def Promos_IncrementUse_def Promos_Revoke_def
  by (intro keeps_rules promo_insert promo_use promo_revoke)+

lemma keeps_webhook_calls:
  "keeps (stable J) (Webhooks_Create hp)" "keeps (stable J) (Webhooks_GetByStripeID x)"
  "keeps (stable J) (Webhooks_MarkApplied ctx i ids)" "keeps (stable J) (Webhooks_MarkFailed ctx i e)"
  unfolding Webhooks_Create_def Webhooks_GetByStripeID_def Webhooks_MarkApplied_def
    Webhooks_MarkFailed_def
  by (intro keeps_rules webhook_insert webhook_mark; simp)+

lemmas keeps_calls =
  keeps_PS_emitEvent keeps_plan_calls keeps_pm_calls keeps_sub_calls keeps_promo_calls
  keeps_webhook_calls keeps_auditEmit keeps_auditMarkOutcome

lemma keeps_customer:
  assumes "gateway_keeps J s"
  shows "keeps (stable J) (getOrCreateStripeCustomer s ctx t u email name)"
  unfolding getOrCreateStripeCustomer_def find_or_create_customer_def
  by (intro keeps_rules keeps_calls gateway_keepsD [OF assms])

lemma keeps_payment_methods:
  assumes "gateway_keeps J s"
  shows "keeps (stable J) (AddPaymentMethod s ctx t u email name pm def)"
    and "keeps (stable J) (RemovePaymentMethod s ctx t u i)"
    and "keeps (stable J) (CreateTopupIntent s ctx t u email name amount cur)"
  unfolding AddPaymentMethod_def RemovePaymentMethod_def CreateTopupIntent_def
  by (intro keeps_rules keeps_calls keeps_customer [OF assms] gateway_keepsD [OF assms])+

lemma keeps_dispatch: "keeps (stable J) (dispatchEvent s ctx ev)"
  unfolding dispatchEvent_def onPaymentIntentSucceeded_def onDisputeCreated_def onDisputeClosed_def
    onSubscriptionUpdated_def onSubscriptionDeleted_def onInvoicePaid_def
  by (intro keeps_rules keeps_calls keeps_Topup TrueI)

lemma keeps_HandleWebhook: "keeps (stable J) (HandleWebhook s ctx header body)"
  unfolding HandleWebhook_def by (intro keeps_rules keeps_calls keeps_dispatch)

lemma keeps_plans:
  shows "keeps (stable J) (CreatePlan s ctx t a np)"
    and "keeps (stable J) (UpdatePlan s ctx t a i np)"
    and "keeps (stable J) (DeletePlan s ctx t a i)"
  unfolding CreatePlan_def UpdatePlan_def DeletePlan_def by (intro keeps_rules keeps_calls)+

lemma keeps_push:
  assumes "gateway_keeps J s"
  shows "keeps (stable J) (PushPlanToStripe s ctx t a i)"
  unfolding PushPlanToStripe_def by (intro keeps_rules keeps_calls gateway_keepsD [OF assms])

lemma keeps_subscriptions:
  assumes "gateway_keeps J s"
  shows "keeps (stable J) (CreateSubscription s ctx t u email name p pm)"
    and "keeps (stable J) (CancelSubscription s ctx t u i at_end)"
  unfolding CreateSubscription_def CancelSubscription_def
  by (intro keeps_rules keeps_calls keeps_customer [OF assms] gateway_keepsD [OF assms])+

lemma keeps_promos:
  shows "keeps (stable J) (CreatePromoCode s ctx t a cp)"
    and "keeps (stable J) (RevokePromoCode s ctx t a i)"
    and "keeps (stable J) (RedeemPromoCode s ctx t u code)"
  unfolding CreatePromoCode_def RevokePromoCode_def RedeemPromoCode_def
  by (intro keeps_rules keeps_calls keeps_Topup TrueI)+

end

section \<open>The invariants of the payment tables\<close>

text \<open>
  Payment methods: identifiers and Stripe ids are unique, and a user has at most one default.
\<close>

definition pms_ok :: "db \<Rightarrow> bool" where
  "pms_ok d \<longleftrightarrow>
     (\<forall>r \<in> set (pms d). pm_id r < db_next d) \<and>
     distinct (map pm_id (pms d)) \<and> distinct (map pm_stripe (pms d)) \<and>
     distinct (map (\<lambda>r. (pm_tenant r, pm_user r)) (filter pm_default (pms d)))"

text \<open>
  Promo codes: identifiers are unique, a code is unique in its tenant, gives a positive credit, and is never counted as
  used more often than its limit allows.
\<close>

definition promo_row_ok :: "promo_row \<Rightarrow> bool" where
  "promo_row_ok r \<longleftrightarrow>
     0 < pc_credit r \<and> 0 \<le> pc_used r \<and>
     (case pc_max_uses r of None \<Rightarrow> True | Some m \<Rightarrow> pc_used r = 0 \<or> pc_used r \<le> m)"

definition promos_ok :: "db \<Rightarrow> bool" where
  "promos_ok d \<longleftrightarrow>
     (\<forall>r \<in> set (promos d). promo_row_ok r \<and> pc_id r < db_next d) \<and>
     distinct (map pc_id (promos d)) \<and>
     distinct (map (\<lambda>r. (pc_tenant r, pc_code r)) (promos d))"

text \<open>Every subscription refers to a plan that exists; Stripe's ids are not recorded twice.\<close>

definition subs_ok :: "db \<Rightarrow> bool" where
  "subs_ok d \<longleftrightarrow>
     (\<forall>r \<in> set (subs d). sb_plan r \<in> pl_id ` set (plans d)) \<and> distinct (map sb_stripe (subs d))"

definition webhooks_ok :: "db \<Rightarrow> bool" where
  "webhooks_ok d \<longleftrightarrow>
     (\<forall>r \<in> set (webhooks d). wh_id r < db_next d) \<and>
     distinct (map wh_id (webhooks d)) \<and> distinct (map wh_stripe (webhooks d))"

lemmas payment_sql_defs =
  sql_create_plan_def sql_update_plan_def sql_set_stripe_ids_def sql_delete_plan_def
  sql_create_pm_def sql_clear_default_def sql_mark_default_def sql_deactivate_pm_def
  sql_create_sub_def sql_set_sub_status_def sql_create_promo_def sql_increment_use_def
  sql_revoke_promo_def sql_create_webhook_def sql_mark_webhook_def

lemma map_update [simp]:
  "(\<And>r. g (f r) = g r) \<Longrightarrow> map g (sql_update P f rows) = map g rows"
  by (simp add: sql_update_def)

lemma image_update: "(\<And>r. g (f r) = g r) \<Longrightarrow> g ` set (sql_update P f rows) = g ` set rows"
  by (induction rows) (auto simp: sql_update_def)

lemma in_update: "r \<in> set (sql_update P f rows) \<Longrightarrow>
    (r \<in> set rows \<and> \<not> P r) \<or> (\<exists>q \<in> set rows. P q \<and> r = f q)"
  by (auto simp: sql_update_def split: if_splits)

lemma filter_update_drop:
  "(\<And>r. \<not> Q (f r)) \<Longrightarrow> filter Q (sql_update P f rows) = filter (\<lambda>r. Q r \<and> \<not> P r) rows"
  by (induction rows) (auto simp: sql_update_def)

lemma update_rows:
  "\<forall>r \<in> set rows. Q r \<Longrightarrow> (\<And>r. Q r \<Longrightarrow> P r \<Longrightarrow> Q (f r)) \<Longrightarrow> \<forall>r \<in> set (sql_update P f rows). Q r"
  by (auto dest!: in_update)

lemma pms_ok_clear: "pms_ok d \<Longrightarrow> pms_ok (snd (sql_clear_default u t d))"
  by (auto simp: pms_ok_def sql_clear_default_def filter_update_drop dest!: in_update
      intro: distinct_map_filter_mono)

lemma pms_ok_deactivate: "pms_ok d \<Longrightarrow> pms_ok (snd (sql_deactivate_pm i t d))"
  by (auto simp: pms_ok_def sql_deactivate_pm_def filter_update_drop dest!: in_update
      intro: distinct_map_filter_mono)

lemma pms_ok_insert: "pms_ok d \<Longrightarrow> pms_ok (snd (sql_create_pm p t d))"
  by (force simp: pms_ok_def sql_create_pm_def Let_def list_ex_iff pm_conflict_def less_Suc_eq)

text \<open>Marking a default when the user has no other default.\<close>

lemma distinct_mark_default:
  assumes "distinct (map pm_id rows)"
    "distinct (map (\<lambda>r. (pm_tenant r, pm_user r)) (filter pm_default rows))"
    "\<And>r q. r \<in> set rows \<Longrightarrow> pm_tenant r = t \<Longrightarrow> pm_id r = i \<Longrightarrow> q \<in> set rows \<Longrightarrow> pm_id q \<noteq> i \<Longrightarrow>
       pm_tenant q = t \<Longrightarrow> pm_user q = pm_user r \<Longrightarrow> \<not> pm_default q"
  shows "distinct (map (\<lambda>r. (pm_tenant r, pm_user r))
    (filter pm_default (sql_update (\<lambda>r. pm_tenant r = t \<and> pm_id r = i)
       (\<lambda>r. r\<lparr>pm_default := True\<rparr>) rows)))"
  using assms
proof (induction rows)
  case (Cons x xs)
  let ?f = "sql_update (\<lambda>r. pm_tenant r = t \<and> pm_id r = i) (\<lambda>r. r\<lparr>pm_default := True\<rparr>)"
  have IH: "distinct (map (\<lambda>r. (pm_tenant r, pm_user r)) (filter pm_default (?f xs)))"
    using Cons.prems(1,2) by (intro Cons.IH Cons.prems(3)) (auto split: if_splits)
  have fx: "?f (x # xs) = (if pm_tenant x = t \<and> pm_id x = i then x\<lparr>pm_default := True\<rparr> else x) # ?f xs"
    by (simp add: sql_update_def)
  have no: "(pm_tenant x, pm_user x) \<noteq> (pm_tenant q, pm_user q)"
    if q: "q \<in> set (?f xs)" "pm_default q" and x: "pm_default x \<or> pm_tenant x = t \<and> pm_id x = i" for q
  proof (cases "pm_tenant x = t \<and> pm_id x = i")
    case True
    have "pm_id ` set (?f xs) = pm_id ` set xs"
      by (rule image_update) simp
    then have "pm_id q \<in> pm_id ` set xs" using imageI [OF q(1), of pm_id] by simp
    then have "pm_id q \<noteq> i" using Cons.prems(1) True by auto
    then have "q \<in> set xs" using in_update [OF q(1)] by auto
    then show ?thesis using Cons.prems(3) [of x q] True \<open>pm_id q \<noteq> i\<close> q(2) by auto
  next
    case False
    then have dx: "pm_default x" using x by blast
    from in_update [OF q(1)] show ?thesis
    proof
      assume "q \<in> set xs \<and> \<not> (pm_tenant q = t \<and> pm_id q = i)"
      then show ?thesis using Cons.prems(2) dx q(2) by force
    next
      assume "\<exists>p \<in> set xs. (pm_tenant p = t \<and> pm_id p = i) \<and> q = p\<lparr>pm_default := True\<rparr>"
      then obtain p where p: "p \<in> set xs" "pm_tenant p = t" "pm_id p = i" "q = p\<lparr>pm_default := True\<rparr>"
        by blast
      then show ?thesis using Cons.prems(3) [of p x] False dx by auto
    qed
  qed
  show ?case using IH no by (auto simp: fx)
qed (simp add: sql_update_def)

lemma pms_ok_mark: "pms_ok d \<Longrightarrow> pms_ok (snd (sql_mark_default i t d))"
proof -
  assume ok: "pms_ok d"
  let ?hit = "\<lambda>r. pm_tenant r = t \<and> pm_id r = i"
  show ?thesis
  proof (cases "list_ex (\<lambda>r. ?hit r \<and> list_ex (\<lambda>q. pm_id q \<noteq> i \<and> pm_tenant q = t \<and>
      pm_user q = pm_user r \<and> pm_default q) (pms d)) (pms d)")
    case False
    then have "distinct (map (\<lambda>r. (pm_tenant r, pm_user r))
        (filter pm_default (sql_update ?hit (\<lambda>r. r\<lparr>pm_default := True\<rparr>) (pms d))))"
      using ok by (intro distinct_mark_default) (auto simp: pms_ok_def list_ex_iff)
    then show ?thesis using ok False
      by (auto simp: sql_mark_default_def pms_ok_def dest!: in_update)
  qed (simp add: sql_mark_default_def ok)
qed

interpretation pms_inv: payments_invariant pms_ok
  by unfold_locales
    (auto simp: preserved_def pms_ok_clear pms_ok_deactivate pms_ok_insert pms_ok_mark,
     auto simp: sql_defs payment_sql_defs pms_ok_def ignores_audit_def Let_def less_Suc_eq)

lemma promo_row_ok_simps [simp]:
  "promo_row_ok (r\<lparr>pc_revoked := x\<rparr>) = promo_row_ok r" "promo_row_ok (r\<lparr>pc_plan := y\<rparr>) = promo_row_ok r"
  by (simp_all add: promo_row_ok_def split: option.splits)

lemma promo_row_ok_used:
  "promo_row_ok r \<Longrightarrow> promo_usable r \<Longrightarrow> promo_row_ok (r\<lparr>pc_used := pc_used r + 1\<rparr>)"
  by (auto simp: promo_row_ok_def promo_usable_def split: option.splits)

lemma promos_ok_use: "promos_ok d \<Longrightarrow> promos_ok (snd (sql_increment_use i t d))"
  by (auto simp: promos_ok_def sql_increment_use_def Let_def promo_row_ok_used dest!: in_update)

lemma promos_ok_insert: "promos_ok d \<Longrightarrow> promos_ok (snd (sql_create_promo p t d))"
  by (auto simp: promos_ok_def sql_create_promo_def promo_row_ok_def Let_def list_ex_iff image_iff
      split: option.splits)

interpretation promos_inv: payments_invariant promos_ok
proof unfold_locales
  fix i t
  show "preserved promos_ok (sql_revoke_promo i t)" "preserved promos_ok (sql_delete_plan i t)"
    by (auto simp: preserved_def sql_revoke_promo_def sql_delete_plan_def promos_ok_def
        dest!: in_update)
qed (auto simp: preserved_def promos_ok_use promos_ok_insert,
  auto simp: sql_defs payment_sql_defs promos_ok_def ignores_audit_def Let_def less_Suc_eq)

lemma subs_ok_delete_plan: "subs_ok d \<Longrightarrow> subs_ok (snd (sql_delete_plan i t d))"
  by (force simp: subs_ok_def sql_delete_plan_def list_ex_iff is_plan_def)

lemma subs_ok_update_plan: "subs_ok d \<Longrightarrow> subs_ok (snd (sql_update_plan i p t d))"
  by (simp add: subs_ok_def sql_update_plan_def image_update)

lemma subs_ok_insert: "subs_ok d \<Longrightarrow> subs_ok (snd (sql_create_sub p t d))"
  by (auto simp: subs_ok_def sql_create_sub_def Let_def list_ex_iff) force

lemma subs_ok_insert_plan: "subs_ok d \<Longrightarrow> subs_ok (snd (sql_create_plan p t d))"
  by (auto simp: subs_ok_def sql_create_plan_def Let_def)

interpretation subs_inv: payments_invariant subs_ok
proof unfold_locales
  fix i st pe ca t
  show "preserved subs_ok (sql_set_sub_status i st pe ca t)"
    by (auto simp: preserved_def sql_set_sub_status_def subs_ok_def dest!: in_update)
next
  fix i t a b
  show "preserved subs_ok (sql_set_stripe_ids i a b t)"
    by (simp add: preserved_def sql_set_stripe_ids_def subs_ok_def image_update)
qed (auto simp: preserved_def subs_ok_delete_plan subs_ok_update_plan subs_ok_insert
    subs_ok_insert_plan,
  auto simp: sql_defs payment_sql_defs subs_ok_def ignores_audit_def Let_def)

lemma webhooks_ok_mark:
  assumes "\<And>now r. wh_id (f now r) = wh_id r \<and> wh_stripe (f now r) = wh_stripe r"
  shows "webhooks_ok d \<Longrightarrow> webhooks_ok (snd (sql_mark_webhook f i t d))"
  using assms by (auto simp: webhooks_ok_def sql_mark_webhook_def dest!: in_update)

interpretation webhooks_inv: payments_invariant webhooks_ok
  by unfold_locales
    (auto simp: preserved_def webhooks_ok_mark,
     auto simp: sql_defs payment_sql_defs webhooks_ok_def ignores_audit_def Let_def less_Suc_eq
       list_ex_iff image_iff)

interpretation ledger_pay: payments_invariant ledger_ok
  by unfold_locales
    (auto simp: preserved_def payment_sql_defs ledger_ok_def Let_def less_Suc_eq)

interpretation balances_pay: payments_invariant balances_ok
  by unfold_locales (auto simp: preserved_def payment_sql_defs balances_ok_def Let_def)

interpretation append_pay: payments_invariant "ledger_extends rows"
  by unfold_locales (auto simp: preserved_def payment_sql_defs ledger_extends_def Let_def)

text \<open>Posting to the ledger does not touch the payment tables.\<close>

definition pay_tables ::
  "db \<Rightarrow> plan_row list \<times> pm_row list \<times> sub_row list \<times> promo_row list \<times> webhook_row list" where
  "pay_tables d = (plans d, pms d, subs d, promos d, webhooks d)"

interpretation fixed_pay: ledger_invariant "\<lambda>d. pay_tables d = x" every
  by unfold_locales
    (auto simp: preserved_def sql_defs ignores_audit_def Let_def pay_tables_def)

lemma pay_tables_eq:
  assumes "keeps (stable (\<lambda>d. pay_tables d = pay_tables (wdb w))) m" "sched w = []"
    "run_state m w = (r, w')"
  shows "plans (wdb w') = plans (wdb w)" "pms (wdb w') = pms (wdb w)" "subs (wdb w') = subs (wdb w)"
    "promos (wdb w') = promos (wdb w)" "webhooks (wdb w') = webhooks (wdb w)"
  using keeps_runD [OF assms(1) stable_quietI [OF refl assms(2)] assms(3)]
  by (simp_all add: stable_def pay_tables_def)

end
