(* ===== verification/StripeHook_Claims.thy ===== *)
theory StripeHook_Claims
  imports StripeHook
begin

text \<open>Properties of the webhook signature check.\<close>

section \<open>Numbers and hexadecimal text\<close>

definition plain_char :: "char \<Rightarrow> bool" where
  "plain_char c \<longleftrightarrow> \<not> is_space c \<and> c \<noteq> CHR '','' \<and> c \<noteq> CHR ''=''"

lemma plain_code:
  assumes "48 \<le> (of_char c :: nat)" "(of_char c :: nat) \<noteq> 61" "(of_char c :: nat) < 127"
  shows "plain_char c"
proof -
  have "(of_char (CHR '','') :: nat) = 44" "(of_char (CHR ''='') :: nat) = 61" by simp_all
  then have "c \<noteq> CHR '',''" "c \<noteq> CHR ''=''" using assms by auto
  then show ?thesis using assms by (auto simp: plain_char_def is_space_def)
qed

lemma plain_hex_digit: "n < 16 \<Longrightarrow> plain_char (hex_digit n)"
  by (rule plain_code) (auto simp: hex_digit_def of_char_of)

lemma plain_hex_encode: "list_all plain_char (hex_encode s)"
  by (induction s) (simp_all add: hex_encode_def plain_hex_digit nibble)

lemma plain_digit: "is_digit c \<Longrightarrow> plain_char c"
  by (auto simp: is_digit_def plain_char_def is_space_def)

lemma plain_nat_digits: "list_all plain_char (nat_digits n)"
  using nat_digits_digits [of n] by (simp add: list_all_iff plain_digit)

section \<open>The header\<close>

lemma dropWhile_plain: "list_all plain_char s \<Longrightarrow> dropWhile is_space (rev s) = rev s"
  by (cases "rev s") (auto simp: list_all_iff plain_char_def dropWhile_eq_self_iff)

lemma TrimSpace_plain: "list_all plain_char s \<Longrightarrow> TrimSpace s = s"
  using dropWhile_plain [of "rev s"] dropWhile_plain [of s]
  by (simp add: TrimSpace_def list_all_rev)

lemma cut_key: "CHR ''='' \<notin> set k \<Longrightarrow> cut (CHR ''='') (k @ CHR ''='' # v) = Some (k, v)"
  by (induction k) (auto simp: cut_def)

lemma TrimSpace_keyed:
  assumes "list_all plain_char v" "list_all plain_char k" "k \<noteq> []"
  shows "TrimSpace (k @ CHR ''='' # v) = k @ CHR ''='' # v"
proof -
  have "\<not> is_space (hd k)" using assms by (cases k) (simp_all add: plain_char_def)
  then have 1: "dropWhile is_space (k @ CHR ''='' # v) = k @ CHR ''='' # v"
    using assms(3) by (cases k) simp_all
  have "\<not> is_space (hd (rev v @ [CHR ''='']))"
  proof (cases "rev v")
    case Nil
    then show ?thesis by (simp add: is_space_def)
  next
    case (Cons a as)
    then have "plain_char a" using list_all_rev [of plain_char v] assms(1) by simp
    then show ?thesis using Cons by (simp add: plain_char_def)
  qed
  then have 2: "dropWhile is_space (rev v @ CHR ''='' # rev k) = rev v @ CHR ''='' # rev k"
    by (cases "rev v") simp_all
  show ?thesis by (simp add: TrimSpace_def 1 2)
qed

definition signature_header :: "int \<Rightarrow> string \<Rightarrow> string" where
  "signature_header ts m = ''t='' @ fmt_d ts @ '',v1='' @ hex_encode m"

lemma parse_signature_header:
  assumes "0 < ts" "ts \<le> int64_max"
  shows "parseSignatureHeader (signature_header ts m) = Inr (ts, [hex_encode m])"
proof -
  let ?d = "nat_digits (nat ts)" and ?h = "hex_encode m"
  have fmt: "fmt_d ts = ?d" using assms(1) by (simp add: fmt_d_def)
  have pd: "list_all plain_char ?d" and ph: "list_all plain_char ?h"
    by (rule plain_nat_digits, rule plain_hex_encode)
  have noc: "CHR '','' \<notin> set (''t='' @ ?d)" "CHR '','' \<notin> set (''v1='' @ ?h)"
    using pd ph by (auto simp: list_all_iff plain_char_def)
  have "split_on (CHR '','') (''t='' @ ?d @ CHR '','' # (''v1='' @ ?h)) = [''t='' @ ?d, ''v1='' @ ?h]"
    using split_on_append [OF noc(1)] split_on_none [OF noc(2)] by simp
  moreover have "scan_header [''t='' @ ?d, ''v1='' @ ?h] 0 [] = Inr (ts, [?h])"
  proof -
    have kt: "TrimSpace (''t='' @ ?d) = ''t='' @ ?d" "TrimSpace (''v1='' @ ?h) = ''v1='' @ ?h"
      using TrimSpace_keyed [OF pd, of "''t''"] TrimSpace_keyed [OF ph, of "''v1''"]
      by (simp_all add: plain_char_def is_space_def)
    have ct: "cut (CHR ''='') (''t='' @ ?d) = Some (''t'', ?d)"
      "cut (CHR ''='') (''v1='' @ ?h) = Some (''v1'', ?h)"
      using cut_key [of "''t''" ?d] cut_key [of "''v1''" ?h] by simp_all
    have tk: "TrimSpace ''t'' = ''t''" "TrimSpace ''v1'' = ''v1''" by code_simp+
    show ?thesis
      using kt ct tk TrimSpace_plain [OF pd] TrimSpace_plain [OF ph] ParseInt_fmt_d [of ts] assms
      by (simp add: fmt)
  qed
  ultimately show ?thesis
    using assms(1) by (simp add: signature_header_def parseSignatureHeader_def fmt)
qed

section \<open>Verification\<close>

text \<open>
  C33. A webhook is accepted only when it is signed: if verification answers an event, the secret
  is set, the header carries a timestamp within the tolerance of the clock and a signature that
  is the MAC, under the secret, of that timestamp and this very body, and the event is what the
  body decodes to.
\<close>

theorem VerifyWebhook_sound:
  assumes "VerifyWebhook mac parse_json secret header body now tol = Inr ev"
  shows "secret \<noteq> '''' \<and> length body \<le> 1048576 \<and>
    (\<exists>ts sigs. parseSignatureHeader header = Inr (ts, sigs) \<and>
       (\<exists>sig \<in> set sigs. hex_decode sig = Some (mac secret (fmt_d ts @ ''.'' @ body))) \<and>
       \<bar>sat64 (now - unix_time ts)\<bar> \<le> (if tol \<le> 0 then 300 * 1000000000 else tol)) \<and>
    (\<exists>j. parse_json body = Some j \<and> decode_event j = Inr ev)"
  using assms
  by (auto simp: VerifyWebhook_def Let_def MaxWebhookBodyBytes_def DefaultWebhookTolerance_def
      signed_payload_def list_ex_iff split: if_splits sum.splits option.splits)

definition demo_mac :: "string \<Rightarrow> string \<Rightarrow> string" where
  "demo_mac k m = k @ m"

definition demo_parse :: "string \<Rightarrow> json option" where
  "demo_parse s = (if s = ''{}'' then Some (Obj [(''id'', Text ''evt_1''), (''type'', Text ''ping'')]) else None)"

lemma demo_event:
  "decode_event (Obj [(''id'', Text ''evt_1''), (''type'', Text ''ping'')]) =
     Inr \<lparr>se_id = ''evt_1'', se_type = ''ping'', se_api = '''', se_object = None\<rparr>"
  by code_simp

lemma signed_accepted:
  assumes "secret \<noteq> ''''" "length body \<le> 1048576" "body \<noteq> ''''" "0 < ts" "ts \<le> int64_max"
    "\<bar>sat64 (now - unix_time ts)\<bar> \<le> (if tol \<le> 0 then DefaultWebhookTolerance else tol)"
    "parse_json body = Some j" "decode_event j = Inr ev"
  shows "VerifyWebhook mac parse_json secret
    (signature_header ts (mac secret (fmt_d ts @ ''.'' @ body))) body now tol = Inr ev"
proof -
  let ?tol = "if tol \<le> 0 then DefaultWebhookTolerance else tol"
  have "\<not> ?tol < sat64 (now - unix_time ts)" "\<not> sat64 (now - unix_time ts) < - ?tol"
    using assms(6) by linarith+
  then show ?thesis using assms
    by (simp add: VerifyWebhook_def parse_signature_header hex_roundtrip signed_payload_def Let_def
        MaxWebhookBodyBytes_def)
qed

text \<open>
  C34. A delivery that is signed the documented way is accepted: a header with the timestamp and
  the hexadecimal MAC of timestamp and body passes, whatever the MAC is, when the timestamp is
  within the tolerance (five minutes when none is given) and the body decodes.
\<close>

theorem VerifyWebhook_complete:
  assumes "secret \<noteq> ''''" "length body \<le> 1048576" "body \<noteq> ''''" "0 < ts" "ts \<le> int64_max"
    "\<bar>sat64 (now - unix_time ts)\<bar> \<le> (if tol \<le> 0 then 300 * 1000000000 else tol)"
    "parse_json body = Some j" "decode_event j = Inr ev"
  shows "VerifyWebhook mac parse_json secret
    (signature_header ts (mac secret (fmt_d ts @ ''.'' @ body))) body now tol = Inr ev"
proof (rule signed_accepted)
  show "\<bar>sat64 (now - unix_time ts)\<bar> \<le> (if tol \<le> 0 then DefaultWebhookTolerance else tol)"
    using assms(6) by (simp add: DefaultWebhookTolerance_def split: if_splits)
qed (use assms in simp_all)

lemma unix_time_100: "unix_time 100 = 100 * 1000000000"
  by code_simp

lemma VerifyWebhook_complete_witness:
  "VerifyWebhook demo_mac demo_parse ''s'' (signature_header 100 (demo_mac ''s'' (fmt_d 100 @ ''.'' @ ''{}'')))
     ''{}'' (101 * 1000000000) (5 * 1000000000) =
   Inr \<lparr>se_id = ''evt_1'', se_type = ''ping'', se_api = '''', se_object = None\<rparr>"
  by (rule VerifyWebhook_complete [where j = "Obj [(''id'', Text ''evt_1''), (''type'', Text ''ping'')]"])
    (simp_all add: demo_parse_def demo_event unix_time_100 sat64_def int64_min_def int64_max_def)

lemma VerifyWebhook_sound_witness:
  "\<exists>ts sigs. parseSignatureHeader (signature_header 100 (demo_mac ''s'' (fmt_d 100 @ ''.'' @ ''{}''))) =
     Inr (ts, sigs)"
proof -
  have "VerifyWebhook demo_mac demo_parse ''s''
      (signature_header 100 (demo_mac ''s'' (fmt_d 100 @ ''.'' @ ''{}'')))
      ''{}'' (101 * 1000000000) (5 * 1000000000) =
     Inr \<lparr>se_id = ''evt_1'', se_type = ''ping'', se_api = '''', se_object = None\<rparr>"
    by (simp add: VerifyWebhook_def parse_signature_header hex_roundtrip signed_payload_def Let_def
        MaxWebhookBodyBytes_def demo_parse_def demo_event unix_time_100 sat64_def int64_min_def
        int64_max_def)
  from VerifyWebhook_sound [OF this] show ?thesis by blast
qed

lemma scan_header_errors:
  "scan_header raws ts sigs = Inl e \<Longrightarrow> errors_is e StripeErrInvalidSignature"
  by (induction raws ts sigs rule: scan_header.induct)
    (auto simp: bad_header_def split: option.splits if_splits)

text \<open>
  Every refusal is the invalid-signature error, also that of a correctly signed body that
  does not decode.
\<close>

theorem VerifyWebhook_errors:
  assumes "VerifyWebhook mac parse_json secret header body now tol = Inl e"
  shows "errors_is e StripeErrInvalidSignature"
  using assms
  by (auto simp: VerifyWebhook_def parseSignatureHeader_def Let_def bad_header_def
      dest: scan_header_errors split: if_splits sum.splits option.splits)

lemma VerifyWebhook_errors_witness:
  "\<exists>e. VerifyWebhook demo_mac demo_parse ''s''
     (signature_header 100 (demo_mac ''s'' (fmt_d 100 @ ''.'' @ ''x''))) ''x''
     (101 * 1000000000) 0 = Inl e \<and> errors_is e StripeErrInvalidSignature"
proof -
  have "VerifyWebhook demo_mac demo_parse ''s''
     (signature_header 100 (demo_mac ''s'' (fmt_d 100 @ ''.'' @ ''x''))) ''x''
     (101 * 1000000000) 0 = Inl (bad_header ''decode payload'')"
    by (simp add: VerifyWebhook_def parse_signature_header hex_roundtrip signed_payload_def Let_def
        MaxWebhookBodyBytes_def DefaultWebhookTolerance_def demo_parse_def unix_time_100 sat64_def
        int64_min_def int64_max_def)
  with VerifyWebhook_errors [OF this] show ?thesis by blast
qed

end
