(* ===== verification/Payments_Claims.thy ===== *)
theory Payments_Claims
  imports Billing_Claims Payments_Inv StripeHook_Claims
begin

text \<open>
  The properties of the payments service: what a Stripe event does to the ledger and how often,
  what a promo code gives, and what happens to plans, subscriptions and payment methods.
\<close>

section \<open>Evaluation\<close>

lemma run_PS_emitEvent [simp]:
  "run_state (PS_emitEvent s topic t u r m) w =
     ((), if ps_bus s then w\<lparr>events := events w @
        [\<lparr>ev_topic = topic, ev_tenant = t,
          ev_actor_type = (if u \<noteq> uuid_nil then ''user'' else ''system''),
          ev_actor = u, ev_resource = r, ev_meta = m, ev_at = db_now (wdb w)\<rparr>]\<rparr> else w)"
  by (simp add: PS_emitEvent_def)

lemma pay_frame_simps [simp]:
  "cached t u (d\<lparr>webhooks := x1\<rparr>) = cached t u d" "cached t u (d\<lparr>promos := x2\<rparr>) = cached t u d"
  "fk_ok t u (d\<lparr>webhooks := x1\<rparr>) = fk_ok t u d" "fk_ok t u (d\<lparr>promos := x2\<rparr>) = fk_ok t u d"
  by (simp_all add: cached_def fk_ok_def)

lemma posted_frame [simp]:
  "posted t row (d\<lparr>webhooks := x\<rparr>) d' = posted t row d d'"
  "posted t row d (d'\<lparr>webhooks := x\<rparr>) = posted t row d d'"
  "posted t row (d\<lparr>promos := y\<rparr>) d' = posted t row d d'"
  "posted t row (d\<lparr>db_next := n\<rparr>) d' = posted t row d d'"
  by (simp_all add: posted_def)

text \<open>A top-up in the payments service: what it posts, and that it leaves the payment tables alone.\<close>

lemma run_pay_Topup:
  assumes "sched w = []" "tp_user p \<noteq> uuid_nil" "0 < tp_amount p" "currency_ok s (tp_currency p)"
    "fk_ok t (tp_user p) (wdb w)"
    "in_int64 (balance_of t (tp_user p) (ledger (wdb w)) + tp_amount p)"
  obtains row w' where "run_state (Topup s (Some t) t actor p) w = (Inr row, w')" "sched w' = []"
    "posted t row (wdb w) (wdb w')" "le_user row = tp_user p" "le_amount row = tp_amount p"
    "le_type row = ''credit''" "pay_tables (wdb w') = pay_tables (wdb w)"
proof -
  obtain row w' where r: "run_state (Topup s (Some t) t actor p) w = (Inr row, w')"
    "posted t row (wdb w) (wdb w')" "sched w' = []" "le_user row = tp_user p"
    "le_amount row = tp_amount p" "le_type row = ''credit''"
    using run_Topup [OF assms, of actor] by metis
  show thesis
  proof (rule that [OF r(1,3,2,4-6)])
    show "pay_tables (wdb w') = pay_tables (wdb w)"
      using pay_tables_eq [OF fixed_pay.keeps_Topup [OF TrueI] assms(1) r(1)]
      by (simp add: pay_tables_def)
  qed
qed

section \<open>Webhooks\<close>

definition verified :: "payments \<Rightarrow> string \<Rightarrow> string \<Rightarrow> instant \<Rightarrow> stripe_event \<Rightarrow> bool" where
  "verified s header body now ev \<longleftrightarrow>
     VerifyWebhook (pk_mac (ps_pk s)) (pk_parse_json (ps_pk s)) (gw_secret (ps_gw s))
       header body now 0 = Inr ev"

definition recorded :: "string \<Rightarrow> db \<Rightarrow> bool" where
  "recorded i d \<longleftrightarrow> list_ex (\<lambda>r. wh_stripe r = i) (webhooks d)"

lemma recorded_iff: "recorded i d \<longleftrightarrow> i \<in> wh_stripe ` set (webhooks d)"
  by (auto simp: recorded_def list_ex_iff)

interpretation recorded_inv: payments_invariant "recorded i"
proof unfold_locales
  fix f :: "instant \<Rightarrow> webhook_row \<Rightarrow> webhook_row" and i' t
  assume "\<And>now r. wh_id (f now r) = wh_id r \<and> wh_stripe (f now r) = wh_stripe r"
  then show "preserved (recorded i) (sql_mark_webhook f i' t)"
    by (simp add: preserved_def recorded_iff sql_mark_webhook_def image_update)
qed (auto simp: preserved_def sql_defs payment_sql_defs ignores_audit_def recorded_def Let_def)

lemma decode_intent_meta: "decode_intent j = Inr p \<Longrightarrow> probe_metadata j = pi_meta p"
  by (auto simp: decode_intent_def both_def split: sum.splits intro: probe_metadata_ok)

lemma tenant_of_intent:
  "unmarshal decode_intent (se_object ev) = Inr p \<Longrightarrow> idsFromMetadata s (pi_meta p) = Some (t, u) \<Longrightarrow>
     tenantIDFromEvent s ev = t"
  by (auto simp: unmarshal_def tenantIDFromEvent_def decode_intent_meta split: option.splits)

lemma run_webhook_seen:
  assumes "sched w = []" "verified s header body (db_now (wdb w)) ev" "recorded (se_id ev) (wdb w)"
  shows "run_state (HandleWebhook s ctx header body) w = (Inr (), w)"
proof -
  obtain r where "find (\<lambda>r. wh_stripe r = se_id ev) (webhooks (wdb w)) = Some r"
    using assms(3) find_None_ex [of "\<lambda>r. wh_stripe r = se_id ev" "webhooks (wdb w)"]
    by (auto simp: recorded_def)
  then show ?thesis
    using assms by (simp add: HandleWebhook_def verified_def Webhooks_GetByStripeID_def sql_one_def)
qed

text \<open>The row a delivery records before it is dispatched.\<close>

definition webhook_received :: "payments \<Rightarrow> stripe_event \<Rightarrow> string \<Rightarrow> db \<Rightarrow> webhook_row" where
  "webhook_received s ev body d =
     \<lparr>wh_id = db_next d,
      wh_tenant = (let t = tenantIDFromEvent s ev in if t = uuid_nil then None else Some t),
      wh_stripe = se_id ev, wh_type = se_type ev, wh_api = Some (se_api ev), wh_payload = body,
      wh_status = ''received'', wh_ledger = [], wh_error = None, wh_received = db_now d,
      wh_processed = None\<rparr>"

definition with_webhook :: "webhook_row \<Rightarrow> world \<Rightarrow> world" where
  "with_webhook r w = w\<lparr>wdb := (wdb w)\<lparr>db_next := Suc (db_next (wdb w)),
     webhooks := webhooks (wdb w) @ [r]\<rparr>\<rparr>"

text \<open>What a first delivery does after its row is recorded under the identifier \<open>i\<close>.\<close>

definition apply_event :: "payments \<Rightarrow> ctx \<Rightarrow> stripe_event \<Rightarrow> uuid \<Rightarrow> unit result prog" where
  "apply_event s ctx ev i =
     do {
       r \<leftarrow> dispatchEvent s ctx ev;
       case r of
         Inl e' \<Rightarrow> do {
           _ \<leftarrow> Webhooks_MarkFailed (Some (tenantIDFromEvent s ev)) i e';
           fail (Wrap (''billing.payments.webhook: dispatch '' @ se_type ev) e') }
       | Inr ids \<Rightarrow> do {
           m \<leftarrow> Webhooks_MarkApplied (Some (tenantIDFromEvent s ev)) i ids;
           case m of
             Inl e' \<Rightarrow> fail (Wrap ''billing.payments.webhook: mark applied'' e')
           | Inr _ \<Rightarrow> ok () } }"

text \<open>A first delivery, up to its dispatch.\<close>

lemma run_webhook_new:
  assumes "sched w = [] \<and> ds = [] \<or> sched w = Quiet # Quiet # ds"
    "verified s header body (db_now (wdb w)) ev" "\<not> recorded (se_id ev) (wdb w)"
    "opt_ref (wh_tenant (webhook_received s ev body (wdb w))) (db_tenants (wdb w))"
  shows "run_state (HandleWebhook s ctx header body) w =
    run_state (apply_event s ctx ev (db_next (wdb w)))
      ((with_webhook (webhook_received s ev body (wdb w)) w)\<lparr>sched := ds\<rparr>)"
proof -
  have f: "find (\<lambda>r. wh_stripe r = se_id ev) (webhooks (wdb w)) = None"
    using assms(3) by (simp add: recorded_def find_None_ex)
  let ?r = "webhook_received s ev body (wdb w)"
  have c: "sql_create_webhook
      \<lparr>wp_tenant = (if tenantIDFromEvent s ev = uuid_nil then None else Some (tenantIDFromEvent s ev)),
       wp_stripe = se_id ev, wp_type = se_type ev, wp_api = Some (se_api ev),
       wp_payload = Some body, wp_status = ''received''\<rparr> (wdb w) =
    (Inr ?r, wdb (with_webhook ?r w))"
    using assms(3,4)
    by (simp add: sql_create_webhook_def recorded_def webhook_received_def with_webhook_def Let_def)
  have i: "wh_id ?r = db_next (wdb w)" by (simp add: webhook_received_def)
  have w: "w\<lparr>wdb := wdb (with_webhook ?r w)\<rparr> = with_webhook ?r w"
    "w\<lparr>sched := ds, wdb := wdb (with_webhook ?r w)\<rparr> = (with_webhook ?r w)\<lparr>sched := ds\<rparr>"
    "sched w = [] \<Longrightarrow> (with_webhook ?r w)\<lparr>sched := []\<rparr> = with_webhook ?r w"
    "w\<lparr>wdb := wdb (with_webhook ?r w), sched := ds\<rparr> = (with_webhook ?r w)\<lparr>sched := ds\<rparr>"
    by (simp_all add: with_webhook_def)
  show ?thesis
    using assms(1,2) f c
    by (auto simp: HandleWebhook_def verified_def Webhooks_GetByStripeID_def sql_one_def Let_def
        Webhooks_Create_def WithTenant_def i w apply_event_def simp del: append.simps)
qed

lemma run_webhook_quiet:
  assumes "sched w = []" "verified s header body (db_now (wdb w)) ev" "\<not> recorded (se_id ev) (wdb w)"
    "opt_ref (wh_tenant (webhook_received s ev body (wdb w))) (db_tenants (wdb w))"
  shows "run_state (HandleWebhook s ctx header body) w =
    run_state (apply_event s ctx ev (db_next (wdb w))) (with_webhook (webhook_received s ev body (wdb w)) w)"
proof -
  have "(with_webhook (webhook_received s ev body (wdb w)) w)\<lparr>sched := []\<rparr> =
      with_webhook (webhook_received s ev body (wdb w)) w"
    using assms(1) by (simp add: with_webhook_def)
  then show ?thesis using run_webhook_new [OF _ assms(2-4), of "[]"] assms(1) by simp
qed

lemma mark_new_webhook:
  assumes "webhooks_ok d" "wh_id r = db_next d" "wh_tenant r = Some t"
  shows "sql_update (is_webhook t (db_next d)) f (webhooks d @ [r]) = webhooks d @ [f r]"
proof -
  have "sql_update (is_webhook t (db_next d)) f (webhooks d) = webhooks d"
    using assms(1) by (auto simp: sql_update_def webhooks_ok_def is_webhook_def intro!: map_idI)
  then show ?thesis using assms(2,3) by (simp add: sql_update_def is_webhook_def)
qed

text \<open>
  C23. The first delivery of a succeeded payment intent credits the user its metadata names, in
  the tenant it names, with the amount of the intent, once; and the event is recorded as applied
  with the credit's identifier.
\<close>

theorem HandleWebhook_credits:
  assumes "sched w = []" "verified s header body (db_now (wdb w)) ev"
    "\<not> recorded (se_id ev) (wdb w)" "webhooks_ok (wdb w)"
    "se_type ev = ''payment_intent.succeeded''" "unmarshal decode_intent (se_object ev) = Inr p"
    "idsFromMetadata s (pi_meta p) = Some (t, u)" "t \<noteq> uuid_nil" "u \<noteq> uuid_nil" "0 < pi_amount p"
    "currency_ok (ps_billing s) (ToUpper (pi_currency p))" "fk_ok t u (wdb w)"
    "in_int64 (balance_of t u (ledger (wdb w)) + pi_amount p)"
  shows "\<exists>row wh w'. run_state (HandleWebhook s ctx header body) w = (Inr (), w') \<and>
    posted t row (wdb w) (wdb w') \<and> le_user row = u \<and> le_type row = ''credit'' \<and>
    le_amount row = pi_amount p \<and>
    webhooks (wdb w') = webhooks (wdb w) @ [wh] \<and> wh_stripe wh = se_id ev \<and>
    wh_status wh = ''applied'' \<and> wh_ledger wh = [le_id row]"
proof -
  let ?r = "webhook_received s ev body (wdb w)" and ?w = "with_webhook (webhook_received s ev body (wdb w)) w"
  have t: "tenantIDFromEvent s ev = t" using assms(6,7) by (rule tenant_of_intent)
  then have rt: "wh_tenant ?r = Some t" "wh_id ?r = db_next (wdb w)" "wh_stripe ?r = se_id ev"
    using assms(8) by (simp_all add: webhook_received_def)
  have ref: "opt_ref (wh_tenant ?r) (db_tenants (wdb w))"
    using rt assms(12) by (simp add: opt_ref_def fk_ok_def)
  let ?p = "\<lparr>tp_user = u, tp_amount = pi_amount p, tp_currency = ToUpper (pi_currency p),
     tp_reference = ''stripe_topup:'' @ pi_id p\<rparr>"
  have pre: "sched ?w = []" "tp_user ?p \<noteq> uuid_nil" "0 < tp_amount ?p"
    "currency_ok (ps_billing s) (tp_currency ?p)" "fk_ok t (tp_user ?p) (wdb ?w)"
    "in_int64 (balance_of t (tp_user ?p) (ledger (wdb ?w)) + tp_amount ?p)"
    using assms by (simp_all add: with_webhook_def)
  obtain row w2 where r: "run_state (Topup (ps_billing s) (Some t) t uuid_nil ?p) ?w = (Inr row, w2)"
    "sched w2 = []" "posted t row (wdb ?w) (wdb w2)" "le_user row = u" "le_amount row = pi_amount p"
    "le_type row = ''credit''" "pay_tables (wdb w2) = pay_tables (wdb ?w)"
    using run_pay_Topup [of ?w ?p "ps_billing s" t uuid_nil, OF pre] by auto
  have wh: "webhooks (wdb w2) = webhooks (wdb w) @ [?r]"
    using r(7) by (simp add: pay_tables_def with_webhook_def)
  have po: "posted t row (wdb w) (wdb w2)" using r(3) by (simp add: with_webhook_def)
  note marks = mark_new_webhook [OF assms(4) rt(2,1)]
  show ?thesis
    unfolding run_webhook_quiet [OF assms(1-3) ref]
    using assms(5-7) r(1,2,4-6) po rt(3) wh marks
    by (auto simp: apply_event_def dispatchEvent_def onPaymentIntentSucceeded_def WithTenant_def t
        Webhooks_MarkApplied_def sql_mark_webhook_def)
qed

text \<open>A payments service on an idle gateway, and a signed event of a payment of 25 dollars.\<close>

definition gateway0 :: gateway where
  "gateway0 =
     \<lparr>gw_find_customer = (\<lambda>e. fail (Sentinel StripeErrNotFound)),
      gw_create_customer = (\<lambda>q k. ok ''cus_1''),
      gw_get_pm = (\<lambda>i. ok \<lparr>cd_brand = ''visa'', cd_last4 = ''4242'', cd_fingerprint = ''fp'',
        cd_exp_month = 12, cd_exp_year = 2030\<rparr>),
      gw_attach = (\<lambda>i c. ok ()), gw_detach = (\<lambda>i. ok ()),
      gw_create_intent = (\<lambda>q k. ok \<lparr>pi_id = k, pi_amount = ir_amount q,
        pi_currency = ir_currency q, pi_secret = ''secret'', pi_meta = None\<rparr>),
      gw_create_product = (\<lambda>q k. ok ''prod_1''), gw_create_price = (\<lambda>q k. ok ''price_1''),
      gw_create_sub = (\<lambda>q k. ok (''sub_1'', 2000)), gw_cancel_sub = (\<lambda>i b. ok ()),
      gw_secret = ''s''\<rparr>"

definition payment_json :: json where
  "payment_json = Obj [(''id'', Text ''evt_1''), (''type'', Text ''payment_intent.succeeded''),
     (''data'', Obj [(''object'', Obj [(''id'', Text ''pi_1''), (''amount'', Integer 2500),
        (''currency'', Text ''usd''),
        (''metadata'', Obj [(''tenant_id'', Text ''T''), (''user_id'', Text ''U'')])])])]"

definition packages0 :: packages where
  "packages0 =
     \<lparr>pk_uuid_str = (\<lambda>u. nat_digits u),
      pk_parse_uuid = (\<lambda>x. if x = ''T'' then Some 100 else if x = ''U'' then Some 200 else None),
      pk_mac = demo_mac,
      pk_parse_json = (\<lambda>b. if b = ''{pi}'' then Some payment_json else None),
      pk_seal = (\<lambda>x. ok x), pk_open = (\<lambda>x. Inr x)\<rparr>"

definition payments0 :: payments where
  "payments0 =
     \<lparr>ps_billing = service0, ps_gw = gateway0, ps_pk = packages0, ps_audit = DBEmitter,
      ps_bus = True,
      ps_config = \<lparr>pf_publishable = ''pk'', pf_currency = ''usd'', pf_min = 50, pf_max = 1000000\<rparr>\<rparr>"

definition payment_event :: stripe_event where
  "payment_event =
     \<lparr>se_id = ''evt_1'', se_type = ''payment_intent.succeeded'', se_api = '''',
      se_object = Some (Obj [(''id'', Text ''pi_1''), (''amount'', Integer 2500),
        (''currency'', Text ''usd''),
        (''metadata'', Obj [(''tenant_id'', Text ''T''), (''user_id'', Text ''U'')])])\<rparr>"

definition payment_intent0 :: payment_intent where
  "payment_intent0 =
     \<lparr>pi_id = ''pi_1'', pi_amount = 2500, pi_currency = ''usd'', pi_secret = '''',
      pi_meta = Some [(''tenant_id'', Text ''T''), (''user_id'', Text ''U'')]\<rparr>"

definition world_pay :: world where
  "world_pay = \<lparr>wdb = empty_db (101 * 1000000000) [100] [200, 201], sched = [], events = [], pdns = []\<rparr>"

definition header0 :: string where
  "header0 = signature_header 100 (demo_mac ''s'' (fmt_d 100 @ ''.'' @ ''{pi}''))"

lemma payment_event_decoded:
  "decode_event payment_json = Inr payment_event"
  "unmarshal decode_intent (se_object payment_event) = Inr payment_intent0"
  "idsFromMetadata payments0 (pi_meta payment_intent0) = Some (100, 200)"
  by code_simp+

lemma payment_verified:
  "verified payments0 header0 ''{pi}'' 101000000000 payment_event"
  unfolding verified_def header0_def payments0_def packages0_def gateway0_def
  using signed_accepted [of "''s''" "''{pi}''" 100 "101 * 1000000000" 0
      "\<lambda>b. if b = ''{pi}'' then Some payment_json else None" payment_json payment_event demo_mac]
  by (simp add: payment_event_decoded unix_time_100 sat64_def int64_min_def int64_max_def
      DefaultWebhookTolerance_def)

lemma payment_facts:
  "sched world_pay = []" "\<not> recorded i (wdb world_pay)" "webhooks_ok (wdb world_pay)"
  "fk_ok 100 200 (wdb world_pay)" "ledger (wdb world_pay) = []"
  "currency_ok (ps_billing payments0) (ToUpper (pi_currency payment_intent0))"
  "pi_amount payment_intent0 = 2500" "db_now (wdb world_pay) = 101 * 1000000000"
  "webhooks (wdb world_pay) = []" "sv_audit (ps_billing payments0) = DBEmitter"
  "db_tenants (wdb world_pay) = [100]" "se_type payment_event = ''payment_intent.succeeded''"
proof -
  show "currency_ok (ps_billing payments0) (ToUpper (pi_currency payment_intent0))" by code_simp
qed (simp_all add: world_pay_def empty_db_def recorded_def webhooks_ok_def fk_ok_def
    payment_intent0_def payment_event_def payments0_def service0_def)

lemma HandleWebhook_credits_witness:
  "\<exists>row wh w'. run_state (HandleWebhook payments0 None header0 ''{pi}'') world_pay = (Inr (), w') \<and>
     posted 100 row (wdb world_pay) (wdb w') \<and> le_amount row = 2500 \<and>
     webhooks (wdb w') = [wh] \<and> wh_status wh = ''applied''"
  using HandleWebhook_credits [of world_pay payments0 header0 "''{pi}''" payment_event
      payment_intent0 100 200 None] payment_facts payment_event_decoded
    payment_verified
  by (auto simp: uuid_nil_def in_int64_def int64_min_def int64_max_def)

text \<open>
  C24. An event is applied once: after that first delivery, any further delivery that verifies and
  carries the same event id, whatever else it carries, is acknowledged and changes nothing.
\<close>

theorem HandleWebhook_redelivery:
  assumes "sched w = []" "verified s header body (db_now (wdb w)) ev"
    "\<not> recorded (se_id ev) (wdb w)"
    "opt_ref (wh_tenant (webhook_received s ev body (wdb w))) (db_tenants (wdb w))"
    "run_state (HandleWebhook s ctx header body) w = (r, w')" "sched w'' = []"
    "set (webhooks (wdb w')) \<subseteq> set (webhooks (wdb w''))"
    "verified s header' body' (db_now (wdb w'')) ev'" "se_id ev' = se_id ev"
  shows "run_state (HandleWebhook s ctx header' body') w'' = (Inr (), w'')"
proof -
  let ?w = "with_webhook (webhook_received s ev body (wdb w)) w"
  have "keeps (stable (recorded (se_id ev))) (apply_event s ctx ev (db_next (wdb w)))"
    unfolding apply_event_def
    by (intro keeps_rules recorded_inv.keeps_dispatch recorded_inv.keeps_webhook_calls)
  moreover have "stable (recorded (se_id ev)) ?w"
    using assms(1)
    by (simp add: stable_def with_webhook_def recorded_def webhook_received_def)
  ultimately have "stable (recorded (se_id ev)) w'"
    using assms(5) unfolding run_webhook_quiet [OF assms(1-4)] by (rule keeps_runD)
  then have "recorded (se_id ev) (wdb w')" by (rule stable_db)
  then have "recorded (se_id ev') (wdb w'')"
    using assms(7,9) by (auto simp: recorded_def list_ex_iff)
  then show ?thesis by (rule run_webhook_seen [OF assms(6,8)])
qed

lemma HandleWebhook_redelivery_witness:
  "let w' = snd (run_state (HandleWebhook payments0 None header0 ''{pi}'') world_pay);
       w'' = w'\<lparr>sched := [], wdb := (wdb w')\<lparr>db_now := 101 * 1000000000\<rparr>\<rparr>
   in run_state (HandleWebhook payments0 None header0 ''{pi}'') w'' = (Inr (), w'')"
  unfolding Let_def
  by (rule HandleWebhook_redelivery [of world_pay payments0 header0 "''{pi}''" payment_event None
        "fst (run_state (HandleWebhook payments0 None header0 ''{pi}'') world_pay)"
        "snd (run_state (HandleWebhook payments0 None header0 ''{pi}'') world_pay)"])
    (use payment_facts payment_verified in \<open>auto simp: webhook_received_def Let_def
      tenant_of_intent [OF payment_event_decoded(2,3)] opt_ref_def\<close>)

text \<open>A top-up whose insert into the ledger fails: the audit trail is all it leaves.\<close>

lemma run_Topup_lost:
  assumes "sched w = [Quiet, Fault]" "sv_audit s = DBEmitter" "tp_user p \<noteq> uuid_nil"
    "0 < tp_amount p" "currency_ok s (tp_currency p)"
  obtains w' where "run_state (Topup s (Some t) t actor p) w =
      (Inl (Wrap ''billing.topup'' (Pg ConnLost)), w')" "sched w' = []"
    "but_audit (wdb w') = but_audit (wdb w)" "db_next (wdb w) \<le> db_next (wdb w')"
proof -
  let ?m = "Some [(''user_id'', JUuid (tp_user p)), (''amount'', JInt (tp_amount p)),
     (''currency'', JStr (currencyOrDefault s (tp_currency p))),
     (''reference'', JStr (tp_reference p)), (''privileged'', JBool True)]"
  let ?emit = "auditEmit (sv_audit s) ''billing.balance.topup'' ''ledger_entry'' t actor uuid_nil ?m"
  define a where "a = fst (run_state ?emit w)"
  define w1 where "w1 = snd (run_state ?emit w)"
  have w1: "run_state ?emit w = (a, w1)" by (simp add: a_def w1_def)
  have "sched w1 = [Fault] \<and> but_audit (wdb w1) = but_audit (wdb w) \<and>
      db_next (wdb w) \<le> db_next (wdb w1)"
    using assms(1,2)
    by (simp add: w1_def auditEmit_def audit_Emit_def DBEmitter_Emit_def Let_def split_beta
        sql_create_audit_def but_audit_def split: sum.split)
  note f1 = this
  define w2 where "w2 = snd (run_state (auditMarkOutcome (sv_audit s) a False
      (Some [(''error'', JErr (Pg ConnLost))])) (w1\<lparr>sched := []\<rparr>))"
  have w2: "run_state (auditMarkOutcome (sv_audit s) a False
      (Some [(''error'', JErr (Pg ConnLost))])) (w1\<lparr>sched := []\<rparr>) = ((), w2)"
    by (simp add: w2_def prod_eq_iff)
  have au: "audited (w1\<lparr>sched := []\<rparr>) w2" unfolding w2_def by (rule audited_mark) simp
  show thesis
  proof (rule that [of w2])
    show "run_state (Topup s (Some t) t actor p) w = (Inl (Wrap ''billing.topup'' (Pg ConnLost)), w2)"
      using assms(3-5) w1 f1 w2
      by (simp add: Topup_def validateAmount_ok currency_ok_def Let_def Ledger_Create_def)
  qed (use au f1 in \<open>simp_all add: audited_def\<close>)
qed

text \<open>
  C37. A payment can be lost: when the ledger insert of a first delivery fails, the receiver
  reports the failure, so that Stripe sends the event again, but the event stays recorded (as
  failed), and the redelivery is acknowledged as a duplicate. The user is never credited.
\<close>

theorem HandleWebhook_retry_loses_payment:
  assumes "sched w = [Quiet, Quiet, Quiet, Fault]" "sv_audit (ps_billing s) = DBEmitter"
    "verified s header body (db_now (wdb w)) ev"
    "\<not> recorded (se_id ev) (wdb w)" "webhooks_ok (wdb w)"
    "se_type ev = ''payment_intent.succeeded''" "unmarshal decode_intent (se_object ev) = Inr p"
    "idsFromMetadata s (pi_meta p) = Some (t, u)" "t \<noteq> uuid_nil" "u \<noteq> uuid_nil" "0 < pi_amount p"
    "currency_ok (ps_billing s) (ToUpper (pi_currency p))" "fk_ok t u (wdb w)"
  shows "\<exists>e wh w'. run_state (HandleWebhook s ctx header body) w = (Inl e, w') \<and>
    webhooks (wdb w') = webhooks (wdb w) @ [wh] \<and> wh_status wh = ''failed'' \<and>
    run_state (HandleWebhook s ctx header body) w' = (Inr (), w') \<and>
    ledger (wdb w') = ledger (wdb w)"
proof -
  let ?r = "webhook_received s ev body (wdb w)"
  let ?w = "(with_webhook ?r w)\<lparr>sched := [Quiet, Fault]\<rparr>"
  have t: "tenantIDFromEvent s ev = t" using assms(7,8) by (rule tenant_of_intent)
  then have rt: "wh_tenant ?r = Some t" "wh_id ?r = db_next (wdb w)" "wh_stripe ?r = se_id ev"
    using assms(9) by (simp_all add: webhook_received_def)
  have ref: "opt_ref (wh_tenant ?r) (db_tenants (wdb w))"
    using rt assms(13) by (simp add: opt_ref_def fk_ok_def)
  let ?p = "\<lparr>tp_user = u, tp_amount = pi_amount p, tp_currency = ToUpper (pi_currency p),
     tp_reference = ''stripe_topup:'' @ pi_id p\<rparr>"
  have pre: "sched ?w = [Quiet, Fault]" "tp_user ?p \<noteq> uuid_nil" "0 < tp_amount ?p"
    "currency_ok (ps_billing s) (tp_currency ?p)"
    using assms(10-12) by simp_all
  obtain w2 where r: "run_state (Topup (ps_billing s) (Some t) t uuid_nil ?p) ?w =
      (Inl (Wrap ''billing.topup'' (Pg ConnLost)), w2)" "sched w2 = []"
    "but_audit (wdb w2) = but_audit (wdb ?w)" "db_next (wdb ?w) \<le> db_next (wdb w2)"
    by (rule run_Topup_lost [OF pre(1) assms(2) pre(2-4)]) (rule that)
  have fr: "webhooks (wdb w2) = webhooks (wdb w) @ [?r]" "ledger (wdb w2) = ledger (wdb w)"
    "db_now (wdb w2) = db_now (wdb w)"
    using arg_cong [OF r(3), of webhooks] arg_cong [OF r(3), of ledger] arg_cong [OF r(3), of db_now]
    by (simp_all add: but_audit_def with_webhook_def)
  let ?e = "Wrap ''ledger credit'' (Wrap ''billing.topup'' (Pg ConnLost))"
  define w' where "w' = snd (run_state (HandleWebhook s ctx header body) w)"
  note new = run_webhook_new [OF _ assms(3,4) ref, of "[Quiet, Fault]", unfolded assms(1)]
  have w': "run_state (HandleWebhook s ctx header body) w =
      (Inl (Wrap (''billing.payments.webhook: dispatch '' @ se_type ev) ?e), w') \<and>
    webhooks (wdb w') = webhooks (wdb w) @ [?r\<lparr>wh_status := ''failed'', wh_error := Some ?e,
       wh_processed := Some (db_now (wdb w))\<rparr>] \<and> ledger (wdb w') = ledger (wdb w) \<and>
    sched w' = [] \<and> db_now (wdb w') = db_now (wdb w)"
    using new assms(6-8) r(1,2) fr t mark_new_webhook [OF assms(5) rt(2,1)]
    by (simp add: w'_def apply_event_def dispatchEvent_def onPaymentIntentSucceeded_def
        WithTenant_def Webhooks_MarkFailed_def sql_mark_webhook_def del: append.simps)
  have "run_state (HandleWebhook s ctx header body) w' = (Inr (), w')"
    using w' assms(3) rt(3) by (intro run_webhook_seen [of _ _ _ _ ev]) (simp_all add: recorded_def)
  then show ?thesis using w' by auto
qed

lemma HandleWebhook_retry_loses_payment_witness:
  "\<exists>e wh w'. run_state (HandleWebhook payments0 None header0 ''{pi}'')
       (world_pay\<lparr>sched := [Quiet, Quiet, Quiet, Fault]\<rparr>) = (Inl e, w') \<and>
     webhooks (wdb w') = webhooks (wdb world_pay) @ [wh] \<and> wh_status wh = ''failed'' \<and>
     run_state (HandleWebhook payments0 None header0 ''{pi}'') w' = (Inr (), w') \<and>
     ledger (wdb w') = ledger (wdb world_pay)"
proof -
  let ?w = "world_pay\<lparr>sched := [Quiet, Quiet, Quiet, Fault]\<rparr>"
  have w: "wdb ?w = wdb world_pay" by simp
  show ?thesis
    by (rule HandleWebhook_retry_loses_payment [of ?w payments0 header0 "''{pi}''" payment_event
          payment_intent0 100 200 None, unfolded w])
      (use payment_facts payment_event_decoded payment_verified in \<open>simp_all add: uuid_nil_def\<close>)
qed

section \<open>Promo codes\<close>

definition code_row :: "uuid \<Rightarrow> string \<Rightarrow> db \<Rightarrow> promo_row option" where
  "code_row t raw d = find (\<lambda>r. pc_tenant r = t \<and> pc_code r = canonical_code raw) (promos d)"

lemma code_rowD:
  "code_row t raw d = Some row \<Longrightarrow> row \<in> set (promos d) \<and> pc_tenant row = t"
  by (auto simp: code_row_def find_Some_iff)

lemma find_promo:
  assumes "distinct (map pc_id (promos d))" "row \<in> set (promos d)" "pc_tenant row = t"
  shows "find (is_promo t (pc_id row)) (promos d) = Some row"
proof -
  obtain r where r: "find (is_promo t (pc_id row)) (promos d) = Some r"
    using assms(2,3) find_None_ex [of "is_promo t (pc_id row)" "promos d"]
    by (auto simp: list_ex_iff is_promo_def)
  then have "r \<in> set (promos d)" "pc_id r = pc_id row"
    by (auto simp: find_Some_iff is_promo_def)
  then show ?thesis using r assms(1,2) by (auto simp: distinct_map inj_on_def)
qed

text \<open>A redemption from the increment of the counter on, whether it was disturbed before or not.\<close>

lemma run_redeem:
  assumes "sched w = [] \<and> g = (\<lambda>d. d) \<or> sched w = [Quiet, Other g]"
    "validatePromoCode (canonical_code raw) = Inr ()" "code_row t raw (wdb w) = Some row"
    "redeemable (db_now (wdb w)) row" "sql_increment_use (pc_id row) t (g (wdb w)) = (Inr (), d2)"
    "find (is_promo t (pc_id row)) (promos d2) = Some after" "pc_used after \<noteq> 0"
    "u \<noteq> uuid_nil" "0 < pc_credit row" "currency_ok (ps_billing s) (pc_currency row)"
    "fk_ok t u d2" "in_int64 (balance_of t u (ledger d2) + pc_credit row)"
  obtains credit w' where "run_state (RedeemPromoCode s (Some t) t u raw) w = (Inr credit, w')"
    "sched w' = []" "posted t credit d2 (wdb w')" "le_user credit = u"
    "le_amount credit = pc_credit row" "le_type credit = ''credit''"
    "pay_tables (wdb w') = pay_tables d2" "inputs (wdb w') = inputs d2"
proof -
  define w2 where "w2 = w\<lparr>wdb := d2, sched := []\<rparr>"
  let ?m = "Some [(''code'', JStr (canonical_code raw)), (''credit_cents'', JInt (pc_credit row)),
    (''currency'', JStr (pc_currency row))]"
  let ?p = "\<lparr>tp_user = u, tp_amount = pc_credit row, tp_currency = pc_currency row,
    tp_reference = ''promo_code:'' @ canonical_code raw\<rparr>"
  obtain a w3 where w3: "run_state (auditEmit (ps_audit s) ''billing.promo_code.redeem''
      ''billing_promo_code'' t u (pc_id row) ?m) w2 = (a, w3)" "audited w2 w3" "sched w3 = []"
    by (rule auditEmit_cases [of w2]) (simp_all add: w2_def)
  have d3: "ledger (wdb w3) = ledger d2" "fk_ok t u (wdb w3)"
    "pay_tables (wdb w3) = pay_tables d2" "inputs (wdb w3) = inputs d2"
    "\<And>x y. cached x y (wdb w3) = cached x y d2"
    using auditedD [OF w3(2)] audited_cached [OF w3(2)] assms(11)
    by (simp_all add: w2_def pay_tables_def inputs_def fk_ok_def)
  have pre: "sched w3 = []" "tp_user ?p \<noteq> uuid_nil" "0 < tp_amount ?p"
    "currency_ok (ps_billing s) (tp_currency ?p)" "fk_ok t (tp_user ?p) (wdb w3)"
    "in_int64 (balance_of t (tp_user ?p) (ledger (wdb w3)) + tp_amount ?p)"
    using assms w3(3) d3 by simp_all
  obtain credit w4 where w4: "run_state (Topup (ps_billing s) (Some t) t u ?p) w3 = (Inr credit, w4)"
    "sched w4 = []" "posted t credit (wdb w3) (wdb w4)" "le_user credit = u"
    "le_amount credit = pc_credit row" "le_type credit = ''credit''"
    "pay_tables (wdb w4) = pay_tables (wdb w3)"
    using run_pay_Topup [of w3 ?p "ps_billing s" t u, OF pre] by auto
  have i4: "inputs (wdb w4) = inputs d2"
    using keeps_runD [OF fixed_inputs.keeps_Topup [OF TrueI] stable_quietI [of "\<lambda>d. inputs d = inputs d2", OF d3(4) w3(3)] w4(1)]
    by (simp add: stable_def)
  have p4: "posted t credit d2 (wdb w4)" using w4(3) d3 by (simp add: posted_def)
  obtain w5 where w5: "run_state (auditMarkOutcome (ps_audit s) a True
      (Some [(''ledger_id'', JUuid (le_id credit))])) w4 = ((), w5)" "audited w4 w5" "sched w5 = []"
    by (rule auditMark_cases [OF w4(2)])
  have d5: "posted t credit d2 (wdb w5)" "pay_tables (wdb w5) = pay_tables d2"
    "inputs (wdb w5) = inputs d2"
    using auditedD [OF w5(2)] audited_cached [OF w5(2)] p4 w4(7) d3(3) i4
    by (simp_all add: posted_def pay_tables_def inputs_def)
  define w' where "w' = snd (run_state (RedeemPromoCode s (Some t) t u raw) w)"
  have inc: "run_state (Promos_IncrementUse (Some t) (pc_id row)) (if sched w = [] then w else w\<lparr>sched := [Other g]\<rparr>)
      = (Inr (), w2)"
    using assms(1,5-7)
    by (auto simp: Promos_IncrementUse_def sql_one_def w2_def)
  have run: "run_state (RedeemPromoCode s (Some t) t u raw) w = (Inr credit, w') \<and>
      wdb w' = wdb w5 \<and> sched w' = []"
    using assms(1-4) inc w3(1) w4(1) w5(1,3)
    by (auto simp: w'_def RedeemPromoCode_def Let_def Promos_GetByCode_def sql_one_def
        code_row_def)
  show thesis
    by (rule that [of credit w']) (use run d5 w4 in simp_all)
qed

definition used_once_more :: "promo_row \<Rightarrow> db \<Rightarrow> db" where
  "used_once_more row d =
     d\<lparr>promos := sql_update (\<lambda>r. r = row) (\<lambda>r. r\<lparr>pc_used := pc_used r + 1\<rparr>) (promos d)\<rparr>"

lemma used_once_more_simps [simp]:
  "ledger (used_once_more row d) = ledger d" "fk_ok t u (used_once_more row d) = fk_ok t u d"
  "posted t c (used_once_more row d) d' = posted t c d d'"
  "inputs (used_once_more row d) = inputs d"
  by (simp_all add: used_once_more_def inputs_def)

lemma find_mapped:
  "(\<And>r. P (f r) = P r) \<Longrightarrow> find P (map f rows) = map_option f (find P rows)"
  by (induction rows) auto

lemma find_used_once_more:
  assumes "find P (promos d) = Some row" "\<And>r x. P (r\<lparr>pc_used := x\<rparr>) = P r"
  shows "find P (promos (used_once_more row d)) = Some (row\<lparr>pc_used := pc_used row + 1\<rparr>)"
  using find_mapped [of P "\<lambda>r. if r = row then r\<lparr>pc_used := pc_used r + 1\<rparr> else r" "promos d"] assms
  by (simp add: used_once_more_def sql_update_def)

lemma increment_use:
  assumes "promos_ok d" "row \<in> set (promos d)" "pc_tenant row = t" "promo_usable row"
    "pc_used row < 2147483647"
  shows "sql_increment_use (pc_id row) t d = (Inr (), used_once_more row d)"
proof -
  have only: "is_promo t (pc_id row) r \<and> promo_usable r \<longleftrightarrow> r = row" if "r \<in> set (promos d)" for r
    using that assms(1-4) by (auto simp: promos_ok_def is_promo_def distinct_map inj_on_def)
  then have "sql_update (\<lambda>r. is_promo t (pc_id row) r \<and> promo_usable r) f (promos d) =
      sql_update (\<lambda>r. r = row) f (promos d)" for f
    by (auto simp: sql_update_def)
  moreover have "\<not> list_ex (\<lambda>r. (is_promo t (pc_id row) r \<and> promo_usable r) \<and> pc_used r \<ge> 2147483647)
      (promos d)"
    using only assms(5) unfolding list_ex_iff by (metis linorder_not_le)
  ultimately show ?thesis by (simp add: sql_increment_use_def used_once_more_def Let_def)
qed

lemma redeemable_usable: "redeemable now row \<Longrightarrow> promo_usable row"
  by (simp add: redeemable_def promo_usable_def)

lemma run_redeem_quiet:
  assumes "sched w = []" "validatePromoCode (canonical_code raw) = Inr ()"
    "code_row t raw (wdb w) = Some row" "redeemable (db_now (wdb w)) row" "promos_ok (wdb w)"
    "pc_used row < 2147483647" "u \<noteq> uuid_nil" "currency_ok (ps_billing s) (pc_currency row)"
    "fk_ok t u (wdb w)" "in_int64 (balance_of t u (ledger (wdb w)) + pc_credit row)"
  obtains credit w' where "run_state (RedeemPromoCode s (Some t) t u raw) w = (Inr credit, w')"
    "sched w' = []" "posted t credit (wdb w) (wdb w')" "le_user credit = u"
    "le_amount credit = pc_credit row" "le_type credit = ''credit''"
    "promos (wdb w') = promos (used_once_more row (wdb w))" "inputs (wdb w') = inputs (wdb w)"
proof -
  note row = code_rowD [OF assms(3)]
  have ok: "promo_row_ok row" "distinct (map pc_id (promos (wdb w)))"
    using assms(5) row by (auto simp: promos_ok_def)
  have inc: "sql_increment_use (pc_id row) t (wdb w) = (Inr (), used_once_more row (wdb w))"
    using increment_use [OF assms(5) _ _ redeemable_usable [OF assms(4)] assms(6)] row by simp
  have after: "find (is_promo t (pc_id row)) (promos (used_once_more row (wdb w))) =
      Some (row\<lparr>pc_used := pc_used row + 1\<rparr>)"
    using find_promo [OF ok(2)] row by (intro find_used_once_more) (simp_all add: is_promo_def)
  show thesis
    by (rule run_redeem [of w "\<lambda>d. d" raw t row "used_once_more row (wdb w)"
          "row\<lparr>pc_used := pc_used row + 1\<rparr>" u s])
      (use assms inc after ok(1) that in \<open>auto simp: promo_row_ok_def pay_tables_def\<close>)
qed

text \<open>
  Redeeming a valid code, undisturbed, credits the user with the amount of the code and
  counts one more use of that code and of no other; tabs, spaces and lower case around the code
  do not matter.
\<close>

theorem RedeemPromoCode_credits:
  assumes "sched w = []" "validatePromoCode (canonical_code raw) = Inr ()"
    "code_row t raw (wdb w) = Some row" "redeemable (db_now (wdb w)) row" "promos_ok (wdb w)"
    "pc_used row < 2147483647" "u \<noteq> uuid_nil" "currency_ok (ps_billing s) (pc_currency row)"
    "fk_ok t u (wdb w)" "in_int64 (balance_of t u (ledger (wdb w)) + pc_credit row)"
  shows "\<exists>credit w'. run_state (RedeemPromoCode s (Some t) t u raw) w = (Inr credit, w') \<and>
    posted t credit (wdb w) (wdb w') \<and> le_user credit = u \<and> le_type credit = ''credit'' \<and>
    le_amount credit = pc_credit row \<and>
    promos (wdb w') = map (\<lambda>r. if r = row then r\<lparr>pc_used := pc_used r + 1\<rparr> else r) (promos (wdb w))"
  by (rule run_redeem_quiet [OF assms]) (auto simp: used_once_more_def sql_update_def)

definition promo0 :: promo_row where
  "promo0 =
     \<lparr>pc_id = 7, pc_tenant = 100, pc_code = ''SPRING-26'', pc_note = '''', pc_credit = 500,
      pc_currency = ''USD'', pc_plan = None, pc_max_uses = Some 1, pc_used = 0, pc_expires = None,
      pc_revoked = None, pc_created_by = 201, pc_created = 0\<rparr>"

definition promo_world :: "promo_row \<Rightarrow> world" where
  "promo_world r = \<lparr>wdb = (empty_db 1000 [100] [200, 201])\<lparr>db_next := 8, promos := [r]\<rparr>,
     sched = [], events = [], pdns = []\<rparr>"

lemma promo_facts:
  "validatePromoCode (canonical_code '' spring-26 '') = Inr ()"
  "canonical_code '' spring-26 '' = ''SPRING-26''"
  "currency_ok (ps_billing payments0) ''USD''"
  by code_simp+

lemma promo_world_facts:
  "sched (promo_world r) = []" "ledger (wdb (promo_world r)) = []" "fk_ok 100 200 (wdb (promo_world r))"
  "promos (wdb (promo_world r)) = [r]" "db_now (wdb (promo_world r)) = 1000"
  "db_next (wdb (promo_world r)) = 8"
  by (simp_all add: promo_world_def empty_db_def fk_ok_def)

lemma RedeemPromoCode_credits_witness:
  "\<exists>credit w'. run_state (RedeemPromoCode payments0 (Some 100) 100 200 '' spring-26 '') (promo_world promo0)
       = (Inr credit, w') \<and>
     posted 100 credit (wdb (promo_world promo0)) (wdb w') \<and> le_amount credit = 500 \<and>
     promos (wdb w') = [promo0\<lparr>pc_used := 1\<rparr>]"
  using RedeemPromoCode_credits [of "promo_world promo0" "'' spring-26 ''" 100 promo0 200 payments0]
    promo_world_facts [of promo0] promo_facts
  by (auto simp: code_row_def redeemable_def promos_ok_def promo_row_ok_def promo0_def uuid_nil_def
      in_int64_def int64_min_def int64_max_def)

text \<open>
  A redemption is not idempotent: a code that allows two more uses and does not expire gives
  the same user its amount twice, whichever spelling of it is typed.
\<close>

theorem RedeemPromoCode_repeat_credits_again:
  assumes "sched w = []" "validatePromoCode (canonical_code raw) = Inr ()"
    "code_row t raw (wdb w) = Some row" "promos_ok (wdb w)"
    "pc_revoked row = None" "pc_expires row = None" "pc_used row + 1 < 2147483647"
    "\<forall>m. pc_max_uses row = Some m \<longrightarrow> pc_used row + 1 < m"
    "u \<noteq> uuid_nil" "currency_ok (ps_billing s) (pc_currency row)" "fk_ok t u (wdb w)"
    "in_int64 (balance_of t u (ledger (wdb w)) + pc_credit row)"
    "in_int64 (balance_of t u (ledger (wdb w)) + 2 * pc_credit row)"
    "canonical_code raw' = canonical_code raw"
  shows "\<exists>c1 w1 c2 w2. run_state (RedeemPromoCode s (Some t) t u raw) w = (Inr c1, w1) \<and>
    run_state (RedeemPromoCode s (Some t) t u raw') w1 = (Inr c2, w2) \<and>
    ledger (wdb w2) = ledger (wdb w) @ [c1, c2] \<and>
    balance_of t u (ledger (wdb w2)) = balance_of t u (ledger (wdb w)) + 2 * pc_credit row"
proof -
  have red: "redeemable now row" for now
    using assms(5,6,8) by (auto simp: redeemable_def split: option.splits)
  let ?row' = "row\<lparr>pc_used := pc_used row + 1\<rparr>"
  have red': "redeemable now ?row'" for now
    using assms(5,6,8) by (auto simp: redeemable_def split: option.splits)
  have "pc_used row < 2147483647" using assms(7) by simp
  then obtain c1 w1 where r1: "run_state (RedeemPromoCode s (Some t) t u raw) w = (Inr c1, w1)"
    "sched w1 = []" "posted t c1 (wdb w) (wdb w1)" "le_user c1 = u" "le_amount c1 = pc_credit row"
    "le_type c1 = ''credit''" "promos (wdb w1) = promos (used_once_more row (wdb w))"
    "inputs (wdb w1) = inputs (wdb w)"
    using run_redeem_quiet [OF assms(1-3) red assms(4) _ assms(9-12)] by metis
  have l1: "ledger (wdb w1) = ledger (wdb w) @ [c1]" "mine t u c1" "signed c1 = pc_credit row"
    using r1(3-6) by (simp_all add: posted_def mine_def signed_def)
  have row': "code_row t raw' (wdb w1) = Some ?row'"
    using find_used_once_more [of "\<lambda>r. pc_tenant r = t \<and> pc_code r = canonical_code raw" "wdb w" row]
      assms(3,14) r1(7) by (simp add: code_row_def)
  have ok1: "promos_ok (wdb w1)"
    using promos_inv.keeps_promos(3) [THEN keeps_runD, OF stable_quietI [of promos_ok, OF assms(4,1)] r1(1)]
    by (rule stable_db)
  have fk1: "fk_ok t u (wdb w1)" using assms(11) r1(8) by (simp add: inputs_def fk_ok_def)
  have pre: "validatePromoCode (canonical_code raw') = Inr ()" "pc_used ?row' < 2147483647"
    "currency_ok (ps_billing s) (pc_currency ?row')"
    "in_int64 (balance_of t u (ledger (wdb w1)) + pc_credit ?row')"
    using assms(2,7,10,13,14) l1 by (simp_all add: algebra_simps)
  obtain c2 w2 where r2: "run_state (RedeemPromoCode s (Some t) t u raw') w1 = (Inr c2, w2)"
    "posted t c2 (wdb w1) (wdb w2)" "le_user c2 = u" "le_amount c2 = pc_credit row"
    "le_type c2 = ''credit''"
    using run_redeem_quiet [OF r1(2) pre(1) row' red' ok1 pre(2) assms(9) pre(3) fk1 pre(4)]
    by (metis promo_row.select_convs(5) promo_row.simps(26) promo_row.update_convs(9) promo_row.surjective)
  have "ledger (wdb w2) = ledger (wdb w1) @ [c2]" "mine t u c2" "signed c2 = pc_credit row"
    using r2(2-5) by (simp_all add: posted_def mine_def signed_def)
  then show ?thesis using r1(1) r2(1) l1 balance_of_append [of t u "[c1]" "[c2]"] by auto
qed

lemma RedeemPromoCode_repeat_credits_again_witness:
  "\<exists>c1 w1 c2 w2. run_state (RedeemPromoCode payments0 (Some 100) 100 200 '' spring-26 '')
       (promo_world (promo0\<lparr>pc_max_uses := None\<rparr>)) = (Inr c1, w1) \<and>
     run_state (RedeemPromoCode payments0 (Some 100) 100 200 '' spring-26 '') w1 = (Inr c2, w2) \<and>
     balance_of 100 200 (ledger (wdb w2)) = 1000"
  using RedeemPromoCode_repeat_credits_again [of "promo_world (promo0\<lparr>pc_max_uses := None\<rparr>)"
      "'' spring-26 ''" 100 "promo0\<lparr>pc_max_uses := None\<rparr>" 200 payments0 "'' spring-26 ''"]
    promo_world_facts [of "promo0\<lparr>pc_max_uses := None\<rparr>"] promo_facts
  by (auto simp: code_row_def promos_ok_def promo_row_ok_def promo0_def uuid_nil_def
      in_int64_def int64_min_def int64_max_def)

text \<open>
  C38. A limit on the uses of a code does not bound the credits: when another request uses the
  code up between the look-up and the increment of a redemption, the increment hits no row but
  reports success, because the counter it reads back is not zero; the user is credited, and the
  counter stays at the limit.
\<close>

theorem RedeemPromoCode_race_exceeds_limit:
  assumes "sched w = [Quiet, Other g]" "validatePromoCode (canonical_code raw) = Inr ()"
    "code_row t raw (wdb w) = Some row" "redeemable (db_now (wdb w)) row"
    "promos_ok (g (wdb w))" "r \<in> set (promos (g (wdb w)))" "pc_tenant r = t" "pc_id r = pc_id row"
    "pc_max_uses r = Some (pc_used r)" "0 < pc_used r"
    "u \<noteq> uuid_nil" "0 < pc_credit row" "currency_ok (ps_billing s) (pc_currency row)"
    "fk_ok t u (g (wdb w))" "in_int64 (balance_of t u (ledger (g (wdb w))) + pc_credit row)"
  shows "\<exists>credit w'. run_state (RedeemPromoCode s (Some t) t u raw) w = (Inr credit, w') \<and>
    posted t credit (g (wdb w)) (wdb w') \<and> le_amount credit = pc_credit row \<and>
    promos (wdb w') = promos (g (wdb w))"
proof -
  let ?d = "g (wdb w)"
  have dist: "distinct (map pc_id (promos ?d))" using assms(5) by (simp add: promos_ok_def)
  have only: "\<not> (is_promo t (pc_id row) q \<and> promo_usable q)" if "q \<in> set (promos ?d)" for q
  proof
    assume q: "is_promo t (pc_id row) q \<and> promo_usable q"
    then have "q = r" using that assms(6,8) dist by (auto simp: is_promo_def distinct_map inj_on_def)
    then show False using q assms(9) by (simp add: promo_usable_def)
  qed
  then have "sql_update (\<lambda>r. is_promo t (pc_id row) r \<and> promo_usable r) f (promos ?d) = promos ?d" for f
    unfolding sql_update_def by (intro map_idI) auto
  moreover have "\<not> list_ex (\<lambda>r. (is_promo t (pc_id row) r \<and> promo_usable r) \<and> pc_used r \<ge> 2147483647)
      (promos ?d)"
    using only unfolding list_ex_iff by blast
  ultimately have inc: "sql_increment_use (pc_id row) t ?d = (Inr (), ?d)"
    by (simp add: sql_increment_use_def Let_def)
  have after: "find (is_promo t (pc_id row)) (promos ?d) = Some r"
    using find_promo [OF dist assms(6,7)] assms(8) by simp
  obtain credit w' where "run_state (RedeemPromoCode s (Some t) t u raw) w = (Inr credit, w')"
    "posted t credit ?d (wdb w')" "le_amount credit = pc_credit row"
    "pay_tables (wdb w') = pay_tables ?d"
    using run_redeem [OF disjI2 [OF assms(1)] assms(2-4) inc after _ assms(11-15)] assms(10)
    by (metis less_irrefl)
  then show ?thesis by (auto simp: pay_tables_def)
qed

text \<open>The other request: it takes the only use of the code.\<close>

definition take_use :: "db \<Rightarrow> db" where
  "take_use d = snd (sql_increment_use 7 100 d)"

lemma RedeemPromoCode_race_exceeds_limit_witness:
  "\<exists>credit w'. run_state (RedeemPromoCode payments0 (Some 100) 100 200 '' spring-26 '')
       ((promo_world promo0)\<lparr>sched := [Quiet, Other take_use]\<rparr>) = (Inr credit, w') \<and>
     le_amount credit = 500 \<and> promos (wdb w') = [promo0\<lparr>pc_used := 1\<rparr>]"
proof -
  have "take_use (wdb (promo_world promo0)) = (wdb (promo_world promo0))\<lparr>promos := [promo0\<lparr>pc_used := 1\<rparr>]\<rparr>"
    by (simp add: take_use_def sql_increment_use_def promo_world_facts promo0_def is_promo_def
        promo_usable_def sql_update_def Let_def)
  then show ?thesis
    using RedeemPromoCode_race_exceeds_limit [of "(promo_world promo0)\<lparr>sched := [Quiet, Other take_use]\<rparr>"
        take_use "'' spring-26 ''" 100 promo0 "promo0\<lparr>pc_used := 1\<rparr>" 200 payments0]
      promo_world_facts [of promo0] promo_facts
    by (auto simp: code_row_def redeemable_def promos_ok_def promo_row_ok_def promo0_def uuid_nil_def
        in_int64_def int64_min_def int64_max_def)
qed

section \<open>Subscriptions\<close>

definition the_sub :: "uuid \<Rightarrow> uuid \<Rightarrow> db \<Rightarrow> sub_row option" where
  "the_sub t i d = find (\<lambda>r. sb_tenant r = t \<and> sb_id r = i) (subs d)"

lemma find_sub_status:
  assumes "the_sub t i d = Some row"
  shows "the_sub t i (snd (sql_set_sub_status i st pe ca t d)) =
    Some (row\<lparr>sb_status := st, sb_period_end := pe, sb_canceled := ca\<rparr>)"
  using assms find_mapped [of "\<lambda>r. sb_tenant r = t \<and> sb_id r = i"
      "\<lambda>r. if sb_tenant r = t \<and> sb_id r = i
           then r\<lparr>sb_status := st, sb_period_end := pe, sb_canceled := ca\<rparr> else r" "subs d"]
  by (auto simp: the_sub_def sql_set_sub_status_def sql_update_def find_Some_iff)

lemma run_cancel:
  assumes "sched w = []" "the_sub t i (wdb w) = Some row" "sb_user row = u"
    "gw_cancel_sub (ps_gw s) (sb_stripe row) at_end = ok ()"
  obtains w' where "run_state (CancelSubscription s (Some t) t u i at_end) w = (Inr (), w')"
    "sched w' = []"
    "subs (wdb w') = subs (snd (sql_set_sub_status i (if at_end then ''canceled'' else ''expired'')
       (sb_period_end row) (if at_end then None else Some (db_now (wdb w))) t (wdb w)))"
proof -
  let ?m = "Some [(''cancel_at_period_end'', JBool at_end), (''plan_id'', JUuid (sb_plan row))]"
  obtain a w1 where w1: "run_state (auditEmit (ps_audit s) ''billing.subscription.cancel''
      ''billing_subscription'' t u (sb_id row) ?m) w = (a, w1)" "audited w w1" "sched w1 = []"
    by (rule auditEmit_cases [OF assms(1)])
  define d2 where "d2 = snd (sql_set_sub_status i (if at_end then ''canceled'' else ''expired'')
      (sb_period_end row) (if at_end then None else Some (db_now (wdb w1))) t (wdb w1))"
  have c: "sql_set_sub_status i (if at_end then ''canceled'' else ''expired'')
      (sb_period_end row) (if at_end then None else Some (db_now (wdb w1))) t (wdb w1) = (Inr (), d2)"
    by (simp add: d2_def sql_set_sub_status_def)
  define w2 where "w2 = w1\<lparr>wdb := d2\<rparr>"
  have "sched w2 = []" using w1(3) by (simp add: w2_def)
  then obtain w3 where w3: "run_state (auditMarkOutcome (ps_audit s) a True None) w2 = ((), w3)"
    "audited w2 w3" "sched w3 = []"
    by (rule auditMark_cases)
  define w' where "w' = snd (run_state (CancelSubscription s (Some t) t u i at_end) w)"
  have run: "run_state (CancelSubscription s (Some t) t u i at_end) w = (Inr (), w') \<and>
      sched w' = [] \<and> subs (wdb w') = subs (wdb w3)"
    using assms w1 w3(1,3) c
    by (cases at_end) (simp_all add: w'_def CancelSubscription_def Subs_Get_def Subs_SetStatus_def
        sql_one_def the_sub_def flip: w2_def)
  show thesis
    by (rule that [of w'])
      (use run auditedD [OF w1(2)] auditedD [OF w3(2)] in
        \<open>simp_all add: w2_def d2_def sql_set_sub_status_def\<close>)
qed

text \<open>
  A cancellation at the end of the period is forgotten: it marks the subscription as canceled,
  and the next \<open>customer.subscription.updated\<close> event, the one Stripe sends because of that very
  cancellation, marks it as active again.
\<close>

theorem CancelSubscription_undone_by_update:
  assumes "sched w = []" "the_sub t i (wdb w) = Some row" "sb_user row = u" "subs_ok (wdb w)"
    "gw_cancel_sub (ps_gw s) (sb_stripe row) True = ok ()"
    "se_type ev = ''customer.subscription.updated''"
    "unmarshal decode_sub (se_object ev) = Inr sub" "idsFromMetadata s (ss_meta sub) = Some (t, x)"
    "ss_id sub = sb_stripe row"
  shows "\<exists>w1 w2. run_state (CancelSubscription s (Some t) t u i True) w = (Inr (), w1) \<and>
    map_option sb_status (the_sub t i (wdb w1)) = Some ''canceled'' \<and>
    run_state (dispatchEvent s ctx ev) w1 = (Inr [], w2) \<and>
    map_option sb_status (the_sub t i (wdb w2)) = Some ''active''"
proof -
  obtain w1 where w1: "run_state (CancelSubscription s (Some t) t u i True) w = (Inr (), w1)"
    "sched w1 = []"
    "subs (wdb w1) = subs (snd (sql_set_sub_status i ''canceled'' (sb_period_end row) None t (wdb w)))"
    using run_cancel [OF assms(1-3,5)] by (metis (full_types))
  let ?row = "row\<lparr>sb_status := ''canceled'', sb_period_end := sb_period_end row, sb_canceled := None\<rparr>"
  have r: "the_sub t i (wdb w1) = Some ?row"
    using find_sub_status [OF assms(2), of "''canceled''" "sb_period_end row" None] w1(3)
    by (simp add: the_sub_def)
  have idr: "sb_id row = i" "sb_tenant row = t" "row \<in> set (subs (wdb w))"
    using assms(2) by (auto simp: the_sub_def find_Some_iff)
  have "find (\<lambda>q. sb_tenant q = t \<and> sb_stripe q = sb_stripe row) (subs (wdb w)) = Some row"
  proof -
    obtain q where q: "find (\<lambda>q. sb_tenant q = t \<and> sb_stripe q = sb_stripe row) (subs (wdb w)) = Some q"
      using idr find_None_ex [of "\<lambda>q. sb_tenant q = t \<and> sb_stripe q = sb_stripe row" "subs (wdb w)"]
      by (auto simp: list_ex_iff)
    then have "q \<in> set (subs (wdb w))" "sb_stripe q = sb_stripe row" by (auto simp: find_Some_iff)
    then show ?thesis using q idr(3) assms(4) by (auto simp: subs_ok_def distinct_map inj_on_def)
  qed
  then have f: "find (\<lambda>q. sb_tenant q = t \<and> sb_stripe q = sb_stripe row) (subs (wdb w1)) = Some ?row"
    using find_mapped [of "\<lambda>q. sb_tenant q = t \<and> sb_stripe q = sb_stripe row"
        "\<lambda>r. if sb_tenant r = t \<and> sb_id r = i then r\<lparr>sb_status := ''canceled'',
           sb_period_end := sb_period_end row, sb_canceled := None\<rparr> else r" "subs (wdb w)"] idr w1(3)
    by (simp add: sql_set_sub_status_def sql_update_def)
  define w2 where "w2 = snd (run_state (dispatchEvent s ctx ev) w1)"
  have "run_state (dispatchEvent s ctx ev) w1 = (Inr [], w2) \<and>
      wdb w2 = snd (sql_set_sub_status i ''active'' (Some (unix_time (ss_period_end sub))) None t (wdb w1))"
    using assms(6-9) w1(2) f idr
    by (simp add: w2_def dispatchEvent_def onSubscriptionUpdated_def WithTenant_def
        Subs_GetByStripeID_def Subs_SetStatus_def sql_one_def sql_set_sub_status_def)
  then show ?thesis
    using w1(1) r find_sub_status [OF r] by auto
qed

definition sub0 :: sub_row where
  "sub0 =
     \<lparr>sb_id = 5, sb_tenant = 100, sb_user = 200, sb_plan = 3, sb_stripe = ''sub_1'',
      sb_interval = ''monthly'', sb_price = 900, sb_currency = ''USD'', sb_quota = 1000,
      sb_discount = 0, sb_status = ''active'', sb_period_end = None, sb_canceled = None,
      sb_meta = [], sb_created = 0\<rparr>"

definition plan0 :: plan_row where
  "plan0 =
     \<lparr>pl_id = 3, pl_tenant = 100, pl_slug = ''small'', pl_name = ''Small'', pl_description = '''',
      pl_interval = ''monthly'', pl_price = 900, pl_currency = ''USD'', pl_quota = 1000,
      pl_discount = 0, pl_product = Some ''prod_1'', pl_price_id = Some ''price_1'',
      pl_active = True, pl_sort = 0\<rparr>"

definition sub_world :: world where
  "sub_world = \<lparr>wdb = (empty_db 1000 [100] [200, 201])\<lparr>db_next := 8, plans := [plan0], subs := [sub0]\<rparr>,
     sched = [], events = [], pdns = []\<rparr>"

definition update_event :: stripe_event where
  "update_event =
     \<lparr>se_id = ''evt_2'', se_type = ''customer.subscription.updated'', se_api = '''',
      se_object = Some (Obj [(''id'', Text ''sub_1''), (''current_period_end'', Integer 5000),
        (''metadata'', Obj [(''tenant_id'', Text ''T''), (''user_id'', Text ''U'')])])\<rparr>"

lemma update_event_decoded:
  "unmarshal decode_sub (se_object update_event) = Inr \<lparr>ss_id = ''sub_1'', ss_period_end = 5000,
     ss_meta = Some [(''tenant_id'', Text ''T''), (''user_id'', Text ''U'')]\<rparr>"
  "idsFromMetadata payments0 (Some [(''tenant_id'', Text ''T''), (''user_id'', Text ''U'')]) = Some (100, 200)"
  by code_simp+

lemma CancelSubscription_undone_by_update_witness:
  "\<exists>w1 w2. run_state (CancelSubscription payments0 (Some 100) 100 200 5 True) sub_world = (Inr (), w1) \<and>
    map_option sb_status (the_sub 100 5 (wdb w1)) = Some ''canceled'' \<and>
    run_state (dispatchEvent payments0 None update_event) w1 = (Inr [], w2) \<and>
    map_option sb_status (the_sub 100 5 (wdb w2)) = Some ''active''"
  by (rule CancelSubscription_undone_by_update [where row = sub0 and x = 200 and
        sub = "\<lparr>ss_id = ''sub_1'', ss_period_end = 5000,
          ss_meta = Some [(''tenant_id'', Text ''T''), (''user_id'', Text ''U'')]\<rparr>"])
    (use update_event_decoded in \<open>simp_all add: sub_world_def the_sub_def sub0_def plan0_def subs_ok_def
      empty_db_def payments0_def gateway0_def update_event_def\<close>)

end
