(* ===== verification/Payments_System.thy ===== *)
theory Payments_System
  imports Payments_Claims
begin

text \<open>
  The payments service as a transition system: a step serves one request, of a user, an operator
  or Stripe, while statements of other requests commit between its database calls and calls
  fail, in any order; or one statement of another request commits alone.
\<close>

section \<open>Requests, statements, steps\<close>

datatype pay_request =
    QCustomerCard uuid string string string bool
  | QRemoveCard uuid uuid
  | QTopupIntent uuid string string int string
  | QWebhook string string
  | QCreatePlan uuid plan_params
  | QUpdatePlan uuid uuid plan_params
  | QDeletePlan uuid uuid
  | QPushPlan uuid uuid
  | QSubscribe uuid string string uuid "uuid option"
  | QCancel uuid uuid bool
  | QCreateCode uuid promo_params
  | QRevokeCode uuid uuid
  | QRedeem uuid string

definition done_with :: "'a prog \<Rightarrow> unit prog" where
  "done_with m = do { _ \<leftarrow> m; ret () }"

fun serve_pay :: "payments \<Rightarrow> ctx \<Rightarrow> uuid \<Rightarrow> pay_request \<Rightarrow> unit prog" where
  "serve_pay s ctx t (QCustomerCard u email name pm def) =
     done_with (AddPaymentMethod s ctx t u email name pm def)"
| "serve_pay s ctx t (QRemoveCard u i) = done_with (RemovePaymentMethod s ctx t u i)"
| "serve_pay s ctx t (QTopupIntent u email name amount cur) =
     done_with (CreateTopupIntent s ctx t u email name amount cur)"
| "serve_pay s ctx t (QWebhook header body) = done_with (HandleWebhook s ctx header body)"
| "serve_pay s ctx t (QCreatePlan a np) = done_with (CreatePlan s ctx t a np)"
| "serve_pay s ctx t (QUpdatePlan a i np) = done_with (UpdatePlan s ctx t a i np)"
| "serve_pay s ctx t (QDeletePlan a i) = done_with (DeletePlan s ctx t a i)"
| "serve_pay s ctx t (QPushPlan a i) = done_with (PushPlanToStripe s ctx t a i)"
| "serve_pay s ctx t (QSubscribe u email name p pm) =
     done_with (CreateSubscription s ctx t u email name p pm)"
| "serve_pay s ctx t (QCancel u i at_end) = done_with (CancelSubscription s ctx t u i at_end)"
| "serve_pay s ctx t (QCreateCode a cp) = done_with (CreatePromoCode s ctx t a cp)"
| "serve_pay s ctx t (QRevokeCode a i) = done_with (RevokePromoCode s ctx t a i)"
| "serve_pay s ctx t (QRedeem u code) = done_with (RedeemPromoCode s ctx t u code)"

inductive pay_statement :: "(db \<Rightarrow> db) \<Rightarrow> bool" where
  post: "lp_type p = ''credit'' \<or> lp_type p = ''debit'' \<Longrightarrow> 0 < lp_amount p \<Longrightarrow>
     pay_statement (\<lambda>d. snd (sql_create_ledger p t d))"
| cache: "pay_statement (\<lambda>d. snd (sql_upsert_balance u c cur ts t d))"
| audit: "pay_statement (\<lambda>d. snd (sql_create_audit row d))"
| outcome: "pay_statement (\<lambda>d. snd (sql_create_outcome i st m d))"
| plan_new: "pay_statement (\<lambda>d. snd (sql_create_plan np t d))"
| plan_edit: "pay_statement (\<lambda>d. snd (sql_update_plan i np t d))"
| plan_push: "pay_statement (\<lambda>d. snd (sql_set_stripe_ids i a b t d))"
| plan_drop: "pay_statement (\<lambda>d. snd (sql_delete_plan i t d))"
| card_new: "pay_statement (\<lambda>d. snd (sql_create_pm mp t d))"
| card_clear: "pay_statement (\<lambda>d. snd (sql_clear_default u t d))"
| card_mark: "pay_statement (\<lambda>d. snd (sql_mark_default i t d))"
| card_drop: "pay_statement (\<lambda>d. snd (sql_deactivate_pm i t d))"
| sub_new: "pay_statement (\<lambda>d. snd (sql_create_sub up t d))"
| sub_set: "pay_statement (\<lambda>d. snd (sql_set_sub_status i st pe ca t d))"
| code_new: "pay_statement (\<lambda>d. snd (sql_create_promo cp t d))"
| code_use: "pay_statement (\<lambda>d. snd (sql_increment_use i t d))"
| code_revoke: "pay_statement (\<lambda>d. snd (sql_revoke_promo i t d))"
| hook_new: "pay_statement (\<lambda>d. snd (sql_create_webhook hp d))"
| hook_mark: "(\<And>now r. wh_id (f now r) = wh_id r \<and> wh_stripe (f now r) = wh_stripe r) \<Longrightarrow>
     pay_statement (\<lambda>d. snd (sql_mark_webhook f i t d))"
| clock: "pay_statement (\<lambda>d. d\<lparr>db_now := db_now d + int n\<rparr>)"

inductive pay_step :: "payments \<Rightarrow> db \<Rightarrow> db \<Rightarrow> bool" for s :: payments where
  request: "\<forall>g. Other g \<in> set (sched w) \<longrightarrow> pay_statement g \<Longrightarrow>
     pay_step s (wdb w) (wdb (snd (run_state (serve_pay s ctx t req) w)))"
| other: "pay_statement g \<Longrightarrow> pay_step s d (g d)"

inductive_cases pay_step_cases: "pay_step s d d'"

section \<open>Invariants of the system\<close>

locale payments_system = payments_invariant J for J :: "db \<Rightarrow> bool" +
  assumes clock: "J d \<Longrightarrow> J (d\<lparr>db_now := n\<rparr>)"
begin

lemmas statements =
  ledger_insert balance_upsert preserved_sql_create_audit [OF no_audit]
  preserved_sql_create_outcome [OF no_audit] plan_insert plan_update plan_stripe_ids plan_delete
  pm_insert pm_clear pm_mark pm_deactivate sub_insert sub_status promo_insert promo_use
  promo_revoke webhook_insert webhook_mark

lemma pay_statement_keeps: "pay_statement g \<Longrightarrow> J d \<Longrightarrow> J (g d)"
  by (induction rule: pay_statement.induct)
    (rule statements [unfolded preserved_def, rule_format] clock; simp; fail)+

lemma keeps_serve_pay: "gateway_keeps J s \<Longrightarrow> keeps (stable J) (serve_pay s ctx t req)"
  by (cases req)
    (auto simp: done_with_def intro!: keeps_rules keeps_payment_methods keeps_HandleWebhook keeps_plans
      keeps_push keeps_subscriptions keeps_promos)

lemma pay_steps_keep:
  assumes "gateway_keeps J s" "(pay_step s)\<^sup>*\<^sup>* d d'"
  shows "J d \<Longrightarrow> J d'"
  using assms(2)
proof (induction rule: rtranclp_induct)
  case (step d1 d2)
  from step.hyps(2) show ?case
  proof (cases rule: pay_step.cases)
    case (request w ctx t req)
    then have "stable J w"
      using step by (auto simp: stable_def honors_def pay_statement_keeps)
    then show ?thesis
      using request stable_db [OF keepsD [OF keeps_serve_pay [OF assms(1)]]] by simp
  next
    case (other g)
    then show ?thesis using step pay_statement_keeps by simp
  qed
qed simp

end

interpretation pms_sys: payments_system pms_ok
  by unfold_locales (simp add: pms_ok_def)

interpretation promos_sys: payments_system promos_ok
  by unfold_locales (simp add: promos_ok_def)

interpretation subs_sys: payments_system subs_ok
  by unfold_locales (simp add: subs_ok_def)

interpretation webhooks_sys: payments_system webhooks_ok
  by unfold_locales (simp add: webhooks_ok_def)

interpretation ledger_pay_sys: payments_system ledger_ok
  by unfold_locales (simp add: ledger_ok_def)

text \<open>A gateway that leaves the world alone.\<close>

definition remote_only :: "payments \<Rightarrow> bool" where
  "remote_only s \<longleftrightarrow> (\<forall>J. gateway_keeps J s)"

text \<open>
  C5. In every database reachable from an empty one through any payment requests and webhooks,
  in any interleaving and with any failures: a user has at most one default payment method and
  no card is stored twice; no promo code is counted as used beyond its limit; every subscription
  refers to an existing plan; no Stripe event and no Stripe subscription is recorded twice; and
  the ledger is well formed.
\<close>

theorem reachable_payment_tables_ok:
  assumes "remote_only s" "(pay_step s)\<^sup>*\<^sup>* (empty_db now tenants users) d"
  shows "pms_ok d \<and> promos_ok d \<and> subs_ok d \<and> webhooks_ok d \<and> ledger_ok d"
proof -
  let ?e = "empty_db now tenants users"
  have e: "pms_ok ?e" "promos_ok ?e" "subs_ok ?e" "webhooks_ok ?e" "ledger_ok ?e"
    by (simp_all add: empty_db_def pms_ok_def promos_ok_def subs_ok_def webhooks_ok_def ledger_ok_def)
  have g: "gateway_keeps J s" for J using assms(1) by (simp add: remote_only_def)
  show ?thesis
    using pms_sys.pay_steps_keep [OF g assms(2) e(1)] promos_sys.pay_steps_keep [OF g assms(2) e(2)]
      subs_sys.pay_steps_keep [OF g assms(2) e(3)] webhooks_sys.pay_steps_keep [OF g assms(2) e(4)]
      ledger_pay_sys.pay_steps_keep [OF g assms(2) e(5)] by blast
qed

lemma payments0_remote: "remote_only payments0"
  by (auto simp: remote_only_def gateway_keeps_def payments0_def gateway0_def packages0_def
      intro!: keeps_rules)

lemma reachable_payment_tables_ok_witness:
  "webhooks_ok (wdb (snd (run_state (serve_pay payments0 None 100 (QWebhook header0 ''{pi}''))
     (world_pay\<lparr>sched := [Quiet, Quiet, Fault]\<rparr>))))"
proof -
  let ?w = "world_pay\<lparr>sched := [Quiet, Quiet, Fault]\<rparr>"
  have "pay_step payments0 (wdb ?w)
      (wdb (snd (run_state (serve_pay payments0 None 100 (QWebhook header0 ''{pi}'')) ?w)))"
    by (rule pay_step.request) simp
  then have "(pay_step payments0)\<^sup>*\<^sup>* (empty_db (101 * 1000000000) [100] [200, 201])
      (wdb (snd (run_state (serve_pay payments0 None 100 (QWebhook header0 ''{pi}'')) ?w)))"
    by (simp add: world_pay_def)
  then show ?thesis using reachable_payment_tables_ok [OF payments0_remote] by blast
qed

end
