(* ===== verification/AuthRepo.thy ===== *)
theory AuthRepo
  imports Store
begin

text \<open>
  \<^verbatim>\<open>database/users_repo.go\<close>, \<^verbatim>\<open>tenants_repo.go\<close>, \<^verbatim>\<open>rbac_repo.go\<close>, \<^verbatim>\<open>memberships_repo.go\<close>,
  \<^verbatim>\<open>sessions_repo.go\<close>, \<^verbatim>\<open>tokens_repo.go\<close> and \<^verbatim>\<open>email_tokens_repo.go\<close>:
  the repositories of identities and access rights, on
  the statements of \<^verbatim>\<open>database/queries\<close> with the constraints of migrations 0001 to 0009.
  The searches of users by pattern are left out. A listing that orders by a text column takes the
  collation of the database as the parameter \<open>coll\<close>, the rank of a text in it.
\<close>

section \<open>Users\<close>

record user_params =
  cu_email :: string
  cu_hash :: "string option"
  cu_active :: "bool option"
  cu_name :: "string option"
  cu_locale :: string

definition live_email :: "string \<Rightarrow> user_row \<Rightarrow> bool" where
  "live_email m r \<longleftrightarrow> us_email r = m \<and> us_deleted r = None"

definition sql_create_user :: "user_params \<Rightarrow> db \<Rightarrow> user_row result \<times> db" where
  "sql_create_user p d =
     (if list_ex (live_email (cu_email p)) (user_rows d) then (Inl (Pg UniqueViolation), d)
      else let row = \<lparr>us_id = db_next d, us_email = cu_email p, us_hash = cu_hash p,
                      us_active = (case cu_active p of None \<Rightarrow> True | Some b \<Rightarrow> b),
                      us_name = cu_name p, us_locale = cu_locale p, us_verified = None,
                      us_deleted = None, us_created = db_now d\<rparr>
           in (Inr row, d\<lparr>db_next := Suc (db_next d), db_users := db_users d @ [us_id row],
                          user_rows := user_rows d @ [row]\<rparr>))"

definition Users_Create :: "user_params \<Rightarrow> user_row result prog" where
  "Users_Create arg =
     db_call (sql_create_user (arg\<lparr>cu_locale := (if cu_locale arg = '''' then ''en'' else cu_locale arg)\<rparr>))"

definition Users_GetByID :: "uuid \<Rightarrow> user_row result prog" where
  "Users_GetByID i = db_call (read_db (\<lambda>d. sql_one (\<lambda>r. us_id r = i) (user_rows d)))"

definition Users_GetByEmail :: "string \<Rightarrow> user_row result prog" where
  "Users_GetByEmail m = db_call (read_db (\<lambda>d. sql_one (live_email m) (user_rows d)))"

definition Users_List :: "int \<Rightarrow> int \<Rightarrow> user_row list result prog" where
  "Users_List limit offset = db_call (read_db (\<lambda>d. sql_page limit offset
     (sort_key (\<lambda>r. - us_created r) (filter (\<lambda>r. us_deleted r = None) (user_rows d)))))"

definition Users_Count :: "int result prog" where
  "Users_Count = db_call (read_db (\<lambda>d. Inr (sql_count (\<lambda>r. us_deleted r = None) (user_rows d))))"

definition sql_update_users :: "(user_row \<Rightarrow> bool) \<Rightarrow> (db \<Rightarrow> user_row \<Rightarrow> user_row) \<Rightarrow> db \<Rightarrow> unit result \<times> db" where
  "sql_update_users hit f d = (Inr (), d\<lparr>user_rows := sql_update hit (f d) (user_rows d)\<rparr>)"

definition Users_UpdatePassword :: "uuid \<Rightarrow> string \<Rightarrow> unit result prog" where
  "Users_UpdatePassword i h =
     db_call (sql_update_users (\<lambda>r. us_id r = i) (\<lambda>_ r. r\<lparr>us_hash := Some h\<rparr>))"

definition Users_UpdateDisplayName :: "uuid \<Rightarrow> string option \<Rightarrow> unit result prog" where
  "Users_UpdateDisplayName i n =
     db_call (sql_update_users (\<lambda>r. us_id r = i) (\<lambda>_ r. r\<lparr>us_name := n\<rparr>))"

definition Users_VerifyEmail :: "uuid \<Rightarrow> unit result prog" where
  "Users_VerifyEmail i =
     db_call (sql_update_users (\<lambda>r. us_id r = i \<and> us_verified r = None)
       (\<lambda>d r. r\<lparr>us_verified := Some (db_now d)\<rparr>))"

text \<open>The unique index on addresses also guards the update of one.\<close>

definition sql_update_email :: "uuid \<Rightarrow> string \<Rightarrow> db \<Rightarrow> unit result \<times> db" where
  "sql_update_email i m d =
     (if list_ex (\<lambda>r. us_id r = i \<and> us_deleted r = None) (user_rows d) \<and>
         list_ex (\<lambda>r. us_id r \<noteq> i \<and> live_email m r) (user_rows d)
      then (Inl (Pg UniqueViolation), d)
      else sql_update_users (\<lambda>r. us_id r = i)
             (\<lambda>d r. r\<lparr>us_email := m, us_verified := Some (db_now d)\<rparr>) d)"

definition Users_UpdateEmail :: "uuid \<Rightarrow> string \<Rightarrow> unit result prog" where
  "Users_UpdateEmail i m = db_call (sql_update_email i m)"

definition Users_UpdateLocale :: "uuid \<Rightarrow> string \<Rightarrow> unit result prog" where
  "Users_UpdateLocale i l =
     db_call (sql_update_users (\<lambda>r. us_id r = i) (\<lambda>_ r. r\<lparr>us_locale := l\<rparr>))"

definition Users_SoftDelete :: "uuid \<Rightarrow> unit result prog" where
  "Users_SoftDelete i =
     db_call (sql_update_users (\<lambda>r. us_id r = i \<and> us_deleted r = None)
       (\<lambda>d r. r\<lparr>us_deleted := Some (db_now d), us_active := False\<rparr>))"

definition Users_SetActive :: "uuid \<Rightarrow> bool \<Rightarrow> unit result prog" where
  "Users_SetActive i b =
     db_call (sql_update_users (\<lambda>r. us_id r = i \<and> us_deleted r = None)
       (\<lambda>_ r. r\<lparr>us_active := b\<rparr>))"

section \<open>Tenants\<close>

definition sql_create_tenant :: "string \<Rightarrow> string \<Rightarrow> bool \<Rightarrow> db \<Rightarrow> tenant_row result \<times> db" where
  "sql_create_tenant slug name active d =
     (if list_ex (\<lambda>r. tn_slug r = slug \<and> tn_deleted r = None) (tenant_rows d)
      then (Inl (Pg UniqueViolation), d)
      else let row = \<lparr>tn_id = db_next d, tn_slug = slug, tn_name = name, tn_active = active,
                      tn_deleted = None, tn_created = db_now d\<rparr>
           in (Inr row, d\<lparr>db_next := Suc (db_next d), db_tenants := db_tenants d @ [tn_id row],
                          tenant_rows := tenant_rows d @ [row]\<rparr>))"

definition Tenants_Create :: "string \<Rightarrow> string \<Rightarrow> bool option \<Rightarrow> tenant_row result prog" where
  "Tenants_Create slug name active =
     db_call (sql_create_tenant slug name (case active of None \<Rightarrow> True | Some b \<Rightarrow> b))"

definition Tenants_GetByID :: "uuid \<Rightarrow> tenant_row result prog" where
  "Tenants_GetByID i = db_call (read_db (\<lambda>d. sql_one (\<lambda>r. tn_id r = i) (tenant_rows d)))"

definition Tenants_GetBySlug :: "string \<Rightarrow> tenant_row result prog" where
  "Tenants_GetBySlug slug = db_call (read_db (\<lambda>d.
     sql_one (\<lambda>r. tn_slug r = slug \<and> tn_deleted r = None) (tenant_rows d)))"

definition Tenants_List :: "int \<Rightarrow> int \<Rightarrow> tenant_row list result prog" where
  "Tenants_List limit offset = db_call (read_db (\<lambda>d. sql_page limit offset
     (sort_key (\<lambda>r. - tn_created r) (filter (\<lambda>r. tn_deleted r = None) (tenant_rows d)))))"

definition Tenants_Count :: "int result prog" where
  "Tenants_Count =
     db_call (read_db (\<lambda>d. Inr (sql_count (\<lambda>r. tn_deleted r = None) (tenant_rows d))))"

definition Tenants_SetActive :: "uuid \<Rightarrow> bool \<Rightarrow> unit result prog" where
  "Tenants_SetActive i b = db_call (\<lambda>d. (Inr (), d\<lparr>tenant_rows :=
     sql_update (\<lambda>r. tn_id r = i) (\<lambda>r. r\<lparr>tn_active := b\<rparr>) (tenant_rows d)\<rparr>))"

definition Tenants_SoftDelete :: "uuid \<Rightarrow> unit result prog" where
  "Tenants_SoftDelete i = db_call (\<lambda>d. (Inr (), d\<lparr>tenant_rows :=
     sql_update (\<lambda>r. tn_id r = i \<and> tn_deleted r = None)
       (\<lambda>r. r\<lparr>tn_deleted := Some (db_now d), tn_active := False\<rparr>) (tenant_rows d)\<rparr>))"

section \<open>Roles and permissions\<close>

record role_params =
  cr_slug :: string
  cr_name :: string
  cr_desc :: "string option"
  cr_system :: "bool option"

definition live_role :: "string \<Rightarrow> role_row \<Rightarrow> bool" where
  "live_role slug r \<longleftrightarrow> rl_slug r = slug \<and> rl_deleted r = None"

definition sql_create_role :: "role_params \<Rightarrow> db \<Rightarrow> role_row result \<times> db" where
  "sql_create_role p d =
     (if list_ex (live_role (cr_slug p)) (roles d) then (Inl (Pg UniqueViolation), d)
      else let row = \<lparr>rl_id = db_next d, rl_slug = cr_slug p, rl_name = cr_name p,
                      rl_desc = (case cr_desc p of None \<Rightarrow> '''' | Some s \<Rightarrow> s),
                      rl_system = (case cr_system p of None \<Rightarrow> False | Some b \<Rightarrow> b),
                      rl_deleted = None, rl_created = db_now d\<rparr>
           in (Inr row, d\<lparr>db_next := Suc (db_next d), roles := roles d @ [row]\<rparr>))"

definition RBAC_CreateRole :: "role_params \<Rightarrow> role_row result prog" where
  "RBAC_CreateRole p = db_call (sql_create_role p)"

definition RBAC_GetRoleByID :: "uuid \<Rightarrow> role_row result prog" where
  "RBAC_GetRoleByID i = db_call (read_db (\<lambda>d. sql_one (\<lambda>r. rl_id r = i) (roles d)))"

definition RBAC_GetRoleBySlug :: "string \<Rightarrow> role_row result prog" where
  "RBAC_GetRoleBySlug slug = db_call (read_db (\<lambda>d. sql_one (live_role slug) (roles d)))"

definition RBAC_ListRoles :: "role_row list result prog" where
  "RBAC_ListRoles = db_call (read_db (\<lambda>d.
     Inr (sort_key (\<lambda>r. - rl_created r) (filter (\<lambda>r. rl_deleted r = None) (roles d)))))"

definition sql_create_permission :: "string \<Rightarrow> string \<Rightarrow> db \<Rightarrow> perm_row result \<times> db" where
  "sql_create_permission slug desc d =
     (if list_ex (\<lambda>r. pe_slug r = slug) (permissions d) then (Inl (Pg UniqueViolation), d)
      else let row = \<lparr>pe_id = db_next d, pe_slug = slug, pe_desc = desc\<rparr>
           in (Inr row, d\<lparr>db_next := Suc (db_next d), permissions := permissions d @ [row]\<rparr>))"

definition RBAC_CreatePermission :: "string \<Rightarrow> string option \<Rightarrow> perm_row result prog" where
  "RBAC_CreatePermission slug desc =
     db_call (sql_create_permission slug (case desc of None \<Rightarrow> '''' | Some s \<Rightarrow> s))"

definition RBAC_GetPermissionBySlug :: "string \<Rightarrow> perm_row result prog" where
  "RBAC_GetPermissionBySlug slug =
     db_call (read_db (\<lambda>d. sql_one (\<lambda>r. pe_slug r = slug) (permissions d)))"

definition by_slug :: "(string \<Rightarrow> int) \<Rightarrow> perm_row list \<Rightarrow> perm_row list" where
  "by_slug coll = sort_key (\<lambda>p. coll (pe_slug p))"

definition RBAC_ListPermissions :: "(string \<Rightarrow> int) \<Rightarrow> perm_row list result prog" where
  "RBAC_ListPermissions coll = db_call (read_db (\<lambda>d. Inr (by_slug coll (permissions d))))"

definition role_permissions :: "uuid \<Rightarrow> db \<Rightarrow> perm_row list" where
  "role_permissions r d = filter (\<lambda>p. (r, pe_id p) \<in> set (grants d)) (permissions d)"

definition RBAC_ListPermissionsForRole :: "(string \<Rightarrow> int) \<Rightarrow> uuid \<Rightarrow> perm_row list result prog" where
  "RBAC_ListPermissionsForRole coll r =
     db_call (read_db (\<lambda>d. Inr (by_slug coll (role_permissions r d))))"

text \<open>\<^verbatim>\<open>ON CONFLICT DO NOTHING\<close>; the foreign keys are checked when a row is inserted.\<close>

definition sql_grant :: "uuid \<Rightarrow> uuid \<Rightarrow> db \<Rightarrow> unit result \<times> db" where
  "sql_grant r p d =
     (if (r, p) \<in> set (grants d) then (Inr (), d)
      else if r \<notin> rl_id ` set (roles d) \<or> p \<notin> pe_id ` set (permissions d)
      then (Inl (Pg ForeignKeyViolation), d)
      else (Inr (), d\<lparr>grants := grants d @ [(r, p)]\<rparr>))"

definition RBAC_GrantPermissionToRole :: "uuid \<Rightarrow> uuid \<Rightarrow> unit result prog" where
  "RBAC_GrantPermissionToRole r p = db_call (sql_grant r p)"

section \<open>Memberships\<close>

definition is_member :: "uuid \<Rightarrow> uuid \<Rightarrow> member_row \<Rightarrow> bool" where
  "is_member u t r \<longleftrightarrow> mb_user r = u \<and> mb_tenant r = t \<and> mb_deleted r = None"

definition role_ref_ok :: "uuid option \<Rightarrow> db \<Rightarrow> bool" where
  "role_ref_ok r d \<longleftrightarrow> (case r of None \<Rightarrow> True | Some i \<Rightarrow> i \<in> rl_id ` set (roles d))"

definition sql_create_member :: "uuid \<Rightarrow> uuid option \<Rightarrow> uuid \<Rightarrow> db \<Rightarrow> member_row result \<times> db" where
  "sql_create_member u r t d =
     (if list_ex (is_member u t) (memberships d) then (Inl (Pg UniqueViolation), d)
      else if t \<notin> set (db_tenants d) \<or> u \<notin> set (db_users d) \<or> \<not> role_ref_ok r d
      then (Inl (Pg ForeignKeyViolation), d)
      else let row = \<lparr>mb_id = db_next d, mb_tenant = t, mb_user = u, mb_role = r,
                      mb_deleted = None, mb_created = db_now d\<rparr>
           in (Inr row, d\<lparr>db_next := Suc (db_next d), memberships := memberships d @ [row]\<rparr>))"

definition Members_Create :: "ctx \<Rightarrow> uuid \<Rightarrow> uuid option \<Rightarrow> member_row result prog" where
  "Members_Create ctx u r = tenant_call ctx (sql_create_member u r)"

definition Members_Get :: "ctx \<Rightarrow> uuid \<Rightarrow> member_row result prog" where
  "Members_Get ctx i = tenant_call ctx (\<lambda>t. read_db (\<lambda>d.
     sql_one (\<lambda>r. mb_tenant r = t \<and> mb_id r = i \<and> mb_deleted r = None) (memberships d)))"

definition Members_GetByUser :: "ctx \<Rightarrow> uuid \<Rightarrow> member_row result prog" where
  "Members_GetByUser ctx u = tenant_call ctx (\<lambda>t. read_db (\<lambda>d.
     sql_one (is_member u t) (memberships d)))"

definition Members_ListForTenant :: "ctx \<Rightarrow> int \<Rightarrow> int \<Rightarrow> member_row list result prog" where
  "Members_ListForTenant ctx limit offset = tenant_call ctx (\<lambda>t. read_db (\<lambda>d.
     sql_page limit offset (sort_key (\<lambda>r. - mb_created r)
       (filter (\<lambda>r. mb_tenant r = t \<and> mb_deleted r = None) (memberships d)))))"

definition Members_CountForTenant :: "ctx \<Rightarrow> int result prog" where
  "Members_CountForTenant ctx = tenant_call ctx (\<lambda>t. read_db (\<lambda>d.
     Inr (sql_count (\<lambda>r. mb_tenant r = t \<and> mb_deleted r = None) (memberships d))))"

definition sql_set_role :: "uuid \<Rightarrow> uuid option \<Rightarrow> uuid \<Rightarrow> db \<Rightarrow> unit result \<times> db" where
  "sql_set_role u r t d =
     (if list_ex (is_member u t) (memberships d) \<and> \<not> role_ref_ok r d
      then (Inl (Pg ForeignKeyViolation), d)
      else (Inr (), d\<lparr>memberships :=
        sql_update (is_member u t) (\<lambda>m. m\<lparr>mb_role := r\<rparr>) (memberships d)\<rparr>))"

definition Members_SetRole :: "ctx \<Rightarrow> uuid \<Rightarrow> uuid option \<Rightarrow> unit result prog" where
  "Members_SetRole ctx u r = tenant_call ctx (sql_set_role u r)"

definition sql_delete_member :: "uuid \<Rightarrow> uuid \<Rightarrow> db \<Rightarrow> unit result \<times> db" where
  "sql_delete_member i t d = (Inr (), d\<lparr>memberships :=
     sql_update (\<lambda>r. mb_tenant r = t \<and> mb_id r = i \<and> mb_deleted r = None)
       (\<lambda>r. r\<lparr>mb_deleted := Some (db_now d)\<rparr>) (memberships d)\<rparr>)"

definition Members_SoftDelete :: "ctx \<Rightarrow> uuid \<Rightarrow> unit result prog" where
  "Members_SoftDelete ctx i = tenant_call ctx (sql_delete_member i)"

definition Members_ListForUser :: "uuid \<Rightarrow> member_row list result prog" where
  "Members_ListForUser u = db_call (read_db (\<lambda>d. Inr (sort_key (\<lambda>r. - mb_created r)
     (filter (\<lambda>r. mb_user r = u \<and> mb_deleted r = None) (memberships d)))))"

definition RoleSlugForUser :: "uuid \<Rightarrow> uuid \<Rightarrow> (string \<times> bool) result prog" where
  "RoleSlugForUser u t = do {
     m \<leftarrow> db_call (read_db (\<lambda>d. sql_one (is_member u t) (memberships d)));
     case m of
       Inl e \<Rightarrow> if IsNoRows e then ok ('''', False) else fail e
     | Inr row \<Rightarrow>
         (case mb_role row of
            None \<Rightarrow> ok ('''', True)
          | Some i \<Rightarrow> do {
              r \<leftarrow> RBAC_GetRoleByID i;
              case r of Inl e \<Rightarrow> fail e | Inr role \<Rightarrow> ok (rl_slug role, True) }) }"

definition user_permissions :: "uuid \<Rightarrow> uuid \<Rightarrow> db \<Rightarrow> perm_row list" where
  "user_permissions u t d =
     [p. p \<leftarrow> permissions d, (r, q) \<leftarrow> filter (\<lambda>(r, q). q = pe_id p) (grants d),
         m \<leftarrow> filter (\<lambda>m. is_member u t m \<and> mb_role m = Some r) (memberships d)]"

definition PermissionSlugsForUser ::
  "(string \<Rightarrow> int) \<Rightarrow> uuid \<Rightarrow> uuid \<Rightarrow> string list result prog" where
  "PermissionSlugsForUser coll u t = do {
     r \<leftarrow> db_call (read_db (\<lambda>d. Inr (by_slug coll (user_permissions u t d))));
     case r of Inl e \<Rightarrow> fail e | Inr perms \<Rightarrow> ok (map pe_slug perms) }"

section \<open>Sessions\<close>

record session_params =
  sp_user :: uuid
  sp_hash :: string
  sp_expires :: instant
  sp_agent :: "string option"
  sp_ip :: "string option"

definition sql_create_session :: "session_params \<Rightarrow> db \<Rightarrow> session_row result \<times> db" where
  "sql_create_session p d =
     (if list_ex (\<lambda>r. ss_hash r = sp_hash p) (sessions d) then (Inl (Pg UniqueViolation), d)
      else if sp_user p \<notin> set (db_users d) then (Inl (Pg ForeignKeyViolation), d)
      else let row = \<lparr>ss_id = db_next d, ss_user = sp_user p, ss_hash = sp_hash p,
                      ss_expires = sp_expires p, ss_revoked = None, ss_created = db_now d,
                      ss_seen = db_now d, ss_agent = sp_agent p, ss_ip = sp_ip p\<rparr>
           in (Inr row, d\<lparr>db_next := Suc (db_next d), sessions := sessions d @ [row]\<rparr>))"

definition Sessions_Create :: "session_params \<Rightarrow> session_row result prog" where
  "Sessions_Create p = db_call (sql_create_session p)"

definition Sessions_GetByTokenHash :: "string \<Rightarrow> session_row result prog" where
  "Sessions_GetByTokenHash h = db_call (read_db (\<lambda>d. sql_one (\<lambda>r. ss_hash r = h) (sessions d)))"

definition Sessions_Get :: "uuid \<Rightarrow> session_row result prog" where
  "Sessions_Get i = db_call (read_db (\<lambda>d. sql_one (\<lambda>r. ss_id r = i) (sessions d)))"

definition sql_touch_session :: "uuid \<Rightarrow> db \<Rightarrow> unit result \<times> db" where
  "sql_touch_session i d = (Inr (), d\<lparr>sessions :=
     sql_update (\<lambda>r. ss_id r = i) (\<lambda>r. r\<lparr>ss_seen := db_now d\<rparr>) (sessions d)\<rparr>)"

definition Sessions_Touch :: "uuid \<Rightarrow> unit result prog" where
  "Sessions_Touch i = db_call (sql_touch_session i)"

definition sql_revoke_sessions :: "(session_row \<Rightarrow> bool) \<Rightarrow> db \<Rightarrow> unit result \<times> db" where
  "sql_revoke_sessions hit d = (Inr (), d\<lparr>sessions :=
     sql_update (\<lambda>r. hit r \<and> ss_revoked r = None) (\<lambda>r. r\<lparr>ss_revoked := Some (db_now d)\<rparr>)
       (sessions d)\<rparr>)"

definition Sessions_Revoke :: "uuid \<Rightarrow> unit result prog" where
  "Sessions_Revoke i = db_call (sql_revoke_sessions (\<lambda>r. ss_id r = i))"

definition Sessions_RevokeAllForUser :: "uuid \<Rightarrow> unit result prog" where
  "Sessions_RevokeAllForUser u = db_call (sql_revoke_sessions (\<lambda>r. ss_user r = u))"

definition Sessions_ListForUser :: "uuid \<Rightarrow> session_row list result prog" where
  "Sessions_ListForUser u = db_call (read_db (\<lambda>d. Inr (sort_key (\<lambda>r. - ss_created r)
     (filter (\<lambda>r. ss_user r = u \<and> ss_revoked r = None) (sessions d)))))"

section \<open>Refresh tokens and personal access tokens\<close>

record refresh_params =
  rp_user :: uuid
  rp_session :: uuid
  rp_family :: uuid
  rp_hash :: string
  rp_expires :: instant
  rp_agent :: "string option"
  rp_ip :: "string option"

definition sql_create_refresh :: "refresh_params \<Rightarrow> db \<Rightarrow> refresh_row result \<times> db" where
  "sql_create_refresh p d =
     (if list_ex (\<lambda>r. rt_hash r = rp_hash p) (refresh_tokens d) then (Inl (Pg UniqueViolation), d)
      else if rp_user p \<notin> set (db_users d) \<or> rp_session p \<notin> ss_id ` set (sessions d)
      then (Inl (Pg ForeignKeyViolation), d)
      else let row = \<lparr>rt_id = db_next d, rt_user = rp_user p, rt_session = rp_session p,
                      rt_family = rp_family p, rt_hash = rp_hash p, rt_expires = rp_expires p,
                      rt_revoked = None, rt_agent = rp_agent p, rt_ip = rp_ip p\<rparr>
           in (Inr row, d\<lparr>db_next := Suc (db_next d), refresh_tokens := refresh_tokens d @ [row]\<rparr>))"

definition Tokens_CreateRefreshToken :: "refresh_params \<Rightarrow> refresh_row result prog" where
  "Tokens_CreateRefreshToken p = db_call (sql_create_refresh p)"

definition Tokens_GetRefreshTokenByHash :: "string \<Rightarrow> refresh_row result prog" where
  "Tokens_GetRefreshTokenByHash h =
     db_call (read_db (\<lambda>d. sql_one (\<lambda>r. rt_hash r = h) (refresh_tokens d)))"

definition sql_revoke_refresh :: "(refresh_row \<Rightarrow> bool) \<Rightarrow> db \<Rightarrow> unit result \<times> db" where
  "sql_revoke_refresh hit d = (Inr (), d\<lparr>refresh_tokens :=
     sql_update (\<lambda>r. hit r \<and> rt_revoked r = None) (\<lambda>r. r\<lparr>rt_revoked := Some (db_now d)\<rparr>)
       (refresh_tokens d)\<rparr>)"

definition Tokens_RevokeRefreshToken :: "string \<Rightarrow> unit result prog" where
  "Tokens_RevokeRefreshToken h = db_call (sql_revoke_refresh (\<lambda>r. rt_hash r = h))"

definition Tokens_RevokeRefreshTokenFamily :: "uuid \<Rightarrow> unit result prog" where
  "Tokens_RevokeRefreshTokenFamily f = db_call (sql_revoke_refresh (\<lambda>r. rt_family r = f))"

definition Tokens_RevokeRefreshTokensForSession :: "uuid \<Rightarrow> unit result prog" where
  "Tokens_RevokeRefreshTokensForSession i = db_call (sql_revoke_refresh (\<lambda>r. rt_session r = i))"

definition Tokens_RevokeAllRefreshTokensForUser :: "uuid \<Rightarrow> unit result prog" where
  "Tokens_RevokeAllRefreshTokensForUser u = db_call (sql_revoke_refresh (\<lambda>r. rt_user r = u))"

record pat_params =
  tk_user :: uuid
  tk_name :: string
  tk_hash :: string
  tk_expires :: "instant option"
  tk_scopes :: "string list"

definition sql_create_pat :: "pat_params \<Rightarrow> db \<Rightarrow> pat_row result \<times> db" where
  "sql_create_pat p d =
     (if list_ex (\<lambda>r. pt_hash r = tk_hash p) (pats d) then (Inl (Pg UniqueViolation), d)
      else if tk_user p \<notin> set (db_users d) then (Inl (Pg ForeignKeyViolation), d)
      else let row = \<lparr>pt_id = db_next d, pt_user = tk_user p, pt_name = tk_name p,
                      pt_hash = tk_hash p, pt_expires = tk_expires p, pt_revoked = None,
                      pt_used = None, pt_scopes = tk_scopes p, pt_created = db_now d\<rparr>
           in (Inr row, d\<lparr>db_next := Suc (db_next d), pats := pats d @ [row]\<rparr>))"

definition Tokens_CreatePAT :: "pat_params \<Rightarrow> pat_row result prog" where
  "Tokens_CreatePAT p = db_call (sql_create_pat p)"

definition Tokens_GetPATByHash :: "string \<Rightarrow> pat_row result prog" where
  "Tokens_GetPATByHash h = db_call (read_db (\<lambda>d. sql_one (\<lambda>r. pt_hash r = h) (pats d)))"

definition Tokens_GetPATByID :: "uuid \<Rightarrow> pat_row result prog" where
  "Tokens_GetPATByID i = db_call (read_db (\<lambda>d. sql_one (\<lambda>r. pt_id r = i) (pats d)))"

definition Tokens_ListPATsForUser :: "uuid \<Rightarrow> pat_row list result prog" where
  "Tokens_ListPATsForUser u = db_call (read_db (\<lambda>d. Inr (sort_key (\<lambda>r. - pt_created r)
     (filter (\<lambda>r. pt_user r = u \<and> pt_revoked r = None) (pats d)))))"

definition sql_touch_pat :: "string \<Rightarrow> db \<Rightarrow> unit result \<times> db" where
  "sql_touch_pat h d = (Inr (), d\<lparr>pats :=
     sql_update (\<lambda>r. pt_hash r = h) (\<lambda>r. r\<lparr>pt_used := Some (db_now d)\<rparr>) (pats d)\<rparr>)"

definition Tokens_TouchPAT :: "string \<Rightarrow> unit result prog" where
  "Tokens_TouchPAT h = db_call (sql_touch_pat h)"

definition sql_revoke_pats :: "(pat_row \<Rightarrow> bool) \<Rightarrow> db \<Rightarrow> unit result \<times> db" where
  "sql_revoke_pats hit d = (Inr (), d\<lparr>pats :=
     sql_update (\<lambda>r. hit r \<and> pt_revoked r = None) (\<lambda>r. r\<lparr>pt_revoked := Some (db_now d)\<rparr>)
       (pats d)\<rparr>)"

definition Tokens_RevokePAT :: "string \<Rightarrow> unit result prog" where
  "Tokens_RevokePAT h = db_call (sql_revoke_pats (\<lambda>r. pt_hash r = h))"

definition Tokens_RevokePATByID :: "uuid \<Rightarrow> uuid \<Rightarrow> unit result prog" where
  "Tokens_RevokePATByID i u = db_call (sql_revoke_pats (\<lambda>r. pt_id r = i \<and> pt_user r = u))"

section \<open>Tokens sent by email\<close>

record email_token_params =
  ep_user :: uuid
  ep_hash :: string
  ep_kind :: string
  ep_new_email :: "string option"
  ep_expires :: instant

definition EmailTokenVerifyEmail :: string where
  "EmailTokenVerifyEmail = ''verify_email''"

definition EmailTokenPasswordReset :: string where
  "EmailTokenPasswordReset = ''password_reset''"

definition EmailTokenEmailChange :: string where
  "EmailTokenEmailChange = ''email_change''"

definition sql_create_email_token :: "email_token_params \<Rightarrow> db \<Rightarrow> email_token_row result \<times> db" where
  "sql_create_email_token p d =
     (if list_ex (\<lambda>r. et_hash r = ep_hash p) (email_tokens d) then (Inl (Pg UniqueViolation), d)
      else if ep_user p \<notin> set (db_users d) then (Inl (Pg ForeignKeyViolation), d)
      else let row = \<lparr>et_id = db_next d, et_user = ep_user p, et_hash = ep_hash p,
                      et_kind = ep_kind p, et_new_email = ep_new_email p,
                      et_expires = ep_expires p, et_used = None\<rparr>
           in (Inr row, d\<lparr>db_next := Suc (db_next d), email_tokens := email_tokens d @ [row]\<rparr>))"

definition EmailTokens_Create :: "email_token_params \<Rightarrow> email_token_row result prog" where
  "EmailTokens_Create p = db_call (sql_create_email_token p)"

definition EmailTokens_GetByHash :: "string \<Rightarrow> email_token_row result prog" where
  "EmailTokens_GetByHash h =
     db_call (read_db (\<lambda>d. sql_one (\<lambda>r. et_hash r = h) (email_tokens d)))"

text \<open>The statement answers the number of rows it changed.\<close>

definition use_email_tokens :: "(email_token_row \<Rightarrow> bool) \<Rightarrow> db \<Rightarrow> db" where
  "use_email_tokens hit d = d\<lparr>email_tokens :=
     sql_update (\<lambda>r. hit r \<and> et_used r = None) (\<lambda>r. r\<lparr>et_used := Some (db_now d)\<rparr>)
       (email_tokens d)\<rparr>"

definition sql_consume_email_token :: "string \<Rightarrow> db \<Rightarrow> int result \<times> db" where
  "sql_consume_email_token h d =
     (Inr (sql_count (\<lambda>r. et_hash r = h \<and> et_used r = None) (email_tokens d)),
      use_email_tokens (\<lambda>r. et_hash r = h) d)"

definition EmailTokens_Consume :: "string \<Rightarrow> bool result prog" where
  "EmailTokens_Consume h = do {
     r \<leftarrow> db_call (sql_consume_email_token h);
     case r of Inl e \<Rightarrow> fail e | Inr n \<Rightarrow> ok (n = 1) }"

definition sql_revoke_email_tokens :: "uuid \<Rightarrow> string \<Rightarrow> db \<Rightarrow> unit result \<times> db" where
  "sql_revoke_email_tokens u kind d =
     (Inr (), use_email_tokens (\<lambda>r. et_user r = u \<and> et_kind r = kind) d)"

definition EmailTokens_RevokeForUser :: "uuid \<Rightarrow> string \<Rightarrow> unit result prog" where
  "EmailTokens_RevokeForUser u kind =
     db_call (sql_revoke_email_tokens u kind)"

end
