(* ===== verification/Rbac.thy ===== *)
theory Rbac
  imports AuthRepo
begin

text \<open>
  \<^verbatim>\<open>auth/rbac\<close>: the catalog of permissions, the default roles, the policy evaluator, the check for
  callers outside HTTP, and the seeder; \<^verbatim>\<open>program/signup.go\<close>: the tenant a new account owns.
\<close>

section \<open>The catalog\<close>

text \<open>The slugs of \<^verbatim>\<open>permissions.go\<close>, under the names the code gives them.\<close>

abbreviation PermAuthSessionCreate :: string where
  "PermAuthSessionCreate \<equiv> ''auth.session.create''"

abbreviation PermAuthSessionRevoke :: string where
  "PermAuthSessionRevoke \<equiv> ''auth.session.revoke''"

abbreviation PermAuthPatManage :: string where
  "PermAuthPatManage \<equiv> ''auth.pat.manage''"

abbreviation PermTenantRead :: string where
  "PermTenantRead \<equiv> ''tenant.read''"

abbreviation PermTenantUpdate :: string where
  "PermTenantUpdate \<equiv> ''tenant.update''"

abbreviation PermTenantDelete :: string where
  "PermTenantDelete \<equiv> ''tenant.delete''"

abbreviation PermTenantMemberList :: string where
  "PermTenantMemberList \<equiv> ''tenant.member.list''"

abbreviation PermTenantMemberInvite :: string where
  "PermTenantMemberInvite \<equiv> ''tenant.member.invite''"

abbreviation PermTenantMemberRemove :: string where
  "PermTenantMemberRemove \<equiv> ''tenant.member.remove''"

abbreviation PermTenantMemberRoleUpdate :: string where
  "PermTenantMemberRoleUpdate \<equiv> ''tenant.member.role.update''"

abbreviation PermAuditRead :: string where
  "PermAuditRead \<equiv> ''audit.read''"

abbreviation PermAuditReadGlobal :: string where
  "PermAuditReadGlobal \<equiv> ''audit.read_global''"

abbreviation PermAuditExport :: string where
  "PermAuditExport \<equiv> ''audit.export''"

abbreviation PermRBACRoleCreate :: string where
  "PermRBACRoleCreate \<equiv> ''rbac.role.create''"

abbreviation PermRBACRoleUpdate :: string where
  "PermRBACRoleUpdate \<equiv> ''rbac.role.update''"

abbreviation PermRBACRoleDelete :: string where
  "PermRBACRoleDelete \<equiv> ''rbac.role.delete''"

abbreviation PermRBACRoleList :: string where
  "PermRBACRoleList \<equiv> ''rbac.role.list''"

abbreviation PermComputeInstanceCreate :: string where
  "PermComputeInstanceCreate \<equiv> ''compute.instance.create''"

abbreviation PermComputeInstanceRead :: string where
  "PermComputeInstanceRead \<equiv> ''compute.instance.read''"

abbreviation PermComputeInstanceUpdate :: string where
  "PermComputeInstanceUpdate \<equiv> ''compute.instance.update''"

abbreviation PermComputeInstanceStart :: string where
  "PermComputeInstanceStart \<equiv> ''compute.instance.start''"

abbreviation PermComputeInstanceStop :: string where
  "PermComputeInstanceStop \<equiv> ''compute.instance.stop''"

abbreviation PermComputeInstanceRestart :: string where
  "PermComputeInstanceRestart \<equiv> ''compute.instance.restart''"

abbreviation PermComputeInstanceDelete :: string where
  "PermComputeInstanceDelete \<equiv> ''compute.instance.delete''"

abbreviation PermComputeInstanceConsoleVNC :: string where
  "PermComputeInstanceConsoleVNC \<equiv> ''compute.instance.console.vnc''"

abbreviation PermComputeInstanceConsoleExec :: string where
  "PermComputeInstanceConsoleExec \<equiv> ''compute.instance.console.exec''"

abbreviation PermComputeProfileRead :: string where
  "PermComputeProfileRead \<equiv> ''compute.profile.read''"

abbreviation PermComputeProfileApply :: string where
  "PermComputeProfileApply \<equiv> ''compute.profile.apply''"

abbreviation PermComputeImageRead :: string where
  "PermComputeImageRead \<equiv> ''compute.image.read''"

abbreviation PermComputeNetworkRead :: string where
  "PermComputeNetworkRead \<equiv> ''compute.network.read''"

abbreviation PermComputeNetworkCreate :: string where
  "PermComputeNetworkCreate \<equiv> ''compute.network.create''"

abbreviation PermComputeStoragePoolRead :: string where
  "PermComputeStoragePoolRead \<equiv> ''compute.storage_pool.read''"

abbreviation PermComputeSnapshotCreate :: string where
  "PermComputeSnapshotCreate \<equiv> ''compute.snapshot.create''"

abbreviation PermComputeSnapshotRead :: string where
  "PermComputeSnapshotRead \<equiv> ''compute.snapshot.read''"

abbreviation PermComputeSnapshotDelete :: string where
  "PermComputeSnapshotDelete \<equiv> ''compute.snapshot.delete''"

abbreviation PermComputeBackupTargetCreate :: string where
  "PermComputeBackupTargetCreate \<equiv> ''compute.backup.target.create''"

abbreviation PermComputeBackupTargetRead :: string where
  "PermComputeBackupTargetRead \<equiv> ''compute.backup.target.read''"

abbreviation PermComputeBackupTargetUpdate :: string where
  "PermComputeBackupTargetUpdate \<equiv> ''compute.backup.target.update''"

abbreviation PermComputeBackupTargetDelete :: string where
  "PermComputeBackupTargetDelete \<equiv> ''compute.backup.target.delete''"

abbreviation PermComputeBackupRead :: string where
  "PermComputeBackupRead \<equiv> ''compute.backup.read''"

abbreviation PermComputeBackupDelete :: string where
  "PermComputeBackupDelete \<equiv> ''compute.backup.delete''"

abbreviation PermComputeBackupRestore :: string where
  "PermComputeBackupRestore \<equiv> ''compute.backup.restore''"

abbreviation PermComputeSnapshotPolicyCreate :: string where
  "PermComputeSnapshotPolicyCreate \<equiv> ''compute.snapshot_policy.create''"

abbreviation PermComputeSnapshotPolicyRead :: string where
  "PermComputeSnapshotPolicyRead \<equiv> ''compute.snapshot_policy.read''"

abbreviation PermComputeSnapshotPolicyUpdate :: string where
  "PermComputeSnapshotPolicyUpdate \<equiv> ''compute.snapshot_policy.update''"

abbreviation PermComputeSnapshotPolicyDelete :: string where
  "PermComputeSnapshotPolicyDelete \<equiv> ''compute.snapshot_policy.delete''"

abbreviation PermComputeClusterMemberList :: string where
  "PermComputeClusterMemberList \<equiv> ''compute.cluster.member.list''"

abbreviation PermComputeClusterMemberEvacuate :: string where
  "PermComputeClusterMemberEvacuate \<equiv> ''compute.cluster.member.evacuate''"

abbreviation PermComputeInstanceMigrate :: string where
  "PermComputeInstanceMigrate \<equiv> ''compute.instance.migrate''"

abbreviation PermComputeIPPoolManage :: string where
  "PermComputeIPPoolManage \<equiv> ''compute.ip_pool.manage''"

abbreviation PermComputeFloatingIPManage :: string where
  "PermComputeFloatingIPManage \<equiv> ''compute.floating_ip.manage''"

abbreviation PermComputeFloatingIPRead :: string where
  "PermComputeFloatingIPRead \<equiv> ''compute.floating_ip.read''"

abbreviation PermDNSZoneCreate :: string where
  "PermDNSZoneCreate \<equiv> ''dns.zone.create''"

abbreviation PermDNSZoneRead :: string where
  "PermDNSZoneRead \<equiv> ''dns.zone.read''"

abbreviation PermDNSZoneUpdate :: string where
  "PermDNSZoneUpdate \<equiv> ''dns.zone.update''"

abbreviation PermDNSZoneDelete :: string where
  "PermDNSZoneDelete \<equiv> ''dns.zone.delete''"

abbreviation PermDNSRecordCreate :: string where
  "PermDNSRecordCreate \<equiv> ''dns.record.create''"

abbreviation PermDNSRecordRead :: string where
  "PermDNSRecordRead \<equiv> ''dns.record.read''"

abbreviation PermDNSRecordUpdate :: string where
  "PermDNSRecordUpdate \<equiv> ''dns.record.update''"

abbreviation PermDNSRecordDelete :: string where
  "PermDNSRecordDelete \<equiv> ''dns.record.delete''"

abbreviation PermDNSDomainSearch :: string where
  "PermDNSDomainSearch \<equiv> ''dns.domain.search''"

abbreviation PermDNSDomainRead :: string where
  "PermDNSDomainRead \<equiv> ''dns.domain.read''"

abbreviation PermDNSDomainRegister :: string where
  "PermDNSDomainRegister \<equiv> ''dns.domain.register''"

abbreviation PermDNSDomainRenew :: string where
  "PermDNSDomainRenew \<equiv> ''dns.domain.renew''"

abbreviation PermDNSDomainTransfer :: string where
  "PermDNSDomainTransfer \<equiv> ''dns.domain.transfer''"

abbreviation PermDNSDomainDelete :: string where
  "PermDNSDomainDelete \<equiv> ''dns.domain.delete''"

abbreviation PermS3BucketCreate :: string where
  "PermS3BucketCreate \<equiv> ''s3.bucket.create''"

abbreviation PermS3BucketRead :: string where
  "PermS3BucketRead \<equiv> ''s3.bucket.read''"

abbreviation PermS3BucketUpdate :: string where
  "PermS3BucketUpdate \<equiv> ''s3.bucket.update''"

abbreviation PermS3BucketDelete :: string where
  "PermS3BucketDelete \<equiv> ''s3.bucket.delete''"

abbreviation PermS3ObjectRead :: string where
  "PermS3ObjectRead \<equiv> ''s3.object.read''"

abbreviation PermS3ObjectDelete :: string where
  "PermS3ObjectDelete \<equiv> ''s3.object.delete''"

abbreviation PermS3CredentialsCreate :: string where
  "PermS3CredentialsCreate \<equiv> ''s3.credentials.create''"

abbreviation PermS3CredentialsRevoke :: string where
  "PermS3CredentialsRevoke \<equiv> ''s3.credentials.revoke''"

abbreviation PermS3BucketVersioning :: string where
  "PermS3BucketVersioning \<equiv> ''s3.bucket.versioning''"

abbreviation PermS3BucketLifecycle :: string where
  "PermS3BucketLifecycle \<equiv> ''s3.bucket.lifecycle''"

abbreviation PermS3BucketObjectLock :: string where
  "PermS3BucketObjectLock \<equiv> ''s3.bucket.object_lock''"

abbreviation PermBillingBalanceRead :: string where
  "PermBillingBalanceRead \<equiv> ''billing.balance.read''"

abbreviation PermBillingBalanceAdjust :: string where
  "PermBillingBalanceAdjust \<equiv> ''billing.balance.adjust''"

abbreviation PermBillingLedgerRead :: string where
  "PermBillingLedgerRead \<equiv> ''billing.ledger.read''"

abbreviation PermBillingReceiptRead :: string where
  "PermBillingReceiptRead \<equiv> ''billing.receipt.read''"

abbreviation PermBillingReceiptCreate :: string where
  "PermBillingReceiptCreate \<equiv> ''billing.receipt.create''"

abbreviation PermBillingPriceCatalogRead :: string where
  "PermBillingPriceCatalogRead \<equiv> ''billing.price_catalog.read''"

abbreviation PermBillingPriceCatalogUpdate :: string where
  "PermBillingPriceCatalogUpdate \<equiv> ''billing.price_catalog.update''"

abbreviation PermBillingPaymentMethodManage :: string where
  "PermBillingPaymentMethodManage \<equiv> ''billing.payment_method.manage''"

abbreviation PermBillingPaymentIntentCreate :: string where
  "PermBillingPaymentIntentCreate \<equiv> ''billing.payment_intent.create''"

abbreviation PermBillingSubscriptionManage :: string where
  "PermBillingSubscriptionManage \<equiv> ''billing.subscription.manage''"

abbreviation PermBillingPromoCodeRedeem :: string where
  "PermBillingPromoCodeRedeem \<equiv> ''billing.promo_code.redeem''"

abbreviation PermBillingPlanManage :: string where
  "PermBillingPlanManage \<equiv> ''billing.plan.manage''"

abbreviation PermBillingPlanRead :: string where
  "PermBillingPlanRead \<equiv> ''billing.plan.read''"

abbreviation PermBillingPromoCodeManage :: string where
  "PermBillingPromoCodeManage \<equiv> ''billing.promo_code.manage''"

abbreviation PermBillingWebhookRead :: string where
  "PermBillingWebhookRead \<equiv> ''billing.webhook.read''"

abbreviation PermPluginsRead :: string where
  "PermPluginsRead \<equiv> ''plugins.read''"

abbreviation PermPluginsInstall :: string where
  "PermPluginsInstall \<equiv> ''plugins.install''"

abbreviation PermPluginsUninstall :: string where
  "PermPluginsUninstall \<equiv> ''plugins.uninstall''"

abbreviation PermPluginsPermissionApprove :: string where
  "PermPluginsPermissionApprove \<equiv> ''plugins.permission.approve''"

abbreviation PermAgentConversationCreate :: string where
  "PermAgentConversationCreate \<equiv> ''agent.conversation.create''"

abbreviation PermAgentConversationRead :: string where
  "PermAgentConversationRead \<equiv> ''agent.conversation.read''"

abbreviation PermAgentConversationDelete :: string where
  "PermAgentConversationDelete \<equiv> ''agent.conversation.delete''"

abbreviation PermAgentMessageSend :: string where
  "PermAgentMessageSend \<equiv> ''agent.message.send''"

abbreviation PermAgentToolConfirm :: string where
  "PermAgentToolConfirm \<equiv> ''agent.tool.confirm''"

abbreviation PermAgentProviderManage :: string where
  "PermAgentProviderManage \<equiv> ''agent.provider.manage''"

abbreviation PermAgentPolicyManage :: string where
  "PermAgentPolicyManage \<equiv> ''agent.policy.manage''"

abbreviation PermPlatformUserList :: string where
  "PermPlatformUserList \<equiv> ''platform.user.list''"

abbreviation PermPlatformUserManage :: string where
  "PermPlatformUserManage \<equiv> ''platform.user.manage''"

abbreviation PermPlatformDirectoryManage :: string where
  "PermPlatformDirectoryManage \<equiv> ''platform.directory.manage''"

abbreviation PermPlatformSettingsManage :: string where
  "PermPlatformSettingsManage \<equiv> ''platform.settings.manage''"

abbreviation PermPlatformTenantCreate :: string where
  "PermPlatformTenantCreate \<equiv> ''platform.tenant.create''"

abbreviation PermPlatformTenantDelete :: string where
  "PermPlatformTenantDelete \<equiv> ''platform.tenant.delete''"

abbreviation PermPlatformJobsRead :: string where
  "PermPlatformJobsRead \<equiv> ''platform.jobs.read''"

abbreviation PermPlatformJobsRetry :: string where
  "PermPlatformJobsRetry \<equiv> ''platform.jobs.retry''"

abbreviation PermPlatformJobsCancel :: string where
  "PermPlatformJobsCancel \<equiv> ''platform.jobs.cancel''"


record permission =
  pn_slug :: string
  pn_desc :: string

abbreviation perm :: "string \<Rightarrow> string \<Rightarrow> permission" where
  "perm s d \<equiv> \<lparr>pn_slug = s, pn_desc = d\<rparr>"

definition allPermissions :: "permission list" where
  "allPermissions =
   [perm PermAuthPatManage ''Manage own personal access tokens.'',
    perm PermAuthSessionCreate ''Open a session (log in).'',
    perm PermAuthSessionRevoke (''Revoke a session (own or other'' @ [CHR 0x27] @ ''s within the tenant).''),
    perm PermAuditExport ''Export the tenant audit log (CSV/JSON).'',
    perm PermAuditRead ''Read the tenant audit log.'',
    perm PermAuditReadGlobal ''Read audit log across all tenants (superuser).'',
    perm PermRBACRoleCreate ''Create a custom role in the tenant.'',
    perm PermRBACRoleDelete ''Delete a custom role in the tenant.'',
    perm PermRBACRoleList ''List roles and their permissions.'',
    perm PermRBACRoleUpdate (''Update a role'' @ [CHR 0x27] @ ''s permission bundle.''),
    perm PermTenantDelete ''Delete the tenant.'',
    perm PermTenantMemberInvite ''Invite a user into the tenant.'',
    perm PermTenantMemberList ''List members of the tenant.'',
    perm PermTenantMemberRemove ''Remove a member from the tenant.'',
    perm PermTenantMemberRoleUpdate (''Change a member'' @ [CHR 0x27] @ ''s role.''),
    perm PermTenantRead ''View tenant metadata.'',
    perm PermTenantUpdate ''Update tenant metadata.'',
    perm PermComputeBackupDelete ''Delete an off-host backup.'',
    perm PermComputeBackupRead ''View off-host backups.'',
    perm PermComputeBackupRestore ''Restore an instance from an off-host backup.'',
    perm PermComputeBackupTargetCreate ''Create an off-host backup target.'',
    perm PermComputeBackupTargetDelete ''Delete an off-host backup target.'',
    perm PermComputeBackupTargetRead ''View off-host backup targets.'',
    perm PermComputeBackupTargetUpdate ''Update an off-host backup target.'',
    perm PermComputeClusterMemberEvacuate ''Evacuate or restore a compute cluster member (admin).'',
    perm PermComputeClusterMemberList ''List compute cluster members + their status.'',
    perm PermComputeFloatingIPManage ''Allocate / attach / detach / release floating IPs in the tenant.'',
    perm PermComputeFloatingIPRead ''View floating IPs allocated to the tenant.'',
    perm PermComputeImageRead ''List and inspect instance images.'',
    perm PermComputeInstanceConsoleExec ''Open an interactive (xterm.js) shell session to a running instance.'',
    perm PermComputeInstanceConsoleVNC ''Open a graphical (noVNC) console session to a running virtual-machine instance.'',
    perm PermComputeInstanceCreate ''Create an instance.'',
    perm PermComputeInstanceDelete ''Delete an instance.'',
    perm PermComputeInstanceMigrate ''Live-migrate an instance to a different compute cluster member.'',
    perm PermComputeInstanceRead ''View instances.'',
    perm PermComputeInstanceRestart ''Restart an instance.'',
    perm PermComputeInstanceStart ''Start an instance.'',
    perm PermComputeInstanceStop ''Stop an instance.'',
    perm PermComputeInstanceUpdate (''Update an instance'' @ [CHR 0x27] @ ''s config.''),
    perm PermComputeIPPoolManage ''Manage operator-owned IP pools + ranges (platform admin).'',
    perm PermComputeNetworkCreate ''Create a tenant network.'',
    perm PermComputeNetworkRead ''View tenant networks.'',
    perm PermComputeProfileApply ''Apply a profile to an instance.'',
    perm PermComputeProfileRead ''View instance profiles.'',
    perm PermComputeSnapshotCreate ''Take a snapshot of an instance.'',
    perm PermComputeSnapshotDelete ''Delete an instance snapshot.'',
    perm PermComputeSnapshotRead ''View instance snapshots.'',
    perm PermComputeSnapshotPolicyCreate ''Create a snapshot schedule policy.'',
    perm PermComputeSnapshotPolicyDelete ''Delete a snapshot schedule policy.'',
    perm PermComputeSnapshotPolicyRead ''View snapshot schedule policies.'',
    perm PermComputeSnapshotPolicyUpdate ''Update a snapshot schedule policy.'',
    perm PermComputeStoragePoolRead ''View storage pools.'',
    perm PermDNSDomainDelete ''Remove a domain from the tenant (does not cancel the registration).'',
    perm PermDNSDomainRead (''View the tenant'' @ [CHR 0x27] @ ''s registered domains.''),
    perm PermDNSDomainRegister (''Register a new domain (charges the user'' @ [CHR 0x27] @ ''s balance).''),
    perm PermDNSDomainRenew (''Renew a registered domain (charges the user'' @ [CHR 0x27] @ ''s balance).''),
    perm PermDNSDomainSearch ''Search available domains via the registrar.'',
    perm PermDNSDomainTransfer (''Transfer a domain from another registrar (charges the user'' @ [CHR 0x27] @ ''s balance).''),
    perm PermDNSRecordCreate ''Create a DNS record.'',
    perm PermDNSRecordDelete ''Delete a DNS record.'',
    perm PermDNSRecordRead ''View DNS records.'',
    perm PermDNSRecordUpdate ''Update a DNS record.'',
    perm PermDNSZoneCreate ''Create a DNS zone.'',
    perm PermDNSZoneDelete ''Delete a DNS zone.'',
    perm PermDNSZoneRead ''View DNS zones.'',
    perm PermDNSZoneUpdate (''Update a DNS zone'' @ [CHR 0x27] @ ''s settings.''),
    perm PermS3BucketCreate ''Create an S3 bucket.'',
    perm PermS3BucketDelete ''Delete an S3 bucket.'',
    perm PermS3BucketLifecycle ''Manage per-bucket S3 lifecycle rules.'',
    perm PermS3BucketObjectLock ''Manage per-bucket S3 object-lock policy.'',
    perm PermS3BucketRead ''View S3 buckets.'',
    perm PermS3BucketUpdate (''Update an S3 bucket'' @ [CHR 0x27] @ ''s policy or lifecycle.''),
    perm PermS3BucketVersioning ''Toggle per-bucket S3 versioning.'',
    perm PermS3CredentialsCreate ''Mint S3 credentials for the user.'',
    perm PermS3CredentialsRevoke ''Revoke S3 credentials.'',
    perm PermS3ObjectDelete ''Delete S3 objects.'',
    perm PermS3ObjectRead ''Read S3 objects.'',
    perm PermBillingBalanceAdjust (''Adjust a user'' @ [CHR 0x27] @ ''s balance (admin top-up/debit).''),
    perm PermBillingBalanceRead (''View a user'' @ [CHR 0x27] @ ''s balance.''),
    perm PermBillingLedgerRead (''View the user'' @ [CHR 0x27] @ ''s ledger entries.''),
    perm PermBillingPaymentIntentCreate ''Create a Stripe PaymentIntent to top up own balance.'',
    perm PermBillingPaymentMethodManage ''Manage own Stripe payment methods (cards).'',
    perm PermBillingPlanManage ''Create / update / delete subscription plans (admin).'',
    perm PermBillingPlanRead ''View subscription plans.'',
    perm PermBillingPriceCatalogRead ''View the price catalog.'',
    perm PermBillingPriceCatalogUpdate ''Update the price catalog.'',
    perm PermBillingPromoCodeManage ''Create / revoke admin-issued promo codes.'',
    perm PermBillingPromoCodeRedeem ''Redeem a promo code for own balance.'',
    perm PermBillingReceiptCreate ''Generate a receipt.'',
    perm PermBillingReceiptRead ''View receipts.'',
    perm PermBillingSubscriptionManage ''Create / list / cancel own subscriptions.'',
    perm PermBillingWebhookRead ''Inspect the Stripe webhook events log (admin).'',
    perm PermPluginsInstall ''Install a plugin.'',
    perm PermPluginsPermissionApprove (''Approve a plugin'' @ [CHR 0x27] @ ''s requested permissions.''),
    perm PermPluginsRead ''View installed plugins.'',
    perm PermPluginsUninstall ''Uninstall a plugin.'',
    perm PermAgentConversationCreate ''Create an agent chat conversation.'',
    perm PermAgentConversationDelete ''Delete an agent chat conversation.'',
    perm PermAgentConversationRead ''View agent chat conversations and history.'',
    perm PermAgentMessageSend ''Send a message to the agent (runs the agent loop).'',
    perm PermAgentPolicyManage (''Manage the tenant'' @ [CHR 0x27] @ ''s agent policy (allowlist, limits, denylist).''),
    perm PermAgentProviderManage (''Manage the user'' @ [CHR 0x27] @ ''s own agent model-provider keys (BYOK).''),
    perm PermAgentToolConfirm ''Approve or decline a pending agent tool call (HITL).'',
    perm PermPlatformDirectoryManage ''Manage LDAP / SAML directory connections (platform admin).'',
    perm PermPlatformJobsCancel ''Cancel any queued or running job (platform admin).'',
    perm PermPlatformJobsRead ''Inspect every queued/running/failed job across tenants (platform admin).'',
    perm PermPlatformJobsRetry (''Manually retry a discarded/DLQ'' @ [CHR 0x27] @ ''d job (platform admin).''),
    perm PermPlatformSettingsManage ''Change platform settings such as self-registration (platform admin).'',
    perm PermPlatformTenantCreate ''Create a tenant (platform admin).'',
    perm PermPlatformTenantDelete ''Delete any tenant (platform admin).'',
    perm PermPlatformUserList ''List all users (platform admin).'',
    perm PermPlatformUserManage ''Create, edit, disable and delete users (platform admin).'']"

definition AllPermissions :: "permission list" where
  "AllPermissions = allPermissions"

definition PermissionExists :: "string \<Rightarrow> bool" where
  "PermissionExists slug = list_ex (\<lambda>p. pn_slug p = slug) allPermissions"

section \<open>The default roles\<close>

definition startsWith :: "string \<Rightarrow> string \<Rightarrow> bool" where
  "startsWith s pre = (if length s < length pre then False else take (length pre) s = pre)"

definition allPermissionSlugs :: "string list" where
  "allPermissionSlugs = map pn_slug allPermissions"

definition allPermissionSlugsExceptGlobal :: "string list" where
  "allPermissionSlugsExceptGlobal =
     map pn_slug (filter (\<lambda>p. \<not> startsWith (pn_slug p) ''platform.'') allPermissions)"

record role_definition =
  rd_slug :: string
  rd_name :: string
  rd_desc :: string
  rd_perms :: "string list"
  rd_system :: bool

abbreviation RoleTenantOwner :: string where
  "RoleTenantOwner \<equiv> ''tenant.owner''"

abbreviation RoleTenantAdmin :: string where
  "RoleTenantAdmin \<equiv> ''tenant.admin''"

abbreviation RoleTenantMember :: string where
  "RoleTenantMember \<equiv> ''tenant.member''"

abbreviation RoleTenantViewer :: string where
  "RoleTenantViewer \<equiv> ''tenant.viewer''"

abbreviation RolePlatformAdmin :: string where
  "RolePlatformAdmin \<equiv> ''platform.admin''"

definition tenant_admin_permissions :: "string list" where
  "tenant_admin_permissions =
   [PermTenantRead, PermTenantUpdate, PermTenantMemberList, PermTenantMemberInvite,
    PermTenantMemberRemove, PermTenantMemberRoleUpdate, PermAuditRead, PermAuditExport,
    PermRBACRoleCreate, PermRBACRoleUpdate, PermRBACRoleDelete, PermRBACRoleList,
    PermAuthPatManage, PermAuthSessionCreate, PermAuthSessionRevoke,
    PermComputeInstanceCreate, PermComputeInstanceRead, PermComputeInstanceUpdate,
    PermComputeInstanceStart, PermComputeInstanceStop, PermComputeInstanceRestart,
    PermComputeInstanceDelete, PermComputeInstanceConsoleVNC,
    PermComputeInstanceConsoleExec, PermComputeProfileRead, PermComputeProfileApply,
    PermComputeImageRead, PermComputeNetworkRead, PermComputeNetworkCreate,
    PermComputeStoragePoolRead, PermComputeSnapshotCreate, PermComputeSnapshotRead,
    PermComputeSnapshotDelete, PermComputeBackupTargetCreate, PermComputeBackupTargetRead,
    PermComputeBackupTargetUpdate, PermComputeBackupTargetDelete, PermComputeBackupRead,
    PermComputeBackupDelete, PermComputeBackupRestore, PermComputeSnapshotPolicyCreate,
    PermComputeSnapshotPolicyRead, PermComputeSnapshotPolicyUpdate,
    PermComputeSnapshotPolicyDelete, PermComputeClusterMemberList,
    PermComputeClusterMemberEvacuate, PermComputeInstanceMigrate,
    PermComputeFloatingIPManage, PermComputeFloatingIPRead, PermDNSZoneCreate,
    PermDNSZoneRead, PermDNSZoneUpdate, PermDNSZoneDelete, PermDNSRecordCreate,
    PermDNSRecordRead, PermDNSRecordUpdate, PermDNSRecordDelete, PermDNSDomainSearch,
    PermDNSDomainRead, PermDNSDomainRegister, PermDNSDomainRenew, PermDNSDomainTransfer,
    PermDNSDomainDelete, PermS3BucketCreate, PermS3BucketRead, PermS3BucketUpdate,
    PermS3BucketDelete, PermS3ObjectRead, PermS3ObjectDelete, PermS3CredentialsCreate,
    PermS3CredentialsRevoke, PermS3BucketVersioning, PermS3BucketLifecycle,
    PermS3BucketObjectLock, PermBillingBalanceRead, PermBillingBalanceAdjust,
    PermBillingLedgerRead, PermBillingReceiptRead, PermBillingReceiptCreate,
    PermBillingPriceCatalogRead, PermBillingPriceCatalogUpdate,
    PermBillingPaymentMethodManage, PermBillingPaymentIntentCreate,
    PermBillingSubscriptionManage, PermBillingPromoCodeRedeem, PermBillingPlanManage,
    PermBillingPlanRead, PermBillingPromoCodeManage, PermBillingWebhookRead,
    PermPluginsRead, PermPluginsInstall, PermPluginsUninstall,
    PermPluginsPermissionApprove, PermAgentConversationCreate, PermAgentConversationRead,
    PermAgentConversationDelete, PermAgentMessageSend, PermAgentToolConfirm,
    PermAgentProviderManage, PermAgentPolicyManage]"

definition tenant_member_permissions :: "string list" where
  "tenant_member_permissions =
   [PermTenantRead, PermAuditRead, PermAuthPatManage, PermAuthSessionCreate,
    PermAuthSessionRevoke, PermComputeInstanceCreate, PermComputeInstanceRead,
    PermComputeInstanceUpdate, PermComputeInstanceStart, PermComputeInstanceStop,
    PermComputeInstanceRestart, PermComputeInstanceConsoleVNC,
    PermComputeInstanceConsoleExec, PermComputeProfileRead, PermComputeProfileApply,
    PermComputeImageRead, PermComputeNetworkRead, PermComputeStoragePoolRead,
    PermComputeSnapshotCreate, PermComputeSnapshotRead, PermComputeBackupRead,
    PermComputeBackupRestore, PermComputeSnapshotPolicyRead, PermComputeClusterMemberList,
    PermComputeInstanceMigrate, PermComputeFloatingIPManage, PermComputeFloatingIPRead,
    PermDNSZoneCreate, PermDNSZoneRead, PermDNSZoneUpdate, PermDNSRecordCreate,
    PermDNSRecordRead, PermDNSRecordUpdate, PermDNSRecordDelete, PermDNSDomainSearch,
    PermDNSDomainRead, PermDNSDomainRegister, PermDNSDomainRenew, PermDNSDomainTransfer,
    PermS3BucketCreate, PermS3BucketRead, PermS3BucketUpdate, PermS3ObjectRead,
    PermS3ObjectDelete, PermS3CredentialsCreate, PermS3CredentialsRevoke,
    PermBillingBalanceRead, PermBillingLedgerRead, PermBillingReceiptRead,
    PermBillingPriceCatalogRead, PermBillingPaymentMethodManage,
    PermBillingPaymentIntentCreate, PermBillingSubscriptionManage,
    PermBillingPromoCodeRedeem, PermBillingPlanRead, PermPluginsRead,
    PermAgentConversationCreate, PermAgentConversationRead, PermAgentConversationDelete,
    PermAgentMessageSend, PermAgentToolConfirm, PermAgentProviderManage]"

definition tenant_viewer_permissions :: "string list" where
  "tenant_viewer_permissions =
   [PermTenantRead, PermAuditRead, PermComputeInstanceRead, PermComputeProfileRead,
    PermComputeImageRead, PermComputeNetworkRead, PermComputeStoragePoolRead,
    PermComputeSnapshotRead, PermComputeBackupRead, PermComputeBackupTargetRead,
    PermComputeSnapshotPolicyRead, PermComputeClusterMemberList,
    PermComputeFloatingIPRead, PermDNSZoneRead, PermDNSRecordRead, PermDNSDomainRead,
    PermDNSDomainSearch, PermS3BucketRead, PermS3ObjectRead, PermBillingBalanceRead,
    PermBillingLedgerRead, PermBillingReceiptRead, PermBillingPriceCatalogRead,
    PermBillingPlanRead, PermPluginsRead, PermAgentConversationRead]"

definition defaultRoles :: "role_definition list" where
  "defaultRoles =
    [\<lparr>rd_slug = RolePlatformAdmin, rd_name = ''Platform Administrator'',
      rd_desc = ''Global superuser. Bypasses all permission checks.'',
      rd_perms = allPermissionSlugs, rd_system = True\<rparr>,
     \<lparr>rd_slug = RoleTenantOwner, rd_name = ''Tenant Owner'',
      rd_desc = ''Full access within the tenant, including deletion and ownership transfer.'',
      rd_perms = allPermissionSlugsExceptGlobal, rd_system = True\<rparr>,
     \<lparr>rd_slug = RoleTenantAdmin, rd_name = ''Tenant Administrator'',
      rd_desc = ''Manage resources, members, and audit within the tenant. Cannot delete the tenant or transfer ownership.'',
      rd_perms = tenant_admin_permissions, rd_system = True\<rparr>,
     \<lparr>rd_slug = RoleTenantMember, rd_name = ''Tenant Member'',
      rd_desc = ''Read everything and create/manage own resources. Cannot manage members or roles.'',
      rd_perms = tenant_member_permissions, rd_system = True\<rparr>,
     \<lparr>rd_slug = RoleTenantViewer, rd_name = ''Tenant Viewer'',
      rd_desc = ''Read-only access to everything in the tenant.'',
      rd_perms = tenant_viewer_permissions, rd_system = True\<rparr>]"

definition DefaultRoles :: "role_definition list" where
  "DefaultRoles = defaultRoles"

definition IsSystemRole :: "string \<Rightarrow> bool" where
  "IsSystemRole slug =
     (case find (\<lambda>r. rd_slug r = slug) defaultRoles of None \<Rightarrow> False | Some r \<Rightarrow> rd_system r)"

section \<open>The policy evaluator\<close>

text \<open>The persistence seam of the evaluator (\<^verbatim>\<open>membershipLookup\<close>).\<close>

record membership_lookup =
  ml_role :: "uuid \<Rightarrow> uuid \<Rightarrow> (string \<times> bool) result prog"
  ml_perms :: "uuid \<Rightarrow> uuid \<Rightarrow> string list result prog"

definition db_lookup :: "(string \<Rightarrow> int) \<Rightarrow> membership_lookup" where
  "db_lookup coll = \<lparr>ml_role = RoleSlugForUser, ml_perms = PermissionSlugsForUser coll\<rparr>"

definition HasPermission :: "membership_lookup \<Rightarrow> uuid \<Rightarrow> uuid \<Rightarrow> string \<Rightarrow> bool result prog" where
  "HasPermission l userID tenantID permissionSlug = do {
     r \<leftarrow> ml_role l userID tenantID;
     case r of
       Inl e \<Rightarrow> fail (Wrap ''rbac: lookup role'' e)
     | Inr (roleSlug, member) \<Rightarrow>
         if \<not> member then ok False
         else if roleSlug = RolePlatformAdmin then ok (PermissionExists permissionSlug)
         else do {
           ps \<leftarrow> ml_perms l userID tenantID;
           case ps of
             Inl e \<Rightarrow> fail (Wrap ''rbac: lookup permissions'' e)
           | Inr slugs \<Rightarrow> ok (list_ex (\<lambda>s. s = permissionSlug) slugs) } }"

definition PermissionsForUser :: "membership_lookup \<Rightarrow> uuid \<Rightarrow> uuid \<Rightarrow> string list result prog" where
  "PermissionsForUser l userID tenantID = do {
     r \<leftarrow> ml_role l userID tenantID;
     case r of
       Inl e \<Rightarrow> fail (Wrap ''rbac: lookup role'' e)
     | Inr (roleSlug, member) \<Rightarrow>
         if \<not> member then ok []
         else if roleSlug = RolePlatformAdmin then ok allPermissionSlugs
         else ml_perms l userID tenantID }"

text \<open>A policy as its callers see it; \<open>None\<close> is the nil interface.\<close>

type_synonym policy = "(uuid \<Rightarrow> uuid \<Rightarrow> string \<Rightarrow> bool result prog) option"

definition Require :: "policy \<Rightarrow> uuid \<Rightarrow> uuid \<Rightarrow> string \<Rightarrow> unit result prog" where
  "Require pol userID tenantID permissionSlug =
     (if userID = uuid_nil then fail (Sentinel ErrUnauthenticated)
      else if tenantID = uuid_nil then fail (Sentinel ErrTenantScopeRequired)
      else case pol of
        None \<Rightarrow> fail (Wrap ''rbac: require (no policy wired)'' (Sentinel ErrPermissionDenied))
      | Some has \<Rightarrow> do {
          r \<leftarrow> has userID tenantID permissionSlug;
          case r of
            Inl e \<Rightarrow> fail (Wrap (''rbac: require '' @ permissionSlug) e)
          | Inr allowed \<Rightarrow>
              if allowed then ok () else fail (Sentinel ErrPermissionDenied) })"

section \<open>The seeder\<close>

fun seedPermissions :: "permission list \<Rightarrow> unit result prog" where
  "seedPermissions [] = ok ()"
| "seedPermissions (p # ps) = do {
     got \<leftarrow> RBAC_GetPermissionBySlug (pn_slug p);
     case got of
       Inr _ \<Rightarrow> seedPermissions ps
     | Inl e \<Rightarrow>
         if \<not> IsNoRows e then fail (Wrap (''lookup permission '' @ pn_slug p) e)
         else do {
           created \<leftarrow> RBAC_CreatePermission (pn_slug p) (Some (pn_desc p));
           case created of
             Inr _ \<Rightarrow> seedPermissions ps
           | Inl e' \<Rightarrow>
               if IsUniqueViolation e' then do {
                 again \<leftarrow> RBAC_GetPermissionBySlug (pn_slug p);
                 case again of
                   Inl e2 \<Rightarrow> fail (Wrap (''lookup permission after race loss '' @ pn_slug p) e2)
                 | Inr _ \<Rightarrow> seedPermissions ps }
               else fail (Wrap (''create permission '' @ pn_slug p) e') } }"

fun grant_all :: "uuid \<Rightarrow> string \<Rightarrow> string list \<Rightarrow> unit result prog" where
  "grant_all roleID role [] = ok ()"
| "grant_all roleID role (slug # slugs) = do {
     got \<leftarrow> RBAC_GetPermissionBySlug slug;
     case got of
       Inl e \<Rightarrow> fail (Wrap (''lookup permission '' @ slug @ '' for role '' @ role) e)
     | Inr p \<Rightarrow> do {
         g \<leftarrow> RBAC_GrantPermissionToRole roleID (pe_id p);
         case g of
           Inl e \<Rightarrow> fail (Wrap (''grant '' @ slug @ '' to '' @ role) e)
         | Inr _ \<Rightarrow> grant_all roleID role slugs } }"

text \<open>Find or create the row of a role; a lost race is resolved by reading again.\<close>

definition find_or_create_role :: "role_definition \<Rightarrow> role_row result prog" where
  "find_or_create_role r = do {
     got \<leftarrow> RBAC_GetRoleBySlug (rd_slug r);
     case got of
       Inr row \<Rightarrow> ok row
     | Inl e \<Rightarrow>
         if \<not> IsNoRows e then fail (Wrap (''lookup role '' @ rd_slug r) e)
         else do {
           created \<leftarrow> RBAC_CreateRole \<lparr>cr_slug = rd_slug r, cr_name = rd_name r,
             cr_desc = Some (rd_desc r), cr_system = Some (rd_system r)\<rparr>;
           case created of
             Inr row \<Rightarrow> ok row
           | Inl e' \<Rightarrow>
               if IsUniqueViolation e' then do {
                 again \<leftarrow> RBAC_GetRoleBySlug (rd_slug r);
                 case again of
                   Inl e2 \<Rightarrow> fail (Wrap (''lookup role after race loss '' @ rd_slug r) e2)
                 | Inr row \<Rightarrow> ok row }
               else fail (Wrap (''create role '' @ rd_slug r) e') } }"

fun seedRoles :: "role_definition list \<Rightarrow> unit result prog" where
  "seedRoles [] = ok ()"
| "seedRoles (r # rs) = do {
     got \<leftarrow> find_or_create_role r;
     case got of
       Inl e \<Rightarrow> fail e
     | Inr role \<Rightarrow> do {
         g \<leftarrow> grant_all (rl_id role) (rd_slug r) (rd_perms r);
         case g of Inl e \<Rightarrow> fail e | Inr _ \<Rightarrow> seedRoles rs } }"

text \<open>The argument says whether the repositories are wired.\<close>

definition SeedOnce :: "bool \<Rightarrow> unit result prog" where
  "SeedOnce wired =
     (if \<not> wired then ok ()
      else do {
        p \<leftarrow> seedPermissions allPermissions;
        case p of
          Inl e \<Rightarrow> fail (Wrap ''rbac: seed permissions'' e)
        | Inr _ \<Rightarrow> do {
            r \<leftarrow> seedRoles defaultRoles;
            case r of Inl e \<Rightarrow> fail (Wrap ''rbac: seed roles'' e) | Inr _ \<Rightarrow> ok () } })"

section \<open>The tenant of a new account\<close>

text \<open>\<^verbatim>\<open>errors.Join\<close>; its caller only asks whether there was an error.\<close>

definition errors_Join :: "goerr list \<Rightarrow> unit result" where
  "errors_Join es = (case es of [] \<Rightarrow> Inr () | e # _ \<Rightarrow> Inl e)"

fun run_hooks :: "(uuid \<Rightarrow> unit result prog) list \<Rightarrow> uuid \<Rightarrow> goerr list prog" where
  "run_hooks [] t = State_Monad.return []"
| "run_hooks (h # hs) t = do {
     r \<leftarrow> h t;
     es \<leftarrow> run_hooks hs t;
     State_Monad.return (case r of Inl e \<Rightarrow> e # es | Inr _ \<Rightarrow> es) }"

definition ProvisionSignup ::
  "(uuid \<Rightarrow> string) \<Rightarrow> (uuid \<Rightarrow> unit result prog) list \<Rightarrow> uuid \<Rightarrow> string \<Rightarrow> unit result prog" where
  "ProvisionSignup uuid_str hooks userID email = do {
     got \<leftarrow> RBAC_GetRoleBySlug RoleTenantOwner;
     case got of
       Inl e \<Rightarrow> fail (Wrap ''resolve tenant.owner role'' e)
     | Inr role \<Rightarrow> do {
         created \<leftarrow> Tenants_Create (''personal-'' @ uuid_str userID) email (Some True);
         case created of
           Inl e \<Rightarrow> fail (Wrap ''create personal tenant'' e)
         | Inr tenant \<Rightarrow> do {
             m \<leftarrow> Members_Create (Some (tn_id tenant)) userID (Some (rl_id role));
             case m of
               Inl e \<Rightarrow> fail (Wrap ''create owner membership'' e)
             | Inr _ \<Rightarrow> do {
                 es \<leftarrow> run_hooks hooks (tn_id tenant);
                 State_Monad.return (errors_Join es) } } } }"

end
