(* ===== verification/Rbac_Inv.thy ===== *)
theory Rbac_Inv
  imports Rbac
begin

text \<open>
  Invariants of the tables access decisions read. The locale \<open>access_invariant\<close> is the contract of
  an invariant kept by the statements on roles, permissions, grants, tenants and memberships;
  inside it the evaluator, the seeder and the provisioning of new accounts are shown to keep it
  under every schedule. The locale \<open>lookup_contract\<close> is the interface between the evaluator and
  the store: what the two look-ups answer on an undisturbed request.
\<close>

section \<open>Contracts\<close>

locale access_invariant =
  fixes J :: "db \<Rightarrow> bool"
  assumes role_insert: "preserved J (sql_create_role rp)"
    and permission_insert: "preserved J (sql_create_permission s ds)"
    and grant_insert: "preserved J (sql_grant i j)"
    and tenant_insert: "preserved J (sql_create_tenant s n b)"
    and member_insert: "preserved J (sql_create_member u ro t)"
    and member_role: "preserved J (sql_set_role u ro t)"
    and member_delete: "preserved J (sql_delete_member m t)"
begin

lemma keeps_lookups:
  "keeps (stable J) (RBAC_GetPermissionBySlug s)" "keeps (stable J) (RBAC_GetRoleBySlug s)"
  "keeps (stable J) (RBAC_GetRoleByID i)" "keeps (stable J) (RoleSlugForUser u t)"
  "keeps (stable J) (PermissionSlugsForUser coll u t)"
  unfolding RBAC_GetPermissionBySlug_def RBAC_GetRoleBySlug_def RBAC_GetRoleByID_def
    RoleSlugForUser_def PermissionSlugsForUser_def
  by (intro keeps_rules)+

lemma keeps_HasPermission: "keeps (stable J) (HasPermission (db_lookup coll) u t s)"
  unfolding HasPermission_def db_lookup_def membership_lookup.select_convs
  by (intro keeps_rules keeps_lookups)

lemma keeps_seedPermissions: "keeps (stable J) (seedPermissions ps)"
proof (induction ps)
  case Nil
  show ?case by (simp add: keeps_rules)
next
  case (Cons p ps)
  show ?case
    unfolding seedPermissions.simps RBAC_CreatePermission_def
    by (intro keeps_rules keeps_lookups permission_insert Cons.IH)
qed

lemma keeps_grant_all: "keeps (stable J) (grant_all i ro slugs)"
proof (induction slugs)
  case Nil
  show ?case by (simp add: keeps_rules)
next
  case (Cons s slugs)
  show ?case
    unfolding grant_all.simps RBAC_GrantPermissionToRole_def
    by (intro keeps_rules keeps_lookups grant_insert Cons.IH)
qed

lemma keeps_find_or_create_role: "keeps (stable J) (find_or_create_role r)"
  unfolding find_or_create_role_def RBAC_CreateRole_def
  by (intro keeps_rules keeps_lookups role_insert)

lemma keeps_seedRoles: "keeps (stable J) (seedRoles rs)"
proof (induction rs)
  case Nil
  show ?case by (simp add: keeps_rules)
next
  case (Cons r rs)
  show ?case
    unfolding seedRoles.simps
    by (intro keeps_rules keeps_find_or_create_role keeps_grant_all Cons.IH)
qed

lemma keeps_SeedOnce: "keeps (stable J) (SeedOnce b)"
  unfolding SeedOnce_def by (intro keeps_rules keeps_seedPermissions keeps_seedRoles)

lemma keeps_run_hooks:
  "(\<And>h t. h \<in> set hs \<Longrightarrow> keeps (stable J) (h t)) \<Longrightarrow> keeps (stable J) (run_hooks hs t)"
proof (induction hs)
  case Nil
  show ?case by (simp add: keeps_rules)
next
  case (Cons h hs)
  show ?case
    unfolding run_hooks.simps by (intro keeps_rules) (simp_all add: Cons)
qed

lemma keeps_ProvisionSignup:
  assumes "\<And>h t. h \<in> set hs \<Longrightarrow> keeps (stable J) (h t)"
  shows "keeps (stable J) (ProvisionSignup us hs u m)"
  unfolding ProvisionSignup_def Tenants_Create_def Members_Create_def
  by (intro keeps_rules keeps_lookups tenant_insert member_insert keeps_run_hooks assms)

end

section \<open>The tables are well formed\<close>

definition live_members :: "member_row list \<Rightarrow> (uuid \<times> uuid) list" where
  "live_members ms = map (\<lambda>m. (mb_user m, mb_tenant m)) (filter (\<lambda>m. mb_deleted m = None) ms)"

definition live_roles :: "role_row list \<Rightarrow> string list" where
  "live_roles rs = map rl_slug (filter (\<lambda>r. rl_deleted r = None) rs)"

definition access_ok :: "db \<Rightarrow> bool" where
  "access_ok d \<longleftrightarrow>
     distinct (map rl_id (roles d)) \<and> (\<forall>r\<in>set (roles d). rl_id r < db_next d) \<and>
     distinct (live_roles (roles d)) \<and>
     distinct (map pe_id (permissions d)) \<and> (\<forall>p\<in>set (permissions d). pe_id p < db_next d) \<and>
     distinct (map pe_slug (permissions d)) \<and>
     (\<forall>(r, p)\<in>set (grants d). r \<in> rl_id ` set (roles d) \<and> p \<in> pe_id ` set (permissions d)) \<and>
     distinct (live_members (memberships d)) \<and>
     (\<forall>m\<in>set (memberships d). role_ref_ok (mb_role m) d \<and> mb_tenant m < db_next d) \<and>
     (\<forall>t\<in>set (db_tenants d). t < db_next d)"

lemma access_okD:
  assumes "access_ok d"
  shows "distinct (map rl_id (roles d))" "distinct (live_roles (roles d))"
    "distinct (map pe_id (permissions d))" "distinct (map pe_slug (permissions d))"
    "distinct (live_members (memberships d))"
    "\<And>m. m \<in> set (memberships d) \<Longrightarrow> role_ref_ok (mb_role m) d"
    "\<And>r. r \<in> set (roles d) \<Longrightarrow> rl_id r < db_next d"
    "\<And>p. p \<in> set (permissions d) \<Longrightarrow> pe_id p < db_next d"
    "\<And>m. m \<in> set (memberships d) \<Longrightarrow> mb_tenant m < db_next d"
  using assms by (auto simp: access_ok_def)

lemma live_members_append [simp]: "live_members (ms @ ns) = live_members ms @ live_members ns"
  by (simp add: live_members_def)

lemma live_member_iff:
  "(u, t) \<in> set (live_members ms) \<longleftrightarrow> list_ex (is_member u t) ms"
  by (auto simp: live_members_def list_ex_iff is_member_def)

lemma live_members_set_role [simp]:
  "live_members (sql_update P (\<lambda>m. m\<lparr>mb_role := r\<rparr>) ms) = live_members ms"
  by (induction ms) (auto simp: live_members_def sql_update_def)

lemma live_members_delete:
  "distinct (live_members ms) \<Longrightarrow>
     distinct (live_members (sql_update P (\<lambda>m. m\<lparr>mb_deleted := Some x\<rparr>) ms))"
proof -
  have sub: "set (live_members (sql_update P (\<lambda>m. m\<lparr>mb_deleted := Some x\<rparr>) ms)) \<subseteq> set (live_members ms)"
    for ms
    by (induction ms) (auto simp: live_members_def sql_update_def split: if_splits)
  show "distinct (live_members ms) \<Longrightarrow> ?thesis"
  proof (induction ms)
    case (Cons m ms)
    then show ?case using sub [of ms]
      by (auto simp: live_members_def sql_update_def split: if_splits)
  qed (simp add: live_members_def sql_update_def)
qed

lemma access_ok_audit: "ignores_audit access_ok"
  by (auto simp: ignores_audit_def access_ok_def role_ref_ok_def split: option.splits
    intro: less_le_trans)

lemma sql_update_mem: "x \<in> set (sql_update P f xs) \<Longrightarrow> \<exists>y\<in>set xs. x = (if P y then f y else y)"
  by (auto simp: sql_update_def)

interpretation access: access_invariant access_ok
proof unfold_locales
  fix rp s ds i j n b u ro t m
  show "preserved access_ok (sql_create_role rp)"
    by (rule preservedI)
      (auto simp: sql_create_role_def Let_def access_ok_def live_roles_def live_role_def list_ex_iff
        role_ref_ok_def split: option.splits intro: less_SucI)
  show "preserved access_ok (sql_create_permission s ds)"
    by (rule preservedI)
      (auto simp: sql_create_permission_def Let_def access_ok_def list_ex_iff role_ref_ok_def
        split: option.splits intro: less_SucI)
  show "preserved access_ok (sql_grant i j)"
    by (rule preservedI) (auto simp: sql_grant_def access_ok_def role_ref_ok_def split: option.splits)
  show "preserved access_ok (sql_create_tenant s n b)"
    by (rule preservedI)
      (auto simp: sql_create_tenant_def Let_def access_ok_def role_ref_ok_def split: option.splits
        intro: less_SucI)
  show "preserved access_ok (sql_create_member u ro t)"
    by (rule preservedI)
      (auto simp: sql_create_member_def Let_def access_ok_def role_ref_ok_def
        live_member_iff [symmetric] live_members_def split: option.splits intro: less_SucI)
  show "preserved access_ok (sql_set_role u ro t)"
    by (rule preservedI)
      (auto simp: sql_set_role_def access_ok_def role_ref_ok_def list_ex_iff split: option.splits
        dest!: sql_update_mem split: if_splits)
  show "preserved access_ok (sql_delete_member m t)"
    by (rule preservedI)
      (auto simp: sql_delete_member_def access_ok_def role_ref_ok_def live_members_delete
        split: option.splits dest!: sql_update_mem split: if_splits)
qed

section \<open>The interface of the evaluator\<close>

locale lookup_contract =
  fixes l :: membership_lookup
    and ready :: "db \<Rightarrow> bool"
    and role_of :: "db \<Rightarrow> uuid \<Rightarrow> uuid \<Rightarrow> string option"
    and perms_of :: "db \<Rightarrow> uuid \<Rightarrow> uuid \<Rightarrow> string set"
  assumes role: "sched w = [] \<Longrightarrow> ready (wdb w) \<Longrightarrow>
      run_state (ml_role l u t) w =
        (Inr (case role_of (wdb w) u t of None \<Rightarrow> ('''', False) | Some s \<Rightarrow> (s, True)), w)"
    and perms: "sched w = [] \<Longrightarrow>
      \<exists>xs. run_state (ml_perms l u t) w = (Inr xs, w) \<and> set xs = perms_of (wdb w) u t"
begin

definition holds :: "db \<Rightarrow> uuid \<Rightarrow> uuid \<Rightarrow> string \<Rightarrow> bool" where
  "holds d u t s \<longleftrightarrow>
     (case role_of d u t of
        None \<Rightarrow> False
      | Some r \<Rightarrow> if r = RolePlatformAdmin then PermissionExists s else s \<in> perms_of d u t)"

lemma run_HasPermission:
  assumes "sched w = []" "ready (wdb w)"
  shows "run_state (HasPermission l u t s) w = (Inr (holds (wdb w) u t s), w)"
proof -
  obtain xs where "run_state (ml_perms l u t) w = (Inr xs, w)" "set xs = perms_of (wdb w) u t"
    using perms [OF assms(1)] by blast
  then show ?thesis
    by (cases "role_of (wdb w) u t") (auto simp: HasPermission_def role [OF assms] holds_def list_ex_iff)
qed

lemma run_Require:
  assumes "sched w = []" "ready (wdb w)"
  shows "fst (run_state (Require (Some (HasPermission l)) u t s) w) = Inr () \<longleftrightarrow>
    u \<noteq> uuid_nil \<and> t \<noteq> uuid_nil \<and> holds (wdb w) u t s"
  by (simp add: Require_def run_HasPermission [OF assms])

end

text \<open>What the tables say: the role of a membership and the permissions it grants.\<close>

definition role_of :: "db \<Rightarrow> uuid \<Rightarrow> uuid \<Rightarrow> string option" where
  "role_of d u t =
     (case find (is_member u t) (memberships d) of
        None \<Rightarrow> None
      | Some m \<Rightarrow> (case mb_role m of
                    None \<Rightarrow> Some ''''
                  | Some i \<Rightarrow> map_option rl_slug (find (\<lambda>r. rl_id r = i) (roles d))))"

definition perms_of :: "db \<Rightarrow> uuid \<Rightarrow> uuid \<Rightarrow> string set" where
  "perms_of d u t = {pe_slug p | p m r. p \<in> set (permissions d) \<and> (r, pe_id p) \<in> set (grants d) \<and>
     m \<in> set (memberships d) \<and> is_member u t m \<and> mb_role m = Some r}"

lemma set_user_permissions: "pe_slug ` set (user_permissions u t d) = perms_of d u t"
  by (fastforce simp: user_permissions_def perms_of_def image_iff)

interpretation access_lookup: lookup_contract "db_lookup coll" access_ok role_of perms_of for coll
proof unfold_locales
  fix w :: world and u t :: uuid
  assume w: "sched w = []" and ok: "access_ok (wdb w)"
  show "run_state (ml_role (db_lookup coll) u t) w =
      (Inr (case role_of (wdb w) u t of None \<Rightarrow> ('''', False) | Some s \<Rightarrow> (s, True)), w)"
  proof (cases "find (is_member u t) (memberships (wdb w))")
    case (Some m)
    then have "role_ref_ok (mb_role m) (wdb w)"
      using access_okD(6) [OF ok] by (auto simp: find_Some_iff)
    then show ?thesis using Some w
      by (auto simp: db_lookup_def RoleSlugForUser_def role_of_def sql_one_def RBAC_GetRoleByID_def
        role_ref_ok_def find_None_iff split: option.splits)
  qed (simp add: db_lookup_def RoleSlugForUser_def role_of_def sql_one_def w)
next
  fix w :: world and u t :: uuid
  assume w: "sched w = []"
  show "\<exists>xs. run_state (ml_perms (db_lookup coll) u t) w = (Inr xs, w) \<and> set xs = perms_of (wdb w) u t"
    by (simp add: db_lookup_def PermissionSlugsForUser_def w by_slug_def set_user_permissions)
qed

end
