(* ===== verification/Rbac_Bundles.thy ===== *)
theory Rbac_Bundles
  imports Rbac
begin

text \<open>How the default roles of \<^verbatim>\<open>auth/rbac/roles.go\<close> relate to the catalog and to each other.\<close>

section \<open>The default bundles\<close>

text \<open>
  The bundles as positions in the catalog, so that comparing them is arithmetic.
\<close>

lemma allPermissionSlugs_list:
  "allPermissionSlugs =
     [PermAuthPatManage, PermAuthSessionCreate, PermAuthSessionRevoke, PermAuditExport,
      PermAuditRead, PermAuditReadGlobal, PermRBACRoleCreate, PermRBACRoleDelete,
      PermRBACRoleList, PermRBACRoleUpdate, PermTenantDelete, PermTenantMemberInvite,
      PermTenantMemberList, PermTenantMemberRemove, PermTenantMemberRoleUpdate,
      PermTenantRead, PermTenantUpdate, PermComputeBackupDelete, PermComputeBackupRead,
      PermComputeBackupRestore, PermComputeBackupTargetCreate,
      PermComputeBackupTargetDelete, PermComputeBackupTargetRead,
      PermComputeBackupTargetUpdate, PermComputeClusterMemberEvacuate,
      PermComputeClusterMemberList, PermComputeFloatingIPManage,
      PermComputeFloatingIPRead, PermComputeImageRead, PermComputeInstanceConsoleExec,
      PermComputeInstanceConsoleVNC, PermComputeInstanceCreate,
      PermComputeInstanceDelete, PermComputeInstanceMigrate, PermComputeInstanceRead,
      PermComputeInstanceRestart, PermComputeInstanceStart, PermComputeInstanceStop,
      PermComputeInstanceUpdate, PermComputeIPPoolManage, PermComputeNetworkCreate,
      PermComputeNetworkRead, PermComputeProfileApply, PermComputeProfileRead,
      PermComputeSnapshotCreate, PermComputeSnapshotDelete, PermComputeSnapshotRead,
      PermComputeSnapshotPolicyCreate, PermComputeSnapshotPolicyDelete,
      PermComputeSnapshotPolicyRead, PermComputeSnapshotPolicyUpdate,
      PermComputeStoragePoolRead, PermDNSDomainDelete, PermDNSDomainRead,
      PermDNSDomainRegister, PermDNSDomainRenew, PermDNSDomainSearch,
      PermDNSDomainTransfer, PermDNSRecordCreate, PermDNSRecordDelete,
      PermDNSRecordRead, PermDNSRecordUpdate, PermDNSZoneCreate, PermDNSZoneDelete,
      PermDNSZoneRead, PermDNSZoneUpdate, PermS3BucketCreate, PermS3BucketDelete,
      PermS3BucketLifecycle, PermS3BucketObjectLock, PermS3BucketRead,
      PermS3BucketUpdate, PermS3BucketVersioning, PermS3CredentialsCreate,
      PermS3CredentialsRevoke, PermS3ObjectDelete, PermS3ObjectRead,
      PermBillingBalanceAdjust, PermBillingBalanceRead, PermBillingLedgerRead,
      PermBillingPaymentIntentCreate, PermBillingPaymentMethodManage,
      PermBillingPlanManage, PermBillingPlanRead, PermBillingPriceCatalogRead,
      PermBillingPriceCatalogUpdate, PermBillingPromoCodeManage,
      PermBillingPromoCodeRedeem, PermBillingReceiptCreate, PermBillingReceiptRead,
      PermBillingSubscriptionManage, PermBillingWebhookRead, PermPluginsInstall,
      PermPluginsPermissionApprove, PermPluginsRead, PermPluginsUninstall,
      PermAgentConversationCreate, PermAgentConversationDelete,
      PermAgentConversationRead, PermAgentMessageSend, PermAgentPolicyManage,
      PermAgentProviderManage, PermAgentToolConfirm, PermPlatformDirectoryManage,
      PermPlatformJobsCancel, PermPlatformJobsRead, PermPlatformJobsRetry,
      PermPlatformSettingsManage, PermPlatformTenantCreate, PermPlatformTenantDelete,
      PermPlatformUserList, PermPlatformUserManage]"
  by (simp add: allPermissionSlugs_def allPermissions_def)

lemma length_slugs: "length allPermissionSlugs = 112"
  by (simp add: allPermissionSlugs_list)

lemma distinct_slugs: "distinct allPermissionSlugs"
  unfolding allPermissionSlugs_list by simp

lemma admin_positions:
  "tenant_admin_permissions = map ((!) allPermissionSlugs)
      [15, 16, 12, 11, 13, 14, 4, 3, 6, 9, 7, 8, 0, 1, 2, 31, 34, 38, 36, 37, 35, 32,
       30, 29, 43, 42, 28, 41, 40, 51, 44, 46, 45, 20, 22, 23, 21, 18, 17, 19, 47, 49,
       50, 48, 25, 24, 33, 26, 27, 62, 64, 65, 63, 58, 60, 61, 59, 56, 53, 54, 55, 57,
       52, 66, 70, 71, 67, 76, 75, 73, 74, 72, 68, 69, 78, 77, 79, 89, 88, 84, 85, 81,
       80, 90, 87, 82, 83, 86, 91, 94, 92, 95, 93, 96, 98, 97, 99, 102, 101, 100]"
  by (simp add: tenant_admin_permissions_def allPermissionSlugs_list)

lemma member_positions:
  "tenant_member_permissions = map ((!) allPermissionSlugs)
      [15, 4, 0, 1, 2, 31, 34, 38, 36, 37, 35, 30, 29, 43, 42, 28, 41, 51, 44, 46, 18,
       19, 49, 25, 33, 26, 27, 62, 64, 65, 58, 60, 61, 59, 56, 53, 54, 55, 57, 66, 70,
       71, 76, 75, 73, 74, 78, 79, 89, 84, 81, 80, 90, 87, 83, 94, 96, 98, 97, 99, 102,
       101]"
  by (simp add: tenant_member_permissions_def allPermissionSlugs_list)

lemma viewer_positions:
  "tenant_viewer_permissions = map ((!) allPermissionSlugs)
      [15, 4, 34, 43, 28, 41, 51, 46, 18, 22, 49, 25, 27, 64, 60, 53, 56, 70, 76, 78,
       79, 89, 84, 83, 94, 98]"
  by (simp add: tenant_viewer_permissions_def allPermissionSlugs_list)

lemma owner_positions: "allPermissionSlugsExceptGlobal = map ((!) allPermissionSlugs) [0..<103]"
proof -
  have "allPermissionSlugsExceptGlobal = filter (\<lambda>s. \<not> startsWith s ''platform.'') allPermissionSlugs"
    by (simp add: allPermissionSlugsExceptGlobal_def allPermissionSlugs_def filter_map comp_def)
  also have "\<dots> = take 103 allPermissionSlugs"
    unfolding allPermissionSlugs_list by (simp add: startsWith_def)
  also have "\<dots> = map ((!) allPermissionSlugs) [0..<103]"
    by (rule nth_equalityI) (simp_all add: length_slugs)
  finally show ?thesis .
qed

lemma positions:
  "set (map ((!) allPermissionSlugs) is) - set (map ((!) allPermissionSlugs) js) =
     set (map ((!) allPermissionSlugs) (filter (\<lambda>i. i \<notin> set js) is))"
  if "set is \<subseteq> {..<112}" "set js \<subseteq> {..<112}" for "is" js
proof -
  have "inj_on ((!) allPermissionSlugs) {..<112}"
    using distinct_slugs length_slugs by (simp add: inj_on_nth)
  then show ?thesis
    using inj_on_image_set_diff [of "(!) allPermissionSlugs" "{..<112}" "set is" "set js"] that
    by (auto simp: set_diff_eq)
qed

text \<open>
  How the default bundles of a tenant relate: the owner holds every permission that is not a
  platform permission; the administrator holds all of those but three, deleting the tenant,
  reading the audit log of all tenants and managing the operator's IP pools (the two last ones
  are declared reserved to the platform administrator); the member's bundle is part of the
  administrator's; and the viewer, documented as read-only below the member, holds one permission
  the member lacks, reading backup targets.
\<close>

theorem default_bundles:
  "set allPermissionSlugs - set allPermissionSlugsExceptGlobal =
      {s \<in> set allPermissionSlugs. startsWith s ''platform.''} \<and>
    set allPermissionSlugsExceptGlobal - set tenant_admin_permissions =
      {PermTenantDelete, PermAuditReadGlobal, PermComputeIPPoolManage} \<and>
    set tenant_admin_permissions - set allPermissionSlugsExceptGlobal = {} \<and>
    set tenant_member_permissions - set tenant_admin_permissions = {} \<and>
    set tenant_viewer_permissions - set tenant_member_permissions = {PermComputeBackupTargetRead}"
proof (intro conjI)
  show "set allPermissionSlugs - set allPermissionSlugsExceptGlobal =
      {s \<in> set allPermissionSlugs. startsWith s ''platform.''}"
    by (auto simp: allPermissionSlugs_def allPermissionSlugsExceptGlobal_def)
  have o: "set [0..<103] \<subseteq> {..<112::nat}" by auto
  show "set allPermissionSlugsExceptGlobal - set tenant_admin_permissions =
      {PermTenantDelete, PermAuditReadGlobal, PermComputeIPPoolManage}"
    unfolding owner_positions admin_positions
    by (subst positions) (simp_all add: o upt_rec_numeral upt_conv_Cons allPermissionSlugs_list insert_commute)
  show "set tenant_admin_permissions - set allPermissionSlugsExceptGlobal = {}"
    unfolding owner_positions admin_positions
    by (subst positions) (use o in \<open>simp_all add: subset_iff\<close>)
  show "set tenant_member_permissions - set tenant_admin_permissions = {}"
    unfolding member_positions admin_positions by (subst positions) simp_all
  show "set tenant_viewer_permissions - set tenant_member_permissions = {PermComputeBackupTargetRead}"
    unfolding viewer_positions member_positions
    by (subst positions) (simp_all add: allPermissionSlugs_list)
qed

lemma positions_registered:
  "set is \<subseteq> {..<112} \<Longrightarrow> set (map ((!) allPermissionSlugs) is) \<subseteq> set allPermissionSlugs"
  by (auto simp: length_slugs intro!: nth_mem)

lemma default_perms_registered:
  "r \<in> set defaultRoles \<Longrightarrow> set (rd_perms r) \<subseteq> set allPermissionSlugs"
proof -
  have "set tenant_admin_permissions \<subseteq> set allPermissionSlugs"
    unfolding admin_positions by (rule positions_registered) simp
  moreover have "set tenant_member_permissions \<subseteq> set allPermissionSlugs"
    unfolding member_positions by (rule positions_registered) simp
  moreover have "set tenant_viewer_permissions \<subseteq> set allPermissionSlugs"
    unfolding viewer_positions by (rule positions_registered) simp
  moreover have "set allPermissionSlugsExceptGlobal \<subseteq> set allPermissionSlugs"
    by (auto simp: allPermissionSlugs_def allPermissionSlugsExceptGlobal_def)
  ultimately show "r \<in> set defaultRoles \<Longrightarrow> ?thesis" by (auto simp: defaultRoles_def)
qed

lemma except_iff:
  "s \<in> set allPermissionSlugsExceptGlobal \<longleftrightarrow>
     s \<in> set allPermissionSlugs \<and> \<not> startsWith s ''platform.''"
  by (auto simp: allPermissionSlugs_def allPermissionSlugsExceptGlobal_def)

lemma owner_examples:
  "PermTenantRead \<in> set allPermissionSlugsExceptGlobal"
  "PermComputeIPPoolManage \<in> set allPermissionSlugsExceptGlobal"
  "PermAuditReadGlobal \<in> set allPermissionSlugsExceptGlobal"
  "PermBillingBalanceAdjust \<in> set allPermissionSlugsExceptGlobal"
  by (simp_all add: except_iff allPermissionSlugs_list startsWith_def)

end
