(* ===== verification/Rbac_Claims.thy ===== *)
theory Rbac_Claims
  imports Rbac_Inv Rbac_Bundles
begin

text \<open>
  Properties of roles and permissions: what the evaluator decides, what the seeder writes and what
  the owner of a fresh personal tenant may do.
\<close>

section \<open>Grants, abstractly\<close>

definition granted :: "db \<Rightarrow> (string \<times> string) set" where
  "granted d = {(rl_slug r, pe_slug p) | r p. r \<in> set (roles d) \<and> rl_deleted r = None \<and>
     p \<in> set (permissions d) \<and> (rl_id r, pe_id p) \<in> set (grants d)}"

lemma inj_onD_map: "distinct (map f xs) \<Longrightarrow> x \<in> set xs \<Longrightarrow> y \<in> set xs \<Longrightarrow> f x = f y \<Longrightarrow> x = y"
  by (auto simp: distinct_map inj_on_def)

lemma role_by_id:
  assumes "access_ok d" "r \<in> set (roles d)"
  shows "find (\<lambda>x. rl_id x = rl_id r) (roles d) = Some r"
proof (cases "find (\<lambda>x. rl_id x = rl_id r) (roles d)")
  case None
  then show ?thesis using assms(2) by (auto simp: find_None_iff)
next
  case (Some x)
  then have "x \<in> set (roles d)" "rl_id x = rl_id r" by (auto simp: find_Some_iff)
  then show ?thesis using Some inj_onD_map [OF access_okD(1) [OF assms(1)]] assms(2) by metis
qed

lemma live_role_unique:
  assumes "access_ok d" "r \<in> set (roles d)" "q \<in> set (roles d)"
    "rl_deleted r = None" "rl_deleted q = None" "rl_slug r = rl_slug q"
  shows "r = q"
  using inj_onD_map [of rl_slug "filter (\<lambda>r. rl_deleted r = None) (roles d)" r q]
    access_okD(2) [OF assms(1)] assms by (simp add: live_roles_def)

lemma member_unique:
  assumes "access_ok d" "m \<in> set (memberships d)" "is_member u t m"
  shows "find (is_member u t) (memberships d) = Some m"
proof (cases "find (is_member u t) (memberships d)")
  case None
  then show ?thesis using assms by (auto simp: find_None_iff)
next
  case (Some x)
  then have "x \<in> set (memberships d)" "is_member u t x" by (auto simp: find_Some_iff)
  then show ?thesis
    using Some inj_onD_map [of "\<lambda>m. (mb_user m, mb_tenant m)"
        "filter (\<lambda>m. mb_deleted m = None) (memberships d)" x m] access_okD(5) [OF assms(1)] assms
    by (simp add: live_members_def is_member_def)
qed

lemma role_of_member:
  assumes "access_ok d" "m \<in> set (memberships d)" "is_member u t m" "mb_role m = Some (rl_id r)"
    "r \<in> set (roles d)"
  shows "role_of d u t = Some (rl_slug r)"
  using assms by (simp add: role_of_def member_unique role_by_id)

lemma perms_of_member:
  assumes "access_ok d" "m \<in> set (memberships d)" "is_member u t m" "mb_role m = Some (rl_id r)"
    "r \<in> set (roles d)" "rl_deleted r = None"
  shows "perms_of d u t = {s. (rl_slug r, s) \<in> granted d}"
proof -
  have one: "x = m" if "x \<in> set (memberships d)" "is_member u t x" for x
    using member_unique [OF assms(1)] that assms(2,3) by (metis option.inject)
  have same: "q = r" if "q \<in> set (roles d)" "rl_deleted q = None" "rl_slug q = rl_slug r" for q
    using live_role_unique [OF assms(1)] that assms(5,6) by metis
  show ?thesis
  proof (intro set_eqI iffI)
    fix s
    assume "s \<in> perms_of d u t"
    then obtain p i x where "s = pe_slug p" "p \<in> set (permissions d)" "(i, pe_id p) \<in> set (grants d)"
      "x \<in> set (memberships d)" "is_member u t x" "mb_role x = Some i"
      by (auto simp: perms_of_def)
    then show "s \<in> {s. (rl_slug r, s) \<in> granted d}"
      using one [of x] assms(4-6) by (auto simp: granted_def)
  next
    fix s
    assume "s \<in> {s. (rl_slug r, s) \<in> granted d}"
    then obtain q p where "s = pe_slug p" "p \<in> set (permissions d)" "q \<in> set (roles d)"
      "rl_deleted q = None" "rl_slug q = rl_slug r" "(rl_id q, pe_id p) \<in> set (grants d)"
      by (auto simp: granted_def)
    then show "s \<in> perms_of d u t"
      using same [of q] assms(2-4) unfolding perms_of_def by blast
  qed
qed

lemma role_of_stranger: "\<not> list_ex (is_member u t) (memberships d) \<Longrightarrow> role_of d u t = None"
  by (auto simp: role_of_def list_ex_iff split: option.split dest!: find_SomeD)

text \<open>
  C10. The policy evaluator decides exactly by the tables: a user without a live membership in the
  tenant is denied; a member whose role is \<open>platform.admin\<close> holds every registered permission and
  no other; any other member holds what the grants of the role say. The database is only read.
\<close>

theorem HasPermission_decides:
  assumes "sched w = []" "access_ok (wdb w)"
  shows "(\<not> list_ex (is_member u t) (memberships (wdb w)) \<longrightarrow>
      run_state (HasPermission (db_lookup coll) u t s) w = (Inr False, w)) \<and>
    (\<forall>m r. m \<in> set (memberships (wdb w)) \<longrightarrow> is_member u t m \<longrightarrow> mb_role m = Some (rl_id r) \<longrightarrow>
      r \<in> set (roles (wdb w)) \<longrightarrow> rl_deleted r = None \<longrightarrow>
      run_state (HasPermission (db_lookup coll) u t s) w =
        (Inr (if rl_slug r = RolePlatformAdmin then s \<in> pn_slug ` set allPermissions
              else (rl_slug r, s) \<in> granted (wdb w)), w))"
proof -
  have "PermissionExists s \<longleftrightarrow> s \<in> pn_slug ` set allPermissions"
    by (auto simp: PermissionExists_def list_ex_iff)
  then show ?thesis
    using role_of_member [OF assms(2)] perms_of_member [OF assms(2)]
    by (auto simp: access_lookup.run_HasPermission [OF assms] access_lookup.holds_def
      role_of_stranger)
qed

definition access_world :: world where
  "access_world = \<lparr>wdb = (empty_db 1000 [5] [7, 8])\<lparr>db_next := 20,
     roles := [\<lparr>rl_id = 10, rl_slug = ''auditor'', rl_name = ''Auditor'', rl_desc = '''',
                rl_system = False, rl_deleted = None, rl_created = 1\<rparr>],
     permissions := [\<lparr>pe_id = 11, pe_slug = ''audit.read'', pe_desc = ''''\<rparr>],
     grants := [(10, 11)],
     memberships := [\<lparr>mb_id = 12, mb_tenant = 5, mb_user = 7, mb_role = Some 10,
                      mb_deleted = None, mb_created = 1\<rparr>]\<rparr>, sched = [], events = [], pdns = []\<rparr>"

lemma access_world_facts: "sched access_world = []" "access_ok (wdb access_world)"
  by (simp_all add: access_world_def empty_db_def access_ok_def live_roles_def live_members_def
    role_ref_ok_def)

theorem HasPermission_decides_witness:
  "run_state (HasPermission (db_lookup (\<lambda>_. 0)) 7 5 ''audit.read'') access_world =
     (Inr True, access_world) \<and>
   run_state (HasPermission (db_lookup (\<lambda>_. 0)) 8 5 ''audit.read'') access_world =
     (Inr False, access_world)"
proof
  let ?m = "hd (memberships (wdb access_world))" and ?r = "hd (roles (wdb access_world))"
  have "?m \<in> set (memberships (wdb access_world))" "is_member 7 5 ?m" "mb_role ?m = Some (rl_id ?r)"
    "?r \<in> set (roles (wdb access_world))" "rl_deleted ?r = None" "rl_slug ?r \<noteq> RolePlatformAdmin"
    "(rl_slug ?r, ''audit.read'') \<in> granted (wdb access_world)"
    by (simp_all add: access_world_def empty_db_def is_member_def granted_def)
  then show "run_state (HasPermission (db_lookup (\<lambda>_. 0)) 7 5 ''audit.read'') access_world =
      (Inr True, access_world)"
    using HasPermission_decides [OF access_world_facts, of 7 5 "\<lambda>_. 0" "''audit.read''",
        THEN conjunct2, rule_format, of ?m ?r] by simp
  have "\<not> list_ex (is_member 8 5) (memberships (wdb access_world))"
    by (simp add: access_world_def empty_db_def is_member_def)
  then show "run_state (HasPermission (db_lookup (\<lambda>_. 0)) 8 5 ''audit.read'') access_world =
      (Inr False, access_world)"
    using HasPermission_decides [OF access_world_facts, of 8 5 "\<lambda>_. 0" "''audit.read''"] by blast
qed

section \<open>Seeding\<close>

lemma find_slug:
  "s \<in> pe_slug ` set ps \<Longrightarrow> \<exists>p. sql_one (\<lambda>r. pe_slug r = s) ps = Inr p \<and> p \<in> set ps \<and> pe_slug p = s"
  by (cases "find (\<lambda>r. pe_slug r = s) ps")
    (auto simp: sql_one_def find_None_iff dest!: find_SomeD)

lemma find_no_slug:
  "s \<notin> pe_slug ` set ps \<Longrightarrow> sql_one (\<lambda>r. pe_slug r = s) ps = Inl (Pg NoRows)"
  by (auto simp: sql_one_def find_None_iff split: option.split simp: find_Some_iff)

lemma run_seedPermissions:
  "sched w = [] \<Longrightarrow>
     \<exists>n qs. run_state (seedPermissions ps) w =
       (Inr (), w\<lparr>wdb := (wdb w)\<lparr>db_next := n, permissions := permissions (wdb w) @ qs\<rparr>\<rparr>) \<and>
       db_next (wdb w) \<le> n \<and> (\<forall>q\<in>set qs. db_next (wdb w) \<le> pe_id q) \<and>
       pe_slug ` set (permissions (wdb w) @ qs) = pe_slug ` set (permissions (wdb w)) \<union> pn_slug ` set ps"
proof (induction ps arbitrary: w)
  case Nil
  have "w = w\<lparr>wdb := (wdb w)\<lparr>db_next := db_next (wdb w), permissions := permissions (wdb w) @ []\<rparr>\<rparr>"
    by simp
  then show ?case
    by (intro exI [of _ "db_next (wdb w)"] exI [of _ "[]"]) simp
next
  case (Cons p ps)
  show ?case
  proof (cases "pn_slug p \<in> pe_slug ` set (permissions (wdb w))")
    case True
    then obtain q where "sql_one (\<lambda>r. pe_slug r = pn_slug p) (permissions (wdb w)) = Inr q"
      using find_slug by metis
    then have "run_state (seedPermissions (p # ps)) w = run_state (seedPermissions ps) w"
      using Cons.prems by (simp add: RBAC_GetPermissionBySlug_def)
    then show ?thesis using Cons.IH [OF Cons.prems] True by (auto simp: insert_absorb)
  next
    case False
    let ?q = "\<lparr>pe_id = db_next (wdb w), pe_slug = pn_slug p, pe_desc = pn_desc p\<rparr>"
    let ?w = "w\<lparr>wdb := (wdb w)\<lparr>db_next := Suc (db_next (wdb w)),
                 permissions := permissions (wdb w) @ [?q]\<rparr>\<rparr>"
    have "\<not> list_ex (\<lambda>r. pe_slug r = pn_slug p) (permissions (wdb w))"
      using False by (force simp: list_ex_iff)
    then have "run_state (seedPermissions (p # ps)) w = run_state (seedPermissions ps) ?w"
      using Cons.prems find_no_slug [OF False]
      by (simp add: RBAC_GetPermissionBySlug_def RBAC_CreatePermission_def sql_create_permission_def
        Let_def del: append.simps)
    moreover obtain n qs where "run_state (seedPermissions ps) ?w =
        (Inr (), ?w\<lparr>wdb := (wdb ?w)\<lparr>db_next := n, permissions := permissions (wdb ?w) @ qs\<rparr>\<rparr>)"
      "db_next (wdb ?w) \<le> n" "\<forall>q\<in>set qs. db_next (wdb ?w) \<le> pe_id q"
      "pe_slug ` set (permissions (wdb ?w) @ qs) =
         pe_slug ` set (permissions (wdb ?w)) \<union> pn_slug ` set ps"
      using Cons.IH [of ?w] Cons.prems by auto
    ultimately show ?thesis
      by (intro exI [of _ n] exI [of _ "?q # qs"]) (auto simp: Suc_le_eq intro: less_imp_le)
  qed
qed

lemma run_grant_all:
  "sched w = [] \<Longrightarrow> i \<in> rl_id ` set (roles (wdb w)) \<Longrightarrow>
     set slugs \<subseteq> pe_slug ` set (permissions (wdb w)) \<Longrightarrow>
     distinct (map pe_slug (permissions (wdb w))) \<Longrightarrow>
     \<exists>gs. run_state (grant_all i ro slugs) w =
         (Inr (), w\<lparr>wdb := (wdb w)\<lparr>grants := grants (wdb w) @ gs\<rparr>\<rparr>) \<and>
       set (grants (wdb w) @ gs) = set (grants (wdb w)) \<union>
         {(i, pe_id p) | p. p \<in> set (permissions (wdb w)) \<and> pe_slug p \<in> set slugs}"
proof (induction slugs arbitrary: w)
  case Nil
  show ?case by (intro exI [of _ "[]"]) simp
next
  case (Cons s slugs)
  obtain p where p: "sql_one (\<lambda>r. pe_slug r = s) (permissions (wdb w)) = Inr p"
    "p \<in> set (permissions (wdb w))" "pe_slug p = s"
    using find_slug [of s "permissions (wdb w)"] Cons.prems(3) by auto
  have only: "q = p" if "q \<in> set (permissions (wdb w))" "pe_slug q = s" for q
    using inj_onD_map [OF Cons.prems(4)] that p by metis
  define gs where "gs = (if (i, pe_id p) \<in> set (grants (wdb w)) then [] else [(i, pe_id p)])"
  let ?w = "w\<lparr>wdb := (wdb w)\<lparr>grants := grants (wdb w) @ gs\<rparr>\<rparr>"
  have step: "run_state (grant_all i ro (s # slugs)) w = run_state (grant_all i ro slugs) ?w"
    using Cons.prems(1,2) p
    by (auto simp: RBAC_GetPermissionBySlug_def RBAC_GrantPermissionToRole_def sql_grant_def gs_def
      simp del: append.simps)
  obtain hs where hs: "run_state (grant_all i ro slugs) ?w =
      (Inr (), ?w\<lparr>wdb := (wdb ?w)\<lparr>grants := grants (wdb ?w) @ hs\<rparr>\<rparr>)"
    "set (grants (wdb ?w) @ hs) = set (grants (wdb ?w)) \<union>
       {(i, pe_id p) | p. p \<in> set (permissions (wdb ?w)) \<and> pe_slug p \<in> set slugs}"
    using Cons.IH [of ?w] Cons.prems by auto
  have "{(i, pe_id q) | q. q \<in> set (permissions (wdb w)) \<and> pe_slug q \<in> set (s # slugs)} =
      insert (i, pe_id p) {(i, pe_id q) | q. q \<in> set (permissions (wdb w)) \<and> pe_slug q \<in> set slugs}"
    (is "?all = insert _ ?rest")
  proof (intro subset_antisym subsetI)
    fix x
    assume "x \<in> ?all"
    then obtain q where "x = (i, pe_id q)" "q \<in> set (permissions (wdb w))" "pe_slug q = s \<or> pe_slug q \<in> set slugs"
      by auto
    then show "x \<in> insert (i, pe_id p) ?rest" using only [of q] by blast
  next
    fix x
    assume "x \<in> insert (i, pe_id p) ?rest"
    then show "x \<in> ?all" using p(2,3) by auto
  qed
  moreover have "set (grants (wdb w) @ gs) = insert (i, pe_id p) (set (grants (wdb w)))"
    by (auto simp: gs_def)
  ultimately have "set (grants (wdb w) @ gs @ hs) = set (grants (wdb w)) \<union> ?all"
    using hs(2) by simp
  moreover have "run_state (grant_all i ro (s # slugs)) w =
      (Inr (), w\<lparr>wdb := (wdb w)\<lparr>grants := grants (wdb w) @ gs @ hs\<rparr>\<rparr>)"
    unfolding step hs(1) by simp
  ultimately show ?case by blast
qed

lemma run_find_or_create_role:
  assumes "sched w = []"
  shows "\<exists>row n rs. run_state (find_or_create_role r) w =
      (Inr row, w\<lparr>wdb := (wdb w)\<lparr>db_next := n, roles := roles (wdb w) @ rs\<rparr>\<rparr>) \<and>
    db_next (wdb w) \<le> n \<and> (\<forall>x\<in>set rs. db_next (wdb w) \<le> rl_id x) \<and>
    row \<in> set (roles (wdb w) @ rs) \<and> rl_slug row = rd_slug r \<and> rl_deleted row = None \<and>
    (list_ex (live_role (rd_slug r)) (roles (wdb w)) \<longrightarrow> rs = [] \<and> n = db_next (wdb w))"
proof (cases "find (live_role (rd_slug r)) (roles (wdb w))")
  case (Some row)
  then have "run_state (find_or_create_role r) w = (Inr row, w)"
    using assms by (simp add: find_or_create_role_def RBAC_GetRoleBySlug_def sql_one_def)
  then show ?thesis
    using find_SomeD [OF Some]
    by (intro exI [of _ row] exI [of _ "db_next (wdb w)"] exI [of _ "[]"]) (simp add: live_role_def)
next
  case None
  then have no: "\<not> list_ex (live_role (rd_slug r)) (roles (wdb w))"
    by (auto simp: find_None_iff list_ex_iff)
  let ?row = "\<lparr>rl_id = db_next (wdb w), rl_slug = rd_slug r, rl_name = rd_name r, rl_desc = rd_desc r,
    rl_system = rd_system r, rl_deleted = None, rl_created = db_now (wdb w)\<rparr>"
  have "run_state (find_or_create_role r) w = (Inr ?row,
      w\<lparr>wdb := (wdb w)\<lparr>db_next := Suc (db_next (wdb w)), roles := roles (wdb w) @ [?row]\<rparr>\<rparr>)"
    using assms None no
    by (simp add: find_or_create_role_def RBAC_GetRoleBySlug_def RBAC_CreateRole_def sql_one_def
      sql_create_role_def Let_def del: append.simps)
  then show ?thesis using no
    by (intro exI [of _ ?row] exI [of _ "Suc (db_next (wdb w))"] exI [of _ "[?row]"]) simp
qed

definition seed_frame :: "db \<Rightarrow> db \<Rightarrow> bool" where
  "seed_frame d d' \<longleftrightarrow>
     (\<exists>n ps rs gs. d' = d\<lparr>db_next := n, permissions := permissions d @ ps, roles := roles d @ rs,
        grants := grants d @ gs\<rparr>)"

definition role_pairs :: "role_definition list \<Rightarrow> (string \<times> string) set" where
  "role_pairs rs = {(rd_slug r, s) | r s. r \<in> set rs \<and> s \<in> set (rd_perms r)}"

lemma granted_append_role:
  assumes "access_ok d" "\<forall>x\<in>set rs. db_next d \<le> rl_id x"
  shows "granted (d\<lparr>db_next := n, roles := roles d @ rs\<rparr>) = granted d"
proof -
  have "i < db_next d" if "(i, j) \<in> set (grants d)" for i j
    using assms(1) that by (auto simp: access_ok_def)
  then show ?thesis using assms(2) by (fastforce simp: granted_def)
qed

lemma granted_append_permission:
  assumes "access_ok d" "\<forall>x\<in>set ps. db_next d \<le> pe_id x"
  shows "granted (d\<lparr>db_next := n, permissions := permissions d @ ps\<rparr>) = granted d"
proof -
  have "j < db_next d" if "(i, j) \<in> set (grants d)" for i j
    using assms(1) that by (auto simp: access_ok_def)
  then show ?thesis using assms(2) by (fastforce simp: granted_def)
qed

lemma granted_append_grants:
  assumes "access_ok d" "row \<in> set (roles d)" "rl_deleted row = None"
    "set slugs \<subseteq> pe_slug ` set (permissions d)"
    "set (grants d @ gs) = set (grants d) \<union>
       {(rl_id row, pe_id p) | p. p \<in> set (permissions d) \<and> pe_slug p \<in> set slugs}"
  shows "granted (d\<lparr>grants := grants d @ gs\<rparr>) = granted d \<union> {(rl_slug row, s) | s. s \<in> set slugs}"
proof -
  have r: "r = row" if "r \<in> set (roles d)" "rl_id r = rl_id row" for r
    using inj_onD_map [OF access_okD(1) [OF assms(1)]] that assms(2) by metis
  have p: "p = q" if "p \<in> set (permissions d)" "q \<in> set (permissions d)" "pe_id p = pe_id q" for p q
    using inj_onD_map [OF access_okD(3) [OF assms(1)]] that by metis
  have "granted (d\<lparr>grants := grants d @ gs\<rparr>) =
      {(rl_slug r, pe_slug q) | r q. r \<in> set (roles d) \<and> rl_deleted r = None \<and> q \<in> set (permissions d) \<and>
        ((rl_id r, pe_id q) \<in> set (grants d) \<or>
         (\<exists>p. rl_id r = rl_id row \<and> pe_id q = pe_id p \<and> p \<in> set (permissions d) \<and>
           pe_slug p \<in> set slugs))}"
    using assms(5) by (auto simp: granted_def)
  also have "\<dots> = granted d \<union> {(rl_slug row, s) | s. s \<in> set slugs}"
  proof (intro subset_antisym subsetI)
    fix x
    assume "x \<in> granted d \<union> {(rl_slug row, s) | s. s \<in> set slugs}"
    then show "x \<in> {(rl_slug r, pe_slug q) | r q. r \<in> set (roles d) \<and> rl_deleted r = None \<and>
        q \<in> set (permissions d) \<and> ((rl_id r, pe_id q) \<in> set (grants d) \<or>
         (\<exists>p. rl_id r = rl_id row \<and> pe_id q = pe_id p \<and> p \<in> set (permissions d) \<and>
           pe_slug p \<in> set slugs))}"
      using assms(2-4) unfolding granted_def by blast
  next
    fix x
    assume "x \<in> {(rl_slug r, pe_slug q) | r q. r \<in> set (roles d) \<and> rl_deleted r = None \<and>
        q \<in> set (permissions d) \<and> ((rl_id r, pe_id q) \<in> set (grants d) \<or>
         (\<exists>p. rl_id r = rl_id row \<and> pe_id q = pe_id p \<and> p \<in> set (permissions d) \<and>
           pe_slug p \<in> set slugs))}"
    then obtain q z where q: "x = (rl_slug q, pe_slug z)" "q \<in> set (roles d)" "rl_deleted q = None"
      "z \<in> set (permissions d)" and "(rl_id q, pe_id z) \<in> set (grants d) \<or>
        (\<exists>y. rl_id q = rl_id row \<and> pe_id z = pe_id y \<and> y \<in> set (permissions d) \<and> pe_slug y \<in> set slugs)"
      by auto
    then consider "(rl_id q, pe_id z) \<in> set (grants d)" | "q = row" "pe_slug z \<in> set slugs"
      using r p by metis
    then show "x \<in> granted d \<union> {(rl_slug row, s) | s. s \<in> set slugs}"
      by cases (use q in \<open>auto simp: granted_def\<close>)
  qed
  finally show ?thesis .
qed

lemma access_ok_run:
  assumes "access_ok (wdb w)" "sched w = []" "run_state m w = (r, w')" "keeps (stable access_ok) m"
  shows "access_ok (wdb w')"
  using keeps_runD [OF assms(4) stable_quietI [of access_ok, OF assms(1,2)] assms(3)]
  by (rule stable_db)

lemma run_seedRoles:
  "sched w = [] \<Longrightarrow> access_ok (wdb w) \<Longrightarrow>
     (\<And>r. r \<in> set rs \<Longrightarrow> set (rd_perms r) \<subseteq> pe_slug ` set (permissions (wdb w))) \<Longrightarrow>
     \<exists>n qs gs. run_state (seedRoles rs) w = (Inr (), w\<lparr>wdb := (wdb w)\<lparr>db_next := n,
         roles := roles (wdb w) @ qs, grants := grants (wdb w) @ gs\<rparr>\<rparr>) \<and>
       granted ((wdb w)\<lparr>db_next := n, roles := roles (wdb w) @ qs, grants := grants (wdb w) @ gs\<rparr>) =
         granted (wdb w) \<union> role_pairs rs \<and>
       (\<forall>r\<in>set rs. list_ex (live_role (rd_slug r)) (roles (wdb w) @ qs))"
proof (induction rs arbitrary: w)
  case Nil
  show ?case
    by (intro exI [of _ "db_next (wdb w)"] exI [of _ "[]"]) (simp add: role_pairs_def)
next
  case (Cons r rs)
  obtain row n qs where f: "run_state (find_or_create_role r) w =
      (Inr row, w\<lparr>wdb := (wdb w)\<lparr>db_next := n, roles := roles (wdb w) @ qs\<rparr>\<rparr>)"
    "\<forall>x\<in>set qs. db_next (wdb w) \<le> rl_id x"
    "row \<in> set (roles (wdb w) @ qs)" "rl_slug row = rd_slug r" "rl_deleted row = None"
    using run_find_or_create_role [OF Cons.prems(1), of r] by blast
  let ?w1 = "w\<lparr>wdb := (wdb w)\<lparr>db_next := n, roles := roles (wdb w) @ qs\<rparr>\<rparr>"
  have ok1: "access_ok (wdb ?w1)"
    by (rule access_ok_run [OF Cons.prems(2,1) f(1) access.keeps_find_or_create_role])
  have "rl_id row \<in> rl_id ` set (roles (wdb ?w1))" using imageI [OF f(3), of rl_id] by simp
  then obtain gs where g: "run_state (grant_all (rl_id row) (rd_slug r) (rd_perms r)) ?w1 =
      (Inr (), ?w1\<lparr>wdb := (wdb ?w1)\<lparr>grants := grants (wdb ?w1) @ gs\<rparr>\<rparr>)"
    "set (grants (wdb ?w1) @ gs) = set (grants (wdb ?w1)) \<union>
       {(rl_id row, pe_id p) | p. p \<in> set (permissions (wdb ?w1)) \<and> pe_slug p \<in> set (rd_perms r)}"
    using run_grant_all [of ?w1 "rl_id row" "rd_perms r" "rd_slug r"] Cons.prems(1,3)
      access_okD(4) [OF ok1] by auto
  let ?w2 = "?w1\<lparr>wdb := (wdb ?w1)\<lparr>grants := grants (wdb ?w1) @ gs\<rparr>\<rparr>"
  have ok2: "access_ok (wdb ?w2)"
    by (rule access_ok_run [OF ok1 _ g(1) access.keeps_grant_all]) (simp add: Cons.prems(1))
  have gr: "granted (wdb ?w2) = granted (wdb w) \<union> {(rd_slug r, s) | s. s \<in> set (rd_perms r)}"
    using granted_append_grants [OF ok1, of row "rd_perms r" gs] f(3-5) g(2) Cons.prems(3)
      granted_append_role [OF Cons.prems(2) f(2), of n] by simp
  obtain n' qs' gs' where s: "run_state (seedRoles rs) ?w2 = (Inr (), ?w2\<lparr>wdb := (wdb ?w2)\<lparr>db_next := n',
      roles := roles (wdb ?w2) @ qs', grants := grants (wdb ?w2) @ gs'\<rparr>\<rparr>)"
    "granted ((wdb ?w2)\<lparr>db_next := n', roles := roles (wdb ?w2) @ qs', grants := grants (wdb ?w2) @ gs'\<rparr>) =
      granted (wdb ?w2) \<union> role_pairs rs"
    "\<forall>r\<in>set rs. list_ex (live_role (rd_slug r)) (roles (wdb ?w2) @ qs')"
    using Cons.IH [of ?w2] Cons.prems(1,3) ok2 by auto
  have "run_state (seedRoles (r # rs)) w = (Inr (), w\<lparr>wdb := (wdb w)\<lparr>db_next := n',
      roles := roles (wdb w) @ qs @ qs', grants := grants (wdb w) @ gs @ gs'\<rparr>\<rparr>)"
    using f(1) g(1) s(1) by simp
  moreover have "granted ((wdb w)\<lparr>db_next := n', roles := roles (wdb w) @ qs @ qs',
      grants := grants (wdb w) @ gs @ gs'\<rparr>) = granted (wdb w) \<union> role_pairs (r # rs)"
    using s(2) gr by (auto simp: role_pairs_def)
  moreover have "\<forall>x\<in>set (r # rs). list_ex (live_role (rd_slug x)) (roles (wdb w) @ qs @ qs')"
    using s(3) f(3-5) by (auto simp: live_role_def list_ex_iff)
  ultimately show ?case by blast
qed

lemma run_seedPermissions_done:
  "sched w = [] \<Longrightarrow> pn_slug ` set ps \<subseteq> pe_slug ` set (permissions (wdb w)) \<Longrightarrow>
     run_state (seedPermissions ps) w = (Inr (), w)"
proof (induction ps)
  case (Cons p ps)
  then obtain q where "sql_one (\<lambda>r. pe_slug r = pn_slug p) (permissions (wdb w)) = Inr q"
    using find_slug [of "pn_slug p" "permissions (wdb w)"] by auto
  then show ?case using Cons by (simp add: RBAC_GetPermissionBySlug_def)
qed simp

lemma run_grant_all_done:
  "sched w = [] \<Longrightarrow> set slugs \<subseteq> pe_slug ` set (permissions (wdb w)) \<Longrightarrow>
     (\<And>p. p \<in> set (permissions (wdb w)) \<Longrightarrow> pe_slug p \<in> set slugs \<Longrightarrow> (i, pe_id p) \<in> set (grants (wdb w))) \<Longrightarrow>
     run_state (grant_all i ro slugs) w = (Inr (), w)"
proof (induction slugs)
  case (Cons s slugs)
  obtain p where "sql_one (\<lambda>r. pe_slug r = s) (permissions (wdb w)) = Inr p"
    "p \<in> set (permissions (wdb w))" "pe_slug p = s"
    using find_slug [of s "permissions (wdb w)"] Cons.prems(2) by auto
  then show ?case using Cons
    by (simp add: RBAC_GetPermissionBySlug_def RBAC_GrantPermissionToRole_def sql_grant_def
      del: append.simps)
qed simp

lemma run_seedRoles_done:
  assumes "sched w = []" "access_ok (wdb w)" "role_pairs rs \<subseteq> granted (wdb w)"
    "\<forall>r\<in>set rs. list_ex (live_role (rd_slug r)) (roles (wdb w))"
  shows "run_state (seedRoles rs) w = (Inr (), w)"
  using assms(3,4)
proof (induction rs)
  case (Cons r rs)
  obtain row where row: "find (live_role (rd_slug r)) (roles (wdb w)) = Some row"
    using Cons.prems(2) by (cases "find (live_role (rd_slug r)) (roles (wdb w))")
      (auto simp: find_None_iff list_ex_iff)
  then have live: "row \<in> set (roles (wdb w))" "rl_slug row = rd_slug r" "rl_deleted row = None"
    by (auto dest!: find_SomeD simp: live_role_def)
  have pairs: "(rd_slug r, s) \<in> granted (wdb w)" if "s \<in> set (rd_perms r)" for s
    using Cons.prems(1) that by (auto simp: role_pairs_def)
  have "(rl_id row, pe_id p) \<in> set (grants (wdb w))"
    if p: "p \<in> set (permissions (wdb w))" "pe_slug p \<in> set (rd_perms r)" for p
  proof -
    obtain q z where q: "q \<in> set (roles (wdb w))" "rl_deleted q = None" "rl_slug q = rd_slug r"
      "z \<in> set (permissions (wdb w))" "pe_slug z = pe_slug p" "(rl_id q, pe_id z) \<in> set (grants (wdb w))"
      using pairs [OF p(2)] by (auto simp: granted_def)
    have "q = row" using live_role_unique [OF assms(2) q(1) live(1)] q live by simp
    moreover have "z = p" using inj_onD_map [OF access_okD(4) [OF assms(2)]] q(4,5) p(1) by metis
    ultimately show ?thesis using q(6) by simp
  qed
  moreover have "set (rd_perms r) \<subseteq> pe_slug ` set (permissions (wdb w))"
    using pairs by (auto simp: granted_def)
  ultimately have "run_state (grant_all (rl_id row) (rd_slug r) (rd_perms r)) w = (Inr (), w)"
    by (intro run_grant_all_done assms(1))
  moreover have "run_state (find_or_create_role r) w = (Inr row, w)"
    using row assms(1) by (simp add: find_or_create_role_def RBAC_GetRoleBySlug_def sql_one_def)
  moreover have "run_state (seedRoles rs) w = (Inr (), w)"
    using Cons by (auto simp: role_pairs_def)
  ultimately show ?case by simp
qed simp

section \<open>The seeder and the owner of a new account\<close>

lemma role_pairs_simps:
  "role_pairs [] = {}"
  "role_pairs (r # rs) = {(rd_slug r, s) | s. s \<in> set (rd_perms r)} \<union> role_pairs rs"
  by (auto simp: role_pairs_def)

lemma owner_pairs:
  "(RoleTenantOwner, s) \<in> role_pairs defaultRoles \<longleftrightarrow> s \<in> set allPermissionSlugsExceptGlobal"
  by (simp add: defaultRoles_def role_pairs_simps)

lemma run_SeedOnce:
  assumes "sched w = []" "access_ok (wdb w)"
  shows "\<exists>w' n ps rs gs. run_state (SeedOnce True) w = (Inr (), w') \<and>
    w' = w\<lparr>wdb := (wdb w)\<lparr>db_next := n, permissions := ps, roles := rs, grants := gs\<rparr>\<rparr> \<and>
    access_ok (wdb w') \<and>
    granted (wdb w') = granted (wdb w) \<union> role_pairs defaultRoles \<and>
    run_state (SeedOnce True) w' = (Inr (), w')"
proof -
  obtain n qs where p: "run_state (seedPermissions allPermissions) w =
      (Inr (), w\<lparr>wdb := (wdb w)\<lparr>db_next := n, permissions := permissions (wdb w) @ qs\<rparr>\<rparr>)"
    "\<forall>q\<in>set qs. db_next (wdb w) \<le> pe_id q"
    "pe_slug ` set (permissions (wdb w) @ qs) =
       pe_slug ` set (permissions (wdb w)) \<union> pn_slug ` set allPermissions"
    using run_seedPermissions [OF assms(1)] by blast
  let ?w1 = "w\<lparr>wdb := (wdb w)\<lparr>db_next := n, permissions := permissions (wdb w) @ qs\<rparr>\<rparr>"
  have ok1: "access_ok (wdb ?w1)"
    by (rule access_ok_run [OF assms(2,1) p(1) access.keeps_seedPermissions])
  have reg: "set (rd_perms r) \<subseteq> pe_slug ` set (permissions (wdb ?w1))" if "r \<in> set defaultRoles" for r
    using default_perms_registered [OF that] p(3) by (auto simp: allPermissionSlugs_def)
  obtain n' rs gs where r: "run_state (seedRoles defaultRoles) ?w1 = (Inr (), ?w1\<lparr>wdb := (wdb ?w1)\<lparr>
      db_next := n', roles := roles (wdb ?w1) @ rs, grants := grants (wdb ?w1) @ gs\<rparr>\<rparr>)"
    "granted ((wdb ?w1)\<lparr>db_next := n', roles := roles (wdb ?w1) @ rs, grants := grants (wdb ?w1) @ gs\<rparr>) =
       granted (wdb ?w1) \<union> role_pairs defaultRoles"
    "\<forall>r\<in>set defaultRoles. list_ex (live_role (rd_slug r)) (roles (wdb ?w1) @ rs)"
    using run_seedRoles [of ?w1 defaultRoles] assms(1) ok1 reg by auto
  let ?w2 = "?w1\<lparr>wdb := (wdb ?w1)\<lparr>db_next := n', roles := roles (wdb ?w1) @ rs,
    grants := grants (wdb ?w1) @ gs\<rparr>\<rparr>"
  have ok2: "access_ok (wdb ?w2)"
    by (rule access_ok_run [OF ok1 _ r(1) access.keeps_seedRoles]) (simp add: assms(1))
  have "run_state (seedPermissions allPermissions) ?w2 = (Inr (), ?w2)"
    using p(3) assms(1) by (intro run_seedPermissions_done) (auto simp: image_Un)
  moreover have "run_state (seedRoles defaultRoles) ?w2 = (Inr (), ?w2)"
    using r(2,3) assms(1) by (intro run_seedRoles_done ok2) auto
  moreover have "run_state (SeedOnce True) w = (Inr (), ?w2)"
    using p(1) r(1) by (simp add: SeedOnce_def)
  moreover have "granted (wdb ?w2) = granted (wdb w) \<union> role_pairs defaultRoles"
    using r(2) granted_append_permission [OF assms(2) p(2), of n] by simp
  moreover have "?w2 = w\<lparr>wdb := (wdb w)\<lparr>db_next := n', permissions := permissions (wdb w) @ qs,
      roles := roles (wdb w) @ rs, grants := grants (wdb w) @ gs\<rparr>\<rparr>"
    by simp
  ultimately show ?thesis using ok2
    by (intro exI [of _ ?w2] exI [of _ n'] exI [of _ "permissions (wdb w) @ qs"]
      exI [of _ "roles (wdb w) @ rs"] exI [of _ "grants (wdb w) @ gs"]) (simp add: SeedOnce_def)
qed

text \<open>
  C11. Seeding at start-up, on any well-formed database: it succeeds, and afterwards a role grants
  exactly what it granted before and, for each default role, the permissions of its bundle; run
  again it changes nothing at all.
\<close>

theorem SeedOnce_grants:
  assumes "sched w = []" "access_ok (wdb w)"
  shows "\<exists>w'. run_state (SeedOnce True) w = (Inr (), w') \<and>
    granted (wdb w') = granted (wdb w) \<union> role_pairs defaultRoles \<and>
    run_state (SeedOnce True) w' = (Inr (), w')"
  using run_SeedOnce [OF assms] by blast

definition start_world :: world where
  "start_world = \<lparr>wdb = empty_db 1000 [] [0], sched = [], events = [], pdns = []\<rparr>"

lemma start_world_facts: "sched start_world = []" "access_ok (wdb start_world)"
  "granted (wdb start_world) = {}"
  by (simp_all add: start_world_def empty_db_def access_ok_def live_roles_def live_members_def
    granted_def)

theorem SeedOnce_grants_witness:
  "\<exists>w'. run_state (SeedOnce True) start_world = (Inr (), w') \<and>
    granted (wdb w') = role_pairs defaultRoles \<and> run_state (SeedOnce True) w' = (Inr (), w')"
  using SeedOnce_grants [OF start_world_facts(1,2)] by (simp add: start_world_facts)

text \<open>
  C21. A self-registered account is the owner of a personal tenant, and in that tenant the policy
  grants it every permission of the catalog that is not a platform permission: among them the
  management of the operator's IP pools and the audit log of all tenants, which the catalog
  reserves to the platform administrator, and the adjustment of balances.
\<close>

theorem new_account_permissions:
  assumes "sched w = []" "access_ok (wdb w)" "granted (wdb w) = role_pairs defaultRoles"
    "u \<in> set (db_users (wdb w))"
    "\<not> list_ex (\<lambda>r. tn_slug r = ''personal-'' @ uuid_str u \<and> tn_deleted r = None) (tenant_rows (wdb w))"
  shows "\<exists>t w'. run_state (ProvisionSignup uuid_str [] u email) w = (Inr (), w') \<and>
    (\<forall>s. run_state (HasPermission (db_lookup coll) u t s) w' =
       (Inr (s \<in> set allPermissionSlugsExceptGlobal), w')) \<and>
    {PermComputeIPPoolManage, PermAuditReadGlobal, PermBillingBalanceAdjust}
      \<subseteq> set allPermissionSlugsExceptGlobal"
proof -
  let ?d = "wdb w" and ?t = "db_next (wdb w)"
  have "(RoleTenantOwner, PermTenantRead) \<in> granted ?d"
    unfolding assms(3) owner_pairs by (rule owner_examples)
  then have "list_ex (live_role RoleTenantOwner) (roles ?d)"
    by (auto simp: granted_def live_role_def list_ex_iff)
  then obtain r where r: "find (live_role RoleTenantOwner) (roles ?d) = Some r"
    by (cases "find (live_role RoleTenantOwner) (roles ?d)") (auto simp: find_None_iff list_ex_iff)
  then have row: "r \<in> set (roles ?d)" "rl_slug r = RoleTenantOwner" "rl_deleted r = None"
    by (auto dest!: find_SomeD simp: live_role_def)
  have new: "\<not> list_ex (is_member u ?t) (memberships ?d)"
    by (auto simp: list_ex_iff is_member_def dest!: access_okD(9) [OF assms(2)])
  let ?tn = "\<lparr>tn_id = ?t, tn_slug = ''personal-'' @ uuid_str u, tn_name = email, tn_active = True,
    tn_deleted = None, tn_created = db_now ?d\<rparr>"
  let ?m = "\<lparr>mb_id = Suc ?t, mb_tenant = ?t, mb_user = u, mb_role = Some (rl_id r),
    mb_deleted = None, mb_created = db_now ?d\<rparr>"
  let ?d' = "?d\<lparr>db_next := Suc (Suc ?t), db_tenants := db_tenants ?d @ [?t],
    tenant_rows := tenant_rows ?d @ [?tn], memberships := memberships ?d @ [?m]\<rparr>"
  let ?w' = "w\<lparr>wdb := ?d'\<rparr>"
  have run: "run_state (ProvisionSignup uuid_str [] u email) w = (Inr (), ?w')"
    using assms(1,4,5) r row new
    by (simp add: ProvisionSignup_def RBAC_GetRoleBySlug_def Tenants_Create_def sql_create_tenant_def
      Members_Create_def sql_create_member_def sql_one_def Let_def errors_Join_def role_ref_ok_def
      del: append.simps)
  have ok': "access_ok ?d'"
    using access_ok_run [OF assms(2,1) run access.keeps_ProvisionSignup] by simp
  have "granted ?d' = granted ?d" by (simp add: granted_def)
  then have "perms_of ?d' u ?t = set allPermissionSlugsExceptGlobal" "role_of ?d' u ?t = Some RoleTenantOwner"
    using perms_of_member [OF ok', of ?m u ?t r] role_of_member [OF ok', of ?m u ?t r] row
    by (auto simp: is_member_def assms(3) owner_pairs)
  then have "run_state (HasPermission (db_lookup coll) u ?t s) ?w' =
      (Inr (s \<in> set allPermissionSlugsExceptGlobal), ?w')" for s
    using access_lookup.run_HasPermission [of ?w' coll u ?t s] ok' assms(1)
    by (simp add: access_lookup.holds_def)
  moreover have "{PermComputeIPPoolManage, PermAuditReadGlobal, PermBillingBalanceAdjust}
      \<subseteq> set allPermissionSlugsExceptGlobal"
    using owner_examples by simp
  ultimately show ?thesis using run by blast
qed

theorem new_account_permissions_witness:
  "let w = snd (run_state (SeedOnce True) start_world)
   in \<exists>t w'. run_state (ProvisionSignup (\<lambda>_. ''0'') [] 0 ''a@b.org'') w = (Inr (), w') \<and>
     (\<forall>s. run_state (HasPermission (db_lookup (\<lambda>_. 0)) 0 t s) w' =
       (Inr (s \<in> set allPermissionSlugsExceptGlobal), w'))"
proof -
  obtain w' n ps rs gs where w': "run_state (SeedOnce True) start_world = (Inr (), w')"
    "w' = start_world\<lparr>wdb := (wdb start_world)\<lparr>db_next := n, permissions := ps, roles := rs, grants := gs\<rparr>\<rparr>"
    "access_ok (wdb w')" "granted (wdb w') = role_pairs defaultRoles"
    using run_SeedOnce [OF start_world_facts(1,2)] by (auto simp: start_world_facts)
  have "sched w' = []" "0 \<in> set (db_users (wdb w'))"
    "\<not> list_ex (\<lambda>r. tn_slug r = ''personal-'' @ ''0'' \<and> tn_deleted r = None) (tenant_rows (wdb w'))"
    by (simp_all add: w'(2) start_world_def empty_db_def)
  then have "\<exists>t w2. run_state (ProvisionSignup (\<lambda>_. ''0'') [] 0 ''a@b.org'') w' = (Inr (), w2) \<and>
     (\<forall>s. run_state (HasPermission (db_lookup (\<lambda>_. 0)) 0 t s) w2 =
       (Inr (s \<in> set allPermissionSlugsExceptGlobal), w2))"
    using new_account_permissions [of w' 0 "\<lambda>_. ''0''" "''a@b.org''" "\<lambda>_. 0"] w'(3,4) by blast
  then show ?thesis using w'(1) by simp
qed

end
