(* ===== verification/Gate.thy ===== *)
theory Gate
  imports Rbac
begin

text \<open>
  The permission gate of the HTTP API: the path helpers and the switch of \<^verbatim>\<open>api/router.go\<close>, the
  check of \<^verbatim>\<open>api/middleware/rbac.go\<close>, and the table of routes the gate stands in front of
  (\<^verbatim>\<open>RegisterHandlersWithOptions\<close> of \<^verbatim>\<open>api/gen/go/gen.go\<close>). A case of the switch is a pair of its
  condition and its action; the first condition that holds decides. The path is the one
  \<^verbatim>\<open>c.Path()\<close> returns, as the client sent it.
\<close>

section \<open>Paths\<close>

definition isComputeInstanceLifecyclePath :: "string \<Rightarrow> bool" where
  "isComputeInstanceLifecyclePath path \<longleftrightarrow>
     list_ex (\<lambda>a. HasSuffix path (''/'' @ a) \<and>
     HasPrefix path ''/api/v1/compute/instances/'')
       [''start'', ''stop'', ''restart'', ''freeze'', ''unfreeze'']"

definition isComputeInstanceExecPath :: "string \<Rightarrow> bool" where
  "isComputeInstanceExecPath path \<longleftrightarrow>
     HasPrefix path ''/api/v1/compute/instances/'' \<and> HasSuffix path ''/exec''"

definition isComputeInstanceVNCPath :: "string \<Rightarrow> bool" where
  "isComputeInstanceVNCPath path \<longleftrightarrow>
     HasPrefix path ''/api/v1/compute/instances/'' \<and> HasSuffix path ''/vnc''"

definition isComputeInstanceConsolePath :: "string \<Rightarrow> bool" where
  "isComputeInstanceConsolePath path \<longleftrightarrow>
     HasPrefix path ''/api/v1/compute/instances/'' \<and> HasSuffix path ''/console''"

definition isComputeSnapshotRestorePath :: "string \<Rightarrow> bool" where
  "isComputeSnapshotRestorePath path \<longleftrightarrow>
     HasPrefix path ''/api/v1/compute/instances/'' \<and>
     Contains path ''/snapshots/'' \<and> HasSuffix path ''/restore''"

definition isComputeSnapshotPath :: "string \<Rightarrow> bool" where
  "isComputeSnapshotPath path \<longleftrightarrow>
     HasPrefix path ''/api/v1/compute/instances/'' \<and>
     (HasSuffix path ''/snapshots'' \<or>
     (\<not> isComputeSnapshotRestorePath path \<and>
     Contains path ''/snapshots/''))"

definition isComputeInstanceBackupsPath :: "string \<Rightarrow> bool" where
  "isComputeInstanceBackupsPath path \<longleftrightarrow>
     HasPrefix path ''/api/v1/compute/instances/'' \<and> HasSuffix path ''/backups''"

definition isComputeInstanceMigratePath :: "string \<Rightarrow> bool" where
  "isComputeInstanceMigratePath path \<longleftrightarrow>
     HasPrefix path ''/api/v1/compute/instances/'' \<and>
     HasSuffix path ''/migrate''"

definition isComputeInstancePath :: "string \<Rightarrow> bool" where
  "isComputeInstancePath path \<longleftrightarrow>
     path = ''/api/v1/compute/instances'' \<or>
     (HasPrefix path ''/api/v1/compute/instances/'' \<and>
     \<not> isComputeInstanceLifecyclePath path \<and>
     \<not> isComputeInstanceExecPath path \<and>
     \<not> isComputeInstanceVNCPath path \<and>
     \<not> isComputeInstanceConsolePath path \<and>
     \<not> isComputeSnapshotPath path \<and>
     \<not> isComputeSnapshotRestorePath path \<and>
     \<not> isComputeInstanceBackupsPath path \<and> \<not> isComputeInstanceMigratePath path)"

definition isComputeSnapshotPolicyPath :: "string \<Rightarrow> bool" where
  "isComputeSnapshotPolicyPath path \<longleftrightarrow>
     path = ''/api/v1/compute/snapshot-policies'' \<or>
     HasPrefix path ''/api/v1/compute/snapshot-policies/''"

definition isComputeBackupTargetPath :: "string \<Rightarrow> bool" where
  "isComputeBackupTargetPath path \<longleftrightarrow>
     path = ''/api/v1/compute/backup-targets'' \<or>
     HasPrefix path ''/api/v1/compute/backup-targets/''"

definition isComputeBackupPath :: "string \<Rightarrow> bool" where
  "isComputeBackupPath path \<longleftrightarrow>
     path = ''/api/v1/compute/backups'' \<or>
     HasPrefix path ''/api/v1/compute/backups/''"

definition isComputeClusterMembersPath :: "string \<Rightarrow> bool" where
  "isComputeClusterMembersPath path \<longleftrightarrow> path = ''/api/v1/compute/cluster/members''"

definition isComputeClusterMemberPath :: "string \<Rightarrow> bool" where
  "isComputeClusterMemberPath path \<longleftrightarrow> HasPrefix path ''/api/v1/compute/cluster/members/''"

definition isComputeClusterMemberEvacuatePath :: "string \<Rightarrow> bool" where
  "isComputeClusterMemberEvacuatePath path \<longleftrightarrow>
     HasPrefix path ''/api/v1/compute/cluster/members/'' \<and>
     (HasSuffix path ''/evacuate'' \<or> HasSuffix path ''/restore'')"

definition isComputeIPPoolPath :: "string \<Rightarrow> bool" where
  "isComputeIPPoolPath path \<longleftrightarrow>
     path = ''/api/v1/admin/compute/ip-pools'' \<or>
     HasPrefix path ''/api/v1/admin/compute/ip-pools/''"

definition isComputeFloatingIPAttachPath :: "string \<Rightarrow> bool" where
  "isComputeFloatingIPAttachPath path \<longleftrightarrow>
     HasPrefix path ''/api/v1/compute/floating-ips/'' \<and> HasSuffix path ''/attach''"

definition isComputeFloatingIPDetachPath :: "string \<Rightarrow> bool" where
  "isComputeFloatingIPDetachPath path \<longleftrightarrow>
     HasPrefix path ''/api/v1/compute/floating-ips/'' \<and> HasSuffix path ''/detach''"

definition isComputeFloatingIPPath :: "string \<Rightarrow> bool" where
  "isComputeFloatingIPPath path \<longleftrightarrow>
     path = ''/api/v1/compute/floating-ips'' \<or>
     (HasPrefix path ''/api/v1/compute/floating-ips/'' \<and>
     \<not> isComputeFloatingIPAttachPath path \<and> \<not> isComputeFloatingIPDetachPath path)"

definition isComputeInstanceFloatingIPPath :: "string \<Rightarrow> bool" where
  "isComputeInstanceFloatingIPPath path \<longleftrightarrow>
     HasPrefix path ''/api/v1/compute/instances/'' \<and>
     HasSuffix path ''/floating-ip''"

definition isComputeImagePath :: "string \<Rightarrow> bool" where
  "isComputeImagePath path \<longleftrightarrow>
     path = ''/api/v1/compute/images'' \<or>
     HasPrefix path ''/api/v1/compute/images/''"

definition isComputeProfilePath :: "string \<Rightarrow> bool" where
  "isComputeProfilePath path \<longleftrightarrow>
     path = ''/api/v1/compute/profiles'' \<or>
     HasPrefix path ''/api/v1/compute/profiles/''"

definition isComputeNetworkPath :: "string \<Rightarrow> bool" where
  "isComputeNetworkPath path \<longleftrightarrow>
     path = ''/api/v1/compute/networks'' \<or>
     HasPrefix path ''/api/v1/compute/networks/''"

definition isComputeStoragePath :: "string \<Rightarrow> bool" where
  "isComputeStoragePath path \<longleftrightarrow>
     path = ''/api/v1/compute/storage'' \<or>
     HasPrefix path ''/api/v1/compute/storage/''"

definition isDNSRecordPath :: "string \<Rightarrow> bool" where
  "isDNSRecordPath path \<longleftrightarrow>
     HasPrefix path ''/api/v1/dns/zones/'' \<and>
     Contains path ''/records''"

definition isDNSApplyTemplatePath :: "string \<Rightarrow> bool" where
  "isDNSApplyTemplatePath path \<longleftrightarrow>
     HasPrefix path ''/api/v1/dns/zones/'' \<and>
     HasSuffix path ''/apply-template''"

definition isDNSDNSSECPath :: "string \<Rightarrow> bool" where
  "isDNSDNSSECPath path \<longleftrightarrow>
     HasPrefix path ''/api/v1/dns/zones/'' \<and>
     (Contains path ''/dnssec/enable'' \<or> Contains path ''/dnssec/disable'')"

definition isDNSZonePath :: "string \<Rightarrow> bool" where
  "isDNSZonePath path \<longleftrightarrow>
     path = ''/api/v1/dns/zones'' \<or>
     (HasPrefix path ''/api/v1/dns/zones/'' \<and>
     \<not> isDNSRecordPath path \<and> \<not> isDNSApplyTemplatePath path \<and>
     \<not> isDNSDNSSECPath path)"

definition isDNSTemplatePath :: "string \<Rightarrow> bool" where
  "isDNSTemplatePath path \<longleftrightarrow> path = ''/api/v1/dns/templates''"

definition isDNSDomainRenewPath :: "string \<Rightarrow> bool" where
  "isDNSDomainRenewPath path \<longleftrightarrow>
     HasPrefix path ''/api/v1/dns/domains/'' \<and>
     HasSuffix path ''/renew''"

definition isDNSDomainPath :: "string \<Rightarrow> bool" where
  "isDNSDomainPath path \<longleftrightarrow>
     path = ''/api/v1/dns/domains'' \<or>
     (HasPrefix path ''/api/v1/dns/domains/'' \<and>
     \<not> isDNSDomainRenewPath path)"

definition isDNSDomainSearchPath :: "string \<Rightarrow> bool" where
  "isDNSDomainSearchPath path \<longleftrightarrow> path = ''/api/v1/dns/domains/search''"

definition isDNSDomainTransferPath :: "string \<Rightarrow> bool" where
  "isDNSDomainTransferPath path \<longleftrightarrow> path = ''/api/v1/dns/domains/transfer''"

definition isStorageCredentialsPath :: "string \<Rightarrow> bool" where
  "isStorageCredentialsPath path \<longleftrightarrow>
     HasPrefix path ''/api/v1/storage/buckets/'' \<and>
     Contains path ''/credentials''"

definition isStoragePresignPath :: "string \<Rightarrow> bool" where
  "isStoragePresignPath path \<longleftrightarrow>
     HasPrefix path ''/api/v1/storage/buckets/'' \<and>
     HasSuffix path ''/presign''"

definition isStorageQuotaPath :: "string \<Rightarrow> bool" where
  "isStorageQuotaPath path \<longleftrightarrow>
     HasPrefix path ''/api/v1/storage/buckets/'' \<and>
     HasSuffix path ''/quota''"

definition isStorageUsagePath :: "string \<Rightarrow> bool" where
  "isStorageUsagePath path \<longleftrightarrow>
     HasPrefix path ''/api/v1/storage/buckets/'' \<and>
     HasSuffix path ''/usage''"

definition isStorageVersioningPath :: "string \<Rightarrow> bool" where
  "isStorageVersioningPath path \<longleftrightarrow>
     HasPrefix path ''/api/v1/storage/buckets/'' \<and>
     HasSuffix path ''/versioning''"

definition isStorageVersionsPath :: "string \<Rightarrow> bool" where
  "isStorageVersionsPath path \<longleftrightarrow>
     HasPrefix path ''/api/v1/storage/buckets/'' \<and>
     HasSuffix path ''/versions''"

definition isStorageLifecycleStatusPath :: "string \<Rightarrow> bool" where
  "isStorageLifecycleStatusPath path \<longleftrightarrow>
     HasPrefix path ''/api/v1/storage/buckets/'' \<and>
     HasSuffix path ''/status'' \<and> Contains path ''/lifecycle/''"

definition isStorageLifecyclePath :: "string \<Rightarrow> bool" where
  "isStorageLifecyclePath path \<longleftrightarrow>
     HasPrefix path ''/api/v1/storage/buckets/'' \<and>
     Contains path ''/lifecycle'' \<and>
     \<not> isStorageLifecycleStatusPath path"

definition isStorageObjectLockPath :: "string \<Rightarrow> bool" where
  "isStorageObjectLockPath path \<longleftrightarrow>
     HasPrefix path ''/api/v1/storage/buckets/'' \<and>
     HasSuffix path ''/object-lock''"

definition isStorageBucketPath :: "string \<Rightarrow> bool" where
  "isStorageBucketPath path \<longleftrightarrow>
     path = ''/api/v1/storage/buckets'' \<or>
     (HasPrefix path ''/api/v1/storage/buckets/'' \<and>
     \<not> isStorageCredentialsPath path \<and> \<not> isStoragePresignPath path \<and>
     \<not> isStorageQuotaPath path \<and> \<not> isStorageUsagePath path \<and>
     \<not> isStorageVersioningPath path \<and> \<not> isStorageVersionsPath path \<and>
     \<not> isStorageLifecyclePath path \<and> \<not> isStorageObjectLockPath path)"

definition isStorageVersionRestorePath :: "string \<Rightarrow> bool" where
  "isStorageVersionRestorePath path \<longleftrightarrow>
     HasPrefix path ''/api/v1/storage/buckets/'' \<and>
     HasSuffix path ''/versions/restore''"

definition isBillingMeBalancePath :: "string \<Rightarrow> bool" where
  "isBillingMeBalancePath path \<longleftrightarrow> path = ''/api/v1/me/balance''"

definition isBillingMeUsagePath :: "string \<Rightarrow> bool" where
  "isBillingMeUsagePath path \<longleftrightarrow> path = ''/api/v1/me/usage''"

definition isBillingMeLedgerPath :: "string \<Rightarrow> bool" where
  "isBillingMeLedgerPath path \<longleftrightarrow> path = ''/api/v1/me/ledger''"

definition isBillingMeReceiptsPath :: "string \<Rightarrow> bool" where
  "isBillingMeReceiptsPath path \<longleftrightarrow>
     path = ''/api/v1/me/receipts'' \<or>
     (HasPrefix path ''/api/v1/me/receipts/'' \<and>
     \<not> HasSuffix path ''.pdf'')"

definition isBillingMeReceiptsPDFPath :: "string \<Rightarrow> bool" where
  "isBillingMeReceiptsPDFPath path \<longleftrightarrow>
     HasPrefix path ''/api/v1/me/receipts/'' \<and> HasSuffix path ''.pdf''"

definition isBillingAdminPricesPath :: "string \<Rightarrow> bool" where
  "isBillingAdminPricesPath path \<longleftrightarrow>
     path = ''/api/v1/admin/billing/prices'' \<or>
     HasPrefix path ''/api/v1/admin/billing/prices/''"

definition isBillingAdminUserTopupPath :: "string \<Rightarrow> bool" where
  "isBillingAdminUserTopupPath path \<longleftrightarrow>
     HasPrefix path ''/api/v1/admin/users/'' \<and> HasSuffix path ''/topup''"

definition isBillingAdminUserRefundPath :: "string \<Rightarrow> bool" where
  "isBillingAdminUserRefundPath path \<longleftrightarrow>
     HasPrefix path ''/api/v1/admin/users/'' \<and> HasSuffix path ''/refund''"

definition isBillingAdminUserLedgerPath :: "string \<Rightarrow> bool" where
  "isBillingAdminUserLedgerPath path \<longleftrightarrow>
     HasPrefix path ''/api/v1/admin/users/'' \<and> HasSuffix path ''/ledger''"

definition isBillingAdminUserBalancePath :: "string \<Rightarrow> bool" where
  "isBillingAdminUserBalancePath path \<longleftrightarrow>
     HasPrefix path ''/api/v1/admin/users/'' \<and> HasSuffix path ''/balance''"

definition isBillingConfigPath :: "string \<Rightarrow> bool" where
  "isBillingConfigPath path \<longleftrightarrow> path = ''/api/v1/billing/config''"

definition isBillingPublicPlansPath :: "string \<Rightarrow> bool" where
  "isBillingPublicPlansPath path \<longleftrightarrow> path = ''/api/v1/billing/plans''"

definition isBillingPaymentMethodsPath :: "string \<Rightarrow> bool" where
  "isBillingPaymentMethodsPath path \<longleftrightarrow> path = ''/api/v1/billing/payment-methods''"

definition isBillingPaymentMethodPath :: "string \<Rightarrow> bool" where
  "isBillingPaymentMethodPath path \<longleftrightarrow> HasPrefix path ''/api/v1/billing/payment-methods/''"

definition isBillingTopupPath :: "string \<Rightarrow> bool" where
  "isBillingTopupPath path \<longleftrightarrow> path = ''/api/v1/billing/topup''"

definition isBillingSubscriptionsPath :: "string \<Rightarrow> bool" where
  "isBillingSubscriptionsPath path \<longleftrightarrow> path = ''/api/v1/billing/subscriptions''"

definition isBillingSubscriptionPath :: "string \<Rightarrow> bool" where
  "isBillingSubscriptionPath path \<longleftrightarrow> HasPrefix path ''/api/v1/billing/subscriptions/''"

definition isBillingRedeemPath :: "string \<Rightarrow> bool" where
  "isBillingRedeemPath path \<longleftrightarrow> path = ''/api/v1/billing/redeem''"

definition isBillingAdminPlanPushPath :: "string \<Rightarrow> bool" where
  "isBillingAdminPlanPushPath path \<longleftrightarrow>
     HasPrefix path ''/api/v1/admin/billing/plans/'' \<and> HasSuffix path ''/push''"

definition isBillingAdminPlansPath :: "string \<Rightarrow> bool" where
  "isBillingAdminPlansPath path \<longleftrightarrow>
     path = ''/api/v1/admin/billing/plans'' \<or>
     (HasPrefix path ''/api/v1/admin/billing/plans/'' \<and>
     \<not> isBillingAdminPlanPushPath path)"

definition isBillingAdminPromoCodesPath :: "string \<Rightarrow> bool" where
  "isBillingAdminPromoCodesPath path \<longleftrightarrow>
     path = ''/api/v1/admin/billing/promo-codes'' \<or>
     HasPrefix path ''/api/v1/admin/billing/promo-codes/''"

definition isBillingAdminPromoCodeRevokePath :: "string \<Rightarrow> bool" where
  "isBillingAdminPromoCodeRevokePath path \<longleftrightarrow>
     HasPrefix path ''/api/v1/admin/billing/promo-codes/'' \<and> HasSuffix path ''/revoke''"

definition isBillingAdminWebhookEventsPath :: "string \<Rightarrow> bool" where
  "isBillingAdminWebhookEventsPath path \<longleftrightarrow> path = ''/api/v1/admin/billing/webhook-events''"

definition isBillingWebhookPath :: "string \<Rightarrow> bool" where
  "isBillingWebhookPath path \<longleftrightarrow> path = ''/api/v1/webhooks/stripe''"

definition isAgentToolCallConfirmPath :: "string \<Rightarrow> bool" where
  "isAgentToolCallConfirmPath path \<longleftrightarrow>
     HasPrefix path ''/api/v1/agent/tool-calls/'' \<and> HasSuffix path ''/confirm''"

definition isAgentConversationMessagesPath :: "string \<Rightarrow> bool" where
  "isAgentConversationMessagesPath path \<longleftrightarrow>
     HasPrefix path ''/api/v1/agent/conversations/'' \<and> HasSuffix path ''/messages''"

definition isAgentConversationItemPath :: "string \<Rightarrow> bool" where
  "isAgentConversationItemPath path \<longleftrightarrow>
     HasPrefix path ''/api/v1/agent/conversations/'' \<and>
     \<not> isAgentConversationMessagesPath path"

definition isAgentProviderPath :: "string \<Rightarrow> bool" where
  "isAgentProviderPath path \<longleftrightarrow>
     path = ''/api/v1/agent/providers'' \<or>
     HasPrefix path ''/api/v1/agent/providers/''"

definition isAgentPolicyPath :: "string \<Rightarrow> bool" where
  "isAgentPolicyPath path \<longleftrightarrow> path = ''/api/v1/agent/policy''"

definition isAdminUserItemPath :: "string \<Rightarrow> bool" where
  "isAdminUserItemPath path \<longleftrightarrow>
     (case CutPrefix path ''/api/v1/admin/users/'' of
        None \<Rightarrow> False
      | Some rest \<Rightarrow> rest \<noteq> [] \<and> \<not> Contains rest ''/'')"

definition isAdminUserMembershipPath :: "string \<Rightarrow> bool" where
  "isAdminUserMembershipPath path \<longleftrightarrow>
     (case CutPrefix path ''/api/v1/admin/users/'' of
        None \<Rightarrow> False
      | Some rest \<Rightarrow>
          (let parts = split_on (CHR ''/'') rest
           in length parts = 3 \<and> parts ! 1 = ''memberships'' \<and>
     parts ! 0 \<noteq> [] \<and> parts ! 2 \<noteq> []))"

section \<open>The switch\<close>

datatype gate_rule = Free | Needs string

definition computeInstanceActionPerm :: "string \<Rightarrow> string" where
  "computeInstanceActionPerm path =
     (if HasSuffix path ''/start'' then PermComputeInstanceStart
      else if HasSuffix path ''/stop'' then PermComputeInstanceStop
      else if HasSuffix path ''/restart'' then PermComputeInstanceRestart
      else if HasSuffix path ''/freeze'' \<or> HasSuffix path ''/unfreeze'' then PermComputeInstanceStop
      else PermComputeInstanceRead)"

definition audit_admin_rules :: "string \<Rightarrow> string \<Rightarrow> (bool \<times> gate_rule) list" where
  "audit_admin_rules path method =
     [(path = ''/api/v1/audit/export'', Needs PermAuditExport),
      (path = ''/api/v1/audit'', Needs PermAuditRead),
      (HasPrefix path ''/api/v1/audit/'', Needs PermAuditRead),
      (HasPrefix path ''/api/v1/admin/jobs/'' \<and> HasSuffix path ''/retry'',
         Needs PermPlatformJobsRetry),
      (HasPrefix path ''/api/v1/admin/jobs/'' \<and> HasSuffix path ''/cancel'',
         Needs PermPlatformJobsCancel),
      (path = ''/api/v1/admin/jobs'', Needs PermPlatformJobsRead),
      (HasPrefix path ''/api/v1/admin/jobs/'', Needs PermPlatformJobsRead),
      (path = ''/api/v1/admin/marketplace'', Needs PermPluginsRead),
      (HasPrefix path ''/api/v1/admin/marketplace/'', Needs PermPluginsRead),
      (HasPrefix path ''/api/v1/admin/plugins/install/'', Needs PermPluginsInstall),
      (HasPrefix path ''/api/v1/admin/plugins/upgrade/'', Needs PermPluginsInstall),
      (path = ''/api/v1/admin/plugins/upload'' \<and> method = ''POST'', Needs PermPluginsInstall),
      (HasPrefix path ''/api/v1/admin/plugins/'' \<and> HasSuffix path ''/enable'',
         Needs PermPluginsInstall),
      (HasPrefix path ''/api/v1/admin/plugins/'' \<and> HasSuffix path ''/disable'',
         Needs PermPluginsInstall),
      (HasPrefix path ''/api/v1/admin/plugins/'' \<and> Contains path ''/permissions/'',
         Needs PermPluginsPermissionApprove),
      (HasPrefix path ''/api/v1/admin/plugins/'' \<and> method = ''DELETE'',
         Needs PermPluginsUninstall),
      (path = ''/api/v1/admin/plugins'', Needs PermPluginsInstall),
      (HasPrefix path ''/api/v1/admin/plugins/'', Needs PermPluginsInstall)]"

definition compute_rules :: "string \<Rightarrow> string \<Rightarrow> (bool \<times> gate_rule) list" where
  "compute_rules path method =
     [(isComputeInstanceVNCPath path \<and> method = ''GET'', Needs PermComputeInstanceConsoleVNC),
      (isComputeInstanceConsolePath path \<and> method = ''GET'',
         Needs PermComputeInstanceConsoleExec),
      (isComputeInstanceExecPath path \<and> method = ''POST'', Needs PermComputeInstanceStart),
      (isComputeSnapshotRestorePath path \<and> method = ''POST'', Needs PermComputeInstanceUpdate),
      (isComputeSnapshotPath path \<and> method = ''POST'', Needs PermComputeSnapshotCreate),
      (isComputeSnapshotPath path \<and> method = ''GET'', Needs PermComputeSnapshotRead),
      (isComputeSnapshotPath path \<and> method = ''DELETE'', Needs PermComputeSnapshotDelete),
      (isComputeSnapshotPolicyPath path \<and> method = ''POST'',
         Needs PermComputeSnapshotPolicyCreate),
      (isComputeSnapshotPolicyPath path \<and> method = ''GET'',
         Needs PermComputeSnapshotPolicyRead),
      (isComputeSnapshotPolicyPath path \<and> method = ''PATCH'',
         Needs PermComputeSnapshotPolicyUpdate),
      (isComputeSnapshotPolicyPath path \<and> method = ''DELETE'',
         Needs PermComputeSnapshotPolicyDelete),
      (isComputeBackupTargetPath path \<and> method = ''POST'',
         Needs PermComputeBackupTargetCreate),
      (isComputeBackupTargetPath path \<and> method = ''GET'', Needs PermComputeBackupTargetRead),
      (isComputeBackupTargetPath path \<and> method = ''DELETE'',
         Needs PermComputeBackupTargetDelete),
      (isComputeBackupPath path \<and> method = ''GET'', Needs PermComputeBackupRead),
      (isComputeBackupPath path \<and> method = ''DELETE'', Needs PermComputeBackupDelete),
      (isComputeInstanceBackupsPath path \<and> method = ''GET'', Needs PermComputeBackupRead),
      (isComputeInstanceLifecyclePath path \<and> method = ''POST'',
         Needs (computeInstanceActionPerm path)),
      (isComputeInstancePath path \<and> method = ''POST'', Needs PermComputeInstanceCreate),
      (isComputeInstancePath path \<and> method = ''GET'', Needs PermComputeInstanceRead),
      (isComputeInstancePath path \<and> method = ''PATCH'', Needs PermComputeInstanceUpdate),
      (isComputeInstancePath path \<and> method = ''DELETE'', Needs PermComputeInstanceDelete),
      (isComputeImagePath path \<and> method = ''POST'', Needs PermComputeInstanceCreate),
      (isComputeImagePath path \<and> method = ''GET'', Needs PermComputeImageRead),
      (isComputeImagePath path \<and> method = ''DELETE'', Needs PermComputeInstanceDelete),
      (isComputeProfilePath path \<and> method = ''POST'', Needs PermComputeProfileApply),
      (isComputeProfilePath path \<and> method = ''GET'', Needs PermComputeProfileRead),
      (isComputeProfilePath path \<and> method = ''DELETE'', Needs PermComputeProfileApply),
      (isComputeNetworkPath path \<and> method = ''POST'', Needs PermComputeNetworkCreate),
      (isComputeNetworkPath path \<and> method = ''GET'', Needs PermComputeNetworkRead),
      (isComputeNetworkPath path \<and> method = ''DELETE'', Needs PermComputeNetworkCreate),
      (isComputeStoragePath path \<and> method = ''POST'', Needs PermComputeNetworkCreate),
      (isComputeStoragePath path \<and> method = ''GET'', Needs PermComputeStoragePoolRead),
      (isComputeStoragePath path \<and> method = ''DELETE'', Needs PermComputeStoragePoolRead)]"

definition cluster_ip_rules :: "string \<Rightarrow> string \<Rightarrow> (bool \<times> gate_rule) list" where
  "cluster_ip_rules path method =
     [(isComputeClusterMemberEvacuatePath path \<and> method = ''POST'',
         Needs PermComputeClusterMemberEvacuate),
      (isComputeClusterMemberPath path \<and> method = ''GET'', Needs PermComputeClusterMemberList),
      (isComputeClusterMembersPath path \<and> method = ''GET'',
         Needs PermComputeClusterMemberList),
      (isComputeInstanceMigratePath path \<and> method = ''POST'',
         Needs PermComputeInstanceMigrate),
      (isComputeIPPoolPath path \<and> method = ''POST'', Needs PermComputeIPPoolManage),
      (isComputeIPPoolPath path \<and> method = ''GET'', Needs PermComputeIPPoolManage),
      (isComputeIPPoolPath path \<and> method = ''PATCH'', Needs PermComputeIPPoolManage),
      (isComputeIPPoolPath path \<and> method = ''DELETE'', Needs PermComputeIPPoolManage),
      (isComputeFloatingIPAttachPath path \<and> method = ''POST'',
         Needs PermComputeFloatingIPManage),
      (isComputeFloatingIPDetachPath path \<and> method = ''POST'',
         Needs PermComputeFloatingIPManage),
      (isComputeFloatingIPPath path \<and> method = ''POST'', Needs PermComputeFloatingIPManage),
      (isComputeFloatingIPPath path \<and> method = ''GET'', Needs PermComputeFloatingIPRead),
      (isComputeFloatingIPPath path \<and> method = ''PATCH'', Needs PermComputeFloatingIPManage),
      (isComputeFloatingIPPath path \<and> method = ''DELETE'', Needs PermComputeFloatingIPManage),
      (isComputeInstanceFloatingIPPath path \<and> method = ''GET'',
         Needs PermComputeFloatingIPRead)]"

definition dns_rules :: "string \<Rightarrow> string \<Rightarrow> (bool \<times> gate_rule) list" where
  "dns_rules path method =
     [(isDNSRecordPath path \<and> method = ''POST'', Needs PermDNSRecordCreate),
      (isDNSRecordPath path \<and> method = ''GET'', Needs PermDNSRecordRead),
      (isDNSRecordPath path \<and> method = ''PATCH'', Needs PermDNSRecordUpdate),
      (isDNSRecordPath path \<and> method = ''DELETE'', Needs PermDNSRecordDelete),
      (isDNSApplyTemplatePath path \<and> method = ''POST'', Needs PermDNSZoneUpdate),
      (isDNSDNSSECPath path \<and> method = ''POST'', Needs PermDNSZoneUpdate),
      (isDNSZonePath path \<and> method = ''POST'', Needs PermDNSZoneCreate),
      (isDNSZonePath path \<and> method = ''GET'', Needs PermDNSZoneRead),
      (isDNSZonePath path \<and> method = ''PATCH'', Needs PermDNSZoneUpdate),
      (isDNSZonePath path \<and> method = ''DELETE'', Needs PermDNSZoneDelete),
      (isDNSTemplatePath path \<and> method = ''GET'', Needs PermDNSZoneRead),
      (isDNSDomainRenewPath path \<and> method = ''POST'', Needs PermDNSDomainRenew),
      (isDNSDomainTransferPath path \<and> method = ''POST'', Needs PermDNSDomainTransfer),
      (isDNSDomainSearchPath path \<and> method = ''POST'', Needs PermDNSDomainSearch),
      (isDNSDomainPath path \<and> method = ''POST'', Needs PermDNSDomainRegister),
      (isDNSDomainPath path \<and> method = ''GET'', Needs PermDNSDomainRead),
      (isDNSDomainPath path \<and> method = ''DELETE'', Needs PermDNSDomainDelete)]"

definition storage_rules :: "string \<Rightarrow> string \<Rightarrow> (bool \<times> gate_rule) list" where
  "storage_rules path method =
     [(isStorageBucketPath path \<and> method = ''POST'', Needs PermS3BucketCreate),
      (isStorageBucketPath path \<and> method = ''GET'', Needs PermS3BucketRead),
      (isStorageBucketPath path \<and> method = ''PATCH'', Needs PermS3BucketUpdate),
      (isStorageBucketPath path \<and> method = ''DELETE'', Needs PermS3BucketDelete),
      (isStorageCredentialsPath path \<and> method = ''POST'', Needs PermS3CredentialsCreate),
      (isStorageCredentialsPath path \<and> method = ''GET'', Needs PermS3BucketRead),
      (isStorageCredentialsPath path \<and> method = ''DELETE'', Needs PermS3CredentialsRevoke),
      (isStoragePresignPath path \<and> method = ''POST'', Needs PermS3ObjectRead),
      (isStorageQuotaPath path \<and> method = ''POST'', Needs PermS3BucketUpdate),
      (isStorageUsagePath path \<and> method = ''GET'', Needs PermS3BucketRead),
      (isStorageVersioningPath path \<and> method = ''PUT'', Needs PermS3BucketVersioning),
      (isStorageVersioningPath path \<and> method = ''GET'', Needs PermS3BucketRead),
      (isStorageVersionsPath path \<and> method = ''GET'', Needs PermS3BucketRead),
      (isStorageVersionRestorePath path \<and> method = ''POST'', Needs PermS3BucketUpdate),
      (isStorageLifecyclePath path \<and> method = ''GET'', Needs PermS3BucketRead),
      (isStorageLifecyclePath path \<and> method = ''POST'', Needs PermS3BucketLifecycle),
      (isStorageLifecyclePath path \<and> method = ''PUT'', Needs PermS3BucketLifecycle),
      (isStorageLifecyclePath path \<and> method = ''PATCH'', Needs PermS3BucketLifecycle),
      (isStorageLifecyclePath path \<and> method = ''DELETE'', Needs PermS3BucketLifecycle),
      (isStorageLifecycleStatusPath path \<and> method = ''POST'', Needs PermS3BucketLifecycle),
      (isStorageObjectLockPath path \<and> method = ''GET'', Needs PermS3BucketRead),
      (isStorageObjectLockPath path \<and> method = ''PUT'', Needs PermS3BucketObjectLock)]"

definition billing_rules :: "string \<Rightarrow> string \<Rightarrow> (bool \<times> gate_rule) list" where
  "billing_rules path method =
     [(isBillingAdminUserTopupPath path \<and> method = ''POST'', Needs PermBillingBalanceAdjust),
      (isBillingAdminUserRefundPath path \<and> method = ''POST'', Needs PermBillingBalanceAdjust),
      (isBillingAdminUserBalancePath path \<and> method = ''GET'', Needs PermBillingBalanceRead),
      (isBillingAdminUserBalancePath path \<and> method = ''POST'', Needs PermBillingBalanceAdjust),
      (isBillingAdminUserLedgerPath path \<and> method = ''GET'', Needs PermBillingLedgerRead),
      (isBillingAdminPricesPath path \<and> method = ''POST'', Needs PermBillingPriceCatalogUpdate),
      (isBillingAdminPricesPath path \<and> method = ''GET'', Needs PermBillingPriceCatalogRead),
      (isBillingMeBalancePath path \<and> method = ''GET'', Needs PermBillingBalanceRead),
      (isBillingMeUsagePath path \<and> method = ''GET'', Needs PermBillingBalanceRead),
      (isBillingMeLedgerPath path \<and> method = ''GET'', Needs PermBillingLedgerRead),
      (isBillingMeReceiptsPDFPath path \<and> method = ''GET'', Needs PermBillingReceiptRead),
      (isBillingMeReceiptsPath path \<and> method = ''GET'', Needs PermBillingReceiptRead),
      (isBillingMeReceiptsPath path \<and> method = ''POST'', Needs PermBillingReceiptCreate),
      (isBillingWebhookPath path \<and> method = ''POST'', Free),
      (isBillingConfigPath path \<and> method = ''GET'', Free),
      (isBillingPublicPlansPath path \<and> method = ''GET'', Free),
      (isBillingPaymentMethodsPath path \<and> method = ''GET'',
         Needs PermBillingPaymentMethodManage),
      (isBillingPaymentMethodsPath path \<and> method = ''POST'',
         Needs PermBillingPaymentMethodManage),
      (isBillingPaymentMethodPath path \<and> method = ''DELETE'',
         Needs PermBillingPaymentMethodManage),
      (isBillingTopupPath path \<and> method = ''POST'', Needs PermBillingPaymentIntentCreate),
      (isBillingSubscriptionsPath path \<and> method = ''GET'',
         Needs PermBillingSubscriptionManage),
      (isBillingSubscriptionsPath path \<and> method = ''POST'',
         Needs PermBillingSubscriptionManage),
      (isBillingSubscriptionPath path \<and> method = ''DELETE'',
         Needs PermBillingSubscriptionManage),
      (isBillingRedeemPath path \<and> method = ''POST'', Needs PermBillingPromoCodeRedeem),
      (isBillingAdminPlansPath path \<and> method = ''GET'', Needs PermBillingPlanRead),
      (isBillingAdminPlanPushPath path \<and> method = ''POST'', Needs PermBillingPlanManage),
      (isBillingAdminPlansPath path \<and> (method = ''POST'' \<or> method = ''PATCH'' \<or> method = ''DELETE''),
         Needs PermBillingPlanManage),
      (isBillingAdminPromoCodesPath path \<and> method = ''GET'', Needs PermBillingPromoCodeManage),
      (isBillingAdminPromoCodesPath path \<and> method = ''POST'',
         Needs PermBillingPromoCodeManage),
      (isBillingAdminPromoCodeRevokePath path \<and> method = ''POST'',
         Needs PermBillingPromoCodeManage),
      (isBillingAdminWebhookEventsPath path \<and> method = ''GET'', Needs PermBillingWebhookRead)]"

definition agent_users_rules :: "string \<Rightarrow> string \<Rightarrow> (bool \<times> gate_rule) list" where
  "agent_users_rules path method =
     [(isAgentToolCallConfirmPath path \<and> method = ''POST'', Needs PermAgentToolConfirm),
      (isAgentConversationMessagesPath path \<and> method = ''POST'', Needs PermAgentMessageSend),
      (path = ''/api/v1/agent/conversations'' \<and> method = ''POST'',
         Needs PermAgentConversationCreate),
      (path = ''/api/v1/agent/conversations'' \<and> method = ''GET'',
         Needs PermAgentConversationRead),
      (isAgentConversationItemPath path \<and> method = ''DELETE'',
         Needs PermAgentConversationDelete),
      (isAgentConversationItemPath path \<and> method = ''GET'', Needs PermAgentConversationRead),
      (path = ''/api/v1/admin/users'' \<and> method = ''GET'', Needs PermPlatformUserList),
      (path = ''/api/v1/admin/users'' \<and> method = ''POST'', Needs PermPlatformUserManage),
      (isAdminUserItemPath path \<and> method = ''GET'', Needs PermPlatformUserList),
      (isAdminUserItemPath path \<and> (method = ''PATCH'' \<or> method = ''DELETE''),
         Needs PermPlatformUserManage),
      (isAdminUserMembershipPath path \<and> method = ''PUT'', Needs PermPlatformUserManage),
      (path = ''/api/v1/admin/settings'', Needs PermPlatformSettingsManage),
      (path = ''/api/v1/admin/directory'' \<or> HasPrefix path ''/api/v1/admin/directory/'',
         Needs PermPlatformDirectoryManage),
      (isAgentProviderPath path \<and> (method = ''POST'' \<or> method = ''GET'' \<or> method = ''DELETE''),
         Needs PermAgentProviderManage),
      (isAgentPolicyPath path \<and> method = ''PUT'', Needs PermAgentPolicyManage),
      (isAgentPolicyPath path \<and> method = ''GET'', Needs PermAgentConversationRead)]"

fun first_match :: "(bool \<times> gate_rule) list \<Rightarrow> gate_rule" where
  "first_match [] = Free"
| "first_match ((b, r) # cases) = (if b then r else first_match cases)"

definition gate_rule_of :: "string \<Rightarrow> string \<Rightarrow> gate_rule" where
  "gate_rule_of path method = first_match
     (audit_admin_rules path method @ compute_rules path method @ cluster_ip_rules path method @
      dns_rules path method @ storage_rules path method @ billing_rules path method @
      agent_users_rules path method)"

section \<open>The check\<close>

text \<open>
  What the middleware before the gate leaves in the request: the user of the session or token,
  the scopes of a personal access token, and the tenant the client asked for.
\<close>

record locals =
  lo_user :: "uuid option"
  lo_scopes :: "string list option"
  lo_tenant :: "uuid option"

datatype reply = Proceed | Unauthorized | TenantScopeRequired | Forbidden string | Internal

definition fromLocals :: "uuid option \<Rightarrow> uuid option" where
  "fromLocals v = (case v of None \<Rightarrow> None | Some t \<Rightarrow> if t = uuid_nil then None else Some t)"

definition RequirePerm :: "policy \<Rightarrow> locals \<Rightarrow> string \<Rightarrow> reply prog" where
  "RequirePerm policy lo slug =
     (case fromLocals (lo_user lo) of
        None \<Rightarrow> State_Monad.return Unauthorized
      | Some uid \<Rightarrow>
          (if (case lo_scopes lo of None \<Rightarrow> False | Some sc \<Rightarrow> 0 < length sc \<and> slug \<notin> set sc)
           then State_Monad.return (Forbidden slug)
           else
             (case fromLocals (lo_tenant lo) of
                None \<Rightarrow> State_Monad.return TenantScopeRequired
              | Some tenantID \<Rightarrow>
                  (case policy of
                     None \<Rightarrow> State_Monad.return Internal
                   | Some has \<Rightarrow> do {
                       r \<leftarrow> has uid tenantID slug;
                       State_Monad.return
                         (case r of Inl _ \<Rightarrow> Internal
                          | Inr allowed \<Rightarrow> if allowed then Proceed else Forbidden slug) }))))"

definition AuditGate :: "policy \<Rightarrow> locals \<Rightarrow> string \<Rightarrow> string \<Rightarrow> reply prog" where
  "AuditGate policy lo path method =
     (case gate_rule_of path method of
        Free \<Rightarrow> State_Monad.return Proceed
      | Needs slug \<Rightarrow> RequirePerm policy lo slug)"

section \<open>The routes\<close>

text \<open>Method, path pattern and operation, as registered.\<close>

type_synonym route = "string \<times> string \<times> string"

definition admin_routes :: "route list" where
  "admin_routes =
     [(''GET'', ''/api/v1/admin/billing/plans'', ''ListAdminBillingPlans''),
      (''POST'', ''/api/v1/admin/billing/plans'', ''CreateAdminBillingPlan''),
      (''DELETE'', ''/api/v1/admin/billing/plans/:planId'', ''DeleteAdminBillingPlan''),
      (''GET'', ''/api/v1/admin/billing/plans/:planId'', ''GetAdminBillingPlan''),
      (''PATCH'', ''/api/v1/admin/billing/plans/:planId'', ''UpdateAdminBillingPlan''),
      (''POST'', ''/api/v1/admin/billing/plans/:planId/push'', ''PushAdminBillingPlanToStripe''),
      (''GET'', ''/api/v1/admin/billing/prices'', ''ListAdminBillingPrices''),
      (''POST'', ''/api/v1/admin/billing/prices'', ''UpsertAdminBillingPrice''),
      (''GET'', ''/api/v1/admin/billing/promo-codes'', ''ListAdminBillingPromoCodes''),
      (''POST'', ''/api/v1/admin/billing/promo-codes'', ''CreateAdminBillingPromoCode''),
      (''POST'', ''/api/v1/admin/billing/promo-codes/:promoCodeId/revoke'', ''RevokeAdminBillingPromoCode''),
      (''GET'', ''/api/v1/admin/billing/webhook-events'', ''ListAdminBillingWebhookEvents''),
      (''GET'', ''/api/v1/admin/compute/ip-pools'', ''ListComputeIPPools''),
      (''POST'', ''/api/v1/admin/compute/ip-pools'', ''CreateComputeIPPool''),
      (''DELETE'', ''/api/v1/admin/compute/ip-pools/:poolId'', ''DeleteComputeIPPool''),
      (''GET'', ''/api/v1/admin/compute/ip-pools/:poolId'', ''GetComputeIPPool''),
      (''PATCH'', ''/api/v1/admin/compute/ip-pools/:poolId'', ''UpdateComputeIPPool''),
      (''GET'', ''/api/v1/admin/compute/ip-pools/:poolId/ranges'', ''ListComputeIPPoolRanges''),
      (''POST'', ''/api/v1/admin/compute/ip-pools/:poolId/ranges'', ''AddComputeIPPoolRange''),
      (''DELETE'', ''/api/v1/admin/compute/ip-pools/:poolId/ranges/:rangeId'', ''DeleteComputeIPPoolRange''),
      (''GET'', ''/api/v1/admin/directory/connections'', ''ListDirectoryConnections''),
      (''POST'', ''/api/v1/admin/directory/connections'', ''CreateDirectoryConnection''),
      (''DELETE'', ''/api/v1/admin/directory/connections/:connectionId'', ''DeleteDirectoryConnection''),
      (''GET'', ''/api/v1/admin/directory/connections/:connectionId'', ''GetDirectoryConnection''),
      (''PATCH'', ''/api/v1/admin/directory/connections/:connectionId'', ''UpdateDirectoryConnection''),
      (''GET'', ''/api/v1/admin/directory/connections/:connectionId/groups'', ''ListDirectoryGroups''),
      (''POST'', ''/api/v1/admin/directory/connections/:connectionId/sync'', ''SyncDirectoryConnection''),
      (''POST'', ''/api/v1/admin/directory/test'', ''TestDirectoryConnection''),
      (''GET'', ''/api/v1/admin/jobs'', ''ListAdminJobs''),
      (''GET'', ''/api/v1/admin/jobs/:jobId'', ''GetAdminJob''),
      (''POST'', ''/api/v1/admin/jobs/:jobId/cancel'', ''CancelAdminJob''),
      (''POST'', ''/api/v1/admin/jobs/:jobId/retry'', ''RetryAdminJob''),
      (''GET'', ''/api/v1/admin/marketplace'', ''ListAdminMarketplace''),
      (''GET'', ''/api/v1/admin/marketplace/:name'', ''GetAdminMarketplaceEntry''),
      (''GET'', ''/api/v1/admin/plugins'', ''ListAdminPlugins''),
      (''POST'', ''/api/v1/admin/plugins/install/:name'', ''InstallAdminPluginFromMarketplace''),
      (''POST'', ''/api/v1/admin/plugins/upgrade/:name'', ''UpgradeAdminPluginFromMarketplace''),
      (''POST'', ''/api/v1/admin/plugins/upload'', ''UploadAdminPlugin''),
      (''DELETE'', ''/api/v1/admin/plugins/:pluginId'', ''DeleteAdminPlugin''),
      (''GET'', ''/api/v1/admin/plugins/:pluginId'', ''GetAdminPlugin''),
      (''POST'', ''/api/v1/admin/plugins/:pluginId/disable'', ''DisableAdminPlugin''),
      (''POST'', ''/api/v1/admin/plugins/:pluginId/enable'', ''EnableAdminPlugin''),
      (''POST'', ''/api/v1/admin/plugins/:pluginId/permissions/:permission/:action'', ''SetAdminPluginPermission''),
      (''GET'', ''/api/v1/admin/settings'', ''GetPlatformSettings''),
      (''PUT'', ''/api/v1/admin/settings'', ''UpdatePlatformSettings''),
      (''GET'', ''/api/v1/admin/users'', ''ListAdminUsers''),
      (''POST'', ''/api/v1/admin/users'', ''CreateAdminUser''),
      (''DELETE'', ''/api/v1/admin/users/:userId'', ''DeleteAdminUser''),
      (''GET'', ''/api/v1/admin/users/:userId'', ''GetAdminUser''),
      (''PATCH'', ''/api/v1/admin/users/:userId'', ''UpdateAdminUser''),
      (''GET'', ''/api/v1/admin/users/:userId/balance'', ''GetAdminUserBalance''),
      (''POST'', ''/api/v1/admin/users/:userId/balance'', ''RebuildAdminUserBalance''),
      (''GET'', ''/api/v1/admin/users/:userId/ledger'', ''ListAdminUserLedger''),
      (''PUT'', ''/api/v1/admin/users/:userId/memberships/:tenantId'', ''SetAdminUserRole''),
      (''POST'', ''/api/v1/admin/users/:userId/refund'', ''RefundAdminUser''),
      (''POST'', ''/api/v1/admin/users/:userId/topup'', ''TopupAdminUser'')]"

definition agent_auth_billing_routes :: "route list" where
  "agent_auth_billing_routes =
     [(''GET'', ''/api/v1/agent/conversations'', ''ListAgentConversations''),
      (''POST'', ''/api/v1/agent/conversations'', ''CreateAgentConversation''),
      (''DELETE'', ''/api/v1/agent/conversations/:conversationId'', ''DeleteAgentConversation''),
      (''GET'', ''/api/v1/agent/conversations/:conversationId'', ''GetAgentConversation''),
      (''POST'', ''/api/v1/agent/conversations/:conversationId/messages'', ''SendAgentMessage''),
      (''GET'', ''/api/v1/agent/policy'', ''GetAgentPolicy''),
      (''PUT'', ''/api/v1/agent/policy'', ''UpdateAgentPolicy''),
      (''GET'', ''/api/v1/agent/providers'', ''ListAgentProviders''),
      (''POST'', ''/api/v1/agent/providers'', ''CreateAgentProvider''),
      (''POST'', ''/api/v1/agent/providers/test'', ''TestAgentProvider''),
      (''DELETE'', ''/api/v1/agent/providers/:providerId'', ''DeleteAgentProvider''),
      (''POST'', ''/api/v1/agent/tool-calls/:toolCallId/confirm'', ''ConfirmAgentToolCall''),
      (''GET'', ''/api/v1/audit'', ''ListAudit''),
      (''GET'', ''/api/v1/audit/export'', ''ExportAudit''),
      (''GET'', ''/api/v1/audit/:auditId'', ''GetAudit''),
      (''POST'', ''/api/v1/auth/login'', ''Login''),
      (''POST'', ''/api/v1/auth/logout'', ''Logout''),
      (''GET'', ''/api/v1/auth/me'', ''GetCurrentUser''),
      (''PATCH'', ''/api/v1/auth/me'', ''UpdateCurrentUser''),
      (''POST'', ''/api/v1/auth/mfa/challenge'', ''ChallengeMFA''),
      (''GET'', ''/api/v1/auth/oauth/:provider/callback'', ''CallbackOAuth''),
      (''GET'', ''/api/v1/auth/oauth/:provider/start'', ''StartOAuth''),
      (''GET'', ''/api/v1/auth/oidc/:provider/callback'', ''CallbackOIDC''),
      (''GET'', ''/api/v1/auth/oidc/:provider/start'', ''StartOIDC''),
      (''POST'', ''/api/v1/auth/password-reset/confirm'', ''ConfirmPasswordReset''),
      (''POST'', ''/api/v1/auth/password-reset/request'', ''RequestPasswordReset''),
      (''GET'', ''/api/v1/auth/personal-access-tokens'', ''ListPersonalAccessTokens''),
      (''POST'', ''/api/v1/auth/personal-access-tokens'', ''CreatePersonalAccessToken''),
      (''DELETE'', ''/api/v1/auth/personal-access-tokens/:tokenId'', ''DeletePersonalAccessToken''),
      (''POST'', ''/api/v1/auth/refresh'', ''Refresh''),
      (''POST'', ''/api/v1/auth/register'', ''Register''),
      (''POST'', ''/api/v1/auth/resend-verification'', ''ResendVerification''),
      (''GET'', ''/api/v1/auth/saml/metadata'', ''MetadataSAML''),
      (''POST'', ''/api/v1/auth/saml/:provider/acs'', ''AssertionConsumerServiceSAML''),
      (''GET'', ''/api/v1/auth/saml/:provider/start'', ''StartSAML''),
      (''POST'', ''/api/v1/auth/verify-email'', ''VerifyEmail''),
      (''GET'', ''/api/v1/billing/config'', ''GetBillingConfig''),
      (''GET'', ''/api/v1/billing/payment-methods'', ''ListMyPaymentMethods''),
      (''POST'', ''/api/v1/billing/payment-methods'', ''AddMyPaymentMethod''),
      (''DELETE'', ''/api/v1/billing/payment-methods/:paymentMethodId'', ''RemoveMyPaymentMethod''),
      (''GET'', ''/api/v1/billing/plans'', ''ListBillingPlans''),
      (''POST'', ''/api/v1/billing/redeem'', ''RedeemMyPromoCode''),
      (''GET'', ''/api/v1/billing/subscriptions'', ''ListMySubscriptions''),
      (''POST'', ''/api/v1/billing/subscriptions'', ''CreateMySubscription''),
      (''DELETE'', ''/api/v1/billing/subscriptions/:subscriptionId'', ''CancelMySubscription''),
      (''POST'', ''/api/v1/billing/topup'', ''CreateMyTopupIntent'')]"

definition compute_routes :: "route list" where
  "compute_routes =
     [(''GET'', ''/api/v1/compute/backup-targets'', ''ListComputeBackupTargets''),
      (''POST'', ''/api/v1/compute/backup-targets'', ''CreateComputeBackupTarget''),
      (''DELETE'', ''/api/v1/compute/backup-targets/:targetId'', ''DeleteComputeBackupTarget''),
      (''GET'', ''/api/v1/compute/backup-targets/:targetId'', ''GetComputeBackupTarget''),
      (''GET'', ''/api/v1/compute/backups'', ''ListComputeBackups''),
      (''DELETE'', ''/api/v1/compute/backups/:backupId'', ''DeleteComputeBackup''),
      (''GET'', ''/api/v1/compute/backups/:backupId'', ''GetComputeBackup''),
      (''GET'', ''/api/v1/compute/cluster/members'', ''ListComputeClusterMembers''),
      (''GET'', ''/api/v1/compute/cluster/members/:memberName'', ''GetComputeClusterMember''),
      (''POST'', ''/api/v1/compute/cluster/members/:memberName/:action'', ''SetComputeClusterMemberState''),
      (''GET'', ''/api/v1/compute/floating-ips'', ''ListComputeFloatingIPs''),
      (''POST'', ''/api/v1/compute/floating-ips'', ''AllocateComputeFloatingIP''),
      (''DELETE'', ''/api/v1/compute/floating-ips/:floatingIpId'', ''ReleaseComputeFloatingIP''),
      (''GET'', ''/api/v1/compute/floating-ips/:floatingIpId'', ''GetComputeFloatingIP''),
      (''PATCH'', ''/api/v1/compute/floating-ips/:floatingIpId'', ''SetComputeFloatingIPPTR''),
      (''POST'', ''/api/v1/compute/floating-ips/:floatingIpId/attach'', ''AttachComputeFloatingIP''),
      (''POST'', ''/api/v1/compute/floating-ips/:floatingIpId/detach'', ''DetachComputeFloatingIP''),
      (''GET'', ''/api/v1/compute/images'', ''ListComputeImages''),
      (''POST'', ''/api/v1/compute/images'', ''UploadComputeImage''),
      (''DELETE'', ''/api/v1/compute/images/:imageId'', ''DeleteComputeImage''),
      (''GET'', ''/api/v1/compute/images/:imageId'', ''GetComputeImage''),
      (''GET'', ''/api/v1/compute/instances'', ''ListComputeInstances''),
      (''POST'', ''/api/v1/compute/instances'', ''CreateComputeInstance''),
      (''DELETE'', ''/api/v1/compute/instances/:instanceId'', ''DeleteComputeInstance''),
      (''GET'', ''/api/v1/compute/instances/:instanceId'', ''GetComputeInstance''),
      (''PATCH'', ''/api/v1/compute/instances/:instanceId'', ''UpdateComputeInstance''),
      (''GET'', ''/api/v1/compute/instances/:instanceId/backups'', ''ListComputeBackupsByInstance''),
      (''GET'', ''/api/v1/compute/instances/:instanceId/console'', ''OpenConsoleComputeInstance''),
      (''POST'', ''/api/v1/compute/instances/:instanceId/exec'', ''ExecComputeInstance''),
      (''GET'', ''/api/v1/compute/instances/:instanceId/floating-ip'', ''GetComputeFloatingIPByInstance''),
      (''GET'', ''/api/v1/compute/instances/:instanceId/logs'', ''ListComputeInstanceLogs''),
      (''GET'', ''/api/v1/compute/instances/:instanceId/logs/:logFile'', ''GetComputeInstanceLog''),
      (''POST'', ''/api/v1/compute/instances/:instanceId/migrate'', ''MigrateComputeInstance''),
      (''GET'', ''/api/v1/compute/instances/:instanceId/runtime'', ''GetComputeInstanceRuntime''),
      (''GET'', ''/api/v1/compute/instances/:instanceId/snapshots'', ''ListComputeSnapshots''),
      (''POST'', ''/api/v1/compute/instances/:instanceId/snapshots'', ''CreateComputeSnapshot''),
      (''DELETE'', ''/api/v1/compute/instances/:instanceId/snapshots/:snapshotId'', ''DeleteComputeSnapshot''),
      (''GET'', ''/api/v1/compute/instances/:instanceId/snapshots/:snapshotId'', ''GetComputeSnapshot''),
      (''POST'', ''/api/v1/compute/instances/:instanceId/snapshots/:snapshotId/restore'', ''RestoreComputeSnapshot''),
      (''GET'', ''/api/v1/compute/instances/:instanceId/vnc'', ''OpenVncComputeInstance''),
      (''POST'', ''/api/v1/compute/instances/:instanceId/:action'', ''SetComputeInstanceState''),
      (''GET'', ''/api/v1/compute/networks'', ''ListComputeNetworks''),
      (''POST'', ''/api/v1/compute/networks'', ''CreateComputeNetwork''),
      (''DELETE'', ''/api/v1/compute/networks/:networkId'', ''DeleteComputeNetwork''),
      (''GET'', ''/api/v1/compute/networks/:networkId'', ''GetComputeNetwork''),
      (''GET'', ''/api/v1/compute/profiles'', ''ListComputeProfiles''),
      (''POST'', ''/api/v1/compute/profiles'', ''CreateComputeProfile''),
      (''DELETE'', ''/api/v1/compute/profiles/:profileId'', ''DeleteComputeProfile''),
      (''GET'', ''/api/v1/compute/profiles/:profileId'', ''GetComputeProfile''),
      (''GET'', ''/api/v1/compute/snapshot-policies'', ''ListComputeSnapshotPolicies''),
      (''POST'', ''/api/v1/compute/snapshot-policies'', ''CreateComputeSnapshotPolicy''),
      (''DELETE'', ''/api/v1/compute/snapshot-policies/:policyId'', ''DeleteComputeSnapshotPolicy''),
      (''GET'', ''/api/v1/compute/snapshot-policies/:policyId'', ''GetComputeSnapshotPolicy''),
      (''PATCH'', ''/api/v1/compute/snapshot-policies/:policyId'', ''UpdateComputeSnapshotPolicy''),
      (''GET'', ''/api/v1/compute/storage'', ''ListComputeStorageVolumes''),
      (''POST'', ''/api/v1/compute/storage'', ''CreateComputeStorageVolume''),
      (''DELETE'', ''/api/v1/compute/storage/:volumeId'', ''DeleteComputeStorageVolume''),
      (''GET'', ''/api/v1/compute/storage/:volumeId'', ''GetComputeStorageVolume'')]"

definition dns_me_storage_routes :: "route list" where
  "dns_me_storage_routes =
     [(''GET'', ''/api/v1/dns/domains'', ''ListDNSDomains''),
      (''POST'', ''/api/v1/dns/domains'', ''RegisterDNSDomain''),
      (''POST'', ''/api/v1/dns/domains/search'', ''SearchDNSDomain''),
      (''POST'', ''/api/v1/dns/domains/transfer'', ''TransferDNSDomain''),
      (''DELETE'', ''/api/v1/dns/domains/:domainId'', ''DeleteDNSDomain''),
      (''GET'', ''/api/v1/dns/domains/:domainId'', ''GetDNSDomain''),
      (''POST'', ''/api/v1/dns/domains/:domainId/renew'', ''RenewDNSDomain''),
      (''GET'', ''/api/v1/dns/templates'', ''ListDNSTemplates''),
      (''GET'', ''/api/v1/dns/zones'', ''ListDNSZones''),
      (''POST'', ''/api/v1/dns/zones'', ''CreateDNSZone''),
      (''DELETE'', ''/api/v1/dns/zones/:zoneId'', ''DeleteDNSZone''),
      (''GET'', ''/api/v1/dns/zones/:zoneId'', ''GetDNSZone''),
      (''PATCH'', ''/api/v1/dns/zones/:zoneId'', ''UpdateDNSZone''),
      (''POST'', ''/api/v1/dns/zones/:zoneId/apply-template'', ''ApplyDNSTemplate''),
      (''POST'', ''/api/v1/dns/zones/:zoneId/dnssec/:action'', ''SetDNSZoneDNSSEC''),
      (''GET'', ''/api/v1/dns/zones/:zoneId/records'', ''ListDNSRecords''),
      (''POST'', ''/api/v1/dns/zones/:zoneId/records'', ''CreateDNSRecord''),
      (''DELETE'', ''/api/v1/dns/zones/:zoneId/records/:recordId'', ''DeleteDNSRecord''),
      (''GET'', ''/api/v1/dns/zones/:zoneId/records/:recordId'', ''GetDNSRecord''),
      (''PATCH'', ''/api/v1/dns/zones/:zoneId/records/:recordId'', ''UpdateDNSRecord''),
      (''GET'', ''/api/v1/me/balance'', ''GetMyBalance''),
      (''GET'', ''/api/v1/me/identities'', ''ListMyIdentities''),
      (''DELETE'', ''/api/v1/me/identities/:identityId'', ''DeleteMyIdentity''),
      (''GET'', ''/api/v1/me/ledger'', ''ListMyLedger''),
      (''GET'', ''/api/v1/me/mfa/recovery'', ''ListMyRecoveryCodes''),
      (''POST'', ''/api/v1/me/mfa/recovery'', ''RegenerateMyRecoveryCodes''),
      (''POST'', ''/api/v1/me/mfa/totp/disable'', ''DisableTOTP''),
      (''POST'', ''/api/v1/me/mfa/totp/enroll'', ''EnrollTOTP''),
      (''POST'', ''/api/v1/me/mfa/totp/verify'', ''VerifyTOTP''),
      (''DELETE'', ''/api/v1/me/mfa/webauthn/credentials/:credentialId'', ''DeleteWebAuthnCredential''),
      (''POST'', ''/api/v1/me/mfa/webauthn/login/begin'', ''BeginWebAuthnLogin''),
      (''POST'', ''/api/v1/me/mfa/webauthn/login/finish'', ''FinishWebAuthnLogin''),
      (''POST'', ''/api/v1/me/mfa/webauthn/register/begin'', ''BeginWebAuthnRegistration''),
      (''POST'', ''/api/v1/me/mfa/webauthn/register/finish'', ''FinishWebAuthnRegistration''),
      (''GET'', ''/api/v1/me/receipts'', ''ListMyReceipts''),
      (''POST'', ''/api/v1/me/receipts'', ''GenerateMyReceipt''),
      (''GET'', ''/api/v1/me/receipts/:receiptId'', ''GetMyReceipt''),
      (''GET'', ''/api/v1/me/receipts/:receiptId.pdf'', ''GetMyReceiptPDF''),
      (''GET'', ''/api/v1/me/usage'', ''ListMyUsage''),
      (''GET'', ''/api/v1/permissions'', ''ListPermissions''),
      (''GET'', ''/api/v1/ping'', ''Ping''),
      (''GET'', ''/api/v1/storage/buckets'', ''ListStorageBuckets''),
      (''POST'', ''/api/v1/storage/buckets'', ''CreateStorageBucket''),
      (''DELETE'', ''/api/v1/storage/buckets/:bucketId'', ''DeleteStorageBucket''),
      (''GET'', ''/api/v1/storage/buckets/:bucketId'', ''GetStorageBucket''),
      (''PATCH'', ''/api/v1/storage/buckets/:bucketId'', ''UpdateStorageBucket''),
      (''GET'', ''/api/v1/storage/buckets/:bucketId/credentials'', ''ListStorageCredentials''),
      (''POST'', ''/api/v1/storage/buckets/:bucketId/credentials'', ''CreateStorageCredential''),
      (''DELETE'', ''/api/v1/storage/buckets/:bucketId/credentials/:credentialId'', ''RevokeStorageCredential''),
      (''GET'', ''/api/v1/storage/buckets/:bucketId/lifecycle'', ''ListStorageBucketLifecycleRules''),
      (''POST'', ''/api/v1/storage/buckets/:bucketId/lifecycle'', ''CreateStorageLifecycleRule''),
      (''PUT'', ''/api/v1/storage/buckets/:bucketId/lifecycle'', ''ReplaceStorageBucketLifecycleRules''),
      (''DELETE'', ''/api/v1/storage/buckets/:bucketId/lifecycle/:ruleId'', ''DeleteStorageLifecycleRule''),
      (''PATCH'', ''/api/v1/storage/buckets/:bucketId/lifecycle/:ruleId'', ''UpdateStorageLifecycleRule''),
      (''POST'', ''/api/v1/storage/buckets/:bucketId/lifecycle/:ruleId/status'', ''SetStorageLifecycleRuleStatus''),
      (''GET'', ''/api/v1/storage/buckets/:bucketId/object-lock'', ''GetStorageBucketObjectLock''),
      (''PUT'', ''/api/v1/storage/buckets/:bucketId/object-lock'', ''SetStorageBucketObjectLock''),
      (''POST'', ''/api/v1/storage/buckets/:bucketId/presign'', ''PresignStorageObject''),
      (''POST'', ''/api/v1/storage/buckets/:bucketId/quota'', ''SetStorageBucketQuota''),
      (''GET'', ''/api/v1/storage/buckets/:bucketId/usage'', ''GetStorageBucketUsage''),
      (''GET'', ''/api/v1/storage/buckets/:bucketId/versioning'', ''GetStorageBucketVersioning''),
      (''PUT'', ''/api/v1/storage/buckets/:bucketId/versioning'', ''SetStorageBucketVersioning''),
      (''GET'', ''/api/v1/storage/buckets/:bucketId/versions'', ''ListStorageBucketVersions''),
      (''POST'', ''/api/v1/storage/buckets/:bucketId/versions/restore'', ''RestoreStorageObjectVersion''),
      (''POST'', ''/api/v1/webhooks/stripe'', ''StripeWebhook''),
      (''GET'', ''/health'', ''GetHealth'')]"

definition routes :: "route list" where
  "routes = admin_routes @ agent_auth_billing_routes @ compute_routes @ dns_me_storage_routes"

text \<open>
  A path of a pattern: every parameter, a colon and a name, is replaced by the next identifier.
\<close>

definition is_name_char :: "char \<Rightarrow> bool" where
  "is_name_char c \<longleftrightarrow> is_lower c \<or> is_upper c"

lemma drop_name_shorter [termination_simp]: "length (dropWhile is_name_char cs) \<le> length cs"
  by (rule length_dropWhile_le)

fun fill :: "string list \<Rightarrow> string \<Rightarrow> string" where
  "fill ids [] = []"
| "fill ids (c # cs) =
     (if c = CHR '':''
      then (case ids of [] \<Rightarrow> [] | i # ids' \<Rightarrow> i @ fill ids' (dropWhile is_name_char cs))
      else c # fill ids cs)"

definition params :: "string \<Rightarrow> nat" where
  "params pat = length (filter (\<lambda>c. c = CHR '':'') pat)"

end
