(* ===== verification/Gate_Paths.thy ===== *)
theory Gate_Paths
  imports Gate
begin

text \<open>
  What the gate answers for the routes of the table, and that the answer does not depend on the
  identifiers in the path. Two paths are \<open>alike\<close> when they differ only in words that no literal of
  the gate can match: identifiers, written in hexadecimal digits and dashes, and the parameters of
  a pattern, which start with a colon. Every test the gate makes gives the same answer on alike
  paths, so the gate can be evaluated on the pattern of a route.
\<close>

section \<open>Alike paths\<close>

definition is_hex_dash :: "char \<Rightarrow> bool" where
  "is_hex_dash c \<longleftrightarrow> c \<in> set ''0123456789abcdefABCDEF-''"

definition is_id :: "string \<Rightarrow> bool" where
  "is_id i \<longleftrightarrow> i \<noteq> [] \<and> list_all is_hex_dash i"

definition is_param :: "string \<Rightarrow> bool" where
  "is_param j \<longleftrightarrow> (\<exists>n. j = CHR '':'' # n \<and> list_all is_name_char n)"

definition dull :: "string \<Rightarrow> bool" where
  "dull i \<longleftrightarrow> is_id i \<or> is_param i"

definition word_ends :: "string \<Rightarrow> bool" where
  "word_ends p \<longleftrightarrow> p = [] \<or> hd p = CHR ''/'' \<or> hd p = CHR ''.''"

inductive alike :: "string \<Rightarrow> string \<Rightarrow> bool" where
  finish: "alike [] []"
| same: "alike p q \<Longrightarrow> alike (c # p) (c # q)"
| ident: "dull i \<Longrightarrow> dull j \<Longrightarrow> alike p q \<Longrightarrow> word_ends p \<Longrightarrow> word_ends q \<Longrightarrow>
    alike (CHR ''/'' # i @ p) (CHR ''/'' # j @ q)"

text \<open>The literals of the gate: every word after a slash has a character no identifier has.\<close>

definition good_word :: "string \<Rightarrow> bool" where
  "good_word w \<longleftrightarrow> (w = [] \<or> list_ex (\<lambda>c. \<not> is_hex_dash c) w) \<and>
     list_all (\<lambda>c. c \<noteq> CHR ''.'' \<and> c \<noteq> CHR '':'') w"

fun good :: "string \<Rightarrow> bool" where
  "good [] \<longleftrightarrow> True"
| "good (c # s) \<longleftrightarrow>
     (if c = CHR ''/'' then good_word (takeWhile (\<lambda>x. x \<noteq> CHR ''/'') s) else True) \<and> good s"

lemma separators:
  "\<not> is_hex_dash (CHR ''/'')" "\<not> is_hex_dash (CHR ''.'')"
  "\<not> is_name_char (CHR ''/'')" "\<not> is_name_char (CHR ''.'')"
  by (simp_all add: is_hex_dash_def is_name_char_def is_lower_def is_upper_def)

lemma dull_chars: "dull i \<Longrightarrow> i \<noteq> [] \<and> CHR ''/'' \<notin> set i \<and> CHR ''.'' \<notin> set i"
  using separators by (auto simp: dull_def is_id_def is_param_def list_all_iff)

lemma good_word_mismatch:
  assumes "good_word w" "w \<noteq> []" "CHR ''/'' \<notin> set w" "dull i" "word_ends p"
  shows "\<not> prefix w (i @ p)"
proof
  assume "prefix w (i @ p)"
  then consider "prefix w i" | v where "w = i @ v" "prefix v p" "v \<noteq> []"
    by (metis append_Nil2 prefix_append prefix_order.refl)
  then show False
  proof cases
    case 1
    then have sub: "set w \<subseteq> set i" by (rule set_mono_prefix)
    from assms(4) consider "is_id i" | "is_param i" by (auto simp: dull_def)
    then show False
    proof cases
      case 1
      then show False
        using sub assms(1,2) by (auto simp: is_id_def good_word_def list_all_iff list_ex_iff)
    next
      case 2
      then have "hd w = CHR '':''"
        using \<open>prefix w i\<close> assms(2) by (cases w) (auto simp: is_param_def)
      then show False using assms(1,2) by (cases w) (auto simp: good_word_def)
    qed
  next
    case 2
    then obtain c v' p' where "v = c # v'" "p = c # p'"
      by (cases v; cases p) auto
    then have "hd v \<in> set w" "hd v = hd p" "p \<noteq> []" using 2(1) by simp_all
    then show False using assms(1,3,5) by (auto simp: word_ends_def good_word_def list_all_iff)
  qed
qed

lemma word_then_rest:
  "s = takeWhile (\<lambda>x. x \<noteq> CHR ''/'') s @ dropWhile (\<lambda>x. x \<noteq> CHR ''/'') s"
  by simp

lemma no_literal_at_id:
  assumes "good (CHR ''/'' # l)" "l \<noteq> []" "dull i" "word_ends p"
  shows "\<not> prefix l (i @ p)"
proof (cases "takeWhile (\<lambda>x. x \<noteq> CHR ''/'') l = []")
  case True
  then have "hd l = CHR ''/''" using assms(2) by (cases l) (auto split: if_splits)
  then show ?thesis using dull_chars [OF assms(3)] assms(2)
    by (cases l; cases i) auto
next
  case False
  let ?w = "takeWhile (\<lambda>x. x \<noteq> CHR ''/'') l"
  have "good_word ?w" "CHR ''/'' \<notin> set ?w"
    using assms(1) by (auto dest: set_takeWhileD)
  then have "\<not> prefix ?w (i @ p)" using good_word_mismatch False assms(3,4) by blast
  moreover have "prefix ?w l" using word_then_rest [of l] by (metis prefixI)
  ultimately show ?thesis by (meson prefix_order.trans)
qed

lemma alike_prefix: "alike p q \<Longrightarrow> good l \<Longrightarrow> HasPrefix p l = HasPrefix q l"
proof (induction arbitrary: l rule: alike.induct)
  case (ident i j p q)
  show ?case
  proof (cases l)
    case (Cons c l')
    then show ?thesis
      using no_literal_at_id [of l' i p] no_literal_at_id [of l' j q] ident
      by (cases "l' = []") (auto simp: HasPrefix_def)
  qed (simp add: HasPrefix_def)
next
  case (same p q c)
  then show ?case by (cases l) (auto simp: HasPrefix_def split: if_splits)
qed simp

lemma alike_eq: "alike p q \<Longrightarrow> good l \<Longrightarrow> (p = l) = (q = l)"
proof (induction arbitrary: l rule: alike.induct)
  case (ident i j p q)
  show ?case
  proof (cases l)
    case (Cons c l')
    have "l' \<noteq> i @ p" "l' \<noteq> j @ q" if "c = CHR ''/''"
      using no_literal_at_id [of l' i p] no_literal_at_id [of l' j q] ident Cons that
        dull_chars [of i] dull_chars [of j] by fastforce+
    then show ?thesis using Cons by auto
  qed simp
next
  case (same p q c)
  then show ?case by (cases l) (auto split: if_splits)
qed simp

lemma suffix_skip: "x \<notin> set i \<Longrightarrow> suffix (x # l) (i @ p) = suffix (x # l) p"
proof (induction i)
  case (Cons c i)
  then have "x # l \<noteq> c # (i @ p)" by auto
  then show ?case using Cons by (simp add: suffix_Cons)
qed simp

lemma alike_suffix:
  "alike p q \<Longrightarrow> good l \<Longrightarrow> l \<noteq> [] \<Longrightarrow> hd l \<in> {CHR ''/'', CHR ''.''} \<Longrightarrow> HasSuffix p l = HasSuffix q l"
proof (induction rule: alike.induct)
  case (ident i j p q)
  obtain x l' where l: "l = x # l'" using ident.prems(2) by (cases l) auto
  have "suffix l (i @ p) = suffix l p" "suffix l (j @ q) = suffix l q"
    unfolding l by (rule suffix_skip; use ident l dull_chars in auto)+
  moreover have "(CHR ''/'' # i @ p = l) = (CHR ''/'' # j @ q = l)"
    using alike_eq [OF alike.ident [OF ident.hyps]] ident.prems by blast
  ultimately show ?case using ident.IH ident.prems by (auto simp: HasSuffix_def suffix_Cons)
next
  case (same p q c)
  have "(l = c # p) = (l = c # q)"
    using alike_eq [OF alike.same [OF same.hyps]] same.prems(1) by metis
  then show ?case using same.IH [OF same.prems] unfolding HasSuffix_def suffix_Cons by blast
qed simp

lemma contains_skip: "x \<notin> set i \<Longrightarrow> Contains (i @ p) (x # l) = Contains p (x # l)"
proof (induction i)
  case (Cons c i)
  then have "\<not> prefix (x # l) (c # (i @ p))" by simp
  then show ?case using Cons by simp
qed simp

lemma alike_contains:
  "alike p q \<Longrightarrow> good l \<Longrightarrow> l \<noteq> [] \<Longrightarrow> hd l = CHR ''/'' \<Longrightarrow> Contains p l = Contains q l"
proof (induction rule: alike.induct)
  case (ident i j p q)
  obtain l' where l: "l = CHR ''/'' # l'" using ident.prems(2,3) by (cases l) auto
  have "Contains (i @ p) l = Contains p l" "Contains (j @ q) l = Contains q l"
    unfolding l by (rule contains_skip; use ident dull_chars in auto)+
  moreover have "prefix l (CHR ''/'' # i @ p) = prefix l (CHR ''/'' # j @ q)"
    using alike_prefix [OF alike.ident [OF ident.hyps]] ident.prems by (simp add: HasPrefix_def)
  ultimately show ?case using ident.IH ident.prems by (simp only: Contains.simps) blast
next
  case (same p q c)
  have "prefix l (c # p) = prefix l (c # q)"
    using alike_prefix [OF alike.same [OF same.hyps]] same.prems by (simp add: HasPrefix_def)
  then show ?case using same.IH same.prems by (simp only: Contains.simps) blast
qed simp

text \<open>The parts of alike paths between slashes are alike.\<close>

definition alike_words :: "string \<Rightarrow> string \<Rightarrow> bool" where
  "alike_words a b \<longleftrightarrow> alike (CHR ''/'' # a) (CHR ''/'' # b)"

lemma split_dull:
  "c \<notin> set i \<Longrightarrow> split_on c (i @ p) = (i @ hd (split_on c p)) # tl (split_on c p)"
proof (induction i)
  case Nil
  then show ?case using split_on_nonempty [of c p] by simp
qed auto

lemma alike_split:
  "alike p q \<Longrightarrow> alike (hd (split_on (CHR ''/'') p)) (hd (split_on (CHR ''/'') q)) \<and>
     list_all2 alike_words (tl (split_on (CHR ''/'') p)) (tl (split_on (CHR ''/'') q))"
proof (induction rule: alike.induct)
  case (same p q c)
  obtain a as b bs where s: "split_on (CHR ''/'') p = a # as" "split_on (CHR ''/'') q = b # bs"
    using split_on_nonempty by (meson neq_Nil_conv)
  then show ?case using same.IH
    by (cases "c = CHR ''/''") (auto simp: alike_words_def intro: alike.intros)
next
  case (ident i j p q)
  obtain a as b bs where s: "split_on (CHR ''/'') p = a # as" "split_on (CHR ''/'') q = b # bs"
    using split_on_nonempty by (meson neq_Nil_conv)
  have "word_ends (hd (split_on (CHR ''/'') r))" if "word_ends r" for r
    using that split_on_nonempty [of "CHR ''/''"]
    by (cases r) (auto simp: word_ends_def split: list.split)
  then have "alike_words (i @ a) (j @ b)"
    unfolding alike_words_def using ident s by (intro alike.ident) force+
  then show ?case
    using ident.IH s dull_chars [OF ident.hyps(1)] dull_chars [OF ident.hyps(2)]
    by (auto simp: split_dull intro: alike.intros)
qed (auto intro: alike.intros)

lemma alike_word_eq: "alike_words a b \<Longrightarrow> good (CHR ''/'' # w) \<Longrightarrow> (a = w) = (b = w)"
  using alike_eq [of "CHR ''/'' # a" "CHR ''/'' # b" "CHR ''/'' # w"] by (simp add: alike_words_def)

lemma alike_parts:
  assumes "alike p q"
  shows "length (split_on (CHR ''/'') p) = length (split_on (CHR ''/'') q)"
    "0 < n \<Longrightarrow> n < length (split_on (CHR ''/'') q) \<Longrightarrow> good (CHR ''/'' # w) \<Longrightarrow>
      (split_on (CHR ''/'') p ! n = w) = (split_on (CHR ''/'') q ! n = w)"
proof -
  obtain a as b bs where s: "split_on (CHR ''/'') p = a # as" "split_on (CHR ''/'') q = b # bs"
    using split_on_nonempty by (meson neq_Nil_conv)
  then have all: "list_all2 alike_words as bs" using alike_split [OF assms] by simp
  then show "length (split_on (CHR ''/'') p) = length (split_on (CHR ''/'') q)"
    using s by (simp add: list_all2_lengthD)
  show "(split_on (CHR ''/'') p ! n = w) = (split_on (CHR ''/'') q ! n = w)"
    if "0 < n" "n < length (split_on (CHR ''/'') q)" "good (CHR ''/'' # w)"
    using that s alike_word_eq [OF list_all2_nthD2 [OF all, of "n - 1"]] by (cases n) auto
qed

section \<open>The gate does not see identifiers\<close>

lemma hex_dash_simps:
  "is_hex_dash (CHR ''-'')" "is_hex_dash (CHR ''1'')" "is_hex_dash (CHR ''a'')"
  "is_hex_dash (CHR ''b'')" "is_hex_dash (CHR ''c'')" "is_hex_dash (CHR ''d'')"
  "is_hex_dash (CHR ''e'')" "is_hex_dash (CHR ''f'')" "\<not> is_hex_dash (CHR ''.'')"
  "\<not> is_hex_dash (CHR ''/'')" "\<not> is_hex_dash (CHR ''g'')"
  "\<not> is_hex_dash (CHR ''h'')" "\<not> is_hex_dash (CHR ''i'')"
  "\<not> is_hex_dash (CHR ''j'')" "\<not> is_hex_dash (CHR ''k'')"
  "\<not> is_hex_dash (CHR ''l'')" "\<not> is_hex_dash (CHR ''m'')"
  "\<not> is_hex_dash (CHR ''n'')" "\<not> is_hex_dash (CHR ''o'')"
  "\<not> is_hex_dash (CHR ''p'')" "\<not> is_hex_dash (CHR ''q'')"
  "\<not> is_hex_dash (CHR ''r'')" "\<not> is_hex_dash (CHR ''s'')"
  "\<not> is_hex_dash (CHR ''t'')" "\<not> is_hex_dash (CHR ''u'')"
  "\<not> is_hex_dash (CHR ''v'')" "\<not> is_hex_dash (CHR ''w'')"
  "\<not> is_hex_dash (CHR ''x'')" "\<not> is_hex_dash (CHR ''y'')"
  "\<not> is_hex_dash (CHR ''z'')"
  by (simp_all add: is_hex_dash_def)

lemma good_literals:
  "good ''/api/v1/compute/instances/''" "good ''/exec''" "good ''/vnc''" "good ''/console''"
  "good ''/snapshots/''" "good ''/restore''" "good ''/snapshots''" "good ''/backups''"
  "good ''/migrate''" "good ''/api/v1/compute/instances''"
  "good ''/api/v1/compute/snapshot-policies''" "good ''/api/v1/compute/snapshot-policies/''"
  "good ''/api/v1/compute/backup-targets''" "good ''/api/v1/compute/backup-targets/''"
  "good ''/api/v1/compute/backups''" "good ''/api/v1/compute/backups/''"
  "good ''/api/v1/compute/cluster/members''" "good ''/api/v1/compute/cluster/members/''"
  "good ''/evacuate''" "good ''/api/v1/admin/compute/ip-pools''"
  "good ''/api/v1/admin/compute/ip-pools/''" "good ''/api/v1/compute/floating-ips/''"
  "good ''/attach''" "good ''/detach''" "good ''/api/v1/compute/floating-ips''"
  "good ''/floating-ip''" "good ''/api/v1/compute/images''" "good ''/api/v1/compute/images/''"
  "good ''/api/v1/compute/profiles''" "good ''/api/v1/compute/profiles/''"
  "good ''/api/v1/compute/networks''" "good ''/api/v1/compute/networks/''"
  "good ''/api/v1/compute/storage''" "good ''/api/v1/compute/storage/''"
  "good ''/api/v1/dns/zones/''" "good ''/records''" "good ''/apply-template''"
  "good ''/dnssec/enable''" "good ''/dnssec/disable''" "good ''/api/v1/dns/zones''"
  "good ''/api/v1/dns/templates''" "good ''/api/v1/dns/domains/''" "good ''/renew''"
  "good ''/api/v1/dns/domains''" "good ''/api/v1/dns/domains/search''"
  "good ''/api/v1/dns/domains/transfer''" "good ''/api/v1/storage/buckets/''"
  "good ''/credentials''" "good ''/presign''" "good ''/quota''" "good ''/usage''"
  "good ''/versioning''" "good ''/versions''" "good ''/status''" "good ''/lifecycle/''"
  "good ''/lifecycle''" "good ''/object-lock''" "good ''/api/v1/storage/buckets''"
  "good ''/versions/restore''" "good ''/api/v1/me/balance''" "good ''/api/v1/me/usage''"
  "good ''/api/v1/me/ledger''" "good ''/api/v1/me/receipts''" "good ''/api/v1/me/receipts/''"
  "good ''.pdf''" "good ''/api/v1/admin/billing/prices''"
  "good ''/api/v1/admin/billing/prices/''" "good ''/api/v1/admin/users/''" "good ''/topup''"
  "good ''/refund''" "good ''/ledger''" "good ''/balance''" "good ''/api/v1/billing/config''"
  "good ''/api/v1/billing/plans''" "good ''/api/v1/billing/payment-methods''"
  "good ''/api/v1/billing/payment-methods/''" "good ''/api/v1/billing/topup''"
  "good ''/api/v1/billing/subscriptions''" "good ''/api/v1/billing/subscriptions/''"
  "good ''/api/v1/billing/redeem''" "good ''/api/v1/admin/billing/plans/''" "good ''/push''"
  "good ''/api/v1/admin/billing/plans''" "good ''/api/v1/admin/billing/promo-codes''"
  "good ''/api/v1/admin/billing/promo-codes/''" "good ''/revoke''"
  "good ''/api/v1/admin/billing/webhook-events''" "good ''/api/v1/webhooks/stripe''"
  "good ''/api/v1/agent/tool-calls/''" "good ''/confirm''"
  "good ''/api/v1/agent/conversations/''" "good ''/messages''" "good ''/api/v1/agent/providers''"
  "good ''/api/v1/agent/providers/''" "good ''/api/v1/agent/policy''" "good ''/start''"
  "good ''/stop''" "good ''/restart''" "good ''/freeze''" "good ''/unfreeze''"
  "good ''/api/v1/audit/export''" "good ''/api/v1/audit''" "good ''/api/v1/audit/''"
  "good ''/api/v1/admin/jobs/''" "good ''/retry''" "good ''/cancel''"
  "good ''/api/v1/admin/jobs''" "good ''/api/v1/admin/marketplace''"
  "good ''/api/v1/admin/marketplace/''" "good ''/api/v1/admin/plugins/install/''"
  "good ''/api/v1/admin/plugins/upgrade/''" "good ''/api/v1/admin/plugins/upload''"
  "good ''/api/v1/admin/plugins/''" "good ''/enable''" "good ''/disable''"
  "good ''/permissions/''" "good ''/api/v1/admin/plugins''"
  "good ''/api/v1/agent/conversations''" "good ''/api/v1/admin/users''"
  "good ''/api/v1/admin/settings''" "good ''/api/v1/admin/directory''"
  "good ''/api/v1/admin/directory/''"
  by (simp_all add: good_word_def hex_dash_simps)

lemma alike_tests:
  assumes "alike p q"
  shows
    "isComputeInstanceLifecyclePath p = isComputeInstanceLifecyclePath q"
    "isComputeInstanceExecPath p = isComputeInstanceExecPath q"
    "isComputeInstanceVNCPath p = isComputeInstanceVNCPath q"
    "isComputeInstanceConsolePath p = isComputeInstanceConsolePath q"
    "isComputeSnapshotRestorePath p = isComputeSnapshotRestorePath q"
    "isComputeSnapshotPath p = isComputeSnapshotPath q"
    "isComputeInstanceBackupsPath p = isComputeInstanceBackupsPath q"
    "isComputeInstanceMigratePath p = isComputeInstanceMigratePath q"
    "isComputeInstancePath p = isComputeInstancePath q"
    "isComputeSnapshotPolicyPath p = isComputeSnapshotPolicyPath q"
    "isComputeBackupTargetPath p = isComputeBackupTargetPath q"
    "isComputeBackupPath p = isComputeBackupPath q"
    "isComputeClusterMembersPath p = isComputeClusterMembersPath q"
    "isComputeClusterMemberPath p = isComputeClusterMemberPath q"
    "isComputeClusterMemberEvacuatePath p = isComputeClusterMemberEvacuatePath q"
    "isComputeIPPoolPath p = isComputeIPPoolPath q"
    "isComputeFloatingIPAttachPath p = isComputeFloatingIPAttachPath q"
    "isComputeFloatingIPDetachPath p = isComputeFloatingIPDetachPath q"
    "isComputeFloatingIPPath p = isComputeFloatingIPPath q"
    "isComputeInstanceFloatingIPPath p = isComputeInstanceFloatingIPPath q"
    "isComputeImagePath p = isComputeImagePath q"
    "isComputeProfilePath p = isComputeProfilePath q"
    "isComputeNetworkPath p = isComputeNetworkPath q"
    "isComputeStoragePath p = isComputeStoragePath q" "isDNSRecordPath p = isDNSRecordPath q"
    "isDNSApplyTemplatePath p = isDNSApplyTemplatePath q" "isDNSDNSSECPath p = isDNSDNSSECPath q"
    "isDNSZonePath p = isDNSZonePath q" "isDNSTemplatePath p = isDNSTemplatePath q"
    "isDNSDomainRenewPath p = isDNSDomainRenewPath q" "isDNSDomainPath p = isDNSDomainPath q"
    "isDNSDomainSearchPath p = isDNSDomainSearchPath q"
    "isDNSDomainTransferPath p = isDNSDomainTransferPath q"
    "isStorageCredentialsPath p = isStorageCredentialsPath q"
    "isStoragePresignPath p = isStoragePresignPath q"
    "isStorageQuotaPath p = isStorageQuotaPath q" "isStorageUsagePath p = isStorageUsagePath q"
    "isStorageVersioningPath p = isStorageVersioningPath q"
    "isStorageVersionsPath p = isStorageVersionsPath q"
    "isStorageLifecycleStatusPath p = isStorageLifecycleStatusPath q"
    "isStorageLifecyclePath p = isStorageLifecyclePath q"
    "isStorageObjectLockPath p = isStorageObjectLockPath q"
    "isStorageBucketPath p = isStorageBucketPath q"
    "isStorageVersionRestorePath p = isStorageVersionRestorePath q"
    "isBillingMeBalancePath p = isBillingMeBalancePath q"
    "isBillingMeUsagePath p = isBillingMeUsagePath q"
    "isBillingMeLedgerPath p = isBillingMeLedgerPath q"
    "isBillingMeReceiptsPath p = isBillingMeReceiptsPath q"
    "isBillingMeReceiptsPDFPath p = isBillingMeReceiptsPDFPath q"
    "isBillingAdminPricesPath p = isBillingAdminPricesPath q"
    "isBillingAdminUserTopupPath p = isBillingAdminUserTopupPath q"
    "isBillingAdminUserRefundPath p = isBillingAdminUserRefundPath q"
    "isBillingAdminUserLedgerPath p = isBillingAdminUserLedgerPath q"
    "isBillingAdminUserBalancePath p = isBillingAdminUserBalancePath q"
    "isBillingConfigPath p = isBillingConfigPath q"
    "isBillingPublicPlansPath p = isBillingPublicPlansPath q"
    "isBillingPaymentMethodsPath p = isBillingPaymentMethodsPath q"
    "isBillingPaymentMethodPath p = isBillingPaymentMethodPath q"
    "isBillingTopupPath p = isBillingTopupPath q"
    "isBillingSubscriptionsPath p = isBillingSubscriptionsPath q"
    "isBillingSubscriptionPath p = isBillingSubscriptionPath q"
    "isBillingRedeemPath p = isBillingRedeemPath q"
    "isBillingAdminPlanPushPath p = isBillingAdminPlanPushPath q"
    "isBillingAdminPlansPath p = isBillingAdminPlansPath q"
    "isBillingAdminPromoCodesPath p = isBillingAdminPromoCodesPath q"
    "isBillingAdminPromoCodeRevokePath p = isBillingAdminPromoCodeRevokePath q"
    "isBillingAdminWebhookEventsPath p = isBillingAdminWebhookEventsPath q"
    "isBillingWebhookPath p = isBillingWebhookPath q"
    "isAgentToolCallConfirmPath p = isAgentToolCallConfirmPath q"
    "isAgentConversationMessagesPath p = isAgentConversationMessagesPath q"
    "isAgentConversationItemPath p = isAgentConversationItemPath q"
    "isAgentProviderPath p = isAgentProviderPath q" "isAgentPolicyPath p = isAgentPolicyPath q"
  unfolding isComputeInstanceLifecyclePath_def isComputeInstanceExecPath_def isComputeInstanceVNCPath_def
    isComputeInstanceConsolePath_def isComputeSnapshotRestorePath_def isComputeSnapshotPath_def
    isComputeInstanceBackupsPath_def isComputeInstanceMigratePath_def isComputeInstancePath_def
    isComputeSnapshotPolicyPath_def isComputeBackupTargetPath_def isComputeBackupPath_def
    isComputeClusterMembersPath_def isComputeClusterMemberPath_def
    isComputeClusterMemberEvacuatePath_def isComputeIPPoolPath_def
    isComputeFloatingIPAttachPath_def isComputeFloatingIPDetachPath_def
    isComputeFloatingIPPath_def isComputeInstanceFloatingIPPath_def isComputeImagePath_def
    isComputeProfilePath_def isComputeNetworkPath_def isComputeStoragePath_def
    isDNSRecordPath_def isDNSApplyTemplatePath_def isDNSDNSSECPath_def isDNSZonePath_def
    isDNSTemplatePath_def isDNSDomainRenewPath_def isDNSDomainPath_def isDNSDomainSearchPath_def
    isDNSDomainTransferPath_def isStorageCredentialsPath_def isStoragePresignPath_def
    isStorageQuotaPath_def isStorageUsagePath_def isStorageVersioningPath_def
    isStorageVersionsPath_def isStorageLifecycleStatusPath_def isStorageLifecyclePath_def
    isStorageObjectLockPath_def isStorageBucketPath_def isStorageVersionRestorePath_def
    isBillingMeBalancePath_def isBillingMeUsagePath_def isBillingMeLedgerPath_def
    isBillingMeReceiptsPath_def isBillingMeReceiptsPDFPath_def isBillingAdminPricesPath_def
    isBillingAdminUserTopupPath_def isBillingAdminUserRefundPath_def
    isBillingAdminUserLedgerPath_def isBillingAdminUserBalancePath_def isBillingConfigPath_def
    isBillingPublicPlansPath_def isBillingPaymentMethodsPath_def isBillingPaymentMethodPath_def
    isBillingTopupPath_def isBillingSubscriptionsPath_def isBillingSubscriptionPath_def
    isBillingRedeemPath_def isBillingAdminPlanPushPath_def isBillingAdminPlansPath_def
    isBillingAdminPromoCodesPath_def isBillingAdminPromoCodeRevokePath_def
    isBillingAdminWebhookEventsPath_def isBillingWebhookPath_def isAgentToolCallConfirmPath_def
    isAgentConversationMessagesPath_def isAgentConversationItemPath_def isAgentProviderPath_def
    isAgentPolicyPath_def
  by (simp_all add: alike_prefix [OF assms] alike_suffix [OF assms] alike_contains [OF assms]
    alike_eq [OF assms] good_literals del: good.simps)

lemma user_path_rest:
  "\<not> HasPrefix path ''/api/v1/admin/users/'' \<Longrightarrow> CutPrefix path ''/api/v1/admin/users/'' = None"
  "HasPrefix path ''/api/v1/admin/users/'' \<Longrightarrow>
     \<exists>r. CutPrefix path ''/api/v1/admin/users/'' = Some r \<and>
       split_on (CHR ''/'') path = ['''', ''api'', ''v1'', ''admin'', ''users''] @ split_on (CHR ''/'') r"
  by (auto simp: CutPrefix_def HasPrefix_def prefix_def)

lemma Contains_slash: "Contains s ''/'' \<longleftrightarrow> 1 < length (split_on (CHR ''/'') s)"
proof (induction s)
  case (Cons c s)
  then show ?case using split_on_nonempty [of "CHR ''/''" s] by (auto split: list.split)
qed simp

lemma one_part: "s \<noteq> [] \<and> \<not> Contains s ''/'' \<longleftrightarrow>
    length (split_on (CHR ''/'') s) = 1 \<and> split_on (CHR ''/'') s ! 0 \<noteq> []"
proof (cases s)
  case (Cons c s')
  then show ?thesis unfolding Contains_slash using split_on_nonempty [of "CHR ''/''" s']
    by (auto split: list.split)
qed (simp add: Contains_slash)

lemma user_paths_by_parts:
  "isAdminUserItemPath path \<longleftrightarrow> HasPrefix path ''/api/v1/admin/users/'' \<and>
     length (split_on (CHR ''/'') path) = 6 \<and> split_on (CHR ''/'') path ! 5 \<noteq> []"
  "isAdminUserMembershipPath path \<longleftrightarrow> HasPrefix path ''/api/v1/admin/users/'' \<and>
     length (split_on (CHR ''/'') path) = 8 \<and> split_on (CHR ''/'') path ! 5 \<noteq> [] \<and>
     split_on (CHR ''/'') path ! 6 = ''memberships'' \<and> split_on (CHR ''/'') path ! 7 \<noteq> []"
proof (atomize (full), cases "HasPrefix path ''/api/v1/admin/users/''")
  case True
  then obtain r where "CutPrefix path ''/api/v1/admin/users/'' = Some r"
    "split_on (CHR ''/'') path = ['''', ''api'', ''v1'', ''admin'', ''users''] @ split_on (CHR ''/'') r"
    using user_path_rest(2) by blast
  then show "(isAdminUserItemPath path \<longleftrightarrow> HasPrefix path ''/api/v1/admin/users/'' \<and>
     length (split_on (CHR ''/'') path) = 6 \<and> split_on (CHR ''/'') path ! 5 \<noteq> []) \<and>
    (isAdminUserMembershipPath path \<longleftrightarrow> HasPrefix path ''/api/v1/admin/users/'' \<and>
     length (split_on (CHR ''/'') path) = 8 \<and> split_on (CHR ''/'') path ! 5 \<noteq> [] \<and>
     split_on (CHR ''/'') path ! 6 = ''memberships'' \<and> split_on (CHR ''/'') path ! 7 \<noteq> [])"
    using True one_part [of r]
    by (auto simp: isAdminUserItemPath_def isAdminUserMembershipPath_def Let_def numeral_eq_Suc)
qed (simp add: isAdminUserItemPath_def isAdminUserMembershipPath_def user_path_rest(1))

lemma alike_user_paths:
  assumes "alike p q"
  shows "isAdminUserItemPath p = isAdminUserItemPath q"
    "isAdminUserMembershipPath p = isAdminUserMembershipPath q"
proof -
  note * = alike_parts [OF assms]
  have pre: "HasPrefix p ''/api/v1/admin/users/'' = HasPrefix q ''/api/v1/admin/users/''"
    by (rule alike_prefix [OF assms good_literals(68)])
  have g: "good ''/''" "good ''/memberships''" by (simp_all add: good_word_def hex_dash_simps)
  show "isAdminUserItemPath p = isAdminUserItemPath q"
    unfolding user_paths_by_parts using *(1) *(2) [of 5 "[]"] g pre by auto
  show "isAdminUserMembershipPath p = isAdminUserMembershipPath q"
    unfolding user_paths_by_parts
    using *(1) *(2) [of 5 "[]"] *(2) [of 6 "''memberships''"] *(2) [of 7 "[]"] g pre by auto
qed

lemma alike_action: "alike p q \<Longrightarrow> computeInstanceActionPerm p = computeInstanceActionPerm q"
  by (simp add: computeInstanceActionPerm_def alike_suffix good_literals del: good.simps)

theorem alike_gate: "alike p q \<Longrightarrow> gate_rule_of p m = gate_rule_of q m"
  unfolding gate_rule_of_def audit_admin_rules_def compute_rules_def cluster_ip_rules_def
    dns_rules_def storage_rules_def billing_rules_def agent_users_rules_def
  by (simp only: alike_tests alike_user_paths alike_action alike_prefix alike_suffix
    alike_contains alike_eq good_literals list.simps list.sel simp_thms insertI1 insert_iff)

section \<open>Patterns\<close>

fun pattern_ok :: "string \<Rightarrow> bool" where
  "pattern_ok [] \<longleftrightarrow> True"
| "pattern_ok (c # s) \<longleftrightarrow> c \<noteq> CHR '':'' \<and>
     (case s of
        [] \<Rightarrow> True
      | d # t \<Rightarrow>
          if c = CHR ''/'' \<and> d = CHR '':''
          then word_ends (dropWhile is_name_char t) \<and> pattern_ok (dropWhile is_name_char t)
          else pattern_ok s)"

lemma params_simps [simp]:
  "params [] = 0" "params (c # s) = (if c = CHR '':'' then Suc (params s) else params s)"
  by (simp_all add: params_def)

lemma params_drop_name [simp]: "params (dropWhile is_name_char s) = params s"
  by (induction s) (auto simp: is_name_char_def is_lower_def is_upper_def)

lemma word_ends_fill: "word_ends p \<Longrightarrow> word_ends (fill ids p)"
  by (cases p) (auto simp: word_ends_def)

lemma fill_alike:
  "pattern_ok pat \<Longrightarrow> list_all is_id ids \<Longrightarrow> length ids = params pat \<Longrightarrow> alike (fill ids pat) pat"
proof (induction pat arbitrary: ids rule: pattern_ok.induct)
  case (2 c s)
  show ?case
  proof (cases s)
    case (Cons d t)
    show ?thesis
    proof (cases "c = CHR ''/'' \<and> d = CHR '':''")
      case True
      then obtain i ids' where ids: "ids = i # ids'" using 2(5) Cons by (cases ids) auto
      let ?r = "dropWhile is_name_char t"
      have "alike (fill ids' ?r) ?r" using 2(1) [OF Cons True, of ids'] 2(3-5) True Cons ids by simp
      moreover have "word_ends ?r" using 2(3) True Cons by simp
      moreover have "dull i" "dull (CHR '':'' # takeWhile is_name_char t)"
        using 2(4) ids by (auto simp: dull_def is_param_def list_all_iff dest: set_takeWhileD)
      ultimately have "alike (CHR ''/'' # i @ fill ids' ?r)
          (CHR ''/'' # (CHR '':'' # takeWhile is_name_char t) @ ?r)"
        by (intro alike.ident word_ends_fill)
      then show ?thesis using True Cons ids by simp
    next
      case False
      then show ?thesis
        using 2(2) [OF Cons False, of ids] 2(3-5) Cons by (auto intro: alike.same split: if_splits)
    qed
  qed (use 2(3) in \<open>auto intro: alike.intros\<close>)
qed (auto intro: alike.intros)

lemma alike_slash: "alike p q \<Longrightarrow> alike (p @ ''/'') (q @ ''/'')"
proof (induction rule: alike.induct)
  case (ident i j p q)
  have "word_ends (r @ ''/'')" if "word_ends r" for r
    using that by (cases r) (auto simp: word_ends_def)
  then show ?case using alike.ident [OF ident.hyps(1,2) ident.IH] ident.hyps by simp
qed (auto intro: alike.intros)

section \<open>Evaluation\<close>

definition avoids :: "string \<Rightarrow> string \<Rightarrow> bool" where
  "avoids path a \<longleftrightarrow> \<not> HasPrefix path a"

lemma avoidsD:
  "avoids path a \<Longrightarrow> prefix a l \<Longrightarrow> \<not> HasPrefix path l"
  "avoids path a \<Longrightarrow> prefix a l \<Longrightarrow> path \<noteq> l"
  by (auto simp: avoids_def HasPrefix_def dest: prefix_order.trans)

lemma avoidsI:
  "HasPrefix path a \<Longrightarrow> \<not> prefix a b \<Longrightarrow> \<not> prefix b a \<Longrightarrow> avoids path b"
  "\<not> HasPrefix path a \<Longrightarrow> prefix a b \<Longrightarrow> avoids path b"
  by (auto simp: avoids_def HasPrefix_def dest: prefix_order.trans prefix_same_cases)

definition silent :: "(bool \<times> gate_rule) list \<Rightarrow> bool" where
  "silent cases \<longleftrightarrow> list_all (\<lambda>(b, r). \<not> b) cases"

lemma silent_simps: "silent []" "silent ((b, r) # cs) \<longleftrightarrow> \<not> b \<and> silent cs"
  by (simp_all add: silent_def)

definition hits :: "(bool \<times> gate_rule) list \<Rightarrow> gate_rule option" where
  "hits cases = map_option snd (find fst cases)"

lemma first_match_hits: "first_match cases = (case hits cases of None \<Rightarrow> Free | Some r \<Rightarrow> r)"
  by (induction cases) (auto simp: hits_def)

lemma hits_append: "hits (xs @ ys) = (case hits xs of None \<Rightarrow> hits ys | Some r \<Rightarrow> Some r)"
  by (induction xs) (auto simp: hits_def)

lemma hits_silent: "silent cases \<Longrightarrow> hits cases = None"
  by (auto simp: hits_def silent_def list_all_iff find_None_iff)

lemmas not_under = avoidsD [of _ "''/api/v1/audit''"]
  avoidsD [of _ "''/api/v1/admin''"]
  avoidsD [of _ "''/api/v1/compute''"]
  avoidsD [of _ "''/api/v1/dns''"]
  avoidsD [of _ "''/api/v1/storage''"]
  avoidsD [of _ "''/api/v1/me''"]
  avoidsD [of _ "''/api/v1/webhooks''"]
  avoidsD [of _ "''/api/v1/billing''"]
  avoidsD [of _ "''/api/v1/agent''"]

lemma sections_silent:
  "avoids path ''/api/v1/audit'' \<Longrightarrow> avoids path ''/api/v1/admin'' \<Longrightarrow>
     silent (audit_admin_rules path m)"
  "avoids path ''/api/v1/compute'' \<Longrightarrow> silent (compute_rules path m)"
  "avoids path ''/api/v1/compute'' \<Longrightarrow> avoids path ''/api/v1/admin'' \<Longrightarrow>
     silent (cluster_ip_rules path m)"
  "avoids path ''/api/v1/dns'' \<Longrightarrow> silent (dns_rules path m)"
  "avoids path ''/api/v1/storage'' \<Longrightarrow> silent (storage_rules path m)"
  "avoids path ''/api/v1/admin'' \<Longrightarrow> avoids path ''/api/v1/me'' \<Longrightarrow>
     avoids path ''/api/v1/webhooks'' \<Longrightarrow> avoids path ''/api/v1/billing'' \<Longrightarrow>
     silent (billing_rules path m)"
  "avoids path ''/api/v1/agent'' \<Longrightarrow> avoids path ''/api/v1/admin'' \<Longrightarrow>
     silent (agent_users_rules path m)"
  unfolding audit_admin_rules_def compute_rules_def cluster_ip_rules_def dns_rules_def
    storage_rules_def billing_rules_def agent_users_rules_def silent_simps user_paths_by_parts
    isComputeInstanceLifecyclePath_def isComputeInstanceExecPath_def isComputeInstanceVNCPath_def
    isComputeInstanceConsolePath_def isComputeSnapshotRestorePath_def isComputeSnapshotPath_def
    isComputeInstanceBackupsPath_def isComputeInstanceMigratePath_def isComputeInstancePath_def
    isComputeSnapshotPolicyPath_def isComputeBackupTargetPath_def isComputeBackupPath_def
    isComputeClusterMembersPath_def isComputeClusterMemberPath_def
    isComputeClusterMemberEvacuatePath_def isComputeIPPoolPath_def
    isComputeFloatingIPAttachPath_def isComputeFloatingIPDetachPath_def
    isComputeFloatingIPPath_def isComputeInstanceFloatingIPPath_def isComputeImagePath_def
    isComputeProfilePath_def isComputeNetworkPath_def isComputeStoragePath_def
    isDNSRecordPath_def isDNSApplyTemplatePath_def isDNSDNSSECPath_def isDNSZonePath_def
    isDNSTemplatePath_def isDNSDomainRenewPath_def isDNSDomainPath_def isDNSDomainSearchPath_def
    isDNSDomainTransferPath_def isStorageCredentialsPath_def isStoragePresignPath_def
    isStorageQuotaPath_def isStorageUsagePath_def isStorageVersioningPath_def
    isStorageVersionsPath_def isStorageLifecycleStatusPath_def isStorageLifecyclePath_def
    isStorageObjectLockPath_def isStorageBucketPath_def isStorageVersionRestorePath_def
    isBillingMeBalancePath_def isBillingMeUsagePath_def isBillingMeLedgerPath_def
    isBillingMeReceiptsPath_def isBillingMeReceiptsPDFPath_def isBillingAdminPricesPath_def
    isBillingAdminUserTopupPath_def isBillingAdminUserRefundPath_def
    isBillingAdminUserLedgerPath_def isBillingAdminUserBalancePath_def isBillingConfigPath_def
    isBillingPublicPlansPath_def isBillingPaymentMethodsPath_def isBillingPaymentMethodPath_def
    isBillingTopupPath_def isBillingSubscriptionsPath_def isBillingSubscriptionPath_def
    isBillingRedeemPath_def isBillingAdminPlanPushPath_def isBillingAdminPlansPath_def
    isBillingAdminPromoCodesPath_def isBillingAdminPromoCodeRevokePath_def
    isBillingAdminWebhookEventsPath_def isBillingWebhookPath_def isAgentToolCallConfirmPath_def
    isAgentConversationMessagesPath_def isAgentConversationItemPath_def isAgentProviderPath_def
    isAgentPolicyPath_def
  by (simp_all add: not_under silent_simps)

lemma gate_outside: "\<not> HasPrefix path ''/api/v1/'' \<Longrightarrow> gate_rule_of path m = Free"
  unfolding gate_rule_of_def first_match_hits
  by (simp add: hits_append hits_silent sections_silent avoidsI(2) [of path "''/api/v1/''"])

lemma gate_trees:
  "HasPrefix path ''/api/v1/storage'' \<Longrightarrow> gate_rule_of path m = first_match (storage_rules path m)"
  "HasPrefix path ''/api/v1/dns'' \<Longrightarrow> gate_rule_of path m = first_match (dns_rules path m)"
  "HasPrefix path ''/api/v1/agent'' \<Longrightarrow> gate_rule_of path m = first_match (agent_users_rules path m)"
  "HasPrefix path ''/api/v1/audit'' \<Longrightarrow> gate_rule_of path m = first_match (audit_admin_rules path m)"
  "HasPrefix path ''/api/v1/billing'' \<Longrightarrow> gate_rule_of path m = first_match (billing_rules path m)"
  "HasPrefix path ''/api/v1/me/'' \<Longrightarrow> gate_rule_of path m = first_match (billing_rules path m)"
  "HasPrefix path ''/api/v1/webhooks'' \<Longrightarrow> gate_rule_of path m = first_match (billing_rules path m)"
  "HasPrefix path ''/api/v1/compute'' \<Longrightarrow>
     gate_rule_of path m = first_match (compute_rules path m @ cluster_ip_rules path m)"
  "HasPrefix path ''/api/v1/admin'' \<Longrightarrow> gate_rule_of path m =
     first_match (audit_admin_rules path m @ cluster_ip_rules path m @ billing_rules path m @
       agent_users_rules path m)"
  "HasPrefix path ''/api/v1/auth/'' \<Longrightarrow> gate_rule_of path m = Free"
  "HasPrefix path ''/api/v1/p'' \<Longrightarrow> gate_rule_of path m = Free"
  "HasPrefix path ''/health'' \<Longrightarrow> gate_rule_of path m = Free"
  unfolding gate_rule_of_def first_match_hits
  by (simp_all add: hits_append hits_silent sections_silent avoidsI(1) split: option.split)

end
