(* ===== verification/Gate_Trees.thy ===== *)
theory Gate_Trees
  imports Gate_Paths
begin

text \<open>
  The cases of the gate that can apply in each subtree of the API, for every path of the subtree,
  not only for the routes of the table: all other cases are refuted by the first words of the
  path.
\<close>

lemma under:
  "HasPrefix path a \<Longrightarrow> \<not> prefix a l \<Longrightarrow> path \<noteq> l"
  "HasPrefix path a \<Longrightarrow> \<not> prefix a l \<Longrightarrow> \<not> prefix l a \<Longrightarrow> \<not> HasPrefix path l"
  by (auto simp: HasPrefix_def dest: prefix_same_cases)

lemma hits_simps: "hits [] = None" "hits ((b, r) # cs) = (if b then Some r else hits cs)"
  by (simp_all add: hits_def)

lemma hits_or:
  "(case (if b then Some r else x) of None \<Rightarrow> y | Some z \<Rightarrow> Some z) =
     (if b then Some r else (case x of None \<Rightarrow> y | Some z \<Rightarrow> Some z))"
  by simp

lemma under_audit:
  "HasPrefix path ''/api/v1/audit'' \<Longrightarrow> gate_rule_of path m = first_match
     [(path = ''/api/v1/audit/export'', Needs PermAuditExport),
      (path = ''/api/v1/audit'', Needs PermAuditRead),
      (HasPrefix path ''/api/v1/audit/'', Needs PermAuditRead)]"
  unfolding gate_rule_of_def first_match_hits
  by (simp add: hits_append hits_silent sections_silent avoidsI(1) [of path "''/api/v1/audit''"]
    audit_admin_rules_def hits_simps hits_or
    under [of path "''/api/v1/audit''"] split del: if_split cong: if_cong)

lemma under_admin_users:
  "HasPrefix path ''/api/v1/admin/users'' \<Longrightarrow> gate_rule_of path m = first_match
     [(isBillingAdminUserTopupPath path \<and> m = ''POST'', Needs PermBillingBalanceAdjust),
      (isBillingAdminUserRefundPath path \<and> m = ''POST'', Needs PermBillingBalanceAdjust),
      (isBillingAdminUserBalancePath path \<and> m = ''GET'', Needs PermBillingBalanceRead),
      (isBillingAdminUserBalancePath path \<and> m = ''POST'', Needs PermBillingBalanceAdjust),
      (isBillingAdminUserLedgerPath path \<and> m = ''GET'', Needs PermBillingLedgerRead),
      (path = ''/api/v1/admin/users'' \<and> m = ''GET'', Needs PermPlatformUserList),
      (path = ''/api/v1/admin/users'' \<and> m = ''POST'', Needs PermPlatformUserManage),
      (isAdminUserItemPath path \<and> m = ''GET'', Needs PermPlatformUserList),
      (isAdminUserItemPath path \<and> (m = ''PATCH'' \<or> m = ''DELETE''),
         Needs PermPlatformUserManage),
      (isAdminUserMembershipPath path \<and> m = ''PUT'', Needs PermPlatformUserManage)]"
  unfolding gate_rule_of_def first_match_hits
  by (simp add: hits_append hits_silent sections_silent avoidsI(1) [of path "''/api/v1/admin/users''"]
    audit_admin_rules_def cluster_ip_rules_def billing_rules_def agent_users_rules_def hits_simps
    hits_or isComputeInstanceMigratePath_def isComputeClusterMembersPath_def
    isComputeClusterMemberPath_def isComputeClusterMemberEvacuatePath_def isComputeIPPoolPath_def
    isComputeFloatingIPAttachPath_def isComputeFloatingIPDetachPath_def
    isComputeFloatingIPPath_def isComputeInstanceFloatingIPPath_def isBillingMeBalancePath_def
    isBillingMeUsagePath_def isBillingMeLedgerPath_def isBillingMeReceiptsPath_def
    isBillingMeReceiptsPDFPath_def isBillingAdminPricesPath_def isBillingConfigPath_def
    isBillingPublicPlansPath_def isBillingPaymentMethodsPath_def isBillingPaymentMethodPath_def
    isBillingTopupPath_def isBillingSubscriptionsPath_def isBillingSubscriptionPath_def
    isBillingRedeemPath_def isBillingAdminPlanPushPath_def isBillingAdminPlansPath_def
    isBillingAdminPromoCodesPath_def isBillingAdminPromoCodeRevokePath_def
    isBillingAdminWebhookEventsPath_def isBillingWebhookPath_def isAgentToolCallConfirmPath_def
    isAgentConversationMessagesPath_def isAgentConversationItemPath_def isAgentProviderPath_def
    isAgentPolicyPath_def
    under [of path "''/api/v1/admin/users''"] split del: if_split cong: if_cong)

lemma under_admin_billing:
  "HasPrefix path ''/api/v1/admin/billing'' \<Longrightarrow> gate_rule_of path m = first_match
     [(isBillingAdminPricesPath path \<and> m = ''POST'', Needs PermBillingPriceCatalogUpdate),
      (isBillingAdminPricesPath path \<and> m = ''GET'', Needs PermBillingPriceCatalogRead),
      (isBillingAdminPlansPath path \<and> m = ''GET'', Needs PermBillingPlanRead),
      (isBillingAdminPlanPushPath path \<and> m = ''POST'', Needs PermBillingPlanManage),
      (isBillingAdminPlansPath path \<and> (m = ''POST'' \<or> m = ''PATCH'' \<or>
     m = ''DELETE''),
         Needs PermBillingPlanManage),
      (isBillingAdminPromoCodesPath path \<and> m = ''GET'', Needs PermBillingPromoCodeManage),
      (isBillingAdminPromoCodesPath path \<and> m = ''POST'',
         Needs PermBillingPromoCodeManage),
      (isBillingAdminPromoCodeRevokePath path \<and> m = ''POST'',
         Needs PermBillingPromoCodeManage),
      (isBillingAdminWebhookEventsPath path \<and> m = ''GET'', Needs PermBillingWebhookRead)]"
  unfolding gate_rule_of_def first_match_hits
  by (simp add: hits_append hits_silent sections_silent avoidsI(1) [of path "''/api/v1/admin/billing''"]
    audit_admin_rules_def cluster_ip_rules_def billing_rules_def agent_users_rules_def hits_simps
    hits_or user_paths_by_parts isComputeInstanceMigratePath_def isComputeClusterMembersPath_def
    isComputeClusterMemberPath_def isComputeClusterMemberEvacuatePath_def isComputeIPPoolPath_def
    isComputeFloatingIPAttachPath_def isComputeFloatingIPDetachPath_def
    isComputeFloatingIPPath_def isComputeInstanceFloatingIPPath_def isBillingMeBalancePath_def
    isBillingMeUsagePath_def isBillingMeLedgerPath_def isBillingMeReceiptsPath_def
    isBillingMeReceiptsPDFPath_def isBillingAdminUserTopupPath_def
    isBillingAdminUserRefundPath_def isBillingAdminUserLedgerPath_def
    isBillingAdminUserBalancePath_def isBillingConfigPath_def isBillingPublicPlansPath_def
    isBillingPaymentMethodsPath_def isBillingPaymentMethodPath_def isBillingTopupPath_def
    isBillingSubscriptionsPath_def isBillingSubscriptionPath_def isBillingRedeemPath_def
    isBillingWebhookPath_def isAgentToolCallConfirmPath_def isAgentConversationMessagesPath_def
    isAgentConversationItemPath_def isAgentProviderPath_def isAgentPolicyPath_def
    under [of path "''/api/v1/admin/billing''"] split del: if_split cong: if_cong)

lemma under_admin_plugins:
  "HasPrefix path ''/api/v1/admin/plugins'' \<Longrightarrow> gate_rule_of path m = first_match
     [(HasPrefix path ''/api/v1/admin/plugins/install/'', Needs PermPluginsInstall),
      (HasPrefix path ''/api/v1/admin/plugins/upgrade/'', Needs PermPluginsInstall),
      (path = ''/api/v1/admin/plugins/upload'' \<and> m = ''POST'', Needs PermPluginsInstall),
      (HasPrefix path ''/api/v1/admin/plugins/'' \<and> HasSuffix path ''/enable'',
         Needs PermPluginsInstall),
      (HasPrefix path ''/api/v1/admin/plugins/'' \<and> HasSuffix path ''/disable'',
         Needs PermPluginsInstall),
      (HasPrefix path ''/api/v1/admin/plugins/'' \<and> Contains path ''/permissions/'',
         Needs PermPluginsPermissionApprove),
      (HasPrefix path ''/api/v1/admin/plugins/'' \<and> m = ''DELETE'',
         Needs PermPluginsUninstall),
      (path = ''/api/v1/admin/plugins'', Needs PermPluginsInstall),
      (HasPrefix path ''/api/v1/admin/plugins/'', Needs PermPluginsInstall)]"
  unfolding gate_rule_of_def first_match_hits
  by (simp add: hits_append hits_silent sections_silent avoidsI(1) [of path "''/api/v1/admin/plugins''"]
    audit_admin_rules_def cluster_ip_rules_def billing_rules_def agent_users_rules_def hits_simps
    hits_or user_paths_by_parts isComputeInstanceMigratePath_def isComputeClusterMembersPath_def
    isComputeClusterMemberPath_def isComputeClusterMemberEvacuatePath_def isComputeIPPoolPath_def
    isComputeFloatingIPAttachPath_def isComputeFloatingIPDetachPath_def
    isComputeFloatingIPPath_def isComputeInstanceFloatingIPPath_def isBillingMeBalancePath_def
    isBillingMeUsagePath_def isBillingMeLedgerPath_def isBillingMeReceiptsPath_def
    isBillingMeReceiptsPDFPath_def isBillingAdminPricesPath_def isBillingAdminUserTopupPath_def
    isBillingAdminUserRefundPath_def isBillingAdminUserLedgerPath_def
    isBillingAdminUserBalancePath_def isBillingConfigPath_def isBillingPublicPlansPath_def
    isBillingPaymentMethodsPath_def isBillingPaymentMethodPath_def isBillingTopupPath_def
    isBillingSubscriptionsPath_def isBillingSubscriptionPath_def isBillingRedeemPath_def
    isBillingAdminPlanPushPath_def isBillingAdminPlansPath_def isBillingAdminPromoCodesPath_def
    isBillingAdminPromoCodeRevokePath_def isBillingAdminWebhookEventsPath_def
    isBillingWebhookPath_def isAgentToolCallConfirmPath_def isAgentConversationMessagesPath_def
    isAgentConversationItemPath_def isAgentProviderPath_def isAgentPolicyPath_def
    under [of path "''/api/v1/admin/plugins''"] split del: if_split cong: if_cong)

lemma under_admin_jobs:
  "HasPrefix path ''/api/v1/admin/jobs'' \<Longrightarrow> gate_rule_of path m = first_match
     [(HasPrefix path ''/api/v1/admin/jobs/'' \<and> HasSuffix path ''/retry'',
         Needs PermPlatformJobsRetry),
      (HasPrefix path ''/api/v1/admin/jobs/'' \<and> HasSuffix path ''/cancel'',
         Needs PermPlatformJobsCancel),
      (path = ''/api/v1/admin/jobs'', Needs PermPlatformJobsRead),
      (HasPrefix path ''/api/v1/admin/jobs/'', Needs PermPlatformJobsRead)]"
  unfolding gate_rule_of_def first_match_hits
  by (simp add: hits_append hits_silent sections_silent avoidsI(1) [of path "''/api/v1/admin/jobs''"]
    audit_admin_rules_def cluster_ip_rules_def billing_rules_def agent_users_rules_def hits_simps
    hits_or user_paths_by_parts isComputeInstanceMigratePath_def isComputeClusterMembersPath_def
    isComputeClusterMemberPath_def isComputeClusterMemberEvacuatePath_def isComputeIPPoolPath_def
    isComputeFloatingIPAttachPath_def isComputeFloatingIPDetachPath_def
    isComputeFloatingIPPath_def isComputeInstanceFloatingIPPath_def isBillingMeBalancePath_def
    isBillingMeUsagePath_def isBillingMeLedgerPath_def isBillingMeReceiptsPath_def
    isBillingMeReceiptsPDFPath_def isBillingAdminPricesPath_def isBillingAdminUserTopupPath_def
    isBillingAdminUserRefundPath_def isBillingAdminUserLedgerPath_def
    isBillingAdminUserBalancePath_def isBillingConfigPath_def isBillingPublicPlansPath_def
    isBillingPaymentMethodsPath_def isBillingPaymentMethodPath_def isBillingTopupPath_def
    isBillingSubscriptionsPath_def isBillingSubscriptionPath_def isBillingRedeemPath_def
    isBillingAdminPlanPushPath_def isBillingAdminPlansPath_def isBillingAdminPromoCodesPath_def
    isBillingAdminPromoCodeRevokePath_def isBillingAdminWebhookEventsPath_def
    isBillingWebhookPath_def isAgentToolCallConfirmPath_def isAgentConversationMessagesPath_def
    isAgentConversationItemPath_def isAgentProviderPath_def isAgentPolicyPath_def
    under [of path "''/api/v1/admin/jobs''"] split del: if_split cong: if_cong)

lemma under_admin_marketplace:
  "HasPrefix path ''/api/v1/admin/marketplace'' \<Longrightarrow> gate_rule_of path m = first_match
     [(path = ''/api/v1/admin/marketplace'', Needs PermPluginsRead),
      (HasPrefix path ''/api/v1/admin/marketplace/'', Needs PermPluginsRead)]"
  unfolding gate_rule_of_def first_match_hits
  by (simp add: hits_append hits_silent sections_silent avoidsI(1) [of path "''/api/v1/admin/marketplace''"]
    audit_admin_rules_def cluster_ip_rules_def billing_rules_def agent_users_rules_def hits_simps
    hits_or user_paths_by_parts isComputeInstanceMigratePath_def isComputeClusterMembersPath_def
    isComputeClusterMemberPath_def isComputeClusterMemberEvacuatePath_def isComputeIPPoolPath_def
    isComputeFloatingIPAttachPath_def isComputeFloatingIPDetachPath_def
    isComputeFloatingIPPath_def isComputeInstanceFloatingIPPath_def isBillingMeBalancePath_def
    isBillingMeUsagePath_def isBillingMeLedgerPath_def isBillingMeReceiptsPath_def
    isBillingMeReceiptsPDFPath_def isBillingAdminPricesPath_def isBillingAdminUserTopupPath_def
    isBillingAdminUserRefundPath_def isBillingAdminUserLedgerPath_def
    isBillingAdminUserBalancePath_def isBillingConfigPath_def isBillingPublicPlansPath_def
    isBillingPaymentMethodsPath_def isBillingPaymentMethodPath_def isBillingTopupPath_def
    isBillingSubscriptionsPath_def isBillingSubscriptionPath_def isBillingRedeemPath_def
    isBillingAdminPlanPushPath_def isBillingAdminPlansPath_def isBillingAdminPromoCodesPath_def
    isBillingAdminPromoCodeRevokePath_def isBillingAdminWebhookEventsPath_def
    isBillingWebhookPath_def isAgentToolCallConfirmPath_def isAgentConversationMessagesPath_def
    isAgentConversationItemPath_def isAgentProviderPath_def isAgentPolicyPath_def
    under [of path "''/api/v1/admin/marketplace''"] split del: if_split cong: if_cong)

lemma under_admin_settings:
  "HasPrefix path ''/api/v1/admin/settings'' \<Longrightarrow> gate_rule_of path m = first_match
     [(path = ''/api/v1/admin/settings'', Needs PermPlatformSettingsManage)]"
  unfolding gate_rule_of_def first_match_hits
  by (simp add: hits_append hits_silent sections_silent avoidsI(1) [of path "''/api/v1/admin/settings''"]
    audit_admin_rules_def cluster_ip_rules_def billing_rules_def agent_users_rules_def hits_simps
    hits_or user_paths_by_parts isComputeInstanceMigratePath_def isComputeClusterMembersPath_def
    isComputeClusterMemberPath_def isComputeClusterMemberEvacuatePath_def isComputeIPPoolPath_def
    isComputeFloatingIPAttachPath_def isComputeFloatingIPDetachPath_def
    isComputeFloatingIPPath_def isComputeInstanceFloatingIPPath_def isBillingMeBalancePath_def
    isBillingMeUsagePath_def isBillingMeLedgerPath_def isBillingMeReceiptsPath_def
    isBillingMeReceiptsPDFPath_def isBillingAdminPricesPath_def isBillingAdminUserTopupPath_def
    isBillingAdminUserRefundPath_def isBillingAdminUserLedgerPath_def
    isBillingAdminUserBalancePath_def isBillingConfigPath_def isBillingPublicPlansPath_def
    isBillingPaymentMethodsPath_def isBillingPaymentMethodPath_def isBillingTopupPath_def
    isBillingSubscriptionsPath_def isBillingSubscriptionPath_def isBillingRedeemPath_def
    isBillingAdminPlanPushPath_def isBillingAdminPlansPath_def isBillingAdminPromoCodesPath_def
    isBillingAdminPromoCodeRevokePath_def isBillingAdminWebhookEventsPath_def
    isBillingWebhookPath_def isAgentToolCallConfirmPath_def isAgentConversationMessagesPath_def
    isAgentConversationItemPath_def isAgentProviderPath_def isAgentPolicyPath_def
    under [of path "''/api/v1/admin/settings''"] split del: if_split cong: if_cong)

lemma under_admin_directory:
  "HasPrefix path ''/api/v1/admin/directory'' \<Longrightarrow> gate_rule_of path m = first_match
     [(path = ''/api/v1/admin/directory'' \<or> HasPrefix path ''/api/v1/admin/directory/'',
         Needs PermPlatformDirectoryManage)]"
  unfolding gate_rule_of_def first_match_hits
  by (simp add: hits_append hits_silent sections_silent avoidsI(1) [of path "''/api/v1/admin/directory''"]
    audit_admin_rules_def cluster_ip_rules_def billing_rules_def agent_users_rules_def hits_simps
    hits_or user_paths_by_parts isComputeInstanceMigratePath_def isComputeClusterMembersPath_def
    isComputeClusterMemberPath_def isComputeClusterMemberEvacuatePath_def isComputeIPPoolPath_def
    isComputeFloatingIPAttachPath_def isComputeFloatingIPDetachPath_def
    isComputeFloatingIPPath_def isComputeInstanceFloatingIPPath_def isBillingMeBalancePath_def
    isBillingMeUsagePath_def isBillingMeLedgerPath_def isBillingMeReceiptsPath_def
    isBillingMeReceiptsPDFPath_def isBillingAdminPricesPath_def isBillingAdminUserTopupPath_def
    isBillingAdminUserRefundPath_def isBillingAdminUserLedgerPath_def
    isBillingAdminUserBalancePath_def isBillingConfigPath_def isBillingPublicPlansPath_def
    isBillingPaymentMethodsPath_def isBillingPaymentMethodPath_def isBillingTopupPath_def
    isBillingSubscriptionsPath_def isBillingSubscriptionPath_def isBillingRedeemPath_def
    isBillingAdminPlanPushPath_def isBillingAdminPlansPath_def isBillingAdminPromoCodesPath_def
    isBillingAdminPromoCodeRevokePath_def isBillingAdminWebhookEventsPath_def
    isBillingWebhookPath_def isAgentToolCallConfirmPath_def isAgentConversationMessagesPath_def
    isAgentConversationItemPath_def isAgentProviderPath_def isAgentPolicyPath_def
    under [of path "''/api/v1/admin/directory''"] split del: if_split cong: if_cong)

lemma under_admin_compute_ip_pools:
  "HasPrefix path ''/api/v1/admin/compute/ip-pools'' \<Longrightarrow> gate_rule_of path m = first_match
     [(isComputeIPPoolPath path \<and> m = ''POST'', Needs PermComputeIPPoolManage),
      (isComputeIPPoolPath path \<and> m = ''GET'', Needs PermComputeIPPoolManage),
      (isComputeIPPoolPath path \<and> m = ''PATCH'', Needs PermComputeIPPoolManage),
      (isComputeIPPoolPath path \<and> m = ''DELETE'', Needs PermComputeIPPoolManage)]"
  unfolding gate_rule_of_def first_match_hits
  by (simp add: hits_append hits_silent sections_silent avoidsI(1) [of path "''/api/v1/admin/compute/ip-pools''"]
    audit_admin_rules_def cluster_ip_rules_def billing_rules_def agent_users_rules_def hits_simps
    hits_or user_paths_by_parts isComputeInstanceMigratePath_def isComputeClusterMembersPath_def
    isComputeClusterMemberPath_def isComputeClusterMemberEvacuatePath_def
    isComputeFloatingIPAttachPath_def isComputeFloatingIPDetachPath_def
    isComputeFloatingIPPath_def isComputeInstanceFloatingIPPath_def isBillingMeBalancePath_def
    isBillingMeUsagePath_def isBillingMeLedgerPath_def isBillingMeReceiptsPath_def
    isBillingMeReceiptsPDFPath_def isBillingAdminPricesPath_def isBillingAdminUserTopupPath_def
    isBillingAdminUserRefundPath_def isBillingAdminUserLedgerPath_def
    isBillingAdminUserBalancePath_def isBillingConfigPath_def isBillingPublicPlansPath_def
    isBillingPaymentMethodsPath_def isBillingPaymentMethodPath_def isBillingTopupPath_def
    isBillingSubscriptionsPath_def isBillingSubscriptionPath_def isBillingRedeemPath_def
    isBillingAdminPlanPushPath_def isBillingAdminPlansPath_def isBillingAdminPromoCodesPath_def
    isBillingAdminPromoCodeRevokePath_def isBillingAdminWebhookEventsPath_def
    isBillingWebhookPath_def isAgentToolCallConfirmPath_def isAgentConversationMessagesPath_def
    isAgentConversationItemPath_def isAgentProviderPath_def isAgentPolicyPath_def
    under [of path "''/api/v1/admin/compute/ip-pools''"] split del: if_split cong: if_cong)

lemma under_compute_instances:
  "HasPrefix path ''/api/v1/compute/instances'' \<Longrightarrow> gate_rule_of path m = first_match
     [(isComputeInstanceVNCPath path \<and> m = ''GET'', Needs PermComputeInstanceConsoleVNC),
      (isComputeInstanceConsolePath path \<and> m = ''GET'',
         Needs PermComputeInstanceConsoleExec),
      (isComputeInstanceExecPath path \<and> m = ''POST'', Needs PermComputeInstanceStart),
      (isComputeSnapshotRestorePath path \<and> m = ''POST'', Needs PermComputeInstanceUpdate),
      (isComputeSnapshotPath path \<and> m = ''POST'', Needs PermComputeSnapshotCreate),
      (isComputeSnapshotPath path \<and> m = ''GET'', Needs PermComputeSnapshotRead),
      (isComputeSnapshotPath path \<and> m = ''DELETE'', Needs PermComputeSnapshotDelete),
      (isComputeInstanceBackupsPath path \<and> m = ''GET'', Needs PermComputeBackupRead),
      (isComputeInstanceLifecyclePath path \<and> m = ''POST'',
         Needs (computeInstanceActionPerm path)),
      (isComputeInstancePath path \<and> m = ''POST'', Needs PermComputeInstanceCreate),
      (isComputeInstancePath path \<and> m = ''GET'', Needs PermComputeInstanceRead),
      (isComputeInstancePath path \<and> m = ''PATCH'', Needs PermComputeInstanceUpdate),
      (isComputeInstancePath path \<and> m = ''DELETE'', Needs PermComputeInstanceDelete),
      (isComputeInstanceMigratePath path \<and> m = ''POST'',
         Needs PermComputeInstanceMigrate),
      (isComputeInstanceFloatingIPPath path \<and> m = ''GET'',
         Needs PermComputeFloatingIPRead)]"
  unfolding gate_rule_of_def first_match_hits
  by (simp add: hits_append hits_silent sections_silent avoidsI(1) [of path "''/api/v1/compute/instances''"]
    compute_rules_def cluster_ip_rules_def hits_simps hits_or isComputeSnapshotPolicyPath_def
    isComputeBackupTargetPath_def isComputeBackupPath_def isComputeClusterMembersPath_def
    isComputeClusterMemberPath_def isComputeClusterMemberEvacuatePath_def isComputeIPPoolPath_def
    isComputeFloatingIPAttachPath_def isComputeFloatingIPDetachPath_def
    isComputeFloatingIPPath_def isComputeImagePath_def isComputeProfilePath_def
    isComputeNetworkPath_def isComputeStoragePath_def
    under [of path "''/api/v1/compute/instances''"] split del: if_split cong: if_cong)

lemma under_compute_images:
  "HasPrefix path ''/api/v1/compute/images'' \<Longrightarrow> gate_rule_of path m = first_match
     [(isComputeImagePath path \<and> m = ''POST'', Needs PermComputeInstanceCreate),
      (isComputeImagePath path \<and> m = ''GET'', Needs PermComputeImageRead),
      (isComputeImagePath path \<and> m = ''DELETE'', Needs PermComputeInstanceDelete)]"
  unfolding gate_rule_of_def first_match_hits
  by (simp add: hits_append hits_silent sections_silent avoidsI(1) [of path "''/api/v1/compute/images''"]
    compute_rules_def cluster_ip_rules_def hits_simps hits_or isComputeInstanceLifecyclePath_def
    isComputeInstanceExecPath_def isComputeInstanceVNCPath_def isComputeInstanceConsolePath_def
    isComputeSnapshotRestorePath_def isComputeSnapshotPath_def isComputeInstanceBackupsPath_def
    isComputeInstanceMigratePath_def isComputeInstancePath_def isComputeSnapshotPolicyPath_def
    isComputeBackupTargetPath_def isComputeBackupPath_def isComputeClusterMembersPath_def
    isComputeClusterMemberPath_def isComputeClusterMemberEvacuatePath_def isComputeIPPoolPath_def
    isComputeFloatingIPAttachPath_def isComputeFloatingIPDetachPath_def
    isComputeFloatingIPPath_def isComputeInstanceFloatingIPPath_def isComputeProfilePath_def
    isComputeNetworkPath_def isComputeStoragePath_def
    under [of path "''/api/v1/compute/images''"] split del: if_split cong: if_cong)

lemma under_compute_networks:
  "HasPrefix path ''/api/v1/compute/networks'' \<Longrightarrow> gate_rule_of path m = first_match
     [(isComputeNetworkPath path \<and> m = ''POST'', Needs PermComputeNetworkCreate),
      (isComputeNetworkPath path \<and> m = ''GET'', Needs PermComputeNetworkRead),
      (isComputeNetworkPath path \<and> m = ''DELETE'', Needs PermComputeNetworkCreate)]"
  unfolding gate_rule_of_def first_match_hits
  by (simp add: hits_append hits_silent sections_silent avoidsI(1) [of path "''/api/v1/compute/networks''"]
    compute_rules_def cluster_ip_rules_def hits_simps hits_or isComputeInstanceLifecyclePath_def
    isComputeInstanceExecPath_def isComputeInstanceVNCPath_def isComputeInstanceConsolePath_def
    isComputeSnapshotRestorePath_def isComputeSnapshotPath_def isComputeInstanceBackupsPath_def
    isComputeInstanceMigratePath_def isComputeInstancePath_def isComputeSnapshotPolicyPath_def
    isComputeBackupTargetPath_def isComputeBackupPath_def isComputeClusterMembersPath_def
    isComputeClusterMemberPath_def isComputeClusterMemberEvacuatePath_def isComputeIPPoolPath_def
    isComputeFloatingIPAttachPath_def isComputeFloatingIPDetachPath_def
    isComputeFloatingIPPath_def isComputeInstanceFloatingIPPath_def isComputeImagePath_def
    isComputeProfilePath_def isComputeStoragePath_def
    under [of path "''/api/v1/compute/networks''"] split del: if_split cong: if_cong)

lemma under_compute_profiles:
  "HasPrefix path ''/api/v1/compute/profiles'' \<Longrightarrow> gate_rule_of path m = first_match
     [(isComputeProfilePath path \<and> m = ''POST'', Needs PermComputeProfileApply),
      (isComputeProfilePath path \<and> m = ''GET'', Needs PermComputeProfileRead),
      (isComputeProfilePath path \<and> m = ''DELETE'', Needs PermComputeProfileApply)]"
  unfolding gate_rule_of_def first_match_hits
  by (simp add: hits_append hits_silent sections_silent avoidsI(1) [of path "''/api/v1/compute/profiles''"]
    compute_rules_def cluster_ip_rules_def hits_simps hits_or isComputeInstanceLifecyclePath_def
    isComputeInstanceExecPath_def isComputeInstanceVNCPath_def isComputeInstanceConsolePath_def
    isComputeSnapshotRestorePath_def isComputeSnapshotPath_def isComputeInstanceBackupsPath_def
    isComputeInstanceMigratePath_def isComputeInstancePath_def isComputeSnapshotPolicyPath_def
    isComputeBackupTargetPath_def isComputeBackupPath_def isComputeClusterMembersPath_def
    isComputeClusterMemberPath_def isComputeClusterMemberEvacuatePath_def isComputeIPPoolPath_def
    isComputeFloatingIPAttachPath_def isComputeFloatingIPDetachPath_def
    isComputeFloatingIPPath_def isComputeInstanceFloatingIPPath_def isComputeImagePath_def
    isComputeNetworkPath_def isComputeStoragePath_def
    under [of path "''/api/v1/compute/profiles''"] split del: if_split cong: if_cong)

lemma under_compute_storage:
  "HasPrefix path ''/api/v1/compute/storage'' \<Longrightarrow> gate_rule_of path m = first_match
     [(isComputeStoragePath path \<and> m = ''POST'', Needs PermComputeNetworkCreate),
      (isComputeStoragePath path \<and> m = ''GET'', Needs PermComputeStoragePoolRead),
      (isComputeStoragePath path \<and> m = ''DELETE'', Needs PermComputeStoragePoolRead)]"
  unfolding gate_rule_of_def first_match_hits
  by (simp add: hits_append hits_silent sections_silent avoidsI(1) [of path "''/api/v1/compute/storage''"]
    compute_rules_def cluster_ip_rules_def hits_simps hits_or isComputeInstanceLifecyclePath_def
    isComputeInstanceExecPath_def isComputeInstanceVNCPath_def isComputeInstanceConsolePath_def
    isComputeSnapshotRestorePath_def isComputeSnapshotPath_def isComputeInstanceBackupsPath_def
    isComputeInstanceMigratePath_def isComputeInstancePath_def isComputeSnapshotPolicyPath_def
    isComputeBackupTargetPath_def isComputeBackupPath_def isComputeClusterMembersPath_def
    isComputeClusterMemberPath_def isComputeClusterMemberEvacuatePath_def isComputeIPPoolPath_def
    isComputeFloatingIPAttachPath_def isComputeFloatingIPDetachPath_def
    isComputeFloatingIPPath_def isComputeInstanceFloatingIPPath_def isComputeImagePath_def
    isComputeProfilePath_def isComputeNetworkPath_def
    under [of path "''/api/v1/compute/storage''"] split del: if_split cong: if_cong)

lemma under_compute_snapshot_policies:
  "HasPrefix path ''/api/v1/compute/snapshot-policies'' \<Longrightarrow> gate_rule_of path m = first_match
     [(isComputeSnapshotPolicyPath path \<and> m = ''POST'',
         Needs PermComputeSnapshotPolicyCreate),
      (isComputeSnapshotPolicyPath path \<and> m = ''GET'',
         Needs PermComputeSnapshotPolicyRead),
      (isComputeSnapshotPolicyPath path \<and> m = ''PATCH'',
         Needs PermComputeSnapshotPolicyUpdate),
      (isComputeSnapshotPolicyPath path \<and> m = ''DELETE'',
         Needs PermComputeSnapshotPolicyDelete)]"
  unfolding gate_rule_of_def first_match_hits
  by (simp add: hits_append hits_silent sections_silent avoidsI(1) [of path "''/api/v1/compute/snapshot-policies''"]
    compute_rules_def cluster_ip_rules_def hits_simps hits_or isComputeInstanceLifecyclePath_def
    isComputeInstanceExecPath_def isComputeInstanceVNCPath_def isComputeInstanceConsolePath_def
    isComputeSnapshotRestorePath_def isComputeSnapshotPath_def isComputeInstanceBackupsPath_def
    isComputeInstanceMigratePath_def isComputeInstancePath_def isComputeBackupTargetPath_def
    isComputeBackupPath_def isComputeClusterMembersPath_def isComputeClusterMemberPath_def
    isComputeClusterMemberEvacuatePath_def isComputeIPPoolPath_def
    isComputeFloatingIPAttachPath_def isComputeFloatingIPDetachPath_def
    isComputeFloatingIPPath_def isComputeInstanceFloatingIPPath_def isComputeImagePath_def
    isComputeProfilePath_def isComputeNetworkPath_def isComputeStoragePath_def
    under [of path "''/api/v1/compute/snapshot-policies''"] split del: if_split cong: if_cong)

lemma under_compute_backup_targets:
  "HasPrefix path ''/api/v1/compute/backup-targets'' \<Longrightarrow> gate_rule_of path m = first_match
     [(isComputeBackupTargetPath path \<and> m = ''POST'',
         Needs PermComputeBackupTargetCreate),
      (isComputeBackupTargetPath path \<and> m = ''GET'', Needs PermComputeBackupTargetRead),
      (isComputeBackupTargetPath path \<and> m = ''DELETE'',
         Needs PermComputeBackupTargetDelete)]"
  unfolding gate_rule_of_def first_match_hits
  by (simp add: hits_append hits_silent sections_silent avoidsI(1) [of path "''/api/v1/compute/backup-targets''"]
    compute_rules_def cluster_ip_rules_def hits_simps hits_or isComputeInstanceLifecyclePath_def
    isComputeInstanceExecPath_def isComputeInstanceVNCPath_def isComputeInstanceConsolePath_def
    isComputeSnapshotRestorePath_def isComputeSnapshotPath_def isComputeInstanceBackupsPath_def
    isComputeInstanceMigratePath_def isComputeInstancePath_def isComputeSnapshotPolicyPath_def
    isComputeBackupPath_def isComputeClusterMembersPath_def isComputeClusterMemberPath_def
    isComputeClusterMemberEvacuatePath_def isComputeIPPoolPath_def
    isComputeFloatingIPAttachPath_def isComputeFloatingIPDetachPath_def
    isComputeFloatingIPPath_def isComputeInstanceFloatingIPPath_def isComputeImagePath_def
    isComputeProfilePath_def isComputeNetworkPath_def isComputeStoragePath_def
    under [of path "''/api/v1/compute/backup-targets''"] split del: if_split cong: if_cong)

lemma under_compute_backups:
  "HasPrefix path ''/api/v1/compute/backups'' \<Longrightarrow> gate_rule_of path m = first_match
     [(isComputeBackupPath path \<and> m = ''GET'', Needs PermComputeBackupRead),
      (isComputeBackupPath path \<and> m = ''DELETE'', Needs PermComputeBackupDelete)]"
  unfolding gate_rule_of_def first_match_hits
  by (simp add: hits_append hits_silent sections_silent avoidsI(1) [of path "''/api/v1/compute/backups''"]
    compute_rules_def cluster_ip_rules_def hits_simps hits_or isComputeInstanceLifecyclePath_def
    isComputeInstanceExecPath_def isComputeInstanceVNCPath_def isComputeInstanceConsolePath_def
    isComputeSnapshotRestorePath_def isComputeSnapshotPath_def isComputeInstanceBackupsPath_def
    isComputeInstanceMigratePath_def isComputeInstancePath_def isComputeSnapshotPolicyPath_def
    isComputeBackupTargetPath_def isComputeClusterMembersPath_def isComputeClusterMemberPath_def
    isComputeClusterMemberEvacuatePath_def isComputeIPPoolPath_def
    isComputeFloatingIPAttachPath_def isComputeFloatingIPDetachPath_def
    isComputeFloatingIPPath_def isComputeInstanceFloatingIPPath_def isComputeImagePath_def
    isComputeProfilePath_def isComputeNetworkPath_def isComputeStoragePath_def
    under [of path "''/api/v1/compute/backups''"] split del: if_split cong: if_cong)

lemma under_compute_cluster_members:
  "HasPrefix path ''/api/v1/compute/cluster/members'' \<Longrightarrow> gate_rule_of path m = first_match
     [(isComputeClusterMemberEvacuatePath path \<and> m = ''POST'',
         Needs PermComputeClusterMemberEvacuate),
      (isComputeClusterMemberPath path \<and> m = ''GET'', Needs PermComputeClusterMemberList),
      (isComputeClusterMembersPath path \<and> m = ''GET'',
         Needs PermComputeClusterMemberList)]"
  unfolding gate_rule_of_def first_match_hits
  by (simp add: hits_append hits_silent sections_silent avoidsI(1) [of path "''/api/v1/compute/cluster/members''"]
    compute_rules_def cluster_ip_rules_def hits_simps hits_or isComputeInstanceLifecyclePath_def
    isComputeInstanceExecPath_def isComputeInstanceVNCPath_def isComputeInstanceConsolePath_def
    isComputeSnapshotRestorePath_def isComputeSnapshotPath_def isComputeInstanceBackupsPath_def
    isComputeInstanceMigratePath_def isComputeInstancePath_def isComputeSnapshotPolicyPath_def
    isComputeBackupTargetPath_def isComputeBackupPath_def isComputeIPPoolPath_def
    isComputeFloatingIPAttachPath_def isComputeFloatingIPDetachPath_def
    isComputeFloatingIPPath_def isComputeInstanceFloatingIPPath_def isComputeImagePath_def
    isComputeProfilePath_def isComputeNetworkPath_def isComputeStoragePath_def
    under [of path "''/api/v1/compute/cluster/members''"] split del: if_split cong: if_cong)

lemma under_compute_floating_ips:
  "HasPrefix path ''/api/v1/compute/floating-ips'' \<Longrightarrow> gate_rule_of path m = first_match
     [(isComputeFloatingIPAttachPath path \<and> m = ''POST'',
         Needs PermComputeFloatingIPManage),
      (isComputeFloatingIPDetachPath path \<and> m = ''POST'',
         Needs PermComputeFloatingIPManage),
      (isComputeFloatingIPPath path \<and> m = ''POST'', Needs PermComputeFloatingIPManage),
      (isComputeFloatingIPPath path \<and> m = ''GET'', Needs PermComputeFloatingIPRead),
      (isComputeFloatingIPPath path \<and> m = ''PATCH'', Needs PermComputeFloatingIPManage),
      (isComputeFloatingIPPath path \<and> m = ''DELETE'', Needs PermComputeFloatingIPManage)]"
  unfolding gate_rule_of_def first_match_hits
  by (simp add: hits_append hits_silent sections_silent avoidsI(1) [of path "''/api/v1/compute/floating-ips''"]
    compute_rules_def cluster_ip_rules_def hits_simps hits_or isComputeInstanceLifecyclePath_def
    isComputeInstanceExecPath_def isComputeInstanceVNCPath_def isComputeInstanceConsolePath_def
    isComputeSnapshotRestorePath_def isComputeSnapshotPath_def isComputeInstanceBackupsPath_def
    isComputeInstanceMigratePath_def isComputeInstancePath_def isComputeSnapshotPolicyPath_def
    isComputeBackupTargetPath_def isComputeBackupPath_def isComputeClusterMembersPath_def
    isComputeClusterMemberPath_def isComputeClusterMemberEvacuatePath_def isComputeIPPoolPath_def
    isComputeInstanceFloatingIPPath_def isComputeImagePath_def isComputeProfilePath_def
    isComputeNetworkPath_def isComputeStoragePath_def
    under [of path "''/api/v1/compute/floating-ips''"] split del: if_split cong: if_cong)

lemma under_dns_zones:
  "HasPrefix path ''/api/v1/dns/zones'' \<Longrightarrow> gate_rule_of path m = first_match
     [(isDNSRecordPath path \<and> m = ''POST'', Needs PermDNSRecordCreate),
      (isDNSRecordPath path \<and> m = ''GET'', Needs PermDNSRecordRead),
      (isDNSRecordPath path \<and> m = ''PATCH'', Needs PermDNSRecordUpdate),
      (isDNSRecordPath path \<and> m = ''DELETE'', Needs PermDNSRecordDelete),
      (isDNSApplyTemplatePath path \<and> m = ''POST'', Needs PermDNSZoneUpdate),
      (isDNSDNSSECPath path \<and> m = ''POST'', Needs PermDNSZoneUpdate),
      (isDNSZonePath path \<and> m = ''POST'', Needs PermDNSZoneCreate),
      (isDNSZonePath path \<and> m = ''GET'', Needs PermDNSZoneRead),
      (isDNSZonePath path \<and> m = ''PATCH'', Needs PermDNSZoneUpdate),
      (isDNSZonePath path \<and> m = ''DELETE'', Needs PermDNSZoneDelete)]"
  unfolding gate_rule_of_def first_match_hits
  by (simp add: hits_append hits_silent sections_silent avoidsI(1) [of path "''/api/v1/dns/zones''"]
    dns_rules_def hits_simps hits_or isDNSTemplatePath_def isDNSDomainRenewPath_def
    isDNSDomainPath_def isDNSDomainSearchPath_def isDNSDomainTransferPath_def
    under [of path "''/api/v1/dns/zones''"] split del: if_split cong: if_cong)

lemma under_dns_domains:
  "HasPrefix path ''/api/v1/dns/domains'' \<Longrightarrow> gate_rule_of path m = first_match
     [(isDNSDomainRenewPath path \<and> m = ''POST'', Needs PermDNSDomainRenew),
      (isDNSDomainTransferPath path \<and> m = ''POST'', Needs PermDNSDomainTransfer),
      (isDNSDomainSearchPath path \<and> m = ''POST'', Needs PermDNSDomainSearch),
      (isDNSDomainPath path \<and> m = ''POST'', Needs PermDNSDomainRegister),
      (isDNSDomainPath path \<and> m = ''GET'', Needs PermDNSDomainRead),
      (isDNSDomainPath path \<and> m = ''DELETE'', Needs PermDNSDomainDelete)]"
  unfolding gate_rule_of_def first_match_hits
  by (simp add: hits_append hits_silent sections_silent avoidsI(1) [of path "''/api/v1/dns/domains''"]
    dns_rules_def hits_simps hits_or isDNSRecordPath_def isDNSApplyTemplatePath_def
    isDNSDNSSECPath_def isDNSZonePath_def isDNSTemplatePath_def
    under [of path "''/api/v1/dns/domains''"] split del: if_split cong: if_cong)

lemma under_dns_templates:
  "HasPrefix path ''/api/v1/dns/templates'' \<Longrightarrow> gate_rule_of path m = first_match
     [(isDNSTemplatePath path \<and> m = ''GET'', Needs PermDNSZoneRead)]"
  unfolding gate_rule_of_def first_match_hits
  by (simp add: hits_append hits_silent sections_silent avoidsI(1) [of path "''/api/v1/dns/templates''"]
    dns_rules_def hits_simps hits_or isDNSRecordPath_def isDNSApplyTemplatePath_def
    isDNSDNSSECPath_def isDNSZonePath_def isDNSDomainRenewPath_def isDNSDomainPath_def
    isDNSDomainSearchPath_def isDNSDomainTransferPath_def
    under [of path "''/api/v1/dns/templates''"] split del: if_split cong: if_cong)

lemma under_storage_buckets:
  "HasPrefix path ''/api/v1/storage/buckets'' \<Longrightarrow> gate_rule_of path m = first_match
     [(isStorageBucketPath path \<and> m = ''POST'', Needs PermS3BucketCreate),
      (isStorageBucketPath path \<and> m = ''GET'', Needs PermS3BucketRead),
      (isStorageBucketPath path \<and> m = ''PATCH'', Needs PermS3BucketUpdate),
      (isStorageBucketPath path \<and> m = ''DELETE'', Needs PermS3BucketDelete),
      (isStorageCredentialsPath path \<and> m = ''POST'', Needs PermS3CredentialsCreate),
      (isStorageCredentialsPath path \<and> m = ''GET'', Needs PermS3BucketRead),
      (isStorageCredentialsPath path \<and> m = ''DELETE'', Needs PermS3CredentialsRevoke),
      (isStoragePresignPath path \<and> m = ''POST'', Needs PermS3ObjectRead),
      (isStorageQuotaPath path \<and> m = ''POST'', Needs PermS3BucketUpdate),
      (isStorageUsagePath path \<and> m = ''GET'', Needs PermS3BucketRead),
      (isStorageVersioningPath path \<and> m = ''PUT'', Needs PermS3BucketVersioning),
      (isStorageVersioningPath path \<and> m = ''GET'', Needs PermS3BucketRead),
      (isStorageVersionsPath path \<and> m = ''GET'', Needs PermS3BucketRead),
      (isStorageVersionRestorePath path \<and> m = ''POST'', Needs PermS3BucketUpdate),
      (isStorageLifecyclePath path \<and> m = ''GET'', Needs PermS3BucketRead),
      (isStorageLifecyclePath path \<and> m = ''POST'', Needs PermS3BucketLifecycle),
      (isStorageLifecyclePath path \<and> m = ''PUT'', Needs PermS3BucketLifecycle),
      (isStorageLifecyclePath path \<and> m = ''PATCH'', Needs PermS3BucketLifecycle),
      (isStorageLifecyclePath path \<and> m = ''DELETE'', Needs PermS3BucketLifecycle),
      (isStorageLifecycleStatusPath path \<and> m = ''POST'', Needs PermS3BucketLifecycle),
      (isStorageObjectLockPath path \<and> m = ''GET'', Needs PermS3BucketRead),
      (isStorageObjectLockPath path \<and> m = ''PUT'', Needs PermS3BucketObjectLock)]"
  unfolding gate_rule_of_def first_match_hits
  by (simp add: hits_append hits_silent sections_silent avoidsI(1) [of path "''/api/v1/storage/buckets''"]
    storage_rules_def hits_simps hits_or
    under [of path "''/api/v1/storage/buckets''"] split del: if_split cong: if_cong)

lemma under_me_balance:
  "HasPrefix path ''/api/v1/me/balance'' \<Longrightarrow> gate_rule_of path m = first_match
     [(isBillingMeBalancePath path \<and> m = ''GET'', Needs PermBillingBalanceRead)]"
  unfolding gate_rule_of_def first_match_hits
  by (simp add: hits_append hits_silent sections_silent avoidsI(1) [of path "''/api/v1/me/balance''"]
    billing_rules_def hits_simps hits_or isBillingMeUsagePath_def isBillingMeLedgerPath_def
    isBillingMeReceiptsPath_def isBillingMeReceiptsPDFPath_def isBillingAdminPricesPath_def
    isBillingAdminUserTopupPath_def isBillingAdminUserRefundPath_def
    isBillingAdminUserLedgerPath_def isBillingAdminUserBalancePath_def isBillingConfigPath_def
    isBillingPublicPlansPath_def isBillingPaymentMethodsPath_def isBillingPaymentMethodPath_def
    isBillingTopupPath_def isBillingSubscriptionsPath_def isBillingSubscriptionPath_def
    isBillingRedeemPath_def isBillingAdminPlanPushPath_def isBillingAdminPlansPath_def
    isBillingAdminPromoCodesPath_def isBillingAdminPromoCodeRevokePath_def
    isBillingAdminWebhookEventsPath_def isBillingWebhookPath_def
    under [of path "''/api/v1/me/balance''"] split del: if_split cong: if_cong)

lemma under_me_usage:
  "HasPrefix path ''/api/v1/me/usage'' \<Longrightarrow> gate_rule_of path m = first_match
     [(isBillingMeUsagePath path \<and> m = ''GET'', Needs PermBillingBalanceRead)]"
  unfolding gate_rule_of_def first_match_hits
  by (simp add: hits_append hits_silent sections_silent avoidsI(1) [of path "''/api/v1/me/usage''"]
    billing_rules_def hits_simps hits_or isBillingMeBalancePath_def isBillingMeLedgerPath_def
    isBillingMeReceiptsPath_def isBillingMeReceiptsPDFPath_def isBillingAdminPricesPath_def
    isBillingAdminUserTopupPath_def isBillingAdminUserRefundPath_def
    isBillingAdminUserLedgerPath_def isBillingAdminUserBalancePath_def isBillingConfigPath_def
    isBillingPublicPlansPath_def isBillingPaymentMethodsPath_def isBillingPaymentMethodPath_def
    isBillingTopupPath_def isBillingSubscriptionsPath_def isBillingSubscriptionPath_def
    isBillingRedeemPath_def isBillingAdminPlanPushPath_def isBillingAdminPlansPath_def
    isBillingAdminPromoCodesPath_def isBillingAdminPromoCodeRevokePath_def
    isBillingAdminWebhookEventsPath_def isBillingWebhookPath_def
    under [of path "''/api/v1/me/usage''"] split del: if_split cong: if_cong)

lemma under_me_ledger:
  "HasPrefix path ''/api/v1/me/ledger'' \<Longrightarrow> gate_rule_of path m = first_match
     [(isBillingMeLedgerPath path \<and> m = ''GET'', Needs PermBillingLedgerRead)]"
  unfolding gate_rule_of_def first_match_hits
  by (simp add: hits_append hits_silent sections_silent avoidsI(1) [of path "''/api/v1/me/ledger''"]
    billing_rules_def hits_simps hits_or isBillingMeBalancePath_def isBillingMeUsagePath_def
    isBillingMeReceiptsPath_def isBillingMeReceiptsPDFPath_def isBillingAdminPricesPath_def
    isBillingAdminUserTopupPath_def isBillingAdminUserRefundPath_def
    isBillingAdminUserLedgerPath_def isBillingAdminUserBalancePath_def isBillingConfigPath_def
    isBillingPublicPlansPath_def isBillingPaymentMethodsPath_def isBillingPaymentMethodPath_def
    isBillingTopupPath_def isBillingSubscriptionsPath_def isBillingSubscriptionPath_def
    isBillingRedeemPath_def isBillingAdminPlanPushPath_def isBillingAdminPlansPath_def
    isBillingAdminPromoCodesPath_def isBillingAdminPromoCodeRevokePath_def
    isBillingAdminWebhookEventsPath_def isBillingWebhookPath_def
    under [of path "''/api/v1/me/ledger''"] split del: if_split cong: if_cong)

lemma under_me_receipts:
  "HasPrefix path ''/api/v1/me/receipts'' \<Longrightarrow> gate_rule_of path m = first_match
     [(isBillingMeReceiptsPDFPath path \<and> m = ''GET'', Needs PermBillingReceiptRead),
      (isBillingMeReceiptsPath path \<and> m = ''GET'', Needs PermBillingReceiptRead),
      (isBillingMeReceiptsPath path \<and> m = ''POST'', Needs PermBillingReceiptCreate)]"
  unfolding gate_rule_of_def first_match_hits
  by (simp add: hits_append hits_silent sections_silent avoidsI(1) [of path "''/api/v1/me/receipts''"]
    billing_rules_def hits_simps hits_or isBillingMeBalancePath_def isBillingMeUsagePath_def
    isBillingMeLedgerPath_def isBillingAdminPricesPath_def isBillingAdminUserTopupPath_def
    isBillingAdminUserRefundPath_def isBillingAdminUserLedgerPath_def
    isBillingAdminUserBalancePath_def isBillingConfigPath_def isBillingPublicPlansPath_def
    isBillingPaymentMethodsPath_def isBillingPaymentMethodPath_def isBillingTopupPath_def
    isBillingSubscriptionsPath_def isBillingSubscriptionPath_def isBillingRedeemPath_def
    isBillingAdminPlanPushPath_def isBillingAdminPlansPath_def isBillingAdminPromoCodesPath_def
    isBillingAdminPromoCodeRevokePath_def isBillingAdminWebhookEventsPath_def
    isBillingWebhookPath_def
    under [of path "''/api/v1/me/receipts''"] split del: if_split cong: if_cong)

lemma under_me_identities:
  "HasPrefix path ''/api/v1/me/identities'' \<Longrightarrow> gate_rule_of path m = first_match
     []"
  unfolding gate_rule_of_def first_match_hits
  by (simp add: hits_append hits_silent sections_silent avoidsI(1) [of path "''/api/v1/me/identities''"]
    billing_rules_def hits_simps hits_or isBillingMeBalancePath_def isBillingMeUsagePath_def
    isBillingMeLedgerPath_def isBillingMeReceiptsPath_def isBillingMeReceiptsPDFPath_def
    isBillingAdminPricesPath_def isBillingAdminUserTopupPath_def isBillingAdminUserRefundPath_def
    isBillingAdminUserLedgerPath_def isBillingAdminUserBalancePath_def isBillingConfigPath_def
    isBillingPublicPlansPath_def isBillingPaymentMethodsPath_def isBillingPaymentMethodPath_def
    isBillingTopupPath_def isBillingSubscriptionsPath_def isBillingSubscriptionPath_def
    isBillingRedeemPath_def isBillingAdminPlanPushPath_def isBillingAdminPlansPath_def
    isBillingAdminPromoCodesPath_def isBillingAdminPromoCodeRevokePath_def
    isBillingAdminWebhookEventsPath_def isBillingWebhookPath_def
    under [of path "''/api/v1/me/identities''"] split del: if_split cong: if_cong)

lemma under_me_mfa:
  "HasPrefix path ''/api/v1/me/mfa'' \<Longrightarrow> gate_rule_of path m = first_match
     []"
  unfolding gate_rule_of_def first_match_hits
  by (simp add: hits_append hits_silent sections_silent avoidsI(1) [of path "''/api/v1/me/mfa''"]
    billing_rules_def hits_simps hits_or isBillingMeBalancePath_def isBillingMeUsagePath_def
    isBillingMeLedgerPath_def isBillingMeReceiptsPath_def isBillingMeReceiptsPDFPath_def
    isBillingAdminPricesPath_def isBillingAdminUserTopupPath_def isBillingAdminUserRefundPath_def
    isBillingAdminUserLedgerPath_def isBillingAdminUserBalancePath_def isBillingConfigPath_def
    isBillingPublicPlansPath_def isBillingPaymentMethodsPath_def isBillingPaymentMethodPath_def
    isBillingTopupPath_def isBillingSubscriptionsPath_def isBillingSubscriptionPath_def
    isBillingRedeemPath_def isBillingAdminPlanPushPath_def isBillingAdminPlansPath_def
    isBillingAdminPromoCodesPath_def isBillingAdminPromoCodeRevokePath_def
    isBillingAdminWebhookEventsPath_def isBillingWebhookPath_def
    under [of path "''/api/v1/me/mfa''"] split del: if_split cong: if_cong)

lemma under_billing:
  "HasPrefix path ''/api/v1/billing'' \<Longrightarrow> gate_rule_of path m = first_match
     [(isBillingConfigPath path \<and> m = ''GET'', Free),
      (isBillingPublicPlansPath path \<and> m = ''GET'', Free),
      (isBillingPaymentMethodsPath path \<and> m = ''GET'',
         Needs PermBillingPaymentMethodManage),
      (isBillingPaymentMethodsPath path \<and> m = ''POST'',
         Needs PermBillingPaymentMethodManage),
      (isBillingPaymentMethodPath path \<and> m = ''DELETE'',
         Needs PermBillingPaymentMethodManage),
      (isBillingTopupPath path \<and> m = ''POST'', Needs PermBillingPaymentIntentCreate),
      (isBillingSubscriptionsPath path \<and> m = ''GET'',
         Needs PermBillingSubscriptionManage),
      (isBillingSubscriptionsPath path \<and> m = ''POST'',
         Needs PermBillingSubscriptionManage),
      (isBillingSubscriptionPath path \<and> m = ''DELETE'',
         Needs PermBillingSubscriptionManage),
      (isBillingRedeemPath path \<and> m = ''POST'', Needs PermBillingPromoCodeRedeem)]"
  unfolding gate_rule_of_def first_match_hits
  by (simp add: hits_append hits_silent sections_silent avoidsI(1) [of path "''/api/v1/billing''"]
    billing_rules_def hits_simps hits_or isBillingMeBalancePath_def isBillingMeUsagePath_def
    isBillingMeLedgerPath_def isBillingMeReceiptsPath_def isBillingMeReceiptsPDFPath_def
    isBillingAdminPricesPath_def isBillingAdminUserTopupPath_def isBillingAdminUserRefundPath_def
    isBillingAdminUserLedgerPath_def isBillingAdminUserBalancePath_def
    isBillingAdminPlanPushPath_def isBillingAdminPlansPath_def isBillingAdminPromoCodesPath_def
    isBillingAdminPromoCodeRevokePath_def isBillingAdminWebhookEventsPath_def
    isBillingWebhookPath_def
    under [of path "''/api/v1/billing''"] split del: if_split cong: if_cong)

lemma under_webhooks:
  "HasPrefix path ''/api/v1/webhooks'' \<Longrightarrow> gate_rule_of path m = first_match
     [(isBillingWebhookPath path \<and> m = ''POST'', Free)]"
  unfolding gate_rule_of_def first_match_hits
  by (simp add: hits_append hits_silent sections_silent avoidsI(1) [of path "''/api/v1/webhooks''"]
    billing_rules_def hits_simps hits_or isBillingMeBalancePath_def isBillingMeUsagePath_def
    isBillingMeLedgerPath_def isBillingMeReceiptsPath_def isBillingMeReceiptsPDFPath_def
    isBillingAdminPricesPath_def isBillingAdminUserTopupPath_def isBillingAdminUserRefundPath_def
    isBillingAdminUserLedgerPath_def isBillingAdminUserBalancePath_def isBillingConfigPath_def
    isBillingPublicPlansPath_def isBillingPaymentMethodsPath_def isBillingPaymentMethodPath_def
    isBillingTopupPath_def isBillingSubscriptionsPath_def isBillingSubscriptionPath_def
    isBillingRedeemPath_def isBillingAdminPlanPushPath_def isBillingAdminPlansPath_def
    isBillingAdminPromoCodesPath_def isBillingAdminPromoCodeRevokePath_def
    isBillingAdminWebhookEventsPath_def
    under [of path "''/api/v1/webhooks''"] split del: if_split cong: if_cong)

lemma under_agent_conversations:
  "HasPrefix path ''/api/v1/agent/conversations'' \<Longrightarrow> gate_rule_of path m = first_match
     [(isAgentConversationMessagesPath path \<and> m = ''POST'', Needs PermAgentMessageSend),
      (path = ''/api/v1/agent/conversations'' \<and> m = ''POST'',
         Needs PermAgentConversationCreate),
      (path = ''/api/v1/agent/conversations'' \<and> m = ''GET'',
         Needs PermAgentConversationRead),
      (isAgentConversationItemPath path \<and> m = ''DELETE'',
         Needs PermAgentConversationDelete),
      (isAgentConversationItemPath path \<and> m = ''GET'', Needs PermAgentConversationRead)]"
  unfolding gate_rule_of_def first_match_hits
  by (simp add: hits_append hits_silent sections_silent avoidsI(1) [of path "''/api/v1/agent/conversations''"]
    agent_users_rules_def hits_simps hits_or user_paths_by_parts isAgentToolCallConfirmPath_def
    isAgentProviderPath_def isAgentPolicyPath_def
    under [of path "''/api/v1/agent/conversations''"] split del: if_split cong: if_cong)

lemma under_agent_tool_calls:
  "HasPrefix path ''/api/v1/agent/tool-calls'' \<Longrightarrow> gate_rule_of path m = first_match
     [(isAgentToolCallConfirmPath path \<and> m = ''POST'', Needs PermAgentToolConfirm)]"
  unfolding gate_rule_of_def first_match_hits
  by (simp add: hits_append hits_silent sections_silent avoidsI(1) [of path "''/api/v1/agent/tool-calls''"]
    agent_users_rules_def hits_simps hits_or user_paths_by_parts
    isAgentConversationMessagesPath_def isAgentConversationItemPath_def isAgentProviderPath_def
    isAgentPolicyPath_def
    under [of path "''/api/v1/agent/tool-calls''"] split del: if_split cong: if_cong)

lemma under_agent_providers:
  "HasPrefix path ''/api/v1/agent/providers'' \<Longrightarrow> gate_rule_of path m = first_match
     [(isAgentProviderPath path \<and> (m = ''POST'' \<or> m = ''GET'' \<or>
     m = ''DELETE''),
         Needs PermAgentProviderManage)]"
  unfolding gate_rule_of_def first_match_hits
  by (simp add: hits_append hits_silent sections_silent avoidsI(1) [of path "''/api/v1/agent/providers''"]
    agent_users_rules_def hits_simps hits_or user_paths_by_parts isAgentToolCallConfirmPath_def
    isAgentConversationMessagesPath_def isAgentConversationItemPath_def isAgentPolicyPath_def
    under [of path "''/api/v1/agent/providers''"] split del: if_split cong: if_cong)

lemma under_agent_policy:
  "HasPrefix path ''/api/v1/agent/policy'' \<Longrightarrow> gate_rule_of path m = first_match
     [(isAgentPolicyPath path \<and> m = ''PUT'', Needs PermAgentPolicyManage),
      (isAgentPolicyPath path \<and> m = ''GET'', Needs PermAgentConversationRead)]"
  unfolding gate_rule_of_def first_match_hits
  by (simp add: hits_append hits_silent sections_silent avoidsI(1) [of path "''/api/v1/agent/policy''"]
    agent_users_rules_def hits_simps hits_or user_paths_by_parts isAgentToolCallConfirmPath_def
    isAgentConversationMessagesPath_def isAgentConversationItemPath_def isAgentProviderPath_def
    under [of path "''/api/v1/agent/policy''"] split del: if_split cong: if_cong)

end
