(* ===== verification/Gate_Table.thy ===== *)
theory Gate_Table
  imports Gate_Trees
begin

text \<open>
  The gate evaluated on the pattern of every route, and on the patterns with a slash appended.
\<close>

section \<open>Evaluation rules\<close>

lemma eval_if: "(a \<and> b) = (if a then b else False)" "(a \<or> b) = (if a then True else b)"
  "(\<not> a) = (if a then False else True)" "(if True then x else y) = x" "(if False then x else y) = y"
  by simp_all

lemma eval_eq: "(x = x) = True" "(True = False) = False" "(False = True) = False"
  "(c # s = d # t) = (if c = d then s = t else False)" "([] = d # t) = False" "(c # s = []) = False"
  "(Char a1 a2 a3 a4 a5 a6 a7 a8 = Char b1 b2 b3 b4 b5 b6 b7 b8) =
     (if a1 = b1 then if a2 = b2 then if a3 = b3 then if a4 = b4 then if a5 = b5 then if a6 = b6
      then if a7 = b7 then a8 = b8 else False else False else False else False else False else False
      else False)"
  by auto

lemma eval_strings:
  "HasPrefix s [] = True" "HasPrefix [] (d # t) = False"
  "HasPrefix (c # s) (d # t) = (if d = c then HasPrefix s t else False)"
  "HasSuffix [] (d # t) = False"
  "HasSuffix (c # s) t = (if c # s = t then True else HasSuffix s t)"
  "Contains [] (d # t) = False"
  "Contains (c # s) t = (if HasPrefix (c # s) t then True else Contains s t)"
  "CutPrefix s [] = Some s" "CutPrefix [] (d # t) = None"
  "CutPrefix (c # s) (d # t) = (if d = c then CutPrefix s t else None)"
  "list_ex P [] = False" "list_ex P (x # xs) = (if P x then True else list_ex P xs)"
  by (auto simp: HasPrefix_def HasSuffix_def suffix_Cons CutPrefix_def)

lemma first_match_lazy: "first_match cs = first_match cs"
  by (rule refl)

lemma membership_eval:
  "isAdminUserMembershipPath path =
     (case CutPrefix path ''/api/v1/admin/users/'' of
        None \<Rightarrow> False
      | Some rest \<Rightarrow>
          (case split_on (CHR ''/'') rest of
             [] \<Rightarrow> False
           | a # as \<Rightarrow> (case as of
               [] \<Rightarrow> False
             | b # bs \<Rightarrow> (case bs of
                 [] \<Rightarrow> False
               | c # cs \<Rightarrow> cs = [] \<and> b = ''memberships'' \<and> a \<noteq> [] \<and> c \<noteq> []))))"
  by (auto simp: isAdminUserMembershipPath_def Let_def numeral_eq_Suc split: option.split list.split)

lemma case_Pair: "(case (a, b) of (x, y) \<Rightarrow> f x y) = f a b"
  by simp

text \<open>Long common prefixes are cancelled in one step.\<close>

lemma cancel: "HasPrefix (a @ s) (a @ t) = HasPrefix s t" "(a @ s = a @ t) = (s = t)"
  by (induction a) (auto simp: HasPrefix_def)

lemmas eval_cancel =
  cancel [of "''/api/v1/''", unfolded append.simps]
  cancel [of "''/api/v1/admin/''", unfolded append.simps]
  cancel [of "''/api/v1/compute/''", unfolded append.simps]
  cancel [of "''/api/v1/compute/instances/''", unfolded append.simps]
  cancel [of "''/api/v1/dns/''", unfolded append.simps]
  cancel [of "''/api/v1/storage/buckets/''", unfolded append.simps]
  cancel [of "''/api/v1/billing/''", unfolded append.simps]
  cancel [of "''/api/v1/me/''", unfolded append.simps]
  cancel [of "''/api/v1/agent/''", unfolded append.simps]

text \<open>A suffix of one word is not looked for before the last slash of a known prefix.\<close>

definition one_word :: "string \<Rightarrow> bool" where
  "one_word l \<longleftrightarrow> CHR ''/'' \<notin> set l"

lemma suffix_cancel:
  assumes "one_word l"
  shows "HasSuffix (a @ CHR ''/'' # s) (CHR ''/'' # l) = HasSuffix (CHR ''/'' # s) (CHR ''/'' # l)"
proof (induction a)
  case (Cons c a)
  have "a @ CHR ''/'' # s \<noteq> l" using assms by (auto simp: one_word_def)
  then show ?case using Cons by (auto simp: HasSuffix_def suffix_Cons)
qed simp

lemma one_words:
  "one_word ''apply-template''" "one_word ''attach''" "one_word ''backups''"
  "one_word ''balance''" "one_word ''cancel''" "one_word ''confirm''" "one_word ''console''"
  "one_word ''detach''" "one_word ''disable''" "one_word ''enable''" "one_word ''evacuate''"
  "one_word ''exec''" "one_word ''floating-ip''" "one_word ''freeze''" "one_word ''ledger''"
  "one_word ''messages''" "one_word ''migrate''" "one_word ''object-lock''"
  "one_word ''presign''" "one_word ''push''" "one_word ''quota''" "one_word ''refund''"
  "one_word ''renew''" "one_word ''restart''" "one_word ''restore''" "one_word ''retry''"
  "one_word ''revoke''" "one_word ''snapshots''" "one_word ''start''" "one_word ''status''"
  "one_word ''stop''" "one_word ''topup''" "one_word ''unfreeze''" "one_word ''usage''"
  "one_word ''versioning''" "one_word ''versions''" "one_word ''vnc''"
  by (simp_all add: one_word_def)

lemmas eval_suffix =
  suffix_cancel [of _ "''/api/v1/compute/instances''", unfolded append.simps]
  suffix_cancel [of _ "''/api/v1/storage/buckets''", unfolded append.simps]
  suffix_cancel [of _ "''/api/v1/admin/users''", unfolded append.simps]
  suffix_cancel [of _ "''/api/v1/dns/zones''", unfolded append.simps]
  suffix_cancel [of _ "''/api/v1/compute/floating-ips''", unfolded append.simps]
  suffix_cancel [of _ "''/api/v1/admin/plugins''", unfolded append.simps]
  suffix_cancel [of _ "''/api/v1/admin/billing''", unfolded append.simps]

text \<open>The method of a request is compared first: it is cheaper than the tests of the path.\<close>

lemma method_first: "(b \<and> m = c # s) = (if m = c # s then b else False)"
  by simp

lemmas eval_under =
  under_audit [unfolded method_first]
  under_admin_users [unfolded method_first]
  under_admin_billing [unfolded method_first]
  under_admin_plugins [unfolded method_first]
  under_admin_jobs [unfolded method_first]
  under_admin_marketplace [unfolded method_first]
  under_admin_settings [unfolded method_first]
  under_admin_directory [unfolded method_first]
  under_admin_compute_ip_pools [unfolded method_first]
  under_compute_instances [unfolded method_first]
  under_compute_images [unfolded method_first]
  under_compute_networks [unfolded method_first]
  under_compute_profiles [unfolded method_first]
  under_compute_storage [unfolded method_first]
  under_compute_snapshot_policies [unfolded method_first]
  under_compute_backup_targets [unfolded method_first]
  under_compute_backups [unfolded method_first]
  under_compute_cluster_members [unfolded method_first]
  under_compute_floating_ips [unfolded method_first]
  under_dns_zones [unfolded method_first]
  under_dns_domains [unfolded method_first]
  under_dns_templates [unfolded method_first]
  under_storage_buckets [unfolded method_first]
  under_me_balance [unfolded method_first]
  under_me_usage [unfolded method_first]
  under_me_ledger [unfolded method_first]
  under_me_receipts [unfolded method_first]
  under_me_identities [unfolded method_first]
  under_me_mfa [unfolded method_first]
  under_billing [unfolded method_first]
  under_webhooks [unfolded method_first]
  under_agent_conversations [unfolded method_first]
  under_agent_tool_calls [unfolded method_first]
  under_agent_providers [unfolded method_first]
  under_agent_policy [unfolded method_first]

lemmas eval_gate = eval_if eval_eq eval_cancel eval_suffix one_words eval_strings first_match.simps append.simps
  gate_trees(10-12) computeInstanceActionPerm_def isAdminUserItemPath_def membership_eval
  split_on.simps option.case list.case eval_under
isComputeInstanceLifecyclePath_def isComputeInstanceExecPath_def isComputeInstanceVNCPath_def
    isComputeInstanceConsolePath_def isComputeSnapshotRestorePath_def isComputeSnapshotPath_def
    isComputeInstanceBackupsPath_def isComputeInstanceMigratePath_def isComputeInstancePath_def
    isComputeSnapshotPolicyPath_def isComputeBackupTargetPath_def isComputeBackupPath_def
    isComputeClusterMembersPath_def isComputeClusterMemberPath_def
    isComputeClusterMemberEvacuatePath_def isComputeIPPoolPath_def
    isComputeFloatingIPAttachPath_def isComputeFloatingIPDetachPath_def
    isComputeFloatingIPPath_def isComputeInstanceFloatingIPPath_def isComputeImagePath_def
    isComputeProfilePath_def isComputeNetworkPath_def isComputeStoragePath_def
    isDNSRecordPath_def isDNSApplyTemplatePath_def isDNSDNSSECPath_def isDNSZonePath_def
    isDNSTemplatePath_def isDNSDomainRenewPath_def isDNSDomainPath_def isDNSDomainSearchPath_def
    isDNSDomainTransferPath_def isStorageCredentialsPath_def isStoragePresignPath_def
    isStorageQuotaPath_def isStorageUsagePath_def isStorageVersioningPath_def
    isStorageVersionsPath_def isStorageLifecycleStatusPath_def isStorageLifecyclePath_def
    isStorageObjectLockPath_def isStorageBucketPath_def isStorageVersionRestorePath_def
    isBillingMeBalancePath_def isBillingMeUsagePath_def isBillingMeLedgerPath_def
    isBillingMeReceiptsPath_def isBillingMeReceiptsPDFPath_def isBillingAdminPricesPath_def
    isBillingAdminUserTopupPath_def isBillingAdminUserRefundPath_def
    isBillingAdminUserLedgerPath_def isBillingAdminUserBalancePath_def isBillingConfigPath_def
    isBillingPublicPlansPath_def isBillingPaymentMethodsPath_def isBillingPaymentMethodPath_def
    isBillingTopupPath_def isBillingSubscriptionsPath_def isBillingSubscriptionPath_def
    isBillingRedeemPath_def isBillingAdminPlanPushPath_def isBillingAdminPlansPath_def
    isBillingAdminPromoCodesPath_def isBillingAdminPromoCodeRevokePath_def
    isBillingAdminWebhookEventsPath_def isBillingWebhookPath_def isAgentToolCallConfirmPath_def
    isAgentConversationMessagesPath_def isAgentConversationItemPath_def isAgentProviderPath_def
    isAgentPolicyPath_def

section \<open>The tables\<close>

lemma admin_routes_rules:
  "map (\<lambda>(m, p, ope). gate_rule_of p m) admin_routes =
     [Needs PermBillingPlanRead, Needs PermBillingPlanManage, Needs PermBillingPlanManage,
      Needs PermBillingPlanRead, Needs PermBillingPlanManage, Needs PermBillingPlanManage,
      Needs PermBillingPriceCatalogRead, Needs PermBillingPriceCatalogUpdate,
      Needs PermBillingPromoCodeManage, Needs PermBillingPromoCodeManage,
      Needs PermBillingPromoCodeManage, Needs PermBillingWebhookRead,
      Needs PermComputeIPPoolManage, Needs PermComputeIPPoolManage,
      Needs PermComputeIPPoolManage, Needs PermComputeIPPoolManage,
      Needs PermComputeIPPoolManage, Needs PermComputeIPPoolManage,
      Needs PermComputeIPPoolManage, Needs PermComputeIPPoolManage,
      Needs PermPlatformDirectoryManage, Needs PermPlatformDirectoryManage,
      Needs PermPlatformDirectoryManage, Needs PermPlatformDirectoryManage,
      Needs PermPlatformDirectoryManage, Needs PermPlatformDirectoryManage,
      Needs PermPlatformDirectoryManage, Needs PermPlatformDirectoryManage,
      Needs PermPlatformJobsRead, Needs PermPlatformJobsRead, Needs PermPlatformJobsCancel,
      Needs PermPlatformJobsRetry, Needs PermPluginsRead, Needs PermPluginsRead,
      Needs PermPluginsInstall, Needs PermPluginsInstall, Needs PermPluginsInstall,
      Needs PermPluginsInstall, Needs PermPluginsUninstall, Needs PermPluginsInstall,
      Needs PermPluginsInstall, Needs PermPluginsInstall, Needs PermPluginsPermissionApprove,
      Needs PermPlatformSettingsManage, Needs PermPlatformSettingsManage,
      Needs PermPlatformUserList, Needs PermPlatformUserManage, Needs PermPlatformUserManage,
      Needs PermPlatformUserList, Needs PermPlatformUserManage, Needs PermBillingBalanceRead,
      Needs PermBillingBalanceAdjust, Needs PermBillingLedgerRead, Needs PermPlatformUserManage,
      Needs PermBillingBalanceAdjust, Needs PermBillingBalanceAdjust]"
  unfolding admin_routes_def list.map case_Pair
  by (simp only: eval_gate cong: if_weak_cong first_match_lazy)

lemma agent_auth_billing_routes_rules:
  "map (\<lambda>(m, p, ope). gate_rule_of p m) agent_auth_billing_routes =
     [Needs PermAgentConversationRead, Needs PermAgentConversationCreate,
      Needs PermAgentConversationDelete, Needs PermAgentConversationRead,
      Needs PermAgentMessageSend, Needs PermAgentConversationRead, Needs PermAgentPolicyManage,
      Needs PermAgentProviderManage, Needs PermAgentProviderManage,
      Needs PermAgentProviderManage, Needs PermAgentProviderManage, Needs PermAgentToolConfirm,
      Needs PermAuditRead, Needs PermAuditExport, Needs PermAuditRead, Free, Free, Free, Free,
      Free, Free, Free, Free, Free, Free, Free, Free, Free, Free, Free, Free, Free, Free, Free,
      Free, Free, Free, Needs PermBillingPaymentMethodManage,
      Needs PermBillingPaymentMethodManage, Needs PermBillingPaymentMethodManage, Free,
      Needs PermBillingPromoCodeRedeem, Needs PermBillingSubscriptionManage,
      Needs PermBillingSubscriptionManage, Needs PermBillingSubscriptionManage,
      Needs PermBillingPaymentIntentCreate]"
  unfolding agent_auth_billing_routes_def list.map case_Pair
  by (simp only: eval_gate cong: if_weak_cong first_match_lazy)

lemma compute_routes_rules:
  "map (\<lambda>(m, p, ope). gate_rule_of p m) compute_routes =
     [Needs PermComputeBackupTargetRead, Needs PermComputeBackupTargetCreate,
      Needs PermComputeBackupTargetDelete, Needs PermComputeBackupTargetRead,
      Needs PermComputeBackupRead, Needs PermComputeBackupDelete, Needs PermComputeBackupRead,
      Needs PermComputeClusterMemberList, Needs PermComputeClusterMemberList, Free,
      Needs PermComputeFloatingIPRead, Needs PermComputeFloatingIPManage,
      Needs PermComputeFloatingIPManage, Needs PermComputeFloatingIPRead,
      Needs PermComputeFloatingIPManage, Needs PermComputeFloatingIPManage,
      Needs PermComputeFloatingIPManage, Needs PermComputeImageRead,
      Needs PermComputeInstanceCreate, Needs PermComputeInstanceDelete,
      Needs PermComputeImageRead, Needs PermComputeInstanceRead, Needs PermComputeInstanceCreate,
      Needs PermComputeInstanceDelete, Needs PermComputeInstanceRead,
      Needs PermComputeInstanceUpdate, Needs PermComputeBackupRead,
      Needs PermComputeInstanceConsoleExec, Needs PermComputeInstanceStart,
      Needs PermComputeInstanceRead, Needs PermComputeInstanceRead,
      Needs PermComputeInstanceRead, Needs PermComputeInstanceMigrate,
      Needs PermComputeInstanceRead, Needs PermComputeSnapshotRead,
      Needs PermComputeSnapshotCreate, Needs PermComputeSnapshotDelete,
      Needs PermComputeSnapshotRead, Needs PermComputeInstanceUpdate,
      Needs PermComputeInstanceConsoleVNC, Needs PermComputeInstanceCreate,
      Needs PermComputeNetworkRead, Needs PermComputeNetworkCreate,
      Needs PermComputeNetworkCreate, Needs PermComputeNetworkRead, Needs PermComputeProfileRead,
      Needs PermComputeProfileApply, Needs PermComputeProfileApply, Needs PermComputeProfileRead,
      Needs PermComputeSnapshotPolicyRead, Needs PermComputeSnapshotPolicyCreate,
      Needs PermComputeSnapshotPolicyDelete, Needs PermComputeSnapshotPolicyRead,
      Needs PermComputeSnapshotPolicyUpdate, Needs PermComputeStoragePoolRead,
      Needs PermComputeNetworkCreate, Needs PermComputeStoragePoolRead,
      Needs PermComputeStoragePoolRead]"
  unfolding compute_routes_def list.map case_Pair
  by (simp only: eval_gate cong: if_weak_cong first_match_lazy)

lemma dns_me_storage_routes_rules:
  "map (\<lambda>(m, p, ope). gate_rule_of p m) dns_me_storage_routes =
     [Needs PermDNSDomainRead, Needs PermDNSDomainRegister, Needs PermDNSDomainSearch,
      Needs PermDNSDomainTransfer, Needs PermDNSDomainDelete, Needs PermDNSDomainRead,
      Needs PermDNSDomainRenew, Needs PermDNSZoneRead, Needs PermDNSZoneRead,
      Needs PermDNSZoneCreate, Needs PermDNSZoneDelete, Needs PermDNSZoneRead,
      Needs PermDNSZoneUpdate, Needs PermDNSZoneUpdate, Needs PermDNSZoneCreate,
      Needs PermDNSRecordRead, Needs PermDNSRecordCreate, Needs PermDNSRecordDelete,
      Needs PermDNSRecordRead, Needs PermDNSRecordUpdate, Needs PermBillingBalanceRead, Free,
      Free, Needs PermBillingLedgerRead, Free, Free, Free, Free, Free, Free, Free, Free, Free,
      Free, Needs PermBillingReceiptRead, Needs PermBillingReceiptCreate,
      Needs PermBillingReceiptRead, Needs PermBillingReceiptRead, Needs PermBillingBalanceRead,
      Free, Free, Needs PermS3BucketRead, Needs PermS3BucketCreate, Needs PermS3BucketDelete,
      Needs PermS3BucketRead, Needs PermS3BucketUpdate, Needs PermS3BucketRead,
      Needs PermS3CredentialsCreate, Needs PermS3CredentialsRevoke, Needs PermS3BucketRead,
      Needs PermS3BucketLifecycle, Needs PermS3BucketLifecycle, Needs PermS3BucketLifecycle,
      Needs PermS3BucketLifecycle, Needs PermS3BucketCreate, Needs PermS3BucketRead,
      Needs PermS3BucketObjectLock, Needs PermS3ObjectRead, Needs PermS3BucketUpdate,
      Needs PermS3BucketRead, Needs PermS3BucketRead, Needs PermS3BucketVersioning,
      Needs PermS3BucketRead, Needs PermS3BucketCreate, Free, Free]"
  unfolding dns_me_storage_routes_def list.map case_Pair
  by (simp only: eval_gate cong: if_weak_cong first_match_lazy)

text \<open>With a slash appended these are let through.\<close>

definition slash_routes :: "route list" where
  "slash_routes =
     [(''GET'', ''/api/v1/admin/billing/webhook-events'', ''ListAdminBillingWebhookEvents''),
      (''GET'', ''/api/v1/admin/settings'', ''GetPlatformSettings''),
      (''PUT'', ''/api/v1/admin/settings'', ''UpdatePlatformSettings''),
      (''GET'', ''/api/v1/admin/users'', ''ListAdminUsers''),
      (''POST'', ''/api/v1/admin/users'', ''CreateAdminUser''),
      (''DELETE'', ''/api/v1/admin/users/:userId'', ''DeleteAdminUser''),
      (''GET'', ''/api/v1/admin/users/:userId'', ''GetAdminUser''),
      (''PATCH'', ''/api/v1/admin/users/:userId'', ''UpdateAdminUser''),
      (''GET'', ''/api/v1/admin/users/:userId/balance'', ''GetAdminUserBalance''),
      (''POST'', ''/api/v1/admin/users/:userId/balance'', ''RebuildAdminUserBalance''),
      (''GET'', ''/api/v1/admin/users/:userId/ledger'', ''ListAdminUserLedger''),
      (''PUT'', ''/api/v1/admin/users/:userId/memberships/:tenantId'', ''SetAdminUserRole''),
      (''POST'', ''/api/v1/admin/users/:userId/refund'', ''RefundAdminUser''),
      (''POST'', ''/api/v1/admin/users/:userId/topup'', ''TopupAdminUser''),
      (''POST'', ''/api/v1/agent/conversations'', ''CreateAgentConversation''),
      (''POST'', ''/api/v1/agent/conversations/:conversationId/messages'', ''SendAgentMessage''),
      (''GET'', ''/api/v1/agent/policy'', ''GetAgentPolicy''),
      (''PUT'', ''/api/v1/agent/policy'', ''UpdateAgentPolicy''),
      (''POST'', ''/api/v1/agent/tool-calls/:toolCallId/confirm'', ''ConfirmAgentToolCall''),
      (''GET'', ''/api/v1/billing/payment-methods'', ''ListMyPaymentMethods''),
      (''POST'', ''/api/v1/billing/payment-methods'', ''AddMyPaymentMethod''),
      (''POST'', ''/api/v1/billing/redeem'', ''RedeemMyPromoCode''),
      (''GET'', ''/api/v1/billing/subscriptions'', ''ListMySubscriptions''),
      (''POST'', ''/api/v1/billing/subscriptions'', ''CreateMySubscription''),
      (''POST'', ''/api/v1/billing/topup'', ''CreateMyTopupIntent''),
      (''GET'', ''/api/v1/dns/templates'', ''ListDNSTemplates''),
      (''GET'', ''/api/v1/me/balance'', ''GetMyBalance''),
      (''GET'', ''/api/v1/me/ledger'', ''ListMyLedger''),
      (''GET'', ''/api/v1/me/usage'', ''ListMyUsage''),
      (''PUT'', ''/api/v1/storage/buckets/:bucketId/object-lock'', ''SetStorageBucketObjectLock''),
      (''PUT'', ''/api/v1/storage/buckets/:bucketId/versioning'', ''SetStorageBucketVersioning'')]"

lemma slash_routes_rules: "map (\<lambda>(m, p, ope). gate_rule_of (p @ ''/'') m) slash_routes = replicate (length slash_routes) Free"
  unfolding slash_routes_def list.map case_Pair list.size(3,4) add_0 plus_nat.add_Suc One_nat_def
    add_Suc_right add_0_right replicate_Suc replicate_0
  by (simp only: eval_gate cong: if_weak_cong first_match_lazy)

end
