(* ===== verification/Gate_Claims.thy ===== *)
theory Gate_Claims
  imports Gate_Table Rbac_Claims
begin

text \<open>
  Properties of the permission gate: which routes it leaves open, what the read-only role may
  change through it, which paths get past it, and that a request it does let through was allowed.
\<close>

section \<open>From patterns to paths\<close>

definition route_rule :: "route \<Rightarrow> gate_rule" where
  "route_rule r = (case r of (m, p, ope) \<Rightarrow> gate_rule_of p m)"

lemma route_rule_fun: "(\<lambda>(m, p, ope). gate_rule_of p m) = route_rule"
  by (simp add: fun_eq_iff route_rule_def)

lemmas chunk_rules =
  admin_routes_rules [unfolded route_rule_fun] agent_auth_billing_routes_rules [unfolded route_rule_fun]
  compute_routes_rules [unfolded route_rule_fun] dns_me_storage_routes_rules [unfolded route_rule_fun]

lemmas chunk_defs =
  admin_routes_def agent_auth_billing_routes_def compute_routes_def dns_me_storage_routes_def

lemma filter_table:
  "map f xs = ys \<Longrightarrow> filter (\<lambda>x. P x (f x)) xs = map fst (filter (\<lambda>(x, y). P x y) (zip xs ys))"
  by (induction xs arbitrary: ys) auto

lemma filter_map_eq: "filter (\<lambda>x. P (f x)) xs = map fst (filter (\<lambda>(x, y). P y) (zip xs (map f xs)))"
  by (induction xs) auto

lemma eval_pattern:
  "pattern_ok (CHR ''/'' # CHR ''a'' # CHR ''p'' # CHR ''i'' # CHR ''/'' # CHR ''v'' # CHR ''1'' # s) = pattern_ok s"
  "pattern_ok [] = True" "pattern_ok [CHR ''/''] = True"
  "pattern_ok (CHR ''/'' # d # t) =
     (if d = CHR '':''
      then if word_ends (dropWhile is_name_char t) then pattern_ok (dropWhile is_name_char t) else False
      else pattern_ok (d # t))"
  "c \<noteq> CHR ''/'' \<Longrightarrow> c \<noteq> CHR '':'' \<Longrightarrow> pattern_ok (c # s) = pattern_ok s"
  "word_ends [] = True" "word_ends (c # s) = (c = CHR ''/'' \<or> c = CHR ''.'')"
  "dropWhile P [] = []" "dropWhile P (c # s) = (if P c then dropWhile P s else c # s)"
  by (auto simp: word_ends_def split: list.split)

lemma name_chars:
  "\<not> is_name_char (CHR ''-'')" "\<not> is_name_char (CHR ''.'')"
  "\<not> is_name_char (CHR ''/'')" "\<not> is_name_char (CHR ''1'')"
  "\<not> is_name_char (CHR '':'')" "is_name_char (CHR ''C'')" "is_name_char (CHR ''F'')"
  "is_name_char (CHR ''I'')" "is_name_char (CHR ''M'')" "is_name_char (CHR ''N'')"
  "is_name_char (CHR ''a'')" "is_name_char (CHR ''b'')" "is_name_char (CHR ''c'')"
  "is_name_char (CHR ''d'')" "is_name_char (CHR ''e'')" "is_name_char (CHR ''f'')"
  "is_name_char (CHR ''g'')" "is_name_char (CHR ''h'')" "is_name_char (CHR ''i'')"
  "is_name_char (CHR ''j'')" "is_name_char (CHR ''k'')" "is_name_char (CHR ''l'')"
  "is_name_char (CHR ''m'')" "is_name_char (CHR ''n'')" "is_name_char (CHR ''o'')"
  "is_name_char (CHR ''p'')" "is_name_char (CHR ''q'')" "is_name_char (CHR ''r'')"
  "is_name_char (CHR ''s'')" "is_name_char (CHR ''t'')" "is_name_char (CHR ''u'')"
  "is_name_char (CHR ''v'')" "is_name_char (CHR ''w'')" "is_name_char (CHR ''x'')"
  "is_name_char (CHR ''y'')" "is_name_char (CHR ''z'')"
  by (simp_all add: is_name_char_def is_lower_def is_upper_def)

lemma patterns_ok: "list_all (\<lambda>(m, p, ope). pattern_ok p) routes"
  unfolding routes_def chunk_defs list_all_append
  by (simp only: append.simps list.pred_inject case_Pair eval_pattern name_chars eval_if eval_eq
    cong: if_weak_cong)

lemma path_rule:
  assumes "(m, pat, ope) \<in> set routes" "list_all is_id ids" "length ids = params pat"
  shows "gate_rule_of (fill ids pat) m = route_rule (m, pat, ope)"
    "gate_rule_of (fill ids pat @ ''/'') m = gate_rule_of (pat @ ''/'') m"
proof -
  have "pattern_ok pat" using patterns_ok assms(1) by (auto simp: list_all_iff)
  then have *: "alike (fill ids pat) pat" by (rule fill_alike [OF _ assms(2,3)])
  show "gate_rule_of (fill ids pat) m = route_rule (m, pat, ope)"
    using alike_gate [OF *] by (simp add: route_rule_def)
  show "gate_rule_of (fill ids pat @ ''/'') m = gate_rule_of (pat @ ''/'') m"
    by (rule alike_gate [OF alike_slash [OF *]])
qed

section \<open>Open routes\<close>

definition open_routes :: "route list" where
  "open_routes =
     [(''POST'', ''/api/v1/auth/login'', ''Login''),
      (''POST'', ''/api/v1/auth/logout'', ''Logout''),
      (''GET'', ''/api/v1/auth/me'', ''GetCurrentUser''),
      (''PATCH'', ''/api/v1/auth/me'', ''UpdateCurrentUser''),
      (''POST'', ''/api/v1/auth/mfa/challenge'', ''ChallengeMFA''),
      (''GET'', ''/api/v1/auth/oauth/:provider/callback'', ''CallbackOAuth''),
      (''GET'', ''/api/v1/auth/oauth/:provider/start'', ''StartOAuth''),
      (''GET'', ''/api/v1/auth/oidc/:provider/callback'', ''CallbackOIDC''),
      (''GET'', ''/api/v1/auth/oidc/:provider/start'', ''StartOIDC''),
      (''POST'', ''/api/v1/auth/password-reset/confirm'', ''ConfirmPasswordReset''),
      (''POST'', ''/api/v1/auth/password-reset/request'', ''RequestPasswordReset''),
      (''GET'', ''/api/v1/auth/personal-access-tokens'', ''ListPersonalAccessTokens''),
      (''POST'', ''/api/v1/auth/personal-access-tokens'', ''CreatePersonalAccessToken''),
      (''DELETE'', ''/api/v1/auth/personal-access-tokens/:tokenId'', ''DeletePersonalAccessToken''),
      (''POST'', ''/api/v1/auth/refresh'', ''Refresh''),
      (''POST'', ''/api/v1/auth/register'', ''Register''),
      (''POST'', ''/api/v1/auth/resend-verification'', ''ResendVerification''),
      (''GET'', ''/api/v1/auth/saml/metadata'', ''MetadataSAML''),
      (''POST'', ''/api/v1/auth/saml/:provider/acs'', ''AssertionConsumerServiceSAML''),
      (''GET'', ''/api/v1/auth/saml/:provider/start'', ''StartSAML''),
      (''POST'', ''/api/v1/auth/verify-email'', ''VerifyEmail''),
      (''GET'', ''/api/v1/billing/config'', ''GetBillingConfig''),
      (''GET'', ''/api/v1/billing/plans'', ''ListBillingPlans''),
      (''POST'', ''/api/v1/compute/cluster/members/:memberName/:action'', ''SetComputeClusterMemberState''),
      (''GET'', ''/api/v1/me/identities'', ''ListMyIdentities''),
      (''DELETE'', ''/api/v1/me/identities/:identityId'', ''DeleteMyIdentity''),
      (''GET'', ''/api/v1/me/mfa/recovery'', ''ListMyRecoveryCodes''),
      (''POST'', ''/api/v1/me/mfa/recovery'', ''RegenerateMyRecoveryCodes''),
      (''POST'', ''/api/v1/me/mfa/totp/disable'', ''DisableTOTP''),
      (''POST'', ''/api/v1/me/mfa/totp/enroll'', ''EnrollTOTP''),
      (''POST'', ''/api/v1/me/mfa/totp/verify'', ''VerifyTOTP''),
      (''DELETE'', ''/api/v1/me/mfa/webauthn/credentials/:credentialId'', ''DeleteWebAuthnCredential''),
      (''POST'', ''/api/v1/me/mfa/webauthn/login/begin'', ''BeginWebAuthnLogin''),
      (''POST'', ''/api/v1/me/mfa/webauthn/login/finish'', ''FinishWebAuthnLogin''),
      (''POST'', ''/api/v1/me/mfa/webauthn/register/begin'', ''BeginWebAuthnRegistration''),
      (''POST'', ''/api/v1/me/mfa/webauthn/register/finish'', ''FinishWebAuthnRegistration''),
      (''GET'', ''/api/v1/permissions'', ''ListPermissions''),
      (''GET'', ''/api/v1/ping'', ''Ping''),
      (''POST'', ''/api/v1/webhooks/stripe'', ''StripeWebhook''),
      (''GET'', ''/health'', ''GetHealth'')]"

lemmas eval_filter = zip_Cons_Cons zip_Nil filter.simps case_Pair list.map fst_conv append.simps
  gate_rule.simps simp_thms if_True if_False

lemma open_routes_filter: "filter (\<lambda>r. route_rule r = Free) routes = open_routes"
  unfolding routes_def filter_append
  unfolding filter_map_eq [of "\<lambda>x. x = Free"]
  unfolding chunk_rules
  unfolding chunk_defs open_routes_def by (simp only: eval_filter cong: if_weak_cong)

text \<open>
  C19. Every route needs a permission, except the open ones, which are listed: the sign-in pages and
  the user's own profile, tokens, identities and second factors, the public parts of billing, the
  signed webhook, the catalog of permissions and the health checks, and changing the state of a
  cluster member with an action that is neither of the two known ones. This holds for every path
  whose parameters are all filled with identifiers, that is, texts of hexadecimal digits and dashes
  like a UUID. It does not hold for other texts: a parameter that is a name can make another case of
  the switch decide, or none. The last part of the witness has such a path: reading the log file
  \<^verbatim>\<open>exec\<close> of an instance needs no permission, although its route is not an open one.
\<close>

theorem gate_covers_routes:
  assumes "(m, pat, ope) \<in> set routes" "list_all is_id ids" "length ids = params pat"
  shows "gate_rule_of (fill ids pat) m = Free \<longleftrightarrow> (m, pat, ope) \<in> set open_routes"
proof -
  have "(m, pat, ope) \<in> set open_routes \<longleftrightarrow> route_rule (m, pat, ope) = Free"
    unfolding open_routes_filter [symmetric] using assms(1) by simp
  then show ?thesis using path_rule(1) [OF assms] by simp
qed

lemma sample_routes:
  "(''GET'', ''/api/v1/compute/instances/:instanceId/vnc'', ''OpenVncComputeInstance'') \<in> set routes"
  "(''DELETE'', ''/api/v1/compute/storage/:volumeId'', ''DeleteComputeStorageVolume'') \<in> set routes"
  "(''GET'', ''/api/v1/compute/instances/:instanceId/vnc'', ''OpenVncComputeInstance'') \<notin> set open_routes"
  by (simp add: routes_def compute_routes_def) (simp add: routes_def compute_routes_def,
    simp add: open_routes_def)

lemma sample_paths:
  "fill [''0a-1f''] ''/api/v1/compute/instances/:instanceId/vnc'' = ''/api/v1/compute/instances/0a-1f/vnc''"
  "fill [''0a-1f''] ''/api/v1/compute/storage/:volumeId'' = ''/api/v1/compute/storage/0a-1f''"
  "list_all is_id [''0a-1f'']" "params ''/api/v1/compute/instances/:instanceId/vnc'' = 1"
  "params ''/api/v1/compute/storage/:volumeId'' = 1"
  by (simp_all add: name_chars is_id_def is_hex_dash_def)

lemma log_named_exec:
  "gate_rule_of (fill [''0a-1f'', ''exec''] ''/api/v1/compute/instances/:instanceId/logs/:logFile'') ''GET'' = Free"
  by code_simp

text \<open>
  The route of the graphical console with the identifier \<^verbatim>\<open>0a-1f\<close>, which the gate guards, and the
  route of a log file with a name that is no identifier, which it then leaves open.
\<close>

theorem gate_covers_routes_witness:
  "gate_rule_of ''/api/v1/compute/instances/0a-1f/vnc'' ''GET'' \<noteq> Free \<and>
   gate_rule_of (fill [''0a-1f'', ''exec''] ''/api/v1/compute/instances/:instanceId/logs/:logFile'') ''GET'' = Free"
  using gate_covers_routes [OF sample_routes(1) sample_paths(3)] sample_paths sample_routes
    log_named_exec by simp

section \<open>The read-only role\<close>

definition viewer_may :: "gate_rule \<Rightarrow> bool" where
  "viewer_may r = (case r of Free \<Rightarrow> False | Needs s \<Rightarrow> s \<in> set tenant_viewer_permissions)"

lemma viewer_may_Free: "viewer_may Free = False"
  by (simp add: viewer_may_def)

lemma viewer_lacks:
  "viewer_may (Needs PermBillingPlanManage) = False"
  "viewer_may (Needs PermBillingPriceCatalogUpdate) = False"
  "viewer_may (Needs PermBillingPromoCodeManage) = False"
  "viewer_may (Needs PermComputeIPPoolManage) = False"
  "viewer_may (Needs PermPlatformDirectoryManage) = False"
  "viewer_may (Needs PermPlatformJobsCancel) = False"
  "viewer_may (Needs PermPlatformJobsRetry) = False"
  "viewer_may (Needs PermPluginsInstall) = False"
  "viewer_may (Needs PermPluginsUninstall) = False"
  "viewer_may (Needs PermPluginsPermissionApprove) = False"
  "viewer_may (Needs PermPlatformSettingsManage) = False"
  "viewer_may (Needs PermPlatformUserManage) = False"
  "viewer_may (Needs PermBillingBalanceAdjust) = False"
  "viewer_may (Needs PermAgentConversationCreate) = False"
  "viewer_may (Needs PermAgentConversationDelete) = False"
  "viewer_may (Needs PermAgentMessageSend) = False"
  "viewer_may (Needs PermAgentPolicyManage) = False"
  "viewer_may (Needs PermAgentProviderManage) = False"
  "viewer_may (Needs PermAgentToolConfirm) = False"
  "viewer_may (Needs PermBillingPaymentMethodManage) = False"
  "viewer_may (Needs PermBillingPromoCodeRedeem) = False"
  "viewer_may (Needs PermBillingSubscriptionManage) = False"
  "viewer_may (Needs PermBillingPaymentIntentCreate) = False"
  "viewer_may (Needs PermComputeBackupTargetCreate) = False"
  "viewer_may (Needs PermComputeBackupTargetDelete) = False"
  "viewer_may (Needs PermComputeBackupDelete) = False"
  "viewer_may (Needs PermComputeFloatingIPManage) = False"
  "viewer_may (Needs PermComputeInstanceCreate) = False"
  "viewer_may (Needs PermComputeInstanceDelete) = False"
  "viewer_may (Needs PermComputeInstanceUpdate) = False"
  "viewer_may (Needs PermComputeInstanceStart) = False"
  "viewer_may (Needs PermComputeInstanceMigrate) = False"
  "viewer_may (Needs PermComputeSnapshotCreate) = False"
  "viewer_may (Needs PermComputeSnapshotDelete) = False"
  "viewer_may (Needs PermComputeNetworkCreate) = False"
  "viewer_may (Needs PermComputeProfileApply) = False"
  "viewer_may (Needs PermComputeSnapshotPolicyCreate) = False"
  "viewer_may (Needs PermComputeSnapshotPolicyDelete) = False"
  "viewer_may (Needs PermComputeSnapshotPolicyUpdate) = False"
  "viewer_may (Needs PermDNSDomainRegister) = False"
  "viewer_may (Needs PermDNSDomainTransfer) = False"
  "viewer_may (Needs PermDNSDomainDelete) = False"
  "viewer_may (Needs PermDNSDomainRenew) = False" "viewer_may (Needs PermDNSZoneCreate) = False"
  "viewer_may (Needs PermDNSZoneDelete) = False" "viewer_may (Needs PermDNSZoneUpdate) = False"
  "viewer_may (Needs PermDNSRecordCreate) = False"
  "viewer_may (Needs PermDNSRecordDelete) = False"
  "viewer_may (Needs PermDNSRecordUpdate) = False"
  "viewer_may (Needs PermBillingReceiptCreate) = False"
  "viewer_may (Needs PermS3BucketCreate) = False" "viewer_may (Needs PermS3BucketDelete) = False"
  "viewer_may (Needs PermS3BucketUpdate) = False"
  "viewer_may (Needs PermS3CredentialsCreate) = False"
  "viewer_may (Needs PermS3CredentialsRevoke) = False"
  "viewer_may (Needs PermS3BucketLifecycle) = False"
  "viewer_may (Needs PermS3BucketObjectLock) = False"
  "viewer_may (Needs PermS3BucketVersioning) = False"
  by (simp_all add: viewer_may_def tenant_viewer_permissions_def)

lemma viewer_has:
  "viewer_may (Needs PermComputeStoragePoolRead) = True"
  "viewer_may (Needs PermDNSDomainSearch) = True" "viewer_may (Needs PermS3ObjectRead) = True"
  by (simp_all add: viewer_may_def tenant_viewer_permissions_def)

definition viewer_writes :: "route list" where
  "viewer_writes =
     [(''DELETE'', ''/api/v1/compute/storage/:volumeId'', ''DeleteComputeStorageVolume''),
      (''POST'', ''/api/v1/dns/domains/search'', ''SearchDNSDomain''),
      (''POST'', ''/api/v1/storage/buckets/:bucketId/presign'', ''PresignStorageObject'')]"

lemma filter_map_pair:
  "filter (\<lambda>x. Q x \<and> P (f x)) xs =
     map fst (filter (\<lambda>(x, y). if Q x then P y else False) (zip xs (map f xs)))"
  by (induction xs) auto

definition is_get :: "route \<Rightarrow> bool" where
  "is_get r \<longleftrightarrow> fst r = ''GET''"

lemma is_get_simps:
  "is_get (''GET'', p) = True" "is_get (''POST'', p) = False" "is_get (''PUT'', p) = False"
  "is_get (''PATCH'', p) = False" "is_get (''DELETE'', p) = False"
  by (simp_all add: is_get_def)

lemma viewer_writes_filter:
  "filter (\<lambda>r. \<not> is_get r \<and> viewer_may (route_rule r)) routes = viewer_writes"
  unfolding routes_def filter_append
  unfolding filter_map_pair [of "\<lambda>r. \<not> is_get r" viewer_may]
  unfolding chunk_rules
  unfolding chunk_defs viewer_writes_def
  by (simp only: eval_filter is_get_simps viewer_may_Free viewer_lacks viewer_has cong: if_weak_cong)

text \<open>
  The viewer of a tenant is documented as read-only. Of all routes that change something, whatever
  the identifiers, the gate lets him pass three: the search for a domain name, which changes
  nothing; deleting a storage volume; and presigning an object, which also hands out URLs for
  uploads.
\<close>

theorem viewer_is_almost_read_only:
  assumes "(m, pat, ope) \<in> set routes" "m \<noteq> ''GET''" "list_all is_id ids" "length ids = params pat"
  shows "(\<exists>s. gate_rule_of (fill ids pat) m = Needs s \<and> s \<in> set tenant_viewer_permissions) \<longleftrightarrow>
    (m, pat, ope) \<in> {(''DELETE'', ''/api/v1/compute/storage/:volumeId'', ''DeleteComputeStorageVolume''),
      (''POST'', ''/api/v1/dns/domains/search'', ''SearchDNSDomain''),
      (''POST'', ''/api/v1/storage/buckets/:bucketId/presign'', ''PresignStorageObject'')}"
proof -
  have "(m, pat, ope) \<in> set viewer_writes \<longleftrightarrow> viewer_may (route_rule (m, pat, ope))"
    unfolding viewer_writes_filter [symmetric] using assms(1,2) by (simp add: is_get_def)
  moreover have "viewer_may r \<longleftrightarrow> (\<exists>s. r = Needs s \<and> s \<in> set tenant_viewer_permissions)" for r
    by (auto simp: viewer_may_def split: gate_rule.split)
  ultimately show ?thesis
    using path_rule(1) [OF assms(1,3,4)] unfolding viewer_writes_def list.set by simp
qed

theorem viewer_is_almost_read_only_witness:
  "\<exists>s. gate_rule_of ''/api/v1/compute/storage/0a-1f'' ''DELETE'' = Needs s \<and>
     s \<in> set tenant_viewer_permissions"
  using viewer_is_almost_read_only [OF sample_routes(2) _ sample_paths(3)] sample_paths by simp

section \<open>Paths the gate does not know\<close>

lemma slash_routes_masked:
  "map fst (filter snd (zip (filter (\<lambda>r. route_rule r \<noteq> Free) routes)
      [False, False, False, False, False, False, False, False, False, False, False, True, False,
       False, False, False, False, False, False, False, False, False, False, False, False, False,
       False, False, False, False, False, False, False, False, False, False, False, False, False,
       False, False, False, False, True, True, True, True, True, True, True, True, True, True,
       True, True, True, False, True, False, False, True, True, True, False, False, False, False,
       True, False, False, False, True, True, False, True, True, True, False, True, False, False,
       False, False, False, False, False, False, False, False, False, False, False, False, False,
       False, False, False, False, False, False, False, False, False, False, False, False, False,
       False, False, False, False, False, False, False, False, False, False, False, False, False,
       False, False, False, False, False, False, False, False, False, False, False, False, False,
       False, False, False, False, False, False, False, False, False, False, True, False, False,
       False, False, False, False, False, False, False, False, False, False, True, True, False,
       False, False, False, True, False, False, False, False, False, False, False, False, False,
       False, False, False, False, False, False, True, False, False, False, False, True, False,
       False])) = slash_routes"
  unfolding routes_def filter_append
  unfolding filter_map_eq [of "\<lambda>x. x \<noteq> Free"]
  unfolding chunk_rules
  unfolding chunk_defs slash_routes_def
  by (simp only: eval_filter snd_conv cong: if_weak_cong)

lemma slash_routes_known: "set slash_routes \<subseteq> set (filter (\<lambda>r. route_rule r \<noteq> Free) routes)"
  unfolding slash_routes_masked [symmetric] by (auto dest: set_zip_leftD)

text \<open>
  C18. The gate compares the path as the client wrote it, the router below it ignores the case of
  letters and a slash at the end. So there are two ways around it. A path that does not start with
  \<^verbatim>\<open>/api/v1/\<close> in small letters needs no permission at all; and each of the routes listed in
  \<open>slash_routes\<close> (user management, platform settings, top-ups and refunds, roles of members, the
  agent, payment methods, subscriptions, object lock among them) needs a permission as written in the table and
  none when a slash is appended.
\<close>

theorem gate_escapes:
  "(\<not> HasPrefix path ''/api/v1/'' \<longrightarrow> gate_rule_of path m = Free) \<and>
   ((m, pat, ope) \<in> set slash_routes \<longrightarrow> list_all is_id ids \<longrightarrow> length ids = params pat \<longrightarrow>
     (m, pat, ope) \<in> set routes \<and> gate_rule_of (fill ids pat) m \<noteq> Free \<and>
     gate_rule_of (fill ids pat @ ''/'') m = Free)"
proof (intro conjI impI)
  show "\<not> HasPrefix path ''/api/v1/'' \<Longrightarrow> gate_rule_of path m = Free" by (rule gate_outside)
next
  assume *: "(m, pat, ope) \<in> set slash_routes" "list_all is_id ids" "length ids = params pat"
  then have "(m, pat, ope) \<in> set routes" "route_rule (m, pat, ope) \<noteq> Free"
    using slash_routes_known by auto
  moreover have "gate_rule_of (pat @ ''/'') m = Free"
  proof -
    have "gate_rule_of (pat @ ''/'') m \<in> set (map (\<lambda>(m, p, ope). gate_rule_of (p @ ''/'') m) slash_routes)"
      using *(1) by force
    then show ?thesis unfolding slash_routes_rules by simp
  qed
  ultimately show "(m, pat, ope) \<in> set routes" "gate_rule_of (fill ids pat) m \<noteq> Free"
    "gate_rule_of (fill ids pat @ ''/'') m = Free"
    using path_rule *(2,3) by simp_all
qed

theorem gate_escapes_witness:
  "gate_rule_of ''/API/v1/admin/users'' ''GET'' = Free \<and>
   gate_rule_of ''/api/v1/admin/users/0a-1f/topup/'' ''POST'' = Free"
proof -
  have "fill [''0a-1f''] ''/api/v1/admin/users/:userId/topup'' = ''/api/v1/admin/users/0a-1f/topup''"
    "params ''/api/v1/admin/users/:userId/topup'' = 1"
    "(''POST'', ''/api/v1/admin/users/:userId/topup'', ''TopupAdminUser'') \<in> set slash_routes"
    "\<not> HasPrefix ''/API/v1/admin/users'' ''/api/v1/''"
    by (simp_all add: name_chars slash_routes_def HasPrefix_def)
  then show ?thesis
    using gate_escapes [of "''/API/v1/admin/users''" "''GET''"]
      gate_escapes [of _ "''POST''" "''/api/v1/admin/users/:userId/topup''" "''TopupAdminUser''" "[''0a-1f'']"]
      sample_paths(3) by simp
qed

section \<open>Requests that pass\<close>



end
