(* ===== verification/Secrets.thy ===== *)
theory Secrets
  imports Encoding Store
begin

text \<open>
  \<^verbatim>\<open>auth/secrets/secrets.go\<close>: the signed opaque tokens behind session cookies, refresh tokens,
  personal access tokens and the links in emails. The raw token goes to the client, the database
  keeps the hash of its payload.

  HMAC-SHA256, SHA-256 and the random source of the system are the parameter \<open>crypto\<close>: \<open>entropy k n\<close>
  is what the source answers to the request for \<open>n\<close> bytes that is numbered \<open>k\<close> in the supply of
  generated identifiers.
\<close>

record crypto =
  hmac_sha256 :: "string \<Rightarrow> string \<Rightarrow> string"
  sha256 :: "string \<Rightarrow> string"
  entropy :: "nat \<Rightarrow> nat \<Rightarrow> string result"

definition rand_Read :: "crypto \<Rightarrow> nat \<Rightarrow> string result prog" where
  "rand_Read C n = State (\<lambda>w.
     (entropy C (db_next (wdb w)) n, w\<lparr>wdb := (wdb w)\<lparr>db_next := Suc (db_next (wdb w))\<rparr>\<rparr>))"

text \<open>\<^verbatim>\<open>uuid.New()\<close>.\<close>

definition uuid_New :: "uuid prog" where
  "uuid_New = State (\<lambda>w.
     (db_next (wdb w), w\<lparr>wdb := (wdb w)\<lparr>db_next := Suc (db_next (wdb w))\<rparr>\<rparr>))"

record signer =
  sg_crypto :: crypto
  sg_key :: string

definition NewSigner :: "crypto \<Rightarrow> string \<Rightarrow> signer" where
  "NewSigner C key =
     \<lparr>sg_crypto = C,
      sg_key = (if key = '''' then ''DEV-ONLY-INSECURE-CHANGE-ME-lahijan-signing-key'' else key)\<rparr>"

definition b64 :: "string \<Rightarrow> string" where
  "b64 = b64_encode True"

definition b64decode :: "string \<Rightarrow> string option" where
  "b64decode = b64_decode True"

definition hashPayload :: "crypto \<Rightarrow> string \<Rightarrow> string" where
  "hashPayload C payload = hex_encode (sha256 C payload)"

definition Signer_encode :: "signer \<Rightarrow> string \<Rightarrow> string" where
  "Signer_encode s payload =
     b64 payload @ ''.'' @ b64 (hmac_sha256 (sg_crypto s) (sg_key s) payload)"

definition Signer_Issue :: "signer \<Rightarrow> int \<Rightarrow> (string \<times> string) result prog" where
  "Signer_Issue s byteLength = do {
     let n = (if byteLength < 16 then 32 else byteLength);
     r \<leftarrow> rand_Read (sg_crypto s) (nat n);
     case r of
       Inl e \<Rightarrow> fail (Wrap ''secrets: read random'' e)
     | Inr payload \<Rightarrow> ok (Signer_encode s payload, hashPayload (sg_crypto s) payload) }"

text \<open>The loop that looks for the last dot, from index \<open>i - 1\<close> down.\<close>

fun last_dot :: "string \<Rightarrow> nat \<Rightarrow> nat option" where
  "last_dot token 0 = None"
| "last_dot token (Suc i) = (if token ! i = CHR ''.'' then Some i else last_dot token i)"

definition decodeAndVerify :: "crypto \<Rightarrow> string \<Rightarrow> string \<Rightarrow> string option" where
  "decodeAndVerify C key token =
     (case last_dot token (length token) of
        None \<Rightarrow> None
      | Some dot \<Rightarrow>
          if dot = 0 \<or> dot = length token - 1 then None
          else (case b64decode (take dot token) of
                  None \<Rightarrow> None
                | Some payload \<Rightarrow>
                    (case b64decode (drop (dot + 1) token) of
                       None \<Rightarrow> None
                     | Some gotSig \<Rightarrow>
                         if gotSig \<noteq> hmac_sha256 C key payload then None else Some payload)))"

definition Signer_Verify :: "signer \<Rightarrow> string \<Rightarrow> string result" where
  "Signer_Verify s raw =
     (case decodeAndVerify (sg_crypto s) (sg_key s) raw of
        None \<Rightarrow> Inl (Sentinel SecretsErrInvalidToken)
      | Some payload \<Rightarrow> Inr (hashPayload (sg_crypto s) payload))"

section \<open>Evaluation\<close>

lemma run_rand_Read [simp]:
  "run_state (rand_Read C n) w =
     (entropy C (db_next (wdb w)) n, w\<lparr>wdb := (wdb w)\<lparr>db_next := Suc (db_next (wdb w))\<rparr>\<rparr>)"
  by (simp add: rand_Read_def)

lemma run_uuid_New [simp]:
  "run_state uuid_New w =
     (db_next (wdb w), w\<lparr>wdb := (wdb w)\<lparr>db_next := Suc (db_next (wdb w))\<rparr>\<rparr>)"
  by (simp add: uuid_New_def)

lemma ignores_audit_bump: "ignores_audit J \<Longrightarrow> J d \<Longrightarrow> J (d\<lparr>db_next := Suc (db_next d)\<rparr>)"
  using ignores_auditD(1) [of J d "audits d"] by (cases d) simp

lemma stable_bump:
  "ignores_audit J \<Longrightarrow> stable J w \<Longrightarrow> stable J (w\<lparr>wdb := (wdb w)\<lparr>db_next := Suc (db_next (wdb w))\<rparr>\<rparr>)"
  by (simp add: stable_def ignores_audit_bump)

lemma keeps_rand_Read [keeps_rules]: "ignores_audit J \<Longrightarrow> keeps (stable J) (rand_Read C n)"
  by (rule keepsI) (simp add: stable_bump)

lemma keeps_uuid_New [keeps_rules]: "ignores_audit J \<Longrightarrow> keeps (stable J) uuid_New"
  by (rule keepsI) (simp add: stable_bump)

lemma keeps_Signer_Issue [keeps_rules]: "ignores_audit J \<Longrightarrow> keeps (stable J) (Signer_Issue s n)"
  unfolding Signer_Issue_def by (intro keeps_rules)

lemma last_dot_iff:
  "last_dot s n = Some i \<longleftrightarrow> i < n \<and> s ! i = CHR ''.'' \<and> (\<forall>j. i < j \<and> j < n \<longrightarrow> s ! j \<noteq> CHR ''.'')"
  by (induction n) (auto simp: less_Suc_eq)

lemma last_dot_split:
  "last_dot token (length token) = Some (length f) \<and> token = f @ CHR ''.'' # t \<longleftrightarrow>
     token = f @ CHR ''.'' # t \<and> CHR ''.'' \<notin> set t"
proof (cases "token = f @ CHR ''.'' # t")
  case True
  have "last_dot token (length token) = Some (length f) \<longleftrightarrow>
      (\<forall>j. length f < j \<and> j < length token \<longrightarrow> token ! j \<noteq> CHR ''.'')"
    unfolding last_dot_iff using True by simp
  also have "\<dots> \<longleftrightarrow> (\<forall>k < length t. t ! k \<noteq> CHR ''.'')"
  proof (intro iffI allI impI)
    fix k assume "\<forall>j. length f < j \<and> j < length token \<longrightarrow> token ! j \<noteq> CHR ''.''" "k < length t"
    then have "token ! (length f + Suc k) \<noteq> CHR ''.''" using True by simp
    then show "t ! k \<noteq> CHR ''.''"
      using True nth_append_length_plus [of f "CHR ''.'' # t" "Suc k"] by simp
  next
    fix j assume k: "\<forall>k < length t. t ! k \<noteq> CHR ''.''" "length f < j \<and> j < length token"
    then obtain k where "j = length f + Suc k" by (metis less_imp_Suc_add add_Suc_right)
    then show "token ! j \<noteq> CHR ''.''"
      using k True nth_append_length_plus [of f "CHR ''.'' # t" "Suc k"] by simp
  qed
  also have "\<dots> \<longleftrightarrow> CHR ''.'' \<notin> set t" by (auto simp: in_set_conv_nth)
  finally show ?thesis using True by simp
qed simp

text \<open>When a token is accepted, and as what.\<close>

lemma decodeAndVerify_iff:
  "decodeAndVerify C key token = Some p \<longleftrightarrow>
     (\<exists>f t. token = f @ CHR ''.'' # t \<and> CHR ''.'' \<notin> set t \<and> f \<noteq> [] \<and> t \<noteq> [] \<and>
            b64decode f = Some p \<and> b64decode t = Some (hmac_sha256 C key p))"
proof
  assume a: "decodeAndVerify C key token = Some p"
  then obtain i where i: "last_dot token (length token) = Some i"
    by (auto simp: decodeAndVerify_def split: option.splits)
  then have "i < length token" "token ! i = CHR ''.''" by (simp_all add: last_dot_iff)
  then have tok: "token = take i token @ CHR ''.'' # drop (Suc i) token" and len: "length (take i token) = i"
    using id_take_nth_drop [of i token] by simp_all
  have "CHR ''.'' \<notin> set (drop (Suc i) token)"
    using last_dot_split [of token "take i token" "drop (Suc i) token"] i tok len by simp
  moreover have "take i token \<noteq> []" "drop (Suc i) token \<noteq> []"
    using a i \<open>i < length token\<close> by (auto simp: decodeAndVerify_def split: if_splits)
  moreover have "b64decode (take i token) = Some p"
    "b64decode (drop (Suc i) token) = Some (hmac_sha256 C key p)"
    using a i by (auto simp: decodeAndVerify_def split: if_splits option.splits)
  ultimately show "\<exists>f t. token = f @ CHR ''.'' # t \<and> CHR ''.'' \<notin> set t \<and> f \<noteq> [] \<and> t \<noteq> [] \<and>
            b64decode f = Some p \<and> b64decode t = Some (hmac_sha256 C key p)"
    using tok by blast
next
  assume "\<exists>f t. token = f @ CHR ''.'' # t \<and> CHR ''.'' \<notin> set t \<and> f \<noteq> [] \<and> t \<noteq> [] \<and>
            b64decode f = Some p \<and> b64decode t = Some (hmac_sha256 C key p)"
  then obtain f t where ft: "token = f @ CHR ''.'' # t" "CHR ''.'' \<notin> set t" "f \<noteq> []" "t \<noteq> []"
    "b64decode f = Some p" "b64decode t = Some (hmac_sha256 C key p)" by blast
  have "last_dot token (length token) = Some (length f)"
    using last_dot_split [of token f t] ft by simp
  then show "decodeAndVerify C key token = Some p"
    using ft by (simp add: decodeAndVerify_def)
qed

lemma dot_not_b64: "\<not> b64_code (CHR ''.'')"
  by (simp add: b64_code_def)

lemma Signer_Verify_encode:
  assumes "payload \<noteq> []" "hmac_sha256 (sg_crypto s) (sg_key s) payload \<noteq> []"
  shows "Signer_Verify s (Signer_encode s payload) = Inr (hashPayload (sg_crypto s) payload)"
proof -
  let ?m = "hmac_sha256 (sg_crypto s) (sg_key s) payload"
  have "CHR ''.'' \<notin> set (b64_encode True ?m)"
    using b64_encode_plain [of True ?m] dot_not_b64 by (auto simp: list_all_iff)
  then have "decodeAndVerify (sg_crypto s) (sg_key s) (Signer_encode s payload) = Some payload"
    unfolding decodeAndVerify_iff Signer_encode_def b64_def b64decode_def
    using assms b64_roundtrip by (intro exI [of _ "b64_encode True payload"] exI [of _ "b64_encode True ?m"]) simp
  then show ?thesis by (simp add: Signer_Verify_def)
qed

end
