(* ===== verification/Password.thy ===== *)
theory Password
  imports Secrets Utf8 "HOL-Library.Word"
begin

text \<open>
  \<^verbatim>\<open>auth/password/password.go\<close>: the hashing of passwords, the self-describing text form of a hash,
  its verification, and the strength check. Argon2id (\<^verbatim>\<open>golang.org/x/crypto/argon2\<close>, which is not
  part of the repository) is the parameter \<open>idkey\<close>: password, salt, iterations, memory,
  parallelism and length of the key. The widths of the parameters are those of the source.
\<close>

unbundle bit_operations_syntax

type_synonym argon2 =
  "string \<Rightarrow> string \<Rightarrow> 32 word \<Rightarrow> 32 word \<Rightarrow> 8 word \<Rightarrow> 32 word \<Rightarrow> string"

record hasher =
  hs_crypto :: crypto
  hs_idkey :: argon2
  hs_memory :: "32 word"
  hs_iterations :: "32 word"
  hs_parallelism :: "8 word"
  hs_saltLength :: "32 word"
  hs_keyLength :: "32 word"

record encodedHash =
  eh_memory :: "32 word"
  eh_iterations :: "32 word"
  eh_parallelism :: "8 word"
  eh_salt :: string
  eh_key :: string

definition argon2idEncodingPrefix :: string where
  "argon2idEncodingPrefix = ''$argon2id$''"

text \<open>The text of the parameters, \<^verbatim>\<open>m=%d,t=%d,p=%d\<close>.\<close>

definition params_text :: "encodedHash \<Rightarrow> string" where
  "params_text h = ''m='' @ nat_digits (unat (eh_memory h)) @ '',t='' @
     nat_digits (unat (eh_iterations h)) @ '',p='' @ nat_digits (unat (eh_parallelism h))"

definition hash_encode :: "encodedHash \<Rightarrow> string" where
  "hash_encode h = argon2idEncodingPrefix @ ''v=19$'' @ params_text h @ ''$'' @
     b64_encode False (eh_salt h) @ ''$'' @ b64_encode False (eh_key h)"

text \<open>
  \<^verbatim>\<open>fmt.Sscanf(s, "m=%d,t=%d,p=%d", ...)\<close>: a verb skips spaces but not line ends, takes the longest
  run of digits and fails when there is none or the number does not fit the variable; what follows
  the last verb is not looked at.
\<close>

fun skip_space :: "string \<Rightarrow> string option" where
  "skip_space [] = Some []"
| "skip_space (c # cs) =
     (if of_char c = (10::nat) then None else if is_space c then skip_space cs else Some (c # cs))"

definition scan_uint :: "nat \<Rightarrow> string \<Rightarrow> (nat \<times> string) option" where
  "scan_uint bits s =
     (case skip_space s of
        None \<Rightarrow> None
      | Some r \<Rightarrow>
          let tok = takeWhile is_digit r; n = digits_value tok
          in if tok = [] \<or> 2 ^ bits \<le> n then None else Some (n, dropWhile is_digit r))"

definition scan_field :: "string \<Rightarrow> nat \<Rightarrow> string \<Rightarrow> (nat \<times> string) option" where
  "scan_field lit bits s =
     (case CutPrefix s lit of None \<Rightarrow> None | Some r \<Rightarrow> scan_uint bits r)"

definition scan_params :: "string \<Rightarrow> (32 word \<times> 32 word \<times> 8 word) option" where
  "scan_params s =
     (case scan_field ''m='' 32 s of
        None \<Rightarrow> None
      | Some (m, r) \<Rightarrow>
          (case scan_field '',t='' 32 r of
             None \<Rightarrow> None
           | Some (t, r) \<Rightarrow>
               (case scan_field '',p='' 8 r of
                  None \<Rightarrow> None
                | Some (p, _) \<Rightarrow> Some (of_nat m, of_nat t, of_nat p))))"

definition hash_decode :: "string \<Rightarrow> encodedHash result" where
  "hash_decode s =
     (case CutPrefix s argon2idEncodingPrefix of
        None \<Rightarrow> Inl (Msg ''password: missing prefix'')
      | Some rest \<Rightarrow>
          let parts = split_on (CHR ''$'') rest
          in if length parts \<noteq> 4 \<or> parts ! 0 \<noteq> ''v=19''
             then Inl (Msg ''password: unexpected argon2id layout'')
             else (case scan_params (parts ! 1) of
                     None \<Rightarrow> Inl (Msg ''password: parse params'')
                   | Some (mem, iters, par) \<Rightarrow>
                       (case b64_decode False (parts ! 2) of
                          None \<Rightarrow> Inl (Msg ''password: decode salt'')
                        | Some salt \<Rightarrow>
                            (case b64_decode False (parts ! 3) of
                               None \<Rightarrow> Inl (Msg ''password: decode key'')
                             | Some key \<Rightarrow>
                                 Inr \<lparr>eh_memory = mem, eh_iterations = iters, eh_parallelism = par,
                                      eh_salt = salt, eh_key = key\<rparr>))))"

text \<open>The comparison collects the differences of all bytes.\<close>

definition byte_diff :: "string \<Rightarrow> string \<Rightarrow> 8 word" where
  "byte_diff a b = foldl (\<lambda>diff (x, y). diff OR (of_char x XOR of_char y)) 0 (zip a b)"

definition subtleEqual :: "string \<Rightarrow> string \<Rightarrow> bool" where
  "subtleEqual a b \<longleftrightarrow> (if length a \<noteq> length b then False else byte_diff a b = 0)"

definition Hasher_Hash :: "hasher \<Rightarrow> string \<Rightarrow> string result prog" where
  "Hasher_Hash h password = do {
     r \<leftarrow> rand_Read (hs_crypto h) (unat (hs_saltLength h));
     case r of
       Inl e \<Rightarrow> fail (Wrap ''password: generate salt'' e)
     | Inr salt \<Rightarrow>
         ok (hash_encode
           \<lparr>eh_memory = hs_memory h, eh_iterations = hs_iterations h,
            eh_parallelism = hs_parallelism h, eh_salt = salt,
            eh_key = hs_idkey h password salt (hs_iterations h) (hs_memory h) (hs_parallelism h)
                       (hs_keyLength h)\<rparr>) }"

definition Hasher_Verify :: "hasher \<Rightarrow> string \<Rightarrow> string \<Rightarrow> bool result" where
  "Hasher_Verify h password encoded =
     (case hash_decode encoded of
        Inl _ \<Rightarrow> Inl (Sentinel ErrHashMalformed)
      | Inr enc \<Rightarrow>
          Inr (subtleEqual
            (hs_idkey h password (eh_salt enc) (eh_iterations enc) (eh_memory enc)
               (eh_parallelism enc) (of_nat (length (eh_key enc))))
            (eh_key enc)))"

definition NeedsRehash :: "hasher \<Rightarrow> string \<Rightarrow> bool" where
  "NeedsRehash h encoded \<longleftrightarrow>
     (case hash_decode encoded of
        Inl _ \<Rightarrow> True
      | Inr enc \<Rightarrow>
          eh_memory enc \<noteq> hs_memory h \<or> eh_iterations enc \<noteq> hs_iterations h \<or>
          eh_parallelism enc \<noteq> hs_parallelism h \<or>
          (of_nat (length (eh_key enc)) :: 32 word) \<noteq> hs_keyLength h)"

section \<open>Strength\<close>

definition lower_rune :: "nat \<Rightarrow> bool" where
  "lower_rune r \<longleftrightarrow> 97 \<le> r \<and> r \<le> 122"

definition upper_rune :: "nat \<Rightarrow> bool" where
  "upper_rune r \<longleftrightarrow> 65 \<le> r \<and> r \<le> 90"

definition digit_rune :: "nat \<Rightarrow> bool" where
  "digit_rune r \<longleftrightarrow> 48 \<le> r \<and> r \<le> 57"

definition hasLower :: "string \<Rightarrow> bool" where
  "hasLower s = list_ex lower_rune (runes s)"

definition hasUpper :: "string \<Rightarrow> bool" where
  "hasUpper s = list_ex upper_rune (runes s)"

definition hasDigit :: "string \<Rightarrow> bool" where
  "hasDigit s = list_ex digit_rune (runes s)"

definition hasSymbol :: "string \<Rightarrow> bool" where
  "hasSymbol s = list_ex (\<lambda>r. \<not> lower_rune r \<and> \<not> upper_rune r \<and> \<not> digit_rune r) (runes s)"

definition Password_Validate :: "string \<Rightarrow> int \<Rightarrow> unit result" where
  "Password_Validate password minLength =
     (let minLength = (if minLength \<le> 0 then 12 else minLength);
          classes = (if hasLower password then 1 else 0) + (if hasUpper password then 1 else 0) +
                    (if hasDigit password then 1 else 0) + (if hasSymbol password then 1 else (0::nat))
      in if int (length (runes password)) < minLength
         then Inl (Wrap (''need at least '' @ fmt_d minLength @ '' characters'') (Sentinel ErrPasswordTooWeak))
         else if classes < 3
         then Inl (Wrap ''use a mix of letters, digits, and symbols'' (Sentinel ErrPasswordTooWeak))
         else Inr ())"

section \<open>The text form of a hash\<close>

lemma unat_of_byte: "unat (of_char c :: 8 word) = (of_char c :: nat)"
proof -
  have "(of_char c :: 8 word) = word_of_nat (of_char c)" by (rule of_nat_of_char [symmetric])
  moreover have "(of_char c :: nat) < 256" by (rule nat_of_char_less_256)
  ultimately show ?thesis by (simp only: unat_of_nat) simp
qed

lemma byte_diff_zero:
  assumes "length a = length b"
  shows "byte_diff a b = 0 \<longleftrightarrow> a = b"
proof -
  have xor: "(x XOR y = 0) \<longleftrightarrow> x = y" for x y :: "8 word"
    by (metis xor_self_eq xor.left_neutral xor.assoc)
  have acc: "foldl (\<lambda>diff (x, y). diff OR (of_char x XOR of_char y)) d (zip a b) = (0 :: 8 word)
      \<longleftrightarrow> d = 0 \<and> a = b" for d
    using assms
  proof (induction a b arbitrary: d rule: list_induct2)
    case (Cons x xs y ys)
    have inj: "(of_char x :: 8 word) = of_char y \<longleftrightarrow> x = y"
      by (metis unat_of_byte of_char_eq_iff)
    show ?case by (simp add: Cons.IH or_eq_0_iff xor inj)
  qed simp
  show ?thesis by (simp add: byte_diff_def acc)
qed

lemma subtleEqual_iff [simp]: "subtleEqual a b \<longleftrightarrow> a = b"
  by (auto simp: subtleEqual_def byte_diff_zero)

lemma skip_space_digit: "is_digit c \<Longrightarrow> skip_space (c # cs) = Some (c # cs)"
  by (auto simp: is_digit_def is_space_def)

lemma scan_uint_digits:
  assumes "n < 2 ^ bits" "rest = [] \<or> \<not> is_digit (hd rest)"
  shows "scan_uint bits (nat_digits n @ rest) = Some (n, rest)"
proof -
  obtain c cs where d: "nat_digits n = c # cs"
    using nat_digits_nonempty by (metis list.exhaust)
  then have "skip_space (nat_digits n @ rest) = Some (nat_digits n @ rest)"
    using nat_digits_digits [of n] by (simp add: skip_space_digit del: skip_space.simps)
  moreover have "takeWhile is_digit (nat_digits n @ rest) = nat_digits n"
    "dropWhile is_digit (nat_digits n @ rest) = rest"
    using nat_digits_digits [of n] assms(2)
    by (cases rest; simp add: list_all_iff takeWhile_append dropWhile_append)+
  ultimately show ?thesis
    using assms(1) by (simp add: scan_uint_def digits_value_nat_digits nat_digits_nonempty)
qed

lemma scan_field_digits:
  assumes "n < 2 ^ bits" "rest = [] \<or> \<not> is_digit (hd rest)"
  shows "scan_field lit bits (lit @ nat_digits n @ rest) = Some (n, rest)"
  using assms by (simp add: scan_field_def CutPrefix_def scan_uint_digits)

lemma scan_params_text:
  "scan_params (params_text h) = Some (eh_memory h, eh_iterations h, eh_parallelism h)"
proof -
  let ?p = "'',p='' @ nat_digits (unat (eh_parallelism h))"
  let ?t = "'',t='' @ nat_digits (unat (eh_iterations h)) @ ?p"
  have b: "unat (eh_memory h) < 2 ^ 32" "unat (eh_iterations h) < 2 ^ 32"
    "unat (eh_parallelism h) < 2 ^ 8"
    using unsigned_less [of "eh_memory h"] unsigned_less [of "eh_iterations h"]
      unsigned_less [of "eh_parallelism h"] by simp_all
  have "scan_field ''m='' 32 (params_text h) = Some (unat (eh_memory h), ?t)"
    unfolding params_text_def using b by (intro scan_field_digits) (simp_all add: is_digit_def)
  moreover have "scan_field '',t='' 32 ?t = Some (unat (eh_iterations h), ?p)"
    using b by (intro scan_field_digits) (simp_all add: is_digit_def)
  moreover have "scan_field '',p='' 8 ?p = Some (unat (eh_parallelism h), [])"
    using scan_field_digits [of "unat (eh_parallelism h)" 8 "[]" "'',p=''"] b by simp
  ultimately show ?thesis by (simp add: scan_params_def)
qed

definition no_dollar :: "string \<Rightarrow> bool" where
  "no_dollar s \<longleftrightarrow> CHR ''$'' \<notin> set s"

lemma no_dollar_b64: "no_dollar (b64_encode url s)"
proof -
  have "\<not> b64_code (CHR ''$'')" by (simp add: b64_code_def)
  then show ?thesis using b64_encode_plain [of url s] by (auto simp: no_dollar_def list_all_iff)
qed

lemma no_dollar_params: "no_dollar (params_text h)"
proof -
  have "\<not> is_digit (CHR ''$'')" by (simp add: is_digit_def)
  then have "CHR ''$'' \<notin> set (nat_digits n)" for n
    using nat_digits_digits [of n] by (auto simp: list_all_iff)
  then show ?thesis by (simp add: no_dollar_def params_text_def)
qed

lemma hash_roundtrip: "hash_decode (hash_encode h) = Inr h"
proof -
  have "split_on (CHR ''$'') (''v=19$'' @ params_text h @ ''$'' @ b64_encode False (eh_salt h) @ ''$'' @
            b64_encode False (eh_key h)) =
      [''v=19'', params_text h, b64_encode False (eh_salt h), b64_encode False (eh_key h)]"
    using no_dollar_params [of h] no_dollar_b64 [of False "eh_salt h"] no_dollar_b64 [of False "eh_key h"]
    by (simp add: no_dollar_def split_on_append split_on_none)
  then show ?thesis
    by (simp add: hash_decode_def hash_encode_def CutPrefix_def scan_params_text b64_roundtrip)
qed

lemma keeps_Hasher_Hash [keeps_rules]: "ignores_audit J \<Longrightarrow> keeps (stable J) (Hasher_Hash h p)"
  unfolding Hasher_Hash_def by (intro keeps_rules)

end
