(* ===== verification/EmailFlows.thy ===== *)
theory EmailFlows
  imports AuthRepo Password
begin

text \<open>
  \<^verbatim>\<open>auth/email/email.go\<close>: verification of addresses, password reset and change of address by
  single-use links. The sender of mail, the message catalog and the HTML template are fields of the
  service: \<open>es_text locale key args\<close> is the text of a message, \<open>es_render\<close> fills the template.
\<close>

record mail_msg =
  em_to :: string
  em_subject :: string
  em_body :: string
  em_html :: string
  em_locale :: string

record rendered_email =
  re_greeting :: string
  re_body :: string
  re_signature :: string
  re_cta_label :: string
  re_cta_link :: string
  re_locale :: string

record email_svc =
  es_hasher :: hasher
  es_signer :: signer
  es_send :: "mail_msg \<Rightarrow> unit result prog"
  es_text :: "string \<Rightarrow> string \<Rightarrow> (string \<times> string) list \<Rightarrow> string"
  es_render :: "rendered_email \<Rightarrow> string result"
  es_verify_ttl :: int
  es_reset_ttl :: int
  es_change_ttl :: int
  es_token_len :: int
  es_base_url :: string

text \<open>Events of the account flows: the user is the actor and the resource.\<close>

definition user_event :: "string \<Rightarrow> uuid option \<Rightarrow> string \<Rightarrow> meta option \<Rightarrow> audit_event" where
  "user_event action u status m =
     \<lparr>ae_tenant = None, ae_actor = u, ae_actor_type = '''', ae_action = action,
      ae_resource_type = ''user'', ae_resource = u, ae_status = status, ae_meta = m\<rparr>"

definition failEvent :: "string \<Rightarrow> uuid option \<Rightarrow> audit_event" where
  "failEvent action u = user_event action u ''failure'' None"

definition Email_send ::
  "email_svc \<Rightarrow> string \<Rightarrow> string \<Rightarrow> string \<Rightarrow> string \<Rightarrow> string \<Rightarrow> string option \<Rightarrow> unit result prog" where
  "Email_send s to locale link subjectKey bodyKey newEmail = do {
     let bodyArgs = (''Link'', link) # (case newEmail of None \<Rightarrow> [] | Some m \<Rightarrow> [(''NewEmail'', m)]);
     let subject = es_text s locale subjectKey [];
     let body = es_text s locale bodyKey bodyArgs;
     case es_render s
       \<lparr>re_greeting = es_text s locale ''auth.email_greeting'' [], re_body = body,
        re_signature = es_text s locale ''auth.email_signature'' [], re_cta_label = subject,
        re_cta_link = link, re_locale = locale\<rparr> of
       Inl e \<Rightarrow> fail (Wrap ''auth/email: render'' e)
     | Inr html \<Rightarrow>
         es_send s \<lparr>em_to = to, em_subject = subject, em_body = body, em_html = html,
                    em_locale = locale\<rparr> }"

definition issueAndSend ::
  "email_svc \<Rightarrow> user_row \<Rightarrow> string \<Rightarrow> int \<Rightarrow> string \<Rightarrow> string \<Rightarrow> string \<Rightarrow> string option \<Rightarrow>
     unit result prog" where
  "issueAndSend s user kind ttl linkPath subjectKey bodyKey newEmail = do {
     issued \<leftarrow> Signer_Issue (es_signer s) (es_token_len s);
     case issued of
       Inl e \<Rightarrow> fail (Wrap ''auth/email: issue token'' e)
     | Inr (raw, hash) \<Rightarrow>
         if kind = EmailTokenEmailChange \<and> (newEmail = None \<or> newEmail = Some '''')
         then fail (Msg ''auth/email: email-change token requires a new email'')
         else do {
           _ \<leftarrow> EmailTokens_RevokeForUser (us_id user) kind;
           now \<leftarrow> time_now;
           c \<leftarrow> EmailTokens_Create
             \<lparr>ep_user = us_id user, ep_hash = hash, ep_kind = kind, ep_new_email = newEmail,
              ep_expires = now + ttl\<rparr>;
           case c of
             Inl e \<Rightarrow> fail (Wrap ''auth/email: persist token'' e)
           | Inr _ \<Rightarrow> do {
               let recipient = (case newEmail of None \<Rightarrow> us_email user | Some m \<Rightarrow> m);
               let link = es_base_url s @ ''/'' @ linkPath @ ''?token='' @ raw;
               Email_send s recipient (us_locale user) link subjectKey bodyKey newEmail } } }"

definition SendVerification :: "email_svc \<Rightarrow> uuid \<Rightarrow> unit result prog" where
  "SendVerification s userID = do {
     r \<leftarrow> Users_GetByID userID;
     case r of
       Inl e \<Rightarrow> fail (Wrap ''auth/email: send verification lookup'' e)
     | Inr user \<Rightarrow>
         if us_verified user \<noteq> None then ok ()
         else issueAndSend s user EmailTokenVerifyEmail (es_verify_ttl s) ''verify-email''
                ''auth.email_subject_verify_email'' ''auth.email_body_verify_email'' None }"

text \<open>The row and the hash of the payload; every failure is the same error.\<close>

definition Email_lookup :: "email_svc \<Rightarrow> string \<Rightarrow> string \<Rightarrow> (email_token_row \<times> string) result prog" where
  "Email_lookup s rawToken kind =
     (case Signer_Verify (es_signer s) rawToken of
        Inl _ \<Rightarrow> fail (Sentinel EmailErrInvalidToken)
      | Inr payloadHash \<Rightarrow> do {
          r \<leftarrow> EmailTokens_GetByHash payloadHash;
          case r of
            Inl _ \<Rightarrow> fail (Sentinel EmailErrInvalidToken)
          | Inr row \<Rightarrow>
              if et_kind row \<noteq> kind then fail (Sentinel EmailErrInvalidToken)
              else do {
                now \<leftarrow> time_now;
                if et_used row \<noteq> None \<or> et_expires row < now
                then fail (Sentinel EmailErrInvalidToken)
                else ok (row, payloadHash) } })"

text \<open>A failed lookup returns the zero row, so the event of the failure names the zero UUID.\<close>

definition Email_Verify :: "email_svc \<Rightarrow> string \<Rightarrow> unit result prog" where
  "Email_Verify s rawToken = do {
     l \<leftarrow> Email_lookup s rawToken EmailTokenVerifyEmail;
     case l of
       Inl e \<Rightarrow> do {
         _ \<leftarrow> DBEmitter_Emit (failEvent ''auth.email.verify'' (Some uuid_nil));
         fail e }
     | Inr (tok, payloadHash) \<Rightarrow> do {
         c \<leftarrow> EmailTokens_Consume payloadHash;
         case c of
           Inl e \<Rightarrow> fail (Wrap ''auth/email: consume verify token'' e)
         | Inr consumed \<Rightarrow>
             if \<not> consumed then fail (Sentinel EmailErrInvalidToken)
             else do {
               v \<leftarrow> Users_VerifyEmail (et_user tok);
               case v of
                 Inl e \<Rightarrow> fail (Wrap ''auth/email: mark email verified'' e)
               | Inr _ \<Rightarrow> do {
                   _ \<leftarrow> DBEmitter_Emit
                     (user_event ''auth.email.verify'' (Some (et_user tok)) ''success'' None);
                   ok () } } } }"

definition RequestPasswordReset :: "email_svc \<Rightarrow> string \<Rightarrow> unit result prog" where
  "RequestPasswordReset s userEmail = do {
     r \<leftarrow> Users_GetByEmail userEmail;
     case r of
       Inl _ \<Rightarrow> ok ()
     | Inr user \<Rightarrow>
         issueAndSend s user EmailTokenPasswordReset (es_reset_ttl s) ''reset-password''
           ''auth.email_subject_reset_password'' ''auth.email_body_reset_password'' None }"

definition ConfirmPasswordReset :: "email_svc \<Rightarrow> string \<Rightarrow> string \<Rightarrow> unit result prog" where
  "ConfirmPasswordReset s rawToken newPassword =
     (case Password_Validate newPassword 0 of
        Inl e \<Rightarrow> fail e
      | Inr _ \<Rightarrow> do {
          l \<leftarrow> Email_lookup s rawToken EmailTokenPasswordReset;
          case l of
            Inl e \<Rightarrow> do {
              _ \<leftarrow> DBEmitter_Emit (failEvent ''auth.password.reset_confirm'' (Some uuid_nil));
              fail e }
          | Inr (tok, payloadHash) \<Rightarrow> do {
              h \<leftarrow> Hasher_Hash (es_hasher s) newPassword;
              case h of
                Inl e \<Rightarrow> fail (Wrap ''auth/email: hash new password'' e)
              | Inr hash \<Rightarrow> do {
                  c \<leftarrow> EmailTokens_Consume payloadHash;
                  case c of
                    Inl e \<Rightarrow> fail (Wrap ''auth/email: consume reset token'' e)
                  | Inr consumed \<Rightarrow>
                      if \<not> consumed then fail (Sentinel EmailErrInvalidToken)
                      else do {
                        u \<leftarrow> Users_UpdatePassword (et_user tok) hash;
                        case u of
                          Inl e \<Rightarrow> fail (Wrap ''auth/email: set password'' e)
                        | Inr _ \<Rightarrow> do {
                            _ \<leftarrow> DBEmitter_Emit (user_event ''auth.password.reset_confirm''
                                   (Some (et_user tok)) ''success'' None);
                            ok () } } } } })"

definition RequestEmailChange :: "email_svc \<Rightarrow> uuid \<Rightarrow> string \<Rightarrow> unit result prog" where
  "RequestEmailChange s userID newEmail = do {
     r \<leftarrow> Users_GetByID userID;
     case r of
       Inl e \<Rightarrow> fail (Wrap ''auth/email: email-change lookup'' e)
     | Inr user \<Rightarrow>
         issueAndSend s user EmailTokenEmailChange (es_change_ttl s) ''email-change''
           ''auth.email_subject_email_changed'' ''auth.email_body_email_changed'' (Some newEmail) }"

definition ConfirmEmailChange :: "email_svc \<Rightarrow> string \<Rightarrow> unit result prog" where
  "ConfirmEmailChange s rawToken = do {
     l \<leftarrow> Email_lookup s rawToken EmailTokenEmailChange;
     case l of
       Inl e \<Rightarrow> fail e
     | Inr (tok, payloadHash) \<Rightarrow>
         (case et_new_email tok of
            None \<Rightarrow> fail (Sentinel EmailErrInvalidToken)
          | Some newEmail \<Rightarrow>
              if newEmail = '''' then fail (Sentinel EmailErrInvalidToken)
              else do {
                c \<leftarrow> EmailTokens_Consume payloadHash;
                case c of
                  Inl e \<Rightarrow> fail (Wrap ''auth/email: consume email-change token'' e)
                | Inr consumed \<Rightarrow>
                    if \<not> consumed then fail (Sentinel EmailErrInvalidToken)
                    else do {
                      u \<leftarrow> Users_UpdateEmail (et_user tok) newEmail;
                      case u of
                        Inl e \<Rightarrow> fail (Wrap ''auth/email: update email'' e)
                      | Inr _ \<Rightarrow> do {
                          _ \<leftarrow> DBEmitter_Emit (user_event ''auth.email.change_confirm''
                                 (Some (et_user tok)) ''success'' (Some [(''new_email'', JStr newEmail)]));
                          ok () } } }) }"

end
