(* ===== verification/Sessions.thy ===== *)
theory Sessions
  imports EmailFlows
begin

text \<open>
  \<^verbatim>\<open>auth/session/session.go\<close>: registration, sign-in, sign-out, the rotation of refresh tokens with the
  detection of reuse, and the change of a password. The hooks of the service (policy of
  self-registration, provisioning of a new account, external directory) are optional fields.
\<close>

record session_svc =
  sv_hasher :: hasher
  sv_signer :: signer
  sv_mailer :: email_svc
  sv_session_lifetime :: int
  sv_refresh_lifetime :: int
  sv_token_len :: int
  sv_min_password :: int
  sv_require_verified :: bool
  sv_provisioner :: "(uuid \<Rightarrow> string \<Rightarrow> unit result prog) option"
  sv_signup_allowed :: "bool prog option"
  sv_external :: "(string \<Rightarrow> string \<Rightarrow> uuid option prog) option"

record refresh_issue =
  ri_raw :: string
  ri_family :: uuid
  ri_expires :: instant

record session_out =
  so_user :: uuid
  so_session :: uuid
  so_expires :: instant
  so_cookie :: string
  so_refresh :: refresh_issue

definition session_event :: "string \<Rightarrow> uuid \<Rightarrow> uuid \<Rightarrow> string \<Rightarrow> meta option \<Rightarrow> audit_event" where
  "session_event action u i status m =
     \<lparr>ae_tenant = None, ae_actor = Some u, ae_actor_type = '''', ae_action = action,
      ae_resource_type = ''session'', ae_resource = Some i, ae_status = status, ae_meta = m\<rparr>"

section \<open>Addresses\<close>

definition normalizeEmail :: "string \<Rightarrow> string" where
  "normalizeEmail s = ToLower (TrimSpace s)"

definition IndexByte :: "string \<Rightarrow> char \<Rightarrow> int" where
  "IndexByte s c = (if c \<in> set s then int (length (takeWhile (\<lambda>x. x \<noteq> c) s)) else - 1)"

definition isValidEmail :: "string \<Rightarrow> bool" where
  "isValidEmail s =
     (let at = IndexByte s (CHR ''@'')
      in if at \<le> 0 \<or> at = int (length s) - 1 then False
         else 0 \<le> IndexByte (drop (nat at + 1) s) (CHR ''.''))"

text \<open>The text of a unique violation names the SQL state 23505.\<close>

definition isUniqueViolationEmail :: "goerr \<Rightarrow> bool" where
  "isUniqueViolationEmail e = IsUniqueViolation e"

section \<open>Opening a session\<close>

definition issueRefresh ::
  "session_svc \<Rightarrow> uuid \<Rightarrow> uuid \<Rightarrow> uuid \<Rightarrow> string option \<Rightarrow> string option \<Rightarrow> refresh_issue result prog" where
  "issueRefresh s userID sessionID familyID ua ip = do {
     issued \<leftarrow> Signer_Issue (sv_signer s) (sv_token_len s);
     case issued of
       Inl e \<Rightarrow> fail (Wrap ''auth/session: issue refresh token'' e)
     | Inr (raw, hash) \<Rightarrow> do {
         now \<leftarrow> time_now;
         let expires = now + sv_refresh_lifetime s;
         c \<leftarrow> Tokens_CreateRefreshToken
           \<lparr>rp_user = userID, rp_session = sessionID, rp_family = familyID, rp_hash = hash,
            rp_expires = expires, rp_agent = ua, rp_ip = ip\<rparr>;
         case c of
           Inl e \<Rightarrow> fail (Wrap ''auth/session: persist refresh token'' e)
         | Inr _ \<Rightarrow> ok \<lparr>ri_raw = raw, ri_family = familyID, ri_expires = expires\<rparr> } }"

definition openSession ::
  "session_svc \<Rightarrow> uuid \<Rightarrow> string option \<Rightarrow> string option \<Rightarrow> session_out result prog" where
  "openSession s userID ua ip = do {
     now \<leftarrow> time_now;
     let expires = now + sv_session_lifetime s;
     issued \<leftarrow> Signer_Issue (sv_signer s) (sv_token_len s);
     case issued of
       Inl e \<Rightarrow> fail (Wrap ''auth/session: issue session token'' e)
     | Inr (rawCookie, cookieHash) \<Rightarrow> do {
         c \<leftarrow> Sessions_Create
           \<lparr>sp_user = userID, sp_hash = cookieHash, sp_expires = expires, sp_agent = ua, sp_ip = ip\<rparr>;
         case c of
           Inl e \<Rightarrow> fail (Wrap ''auth/session: create session'' e)
         | Inr sessRow \<Rightarrow> do {
             family \<leftarrow> uuid_New;
             r \<leftarrow> issueRefresh s userID (ss_id sessRow) family ua ip;
             case r of
               Inl e \<Rightarrow> fail e
             | Inr refresh \<Rightarrow>
                 ok \<lparr>so_user = userID, so_session = ss_id sessRow, so_expires = ss_expires sessRow,
                     so_cookie = rawCookie, so_refresh = refresh\<rparr> } } }"

definition auditFail :: "string \<Rightarrow> uuid option \<Rightarrow> unit prog" where
  "auditFail action u = do { _ \<leftarrow> DBEmitter_Emit (failEvent action u); ret () }"

section \<open>Registration\<close>

record register_input =
  rg_email :: string
  rg_password :: string
  rg_name :: "string option"
  rg_locale :: string
  rg_agent :: "string option"
  rg_ip :: "string option"

definition signup_open :: "session_svc \<Rightarrow> bool prog" where
  "signup_open s = (case sv_signup_allowed s of None \<Rightarrow> ret True | Some p \<Rightarrow> p)"

definition run_provisioner :: "session_svc \<Rightarrow> uuid \<Rightarrow> string \<Rightarrow> unit prog" where
  "run_provisioner s u email =
     (case sv_provisioner s of
        None \<Rightarrow> ret ()
      | Some p \<Rightarrow> do { _ \<leftarrow> p u email; ret () })"

definition Register :: "session_svc \<Rightarrow> register_input \<Rightarrow> session_out result prog" where
  "Register s inp = do {
     open_now \<leftarrow> signup_open s;
     if \<not> open_now then fail (Sentinel ErrRegistrationDisabled)
     else do {
       let emailNorm = normalizeEmail (rg_email inp);
       if \<not> isValidEmail emailNorm then fail (Sentinel ErrEmailInvalid)
       else (case Password_Validate (rg_password inp) (sv_min_password s) of
         Inl e \<Rightarrow> fail e
       | Inr _ \<Rightarrow> do {
           h \<leftarrow> Hasher_Hash (sv_hasher s) (rg_password inp);
           case h of
             Inl e \<Rightarrow> fail (Wrap ''auth/session: hash password'' e)
           | Inr hash \<Rightarrow> do {
               u \<leftarrow> Users_Create
                 \<lparr>cu_email = emailNorm, cu_hash = Some hash, cu_active = None, cu_name = rg_name inp,
                  cu_locale = rg_locale inp\<rparr>;
               case u of
                 Inl e \<Rightarrow>
                   if isUniqueViolationEmail e then fail (Sentinel ErrEmailTaken)
                   else fail (Wrap ''auth/session: create user'' e)
               | Inr user \<Rightarrow> do {
                   _ \<leftarrow> run_provisioner s (us_id user) emailNorm;
                   r \<leftarrow> openSession s (us_id user) (rg_agent inp) (rg_ip inp);
                   case r of
                     Inl e \<Rightarrow> fail e
                   | Inr sess \<Rightarrow> do {
                       _ \<leftarrow> SendVerification (sv_mailer s) (us_id user);
                       _ \<leftarrow> DBEmitter_Emit
                         (user_event ''auth.user.register'' (Some (us_id user)) ''success'' None);
                       ok sess } } } }) } }"

record admin_create_input =
  ac_email :: string
  ac_password :: string
  ac_name :: "string option"
  ac_locale :: string
  ac_active :: "bool option"

definition admin_password_hash :: "session_svc \<Rightarrow> string \<Rightarrow> string option result prog" where
  "admin_password_hash s pw =
     (if pw = '''' then ok None
      else (case Password_Validate pw (sv_min_password s) of
        Inl e \<Rightarrow> fail e
      | Inr _ \<Rightarrow> do {
          h \<leftarrow> Hasher_Hash (sv_hasher s) pw;
          case h of
            Inl e \<Rightarrow> fail (Wrap ''auth/session: hash password'' e)
          | Inr hash \<Rightarrow> ok (Some hash) }))"

definition AdminCreateUser :: "session_svc \<Rightarrow> admin_create_input \<Rightarrow> user_row result prog" where
  "AdminCreateUser s inp = do {
     let emailNorm = normalizeEmail (ac_email inp);
     if \<not> isValidEmail emailNorm then fail (Sentinel ErrEmailInvalid)
     else do {
       h \<leftarrow> admin_password_hash s (ac_password inp);
       case h of
         Inl e \<Rightarrow> fail e
       | Inr hash \<Rightarrow> do {
           u \<leftarrow> Users_Create
             \<lparr>cu_email = emailNorm, cu_hash = hash, cu_active = ac_active inp, cu_name = ac_name inp,
              cu_locale = ac_locale inp\<rparr>;
           case u of
             Inl e \<Rightarrow>
               if isUniqueViolationEmail e then fail (Sentinel ErrEmailTaken)
               else fail (Wrap ''auth/session: create user'' e)
           | Inr user \<Rightarrow> do {
               _ \<leftarrow> Users_VerifyEmail (us_id user);
               _ \<leftarrow> run_provisioner s (us_id user) emailNorm;
               ok user } } } }"

section \<open>Sign-in\<close>

text \<open>The user an external directory knows for the credentials, if its account is not deleted.\<close>

definition external_user :: "session_svc \<Rightarrow> string \<Rightarrow> string \<Rightarrow> user_row option prog" where
  "external_user s norm password =
     (case sv_external s of
        None \<Rightarrow> ret None
      | Some ext \<Rightarrow>
          if password = '''' then ret None
          else do {
            a \<leftarrow> ext norm password;
            case a of
              None \<Rightarrow> ret None
            | Some uid \<Rightarrow> do {
                g \<leftarrow> Users_GetByID uid;
                case g of
                  Inl _ \<Rightarrow> ret None
                | Inr u \<Rightarrow> ret (if us_deleted u = None then Some u else None) } })"

definition account_checks :: "session_svc \<Rightarrow> user_row \<Rightarrow> bool \<Rightarrow> (user_row \<times> bool) result prog" where
  "account_checks s user viaLocal =
     (if \<not> us_active user then do {
        _ \<leftarrow> auditFail ''auth.user.login'' (Some (us_id user));
        fail (Sentinel ErrUserInactive) }
      else if sv_require_verified s \<and> us_verified user = None then do {
        _ \<leftarrow> auditFail ''auth.user.login'' (Some (us_id user));
        fail (Sentinel ErrEmailUnverified) }
      else ok (user, viaLocal))"

definition local_match :: "session_svc \<Rightarrow> user_row result \<Rightarrow> string \<Rightarrow> bool" where
  "local_match s found password =
     (case found of
        Inl _ \<Rightarrow> False
      | Inr user \<Rightarrow>
          (case us_hash user of
             None \<Rightarrow> False
           | Some h \<Rightarrow> Hasher_Verify (sv_hasher s) password h = Inr True))"

definition verifyCredentials ::
  "session_svc \<Rightarrow> string \<Rightarrow> string \<Rightarrow> (user_row \<times> bool) result prog" where
  "verifyCredentials s email password = do {
     let norm = normalizeEmail email;
     found \<leftarrow> Users_GetByEmail norm;
     let viaLocal = local_match s found password;
     ext \<leftarrow> (if viaLocal then ret None else external_user s norm password);
     case ext of
       Some u \<Rightarrow> account_checks s u viaLocal
     | None \<Rightarrow>
         (case found of
            Inl _ \<Rightarrow> do {
              _ \<leftarrow> auditFail ''auth.user.login'' None;
              fail (Sentinel ErrInvalidCredentials) }
          | Inr user \<Rightarrow>
              if viaLocal then account_checks s user viaLocal
              else do {
                _ \<leftarrow> auditFail ''auth.user.login'' (Some (us_id user));
                fail (Sentinel ErrInvalidCredentials) }) }"

definition VerifyCredentials :: "session_svc \<Rightarrow> string \<Rightarrow> string \<Rightarrow> user_row result prog" where
  "VerifyCredentials s email password = do {
     r \<leftarrow> verifyCredentials s email password;
     case r of Inl e \<Rightarrow> fail e | Inr (user, _) \<Rightarrow> ok user }"

definition rehash :: "session_svc \<Rightarrow> user_row \<Rightarrow> bool \<Rightarrow> string \<Rightarrow> unit prog" where
  "rehash s user viaLocal password =
     (case us_hash user of
        None \<Rightarrow> ret ()
      | Some h \<Rightarrow>
          if viaLocal \<and> NeedsRehash (sv_hasher s) h
          then do {
            n \<leftarrow> Hasher_Hash (sv_hasher s) password;
            case n of
              Inl _ \<Rightarrow> ret ()
            | Inr newHash \<Rightarrow> do { _ \<leftarrow> Users_UpdatePassword (us_id user) newHash; ret () } }
          else ret ())"

record login_input =
  li_email :: string
  li_password :: string
  li_agent :: "string option"
  li_ip :: "string option"

definition Login :: "session_svc \<Rightarrow> login_input \<Rightarrow> session_out result prog" where
  "Login s inp = do {
     v \<leftarrow> verifyCredentials s (li_email inp) (li_password inp);
     case v of
       Inl e \<Rightarrow> fail e
     | Inr (user, viaLocal) \<Rightarrow> do {
         _ \<leftarrow> rehash s user viaLocal (li_password inp);
         r \<leftarrow> openSession s (us_id user) (li_agent inp) (li_ip inp);
         case r of
           Inl e \<Rightarrow> fail e
         | Inr sess \<Rightarrow> do {
             _ \<leftarrow> DBEmitter_Emit
               (session_event ''auth.user.login'' (us_id user) (so_session sess) ''success'' None);
             ok sess } } }"

definition OpenForExistingUser ::
  "session_svc \<Rightarrow> uuid \<Rightarrow> string option \<Rightarrow> string option \<Rightarrow> session_out result prog" where
  "OpenForExistingUser s userID ua ip = do {
     g \<leftarrow> Users_GetByID userID;
     case g of
       Inl e \<Rightarrow> fail (Wrap ''auth/session: load user for idp login'' e)
     | Inr user \<Rightarrow>
         if \<not> us_active user then do {
           _ \<leftarrow> auditFail ''auth.user.login'' (Some (us_id user));
           fail (Sentinel ErrUserInactive) }
         else do {
           r \<leftarrow> openSession s (us_id user) ua ip;
           case r of
             Inl e \<Rightarrow> fail e
           | Inr sess \<Rightarrow> do {
               _ \<leftarrow> DBEmitter_Emit
                 (session_event ''auth.idp.login'' (us_id user) (so_session sess) ''success''
                    (Some [(''via'', JStr ''external_idp'')]));
               ok sess } } }"

section \<open>Sign-out and refresh\<close>

definition Logout :: "session_svc \<Rightarrow> string \<Rightarrow> unit result prog" where
  "Logout s rawRefresh =
     (case Signer_Verify (sv_signer s) rawRefresh of
        Inl _ \<Rightarrow> ok ()
      | Inr hash \<Rightarrow> do {
          g \<leftarrow> Tokens_GetRefreshTokenByHash hash;
          case g of
            Inl _ \<Rightarrow> ok ()
          | Inr rt \<Rightarrow> do {
              _ \<leftarrow> Tokens_RevokeRefreshTokenFamily (rt_family rt);
              _ \<leftarrow> Sessions_Revoke (rt_session rt);
              _ \<leftarrow> DBEmitter_Emit
                (session_event ''auth.user.logout'' (rt_user rt) (rt_session rt) ''success'' None);
              ok () } })"

definition continueSession ::
  "session_svc \<Rightarrow> refresh_row \<Rightarrow> string option \<Rightarrow> string option \<Rightarrow> session_out result prog" where
  "continueSession s rt ua ip = do {
     g \<leftarrow> Sessions_Get (rt_session rt);
     case g of
       Inl e \<Rightarrow> fail (Wrap ''auth/session: load session on refresh'' e)
     | Inr sessRow \<Rightarrow> do {
         r \<leftarrow> issueRefresh s (rt_user rt) (rt_session rt) (rt_family rt) ua ip;
         case r of
           Inl e \<Rightarrow> fail e
         | Inr refresh \<Rightarrow>
             ok \<lparr>so_user = rt_user rt, so_session = ss_id sessRow, so_expires = ss_expires sessRow,
                 so_cookie = '''', so_refresh = refresh\<rparr> } }"

definition Refresh ::
  "session_svc \<Rightarrow> string \<Rightarrow> string option \<Rightarrow> string option \<Rightarrow> session_out result prog" where
  "Refresh s rawRefresh ua ip =
     (case Signer_Verify (sv_signer s) rawRefresh of
        Inl _ \<Rightarrow> fail (Sentinel ErrInvalidToken)
      | Inr hash \<Rightarrow> do {
          g \<leftarrow> Tokens_GetRefreshTokenByHash hash;
          case g of
            Inl _ \<Rightarrow> fail (Sentinel ErrInvalidToken)
          | Inr rt \<Rightarrow>
              if rt_revoked rt \<noteq> None then do {
                _ \<leftarrow> Tokens_RevokeRefreshTokenFamily (rt_family rt);
                _ \<leftarrow> Sessions_Revoke (rt_session rt);
                _ \<leftarrow> DBEmitter_Emit
                  (session_event ''auth.session.refresh_reuse'' (rt_user rt) (rt_session rt)
                     ''failure'' None);
                fail (Sentinel ErrRefreshReuse) }
              else do {
                now \<leftarrow> time_now;
                if rt_expires rt < now then do {
                  _ \<leftarrow> Tokens_RevokeRefreshToken hash;
                  fail (Sentinel ErrInvalidToken) }
                else do {
                  _ \<leftarrow> Tokens_RevokeRefreshToken hash;
                  r \<leftarrow> continueSession s rt ua ip;
                  case r of
                    Inl e \<Rightarrow> fail e
                  | Inr sess \<Rightarrow> do {
                      _ \<leftarrow> DBEmitter_Emit
                        (session_event ''auth.session.refresh'' (rt_user rt) (so_session sess)
                           ''success'' None);
                      ok sess } } } })"

section \<open>Change of password\<close>

definition ChangePassword :: "session_svc \<Rightarrow> uuid \<Rightarrow> string \<Rightarrow> string \<Rightarrow> unit result prog" where
  "ChangePassword s userID currentPassword newPassword =
     (case Password_Validate newPassword (sv_min_password s) of
        Inl e \<Rightarrow> fail e
      | Inr _ \<Rightarrow> do {
          g \<leftarrow> Users_GetByID userID;
          case g of
            Inl _ \<Rightarrow> fail (Sentinel ErrInvalidCredentials)
          | Inr user \<Rightarrow>
              (case us_hash user of
                 None \<Rightarrow> fail (Sentinel ErrInvalidCredentials)
               | Some h \<Rightarrow>
                   if Hasher_Verify (sv_hasher s) currentPassword h \<noteq> Inr True
                   then fail (Sentinel ErrInvalidCredentials)
                   else do {
                     n \<leftarrow> Hasher_Hash (sv_hasher s) newPassword;
                     case n of
                       Inl e \<Rightarrow> fail (Wrap ''auth/session: hash new password'' e)
                     | Inr hash \<Rightarrow> do {
                         u \<leftarrow> Users_UpdatePassword userID hash;
                         case u of
                           Inl e \<Rightarrow> fail (Wrap ''auth/session: set password'' e)
                         | Inr _ \<Rightarrow> do {
                             _ \<leftarrow> DBEmitter_Emit
                               (user_event ''auth.password.change'' (Some userID) ''success'' None);
                             ok () } } }) })"

end
