(* ===== verification/Principals.thy ===== *)
theory Principals
  imports Sessions Gate
begin

text \<open>
  Who a request speaks for: personal access tokens (\<^verbatim>\<open>auth/pat/pat.go\<close>), the check of a token's owner
  that \<^verbatim>\<open>program.go\<close> installs, and the tenant and authentication slots of the middleware
  (\<^verbatim>\<open>api/middleware/tenant.go\<close>, \<^verbatim>\<open>auth.go\<close>), which fill the locals the permission gate reads.
\<close>

section \<open>Personal access tokens\<close>

record pat_svc =
  pv_signer :: signer
  pv_prefix :: string
  pv_byte_len :: int
  pv_max_expiry :: int
  pv_user_ok :: "(uuid \<Rightarrow> bool prog) option"

record pat_input =
  pi_user :: uuid
  pi_name :: string
  pi_scopes :: "string list"
  pi_expires :: "instant option"

fun validateScopes :: "string list \<Rightarrow> unit result" where
  "validateScopes [] = Inr ()"
| "validateScopes (sc # scs) =
     (if TrimSpace sc = '''' then Inl (Sentinel ErrInvalidScope)
      else if \<not> Contains (TrimSpace sc) ''.'' then Inl (Sentinel ErrInvalidScope)
      else validateScopes scs)"

definition pat_event :: "string \<Rightarrow> uuid \<Rightarrow> uuid \<Rightarrow> meta option \<Rightarrow> audit_event" where
  "pat_event action u i m =
     \<lparr>ae_tenant = None, ae_actor = Some u, ae_actor_type = '''', ae_action = action,
      ae_resource_type = ''personal_access_token'', ae_resource = Some i, ae_status = ''success'',
      ae_meta = m\<rparr>"

definition capped_expiry :: "pat_svc \<Rightarrow> instant option \<Rightarrow> instant option prog" where
  "capped_expiry s e =
     (case e of
        None \<Rightarrow> ret None
      | Some t \<Rightarrow>
          if 0 < pv_max_expiry s then do {
            now \<leftarrow> time_now;
            let deadline = now + pv_max_expiry s;
            ret (if deadline < t then Some deadline else Some t) }
          else ret (Some t))"

definition PAT_Create :: "pat_svc \<Rightarrow> pat_input \<Rightarrow> (pat_row \<times> string) result prog" where
  "PAT_Create s inp = do {
     let name = TrimSpace (pi_name inp);
     if name = '''' then fail (Sentinel ErrPATNameRequired)
     else (case validateScopes (pi_scopes inp) of
       Inl e \<Rightarrow> fail e
     | Inr _ \<Rightarrow> do {
         expires \<leftarrow> capped_expiry s (pi_expires inp);
         issued \<leftarrow> Signer_Issue (pv_signer s) (pv_byte_len s);
         case issued of
           Inl e \<Rightarrow> fail (Wrap ''auth/pat: issue token'' e)
         | Inr (raw, hash) \<Rightarrow> do {
             let display = (if pv_prefix s \<noteq> '''' then pv_prefix s @ raw else raw);
             c \<leftarrow> Tokens_CreatePAT
               \<lparr>tk_user = pi_user inp, tk_name = name, tk_hash = hash, tk_expires = expires,
                tk_scopes = pi_scopes inp\<rparr>;
             case c of
               Inl e \<Rightarrow> fail (Wrap ''auth/pat: persist token'' e)
             | Inr row \<Rightarrow> do {
                 _ \<leftarrow> DBEmitter_Emit (pat_event ''auth.pat.create'' (pi_user inp) (pt_id row)
                        (Some [(''name'', JStr name), (''scopes'', JStrs (pi_scopes inp))]));
                 ok (row, display) } } }) }"

definition PAT_List :: "uuid \<Rightarrow> pat_row list result prog" where
  "PAT_List userID = do {
     r \<leftarrow> Tokens_ListPATsForUser userID;
     case r of Inl e \<Rightarrow> fail (Wrap ''auth/pat: list'' e) | Inr rows \<Rightarrow> ok rows }"

definition PAT_Revoke :: "uuid \<Rightarrow> uuid \<Rightarrow> unit result prog" where
  "PAT_Revoke i userID = do {
     g \<leftarrow> Tokens_GetPATByID i;
     case g of
       Inl _ \<Rightarrow> fail (Sentinel ErrPATNotFound)
     | Inr row \<Rightarrow>
         if pt_user row \<noteq> userID then fail (Sentinel ErrPATNotFound)
         else do {
           r \<leftarrow> Tokens_RevokePATByID i userID;
           case r of
             Inl e \<Rightarrow> fail (Wrap ''auth/pat: revoke'' e)
           | Inr _ \<Rightarrow> do {
               _ \<leftarrow> DBEmitter_Emit (pat_event ''auth.pat.revoke'' userID i None);
               ok () } } }"

definition TrimPrefix :: "string \<Rightarrow> string \<Rightarrow> string" where
  "TrimPrefix s p = (if HasPrefix s p then drop (length p) s else s)"

definition owner_ok :: "pat_svc \<Rightarrow> uuid \<Rightarrow> bool prog" where
  "owner_ok s u = (case pv_user_ok s of None \<Rightarrow> ret True | Some f \<Rightarrow> f u)"

definition PAT_Authenticate :: "pat_svc \<Rightarrow> string \<Rightarrow> (uuid \<times> string list) result prog" where
  "PAT_Authenticate s displayToken =
     (case Signer_Verify (pv_signer s) (TrimPrefix displayToken (pv_prefix s)) of
        Inl _ \<Rightarrow> fail (Sentinel ErrPATNotFound)
      | Inr hash \<Rightarrow> do {
          g \<leftarrow> Tokens_GetPATByHash hash;
          case g of
            Inl _ \<Rightarrow> fail (Sentinel ErrPATNotFound)
          | Inr row \<Rightarrow>
              if pt_revoked row \<noteq> None then fail (Sentinel ErrPATNotFound)
              else do {
                now \<leftarrow> time_now;
                if (case pt_expires row of None \<Rightarrow> False | Some e \<Rightarrow> e < now)
                then fail (Sentinel ErrPATNotFound)
                else do {
                  good \<leftarrow> owner_ok s (pt_user row);
                  if \<not> good then fail (Sentinel ErrPATNotFound)
                  else do {
                    _ \<leftarrow> Tokens_TouchPAT hash;
                    _ \<leftarrow> DBEmitter_Emit (pat_event ''auth.pat.use'' (pt_user row) (pt_id row) None);
                    ok (pt_user row, pt_scopes row) } } } })"

text \<open>The check \<^verbatim>\<open>program.go\<close> installs with \<^verbatim>\<open>WithUserChecker\<close>.\<close>

definition user_checker :: "uuid \<Rightarrow> bool prog" where
  "user_checker i = do {
     g \<leftarrow> Users_GetByID i;
     ret (case g of Inl _ \<Rightarrow> False | Inr u \<Rightarrow> us_active u \<and> us_deleted u = None) }"

section \<open>The tenant slot\<close>

text \<open>
  A request as the two slots see it; a missing header, query value or cookie is the empty string.
  \<open>parse\<close> is \<^verbatim>\<open>uuid.Parse\<close>.
\<close>

record request =
  rq_tenant_header :: string
  rq_tenant_query :: string
  rq_slug_header :: string
  rq_session_cookie :: string
  rq_authorization :: string

definition TenantWithResolver ::
  "(string \<Rightarrow> uuid option) \<Rightarrow> bool \<Rightarrow> request \<Rightarrow> locals \<Rightarrow> locals prog" where
  "TenantWithResolver parse wired rq lo =
     (let by_header = (if rq_tenant_header rq = '''' then None else parse (rq_tenant_header rq));
          by_query = (if rq_tenant_query rq = '''' then None else parse (rq_tenant_query rq))
      in case by_header of
           Some i \<Rightarrow> ret (lo\<lparr>lo_tenant := Some i\<rparr>)
         | None \<Rightarrow>
             (case by_query of
                Some i \<Rightarrow> ret (lo\<lparr>lo_tenant := Some i\<rparr>)
              | None \<Rightarrow>
                  if wired \<and> rq_slug_header rq \<noteq> '''' then do {
                    g \<leftarrow> Tenants_GetBySlug (rq_slug_header rq);
                    ret (case g of Inl _ \<Rightarrow> lo | Inr t \<Rightarrow> lo\<lparr>lo_tenant := Some (tn_id t)\<rparr>) }
                  else ret lo))"

section \<open>The authentication slot\<close>

record auth_resolver =
  rs_session_name :: string
  rs_signer :: "signer option"
  rs_sessions :: bool
  rs_pat :: "pat_svc option"

text \<open>
  The user of a session cookie, and the session whose last use a goroutine records in its own
  time: \<open>touchSession\<close> is a transaction of another request's schedule.
\<close>

definition resolveSession :: "signer \<Rightarrow> string \<Rightarrow> (uuid \<times> uuid) option prog" where
  "resolveSession sg raw =
     (case Signer_Verify sg raw of
        Inl _ \<Rightarrow> ret None
      | Inr hash \<Rightarrow> do {
          g \<leftarrow> Sessions_GetByTokenHash hash;
          case g of
            Inl _ \<Rightarrow> ret None
          | Inr sess \<Rightarrow>
              if ss_revoked sess \<noteq> None then ret None
              else do {
                now \<leftarrow> time_now;
                if ss_expires sess < now then ret None
                else ret (Some (ss_user sess, ss_id sess)) } })"

definition touchSession :: "uuid \<Rightarrow> unit prog" where
  "touchSession i = do { _ \<leftarrow> Sessions_Touch i; ret () }"

definition session_principal :: "auth_resolver \<Rightarrow> request \<Rightarrow> (uuid \<times> uuid) option prog" where
  "session_principal r rq =
     (case rs_signer r of
        None \<Rightarrow> ret None
      | Some sg \<Rightarrow>
          if rs_session_name r \<noteq> '''' \<and> rs_sessions r \<and> rq_session_cookie rq \<noteq> ''''
          then resolveSession sg (rq_session_cookie rq)
          else ret None)"

definition bearer_principal :: "auth_resolver \<Rightarrow> request \<Rightarrow> (uuid \<times> string list) option prog" where
  "bearer_principal r rq =
     (if HasPrefix (rq_authorization rq) ''Bearer ''
      then let token = TrimSpace (TrimPrefix (rq_authorization rq) ''Bearer '')
           in case rs_pat r of
                None \<Rightarrow> ret None
              | Some s \<Rightarrow>
                  if token = '''' then ret None
                  else do {
                    a \<leftarrow> PAT_Authenticate s token;
                    ret (case a of Inl _ \<Rightarrow> None | Inr p \<Rightarrow> Some p) }
      else ret None)"

text \<open>The locals of the request and the sessions its goroutines touch.\<close>

definition AuthWithResolver :: "auth_resolver \<Rightarrow> request \<Rightarrow> locals \<Rightarrow> (locals \<times> uuid list) prog" where
  "AuthWithResolver r rq lo = do {
     c \<leftarrow> session_principal r rq;
     case c of
       Some (uid, sid) \<Rightarrow> ret (lo\<lparr>lo_user := Some uid\<rparr>, [sid])
     | None \<Rightarrow> do {
         b \<leftarrow> bearer_principal r rq;
         case b of
           Some (uid, scopes) \<Rightarrow> ret (lo\<lparr>lo_user := Some uid, lo_scopes := Some scopes\<rparr>, [])
         | None \<Rightarrow> ret (lo, []) } }"

end
