(* ===== verification/AuthHttp.thy ===== *)
theory AuthHttp
  imports Principals
begin

text \<open>
  The handlers of \<^verbatim>\<open>api/auth_handlers.go\<close> and \<^verbatim>\<open>api/admin_users_handlers.go\<close> around sessions, tokens and
  accounts, the cookies they set (\<^verbatim>\<open>api/cookies.go\<close>) and the envelope of errors (\<^verbatim>\<open>api/errors.go\<close>).
  A request body that does not parse is \<open>None\<close>; a message is the key of its translation. The
  listing of users and the multi-factor branch of the sign-in handler are not modelled.
\<close>

section \<open>Replies\<close>

record cookie =
  ck_name :: string
  ck_value :: string
  ck_max_age :: int

datatype 'a http_body = Failure string string | Message string | Body 'a | NoBody

record 'a http =
  ht_status :: nat
  ht_body :: "'a http_body"
  ht_cookies :: "cookie list"

definition SendError :: "nat \<Rightarrow> string \<Rightarrow> string \<Rightarrow> 'a http" where
  "SendError status code msg = \<lparr>ht_status = status, ht_body = Failure code msg, ht_cookies = []\<rparr>"

definition SendBadRequest :: "string \<Rightarrow> 'a http" where
  "SendBadRequest = SendError 400 ''bad_request''"

definition SendUnauthorized :: "string \<Rightarrow> 'a http" where
  "SendUnauthorized = SendError 401 ''unauthorized''"

definition SendNotFound :: "string \<Rightarrow> 'a http" where
  "SendNotFound = SendError 404 ''not_found''"

definition SendInternal :: "string \<Rightarrow> 'a http" where
  "SendInternal = SendError 500 ''internal''"

definition reply_message :: "string \<Rightarrow> 'a http" where
  "reply_message key = \<lparr>ht_status = 200, ht_body = Message key, ht_cookies = []\<rparr>"

definition reply_body :: "nat \<Rightarrow> 'a \<Rightarrow> 'a http" where
  "reply_body status x = \<lparr>ht_status = status, ht_body = Body x, ht_cookies = []\<rparr>"

definition mapAuthError :: "goerr \<Rightarrow> 'a http" where
  "mapAuthError e =
     (if errors_is e ErrInvalidCredentials then SendError 401 ''unauthorized'' ''auth.err_invalid_credentials''
      else if errors_is e ErrEmailTaken then SendError 409 ''conflict'' ''auth.err_email_taken''
      else if errors_is e ErrUserInactive then SendError 403 ''forbidden'' ''auth.err_user_inactive''
      else if errors_is e ErrEmailUnverified then SendError 403 ''forbidden'' ''auth.err_email_unverified''
      else if errors_is e ErrRefreshReuse then SendError 401 ''unauthorized'' ''auth.err_refresh_reuse''
      else if errors_is e ErrInvalidToken \<or> errors_is e EmailErrInvalidToken
      then SendError 401 ''unauthorized'' ''auth.err_invalid_token''
      else if errors_is e ErrRegistrationDisabled
      then SendError 403 ''registration_disabled'' ''auth.err_registration_disabled''
      else if errors_is e ErrEmailInvalid then SendBadRequest ''auth.err_email_invalid''
      else if errors_is e ErrPasswordTooWeak then SendError 400 ''bad_request'' ''auth.err_password_too_weak''
      else if errors_is e ErrPATNameRequired then SendBadRequest ''auth.err_pat_name_required''
      else if errors_is e ErrInvalidScope then SendBadRequest ''auth.err_scopes_invalid''
      else if errors_is e ErrPATNotFound then SendNotFound ''auth.err_pat_not_found''
      else SendInternal ''auth.err_internal'')"

section \<open>Cookies\<close>

record cookie_config =
  cc_session_name :: string
  cc_refresh_name :: string
  cc_session_age :: int
  cc_refresh_age :: int

definition setSessionCookie :: "cookie_config \<Rightarrow> string \<Rightarrow> string \<Rightarrow> cookie list" where
  "setSessionCookie cfg sessionValue refreshValue =
     (if cc_session_name cfg \<noteq> '''' \<and> sessionValue \<noteq> ''''
      then [\<lparr>ck_name = cc_session_name cfg, ck_value = sessionValue, ck_max_age = cc_session_age cfg\<rparr>]
      else []) @
     (if cc_refresh_name cfg \<noteq> '''' \<and> refreshValue \<noteq> ''''
      then [\<lparr>ck_name = cc_refresh_name cfg, ck_value = refreshValue, ck_max_age = cc_refresh_age cfg\<rparr>]
      else [])"

definition clearSessionCookie :: "cookie_config \<Rightarrow> cookie list" where
  "clearSessionCookie cfg =
     map (\<lambda>name. \<lparr>ck_name = name, ck_value = '''', ck_max_age = - 1\<rparr>)
       (filter (\<lambda>name. name \<noteq> '''') [cc_session_name cfg, cc_refresh_name cfg])"

definition with_cookies :: "cookie list \<Rightarrow> 'a http \<Rightarrow> 'a http" where
  "with_cookies cs r = r\<lparr>ht_cookies := cs @ ht_cookies r\<rparr>"

section \<open>The signed-in user\<close>

definition currentUserID :: "locals \<Rightarrow> uuid option" where
  "currentUserID lo = (case lo_user lo of None \<Rightarrow> None | Some u \<Rightarrow> if u = uuid_nil then None else Some u)"

definition requireUser :: "locals \<Rightarrow> (uuid \<Rightarrow> 'a http prog) \<Rightarrow> 'a http prog" where
  "requireUser lo k =
     (case currentUserID lo of None \<Rightarrow> ret (SendUnauthorized ''auth.err_unauthorized'') | Some u \<Rightarrow> k u)"

record user_dto =
  ud_id :: uuid
  ud_email :: string
  ud_name :: "string option"
  ud_memberships :: "(uuid \<times> string) list"

text \<open>Role slugs come from one listing of the roles; a role that is not in it has the empty slug.\<close>

definition membership_dto :: "role_row list \<Rightarrow> member_row \<Rightarrow> uuid \<times> string" where
  "membership_dto rs m =
     (mb_tenant m,
      (case mb_role m of
         None \<Rightarrow> ''''
       | Some i \<Rightarrow> (case find (\<lambda>r. rl_id r = i) rs of None \<Rightarrow> '''' | Some r \<Rightarrow> rl_slug r)))"

definition toUserDTO :: "user_row \<Rightarrow> user_dto prog" where
  "toUserDTO u = do {
     let out = \<lparr>ud_id = us_id u, ud_email = us_email u, ud_name = us_name u, ud_memberships = []\<rparr>;
     g \<leftarrow> Members_ListForUser (us_id u);
     case g of
       Inl _ \<Rightarrow> ret out
     | Inr rows \<Rightarrow>
         if rows = [] then ret out
         else do {
           l \<leftarrow> RBAC_ListRoles;
           let rs = (case l of Inl _ \<Rightarrow> [] | Inr rs \<Rightarrow> rs);
           ret (out\<lparr>ud_memberships := map (membership_dto rs) rows\<rparr>) } }"

text \<open>The tail of the handlers that open or continue a session: the cookies, then the user.\<close>

definition session_reply :: "cookie_config \<Rightarrow> nat \<Rightarrow> session_out \<Rightarrow> user_dto http prog" where
  "session_reply cfg status sess = do {
     let cs = setSessionCookie cfg (so_cookie sess) (ri_raw (so_refresh sess));
     g \<leftarrow> Users_GetByID (so_user sess);
     case g of
       Inl _ \<Rightarrow> ret (with_cookies cs (SendInternal ''auth.err_internal''))
     | Inr user \<Rightarrow> do {
         dto \<leftarrow> toUserDTO user;
         ret (with_cookies cs (reply_body status dto)) } }"

section \<open>Sessions and account flows\<close>

definition strOr :: "string option \<Rightarrow> string \<Rightarrow> string" where
  "strOr s def = (case s of None \<Rightarrow> def | Some x \<Rightarrow> if x = '''' then def else x)"

definition Register_handler ::
  "session_svc \<Rightarrow> cookie_config \<Rightarrow> register_input option \<Rightarrow> user_dto http prog" where
  "Register_handler s cfg req =
     (case req of
        None \<Rightarrow> ret (SendBadRequest ''auth.err_bad_request'')
      | Some inp \<Rightarrow> do {
          r \<leftarrow> Register s (inp\<lparr>rg_locale := (if rg_locale inp = '''' then ''en'' else rg_locale inp)\<rparr>);
          case r of
            Inl e \<Rightarrow> ret (mapAuthError e)
          | Inr sess \<Rightarrow> session_reply cfg 201 sess })"

definition Logout_handler ::
  "session_svc \<Rightarrow> cookie_config \<Rightarrow> string option \<Rightarrow> string \<Rightarrow> user_dto http prog" where
  "Logout_handler s cfg bodyToken refreshCookie = do {
     let raw = (if strOr bodyToken '''' = '''' then refreshCookie else strOr bodyToken '''');
     if raw = ''''
     then ret (with_cookies (clearSessionCookie cfg) (reply_message ''auth.msg_logged_out''))
     else do {
       _ \<leftarrow> Logout s raw;
       ret (with_cookies (clearSessionCookie cfg) (reply_message ''auth.msg_logged_out'')) } }"

definition Refresh_handler ::
  "session_svc \<Rightarrow> cookie_config \<Rightarrow> string option \<Rightarrow> string \<Rightarrow> string option \<Rightarrow> string option \<Rightarrow>
     user_dto http prog" where
  "Refresh_handler s cfg bodyToken refreshCookie ua ip = do {
     let raw = (if strOr bodyToken '''' = '''' then refreshCookie else strOr bodyToken '''');
     if raw = '''' then ret (SendUnauthorized ''auth.err_invalid_token'')
     else do {
       r \<leftarrow> Refresh s raw ua ip;
       case r of
         Inl e \<Rightarrow> ret (with_cookies (clearSessionCookie cfg) (mapAuthError e))
       | Inr sess \<Rightarrow> session_reply cfg 200 sess } }"

definition VerifyEmail_handler :: "email_svc \<Rightarrow> string option \<Rightarrow> unit http prog" where
  "VerifyEmail_handler s token =
     (if strOr token '''' = '''' then ret (SendBadRequest ''auth.err_bad_request'')
      else do {
        r \<leftarrow> Email_Verify s (strOr token '''');
        ret (case r of Inl e \<Rightarrow> mapAuthError e | Inr _ \<Rightarrow> reply_message ''auth.msg_email_verified'') })"

definition ResendVerification_handler :: "email_svc \<Rightarrow> string option \<Rightarrow> unit http prog" where
  "ResendVerification_handler s req =
     (case req of
        None \<Rightarrow> ret (SendBadRequest ''auth.err_bad_request'')
      | Some email \<Rightarrow> do {
          g \<leftarrow> Users_GetByEmail email;
          case g of
            Inl _ \<Rightarrow> ret (reply_message ''auth.msg_email_sent'')
          | Inr u \<Rightarrow> do {
              _ \<leftarrow> SendVerification s (us_id u);
              ret (reply_message ''auth.msg_email_sent'') } })"

definition RequestPasswordReset_handler :: "email_svc \<Rightarrow> string option \<Rightarrow> unit http prog" where
  "RequestPasswordReset_handler s req =
     (case req of
        None \<Rightarrow> ret (SendBadRequest ''auth.err_bad_request'')
      | Some email \<Rightarrow> do {
          _ \<leftarrow> RequestPasswordReset s email;
          ret (reply_message ''auth.msg_email_sent'') })"

definition ConfirmPasswordReset_handler ::
  "email_svc \<Rightarrow> (string \<times> string) option \<Rightarrow> unit http prog" where
  "ConfirmPasswordReset_handler s req =
     (case req of
        None \<Rightarrow> ret (SendBadRequest ''auth.err_bad_request'')
      | Some (token, newPassword) \<Rightarrow>
          if token = '''' \<or> newPassword = '''' then ret (SendBadRequest ''auth.err_bad_request'')
          else do {
            r \<leftarrow> ConfirmPasswordReset s token newPassword;
            ret (case r of Inl e \<Rightarrow> mapAuthError e | Inr _ \<Rightarrow> reply_message ''auth.msg_password_reset'') })"

section \<open>Personal access tokens\<close>

definition CreatePersonalAccessToken ::
  "pat_svc \<Rightarrow> locals \<Rightarrow> pat_input option \<Rightarrow> (pat_row \<times> string option) http prog" where
  "CreatePersonalAccessToken s lo req = requireUser lo (\<lambda>uid.
     (case req of
        None \<Rightarrow> ret (SendBadRequest ''auth.err_bad_request'')
      | Some inp \<Rightarrow> do {
          r \<leftarrow> PAT_Create s (inp\<lparr>pi_user := uid\<rparr>);
          ret (case r of
                 Inl e \<Rightarrow> mapAuthError e
               | Inr (row, raw) \<Rightarrow> reply_body 201 (row, Some raw)) }))"

definition ListPersonalAccessTokens ::
  "locals \<Rightarrow> (pat_row \<times> string option) list http prog" where
  "ListPersonalAccessTokens lo = requireUser lo (\<lambda>uid. do {
     r \<leftarrow> PAT_List uid;
     ret (case r of
            Inl e \<Rightarrow> SendInternal ''auth.err_internal''
          | Inr rows \<Rightarrow> reply_body 200 (map (\<lambda>p. (p, None)) rows)) })"

definition DeletePersonalAccessToken :: "locals \<Rightarrow> uuid \<Rightarrow> unit http prog" where
  "DeletePersonalAccessToken lo tokenID = requireUser lo (\<lambda>uid. do {
     r \<leftarrow> PAT_Revoke tokenID uid;
     ret (case r of
            Inl e \<Rightarrow> if errors_is e ErrPATNotFound then SendNotFound ''auth.err_pat_not_found''
                      else mapAuthError e
          | Inr _ \<Rightarrow> reply_message ''auth.msg_pat_revoked'') })"

section \<open>Administration of users\<close>

text \<open>
  \<open>dtos\<close> renders a user with the names of its tenants and the directory it comes from: two
  queries that only read.
\<close>

definition activeUser :: "uuid \<Rightarrow> user_row result prog" where
  "activeUser i = do {
     g \<leftarrow> Users_GetByID i;
     case g of
       Inl e \<Rightarrow> if IsNoRows e then fail (Sentinel ErrAdminUserNotFound) else fail e
     | Inr u \<Rightarrow> if us_deleted u \<noteq> None then fail (Sentinel ErrAdminUserNotFound) else ok u }"

definition loadAdminUser :: "(user_row \<Rightarrow> 'a result prog) \<Rightarrow> uuid \<Rightarrow> 'a result prog" where
  "loadAdminUser dtos i = do {
     g \<leftarrow> activeUser i;
     case g of Inl e \<Rightarrow> fail e | Inr u \<Rightarrow> dtos u }"

definition mapAdminUserError :: "goerr \<Rightarrow> 'a http" where
  "mapAdminUserError e =
     (if errors_is e ErrAdminUserNotFound then SendNotFound ''admin.err_user_not_found''
      else SendInternal ''auth.err_internal'')"

definition emitAdminUserAudit :: "bool \<Rightarrow> string \<Rightarrow> uuid \<Rightarrow> uuid \<Rightarrow> meta \<Rightarrow> unit prog" where
  "emitAdminUserAudit wired action actor target m =
     (if \<not> wired then ret ()
      else do {
        _ \<leftarrow> DBEmitter_Emit
          \<lparr>ae_tenant = None, ae_actor = (if actor \<noteq> uuid_nil then Some actor else None),
           ae_actor_type = ''user'', ae_action = action, ae_resource_type = ''user'',
           ae_resource = Some target, ae_status = ''success'', ae_meta = Some m\<rparr>;
        ret () })"

definition admin_reply :: "(user_row \<Rightarrow> 'a result prog) \<Rightarrow> nat \<Rightarrow> uuid \<Rightarrow> 'a http prog" where
  "admin_reply dtos status i = do {
     d \<leftarrow> loadAdminUser dtos i;
     ret (case d of Inl e \<Rightarrow> mapAdminUserError e | Inr x \<Rightarrow> reply_body status x) }"

definition CreateAdminUser ::
  "session_svc \<Rightarrow> bool \<Rightarrow> (user_row \<Rightarrow> 'a result prog) \<Rightarrow> locals \<Rightarrow> admin_create_input option \<Rightarrow>
     'a http prog" where
  "CreateAdminUser s wired dtos lo req = requireUser lo (\<lambda>actor.
     (case req of
        None \<Rightarrow> ret (SendBadRequest ''admin.err_bad_request'')
      | Some inp \<Rightarrow>
          if TrimSpace (ac_email inp) = '''' then ret (SendBadRequest ''admin.err_bad_request'')
          else do {
            r \<leftarrow> AdminCreateUser s inp;
            case r of
              Inl e \<Rightarrow> ret (mapAuthError e)
            | Inr user \<Rightarrow> do {
                _ \<leftarrow> emitAdminUserAudit wired ''admin.user.create'' actor (us_id user)
                       [(''email'', JStr (us_email user))];
                admin_reply dtos 201 (us_id user) } }))"

record admin_update =
  uu_name :: "string option"
  uu_active :: "bool option"

definition update_name :: "uuid \<Rightarrow> string option \<Rightarrow> meta result prog" where
  "update_name i name =
     (case name of
        None \<Rightarrow> ok []
      | Some n \<Rightarrow> do {
          let n = TrimSpace n;
          r \<leftarrow> Users_UpdateDisplayName i (if n \<noteq> '''' then Some n else None);
          case r of Inl e \<Rightarrow> fail e | Inr _ \<Rightarrow> ok [(''display_name'', JStr n)] })"

definition update_active :: "uuid \<Rightarrow> bool option \<Rightarrow> meta result prog" where
  "update_active i active =
     (case active of
        None \<Rightarrow> ok []
      | Some b \<Rightarrow> do {
          r \<leftarrow> Users_SetActive i b;
          case r of
            Inl e \<Rightarrow> fail e
          | Inr _ \<Rightarrow>
              if b then ok [(''is_active'', JBool b)]
              else do {
                _ \<leftarrow> Sessions_RevokeAllForUser i;
                ok [(''is_active'', JBool b)] } })"

definition UpdateAdminUser ::
  "bool \<Rightarrow> (user_row \<Rightarrow> 'a result prog) \<Rightarrow> locals \<Rightarrow> uuid \<Rightarrow> admin_update option \<Rightarrow> 'a http prog" where
  "UpdateAdminUser wired dtos lo userID req = requireUser lo (\<lambda>actor.
     (case req of
        None \<Rightarrow> ret (SendBadRequest ''admin.err_bad_request'')
      | Some up \<Rightarrow> do {
          g \<leftarrow> activeUser userID;
          case g of
            Inl e \<Rightarrow> ret (mapAdminUserError e)
          | Inr _ \<Rightarrow>
              if uu_active up = Some False \<and> actor = userID
              then ret (SendError 409 ''conflict'' ''admin.err_self_action'')
              else do {
                n \<leftarrow> update_name userID (uu_name up);
                case n of
                  Inl e \<Rightarrow> ret (mapAdminUserError e)
                | Inr m1 \<Rightarrow> do {
                    a \<leftarrow> update_active userID (uu_active up);
                    case a of
                      Inl e \<Rightarrow> ret (mapAdminUserError e)
                    | Inr m2 \<Rightarrow> do {
                        _ \<leftarrow> emitAdminUserAudit wired ''admin.user.update'' actor userID (m1 @ m2);
                        admin_reply dtos 200 userID } } } }))"

definition DeleteAdminUser :: "bool \<Rightarrow> locals \<Rightarrow> uuid \<Rightarrow> unit http prog" where
  "DeleteAdminUser wired lo userID = requireUser lo (\<lambda>actor.
     if actor = userID then ret (SendError 409 ''conflict'' ''admin.err_self_action'')
     else do {
       g \<leftarrow> activeUser userID;
       case g of
         Inl e \<Rightarrow> ret (mapAdminUserError e)
       | Inr u \<Rightarrow> do {
           d \<leftarrow> Users_SoftDelete userID;
           case d of
             Inl e \<Rightarrow> ret (mapAdminUserError e)
           | Inr _ \<Rightarrow> do {
               _ \<leftarrow> Sessions_RevokeAllForUser userID;
               _ \<leftarrow> emitAdminUserAudit wired ''admin.user.delete'' actor userID
                      [(''email'', JStr (us_email u))];
               ret \<lparr>ht_status = 204, ht_body = NoBody, ht_cookies = []\<rparr> } } })"

definition SetAdminUserRole ::
  "(uuid \<Rightarrow> string) \<Rightarrow> bool \<Rightarrow> (user_row \<Rightarrow> 'a result prog) \<Rightarrow> locals \<Rightarrow> uuid \<Rightarrow> uuid \<Rightarrow>
     string option \<Rightarrow> 'a http prog" where
  "SetAdminUserRole uuid_str wired dtos lo userID tenantID req = requireUser lo (\<lambda>actor.
     if TrimSpace (strOr req '''') = '''' then ret (SendBadRequest ''admin.err_bad_request'')
     else do {
       g \<leftarrow> activeUser userID;
       case g of
         Inl e \<Rightarrow> ret (mapAdminUserError e)
       | Inr _ \<Rightarrow> do {
           gr \<leftarrow> RBAC_GetRoleBySlug (TrimSpace (strOr req ''''));
           case gr of
             Inl e \<Rightarrow>
               if IsNoRows e then ret (SendBadRequest ''admin.err_role_unknown'')
               else ret (SendInternal ''auth.err_internal'')
           | Inr role \<Rightarrow> do {
               let tctx = WithTenant None tenantID;
               m \<leftarrow> Members_GetByUser tctx userID;
               case m of
                 Inl e \<Rightarrow>
                   if IsNoRows e then ret (SendNotFound ''admin.err_not_member'')
                   else ret (SendInternal ''auth.err_internal'')
               | Inr _ \<Rightarrow> do {
                   sr \<leftarrow> Members_SetRole tctx userID (Some (rl_id role));
                   case sr of
                     Inl e \<Rightarrow> ret (SendInternal ''auth.err_internal'')
                   | Inr _ \<Rightarrow> do {
                       _ \<leftarrow> emitAdminUserAudit wired ''admin.user.role.update'' actor userID
                              [(''tenant_id'', JStr (uuid_str tenantID)), (''role'', JStr (rl_slug role))];
                       admin_reply dtos 200 userID } } } } })"

end
