(* ===== verification/Auth_Inv.thy ===== *)
theory Auth_Inv
  imports AuthHttp Rbac_Inv
begin

text \<open>
  Invariants of the tables of identities and credentials. \<open>auth_invariant\<close> extends the contract of
  the access tables by the statements on users, sessions and tokens; inside it every operation of
  the authentication services is shown to keep the invariant under every schedule, and so does the
  transition system they form. The interpretations are for credentials that were revoked.
\<close>

section \<open>Requests and statements\<close>

record deployment =
  dp_sessions :: session_svc
  dp_pats :: pat_svc
  dp_resolver :: auth_resolver

datatype auth_request =
    ARegister register_input
  | ALogin login_input
  | AOpen uuid "string option" "string option"
  | ALogout string
  | ARefresh string "string option" "string option"
  | AChangePassword uuid string string
  | ASendVerification uuid
  | AVerifyEmail string
  | ARequestReset string
  | AConfirmReset string string
  | ARequestChange uuid string
  | AConfirmChange string
  | ACreatePAT pat_input
  | ARevokePAT uuid uuid
  | AResolve Principals.request locals
  | AAdminCreate locals "admin_create_input option"
  | AAdminUpdate locals uuid "admin_update option"
  | AAdminDelete locals uuid
  | AAdminRole locals uuid uuid "string option"

definition done_with :: "'a prog \<Rightarrow> unit prog" where
  "done_with m = do { _ \<leftarrow> m; ret () }"

fun auth_serve :: "deployment \<Rightarrow> auth_request \<Rightarrow> unit prog" where
  "auth_serve dp (ARegister i) = done_with (Register (dp_sessions dp) i)"
| "auth_serve dp (ALogin i) = done_with (Login (dp_sessions dp) i)"
| "auth_serve dp (AOpen u ua ip) = done_with (OpenForExistingUser (dp_sessions dp) u ua ip)"
| "auth_serve dp (ALogout raw) = done_with (Logout (dp_sessions dp) raw)"
| "auth_serve dp (ARefresh raw ua ip) = done_with (Refresh (dp_sessions dp) raw ua ip)"
| "auth_serve dp (AChangePassword u a b) = done_with (ChangePassword (dp_sessions dp) u a b)"
| "auth_serve dp (ASendVerification u) = done_with (SendVerification (sv_mailer (dp_sessions dp)) u)"
| "auth_serve dp (AVerifyEmail raw) = done_with (Email_Verify (sv_mailer (dp_sessions dp)) raw)"
| "auth_serve dp (ARequestReset m) = done_with (RequestPasswordReset (sv_mailer (dp_sessions dp)) m)"
| "auth_serve dp (AConfirmReset raw pw) =
     done_with (ConfirmPasswordReset (sv_mailer (dp_sessions dp)) raw pw)"
| "auth_serve dp (ARequestChange u m) =
     done_with (RequestEmailChange (sv_mailer (dp_sessions dp)) u m)"
| "auth_serve dp (AConfirmChange raw) = done_with (ConfirmEmailChange (sv_mailer (dp_sessions dp)) raw)"
| "auth_serve dp (ACreatePAT i) = done_with (PAT_Create (dp_pats dp) i)"
| "auth_serve dp (ARevokePAT i u) = done_with (PAT_Revoke i u)"
| "auth_serve dp (AResolve rq lo) = done_with (AuthWithResolver (dp_resolver dp) rq lo)"
| "auth_serve dp (AAdminCreate lo req) =
     done_with (CreateAdminUser (dp_sessions dp) True ok lo req)"
| "auth_serve dp (AAdminUpdate lo u req) = done_with (UpdateAdminUser True ok lo u req)"
| "auth_serve dp (AAdminDelete lo u) = done_with (DeleteAdminUser True lo u)"
| "auth_serve dp (AAdminRole lo u t req) =
     done_with (SetAdminUserRole (\<lambda>_. '''') True ok lo u t req)"

text \<open>The effects other requests can have between two calls of a request.\<close>

inductive auth_statement :: "(db \<Rightarrow> db) \<Rightarrow> bool" where
  user: "auth_statement (\<lambda>d. snd (sql_create_user p d))"
| account: "auth_statement (\<lambda>d. snd (sql_update_users hit f d))"
| address: "auth_statement (\<lambda>d. snd (sql_update_email i m d))"
| session: "auth_statement (\<lambda>d. snd (sql_create_session sp d))"
| touch: "auth_statement (\<lambda>d. snd (sql_touch_session i d))"
| revoke: "auth_statement (\<lambda>d. snd (sql_revoke_sessions hs d))"
| refresh: "auth_statement (\<lambda>d. snd (sql_create_refresh rp d))"
| burn: "auth_statement (\<lambda>d. snd (sql_revoke_refresh hr d))"
| pat: "auth_statement (\<lambda>d. snd (sql_create_pat pp d))"
| pat_use: "auth_statement (\<lambda>d. snd (sql_touch_pat h d))"
| pat_revoke: "auth_statement (\<lambda>d. snd (sql_revoke_pats hp d))"
| link: "auth_statement (\<lambda>d. snd (sql_create_email_token ep d))"
| link_use: "auth_statement (\<lambda>d. use_email_tokens he d)"
| tenant: "auth_statement (\<lambda>d. snd (sql_create_tenant s n b d))"
| member: "auth_statement (\<lambda>d. snd (sql_create_member u ro t d))"
| role: "auth_statement (\<lambda>d. snd (sql_set_role u ro t d))"
| audit: "auth_statement (\<lambda>d. snd (sql_create_audit row d))"
| draw: "auth_statement (\<lambda>d. d\<lparr>db_next := Suc (db_next d)\<rparr>)"
| clock: "auth_statement (\<lambda>d. d\<lparr>db_now := db_now d + int k\<rparr>)"

definition auth_admissible :: "disturb list \<Rightarrow> bool" where
  "auth_admissible ds \<longleftrightarrow> (\<forall>g. Other g \<in> set ds \<longrightarrow> auth_statement g)"

inductive auth_step :: "deployment \<Rightarrow> db \<Rightarrow> db \<Rightarrow> bool" for dp :: deployment where
  request: "auth_admissible (sched w) \<Longrightarrow>
     auth_step dp (wdb w) (wdb (snd (run_state (auth_serve dp req) w)))"
| other: "auth_statement g \<Longrightarrow> auth_step dp d (g d)"

text \<open>The hooks of a deployment, which other components provide, keep the invariant too.\<close>

definition hooks_keep :: "(db \<Rightarrow> bool) \<Rightarrow> deployment \<Rightarrow> bool" where
  "hooks_keep J dp \<longleftrightarrow>
     (\<forall>p u m. sv_provisioner (dp_sessions dp) = Some p \<longrightarrow> keeps (stable J) (p u m)) \<and>
     (\<forall>p. sv_signup_allowed (dp_sessions dp) = Some p \<longrightarrow> keeps (stable J) p) \<and>
     (\<forall>p m pw. sv_external (dp_sessions dp) = Some p \<longrightarrow> keeps (stable J) (p m pw)) \<and>
     (\<forall>m. keeps (stable J) (es_send (sv_mailer (dp_sessions dp)) m)) \<and>
     (\<forall>f u. pv_user_ok (dp_pats dp) = Some f \<longrightarrow> keeps (stable J) (f u)) \<and>
     (\<forall>s f u. rs_pat (dp_resolver dp) = Some s \<longrightarrow> pv_user_ok s = Some f \<longrightarrow> keeps (stable J) (f u))"

lemma hooks_keepD:
  assumes "hooks_keep J dp"
  shows "sv_provisioner (dp_sessions dp) = Some p \<Longrightarrow> keeps (stable J) (p u m)"
    "sv_signup_allowed (dp_sessions dp) = Some q \<Longrightarrow> keeps (stable J) q"
    "sv_external (dp_sessions dp) = Some e \<Longrightarrow> keeps (stable J) (e m pw)"
    "keeps (stable J) (es_send (sv_mailer (dp_sessions dp)) msg)"
    "pv_user_ok (dp_pats dp) = Some f \<Longrightarrow> keeps (stable J) (f u)"
    "rs_pat (dp_resolver dp) = Some s \<Longrightarrow> pv_user_ok s = Some f \<Longrightarrow> keeps (stable J) (f u)"
  using assms by (auto simp: hooks_keep_def)

section \<open>The contract\<close>

locale auth_invariant = access_invariant J for J :: "db \<Rightarrow> bool" +
  assumes no_audit: "ignores_audit J"
    and clock_tick: "J d \<Longrightarrow> J (d\<lparr>db_now := n\<rparr>)"
    and user_insert: "preserved J (sql_create_user p)"
    and user_update: "preserved J (sql_update_users hit f)"
    and email_update: "preserved J (sql_update_email i m)"
    and session_insert: "preserved J (sql_create_session sp)"
    and session_touch: "preserved J (sql_touch_session i)"
    and session_revoke: "preserved J (sql_revoke_sessions hs)"
    and refresh_insert: "preserved J (sql_create_refresh rp)"
    and refresh_revoke: "preserved J (sql_revoke_refresh hr)"
    and pat_insert: "preserved J (sql_create_pat pp)"
    and pat_touch: "preserved J (sql_touch_pat h)"
    and pat_revokes: "preserved J (sql_revoke_pats hp)"
    and link_insert: "preserved J (sql_create_email_token ep)"
    and link_use: "J d \<Longrightarrow> J (use_email_tokens he d)"
begin

lemma link_consume: "preserved J (sql_consume_email_token h)"
  and link_revoke: "preserved J (sql_revoke_email_tokens u k)"
  by (auto intro!: preservedI link_use simp: sql_consume_email_token_def sql_revoke_email_tokens_def)

lemmas writes =
  user_insert user_update email_update session_insert session_touch session_revoke refresh_insert
  refresh_revoke pat_insert pat_touch pat_revokes link_insert link_consume link_revoke member_role

lemma keeps_user_calls:
  "keeps (stable J) (Users_Create up)" "keeps (stable J) (Users_GetByID i)"
  "keeps (stable J) (Users_GetByEmail m)" "keeps (stable J) (Users_UpdatePassword i h)"
  "keeps (stable J) (Users_UpdateDisplayName i n)" "keeps (stable J) (Users_VerifyEmail i)"
  "keeps (stable J) (Users_UpdateEmail i m)" "keeps (stable J) (Users_SoftDelete i)"
  "keeps (stable J) (Users_SetActive i b)"
  unfolding Users_Create_def Users_GetByID_def Users_GetByEmail_def Users_UpdatePassword_def
    Users_UpdateDisplayName_def Users_VerifyEmail_def Users_UpdateEmail_def Users_SoftDelete_def
    Users_SetActive_def
  by (intro keeps_rules writes)+

lemma keeps_session_calls:
  "keeps (stable J) (Sessions_Create sp)" "keeps (stable J) (Sessions_Get i)"
  "keeps (stable J) (Sessions_GetByTokenHash h)" "keeps (stable J) (Sessions_Touch i)"
  "keeps (stable J) (Sessions_Revoke i)" "keeps (stable J) (Sessions_RevokeAllForUser u)"
  unfolding Sessions_Create_def Sessions_Get_def Sessions_GetByTokenHash_def Sessions_Touch_def
    Sessions_Revoke_def Sessions_RevokeAllForUser_def
  by (intro keeps_rules writes)+

lemma keeps_token_calls:
  "keeps (stable J) (Tokens_CreateRefreshToken rp)" "keeps (stable J) (Tokens_GetRefreshTokenByHash h)"
  "keeps (stable J) (Tokens_RevokeRefreshToken h)" "keeps (stable J) (Tokens_RevokeRefreshTokenFamily u)"
  "keeps (stable J) (Tokens_CreatePAT pp)" "keeps (stable J) (Tokens_GetPATByHash h)"
  "keeps (stable J) (Tokens_GetPATByID i)" "keeps (stable J) (Tokens_TouchPAT h)"
  "keeps (stable J) (Tokens_RevokePATByID i u)"
  unfolding Tokens_CreateRefreshToken_def Tokens_GetRefreshTokenByHash_def Tokens_RevokeRefreshToken_def
    Tokens_RevokeRefreshTokenFamily_def Tokens_CreatePAT_def Tokens_GetPATByHash_def
    Tokens_GetPATByID_def Tokens_TouchPAT_def Tokens_RevokePATByID_def
  by (intro keeps_rules writes)+

lemma keeps_link_calls:
  "keeps (stable J) (EmailTokens_Create ep)" "keeps (stable J) (EmailTokens_GetByHash h)"
  "keeps (stable J) (EmailTokens_Consume h)" "keeps (stable J) (EmailTokens_RevokeForUser u k)"
  unfolding EmailTokens_Create_def EmailTokens_GetByHash_def EmailTokens_Consume_def
    EmailTokens_RevokeForUser_def
  by (intro keeps_rules writes)+

lemma keeps_members:
  "keeps (stable J) (Members_GetByUser ctx u)" "keeps (stable J) (Members_SetRole ctx u r)"
  unfolding Members_GetByUser_def Members_SetRole_def by (intro keeps_rules writes)+

lemmas calls = keeps_user_calls keeps_session_calls keeps_token_calls keeps_link_calls keeps_members
  keeps_lookups

lemma keeps_audit: "keeps (stable J) (DBEmitter_Emit ev)"
  by (intro keeps_rules no_audit)

lemma keeps_crypto:
  "keeps (stable J) (Signer_Issue sg n)" "keeps (stable J) (Hasher_Hash hh pw)" "keeps (stable J) uuid_New"
  by (intro keeps_rules no_audit)+

lemmas base = calls keeps_audit keeps_crypto

lemma keeps_openSession: "keeps (stable J) (openSession s u ua ip)"
  unfolding openSession_def issueRefresh_def by (intro keeps_rules base)

lemma keeps_auditFail: "keeps (stable J) (auditFail a u)"
  unfolding auditFail_def by (intro keeps_rules base)

lemma keeps_account_checks: "keeps (stable J) (account_checks s user v)"
  unfolding account_checks_def by (intro keeps_rules keeps_auditFail)

lemma keeps_Logout: "keeps (stable J) (Logout s raw)"
  unfolding Logout_def by (intro keeps_rules base)

lemma keeps_Refresh: "keeps (stable J) (Refresh s raw ua ip)"
  unfolding Refresh_def continueSession_def issueRefresh_def by (intro keeps_rules base)

lemma keeps_ChangePassword: "keeps (stable J) (ChangePassword s u a b)"
  unfolding ChangePassword_def by (intro keeps_rules base)

lemma keeps_OpenForExistingUser: "keeps (stable J) (OpenForExistingUser s u ua ip)"
  unfolding OpenForExistingUser_def by (intro keeps_rules base keeps_openSession keeps_auditFail)

lemma keeps_Email_lookup: "keeps (stable J) (Email_lookup s raw k)"
  unfolding Email_lookup_def by (intro keeps_rules base)

lemma keeps_confirmations:
  "keeps (stable J) (Email_Verify s raw)" "keeps (stable J) (ConfirmPasswordReset s raw pw)"
  "keeps (stable J) (ConfirmEmailChange s raw)"
  unfolding Email_Verify_def ConfirmPasswordReset_def ConfirmEmailChange_def
  by (intro keeps_rules base keeps_Email_lookup)+

lemma keeps_issueAndSend:
  assumes "\<And>m. keeps (stable J) (es_send s m)"
  shows "keeps (stable J) (issueAndSend s u k ttl p sk bk ne)"
  unfolding issueAndSend_def Email_send_def by (intro keeps_rules base assms)

lemma keeps_mail_requests:
  assumes "\<And>m. keeps (stable J) (es_send s m)"
  shows "keeps (stable J) (SendVerification s u)" "keeps (stable J) (RequestPasswordReset s m)"
    "keeps (stable J) (RequestEmailChange s u m)"
  unfolding SendVerification_def RequestPasswordReset_def RequestEmailChange_def
  by (intro keeps_rules base keeps_issueAndSend assms)+

lemma keeps_pats:
  "keeps (stable J) (PAT_Create ps pinp)" "keeps (stable J) (PAT_Revoke i u)"
  unfolding PAT_Create_def PAT_Revoke_def capped_expiry_def by (intro keeps_rules base)+

lemma keeps_PAT_Authenticate:
  assumes "\<And>f u. pv_user_ok ps = Some f \<Longrightarrow> keeps (stable J) (f u)"
  shows "keeps (stable J) (PAT_Authenticate ps raw)"
  unfolding PAT_Authenticate_def owner_ok_def by (intro keeps_rules base assms)

lemma keeps_AuthWithResolver:
  assumes "\<And>s f u. rs_pat r = Some s \<Longrightarrow> pv_user_ok s = Some f \<Longrightarrow> keeps (stable J) (f u)"
  shows "keeps (stable J) (AuthWithResolver r rq lo)"
  unfolding AuthWithResolver_def session_principal_def bearer_principal_def resolveSession_def
  by (intro keeps_rules base keeps_PAT_Authenticate assms)

lemma keeps_requireUser: "(\<And>u. keeps (stable J) (k u)) \<Longrightarrow> keeps (stable J) (requireUser lo k)"
  unfolding requireUser_def by (intro keeps_rules)

lemma keeps_admin_helpers:
  "keeps (stable J) (activeUser i)" "keeps (stable J) (emitAdminUserAudit w a x y m)"
  "keeps (stable J) (update_name i n)" "keeps (stable J) (update_active i b)"
  "keeps (stable J) (admin_reply ok st i)"
  unfolding activeUser_def emitAdminUserAudit_def update_name_def update_active_def admin_reply_def
    loadAdminUser_def
  by (intro keeps_rules base)+

lemma keeps_admin:
  "keeps (stable J) (UpdateAdminUser w ok lo u up)" "keeps (stable J) (DeleteAdminUser w lo u)"
  "keeps (stable J) (SetAdminUserRole us w ok lo u t r)"
  unfolding UpdateAdminUser_def DeleteAdminUser_def SetAdminUserRole_def
  by (intro keeps_rules base keeps_requireUser keeps_admin_helpers)+

lemma keeps_run_provisioner:
  assumes "hooks_keep J dp"
  shows "keeps (stable J) (run_provisioner (dp_sessions dp) u m)"
  unfolding run_provisioner_def by (intro keeps_rules hooks_keepD [OF assms])

lemma keeps_Register:
  assumes "hooks_keep J dp"
  shows "keeps (stable J) (Register (dp_sessions dp) i)"
  unfolding Register_def signup_open_def
  by (intro keeps_rules base keeps_openSession keeps_run_provisioner keeps_mail_requests
      hooks_keepD [OF assms] assms)

lemma keeps_verifyCredentials:
  assumes "hooks_keep J dp"
  shows "keeps (stable J) (verifyCredentials (dp_sessions dp) m pw)"
  unfolding verifyCredentials_def external_user_def
  by (intro keeps_rules base keeps_auditFail keeps_account_checks hooks_keepD [OF assms])

lemma keeps_Login:
  assumes "hooks_keep J dp"
  shows "keeps (stable J) (Login (dp_sessions dp) i)"
  unfolding Login_def rehash_def
  by (intro keeps_rules base keeps_openSession keeps_verifyCredentials assms)

lemma keeps_CreateAdminUser:
  assumes "hooks_keep J dp"
  shows "keeps (stable J) (CreateAdminUser (dp_sessions dp) w ok lo req)"
  unfolding CreateAdminUser_def AdminCreateUser_def admin_password_hash_def
  by (intro keeps_rules base keeps_requireUser keeps_admin_helpers keeps_run_provisioner assms)

lemma keeps_done_with: "keeps (stable J) m \<Longrightarrow> keeps (stable J) (done_with m)"
  unfolding done_with_def by (intro keeps_rules)

lemma keeps_auth_serve:
  assumes "hooks_keep J dp"
  shows "keeps (stable J) (auth_serve dp req)"
  by (cases req; simp only: auth_serve.simps)
    (intro keeps_done_with keeps_Register keeps_Login keeps_OpenForExistingUser keeps_Logout
      keeps_Refresh keeps_ChangePassword keeps_mail_requests keeps_confirmations keeps_pats
      keeps_AuthWithResolver keeps_CreateAdminUser keeps_admin hooks_keepD [OF assms] assms;
      assumption)+

lemma auth_statement_keeps: "auth_statement g \<Longrightarrow> J d \<Longrightarrow> J (g d)"
proof (induction rule: auth_statement.induct)
  case (audit row)
  then show ?case using preserved_sql_create_audit [OF no_audit, of row] by (simp add: preserved_def)
next
  case draw
  then show ?case by (rule ignores_audit_bump [OF no_audit])
qed (use writes tenant_insert member_insert link_use clock_tick in \<open>auto simp: preserved_def\<close>)

lemma auth_admissible_honors: "auth_admissible ds \<Longrightarrow> honors J ds"
  by (auto simp: auth_admissible_def honors_def auth_statement_keeps)

lemma auth_step_keeps:
  assumes "hooks_keep J dp"
  shows "auth_step dp d d' \<Longrightarrow> J d \<Longrightarrow> J d'"
proof (induction rule: auth_step.induct)
  case (request w req)
  then show ?case
    by (intro stable_db [OF keepsD [OF keeps_auth_serve [OF assms]]])
      (simp add: stable_def auth_admissible_honors)
qed (rule auth_statement_keeps)

lemma auth_steps_keep:
  assumes "hooks_keep J dp" "(auth_step dp)\<^sup>*\<^sup>* d d'" "J d"
  shows "J d'"
  using assms(2,3) by (induction rule: rtranclp_induct) (auto intro: auth_step_keeps [OF assms(1)])

end

section \<open>Credentials that are over\<close>

text \<open>
  Every row with the hash is revoked, or used, and there is one: the unique indexes keep another
  row with the hash from being added.
\<close>

definition dead_session :: "string \<Rightarrow> db \<Rightarrow> bool" where
  "dead_session h d \<longleftrightarrow> h \<in> ss_hash ` set (sessions d) \<and>
     (\<forall>r\<in>set (sessions d). ss_hash r = h \<longrightarrow> ss_revoked r \<noteq> None)"

definition dead_refresh :: "string \<Rightarrow> db \<Rightarrow> bool" where
  "dead_refresh h d \<longleftrightarrow> h \<in> rt_hash ` set (refresh_tokens d) \<and>
     (\<forall>r\<in>set (refresh_tokens d). rt_hash r = h \<longrightarrow> rt_revoked r \<noteq> None)"

definition dead_pat :: "string \<Rightarrow> db \<Rightarrow> bool" where
  "dead_pat h d \<longleftrightarrow> h \<in> pt_hash ` set (pats d) \<and>
     (\<forall>r\<in>set (pats d). pt_hash r = h \<longrightarrow> pt_revoked r \<noteq> None)"

definition dead_link :: "string \<Rightarrow> db \<Rightarrow> bool" where
  "dead_link h d \<longleftrightarrow> h \<in> et_hash ` set (email_tokens d) \<and>
     (\<forall>r\<in>set (email_tokens d). et_hash r = h \<longrightarrow> et_used r \<noteq> None)"

lemmas credential_statements =
  sql_create_role_def sql_create_permission_def sql_grant_def sql_create_tenant_def
  sql_create_member_def sql_set_role_def sql_delete_member_def ignores_audit_def
  sql_create_user_def sql_update_users_def sql_update_email_def sql_create_session_def
  sql_touch_session_def sql_revoke_sessions_def sql_create_refresh_def sql_revoke_refresh_def
  sql_create_pat_def sql_touch_pat_def sql_revoke_pats_def sql_create_email_token_def
  use_email_tokens_def Let_def list_ex_iff preserved_def

lemma key_image:
  "(\<And>r. key (f r) = key r) \<Longrightarrow> key ` set (sql_update P f rows) = key ` set rows"
  by (induction rows) (auto simp: sql_update_def)

interpretation sessions_dead: auth_invariant "dead_session h" for h
  by unfold_locales (auto simp: credential_statements dead_session_def key_image dest!: sql_update_mem split: if_splits)

interpretation refresh_dead: auth_invariant "dead_refresh h" for h
  by unfold_locales (auto simp: credential_statements dead_refresh_def key_image dest!: sql_update_mem split: if_splits)

interpretation pats_dead: auth_invariant "dead_pat h" for h
  by unfold_locales (auto simp: credential_statements dead_pat_def key_image dest!: sql_update_mem split: if_splits)

interpretation links_dead: auth_invariant "dead_link h" for h
  by unfold_locales (auto simp: credential_statements dead_link_def key_image dest!: sql_update_mem split: if_splits)

end
