(* ===== verification/Auth_Claims.thy ===== *)
theory Auth_Claims
  imports Auth_Inv Rbac_Claims
begin

text \<open>Properties of tokens, sessions, passwords and the flows around accounts.\<close>

section \<open>Reading under a schedule\<close>

lemma read_under:
  assumes "stable J w" "run_state (db_call (read_db f)) w = (r, w')"
  shows "stable J w' \<and> (r = Inl (Pg ConnLost) \<or> (\<exists>d. J d \<and> r = f d))"
proof
  show "stable J w'" using keeps_runD [OF keeps_db_call [OF preserved_read] assms] .
  show "r = Inl (Pg ConnLost) \<or> (\<exists>d. J d \<and> r = f d)"
  proof (cases "sched w")
    case (Cons x ds)
    then show ?thesis using assms
      by (cases x) (auto simp: stable_def)
  qed (use assms in \<open>auto simp: stable_def\<close>)
qed

lemma read_row_under:
  assumes "run_state (db_call (read_db f)) w = (Inr r, w')" "stable J w"
    and "\<And>d. J d \<Longrightarrow> f d = Inr r \<Longrightarrow> Q"
  shows Q
  using read_under [OF assms(2,1)] assms(3) by (metis Inr_Inl_False)

section \<open>Revocation is final\<close>

lemma dead_session_read:
  "dead_session h d \<Longrightarrow> sql_one (\<lambda>r. ss_hash r = h) (sessions d) = Inr r \<Longrightarrow> ss_revoked r \<noteq> None"
  by (auto simp: dead_session_def dest!: sql_one_InrD)

lemma dead_refresh_read:
  "dead_refresh h d \<Longrightarrow> sql_one (\<lambda>r. rt_hash r = h) (refresh_tokens d) = Inr r \<Longrightarrow> rt_revoked r \<noteq> None"
  by (auto simp: dead_refresh_def dest!: sql_one_InrD)

lemma dead_pat_read:
  "dead_pat h d \<Longrightarrow> sql_one (\<lambda>r. pt_hash r = h) (pats d) = Inr r \<Longrightarrow> pt_revoked r \<noteq> None"
  by (auto simp: dead_pat_def dest!: sql_one_InrD)

lemma dead_link_read:
  "dead_link h d \<Longrightarrow> sql_one (\<lambda>r. et_hash r = h) (email_tokens d) = Inr r \<Longrightarrow> et_used r \<noteq> None"
  by (auto simp: dead_link_def dest!: sql_one_InrD)

lemma dead_session_refused:
  assumes "stable (dead_session h) w" "Signer_Verify sg raw = Inr h"
  shows "fst (run_state (resolveSession sg raw) w) = None"
proof -
  let ?f = "\<lambda>d. sql_one (\<lambda>r. ss_hash r = h) (sessions d)"
  obtain r w' where r: "run_state (db_call (read_db ?f)) w = (r, w')"
    by (cases "run_state (db_call (read_db ?f)) w")
  show ?thesis
  proof (cases r)
    case (Inr row)
    then have "ss_revoked row \<noteq> None"
      using read_row_under [OF _ assms(1)] dead_session_read r by metis
    then show ?thesis using r Inr assms(2)
      by (auto simp: resolveSession_def Sessions_GetByTokenHash_def split: prod.splits)
  qed (use r assms(2) in \<open>simp add: resolveSession_def Sessions_GetByTokenHash_def\<close>)
qed

lemma dead_refresh_refused:
  assumes "stable (dead_refresh h) w" "Signer_Verify (sv_signer s) raw = Inr h"
  shows "\<exists>e. fst (run_state (Refresh s raw ua ip) w) = Inl (Sentinel e)"
proof -
  let ?f = "\<lambda>d. sql_one (\<lambda>r. rt_hash r = h) (refresh_tokens d)"
  obtain r w' where r: "run_state (db_call (read_db ?f)) w = (r, w')"
    by (cases "run_state (db_call (read_db ?f)) w")
  show ?thesis
  proof (cases r)
    case (Inr row)
    then have "rt_revoked row \<noteq> None"
      using read_row_under [OF _ assms(1)] dead_refresh_read r by metis
    then show ?thesis using r Inr assms(2)
      by (auto simp: Refresh_def Tokens_GetRefreshTokenByHash_def split: prod.splits)
  qed (use r assms(2) in \<open>simp add: Refresh_def Tokens_GetRefreshTokenByHash_def\<close>)
qed

lemma dead_pat_refused:
  assumes "stable (dead_pat h) w" "Signer_Verify (pv_signer s) (TrimPrefix raw (pv_prefix s)) = Inr h"
  shows "fst (run_state (PAT_Authenticate s raw) w) = Inl (Sentinel ErrPATNotFound)"
proof -
  let ?f = "\<lambda>d. sql_one (\<lambda>r. pt_hash r = h) (pats d)"
  obtain r w' where r: "run_state (db_call (read_db ?f)) w = (r, w')"
    by (cases "run_state (db_call (read_db ?f)) w")
  show ?thesis
  proof (cases r)
    case (Inr row)
    then have "pt_revoked row \<noteq> None"
      using read_row_under [OF _ assms(1)] dead_pat_read r by metis
    then show ?thesis using r Inr assms(2)
      by (auto simp: PAT_Authenticate_def Tokens_GetPATByHash_def split: prod.splits)
  qed (use r assms(2) in \<open>simp add: PAT_Authenticate_def Tokens_GetPATByHash_def\<close>)
qed

lemma dead_link_refused:
  assumes "stable (dead_link h) w" "Signer_Verify (es_signer s) raw = Inr h"
  shows "fst (run_state (Email_lookup s raw kind) w) = Inl (Sentinel EmailErrInvalidToken)"
proof -
  let ?f = "\<lambda>d. sql_one (\<lambda>r. et_hash r = h) (email_tokens d)"
  obtain r w' where r: "run_state (db_call (read_db ?f)) w = (r, w')"
    by (cases "run_state (db_call (read_db ?f)) w")
  show ?thesis
  proof (cases r)
    case (Inr row)
    then have "et_used row \<noteq> None"
      using read_row_under [OF _ assms(1)] dead_link_read r by metis
    then show ?thesis using r Inr assms(2)
      by (auto simp: Email_lookup_def EmailTokens_GetByHash_def split: prod.splits)
  qed (use r assms(2) in \<open>simp add: Email_lookup_def EmailTokens_GetByHash_def\<close>)
qed

text \<open>
  C6. Revocation is final. Once the row of a session, a refresh token, an access token or a link is
  revoked or used, then after any requests in any interleaving with any failures, and while other
  requests go on, the session's cookie is not accepted, the refresh token is answered with an error,
  the access token does not authenticate, and the link is invalid.
\<close>

theorem revocation_is_final:
  assumes "(auth_step dp)\<^sup>*\<^sup>* d (wdb w)" "auth_admissible (sched w)"
    and "\<forall>J\<in>{dead_session a, dead_refresh b, dead_pat c, dead_link l}. hooks_keep J dp"
  shows "(dead_session a d \<longrightarrow> Signer_Verify sg cookie = Inr a \<longrightarrow>
      fst (run_state (resolveSession sg cookie) w) = None) \<and>
    (dead_refresh b d \<longrightarrow> Signer_Verify (sv_signer s) raw = Inr b \<longrightarrow>
      (\<exists>e. fst (run_state (Refresh s raw ua ip) w) = Inl (Sentinel e))) \<and>
    (dead_pat c d \<longrightarrow> Signer_Verify (pv_signer ps) (TrimPrefix tok (pv_prefix ps)) = Inr c \<longrightarrow>
      fst (run_state (PAT_Authenticate ps tok) w) = Inl (Sentinel ErrPATNotFound)) \<and>
    (dead_link l d \<longrightarrow> Signer_Verify (es_signer es) lnk = Inr l \<longrightarrow>
      fst (run_state (Email_lookup es lnk kind) w) = Inl (Sentinel EmailErrInvalidToken))"
proof -
  have hooks: "hooks_keep (dead_session a) dp" "hooks_keep (dead_refresh b) dp"
    "hooks_keep (dead_pat c) dp" "hooks_keep (dead_link l) dp"
    using assms(3) by simp_all
  have stable: "dead_session a d \<Longrightarrow> stable (dead_session a) w"
    "dead_refresh b d \<Longrightarrow> stable (dead_refresh b) w"
    "dead_pat c d \<Longrightarrow> stable (dead_pat c) w" "dead_link l d \<Longrightarrow> stable (dead_link l) w"
    using sessions_dead.auth_steps_keep [OF hooks(1) assms(1)] refresh_dead.auth_steps_keep [OF hooks(2) assms(1)]
      pats_dead.auth_steps_keep [OF hooks(3) assms(1)] links_dead.auth_steps_keep [OF hooks(4) assms(1)]
      sessions_dead.auth_admissible_honors [OF assms(2)] refresh_dead.auth_admissible_honors [OF assms(2)]
      pats_dead.auth_admissible_honors [OF assms(2)] links_dead.auth_admissible_honors [OF assms(2)]
    by (simp_all add: stable_def)
  show ?thesis
    using stable dead_session_refused dead_refresh_refused dead_pat_refused dead_link_refused by blast
qed

section \<open>Tokens and hashes\<close>

text \<open>
  C26. Signed tokens round-trip: with a source of randomness that returns as many bytes as asked and
  a MAC that is never empty, the token \<^verbatim>\<open>Issue\<close> hands out verifies to the hash it hands out, whatever
  length the configuration asks for; and \<^verbatim>\<open>Verify\<close> accepts nothing but a payload, a dot and the MAC of
  the payload under the signer's key, each in base64.
\<close>

theorem Signer_roundtrip:
  assumes "\<forall>i n p. entropy (sg_crypto s) i n = Inr p \<longrightarrow> length p = n"
    and "\<forall>k p. hmac_sha256 (sg_crypto s) k p \<noteq> ''''"
  shows "(fst (run_state (Signer_Issue s n) w) = Inr (raw, h) \<longrightarrow> Signer_Verify s raw = Inr h) \<and>
    (Signer_Verify s raw = Inr h \<longleftrightarrow>
      (\<exists>f t p. raw = f @ CHR ''.'' # t \<and> CHR ''.'' \<notin> set t \<and> f \<noteq> [] \<and> t \<noteq> [] \<and>
        b64decode f = Some p \<and> b64decode t = Some (hmac_sha256 (sg_crypto s) (sg_key s) p) \<and>
        h = hashPayload (sg_crypto s) p))"
proof
  show "fst (run_state (Signer_Issue s n) w) = Inr (raw, h) \<longrightarrow> Signer_Verify s raw = Inr h"
  proof
    assume i: "fst (run_state (Signer_Issue s n) w) = Inr (raw, h)"
    let ?n = "nat (if n < 16 then 32 else n)"
    obtain p where p: "entropy (sg_crypto s) (db_next (wdb w)) ?n = Inr p"
      "raw = Signer_encode s p" "h = hashPayload (sg_crypto s) p"
      using i by (auto simp: Signer_Issue_def Let_def split: sum.splits if_splits)
    then have "length p = ?n" using assms(1) by blast
    then have "p \<noteq> []" by (auto split: if_splits)
    then show "Signer_Verify s raw = Inr h" using p assms(2) by (simp add: Signer_Verify_encode)
  qed
  show "Signer_Verify s raw = Inr h \<longleftrightarrow>
      (\<exists>f t p. raw = f @ CHR ''.'' # t \<and> CHR ''.'' \<notin> set t \<and> f \<noteq> [] \<and> t \<noteq> [] \<and>
        b64decode f = Some p \<and> b64decode t = Some (hmac_sha256 (sg_crypto s) (sg_key s) p) \<and>
        h = hashPayload (sg_crypto s) p)"
  proof -
    have "Signer_Verify s raw = Inr h \<longleftrightarrow>
        (\<exists>p. decodeAndVerify (sg_crypto s) (sg_key s) raw = Some p \<and> h = hashPayload (sg_crypto s) p)"
      by (auto simp: Signer_Verify_def split: option.splits)
    then show ?thesis unfolding decodeAndVerify_iff by blast
  qed
qed

text \<open>
  C27. Passwords round-trip: what \<^verbatim>\<open>Hash\<close> stores verifies the password it was made from and, if
  argon2id returns keys of the length asked for, any other password exactly if argon2id derives the
  same key from it; it does not need a rehash by the hasher that made it, and needs one by a hasher
  with any other parameters. The comment of \<^verbatim>\<open>NeedsRehash\<close> speaks of a hash made with weaker
  parameters, but the code compares for inequality, so one made with stronger parameters needs it too.
\<close>

theorem Password_roundtrip:
  assumes "\<forall>pw salt t m p n. length (hs_idkey h pw salt t m p n) = unat n"
    and "fst (run_state (Hasher_Hash h pw) w) = Inr enc"
  shows "Hasher_Verify h pw enc = Inr True \<and> \<not> NeedsRehash h enc \<and>
    (\<exists>salt. \<forall>pw'. Hasher_Verify h pw' enc = Inr
      (hs_idkey h pw' salt (hs_iterations h) (hs_memory h) (hs_parallelism h) (hs_keyLength h) =
       hs_idkey h pw salt (hs_iterations h) (hs_memory h) (hs_parallelism h) (hs_keyLength h))) \<and>
    (\<forall>h'. NeedsRehash h' enc \<longleftrightarrow>
      (hs_memory h', hs_iterations h', hs_parallelism h', hs_keyLength h') \<noteq>
      (hs_memory h, hs_iterations h, hs_parallelism h, hs_keyLength h))"
proof -
  obtain salt where enc: "enc = hash_encode
     \<lparr>eh_memory = hs_memory h, eh_iterations = hs_iterations h, eh_parallelism = hs_parallelism h,
      eh_salt = salt, eh_key = hs_idkey h pw salt (hs_iterations h) (hs_memory h) (hs_parallelism h)
         (hs_keyLength h)\<rparr>"
    using assms(2) by (auto simp: Hasher_Hash_def split: sum.splits)
  have len: "(of_nat (length (hs_idkey h pw salt (hs_iterations h) (hs_memory h) (hs_parallelism h)
      (hs_keyLength h))) :: 32 word) = hs_keyLength h"
    using assms(1) by simp
  have verify: "Hasher_Verify h pw' enc = Inr
      (hs_idkey h pw' salt (hs_iterations h) (hs_memory h) (hs_parallelism h) (hs_keyLength h) =
       hs_idkey h pw salt (hs_iterations h) (hs_memory h) (hs_parallelism h) (hs_keyLength h))" for pw'
    unfolding Hasher_Verify_def enc hash_roundtrip using len by simp
  have rehash: "NeedsRehash h' enc \<longleftrightarrow>
      (hs_memory h', hs_iterations h', hs_parallelism h', hs_keyLength h') \<noteq>
      (hs_memory h, hs_iterations h, hs_parallelism h, hs_keyLength h)" for h'
    unfolding NeedsRehash_def enc hash_roundtrip using len by auto
  show ?thesis using verify rehash by auto
qed

section \<open>Rotation of refresh tokens\<close>

lemma find_last: "find P xs = None \<Longrightarrow> P r \<Longrightarrow> find P (xs @ [r]) = Some r"
  by (induction xs) (auto split: if_splits)

lemma list_ex_key: "list_ex (\<lambda>r. k r = h) rows \<longleftrightarrow> h \<in> k ` set rows"
  by (auto simp: list_ex_iff)

lemma find_key_None: "find (\<lambda>r. k r = h) rows = None \<longleftrightarrow> h \<notin> k ` set rows"
  by (auto simp: find_None_iff)

definition token_bytes :: "session_svc \<Rightarrow> nat" where
  "token_bytes s = nat (if sv_token_len s < 16 then 32 else sv_token_len s)"

definition revoke_hash :: "instant \<Rightarrow> string \<Rightarrow> refresh_row list \<Rightarrow> refresh_row list" where
  "revoke_hash now h rows =
     sql_update (\<lambda>r. rt_hash r = h \<and> rt_revoked r = None) (\<lambda>r. r\<lparr>rt_revoked := Some now\<rparr>) rows"

lemma revoke_hash_keys [simp]: "rt_hash ` set (revoke_hash now h rows) = rt_hash ` set rows"
  unfolding revoke_hash_def by (rule key_image) simp

lemma revoke_hash_dead:
  assumes "r \<in> set (revoke_hash now h rows)" "rt_hash r = h"
  shows "rt_revoked r \<noteq> None"
proof -
  obtain y where y: "r = (if rt_hash y = h \<and> rt_revoked y = None then y\<lparr>rt_revoked := Some now\<rparr> else y)"
    using sql_update_mem [OF assms(1) [unfolded revoke_hash_def]] by blast
  show ?thesis
  proof (cases "rt_hash y = h \<and> rt_revoked y = None")
    case False
    then have "r = y" using y by presburger
    then show ?thesis using False assms(2) by metis
  qed (use y in simp)
qed

text \<open>An undisturbed rotation.\<close>

lemma run_issueRefresh:
  assumes "sched w = []" "entropy (sg_crypto (sv_signer s)) (db_next (wdb w)) (token_bytes s) = Inr p"
    and "hashPayload (sg_crypto (sv_signer s)) p \<notin> rt_hash ` set (refresh_tokens (wdb w))"
    and "u \<in> set (db_users (wdb w))" "i \<in> ss_id ` set (sessions (wdb w))"
  shows "run_state (issueRefresh s u i fam ua ip) w =
    (Inr \<lparr>ri_raw = Signer_encode (sv_signer s) p, ri_family = fam,
          ri_expires = db_now (wdb w) + sv_refresh_lifetime s\<rparr>,
     w\<lparr>wdb := (wdb w)\<lparr>db_next := Suc (Suc (db_next (wdb w))),
       refresh_tokens := refresh_tokens (wdb w) @
         [\<lparr>rt_id = Suc (db_next (wdb w)), rt_user = u, rt_session = i, rt_family = fam,
           rt_hash = hashPayload (sg_crypto (sv_signer s)) p,
           rt_expires = db_now (wdb w) + sv_refresh_lifetime s, rt_revoked = None, rt_agent = ua,
           rt_ip = ip\<rparr>]\<rparr>\<rparr>)"
  using assms
  by (simp add: issueRefresh_def Signer_Issue_def token_bytes_def Let_def
    Tokens_CreateRefreshToken_def sql_create_refresh_def list_ex_key)

lemma run_continue:
  assumes "sched v = []" "sql_one (\<lambda>r. ss_id r = rt_session rt) (sessions (wdb v)) = Inr sess"
    and "rt_user rt \<in> set (db_users (wdb v))"
    and "entropy (sg_crypto (sv_signer s)) (db_next (wdb v)) (token_bytes s) = Inr p"
    and "hashPayload (sg_crypto (sv_signer s)) p \<notin> rt_hash ` set (refresh_tokens (wdb v))"
  shows "\<exists>n a. run_state (do {
      r \<leftarrow> continueSession s rt ua ip;
      case r of
        Inl e \<Rightarrow> fail e
      | Inr out \<Rightarrow> do {
          _ \<leftarrow> DBEmitter_Emit
            (session_event ''auth.session.refresh'' (rt_user rt) (so_session out) ''success'' None);
          ok out } }) v =
    (Inr \<lparr>so_user = rt_user rt, so_session = ss_id sess, so_expires = ss_expires sess, so_cookie = '''',
          so_refresh = \<lparr>ri_raw = Signer_encode (sv_signer s) p, ri_family = rt_family rt,
            ri_expires = db_now (wdb v) + sv_refresh_lifetime s\<rparr>\<rparr>,
     v\<lparr>wdb := (wdb v)\<lparr>db_next := n, audits := a,
       refresh_tokens := refresh_tokens (wdb v) @
         [\<lparr>rt_id = Suc (db_next (wdb v)), rt_user = rt_user rt, rt_session = rt_session rt,
           rt_family = rt_family rt, rt_hash = hashPayload (sg_crypto (sv_signer s)) p,
           rt_expires = db_now (wdb v) + sv_refresh_lifetime s, rt_revoked = None, rt_agent = ua,
           rt_ip = ip\<rparr>]\<rparr>\<rparr>) \<and>
    db_next (wdb v) + 2 \<le> n \<and> n \<le> db_next (wdb v) + 3"
proof -
  let ?ri = "\<lparr>ri_raw = Signer_encode (sv_signer s) p, ri_family = rt_family rt,
      ri_expires = db_now (wdb v) + sv_refresh_lifetime s\<rparr>"
  let ?w2 = "v\<lparr>wdb := (wdb v)\<lparr>db_next := Suc (Suc (db_next (wdb v))),
     refresh_tokens := refresh_tokens (wdb v) @
       [\<lparr>rt_id = Suc (db_next (wdb v)), rt_user = rt_user rt, rt_session = rt_session rt,
         rt_family = rt_family rt, rt_hash = hashPayload (sg_crypto (sv_signer s)) p,
         rt_expires = db_now (wdb v) + sv_refresh_lifetime s, rt_revoked = None, rt_agent = ua,
         rt_ip = ip\<rparr>]\<rparr>\<rparr>"
  let ?ev = "session_event ''auth.session.refresh'' (rt_user rt) (ss_id sess) ''success'' None"
  have "rt_session rt \<in> ss_id ` set (sessions (wdb v))" using sql_one_InrD [OF assms(2)] by force
  then have issue: "run_state (issueRefresh s (rt_user rt) (rt_session rt) (rt_family rt) ua ip) v = (Inr ?ri, ?w2)"
    using run_issueRefresh [of v s p "rt_user rt" "rt_session rt" "rt_family rt" ua ip] assms by simp
  obtain r n a where audit: "run_state (DBEmitter_Emit ?ev) ?w2 =
      (r, ?w2\<lparr>wdb := (wdb ?w2)\<lparr>db_next := n, audits := a\<rparr>\<rparr>)" "Suc (Suc (db_next (wdb v))) \<le> n" "n \<le> Suc (Suc (Suc (db_next (wdb v))))"
    using run_audit_quiet [of ?w2 ?ev] assms(1) by auto
  have continue: "run_state (continueSession s rt ua ip) v =
      (Inr \<lparr>so_user = rt_user rt, so_session = ss_id sess, so_expires = ss_expires sess,
            so_cookie = '''', so_refresh = ?ri\<rparr>, ?w2)"
    using assms(1,2) issue by (simp add: continueSession_def Sessions_Get_def)
  show ?thesis
    using continue audit by (intro exI [of _ n] exI [of _ a]) simp
qed

lemma run_Refresh_live:
  assumes "sched w = []" "Signer_Verify (sv_signer s) raw = Inr h"
    and "sql_one (\<lambda>r. rt_hash r = h) (refresh_tokens (wdb w)) = Inr rt" "rt_revoked rt = None"
    and "\<not> rt_expires rt < db_now (wdb w)"
    and "sql_one (\<lambda>r. ss_id r = rt_session rt) (sessions (wdb w)) = Inr sess"
    and "rt_user rt \<in> set (db_users (wdb w))"
    and "entropy (sg_crypto (sv_signer s)) (db_next (wdb w)) (token_bytes s) = Inr p"
    and "hashPayload (sg_crypto (sv_signer s)) p \<notin> rt_hash ` set (refresh_tokens (wdb w))"
  shows "\<exists>n a. run_state (Refresh s raw ua ip) w =
    (Inr \<lparr>so_user = rt_user rt, so_session = ss_id sess, so_expires = ss_expires sess, so_cookie = '''',
          so_refresh = \<lparr>ri_raw = Signer_encode (sv_signer s) p, ri_family = rt_family rt,
            ri_expires = db_now (wdb w) + sv_refresh_lifetime s\<rparr>\<rparr>,
     w\<lparr>wdb := (wdb w)\<lparr>db_next := n, audits := a,
       refresh_tokens := revoke_hash (db_now (wdb w)) h (refresh_tokens (wdb w)) @
         [\<lparr>rt_id = Suc (db_next (wdb w)), rt_user = rt_user rt, rt_session = rt_session rt,
           rt_family = rt_family rt, rt_hash = hashPayload (sg_crypto (sv_signer s)) p,
           rt_expires = db_now (wdb w) + sv_refresh_lifetime s, rt_revoked = None, rt_agent = ua,
           rt_ip = ip\<rparr>]\<rparr>\<rparr>) \<and>
    db_next (wdb w) + 2 \<le> n \<and> n \<le> db_next (wdb w) + 3"
proof -
  let ?w = "w\<lparr>wdb := (wdb w)\<lparr>refresh_tokens := revoke_hash (db_now (wdb w)) h (refresh_tokens (wdb w))\<rparr>\<rparr>"
  have "run_state (Tokens_RevokeRefreshToken h) w = (Inr (), ?w)"
    using assms(1) by (simp add: Tokens_RevokeRefreshToken_def sql_revoke_refresh_def revoke_hash_def)
  then show ?thesis
    using assms(1-5) run_continue [of ?w rt sess s p ua ip] assms(6-9)
    by (simp add: Refresh_def Tokens_GetRefreshTokenByHash_def)
qed

text \<open>
  C8. A refresh with a live token, undisturbed, replaces it: the answer carries a new token of the
  same family and session that verifies and is live in the table for the configured lifetime, and
  the presented token is dead. The sessions are left as they are, so a refresh never extends the
  session it belongs to: the cookie expires when it would have.
\<close>

theorem Refresh_rotates:
  assumes "sched w = []" "Signer_Verify (sv_signer s) raw = Inr h"
    and "sql_one (\<lambda>r. rt_hash r = h) (refresh_tokens (wdb w)) = Inr rt" "rt_revoked rt = None"
    and "\<not> rt_expires rt < db_now (wdb w)"
    and "sql_one (\<lambda>r. ss_id r = rt_session rt) (sessions (wdb w)) = Inr sess"
    and "rt_user rt \<in> set (db_users (wdb w))"
    and "entropy (sg_crypto (sv_signer s)) (db_next (wdb w)) (token_bytes s) = Inr p" "p \<noteq> ''''"
    and "hmac_sha256 (sg_crypto (sv_signer s)) (sg_key (sv_signer s)) p \<noteq> ''''"
    and "hashPayload (sg_crypto (sv_signer s)) p \<notin> rt_hash ` set (refresh_tokens (wdb w))"
  shows "\<exists>out w' h' r'. run_state (Refresh s raw ua ip) w = (Inr out, w') \<and>
    Signer_Verify (sv_signer s) (ri_raw (so_refresh out)) = Inr h' \<and>
    sql_one (\<lambda>r. rt_hash r = h') (refresh_tokens (wdb w')) = Inr r' \<and>
    (rt_user r', rt_session r', rt_family r') = (rt_user rt, rt_session rt, rt_family rt) \<and>
    rt_revoked r' = None \<and> rt_expires r' = db_now (wdb w) + sv_refresh_lifetime s \<and>
    dead_refresh h (wdb w') \<and>
    sessions (wdb w') = sessions (wdb w) \<and> so_cookie out = '''' \<and> so_expires out = ss_expires sess"
proof -
  let ?h = "hashPayload (sg_crypto (sv_signer s)) p"
  let ?rows = "revoke_hash (db_now (wdb w)) h (refresh_tokens (wdb w))"
  note run = run_Refresh_live [OF assms(1-8) assms(11), of ua ip]
  have h: "h \<in> rt_hash ` set (refresh_tokens (wdb w))" using sql_one_InrD [OF assms(3)] by force
  have none: "find (\<lambda>r. rt_hash r = ?h) ?rows = None"
    using assms(11) by (simp add: find_key_None)
  have found: "sql_one (\<lambda>r. rt_hash r = ?h) (?rows @ [r]) = Inr r" if "rt_hash r = ?h" for r
    using find_last [OF none, of r] that by (simp add: sql_one_def)
  have "?h \<noteq> h" using h assms(11) by metis
  moreover have "\<forall>r\<in>set ?rows. rt_hash r = h \<longrightarrow> rt_revoked r \<noteq> None"
    using revoke_hash_dead by blast
  ultimately show ?thesis
    using run found h Signer_Verify_encode [OF assms(9,10)]
    by (elim exE) (simp add: dead_refresh_def)
qed

section \<open>Reuse of a rotated token\<close>

lemma sql_update_done:
  assumes "x \<in> set (sql_update (\<lambda>r. P r \<and> rv r = None) f rows)" "P x"
    and "\<And>r. rv (f r) \<noteq> None"
  shows "rv x \<noteq> None"
proof -
  obtain y where "x = (if P y \<and> rv y = None then f y else y)"
    using sql_update_mem [OF assms(1)] by blast
  then show ?thesis using assms(2,3) by (metis (full_types))
qed

lemma sql_update_others:
  "(\<And>r. P (f r) = P r) \<Longrightarrow>
     filter (\<lambda>r. \<not> P r) (sql_update (\<lambda>r. P r \<and> Q r) f rows) = filter (\<lambda>r. \<not> P r) rows"
  by (induction rows) (auto simp: sql_update_def)

text \<open>
  C9. A refresh token that was already rotated or revoked is a sign of theft: presenting it, undisturbed,
  is answered with the error of reuse, every token of its family and the session it belongs to are
  revoked, and no other token and no other session is touched.
\<close>

theorem Refresh_reuse_burns_family:
  assumes "sched w = []" "Signer_Verify (sv_signer s) raw = Inr h"
    and "sql_one (\<lambda>r. rt_hash r = h) (refresh_tokens (wdb w)) = Inr rt" "rt_revoked rt \<noteq> None"
  shows "\<exists>w'. run_state (Refresh s raw ua ip) w = (Inl (Sentinel ErrRefreshReuse), w') \<and>
    (\<forall>r\<in>set (refresh_tokens (wdb w')). rt_family r = rt_family rt \<longrightarrow> rt_revoked r \<noteq> None) \<and>
    (\<forall>x\<in>set (sessions (wdb w')). ss_id x = rt_session rt \<longrightarrow> ss_revoked x \<noteq> None) \<and>
    filter (\<lambda>r. rt_family r \<noteq> rt_family rt) (refresh_tokens (wdb w')) =
      filter (\<lambda>r. rt_family r \<noteq> rt_family rt) (refresh_tokens (wdb w)) \<and>
    filter (\<lambda>x. ss_id x \<noteq> rt_session rt) (sessions (wdb w')) =
      filter (\<lambda>x. ss_id x \<noteq> rt_session rt) (sessions (wdb w))"
proof -
  let ?tok = "sql_update (\<lambda>r. rt_family r = rt_family rt \<and> rt_revoked r = None)
    (\<lambda>r. r\<lparr>rt_revoked := Some (db_now (wdb w))\<rparr>) (refresh_tokens (wdb w))"
  let ?ses = "sql_update (\<lambda>x. ss_id x = rt_session rt \<and> ss_revoked x = None)
    (\<lambda>x. x\<lparr>ss_revoked := Some (db_now (wdb w))\<rparr>) (sessions (wdb w))"
  let ?w = "w\<lparr>wdb := (wdb w)\<lparr>refresh_tokens := ?tok, sessions := ?ses\<rparr>\<rparr>"
  let ?ev = "session_event ''auth.session.refresh_reuse'' (rt_user rt) (rt_session rt) ''failure'' None"
  obtain r n a where audit: "run_state (DBEmitter_Emit ?ev) ?w =
      (r, ?w\<lparr>wdb := (wdb ?w)\<lparr>db_next := n, audits := a\<rparr>\<rparr>)"
    using run_audit_quiet [of ?w ?ev] assms(1) by auto
  have "run_state (Refresh s raw ua ip) w =
      (Inl (Sentinel ErrRefreshReuse), ?w\<lparr>wdb := (wdb ?w)\<lparr>db_next := n, audits := a\<rparr>\<rparr>)"
    using assms audit
    by (simp add: Refresh_def Tokens_GetRefreshTokenByHash_def Tokens_RevokeRefreshTokenFamily_def
      sql_revoke_refresh_def Sessions_Revoke_def sql_revoke_sessions_def)
  moreover have "\<forall>r\<in>set ?tok. rt_family r = rt_family rt \<longrightarrow> rt_revoked r \<noteq> None"
    by (intro ballI impI, erule sql_update_done) simp_all
  moreover have "\<forall>x\<in>set ?ses. ss_id x = rt_session rt \<longrightarrow> ss_revoked x \<noteq> None"
    by (intro ballI impI, erule sql_update_done) simp_all
  ultimately show ?thesis by (simp add: sql_update_others)
qed

section \<open>Password reset\<close>

definition quiet_at :: "instant \<Rightarrow> world \<Rightarrow> world" where
  "quiet_at t w = w\<lparr>wdb := (wdb w)\<lparr>db_now := t\<rparr>, sched := []\<rparr>"

lemma quiet_at_simps:
  "sched (quiet_at t w) = []" "sessions (wdb (quiet_at t w)) = sessions (wdb w)"
  "db_now (wdb (quiet_at t w)) = t"
  by (simp_all add: quiet_at_def)

lemma run_resolveSession:
  assumes "sched v = []"
  shows "run_state (resolveSession sg raw) v =
    ((case Signer_Verify sg raw of
        Inl _ \<Rightarrow> None
      | Inr h \<Rightarrow>
          (case sql_one (\<lambda>r. ss_hash r = h) (sessions (wdb v)) of
             Inl _ \<Rightarrow> None
           | Inr x \<Rightarrow>
               if ss_revoked x \<noteq> None \<or> ss_expires x < db_now (wdb v) then None
               else Some (ss_user x, ss_id x))), v)"
  using assms by (simp add: resolveSession_def Sessions_GetByTokenHash_def split: sum.split)

text \<open>
  C31. A password reset ends no session: whatever the outcome, and whatever the schedule does that does
  not itself touch them, the tables of sessions, refresh tokens and access tokens are what they
  were. So every cookie that was accepted before the reset is accepted after it, although the
  source announces a forced sign-in on all devices.
\<close>

theorem password_reset_keeps_sessions:
  assumes "\<forall>g d. Other g \<in> set (sched w) \<longrightarrow>
    (sessions (g d), refresh_tokens (g d), pats (g d)) = (sessions d, refresh_tokens d, pats d)"
    and "run_state (ConfirmPasswordReset s raw pw) w = (r, w')"
  shows "sessions (wdb w') = sessions (wdb w) \<and> refresh_tokens (wdb w') = refresh_tokens (wdb w) \<and>
    pats (wdb w') = pats (wdb w) \<and>
    (\<forall>sg cookie t. fst (run_state (resolveSession sg cookie) (quiet_at t w')) =
      fst (run_state (resolveSession sg cookie) (quiet_at t w)))"
proof -
  let ?J = "\<lambda>d. sessions d = sessions (wdb w) \<and> refresh_tokens d = refresh_tokens (wdb w) \<and>
    pats d = pats (wdb w)"
  have "ignores_audit ?J" by (simp add: ignores_audit_def)
  moreover have "preserved ?J (sql_consume_email_token h)" "preserved ?J (sql_update_users hit f)" for h hit f
    by (simp_all add: preserved_def sql_consume_email_token_def use_email_tokens_def sql_update_users_def)
  ultimately have keeps: "keeps (stable ?J) (ConfirmPasswordReset s raw pw)"
    unfolding ConfirmPasswordReset_def Email_lookup_def EmailTokens_GetByHash_def EmailTokens_Consume_def
      Users_UpdatePassword_def
    by (intro keeps_rules)
  have "stable ?J w" using assms(1) by (simp add: stable_def honors_def)
  from stable_db [OF keeps_runD [OF keeps this assms(2)]] have J: "?J (wdb w')" .
  have "fst (run_state (resolveSession sg cookie) (quiet_at t w')) =
      fst (run_state (resolveSession sg cookie) (quiet_at t w))" for sg cookie t
    using J by (simp only: run_resolveSession quiet_at_simps fst_conv)
  then show ?thesis using J by blast
qed

section \<open>Addresses\<close>

lemma ToLower_idem: "ToLower (ToLower s) = ToLower s"
proof -
  have "low_char (low_char c) = low_char c" for c
    by (auto simp: low_char_def is_upper_def of_char_of)
  then show ?thesis by (simp add: ToLower_def)
qed

lemma normalizeEmail_lower: "ToLower (normalizeEmail e) = normalizeEmail e"
  by (simp add: normalizeEmail_def ToLower_idem)

lemma run_confirm_change:
  assumes "sched w = []" "run_state (ConfirmEmailChange s raw) w = (Inr (), w')"
    and "Signer_Verify (es_signer s) raw = Inr h"
    and "sql_one (\<lambda>r. et_hash r = h) (email_tokens (wdb w)) = Inr tok"
    and "et_new_email tok = Some m"
  shows "sched w' = [] \<and> user_rows (wdb w') =
    sql_update (\<lambda>r. us_id r = et_user tok)
      (\<lambda>r. r\<lparr>us_email := m, us_verified := Some (db_now (wdb w))\<rparr>) (user_rows (wdb w))"
proof -
  let ?w1 = "w\<lparr>wdb := use_email_tokens (\<lambda>r. et_hash r = h) (wdb w)\<rparr>"
  let ?rows = "sql_update (\<lambda>r. us_id r = et_user tok)
      (\<lambda>r. r\<lparr>us_email := m, us_verified := Some (db_now (wdb w))\<rparr>) (user_rows (wdb w))"
  let ?w2 = "?w1\<lparr>wdb := (wdb ?w1)\<lparr>user_rows := ?rows\<rparr>\<rparr>"
  let ?ev = "user_event ''auth.email.change_confirm'' (Some (et_user tok)) ''success''
    (Some [(''new_email'', JStr m)])"
  obtain r n a where audit: "run_state (DBEmitter_Emit ?ev) ?w2 =
      (r, ?w2\<lparr>wdb := (wdb ?w2)\<lparr>db_next := n, audits := a\<rparr>\<rparr>)"
    using run_audit_quiet [of ?w2 ?ev] assms(1) by auto
  have lookup: "run_state (Email_lookup s raw EmailTokenEmailChange) w = (Inr (tok, h), w)"
    using assms by (auto simp: ConfirmEmailChange_def Email_lookup_def EmailTokens_GetByHash_def split: if_splits)
  have update: "run_state (Users_UpdateEmail (et_user tok) m) ?w1 = (Inr (), ?w2) \<or>
      run_state (Users_UpdateEmail (et_user tok) m) ?w1 = (Inl (Pg UniqueViolation), ?w1)"
    using assms(1) by (simp add: Users_UpdateEmail_def sql_update_email_def sql_update_users_def use_email_tokens_def)
  have "w' = ?w2\<lparr>wdb := (wdb ?w2)\<lparr>db_next := n, audits := a\<rparr>\<rparr>"
    using assms lookup update audit
    by (auto simp: ConfirmEmailChange_def EmailTokens_Consume_def sql_consume_email_token_def split: if_splits)
  then show ?thesis using assms(1) by simp
qed

section \<open>Sign-in\<close>

lemma account_checks_InrD:
  "run_state (account_checks s user via) w = (Inr (u, v), w') \<Longrightarrow>
     u = user \<and> v = via \<and> us_active u \<and> (sv_require_verified s \<longrightarrow> us_verified u \<noteq> None)"
  by (simp add: account_checks_def split_beta split: if_splits)

lemma external_user_SomeD:
  assumes "run_state (external_user s norm pw) w = (Some u, w')"
  shows "\<exists>ext w1. sv_external s = Some ext \<and> pw \<noteq> '''' \<and> us_deleted u = None \<and>
    fst (run_state (ext norm pw) w1) = Some (us_id u)"
proof -
  obtain ext where ext: "sv_external s = Some ext" "pw \<noteq> ''''"
    using assms by (auto simp: external_user_def split: option.splits if_splits)
  obtain a w1 where a: "run_state (ext norm pw) w = (a, w1)" by (cases "run_state (ext norm pw) w")
  then obtain uid where uid: "a = Some uid"
    using assms ext by (cases a) (simp_all add: external_user_def)
  obtain g w2 where g: "run_state (Users_GetByID uid) w1 = (g, w2)"
    by (cases "run_state (Users_GetByID uid) w1")
  have "g = Inr u \<and> us_deleted u = None"
    using assms ext a uid g by (auto simp: external_user_def split: sum.splits if_splits)
  moreover have "us_id u = uid"
  proof (rule read_row_under [where J = "\<lambda>_. True"])
    show "run_state (db_call (read_db (\<lambda>d. sql_one (\<lambda>r. us_id r = uid) (user_rows d)))) w1 = (Inr u, w2)"
      using g calculation by (simp add: Users_GetByID_def)
  qed (auto simp: stable_def honors_def dest: sql_one_InrD)
  ultimately show ?thesis using ext a uid by (metis fst_conv)
qed

text \<open>How a successful check of credentials went.\<close>

lemma verifyCredentials_InrD:
  assumes "run_state (verifyCredentials s e pw) w = (Inr (u, via), w')"
  obtains w1 found where "run_state (Users_GetByEmail (normalizeEmail e)) w = (found, w1)"
    "us_active u \<and> (sv_require_verified s \<longrightarrow> us_verified u \<noteq> None)"
    "(via \<and> found = Inr u \<and> local_match s found pw) \<or>
     (\<not> via \<and> (\<exists>w2 w3. run_state (external_user s (normalizeEmail e) pw) w2 = (Some u, w3)))"
proof -
  obtain found w1 where f: "run_state (Users_GetByEmail (normalizeEmail e)) w = (found, w1)"
    by (cases "run_state (Users_GetByEmail (normalizeEmail e)) w")
  obtain ext w2 where x: "run_state (external_user s (normalizeEmail e) pw) w1 = (ext, w2)"
    by (cases "run_state (external_user s (normalizeEmail e) pw) w1")
  show thesis
  proof (cases "local_match s found pw")
    case True
    then obtain user where user: "found = Inr user" by (cases found) (simp_all add: local_match_def)
    then have "run_state (account_checks s user True) w1 = (Inr (u, via), w')"
      using assms f True by (simp add: verifyCredentials_def Let_def)
    from account_checks_InrD [OF this] show ?thesis using that [OF f] user True by blast
  next
    case False
    then have "\<exists>v. ext = Some v \<and> run_state (account_checks s v False) w2 = (Inr (u, via), w')"
      using assms f x by (cases ext; cases found) (simp_all add: verifyCredentials_def Let_def split_beta)
    then obtain v where v: "ext = Some v" "run_state (account_checks s v False) w2 = (Inr (u, via), w')"
      by blast
    from account_checks_InrD [OF v(2)] show ?thesis using that [OF f] x v(1) by blast
  qed
qed

lemma GetByEmail_InrD:
  assumes "run_state (Users_GetByEmail m) w = (Inr u, w')"
  shows "live_email m u"
  by (rule read_row_under [where J = "\<lambda>_. True"], rule assms [unfolded Users_GetByEmail_def])
    (auto simp: stable_def honors_def dest: sql_one_InrD)

text \<open>
  C7. The check of credentials is sound under every schedule: a user it answers was active when read,
  not deleted, verified if the configuration asks for it, and either it is the user of the address in small
  letters and the password verifies against its hash, or an external directory is configured,
  the password is not empty and the directory answered that user for the address and the password.
\<close>

theorem verifyCredentials_sound:
  assumes "fst (run_state (verifyCredentials s e pw) w) = Inr (u, via)"
  shows "us_active u \<and> us_deleted u = None \<and> (sv_require_verified s \<longrightarrow> us_verified u \<noteq> None) \<and>
    (if via then us_email u = normalizeEmail e \<and>
       (\<exists>h. us_hash u = Some h \<and> Hasher_Verify (sv_hasher s) pw h = Inr True)
     else pw \<noteq> '''' \<and> (\<exists>ext w1. sv_external s = Some ext \<and>
       fst (run_state (ext (normalizeEmail e) pw) w1) = Some (us_id u)))"
proof -
  obtain w' where "run_state (verifyCredentials s e pw) w = (Inr (u, via), w')"
    using assms by (metis prod.collapse)
  then show ?thesis
  proof (cases rule: verifyCredentials_InrD)
    case (1 w1 found)
    show ?thesis
    proof (cases via)
      case True
      then have "found = Inr u" "local_match s found pw" using 1(3) by blast+
      then show ?thesis using True 1(1,2) GetByEmail_InrD [of "normalizeEmail e" w u w1]
        by (auto simp: local_match_def live_email_def split: option.splits)
    next
      case False
      then obtain w2 w3 where "run_state (external_user s (normalizeEmail e) pw) w2 = (Some u, w3)"
        using 1(3) by blast
      from external_user_SomeD [OF this] show ?thesis using False 1(2) by auto
    qed
  qed
qed

section \<open>Change of address\<close>

lemma VerifyCredentials_quiet:
  assumes "sched w = []" "sv_external sv = None"
    and "fst (run_state (VerifyCredentials sv e pw) w) = Inr u"
  shows "u \<in> set (user_rows (wdb w)) \<and> live_email (normalizeEmail e) u"
proof -
  obtain via w' where "run_state (verifyCredentials sv e pw) w = (Inr (u, via), w')"
    using assms(3) by (auto simp: VerifyCredentials_def split_beta split: sum.splits prod.splits)
      (metis prod.collapse)
  then show ?thesis
  proof (cases rule: verifyCredentials_InrD)
    case (1 w1 found)
    then have "found = Inr u" using external_user_SomeD assms(2) by fastforce
    then have "sql_one (live_email (normalizeEmail e)) (user_rows (wdb w)) = Inr u"
      using 1(1) assms(1) by (auto simp: Users_GetByEmail_def)
    then show ?thesis by (auto dest: sql_one_InrD)
  qed
qed

text \<open>
  A change of address to one that is not in small letters locks the account out: the confirmed
  address is stored as it was typed, and the sign-in looks for the address in small letters. After
  such a confirmation, undisturbed and with no external directory, no address and no password
  sign the user in.
\<close>

theorem email_change_locks_out:
  assumes "sched w = []" "run_state (ConfirmEmailChange s raw) w = (Inr (), w')"
    and "Signer_Verify (es_signer s) raw = Inr h"
    and "sql_one (\<lambda>r. et_hash r = h) (email_tokens (wdb w)) = Inr tok"
    and "et_new_email tok = Some m" "ToLower m \<noteq> m" "sv_external sv = None"
  shows "\<forall>e pw u. fst (run_state (VerifyCredentials sv e pw) w') = Inr u \<longrightarrow> us_id u \<noteq> et_user tok"
proof (intro allI impI notI)
  fix e pw u
  assume u: "fst (run_state (VerifyCredentials sv e pw) w') = Inr u" "us_id u = et_user tok"
  have w': "sched w' = []" "user_rows (wdb w') =
    sql_update (\<lambda>r. us_id r = et_user tok)
      (\<lambda>r. r\<lparr>us_email := m, us_verified := Some (db_now (wdb w))\<rparr>) (user_rows (wdb w))"
    using run_confirm_change [OF assms(1-5)] by simp_all
  have "u \<in> set (user_rows (wdb w'))" "us_email u = normalizeEmail e"
    using VerifyCredentials_quiet [OF w'(1) assms(7) u(1)] by (simp_all add: live_email_def)
  moreover from this(1) have "us_email u = m"
    using u(2) unfolding w'(2) by (auto simp: sql_update_def split: if_splits)
  ultimately show False using assms(6) normalizeEmail_lower by metis
qed

section \<open>The properties at work\<close>

text \<open>
  A deployment with toy cryptography, and a database with one user, one session, one live refresh token
  and a link for a change of address.
\<close>

definition crypto0 :: crypto where
  "crypto0 = \<lparr>hmac_sha256 = (\<lambda>k p. ''mac''), sha256 = (\<lambda>p. p),
     entropy = (\<lambda>k n. Inr (replicate n (char_of k)))\<rparr>"

definition signer0 :: signer where
  "signer0 = \<lparr>sg_crypto = crypto0, sg_key = ''key''\<rparr>"

definition hasher0 :: hasher where
  "hasher0 = \<lparr>hs_crypto = crypto0,
     hs_idkey = (\<lambda>pw salt t m p n. take (unat n) (pw @ replicate (unat n) (CHR ''-''))),
     hs_memory = 65536, hs_iterations = 3, hs_parallelism = 4, hs_saltLength = 16, hs_keyLength = 8\<rparr>"

definition mailer0 :: email_svc where
  "mailer0 = \<lparr>es_hasher = hasher0, es_signer = signer0, es_send = (\<lambda>_. ok ()), es_text = (\<lambda>l k a. k),
     es_render = (\<lambda>r. Inr (re_body r)), es_verify_ttl = 100, es_reset_ttl = 100, es_change_ttl = 100,
     es_token_len = 32, es_base_url = ''https://app''\<rparr>"

definition svc0 :: session_svc where
  "svc0 = \<lparr>sv_hasher = hasher0, sv_signer = signer0, sv_mailer = mailer0, sv_session_lifetime = 1000,
     sv_refresh_lifetime = 5000, sv_token_len = 32, sv_min_password = 12, sv_require_verified = False,
     sv_provisioner = None, sv_signup_allowed = None, sv_external = None\<rparr>"

definition pats0 :: pat_svc where
  "pats0 = \<lparr>pv_signer = signer0, pv_prefix = ''lhj_'', pv_byte_len = 32, pv_max_expiry = 0,
     pv_user_ok = Some user_checker\<rparr>"

definition deployment0 :: deployment where
  "deployment0 = \<lparr>dp_sessions = svc0, dp_pats = pats0,
     dp_resolver = \<lparr>rs_session_name = ''lahijan_session'', rs_signer = Some signer0,
       rs_sessions = True, rs_pat = Some pats0\<rparr>\<rparr>"

definition payload :: "char \<Rightarrow> string" where
  "payload c = [c, c, c]"

definition token :: "char \<Rightarrow> string" where
  "token c = Signer_encode signer0 (payload c)"

definition token_hash :: "char \<Rightarrow> string" where
  "token_hash c = hashPayload crypto0 (payload c)"

lemma token_verifies: "Signer_Verify signer0 (token c) = Inr (token_hash c)"
  using Signer_Verify_encode [of "payload c" signer0]
  by (simp add: token_def token_hash_def payload_def signer0_def crypto0_def)

definition user0 :: user_row where
  "user0 = \<lparr>us_id = 7, us_email = ''ada@example.org'', us_hash = None, us_active = True, us_name = None,
     us_locale = ''en'', us_verified = None, us_deleted = None, us_created = 1\<rparr>"

definition session0 :: session_row where
  "session0 = \<lparr>ss_id = 30, ss_user = 7, ss_hash = token_hash CHR ''s'', ss_expires = 2000,
     ss_revoked = None, ss_created = 900, ss_seen = 900, ss_agent = None, ss_ip = None\<rparr>"

definition refresh0 :: refresh_row where
  "refresh0 = \<lparr>rt_id = 31, rt_user = 7, rt_session = 30, rt_family = 32, rt_hash = token_hash CHR ''r'',
     rt_expires = 6000, rt_revoked = None, rt_agent = None, rt_ip = None\<rparr>"

definition link0 :: email_token_row where
  "link0 = \<lparr>et_id = 33, et_user = 7, et_hash = token_hash CHR ''l'', et_kind = EmailTokenEmailChange,
     et_new_email = Some ''Ada@Example.org'', et_expires = 2000, et_used = None\<rparr>"

definition auth_db :: db where
  "auth_db = (empty_db 1000 [5] [7])\<lparr>db_next := 40, user_rows := [user0], sessions := [session0],
     refresh_tokens := [refresh0], email_tokens := [link0]\<rparr>"

definition auth_world :: world where
  "auth_world = \<lparr>wdb = auth_db, sched = [], events = [], pdns = []\<rparr>"

lemma auth_world_simps [simp]:
  "sched auth_world = []" "wdb auth_world = auth_db" "db_now auth_db = 1000" "db_next auth_db = 40"
  "user_rows auth_db = [user0]" "sessions auth_db = [session0]" "refresh_tokens auth_db = [refresh0]"
  "email_tokens auth_db = [link0]" "db_users auth_db = [7]" "pats auth_db = []"
  by (simp_all add: auth_world_def auth_db_def empty_db_def)

lemma deployment0_signers [simp]:
  "sv_signer svc0 = signer0" "es_signer mailer0 = signer0" "sv_external svc0 = None"
  by (simp_all add: svc0_def mailer0_def)

lemma fresh_draw: "hashPayload crypto0 (replicate 32 c) \<noteq> token_hash d"
proof -
  have "length (hex_encode s) = 2 * length s" for s
    by (induction s) (simp_all add: hex_encode_def)
  then have "length (hashPayload crypto0 (replicate 32 c)) \<noteq> length (token_hash d)"
    by (simp add: hashPayload_def token_hash_def crypto0_def payload_def)
  then show ?thesis by metis
qed

lemma sql_one_single: "P r \<Longrightarrow> sql_one P [r] = Inr r"
  by (simp add: sql_one_def)

theorem revocation_is_final_witness:
  "fst (run_state (resolveSession signer0 (token CHR ''s''))
     \<lparr>wdb = snd (sql_touch_session 30 (snd (sql_revoke_sessions (\<lambda>_. True) auth_db))),
      sched = [Quiet], events = [], pdns = []\<rparr>) = None"
proof -
  let ?d = "snd (sql_revoke_sessions (\<lambda>_. True) auth_db)"
  let ?w = "\<lparr>wdb = snd (sql_touch_session 30 ?d), sched = [Quiet], events = [], pdns = []\<rparr>"
  have "(auth_step deployment0)\<^sup>*\<^sup>* ?d (wdb ?w)"
    using auth_step.other [OF auth_statement.touch, of deployment0 ?d 30] by auto
  moreover have "auth_admissible (sched ?w)" by (simp add: auth_admissible_def)
  moreover have "hooks_keep J deployment0" for J
    by (auto simp: hooks_keep_def deployment0_def svc0_def mailer0_def pats0_def user_checker_def
      Users_GetByID_def intro!: keeps_rules)
  moreover have "dead_session (token_hash CHR ''s'') ?d"
    by (simp add: dead_session_def sql_revoke_sessions_def sql_update_def session0_def)
  ultimately show ?thesis
    using revocation_is_final [of deployment0 ?d ?w "token_hash CHR ''s''" "''b''" "''c''" "''l''"]
      token_verifies by simp
qed

theorem Signer_roundtrip_witness:
  "fst (run_state (Signer_Issue signer0 5) auth_world) =
     Inr (Signer_encode signer0 (replicate 32 (char_of (40::nat))), hashPayload crypto0 (replicate 32 (char_of (40::nat)))) \<and>
   Signer_Verify signer0 (Signer_encode signer0 (replicate 32 (char_of (40::nat)))) =
     Inr (hashPayload crypto0 (replicate 32 (char_of (40::nat))))"
proof -
  have i: "fst (run_state (Signer_Issue signer0 5) auth_world) =
     Inr (Signer_encode signer0 (replicate 32 (char_of (40::nat))), hashPayload crypto0 (replicate 32 (char_of (40::nat))))"
    by (simp add: Signer_Issue_def Let_def signer0_def crypto0_def)
  have "\<forall>i n p. entropy (sg_crypto signer0) i n = Inr p \<longrightarrow> length p = n"
    "\<forall>k p. hmac_sha256 (sg_crypto signer0) k p \<noteq> ''''"
    by (auto simp: signer0_def crypto0_def)
  then show ?thesis using i Signer_roundtrip by blast
qed

theorem Password_roundtrip_witness:
  "\<exists>enc. fst (run_state (Hasher_Hash hasher0 ''Correct1'') auth_world) = Inr enc \<and>
     Hasher_Verify hasher0 ''Correct1'' enc = Inr True \<and> Hasher_Verify hasher0 ''wrong'' enc = Inr False \<and>
     \<not> NeedsRehash hasher0 enc \<and> NeedsRehash (hasher0\<lparr>hs_iterations := 4\<rparr>) enc"
proof -
  obtain enc where enc: "fst (run_state (Hasher_Hash hasher0 ''Correct1'') auth_world) = Inr enc"
    by (simp add: Hasher_Hash_def hasher0_def crypto0_def)
  have len: "\<forall>pw salt t m p n. length (hs_idkey hasher0 pw salt t m p n) = unat n"
    by (auto simp: hasher0_def min_def)
  note all = Password_roundtrip [OF len enc]
  have "hs_idkey hasher0 ''wrong'' s t m p (hs_keyLength hasher0) \<noteq>
      hs_idkey hasher0 ''Correct1'' s t m p (hs_keyLength hasher0)" for s t m p
    by (simp add: hasher0_def)
  then have "Hasher_Verify hasher0 ''wrong'' enc = Inr False" using all by auto
  moreover have "NeedsRehash (hasher0\<lparr>hs_iterations := 4\<rparr>) enc" using all by (simp add: hasher0_def)
  ultimately show ?thesis using all enc by blast
qed

lemma live_refresh:
  "sql_one (\<lambda>r. rt_hash r = token_hash CHR ''r'') (refresh_tokens auth_db) = Inr refresh0"
  "sql_one (\<lambda>r. ss_id r = rt_session refresh0) (sessions auth_db) = Inr session0"
  "rt_revoked refresh0 = None" "\<not> rt_expires refresh0 < db_now auth_db" "rt_user refresh0 = 7"
  "rt_hash refresh0 = token_hash CHR ''r''"
  by (simp_all add: sql_one_def refresh0_def session0_def)

theorem Refresh_rotates_witness:
  "\<exists>out w'. run_state (Refresh svc0 (token CHR ''r'') None None) auth_world = (Inr out, w') \<and>
     dead_refresh (token_hash CHR ''r'') (wdb w') \<and> so_expires out = 2000"
proof -
  have "token_bytes svc0 = 32" by (simp add: token_bytes_def svc0_def)
  then show ?thesis
    using Refresh_rotates [of auth_world svc0 "token CHR ''r''" "token_hash CHR ''r''" refresh0 session0
        "replicate 32 (char_of (40::nat))" None None] live_refresh token_verifies fresh_draw
    by (auto simp: signer0_def crypto0_def session0_def)
qed

theorem Refresh_reuse_burns_family_witness:
  "\<exists>w'. run_state (Refresh svc0 (token CHR ''r'') None None)
      (auth_world\<lparr>wdb := auth_db\<lparr>refresh_tokens := [refresh0\<lparr>rt_revoked := Some 950\<rparr>]\<rparr>\<rparr>) =
      (Inl (Sentinel ErrRefreshReuse), w') \<and> (\<forall>x\<in>set (sessions (wdb w')). ss_id x = 30 \<longrightarrow> ss_revoked x \<noteq> None)"
proof -
  let ?r = "refresh0\<lparr>rt_revoked := Some 950\<rparr>"
  let ?w = "auth_world\<lparr>wdb := auth_db\<lparr>refresh_tokens := [?r]\<rparr>\<rparr>"
  have "sql_one (\<lambda>r. rt_hash r = token_hash CHR ''r'') (refresh_tokens (wdb ?w)) = Inr ?r"
    by (simp add: sql_one_def refresh0_def)
  then show ?thesis
    using Refresh_reuse_burns_family [of ?w svc0 "token CHR ''r''" "token_hash CHR ''r''" ?r None None] token_verifies
    by (fastforce simp: refresh0_def)
qed

theorem password_reset_keeps_sessions_witness:
  "fst (run_state (resolveSession signer0 (token CHR ''s''))
     (quiet_at 1500 (snd (run_state (ConfirmPasswordReset mailer0 (token CHR ''p'') ''Correct-Horse-1'')
        (auth_world\<lparr>wdb := auth_db\<lparr>email_tokens := [link0\<lparr>et_kind := EmailTokenPasswordReset,
           et_hash := token_hash CHR ''p''\<rparr>]\<rparr>\<rparr>))))) = Some (7, 30)"
proof -
  let ?w = "auth_world\<lparr>wdb := auth_db\<lparr>email_tokens := [link0\<lparr>et_kind := EmailTokenPasswordReset,
           et_hash := token_hash CHR ''p''\<rparr>]\<rparr>\<rparr>"
  obtain r w' where r: "run_state (ConfirmPasswordReset mailer0 (token CHR ''p'') ''Correct-Horse-1'') ?w = (r, w')"
    by (cases "run_state (ConfirmPasswordReset mailer0 (token CHR ''p'') ''Correct-Horse-1'') ?w")
  have "fst (run_state (resolveSession signer0 (token CHR ''s'')) (quiet_at 1500 ?w)) = Some (7, 30)"
    by (simp add: run_resolveSession quiet_at_def token_verifies sql_one_def session0_def)
  then show ?thesis using password_reset_keeps_sessions [OF _ r] r by simp
qed

theorem email_change_locks_out_witness:
  "run_state (ConfirmEmailChange mailer0 (token CHR ''l'')) auth_world =
     (Inr (), snd (run_state (ConfirmEmailChange mailer0 (token CHR ''l'')) auth_world)) \<and>
   (\<forall>e pw. fst (run_state (VerifyCredentials svc0 e pw)
      (snd (run_state (ConfirmEmailChange mailer0 (token CHR ''l'')) auth_world))) \<noteq> Inr user0)"
proof -
  let ?w' = "snd (run_state (ConfirmEmailChange mailer0 (token CHR ''l'')) auth_world)"
  have link: "sql_one (\<lambda>r. et_hash r = token_hash CHR ''l'') (email_tokens (wdb auth_world)) = Inr link0"
    by (simp add: sql_one_def link0_def)
  have "fst (run_state (ConfirmEmailChange mailer0 (token CHR ''l'')) auth_world) = Inr ()"
    using link by (simp add: ConfirmEmailChange_def Email_lookup_def EmailTokens_GetByHash_def token_verifies
      EmailTokens_Consume_def sql_consume_email_token_def sql_count_def Users_UpdateEmail_def
      sql_update_email_def use_email_tokens_def live_email_def sql_update_users_def user0_def link0_def split_beta)
  then have run: "run_state (ConfirmEmailChange mailer0 (token CHR ''l'')) auth_world = (Inr (), ?w')"
    by (metis prod.collapse)
  have "ToLower ''Ada@Example.org'' \<noteq> ''Ada@Example.org''"
    by code_simp
  then have "\<forall>e pw u. fst (run_state (VerifyCredentials svc0 e pw) ?w') = Inr u \<longrightarrow> us_id u \<noteq> et_user link0"
    by (intro email_change_locks_out [OF _ run _ link]) (simp_all add: token_verifies link0_def)
  moreover have "us_id user0 = et_user link0" by (simp add: user0_def link0_def)
  ultimately show ?thesis using run by blast
qed

theorem verifyCredentials_sound_witness:
  "fst (run_state (verifyCredentials (svc0\<lparr>sv_external := Some (\<lambda>m pw. ret (Some 7))\<rparr>) ''ADA@example.org'' ''pw'')
     auth_world) = Inr (user0, False) \<and> us_active user0"
proof -
  let ?s = "svc0\<lparr>sv_external := Some (\<lambda>m pw. ret (Some 7))\<rparr>"
  have "sql_one (live_email (normalizeEmail ''ADA@example.org'')) [user0] = Inr user0"
    by (simp add: sql_one_def live_email_def normalizeEmail_def ToLower_def TrimSpace_def is_space_def
      low_char_def is_upper_def user0_def char_of_def bit_Suc_0_iff)
  then have "fst (run_state (verifyCredentials ?s ''ADA@example.org'' ''pw'') auth_world) = Inr (user0, False)"
    by (simp add: verifyCredentials_def Let_def Users_GetByEmail_def local_match_def user0_def
      external_user_def Users_GetByID_def sql_one_def account_checks_def svc0_def)
  then show ?thesis using verifyCredentials_sound by blast
qed

end
