(* ===== verification/Auth_System.thy ===== *)
theory Auth_System
  imports Auth_Claims Gate_Claims
begin

text \<open>
  Authentication put together with the rest: two refreshes at the same time, tokens with scopes
  behind the permission gate, and the role of a member behind it.
\<close>

section \<open>Two refreshes at the same time\<close>

text \<open>What another request that refreshes with the same token does to the database.\<close>

definition other_refresh ::
  "session_svc \<Rightarrow> string \<Rightarrow> string option \<Rightarrow> string option \<Rightarrow> db \<Rightarrow> db" where
  "other_refresh s raw ua ip d =
     wdb (snd (run_state (Refresh s raw ua ip) \<lparr>wdb = d, sched = [], events = [], pdns = []\<rparr>))"

text \<open>
  C30. Rotation does not detect a second use that happens at the same time: if another request
  refreshes with the same live token between this request's look-up and its update, both are
  answered with a new token, neither with the error of a reuse, and the family has two live tokens
  when this request ends, those of the two answers: whoever stole the token has one of their own.
  The other request runs in the database that this one has looked into, undisturbed.
\<close>

theorem Refresh_forks_family:
  assumes "sched w = [Quiet, Other (other_refresh s raw ua2 ip2)]"
    and "Signer_Verify (sv_signer s) raw = Inr h"
    and "sql_one (\<lambda>r. rt_hash r = h) (refresh_tokens (wdb w)) = Inr rt" "rt_revoked rt = None"
    and "\<not> rt_expires rt < db_now (wdb w)"
    and "sql_one (\<lambda>r. ss_id r = rt_session rt) (sessions (wdb w)) = Inr sess"
    and "rt_user rt \<in> set (db_users (wdb w))"
    and "draws = {db_next (wdb w)..db_next (wdb w) + 3}"
    and "\<forall>k\<in>draws. entropy (sg_crypto (sv_signer s)) k (token_bytes s) = Inr (e k)"
    and "inj_on (\<lambda>k. hashPayload (sg_crypto (sv_signer s)) (e k)) draws"
    and "\<forall>k\<in>draws. hashPayload (sg_crypto (sv_signer s)) (e k) \<notin>
      rt_hash ` set (refresh_tokens (wdb w))"
  shows "\<exists>theirs out w' r1 r2 k1 k2.
    fst (run_state (Refresh s raw ua2 ip2) \<lparr>wdb = wdb w, sched = [], events = [], pdns = []\<rparr>) = Inr theirs \<and>
    run_state (Refresh s raw ua ip) w = (Inr out, w') \<and>
    {r1, r2} \<subseteq> set (refresh_tokens (wdb w')) \<and> rt_hash r1 \<noteq> rt_hash r2 \<and>
    (\<forall>r\<in>{r1, r2}. rt_family r = rt_family rt \<and> rt_session r = rt_session rt \<and> rt_revoked r = None) \<and>
    ri_raw (so_refresh theirs) = Signer_encode (sv_signer s) (e k1) \<and>
    rt_hash r1 = hashPayload (sg_crypto (sv_signer s)) (e k1) \<and>
    ri_raw (so_refresh out) = Signer_encode (sv_signer s) (e k2) \<and>
    rt_hash r2 = hashPayload (sg_crypto (sv_signer s)) (e k2)"
proof -
  let ?H = "\<lambda>k. hashPayload (sg_crypto (sv_signer s)) (e k)"
  let ?k = "db_next (wdb w)" and ?T = "revoke_hash (db_now (wdb w)) h (refresh_tokens (wdb w))"
  let ?r1 = "\<lparr>rt_id = Suc ?k, rt_user = rt_user rt, rt_session = rt_session rt,
    rt_family = rt_family rt, rt_hash = ?H ?k, rt_expires = db_now (wdb w) + sv_refresh_lifetime s,
    rt_revoked = None, rt_agent = ua2, rt_ip = ip2\<rparr>"
  let ?v0 = "\<lparr>wdb = wdb w, sched = [], events = [], pdns = []\<rparr>"
  let ?theirs = "\<lparr>so_user = rt_user rt, so_session = ss_id sess, so_expires = ss_expires sess,
    so_cookie = '''', so_refresh = \<lparr>ri_raw = Signer_encode (sv_signer s) (e ?k),
      ri_family = rt_family rt, ri_expires = db_now (wdb w) + sv_refresh_lifetime s\<rparr>\<rparr>"
  obtain n a where theirs: "fst (run_state (Refresh s raw ua2 ip2) ?v0) = Inr ?theirs"
    and other: "other_refresh s raw ua2 ip2 (wdb w) =
      (wdb w)\<lparr>db_next := n, audits := a, refresh_tokens := ?T @ [?r1]\<rparr>" and n: "?k + 2 \<le> n" "n \<le> ?k + 3"
    using run_Refresh_live [of ?v0 s raw h rt sess "e ?k" ua2 ip2]
      assms(2-9,11) by (auto simp: other_refresh_def)
  have draws: "?k \<in> draws" "n \<in> draws" "n \<noteq> ?k" using n assms(8) by simp_all
  have h: "h \<in> rt_hash ` set (refresh_tokens (wdb w))" using sql_one_InrD [OF assms(3)] by force
  then have "?H ?k \<noteq> h" using assms(11) draws(1) by blast
  then have revoked: "revoke_hash (db_now (wdb w)) h (?T @ [?r1]) =
      revoke_hash (db_now (wdb w)) h ?T @ [?r1]"
    by (simp add: revoke_hash_def sql_update_def)
  let ?d = "(wdb w)\<lparr>db_next := n, audits := a,
    refresh_tokens := revoke_hash (db_now (wdb w)) h ?T @ [?r1]\<rparr>"
  let ?v = "w\<lparr>wdb := ?d, sched := []\<rparr>"
  let ?r2 = "\<lparr>rt_id = Suc n, rt_user = rt_user rt, rt_session = rt_session rt,
    rt_family = rt_family rt, rt_hash = ?H n, rt_expires = db_now (wdb w) + sv_refresh_lifetime s,
    rt_revoked = None, rt_agent = ua, rt_ip = ip\<rparr>"
  have "?H n \<noteq> ?H ?k" using inj_onD [OF assms(10), of n ?k] draws by blast
  moreover have "?H n \<notin> rt_hash ` set (refresh_tokens (wdb w))" using assms(11) draws(2) by blast
  ultimately have fresh: "?H n \<notin> rt_hash ` set (refresh_tokens ?d)" by simp
  obtain n2 a2 where mine: "run_state (Refresh s raw ua ip) w =
    (Inr \<lparr>so_user = rt_user rt, so_session = ss_id sess, so_expires = ss_expires sess, so_cookie = '''',
          so_refresh = \<lparr>ri_raw = Signer_encode (sv_signer s) (e n), ri_family = rt_family rt,
            ri_expires = db_now (wdb w) + sv_refresh_lifetime s\<rparr>\<rparr>,
     ?v\<lparr>wdb := ?d\<lparr>db_next := n2, audits := a2, refresh_tokens := refresh_tokens ?d @
         [?r2]\<rparr>\<rparr>)"
    using run_continue [of ?v rt sess s "e n" ua ip] assms(1-7,9) draws(2) fresh other revoked
    by (auto simp: Refresh_def Tokens_GetRefreshTokenByHash_def Tokens_RevokeRefreshToken_def
      sql_revoke_refresh_def revoke_hash_def)
  show ?thesis
    by (rule exI [of _ ?theirs], rule exI, rule exI, rule exI [of _ ?r1], rule exI [of _ ?r2],
        rule exI [of _ ?k], rule exI [of _ n], intro conjI, rule theirs, rule mine)
      (use \<open>?H n \<noteq> ?H ?k\<close> [symmetric] in simp_all)
qed

section \<open>Tokens with scopes\<close>

lemma unscoped_token: "lo_scopes lo = Some [] \<Longrightarrow> RequirePerm policy lo slug = RequirePerm policy (lo\<lparr>lo_scopes := None\<rparr>) slug"
  by (simp add: RequirePerm_def split: option.split)

text \<open>
  C32. The scopes of an access token do not confine it: with a token of any scopes, the request that
  creates a token passes the gate, and the token it creates may have no scopes at all; that one
  authenticates as the same user and the gate treats it like a session, without restriction.
\<close>

theorem scoped_token_mints_unrestricted:
  assumes "sched w = []" "lo_user lo = Some u" "u \<noteq> uuid_nil" "u \<in> set (db_users (wdb w))"
    and "TrimSpace (pi_name inp) \<noteq> ''''" "pi_scopes inp = []" "pi_expires inp = None"
    and "pv_user_ok s = Some user_checker"
    and "sql_one (\<lambda>r. us_id r = u) (user_rows (wdb w)) = Inr ur" "us_active ur" "us_deleted ur = None"
    and "entropy (sg_crypto (pv_signer s)) (db_next (wdb w))
      (nat (if pv_byte_len s < 16 then 32 else pv_byte_len s)) = Inr p" "p \<noteq> ''''"
    and "hmac_sha256 (sg_crypto (pv_signer s)) (sg_key (pv_signer s)) p \<noteq> ''''"
    and "hashPayload (sg_crypto (pv_signer s)) p \<notin> pt_hash ` set (pats (wdb w))"
  shows "fst (run_state (AuditGate policy lo ''/api/v1/auth/personal-access-tokens'' ''POST'') w) = Proceed \<and>
    (\<exists>row raw w'. run_state (CreatePersonalAccessToken s lo (Some inp)) w = (reply_body 201 (row, Some raw), w') \<and>
      fst (run_state (PAT_Authenticate s raw) w') = Inr (u, [])) \<and>
    (\<forall>lo' slug. lo_scopes lo' = Some [] \<longrightarrow>
      RequirePerm policy lo' slug = RequirePerm policy (lo'\<lparr>lo_scopes := None\<rparr>) slug)"
proof -
  have gate: "gate_rule_of ''/api/v1/auth/personal-access-tokens'' ''POST'' = Free"
    by (rule gate_trees(10)) (simp add: HasPrefix_def)
  let ?h = "hashPayload (sg_crypto (pv_signer s)) p" and ?k = "db_next (wdb w)"
  let ?row = "\<lparr>pt_id = Suc ?k, pt_user = u, pt_name = TrimSpace (pi_name inp), pt_hash = ?h,
    pt_expires = None, pt_revoked = None, pt_used = None, pt_scopes = [], pt_created = db_now (wdb w)\<rparr>"
  let ?w = "w\<lparr>wdb := (wdb w)\<lparr>db_next := Suc (Suc ?k), pats := pats (wdb w) @ [?row]\<rparr>\<rparr>"
  let ?ev = "pat_event ''auth.pat.create'' u (Suc ?k)
    (Some [(''name'', JStr (TrimSpace (pi_name inp))), (''scopes'', JStrs [])])"
  obtain r n a where audit: "run_state (DBEmitter_Emit ?ev) ?w =
      (r, ?w\<lparr>wdb := (wdb ?w)\<lparr>db_next := n, audits := a\<rparr>\<rparr>)"
    using run_audit_quiet [of ?w ?ev] assms(1) by auto
  let ?raw = "if pv_prefix s \<noteq> '''' then pv_prefix s @ Signer_encode (pv_signer s) p
    else Signer_encode (pv_signer s) p"
  let ?w' = "?w\<lparr>wdb := (wdb ?w)\<lparr>db_next := n, audits := a\<rparr>\<rparr>"
  have create: "run_state (CreatePersonalAccessToken s lo (Some inp)) w = (reply_body 201 (?row, Some ?raw), ?w')"
    using assms audit
    by (simp add: CreatePersonalAccessToken_def requireUser_def currentUserID_def PAT_Create_def
      capped_expiry_def Let_def Signer_Issue_def Tokens_CreatePAT_def sql_create_pat_def list_ex_key)
  have raw: "TrimPrefix ?raw (pv_prefix s) = Signer_encode (pv_signer s) p"
    by (simp add: TrimPrefix_def HasPrefix_def)
  have "find (\<lambda>r. pt_hash r = ?h) (pats (wdb w)) = None" using assms(15) by (simp add: find_key_None)
  from find_last [OF this, of ?row] have row: "sql_one (\<lambda>r. pt_hash r = ?h) (pats (wdb ?w')) = Inr ?row"
    by (simp add: sql_one_def)
  have "fst (run_state (PAT_Authenticate s ?raw) ?w') = Inr (u, [])"
    using raw row assms Signer_Verify_encode [OF assms(13,14)]
    by (simp add: PAT_Authenticate_def Tokens_GetPATByHash_def owner_ok_def user_checker_def
      Users_GetByID_def split_beta)
  moreover have "fst (run_state (AuditGate policy lo ''/api/v1/auth/personal-access-tokens'' ''POST'') w) = Proceed"
    by (simp add: AuditGate_def gate)
  ultimately show ?thesis using create unscoped_token by blast
qed

section \<open>The role of a member\<close>

lemma slash_free:
  assumes "(m, pat, ope) \<in> set slash_routes"
  shows "gate_rule_of (pat @ ''/'') m = Free"
proof -
  have "gate_rule_of (pat @ ''/'') m \<in> set (map (\<lambda>(m, p, ope). gate_rule_of (p @ ''/'') m) slash_routes)"
    using assms by force
  then show ?thesis unfolding slash_routes_rules by simp
qed

lemma activeUser_quiet:
  assumes "sched w = []" "sql_one (\<lambda>r. us_id r = u) (user_rows (wdb w)) = Inr ur" "us_deleted ur = None"
  shows "run_state (activeUser u) w = (Inr ur, w)"
  using assms by (simp add: activeUser_def Users_GetByID_def)

lemma admin_role_paths:
  assumes "is_id us" "is_id ts"
  shows "gate_rule_of (''/api/v1/admin/users/'' @ us @ ''/memberships/'' @ ts @ ''/'') ''PUT'' = Free"
proof -
  let ?pat = "''/api/v1/admin/users/:userId/memberships/:tenantId''"
  have known: "(''PUT'', ?pat, ''SetAdminUserRole'') \<in> set slash_routes"
    by (simp add: slash_routes_def)
  have "fill [us, ts] ?pat = ''/api/v1/admin/users/'' @ us @ ''/memberships/'' @ ts" "params ?pat = 2"
    by (simp_all add: name_chars)
  moreover have "(''PUT'', ?pat, ''SetAdminUserRole'') \<in> set routes"
    using known slash_routes_known by auto
  ultimately show ?thesis
    using path_rule(2) [of "''PUT''" ?pat "''SetAdminUserRole''" "[us, ts]"] slash_free [OF known] assms
    by simp
qed

text \<open>
  C12. Anybody who is signed in can become platform administrator. The request that sets the role of
  a member, with a slash at the end of its path, passes the gate without any permission, and the
  handler asks for none: in an undisturbed run on well-formed tables, for any member of a tenant, themselves
  included, it stores the role of the platform administrator, and from then on that user holds
  every permission of the catalog in that tenant.
\<close>

theorem anyone_can_take_over:
  assumes "sched w = []" "access_ok (wdb w)" "lo_user lo = Some a" "a \<noteq> uuid_nil"
    and "sql_one (\<lambda>r. us_id r = u) (user_rows (wdb w)) = Inr ur" "us_deleted ur = None"
    and "sql_one (live_role RolePlatformAdmin) (roles (wdb w)) = Inr ro"
    and "list_ex (is_member u t) (memberships (wdb w))"
    and "is_id us" "is_id ts"
  shows "fst (run_state (AuditGate policy lo
      (''/api/v1/admin/users/'' @ us @ ''/memberships/'' @ ts @ ''/'') ''PUT'') w) = Proceed \<and>
    (\<exists>reply w'. run_state (SetAdminUserRole ustr True ok lo u t (Some RolePlatformAdmin)) w = (reply, w') \<and>
      ht_status reply = 200 \<and>
      (\<forall>s\<in>pn_slug ` set allPermissions.
        fst (run_state (HasPermission (db_lookup coll) u t s) w') = Inr True))"
proof -
  let ?d = "(wdb w)\<lparr>memberships := sql_update (is_member u t) (\<lambda>m. m\<lparr>mb_role := Some (rl_id ro)\<rparr>)
    (memberships (wdb w))\<rparr>"
  let ?w = "w\<lparr>wdb := ?d\<rparr>"
  let ?ev = "\<lparr>ae_tenant = None, ae_actor = Some a, ae_actor_type = ''user'',
    ae_action = ''admin.user.role.update'', ae_resource_type = ''user'', ae_resource = Some u,
    ae_status = ''success'',
    ae_meta = Some [(''tenant_id'', JStr (ustr t)), (''role'', JStr (rl_slug ro))]\<rparr>"
  obtain r n au where audit: "run_state (DBEmitter_Emit ?ev) ?w =
      (r, ?w\<lparr>wdb := ?d\<lparr>db_next := n, audits := au\<rparr>\<rparr>)"
    using run_audit_quiet [of ?w ?ev] assms(1) by auto
  let ?w' = "?w\<lparr>wdb := ?d\<lparr>db_next := n, audits := au\<rparr>\<rparr>"
  have ro: "ro \<in> set (roles (wdb w))" "rl_slug ro = RolePlatformAdmin" "rl_deleted ro = None"
    using sql_one_InrD [OF assms(7)] by (simp_all add: live_role_def)
  obtain m where m: "sql_one (is_member u t) (memberships (wdb w)) = Inr m"
    using assms(8) by (cases "find (is_member u t) (memberships (wdb w))")
      (auto simp: sql_one_def list_ex_iff find_None_iff)
  have plain: "TrimSpace RolePlatformAdmin = RolePlatformAdmin" "RolePlatformAdmin \<noteq> []"
    by (simp_all add: TrimSpace_def is_space_def)
  have set: "run_state (Members_SetRole (Some t) u (Some (rl_id ro))) w = (Inr (), ?w)"
    using assms(1) ro by (simp add: Members_SetRole_def sql_set_role_def role_ref_ok_def)
  have active: "run_state (activeUser u) ?w' = (Inr ur, ?w')"
    using assms(1,5,6) by (intro activeUser_quiet) simp_all
  have run: "run_state (SetAdminUserRole ustr True ok lo u t (Some RolePlatformAdmin)) w = (reply_body 200 ur, ?w')"
    using assms(1,3,4) plain m set audit active assms(7) activeUser_quiet [OF assms(1,5,6)]
    by (simp add: SetAdminUserRole_def requireUser_def currentUserID_def strOr_def RBAC_GetRoleBySlug_def
      WithTenant_def Members_GetByUser_def emitAdminUserAudit_def admin_reply_def loadAdminUser_def)
  have "stable access_ok w" using assms(1,2) by (rule stable_quietI [rotated])
  then have "access_ok ?d"
    using keeps_runD [OF keeps_tenant_call [OF access.member_role] _ set [unfolded Members_SetRole_def]]
      stable_db by fastforce
  then have "stable access_ok ?w" using assms(1) by (simp add: stable_quietI)
  from stable_db [OF keeps_runD [OF keeps_DBEmitter_Emit [OF access_ok_audit] this audit]]
  have ok: "access_ok (wdb ?w')" .
  let ?m = "m\<lparr>mb_role := Some (rl_id ro)\<rparr>"
  have "?m \<in> set (memberships (wdb ?w'))" "is_member u t ?m"
    using sql_one_InrD [OF m] by (auto simp: sql_update_def is_member_def intro!: image_eqI [of _ _ m])
  then have "role_of (wdb ?w') u t = Some RolePlatformAdmin"
    using role_of_member [OF ok, of ?m u t ro] ro by simp
  then have "fst (run_state (HasPermission (db_lookup coll) u t s) ?w') = Inr True"
    if "s \<in> pn_slug ` set allPermissions" for s
    using access_lookup.run_HasPermission [of ?w'] ok assms(1) that
    by (auto simp: access_lookup.holds_def PermissionExists_def list_ex_iff)
  then show ?thesis
    using run admin_role_paths [OF assms(9,10)] by (simp add: AuditGate_def reply_body_def)
qed

section \<open>The properties at work\<close>

lemma draw_inj: "hashPayload crypto0 (replicate 32 (char_of j)) = hashPayload crypto0 (replicate 32 (char_of k)) \<longleftrightarrow>
    (char_of j :: char) = char_of k" for j k :: nat
proof -
  have "hex_encode a = hex_encode b \<longleftrightarrow> a = b" for a b by (metis hex_roundtrip option.inject)
  then show ?thesis by (simp add: hashPayload_def crypto0_def)
qed

theorem Refresh_forks_family_witness:
  "\<exists>theirs out w' r1 r2.
    fst (run_state (Refresh svc0 (token CHR ''r'') None None)
      \<lparr>wdb = wdb auth_world, sched = [], events = [], pdns = []\<rparr>) = Inr theirs \<and>
    run_state (Refresh svc0 (token CHR ''r'') None None)
      (auth_world\<lparr>sched := [Quiet, Other (other_refresh svc0 (token CHR ''r'') None None)]\<rparr>) = (Inr out, w') \<and>
    {r1, r2} \<subseteq> set (refresh_tokens (wdb w')) \<and> rt_hash r1 \<noteq> rt_hash r2 \<and>
    (\<forall>r\<in>{r1, r2}. rt_family r = 32 \<and> rt_session r = 30 \<and> rt_revoked r = None)"
proof -
  let ?w = "auth_world\<lparr>sched := [Quiet, Other (other_refresh svc0 (token CHR ''r'') None None)]\<rparr>"
  let ?e = "\<lambda>k::nat. replicate 32 (char_of k) :: string"
  have inj: "inj_on (\<lambda>k. hashPayload crypto0 (?e k)) {40..43}"
  proof (rule inj_onI)
    fix j k :: nat
    assume *: "j \<in> {40..43}" "k \<in> {40..43}" "hashPayload crypto0 (?e j) = hashPayload crypto0 (?e k)"
    then have "(of_char (char_of j :: char) :: nat) = of_char (char_of k :: char)"
      unfolding draw_inj by simp
    then show "j = k" using *(1,2) by (simp add: of_char_of)
  qed
  have "token_bytes svc0 = 32" by (simp add: token_bytes_def svc0_def)
  then obtain theirs out w' r1 r2 where
    "fst (run_state (Refresh svc0 (token CHR ''r'') None None)
      \<lparr>wdb = wdb ?w, sched = [], events = [], pdns = []\<rparr>) = Inr theirs"
    "run_state (Refresh svc0 (token CHR ''r'') None None) ?w = (Inr out, w')"
    "{r1, r2} \<subseteq> set (refresh_tokens (wdb w'))" "rt_hash r1 \<noteq> rt_hash r2"
    "\<forall>r\<in>{r1, r2}. rt_family r = rt_family refresh0 \<and> rt_session r = rt_session refresh0 \<and> rt_revoked r = None"
    using Refresh_forks_family [of ?w svc0 "token CHR ''r''" None None "token_hash CHR ''r''" refresh0
        session0 "{40..43}" ?e None None] inj live_refresh token_verifies fresh_draw
    by (auto simp: signer0_def crypto0_def)
  then show ?thesis by (intro exI conjI) (simp_all add: refresh0_def)
qed

definition scoped_locals :: locals where
  "scoped_locals = \<lparr>lo_user = Some 7, lo_scopes = Some [''tenant.read''], lo_tenant = Some 5\<rparr>"

definition unscoped_input :: pat_input where
  "unscoped_input = \<lparr>pi_user = 7, pi_name = ''ci'', pi_scopes = [], pi_expires = None\<rparr>"

theorem scoped_token_mints_unrestricted_witness:
  "\<exists>row raw w'. run_state (CreatePersonalAccessToken pats0 scoped_locals (Some unscoped_input)) auth_world =
      (reply_body 201 (row, Some raw), w') \<and> fst (run_state (PAT_Authenticate pats0 raw) w') = Inr (7, [])"
proof -
  have "TrimSpace (pi_name unscoped_input) \<noteq> ''''"
    by (simp add: unscoped_input_def TrimSpace_def is_space_def)
  then show ?thesis
    using scoped_token_mints_unrestricted [of auth_world scoped_locals 7 unscoped_input pats0 user0
        "replicate 32 (char_of (40::nat))"]
    by (auto simp: scoped_locals_def unscoped_input_def pats0_def signer0_def crypto0_def uuid_nil_def
      sql_one_def user0_def)
qed

definition takeover_world :: world where
  "takeover_world = \<lparr>wdb = (empty_db 1000 [5] [7])\<lparr>db_next := 20, user_rows := [user0],
     roles := [\<lparr>rl_id = 10, rl_slug = RolePlatformAdmin, rl_name = ''Platform'', rl_desc = '''',
                rl_system = True, rl_deleted = None, rl_created = 1\<rparr>],
     memberships := [\<lparr>mb_id = 12, mb_tenant = 5, mb_user = 7, mb_role = None,
                      mb_deleted = None, mb_created = 1\<rparr>]\<rparr>, sched = [], events = [], pdns = []\<rparr>"

theorem anyone_can_take_over_witness:
  "fst (run_state (AuditGate None scoped_locals ''/api/v1/admin/users/0a/memberships/1f/'' ''PUT'') takeover_world) =
     Proceed \<and>
   (\<exists>reply w'. run_state (SetAdminUserRole (\<lambda>_. '''') True ok scoped_locals 7 5 (Some RolePlatformAdmin))
       takeover_world = (reply, w') \<and>
     fst (run_state (HasPermission (db_lookup (\<lambda>_. 0)) 7 5 ''audit.read'') w') = Inr True)"
proof -
  have ids: "is_id ''0a''" "is_id ''1f''" by (simp_all add: is_id_def is_hex_dash_def)
  have "sched takeover_world = []" "access_ok (wdb takeover_world)"
    "sql_one (\<lambda>r. us_id r = 7) (user_rows (wdb takeover_world)) = Inr user0"
    "sql_one (live_role RolePlatformAdmin) (roles (wdb takeover_world)) = Inr (hd (roles (wdb takeover_world)))"
    "list_ex (is_member 7 5) (memberships (wdb takeover_world))"
    by (simp_all add: takeover_world_def empty_db_def access_ok_def live_roles_def live_members_def
      sql_one_def user0_def live_role_def is_member_def role_ref_ok_def)
  note all = anyone_can_take_over [OF this(1,2) _ _ this(3) _ this(4,5) ids]
  have "PermissionExists ''audit.read''" by code_simp
  then have slug: "''audit.read'' \<in> pn_slug ` set allPermissions"
    unfolding PermissionExists_def list_ex_iff by (metis imageI)
  have "lo_user scoped_locals = Some 7" "7 \<noteq> uuid_nil" "us_deleted user0 = None"
    by (simp_all add: scoped_locals_def uuid_nil_def user0_def)
  note run = all [OF this, of None "\<lambda>_. ''''" "\<lambda>_. 0"]
  have path: "''/api/v1/admin/users/'' @ ''0a'' @ ''/memberships/'' @ ''1f'' @ ''/'' =
    ''/api/v1/admin/users/0a/memberships/1f/''" by simp
  show ?thesis using run slug unfolding path by meson
qed

end
