(* ===== verification/IpRepo.thy ===== *)
theory IpRepo
  imports Store
begin

text \<open>
  The repositories of address pools, their ranges and the floating addresses
  (\<^verbatim>\<open>database/ippools_repo.go\<close>, \<^verbatim>\<open>database/floatingips_repo.go\<close>) with the statements behind them and
  the constraints of migration 0048. Pools and ranges are global, floating addresses belong to a
  tenant. \<open>coll\<close> is the rank of a text in the collation of the database, \<open>inet\<close> the text the server
  prints for an address.
\<close>

section \<open>Pools\<close>

record pool_params =
  np_name :: string
  np_desc :: "string option"
  np_zone :: "uuid option"
  np_active :: bool

definition live_pool :: "ippool_row \<Rightarrow> bool" where
  "live_pool r \<longleftrightarrow> ip_deleted r = None"

definition sql_create_pool :: "pool_params \<Rightarrow> db \<Rightarrow> ippool_row result \<times> db" where
  "sql_create_pool p d =
     (if list_ex (\<lambda>r. live_pool r \<and> ip_name r = np_name p) (ip_pools d)
      then (Inl (Pg UniqueViolation), d)
      else if \<not> opt_ref (np_zone p) (map zn_id (dns_zones d)) then (Inl (Pg ForeignKeyViolation), d)
      else let row = \<lparr>ip_id = db_next d, ip_name = np_name p, ip_desc = np_desc p,
                      ip_zone = np_zone p, ip_active = np_active p, ip_created = db_now d,
                      ip_deleted = None\<rparr>
           in (Inr row, d\<lparr>db_next := Suc (db_next d), ip_pools := ip_pools d @ [row]\<rparr>))"

definition Pools_Create :: "pool_params \<Rightarrow> ippool_row result prog" where
  "Pools_Create p = db_call (sql_create_pool p)"

definition Pools_Get :: "uuid \<Rightarrow> ippool_row result prog" where
  "Pools_Get i = db_call (read_db (\<lambda>d. sql_one (\<lambda>r. ip_id r = i \<and> live_pool r) (ip_pools d)))"

definition Pools_GetByName :: "string \<Rightarrow> ippool_row result prog" where
  "Pools_GetByName name =
     db_call (read_db (\<lambda>d. sql_one (\<lambda>r. ip_name r = name \<and> live_pool r) (ip_pools d)))"

definition Pools_List :: "int \<Rightarrow> int \<Rightarrow> ippool_row list result prog" where
  "Pools_List limit offset = db_call (read_db (\<lambda>d.
     sql_page limit offset (sort_key ip_created (filter live_pool (ip_pools d)))))"

definition Pools_Count :: "int result prog" where
  "Pools_Count = db_call (read_db (\<lambda>d. Inr (sql_count live_pool (ip_pools d))))"

record pool_update =
  up_id :: uuid
  up_desc :: "string option"
  up_zone :: "uuid option"
  up_active :: bool

definition sql_update_pool :: "pool_update \<Rightarrow> db \<Rightarrow> unit result \<times> db" where
  "sql_update_pool p d =
     (if list_ex (\<lambda>r. ip_id r = up_id p \<and> live_pool r) (ip_pools d) \<and> \<not> opt_ref (up_zone p) (map zn_id (dns_zones d))
      then (Inl (Pg ForeignKeyViolation), d)
      else (Inr (), d\<lparr>ip_pools := sql_update (\<lambda>r. ip_id r = up_id p \<and> live_pool r)
              (\<lambda>r. r\<lparr>ip_desc := up_desc p, ip_zone := up_zone p, ip_active := up_active p\<rparr>)
              (ip_pools d)\<rparr>))"

definition Pools_Update :: "pool_update \<Rightarrow> unit result prog" where
  "Pools_Update p = db_call (sql_update_pool p)"

definition sql_pool_active :: "uuid \<Rightarrow> bool \<Rightarrow> db \<Rightarrow> unit result \<times> db" where
  "sql_pool_active i active d =
     (Inr (), d\<lparr>ip_pools := sql_update (\<lambda>r. ip_id r = i \<and> live_pool r) (\<lambda>r. r\<lparr>ip_active := active\<rparr>)
        (ip_pools d)\<rparr>)"

definition Pools_SetActive :: "uuid \<Rightarrow> bool \<Rightarrow> unit result prog" where
  "Pools_SetActive i active = db_call (sql_pool_active i active)"

definition sql_delete_pool :: "uuid \<Rightarrow> db \<Rightarrow> unit result \<times> db" where
  "sql_delete_pool i d =
     (Inr (), d\<lparr>ip_pools := sql_update (\<lambda>r. ip_id r = i \<and> live_pool r)
        (\<lambda>r. r\<lparr>ip_deleted := Some (db_now d), ip_active := False\<rparr>) (ip_pools d)\<rparr>)"

definition Pools_SoftDelete :: "uuid \<Rightarrow> unit result prog" where
  "Pools_SoftDelete i = db_call (sql_delete_pool i)"

section \<open>Ranges\<close>

record range_params =
  nr_pool :: uuid
  nr_cidr :: string
  nr_family :: int
  nr_excluded :: "string list"

definition sql_create_range :: "range_params \<Rightarrow> db \<Rightarrow> iprange_row result \<times> db" where
  "sql_create_range p d =
     (if nr_family p \<notin> {4, 6} then (Inl (Pg CheckViolation), d)
      else if list_ex (\<lambda>r. ir_pool r = nr_pool p \<and> ir_cidr r = nr_cidr p) (ip_ranges d)
      then (Inl (Pg UniqueViolation), d)
      else if nr_pool p \<notin> ip_id ` set (ip_pools d) then (Inl (Pg ForeignKeyViolation), d)
      else let row = \<lparr>ir_id = db_next d, ir_pool = nr_pool p, ir_cidr = nr_cidr p,
                      ir_family = nr_family p, ir_excluded = nr_excluded p, ir_created = db_now d\<rparr>
           in (Inr row, d\<lparr>db_next := Suc (db_next d), ip_ranges := ip_ranges d @ [row]\<rparr>))"

definition Ranges_Create :: "range_params \<Rightarrow> iprange_row result prog" where
  "Ranges_Create p = db_call (sql_create_range p)"

definition Ranges_Get :: "uuid \<Rightarrow> iprange_row result prog" where
  "Ranges_Get i = db_call (read_db (\<lambda>d. sql_one (\<lambda>r. ir_id r = i) (ip_ranges d)))"

definition Ranges_GetByPoolCIDR :: "uuid \<Rightarrow> string \<Rightarrow> iprange_row result prog" where
  "Ranges_GetByPoolCIDR pool cidr =
     db_call (read_db (\<lambda>d. sql_one (\<lambda>r. ir_pool r = pool \<and> ir_cidr r = cidr) (ip_ranges d)))"

text \<open>The ranges of a pool, by family and text.\<close>

definition pool_ranges :: "(string \<Rightarrow> nat) \<Rightarrow> uuid \<Rightarrow> db \<Rightarrow> iprange_row list" where
  "pool_ranges coll pool d =
     sort_key ir_family (sort_key (\<lambda>r. coll (ir_cidr r)) (filter (\<lambda>r. ir_pool r = pool) (ip_ranges d)))"

definition Ranges_List :: "(string \<Rightarrow> nat) \<Rightarrow> uuid \<Rightarrow> int \<Rightarrow> int \<Rightarrow> iprange_row list result prog" where
  "Ranges_List coll pool limit offset =
     db_call (read_db (\<lambda>d. sql_page limit offset (pool_ranges coll pool d)))"

definition Ranges_ListAllForPool :: "(string \<Rightarrow> nat) \<Rightarrow> uuid \<Rightarrow> iprange_row list result prog" where
  "Ranges_ListAllForPool coll pool = db_call (read_db (\<lambda>d. Inr (pool_ranges coll pool d)))"

definition Ranges_Count :: "uuid \<Rightarrow> int result prog" where
  "Ranges_Count pool = db_call (read_db (\<lambda>d. Inr (sql_count (\<lambda>r. ir_pool r = pool) (ip_ranges d))))"

definition sql_delete_range :: "uuid \<Rightarrow> uuid \<Rightarrow> db \<Rightarrow> unit result \<times> db" where
  "sql_delete_range pool i d =
     (Inr (), d\<lparr>ip_ranges := filter (\<lambda>r. \<not> (ir_pool r = pool \<and> ir_id r = i)) (ip_ranges d)\<rparr>)"

definition Ranges_Delete :: "uuid \<Rightarrow> uuid \<Rightarrow> unit result prog" where
  "Ranges_Delete pool i = db_call (sql_delete_range pool i)"

section \<open>Floating addresses\<close>

record floating_params =
  nf_pool :: uuid
  nf_address :: ipaddr
  nf_family :: int
  nf_ptr :: "string option"
  nf_instance :: "uuid option"
  nf_network :: "string option"
  nf_push :: string

definition push_states :: "string list" where
  "push_states = [''pending'', ''pushed'', ''failed'', ''unsupported'']"

definition live_ip :: "floating_row \<Rightarrow> bool" where
  "live_ip r \<longleftrightarrow> fl_deleted r = None"

definition address_taken :: "ipaddr \<Rightarrow> floating_row list \<Rightarrow> bool" where
  "address_taken a rows \<longleftrightarrow> list_ex (\<lambda>r. live_ip r \<and> fl_address r = a) rows"

definition sql_create_floating :: "floating_params \<Rightarrow> uuid \<Rightarrow> db \<Rightarrow> floating_row result \<times> db" where
  "sql_create_floating p t d =
     (if nf_family p \<notin> {4, 6} \<or> nf_push p \<notin> set push_states then (Inl (Pg CheckViolation), d)
      else if address_taken (nf_address p) (floating_ips d) then (Inl (Pg UniqueViolation), d)
      else if t \<notin> set (db_tenants d) \<or> nf_pool p \<notin> ip_id ` set (ip_pools d) \<or>
              \<not> opt_ref (nf_instance p) (map in_id (instances d))
      then (Inl (Pg ForeignKeyViolation), d)
      else let row = \<lparr>fl_id = db_next d, fl_tenant = t, fl_pool = nf_pool p,
                      fl_address = nf_address p, fl_family = nf_family p, fl_ptr = nf_ptr p,
                      fl_instance = nf_instance p, fl_network = nf_network p, fl_push = nf_push p,
                      fl_created = db_now d, fl_deleted = None\<rparr>
           in (Inr row, d\<lparr>db_next := Suc (db_next d), floating_ips := floating_ips d @ [row]\<rparr>))"

definition FloatingIPs_Create :: "ctx \<Rightarrow> floating_params \<Rightarrow> floating_row result prog" where
  "FloatingIPs_Create ctx p = tenant_call ctx (sql_create_floating p)"

definition is_floating :: "uuid \<Rightarrow> uuid \<Rightarrow> floating_row \<Rightarrow> bool" where
  "is_floating t i r \<longleftrightarrow> fl_tenant r = t \<and> fl_id r = i \<and> live_ip r"

definition FloatingIPs_Get :: "ctx \<Rightarrow> uuid \<Rightarrow> floating_row result prog" where
  "FloatingIPs_Get ctx i =
     tenant_call ctx (\<lambda>t. read_db (\<lambda>d. sql_one (is_floating t i) (floating_ips d)))"

definition FloatingIPs_GetByAddress :: "ctx \<Rightarrow> ipaddr \<Rightarrow> floating_row result prog" where
  "FloatingIPs_GetByAddress ctx a = tenant_call ctx (\<lambda>t. read_db (\<lambda>d.
     sql_one (\<lambda>r. fl_tenant r = t \<and> fl_address r = a \<and> live_ip r) (floating_ips d)))"

definition FloatingIPs_List :: "ctx \<Rightarrow> int \<Rightarrow> int \<Rightarrow> floating_row list result prog" where
  "FloatingIPs_List ctx limit offset = tenant_call ctx (\<lambda>t. read_db (\<lambda>d.
     sql_page limit offset (sort_key (\<lambda>r. - fl_created r)
       (filter (\<lambda>r. fl_tenant r = t \<and> live_ip r) (floating_ips d)))))"

definition FloatingIPs_Count :: "ctx \<Rightarrow> int result prog" where
  "FloatingIPs_Count ctx = tenant_call ctx (\<lambda>t. read_db (\<lambda>d.
     Inr (sql_count (\<lambda>r. fl_tenant r = t \<and> live_ip r) (floating_ips d))))"

text \<open>The addresses of a tenant in a pool, in the order of the type \<^verbatim>\<open>inet\<close>.\<close>

definition FloatingIPs_ListByPool :: "ctx \<Rightarrow> uuid \<Rightarrow> int \<Rightarrow> int \<Rightarrow> floating_row list result prog" where
  "FloatingIPs_ListByPool ctx pool limit offset = tenant_call ctx (\<lambda>t. read_db (\<lambda>d.
     sql_page limit offset (sort_key (\<lambda>r. BitLen (fl_address r)) (sort_key (\<lambda>r. addr_num (fl_address r))
       (filter (\<lambda>r. fl_tenant r = t \<and> fl_pool r = pool \<and> live_ip r) (floating_ips d))))))"

definition FloatingIPs_CountByPool :: "ctx \<Rightarrow> uuid \<Rightarrow> int result prog" where
  "FloatingIPs_CountByPool ctx pool = tenant_call ctx (\<lambda>t. read_db (\<lambda>d.
     Inr (sql_count (\<lambda>r. fl_tenant r = t \<and> fl_pool r = pool \<and> live_ip r) (floating_ips d))))"

definition FloatingIPs_GetByInstance :: "ctx \<Rightarrow> uuid \<Rightarrow> floating_row result prog" where
  "FloatingIPs_GetByInstance ctx i = tenant_call ctx (\<lambda>t. read_db (\<lambda>d.
     sql_one (\<lambda>r. fl_tenant r = t \<and> fl_instance r = Some i \<and> live_ip r) (floating_ips d)))"

definition FloatingIPs_ListAllAddressesForTenant ::
  "(ipaddr \<Rightarrow> string) \<Rightarrow> ctx \<Rightarrow> string list result prog" where
  "FloatingIPs_ListAllAddressesForTenant inet ctx = tenant_call ctx (\<lambda>t. read_db (\<lambda>d.
     Inr (map (\<lambda>r. inet (fl_address r)) (filter (\<lambda>r. fl_tenant r = t \<and> live_ip r) (floating_ips d)))))"

text \<open>The addresses taken from a pool by all tenants.\<close>

definition pool_taken :: "uuid \<Rightarrow> db \<Rightarrow> ipaddr list" where
  "pool_taken pool d = map fl_address (filter (\<lambda>r. fl_pool r = pool \<and> live_ip r) (floating_ips d))"

definition FloatingIPs_ListAllAddressesInPool ::
  "(ipaddr \<Rightarrow> string) \<Rightarrow> uuid \<Rightarrow> string list result prog" where
  "FloatingIPs_ListAllAddressesInPool inet pool =
     db_call (read_db (\<lambda>d. Inr (map inet (pool_taken pool d))))"

record attach_params =
  at_id :: uuid
  at_instance :: "uuid option"
  at_push :: string
  at_network :: "string option"

definition sql_set_instance :: "attach_params \<Rightarrow> uuid \<Rightarrow> db \<Rightarrow> unit result \<times> db" where
  "sql_set_instance p t d =
     (if \<not> list_ex (is_floating t (at_id p)) (floating_ips d) then (Inr (), d)
      else if at_push p \<notin> set push_states then (Inl (Pg CheckViolation), d)
      else if \<not> opt_ref (at_instance p) (map in_id (instances d)) then (Inl (Pg ForeignKeyViolation), d)
      else (Inr (), d\<lparr>floating_ips := sql_update (is_floating t (at_id p))
              (\<lambda>r. r\<lparr>fl_instance := at_instance p, fl_push := at_push p, fl_network := at_network p\<rparr>)
              (floating_ips d)\<rparr>))"

definition FloatingIPs_SetInstance :: "ctx \<Rightarrow> attach_params \<Rightarrow> unit result prog" where
  "FloatingIPs_SetInstance ctx p = tenant_call ctx (sql_set_instance p)"

definition sql_set_ptr :: "uuid \<Rightarrow> string option \<Rightarrow> uuid \<Rightarrow> db \<Rightarrow> unit result \<times> db" where
  "sql_set_ptr i target t d =
     (Inr (), d\<lparr>floating_ips := sql_update (is_floating t i) (\<lambda>r. r\<lparr>fl_ptr := target\<rparr>) (floating_ips d)\<rparr>)"

definition FloatingIPs_SetPTRTarget :: "ctx \<Rightarrow> uuid \<Rightarrow> string option \<Rightarrow> unit result prog" where
  "FloatingIPs_SetPTRTarget ctx i target = tenant_call ctx (sql_set_ptr i target)"

definition sql_set_push :: "uuid \<Rightarrow> string \<Rightarrow> string option \<Rightarrow> uuid \<Rightarrow> db \<Rightarrow> unit result \<times> db" where
  "sql_set_push i status network t d =
     (if list_ex (is_floating t i) (floating_ips d) \<and> status \<notin> set push_states
      then (Inl (Pg CheckViolation), d)
      else (Inr (), d\<lparr>floating_ips := sql_update (is_floating t i)
              (\<lambda>r. r\<lparr>fl_push := status, fl_network := network\<rparr>) (floating_ips d)\<rparr>))"

definition FloatingIPs_SetForwardPushStatus ::
  "ctx \<Rightarrow> uuid \<Rightarrow> string \<Rightarrow> string option \<Rightarrow> unit result prog" where
  "FloatingIPs_SetForwardPushStatus ctx i status network = tenant_call ctx (sql_set_push i status network)"

definition sql_release :: "uuid \<Rightarrow> uuid \<Rightarrow> db \<Rightarrow> unit result \<times> db" where
  "sql_release i t d =
     (Inr (), d\<lparr>floating_ips := sql_update (is_floating t i)
        (\<lambda>r. r\<lparr>fl_deleted := Some (db_now d), fl_instance := None, fl_network := None,
               fl_push := ''pending''\<rparr>) (floating_ips d)\<rparr>)"

definition FloatingIPs_SoftDelete :: "ctx \<Rightarrow> uuid \<Rightarrow> unit result prog" where
  "FloatingIPs_SoftDelete ctx i = tenant_call ctx (sql_release i)"

definition Instances_Get :: "ctx \<Rightarrow> uuid \<Rightarrow> instance_row result prog" where
  "Instances_Get ctx i = tenant_call ctx (\<lambda>t. read_db (\<lambda>d.
     sql_one (\<lambda>r. in_tenant r = t \<and> in_id r = i \<and> in_deleted r = None) (instances d)))"

end
