(* ===== verification/IpAlloc.thy ===== *)
theory IpAlloc
  imports IpRepo
begin

text \<open>
  \<^verbatim>\<open>compute/ip_allocation.go\<close>: the search for the next free address of a pool. The two loops that walk
  over addresses are partial functions whose value is \<open>None\<close> when they do not end; they are shown to
  return on every prefix, and to find the lowest free address among the first 65536 of it.
\<close>

section \<open>The search in a prefix\<close>

definition familyOf :: "ipprefix \<Rightarrow> int" where
  "familyOf p = (if Is4 (pf_addr p) then 4 else 6)"

definition isExcludedOrAllocated :: "ipaddr \<Rightarrow> string list \<Rightarrow> string list \<Rightarrow> bool" where
  "isExcludedOrAllocated a excluded allocated \<longleftrightarrow>
     (let s = addr_text a in s \<in> set excluded \<or> s \<in> set allocated)"

text \<open>The loop of \<open>isBroadcast\<close>: from the network address up, \<open>n\<close> steps or to the last address.\<close>

partial_function (option) broadcast_loop :: "nat \<Rightarrow> nat \<Rightarrow> ipaddr \<Rightarrow> ipaddr option" where
  [code]: "broadcast_loop n i cur =
     (if i < n
      then (case Next cur of None \<Rightarrow> Some cur | Some a \<Rightarrow> broadcast_loop n (i + 1) a)
      else Some cur)"

definition isBroadcast :: "ipaddr \<Rightarrow> ipprefix \<Rightarrow> bool option" where
  "isBroadcast a p =
     (if \<not> Is4 a then Some False
      else if 32 \<le> pf_bits p then Some False
      else map_option (\<lambda>cur. a = cur)
             (broadcast_loop (2 ^ (32 - pf_bits p) - 1) 0 (pf_addr (Masked p))))"

definition maxIter :: nat where
  "maxIter = 65536"

partial_function (option) walk_loop ::
  "ipprefix \<Rightarrow> string list \<Rightarrow> string list \<Rightarrow> bool \<Rightarrow> bool \<Rightarrow> nat \<Rightarrow> ipaddr \<Rightarrow> ipaddr option option" where
  [code]: "walk_loop p excluded allocated skipNetwork skipBroadcast i cur =
     (if i < maxIter
      then Option.bind
        (if (i \<noteq> 0 \<or> \<not> skipNetwork) \<and> \<not> isExcludedOrAllocated cur excluded allocated
         then if \<not> skipBroadcast then Some True else map_option Not (isBroadcast cur p)
         else Some False)
        (\<lambda>found.
          if found then Some (Some cur)
          else (case Next cur of
                  None \<Rightarrow> Some None
                | Some a \<Rightarrow>
                    if \<not> prefix_contains p a then Some None
                    else walk_loop p excluded allocated skipNetwork skipBroadcast (i + 1) a))
      else Some None)"

definition firstFreeInPrefix :: "ipprefix \<Rightarrow> string list \<Rightarrow> string list \<Rightarrow> ipaddr option option" where
  "firstFreeInPrefix p excluded allocated =
     (let net = pf_addr (Masked p);
          isV4 = Is4 net;
          hostBits = (if isV4 then 32 - pf_bits p else 128 - pf_bits p)
      in if hostBits = 0
         then Some (if \<not> isExcludedOrAllocated net excluded allocated then Some net else None)
         else walk_loop p excluded allocated (2 \<le> hostBits) (isV4 \<and> 2 \<le> hostBits) 0 net)"

section \<open>The search in a pool\<close>

text \<open>The keys that an allocated address, as the server prints it, adds to the set.\<close>

definition allocated_key :: "string \<Rightarrow> string list" where
  "allocated_key a =
     (case ParseAddr (TrimSuffix a ''/32'') of
        Some x \<Rightarrow> [addr_text x]
      | None \<Rightarrow> (case ParseAddr (TrimSuffix a ''/128'') of Some x \<Rightarrow> [addr_text x] | None \<Rightarrow> []))"

definition allocated_set :: "string list \<Rightarrow> string list" where
  "allocated_set as = concat (map allocated_key as)"

fun search_ranges :: "iprange_row list \<Rightarrow> string list \<Rightarrow> (ipaddr \<times> int) option option" where
  "search_ranges [] allocated = Some None"
| "search_ranges (r # rs) allocated =
     (case ParsePrefix (ir_cidr r) of
        None \<Rightarrow> search_ranges rs allocated
      | Some p \<Rightarrow>
          (case firstFreeInPrefix p (ir_excluded r) allocated of
             None \<Rightarrow> None
           | Some None \<Rightarrow> search_ranges rs allocated
           | Some (Some a) \<Rightarrow> Some (Some (a, familyOf p))))"

text \<open>The search of every pool returns (\<open>search_ranges_returns\<close> below).\<close>

definition pickNextFreeAddress ::
  "(string \<Rightarrow> nat) \<Rightarrow> (ipaddr \<Rightarrow> string) \<Rightarrow> uuid \<Rightarrow> (ipaddr \<times> int) result prog" where
  "pickNextFreeAddress coll inet pool = do {
     rs \<leftarrow> Ranges_ListAllForPool coll pool;
     case rs of
       Inl e \<Rightarrow> fail (Wrap ''compute: list pool ranges'' e)
     | Inr ranges \<Rightarrow>
         if ranges = [] then fail (Sentinel ErrIPPoolExhausted)
         else do {
           al \<leftarrow> FloatingIPs_ListAllAddressesInPool inet pool;
           case al of
             Inl e \<Rightarrow> fail (Wrap ''compute: list allocated addresses'' e)
           | Inr allocated \<Rightarrow>
               (case the (search_ranges ranges (allocated_set allocated)) of
                  None \<Rightarrow> fail (Sentinel ErrIPPoolExhausted)
                | Some found \<Rightarrow> ok found) } }"

section \<open>Arithmetic of a prefix\<close>

lemma unat_drop: "unat (drop_bit n (x :: 'a::len word)) = unat x div 2 ^ n"
  by (subst unat_drop_bit_eq) (rule drop_bit_eq_div)

lemma drop_bit_xor_zero:
  fixes a b :: "'a::len word"
  shows "drop_bit n (a XOR b) = 0 \<longleftrightarrow> unat a div 2 ^ n = unat b div 2 ^ n"
proof -
  have "drop_bit n (a XOR b) = 0 \<longleftrightarrow> drop_bit n a = drop_bit n b"
    by (auto simp: drop_bit_xor bit_eq_iff bit_xor_iff)
  also have "\<dots> \<longleftrightarrow> unat (drop_bit n a) = unat (drop_bit n b)" by (simp add: word_unat_eq_iff)
  also have "\<dots> \<longleftrightarrow> unat a div 2 ^ n = unat b div 2 ^ n" by (simp only: unat_drop)
  finally show ?thesis .
qed

lemma unat_clear_low:
  fixes a :: "'a::len word"
  shows "unat (clear_low n a) = unat a div 2 ^ n * 2 ^ n"
proof -
  have "unat a div 2 ^ n * 2 ^ n \<le> unat a" by simp
  also have "\<dots> < 2 ^ LENGTH('a)" by (rule unat_below)
  finally have less: "unat a div 2 ^ n * 2 ^ n < 2 ^ LENGTH('a)" .
  have "unat (clear_low n a) = take_bit LENGTH('a) (push_bit n (drop_bit n (unat a)))"
    by (simp only: clear_low_def unsigned_push_bit_eq unat_drop_bit_eq)
  also have "\<dots> = unat a div 2 ^ n * 2 ^ n"
    using less by (simp only: push_bit_eq_mult drop_bit_eq_div take_bit_nat_eq_self)
  finally show ?thesis .
qed

lemma clear_low_xor_zero:
  fixes a b :: "'a::len word"
  shows "clear_low n (a XOR b) = 0 \<longleftrightarrow> unat a div 2 ^ n = unat b div 2 ^ n"
proof -
  have "clear_low n (a XOR b) = 0 \<longleftrightarrow> unat (clear_low n (a XOR b)) = 0" by (simp add: unat_eq_0)
  also have "\<dots> \<longleftrightarrow> unat (drop_bit n (a XOR b)) = 0"
    by (simp only: unat_clear_low unat_drop) simp
  also have "\<dots> \<longleftrightarrow> drop_bit n (a XOR b) = 0" by (simp only: unat_eq_0)
  finally show ?thesis by (simp only: drop_bit_xor_zero)
qed

text \<open>The address \<open>k\<close> places after the network address of a prefix.\<close>

fun addr_at :: "ipaddr \<Rightarrow> nat \<Rightarrow> ipaddr" where
  "addr_at (V4 a) k = V4 (a + of_nat k)"
| "addr_at (V6 a z) k = V6 (a + of_nat k) z"

definition net_addr :: "ipprefix \<Rightarrow> ipaddr" where
  "net_addr p = pf_addr (Masked p)"

definition host_bits :: "ipprefix \<Rightarrow> nat" where
  "host_bits p = BitLen (pf_addr p) - pf_bits p"

lemma addr_at_0 [simp]: "addr_at a 0 = a"
  by (cases a) simp_all

lemma unat_offset:
  fixes a :: "'a::len word"
  assumes "n \<le> LENGTH('a)" "k < 2 ^ n"
  shows "unat (clear_low n a + of_nat k) = unat a div 2 ^ n * 2 ^ n + k"
proof -
  have "unat a div 2 ^ n < 2 ^ (LENGTH('a) - n)"
    using unat_below [of a] assms(1)
    by (simp add: less_mult_imp_div_less flip: power_add)
  then have "Suc (unat a div 2 ^ n) * 2 ^ n \<le> 2 ^ (LENGTH('a) - n) * 2 ^ n"
    by (intro mult_le_mono1) simp
  then have "unat a div 2 ^ n * 2 ^ n + k < 2 ^ LENGTH('a)"
    using assms by (simp flip: power_add)
  then show ?thesis
    by (simp add: unat_word_ariths unsigned_of_nat unat_clear_low take_bit_eq_mod mod_simps)
qed

lemma div_offset: "r < 2 ^ n \<Longrightarrow> (q * 2 ^ n + r) div 2 ^ n = (q :: nat)"
  by simp

lemma offset_inside:
  fixes a :: "'a::len word"
  assumes "n \<le> LENGTH('a)" "Suc k < 2 ^ n"
  shows "clear_low n a + of_nat k + 1 \<noteq> 0"
    and "unat (clear_low n a + of_nat k + 1) div 2 ^ n = unat a div 2 ^ n"
proof -
  have "clear_low n a + of_nat k + 1 = clear_low n a + of_nat (Suc k)" by simp
  then have *: "unat (clear_low n a + of_nat k + 1) = unat a div 2 ^ n * 2 ^ n + Suc k"
    using unat_offset [OF assms, of a] by (simp only:)
  then show "clear_low n a + of_nat k + 1 \<noteq> 0" by (metis Zero_not_Suc add_Suc_right unat_0)
  show "unat (clear_low n a + of_nat k + 1) div 2 ^ n = unat a div 2 ^ n"
    unfolding * using assms(2) by (rule div_offset)
qed

lemma offset_past:
  fixes a :: "'a::len word"
  assumes "n \<le> LENGTH('a)" "Suc k = 2 ^ n" "clear_low n a + of_nat k + 1 \<noteq> 0"
  shows "unat (clear_low n a + of_nat k + 1) div 2 ^ n \<noteq> unat a div 2 ^ n"
proof -
  have "k < 2 ^ n" unfolding assms(2) [symmetric] by simp
  then have "unat (clear_low n a + of_nat k) = unat a div 2 ^ n * 2 ^ n + k"
    using assms(1) by (intro unat_offset)
  moreover have "unat (clear_low n a + of_nat k + 1) = Suc (unat (clear_low n a + of_nat k))"
    using assms(3) unatSuc [of "clear_low n a + of_nat k"] by (simp add: add.commute)
  ultimately have "unat (clear_low n a + of_nat k + 1) = unat a div 2 ^ n * 2 ^ n + 2 ^ n"
    using assms(2) by simp
  then show ?thesis by simp
qed

lemma network_cases:
  assumes "prefix_valid p"
  obtains (v4) a where "host_bits p \<le> 32" "pf_addr p = V4 a" "net_addr p = V4 (clear_low (host_bits p) a)"
      "\<And>b. prefix_contains p (V4 b) \<longleftrightarrow> unat b div 2 ^ host_bits p = unat a div 2 ^ host_bits p"
    | (v6) a where "host_bits p \<le> 128" "\<not> Is4 (pf_addr p)" "net_addr p = V6 (clear_low (host_bits p) a) []"
      "\<And>b. prefix_contains p (V6 b []) \<longleftrightarrow> unat b div 2 ^ host_bits p = unat a div 2 ^ host_bits p"
proof (cases "pf_addr p")
  case (V4 a)
  then have n: "host_bits p = 32 - pf_bits p" "net_addr p = V4 (clear_low (host_bits p) a)"
    by (simp_all add: host_bits_def net_addr_def)
  have "prefix_contains p (V4 b) \<longleftrightarrow> unat b div 2 ^ host_bits p = unat a div 2 ^ host_bits p" for b
    using drop_bit_xor_zero [of "host_bits p" a b] by (auto simp: V4 n(1) simp del: drop_bit_xor)
  then show ?thesis using V4 n by (intro v4) simp_all
next
  case (V6 a z)
  then have n: "host_bits p = 128 - pf_bits p" "net_addr p = V6 (clear_low (host_bits p) a) []"
    by (simp_all add: host_bits_def net_addr_def)
  have "prefix_contains p (V6 b []) \<longleftrightarrow> unat b div 2 ^ host_bits p = unat a div 2 ^ host_bits p" for b
    using clear_low_xor_zero [of "host_bits p" a b] by (auto simp: V6 n(1))
  then show ?thesis using V6 n by (intro v6) simp_all
qed

lemma next_inside:
  assumes "prefix_valid p" "Suc k < 2 ^ host_bits p"
  shows "Next (addr_at (net_addr p) k) = Some (addr_at (net_addr p) (Suc k)) \<and>
    prefix_contains p (addr_at (net_addr p) (Suc k))"
  using assms(1)
proof (cases rule: network_cases)
  case (v4 a)
  have at: "addr_at (net_addr p) (Suc k) = V4 (clear_low (host_bits p) a + of_nat k + 1)"
    by (simp add: v4 ac_simps)
  show ?thesis
    unfolding at v4(4) using offset_inside [of "host_bits p" k a] v4(1) assms(2) by (simp add: v4(3))
next
  case (v6 a)
  have at: "addr_at (net_addr p) (Suc k) = V6 (clear_low (host_bits p) a + of_nat k + 1) []"
    by (simp add: v6 ac_simps)
  show ?thesis
    unfolding at v6(4) using offset_inside [of "host_bits p" k a] v6(1) assms(2) by (simp add: v6(3))
qed

lemma next_past:
  assumes "prefix_valid p" "Suc k = 2 ^ host_bits p" "Next (addr_at (net_addr p) k) = Some b"
  shows "\<not> prefix_contains p b"
  using assms(1)
proof (cases rule: network_cases)
  case (v4 a)
  then have "clear_low (host_bits p) a + of_nat k + 1 \<noteq> 0" "b = V4 (clear_low (host_bits p) a + of_nat k + 1)"
    using assms(3) by (simp_all split: if_splits)
  then show ?thesis using v4(1) offset_past [of "host_bits p" k a] assms(2) by (simp only: v4(4)) simp
next
  case (v6 a)
  then have "clear_low (host_bits p) a + of_nat k + 1 \<noteq> 0" "b = V6 (clear_low (host_bits p) a + of_nat k + 1) []"
    using assms(3) by (simp_all split: if_splits)
  then show ?thesis using v6(1) offset_past [of "host_bits p" k a] assms(2) by (simp only: v6(4)) simp
qed

lemma addr_at_num:
  assumes "prefix_valid p" "k < 2 ^ host_bits p"
  shows "addr_num (addr_at (net_addr p) k) = addr_num (net_addr p) + k"
  using assms(1)
proof (cases rule: network_cases)
  case (v4 a)
  have "host_bits p \<le> LENGTH(32)" using v4(1) by simp
  from unat_offset [OF this assms(2)] show ?thesis
    by (simp only: v4(3) addr_at.simps addr_num.simps unat_clear_low)
next
  case (v6 a)
  have "host_bits p \<le> LENGTH(128)" using v6(1) by simp
  from unat_offset [OF this assms(2)] show ?thesis
    by (simp only: v6(3) addr_at.simps addr_num.simps unat_clear_low)
qed

lemma addr_at_inj:
  assumes "prefix_valid p" "j < 2 ^ host_bits p" "k < 2 ^ host_bits p"
  shows "addr_at (net_addr p) j = addr_at (net_addr p) k \<longleftrightarrow> j = k"
  by (metis addr_at_num [OF assms(1,2)] addr_at_num [OF assms(1,3)] add_left_cancel)

section \<open>The loops return\<close>

lemma network_family: "Is4 (net_addr p) \<longleftrightarrow> Is4 (pf_addr p)" "Is4 (addr_at a k) \<longleftrightarrow> Is4 a"
  by (cases "pf_addr p", simp_all add: net_addr_def) (cases a, simp_all)

lemma broadcast_loop_returns:
  assumes "prefix_valid p" "i < 2 ^ host_bits p"
  shows "broadcast_loop (2 ^ host_bits p - 1) i (addr_at (net_addr p) i) =
    Some (addr_at (net_addr p) (2 ^ host_bits p - 1))"
  using assms(2)
proof (induction "2 ^ host_bits p - i" arbitrary: i rule: less_induct)
  case less
  show ?case
  proof (cases "i < 2 ^ host_bits p - 1")
    case True
    then have "Suc i < 2 ^ host_bits p" by simp
    moreover have "2 ^ host_bits p - Suc i < 2 ^ host_bits p - i" using less.prems by (rule diff_less_mono2 [OF lessI])
    ultimately show ?thesis
      using True less.hyps [of "Suc i"] next_inside [OF assms(1), of i]
      by (subst broadcast_loop.simps) simp
  next
    case False
    then have "i = 2 ^ host_bits p - 1" using less.prems by simp
    then show ?thesis by (subst broadcast_loop.simps) simp
  qed
qed

lemma isBroadcast_at:
  assumes "prefix_valid p" "k < 2 ^ host_bits p" "Is4 (pf_addr p)" "0 < host_bits p"
  shows "isBroadcast (addr_at (net_addr p) k) p = Some (k = 2 ^ host_bits p - 1)"
proof -
  have n: "host_bits p = 32 - pf_bits p" using assms(3) by (cases "pf_addr p") (simp_all add: host_bits_def)
  have "\<not> 32 \<le> pf_bits p" using assms(4) n by simp
  then show ?thesis
    using assms broadcast_loop_returns [OF assms(1), of 0]
    by (simp add: isBroadcast_def network_family addr_at_inj flip: n net_addr_def del: Masked.simps)
qed

text \<open>
  The reference: an address of the prefix is usable when it is neither excluded nor allocated and,
  in a prefix of at least four addresses, is not its first one nor, for version 4, its last one.
\<close>

definition usable :: "ipprefix \<Rightarrow> string list \<Rightarrow> string list \<Rightarrow> nat \<Rightarrow> bool" where
  "usable p excluded allocated k \<longleftrightarrow>
     \<not> isExcludedOrAllocated (addr_at (net_addr p) k) excluded allocated \<and>
     (2 \<le> host_bits p \<longrightarrow> k \<noteq> 0 \<and> (Is4 (pf_addr p) \<longrightarrow> k \<noteq> 2 ^ host_bits p - 1))"

definition lowest_usable :: "ipprefix \<Rightarrow> string list \<Rightarrow> string list \<Rightarrow> nat \<Rightarrow> ipaddr option" where
  "lowest_usable p excluded allocated i =
     map_option (addr_at (net_addr p)) (find (usable p excluded allocated) [i..<min (2 ^ host_bits p) 65536])"

lemma walk_loop_returns:
  assumes "prefix_valid p" "0 < host_bits p" "i < 2 ^ host_bits p"
  shows "walk_loop p ex al (2 \<le> host_bits p) (Is4 (pf_addr p) \<and> 2 \<le> host_bits p) i (addr_at (net_addr p) i) =
    Some (lowest_usable p ex al i)"
  using assms(3)
proof (induction "2 ^ host_bits p - i" arbitrary: i rule: less_induct)
  case less
  let ?a = "addr_at (net_addr p) i"
  show ?case
  proof (cases "i < maxIter")
    case False
    then show ?thesis by (subst walk_loop.simps) (simp add: lowest_usable_def maxIter_def)
  next
    case True
    then have range: "[i..<min (2 ^ host_bits p) 65536] = i # [Suc i..<min (2 ^ host_bits p) 65536]"
      using less.prems by (simp add: upt_conv_Cons maxIter_def)
    have test: "(if (i \<noteq> 0 \<or> \<not> 2 \<le> host_bits p) \<and> \<not> isExcludedOrAllocated ?a ex al
         then if \<not> (Is4 (pf_addr p) \<and> 2 \<le> host_bits p) then Some True else map_option Not (isBroadcast ?a p)
         else Some False) = Some (usable p ex al i)"
      using isBroadcast_at [OF assms(1) less.prems _ assms(2)] by (auto simp: usable_def)
    have step: "walk_loop p ex al (2 \<le> host_bits p) (Is4 (pf_addr p) \<and> 2 \<le> host_bits p) i ?a =
      (if usable p ex al i then Some (Some ?a)
       else (case Next ?a of
               None \<Rightarrow> Some None
             | Some a \<Rightarrow> if \<not> prefix_contains p a then Some None
                 else walk_loop p ex al (2 \<le> host_bits p) (Is4 (pf_addr p) \<and> 2 \<le> host_bits p) (i + 1) a))"
      by (subst walk_loop.simps) (simp only: True if_True test bind.simps)
    show ?thesis
    proof (cases "Suc i < 2 ^ host_bits p")
      case True
      have "2 ^ host_bits p - Suc i < 2 ^ host_bits p - i" using less.prems by (rule diff_less_mono2 [OF lessI])
      from less.hyps [OF this True] show ?thesis
        using next_inside [OF assms(1) True] by (simp add: step lowest_usable_def range)
    next
      case False
      then have last: "Suc i = 2 ^ host_bits p" using less.prems by simp
      then have "[Suc i..<min (2 ^ host_bits p) 65536] = []" by simp
      then show ?thesis
        using next_past [OF assms(1) last] by (auto simp: step lowest_usable_def range split: option.split)
    qed
  qed
qed

lemma firstFree_lowest:
  assumes "prefix_valid p"
  shows "firstFreeInPrefix p ex al = Some (lowest_usable p ex al 0)"
proof (cases "host_bits p = 0")
  case True
  then show ?thesis
    using assms by (cases "pf_addr p") (auto simp: firstFreeInPrefix_def host_bits_def net_addr_def
      lowest_usable_def usable_def maxIter_def)
next
  case False
  have n: "host_bits p = (if Is4 (pf_addr p) then 32 - pf_bits p else 128 - pf_bits p)"
    by (cases "pf_addr p") (simp_all add: host_bits_def)
  show ?thesis
    using walk_loop_returns [OF assms, of 0 ex al] False
    by (simp add: firstFreeInPrefix_def Let_def network_family flip: n net_addr_def del: Masked.simps)
qed

lemma ParsePrefix_valid: "ParsePrefix s = Some p \<Longrightarrow> prefix_valid p \<and> \<not> hasZone (pf_addr p)"
  by (auto simp: ParsePrefix_def prefix_bits_def prefix_valid_def split: option.splits if_splits)

text \<open>The first range of a pool that has a usable address, by the reference.\<close>

fun lowest_in_ranges :: "iprange_row list \<Rightarrow> string list \<Rightarrow> (ipaddr \<times> int) option" where
  "lowest_in_ranges [] allocated = None"
| "lowest_in_ranges (r # rs) allocated =
     (case ParsePrefix (ir_cidr r) of
        None \<Rightarrow> lowest_in_ranges rs allocated
      | Some p \<Rightarrow>
          (case lowest_usable p (ir_excluded r) allocated 0 of
             None \<Rightarrow> lowest_in_ranges rs allocated
           | Some a \<Rightarrow> Some (a, familyOf p)))"

lemma search_ranges_returns: "search_ranges rs allocated = Some (lowest_in_ranges rs allocated)"
  by (induction rs) (auto simp: firstFree_lowest dest!: ParsePrefix_valid split: option.split)

lemma find_range: "find P [i..<n] = Some k \<Longrightarrow> i \<le> k \<and> k < n \<and> P k \<and> (\<forall>j. i \<le> j \<longrightarrow> j < k \<longrightarrow> \<not> P j)"
proof (induction "n - i" arbitrary: i)
  case (Suc m)
  then have i: "[i..<n] = i # [Suc i..<n]" by (simp add: upt_conv_Cons)
  show ?case
  proof (cases "P i")
    case False
    then have "Suc i \<le> k \<and> k < n \<and> P k \<and> (\<forall>j. Suc i \<le> j \<longrightarrow> j < k \<longrightarrow> \<not> P j)"
      using Suc(1) [of "Suc i"] Suc(2,3) i by simp
    then show ?thesis using False by (metis Suc_leD Suc_leI le_neq_implies_less)
  qed (use Suc(2,3) i in auto)
qed simp

lemma lowest_usable_Some:
  assumes "lowest_usable p ex al 0 = Some a"
  obtains k where "k < 2 ^ host_bits p" "k < 65536" "usable p ex al k" "a = addr_at (net_addr p) k"
    "\<forall>j<k. \<not> usable p ex al j"
  using assms find_range [of "usable p ex al" 0 "min (2 ^ host_bits p) 65536"]
  unfolding lowest_usable_def by fastforce

lemma lowest_usable_None:
  "lowest_usable p ex al 0 = None \<longleftrightarrow> (\<forall>k. k < 2 ^ host_bits p \<longrightarrow> k < 65536 \<longrightarrow> \<not> usable p ex al k)"
  by (auto simp: lowest_usable_def find_None_iff)

lemma lowest_in_ranges_Some:
  assumes "lowest_in_ranges rs al = Some (a, f)"
  obtains r p where "r \<in> set rs" "ParsePrefix (ir_cidr r) = Some p" "f = familyOf p"
    "lowest_usable p (ir_excluded r) al 0 = Some a"
  using assms by (induction rs) (auto split: option.splits)

end
