(* ===== verification/FloatingIps.thy ===== *)
theory FloatingIps
  imports IpAlloc
begin

text \<open>
  \<^verbatim>\<open>compute/ip_pools.go\<close> and \<^verbatim>\<open>compute/floating_ips.go\<close>: the administration of address pools and
  their ranges, and the floating addresses of a tenant, which are allocated from a pool, attached
  to an instance, detached and released. The daemon that forwards traffic, the publisher of
  reverse names and the meter are optional fields of the service, as in the code.
\<close>

section \<open>The service\<close>

record forward_provider =
  fw_ProjectName :: "uuid \<Rightarrow> string"
  fw_CreateNetworkForward :: "string \<Rightarrow> string \<Rightarrow> string \<Rightarrow> unit result prog"
  fw_DeleteNetworkForward :: "string \<Rightarrow> string \<Rightarrow> string \<Rightarrow> unit result prog"

record ptr_publisher =
  pp_PublishPTR :: "uuid \<Rightarrow> ipaddr \<Rightarrow> string \<Rightarrow> unit result prog"
  pp_UnpublishPTR :: "uuid \<Rightarrow> ipaddr \<Rightarrow> unit result prog"

record ip_meter =
  im_StartIPUsage :: "uuid \<Rightarrow> ipaddr \<Rightarrow> uuid \<Rightarrow> unit result prog"
  im_StopIPUsage :: "uuid \<Rightarrow> ipaddr \<Rightarrow> unit result prog"

record compute_svc =
  cs_audit :: emitter
  cs_bus :: bool
  cs_provider :: "forward_provider option"
  cs_forward :: string
  cs_ptr :: "ptr_publisher option"
  cs_meter :: "ip_meter option"
  cs_coll :: "string \<Rightarrow> nat"
  cs_inet :: "ipaddr \<Rightarrow> string"

definition compute_event ::
  "string \<Rightarrow> string \<Rightarrow> uuid option \<Rightarrow> uuid \<Rightarrow> uuid option \<Rightarrow> string \<Rightarrow> meta option \<Rightarrow> audit_event" where
  "compute_event action resource tenant user i status m =
     \<lparr>ae_tenant = tenant, ae_actor = Some user, ae_actor_type = ''user'', ae_action = action,
      ae_resource_type = resource, ae_resource = i, ae_status = status, ae_meta = m\<rparr>"

text \<open>The identifier of an audit row; the zero one when it could not be written.\<close>

definition Emit_id :: "compute_svc \<Rightarrow> audit_event \<Rightarrow> uuid prog" where
  "Emit_id s ev = do {
     r \<leftarrow> audit_Emit (cs_audit s) ev;
     ret (case r of Inl _ \<Rightarrow> uuid_nil | Inr i \<Rightarrow> i) }"

definition mark :: "compute_svc \<Rightarrow> uuid \<Rightarrow> string \<Rightarrow> meta option \<Rightarrow> unit prog" where
  "mark s aid status m = drop_result (audit_MarkOutcome (cs_audit s) aid status m)"

definition compute_emitEvent ::
  "compute_svc \<Rightarrow> string \<Rightarrow> uuid \<Rightarrow> uuid \<Rightarrow> uuid \<Rightarrow> meta option \<Rightarrow> unit prog" where
  "compute_emitEvent s topic tenant user resource m =
     bus_emit (cs_bus s)
       \<lparr>ev_topic = topic, ev_tenant = tenant, ev_actor_type = ''user'', ev_actor = user,
        ev_resource = resource, ev_meta = m, ev_at = zero_time\<rparr>"

definition emitIPEvent ::
  "compute_svc \<Rightarrow> string \<Rightarrow> uuid \<Rightarrow> uuid \<Rightarrow> uuid \<Rightarrow> meta option \<Rightarrow> unit prog" where
  "emitIPEvent s topic tenant user i m = compute_emitEvent s topic tenant user i m"

definition descriptionOrNil :: "string \<Rightarrow> string option" where
  "descriptionOrNil s = (if s = '''' then None else Some s)"

definition ensureTrailingDot :: "string \<Rightarrow> string" where
  "ensureTrailingDot name =
     (if name = '''' then name else if last name = CHR ''.'' then name else name @ ''.'')"

fun label_error :: "string \<Rightarrow> string list \<Rightarrow> goerr option" where
  "label_error name [] = None"
| "label_error name (l # ls) =
     (if l = '''' then Some (Msg (''compute: PTR target '' @ quoted name @ '' has empty labels''))
      else if 63 < length l
      then Some (Msg (''compute: PTR target '' @ quoted name @ '' has a label longer than 63 chars''))
      else label_error name ls)"

definition validateCanonicalDNSName :: "string \<Rightarrow> goerr option" where
  "validateCanonicalDNSName name =
     (if name = '''' then Some (Msg ''compute: PTR target is empty'')
      else if 253 < length name
      then Some (Msg (''compute: PTR target '' @ quoted name @ '' is too long (max 253 chars)''))
      else if name \<noteq> ensureTrailingDot (ToLower name)
      then Some (Msg (''compute: PTR target '' @ quoted name @ '' must be lowercase + end with a dot''))
      else if Contains name ''..''
      then Some (Msg (''compute: PTR target '' @ quoted name @ '' has empty labels''))
      else label_error name (split_on (CHR ''.'') (TrimSuffix name ''.'')))"

text \<open>The optional target of a reverse name, validated; a blank one is none.\<close>

definition ptr_target :: "string \<Rightarrow> string option result" where
  "ptr_target raw =
     (if TrimSpace raw = '''' then Inr None
      else (let target = ensureTrailingDot (TrimSpace raw)
            in case validateCanonicalDNSName target of Some e \<Rightarrow> Inl e | None \<Rightarrow> Inr (Some target)))"

section \<open>Address pools\<close>

definition lookup_with :: "string \<Rightarrow> uuid \<Rightarrow> ippool_row result prog" where
  "lookup_with what i = do {
     r \<leftarrow> Pools_Get i;
     case r of
       Inl e \<Rightarrow> if IsNoRows e then fail (Sentinel ErrIPPoolNotFound) else fail (Wrap what e)
     | Inr row \<Rightarrow> ok row }"

definition lookupIPPool :: "uuid \<Rightarrow> ippool_row result prog" where
  "lookupIPPool i = lookup_with ''compute: lookup ip pool'' i"

definition GetIPPool :: "uuid \<Rightarrow> ippool_row result prog" where
  "GetIPPool i = lookup_with ''compute: get ip pool'' i"

record create_pool_params =
  cq_Name :: string
  cq_Description :: string
  cq_PtrZoneID :: "uuid option"
  cq_IsActive :: bool

definition CreateIPPool :: "compute_svc \<Rightarrow> uuid \<Rightarrow> create_pool_params \<Rightarrow> ippool_row result prog" where
  "CreateIPPool s user p =
     (if TrimSpace (cq_Name p) = '''' then fail (Sentinel ErrInvalidName)
      else do {
        r \<leftarrow> Pools_Create \<lparr>np_name = cq_Name p, np_desc = descriptionOrNil (cq_Description p),
               np_zone = cq_PtrZoneID p, np_active = cq_IsActive p\<rparr>;
        case r of
          Inl e \<Rightarrow>
            if IsUniqueViolation e
            then fail (Wrap (''name='' @ cq_Name p) (Sentinel ErrIPPoolNameTaken))
            else fail (Wrap ''compute: create ip pool'' e)
        | Inr row \<Rightarrow> do {
            _ \<leftarrow> Emit_id s (compute_event ''compute.ip_pool.create'' ''ip_pool'' None user
                   (Some (ip_id row)) ''success''
                   (Some [(''name'', JStr (cq_Name p)),
                          (''ptr_zone_set'', JBool (cq_PtrZoneID p \<noteq> None)),
                          (''is_active'', JBool (cq_IsActive p))]));
            ok row } })"

definition ListIPPools :: "int \<Rightarrow> int \<Rightarrow> ippool_row list result prog" where
  "ListIPPools limit offset = do {
     r \<leftarrow> Pools_List limit offset;
     case r of Inl e \<Rightarrow> fail (Wrap ''compute: list ip pools'' e) | Inr rows \<Rightarrow> ok rows }"

definition CountIPPools :: "int result prog" where
  "CountIPPools = Pools_Count"

record update_pool_params =
  uq_ID :: uuid
  uq_Description :: string
  uq_PtrZoneID :: "uuid option"
  uq_IsActive :: bool

definition UpdateIPPool :: "compute_svc \<Rightarrow> uuid \<Rightarrow> update_pool_params \<Rightarrow> unit result prog" where
  "UpdateIPPool s user p = do {
     l \<leftarrow> lookupIPPool (uq_ID p);
     case l of
       Inl e \<Rightarrow> fail e
     | Inr _ \<Rightarrow> do {
         u \<leftarrow> Pools_Update \<lparr>up_id = uq_ID p, up_desc = descriptionOrNil (uq_Description p),
                up_zone = uq_PtrZoneID p, up_active = uq_IsActive p\<rparr>;
         case u of
           Inl e \<Rightarrow> fail (Wrap ''compute: update ip pool'' e)
         | Inr _ \<Rightarrow> do {
             _ \<leftarrow> Emit_id s (compute_event ''compute.ip_pool.update'' ''ip_pool'' None user
                    (Some (uq_ID p)) ''success''
                    (Some [(''ptr_zone_set'', JBool (uq_PtrZoneID p \<noteq> None)),
                           (''is_active'', JBool (uq_IsActive p))]));
             ok () } } }"

definition DeleteIPPool :: "compute_svc \<Rightarrow> uuid \<Rightarrow> uuid \<Rightarrow> unit result prog" where
  "DeleteIPPool s user pool = do {
     l \<leftarrow> lookupIPPool pool;
     case l of
       Inl e \<Rightarrow> fail e
     | Inr _ \<Rightarrow> do {
         al \<leftarrow> FloatingIPs_ListAllAddressesInPool (cs_inet s) pool;
         case al of
           Inl e \<Rightarrow> fail (Wrap ''compute: list allocations for pool'' e)
         | Inr addrs \<Rightarrow>
             if 0 < length addrs
             then fail (Wrap ''compute: delete ip pool''
                    (Wrap (''('' @ nat_digits (length addrs) @ '' allocations remain)'')
                      (Sentinel ErrIPPoolHasAllocations)))
             else do {
               r \<leftarrow> Pools_SoftDelete pool;
               case r of
                 Inl e \<Rightarrow> fail (Wrap ''compute: soft delete ip pool'' e)
               | Inr _ \<Rightarrow> do {
                   _ \<leftarrow> Emit_id s (compute_event ''compute.ip_pool.delete'' ''ip_pool'' None user
                          (Some pool) ''success'' None);
                   ok () } } } }"

section \<open>Ranges\<close>

record add_range_params =
  aq_PoolID :: uuid
  aq_Cidr :: string
  aq_Family :: int
  aq_Excluded :: "string list"

text \<open>The excluded addresses, each parsed, found inside the range and put into canonical form.\<close>

fun clean_excluded :: "ipprefix \<Rightarrow> string list \<Rightarrow> string list result" where
  "clean_excluded p [] = Inr []"
| "clean_excluded p (e # es) =
     (case ParseAddr (TrimSpace e) of
        None \<Rightarrow> Inl (Msg (''compute: excluded address '' @ quoted e @ '' is not a valid IP''))
      | Some a \<Rightarrow>
          if \<not> prefix_contains p a
          then Inl (Msg (''compute: excluded address '' @ quoted e @ '' is not inside the range '' @
                     prefix_text p))
          else (case clean_excluded p es of Inl x \<Rightarrow> Inl x | Inr as \<Rightarrow> Inr (addr_text a # as)))"

definition AddIPPoolRange :: "compute_svc \<Rightarrow> uuid \<Rightarrow> add_range_params \<Rightarrow> iprange_row result prog" where
  "AddIPPoolRange s user p = do {
     l \<leftarrow> lookupIPPool (aq_PoolID p);
     case l of
       Inl e \<Rightarrow> fail e
     | Inr _ \<Rightarrow>
         (case ParsePrefix (TrimSpace (aq_Cidr p)) of
            None \<Rightarrow> fail (Wrap (aq_Cidr p) (Sentinel ErrInvalidCIDR))
          | Some raw \<Rightarrow>
              (let pre = Masked raw; canon = prefix_text pre
               in if familyOf pre \<noteq> aq_Family p
                  then fail (Wrap (''cidr='' @ canon @ '' family='' @ fmt_d (aq_Family p))
                         (Sentinel ErrInvalidIPFamily))
                  else (case clean_excluded pre (aq_Excluded p) of
                     Inl e \<Rightarrow> fail e
                   | Inr clean \<Rightarrow> do {
                       r \<leftarrow> Ranges_Create \<lparr>nr_pool = aq_PoolID p, nr_cidr = canon,
                              nr_family = aq_Family p, nr_excluded = clean\<rparr>;
                       case r of
                         Inl e \<Rightarrow>
                           if IsUniqueViolation e
                           then fail (Wrap (''cidr='' @ canon) (Sentinel ErrIPPoolRangeExists))
                           else fail (Wrap ''compute: add ip pool range'' e)
                       | Inr row \<Rightarrow> do {
                           _ \<leftarrow> Emit_id s (compute_event ''compute.ip_pool.range.add'' ''ip_pool_range'' None
                                  user (Some (ir_id row)) ''success''
                                  (Some [(''pool_id'', JUuid (aq_PoolID p)), (''cidr'', JStr canon),
                                         (''family'', JInt (aq_Family p)),
                                         (''excluded_count'', JInt (int (length clean)))]));
                           ok row } }))) }"

definition ListIPPoolRanges ::
  "compute_svc \<Rightarrow> uuid \<Rightarrow> int \<Rightarrow> int \<Rightarrow> iprange_row list result prog" where
  "ListIPPoolRanges s pool limit offset = do {
     l \<leftarrow> lookupIPPool pool;
     case l of
       Inl e \<Rightarrow> fail e
     | Inr _ \<Rightarrow> do {
         r \<leftarrow> Ranges_List (cs_coll s) pool limit offset;
         case r of Inl e \<Rightarrow> fail (Wrap ''compute: list ip pool ranges'' e) | Inr rows \<Rightarrow> ok rows } }"

definition CountIPPoolRanges :: "uuid \<Rightarrow> int result prog" where
  "CountIPPoolRanges pool = do {
     l \<leftarrow> lookupIPPool pool;
     case l of Inl e \<Rightarrow> fail e | Inr _ \<Rightarrow> Ranges_Count pool }"

definition DeleteIPPoolRange :: "compute_svc \<Rightarrow> uuid \<Rightarrow> uuid \<Rightarrow> uuid \<Rightarrow> unit result prog" where
  "DeleteIPPoolRange s user pool i = do {
     l \<leftarrow> lookupIPPool pool;
     case l of
       Inl e \<Rightarrow> fail e
     | Inr _ \<Rightarrow> do {
         g \<leftarrow> Ranges_Get i;
         case g of
           Inl e \<Rightarrow>
             if IsNoRows e then fail (Sentinel ErrIPPoolRangeNotFound)
             else fail (Wrap ''compute: get ip pool range'' e)
         | Inr row \<Rightarrow>
             if ir_pool row \<noteq> pool then fail (Sentinel ErrIPPoolRangeNotFound)
             else do {
               r \<leftarrow> Ranges_Delete pool i;
               case r of
                 Inl e \<Rightarrow> fail (Wrap ''compute: delete ip pool range'' e)
               | Inr _ \<Rightarrow> do {
                   _ \<leftarrow> Emit_id s (compute_event ''compute.ip_pool.range.delete'' ''ip_pool_range'' None
                          user (Some i) ''success''
                          (Some [(''pool_id'', JUuid pool), (''cidr'', JStr (ir_cidr row))]));
                   ok () } } } }"

section \<open>Floating addresses\<close>

record allocate_params =
  lq_PoolID :: uuid
  lq_PtrTarget :: string

definition failed :: "goerr \<Rightarrow> meta option" where
  "failed e = Some [(''error'', JErr e)]"

text \<open>Publishing the reverse name of a new address; a failure only leaves a warning.\<close>

definition publish_new ::
  "compute_svc \<Rightarrow> ippool_row \<Rightarrow> uuid \<Rightarrow> ipaddr \<Rightarrow> string option \<Rightarrow> unit prog" where
  "publish_new s pool aid a target =
     (case (target, ip_zone pool, cs_ptr s) of
        (Some t, Some zone, Some pub) \<Rightarrow> do {
          r \<leftarrow> pp_PublishPTR pub zone a t;
          case r of
            Inl e \<Rightarrow> mark s aid ''success''
                      (Some [(''warning'', JStr ''ptr_publish_failed''), (''ptr_publish_error'', JErr e)])
          | Inr _ \<Rightarrow> ret () }
      | _ \<Rightarrow> ret ())"

definition start_meter :: "compute_svc \<Rightarrow> uuid \<Rightarrow> ipaddr \<Rightarrow> uuid \<Rightarrow> unit prog" where
  "start_meter s tenant a i =
     (case cs_meter s of None \<Rightarrow> ret () | Some m \<Rightarrow> drop_result (im_StartIPUsage m tenant a i))"

text \<open>What follows when an address was found.\<close>

definition allocate_at ::
  "compute_svc \<Rightarrow> ctx \<Rightarrow> uuid \<Rightarrow> uuid \<Rightarrow> ippool_row \<Rightarrow> uuid \<Rightarrow> uuid \<Rightarrow> string option \<Rightarrow> ipaddr \<Rightarrow> int \<Rightarrow>
     floating_row result prog" where
  "allocate_at s ctx tenant user pool poolID aid target a family = do {
     c \<leftarrow> FloatingIPs_Create ctx
       \<lparr>nf_pool = poolID, nf_address = a, nf_family = family, nf_ptr = target,
        nf_instance = None, nf_network = None, nf_push = ''pending''\<rparr>;
     case c of
       Inl e \<Rightarrow>
         if IsUniqueViolation e then do {
           _ \<leftarrow> mark s aid ''failure'' (Some [(''error'', JStr ''concurrent allocation race; retry'')]);
           fail (Wrap ''compute.floating_ip.allocate'' (Sentinel ErrFloatingIPAlreadyAllocated)) }
         else do {
           _ \<leftarrow> mark s aid ''failure'' (failed e);
           fail (Wrap ''compute.floating_ip.allocate'' e) }
     | Inr row \<Rightarrow> do {
         _ \<leftarrow> publish_new s pool aid a target;
         _ \<leftarrow> start_meter s tenant a (fl_id row);
         _ \<leftarrow> emitIPEvent s ''compute.ip.assigned'' tenant user (fl_id row)
                (Some [(''trigger'', JStr ''allocate''), (''address'', JStr (addr_text a)),
                       (''family'', JInt family), (''pool_id'', JUuid poolID)]);
         _ \<leftarrow> mark s aid ''success''
                (Some [(''address'', JStr (addr_text a)), (''family'', JInt family)]);
         ok row } }"

definition AllocateFloatingIP ::
  "compute_svc \<Rightarrow> ctx \<Rightarrow> uuid \<Rightarrow> uuid \<Rightarrow> allocate_params \<Rightarrow> floating_row result prog" where
  "AllocateFloatingIP s ctx tenant user p = do {
     l \<leftarrow> lookupIPPool (lq_PoolID p);
     case l of
       Inl e \<Rightarrow> fail e
     | Inr pool \<Rightarrow>
         if \<not> ip_active pool then fail (Sentinel ErrIPPoolInactive)
         else (case ptr_target (lq_PtrTarget p) of
           Inl e \<Rightarrow> fail (Wrap ''compute.floating_ip.allocate'' e)
         | Inr target \<Rightarrow> do {
             aid \<leftarrow> Emit_id s (compute_event ''compute.floating_ip.allocate'' ''floating_ip''
                      (Some tenant) user None ''pending''
                      (Some [(''pool_id'', JUuid (lq_PoolID p)), (''ptr_target'', JStrOpt target)]));
             pick \<leftarrow> pickNextFreeAddress (cs_coll s) (cs_inet s) (lq_PoolID p);
             case pick of
               Inl e \<Rightarrow> do {
                 _ \<leftarrow> mark s aid ''failure'' (failed e);
                 fail (Wrap ''compute.floating_ip.allocate'' e) }
             | Inr (a, family) \<Rightarrow>
                 allocate_at s ctx tenant user pool (lq_PoolID p) aid target a family }) }"

definition floating_with :: "string \<Rightarrow> floating_row result prog \<Rightarrow> floating_row result prog" where
  "floating_with what m = do {
     r \<leftarrow> m;
     case r of
       Inl e \<Rightarrow> if IsNoRows e then fail (Sentinel ErrFloatingIPNotFound) else fail (Wrap what e)
     | Inr row \<Rightarrow> ok row }"

definition GetFloatingIP :: "ctx \<Rightarrow> uuid \<Rightarrow> floating_row result prog" where
  "GetFloatingIP ctx i = floating_with ''compute.floating_ip.get'' (FloatingIPs_Get ctx i)"

definition ListFloatingIPs :: "ctx \<Rightarrow> int \<Rightarrow> int \<Rightarrow> floating_row list result prog" where
  "ListFloatingIPs ctx limit offset = do {
     r \<leftarrow> FloatingIPs_List ctx limit offset;
     case r of Inl e \<Rightarrow> fail (Wrap ''compute.floating_ip.list'' e) | Inr rows \<Rightarrow> ok rows }"

definition CountFloatingIPs :: "ctx \<Rightarrow> int result prog" where
  "CountFloatingIPs ctx = FloatingIPs_Count ctx"

definition GetFloatingIPByInstance :: "ctx \<Rightarrow> uuid \<Rightarrow> floating_row result prog" where
  "GetFloatingIPByInstance ctx i =
     floating_with ''compute.floating_ip.get_by_instance'' (FloatingIPs_GetByInstance ctx i)"

text \<open>The push of the forward to the daemon: the state it leaves and the network it was made on.\<close>

definition push_forward :: "compute_svc \<Rightarrow> uuid \<Rightarrow> ipaddr \<Rightarrow> (string \<times> string option) prog" where
  "push_forward s tenant a =
     (case cs_provider s of
        None \<Rightarrow> ret (''unsupported'', None)
      | Some pv \<Rightarrow>
          if cs_forward s = '''' then ret (''unsupported'', None)
          else do {
            r \<leftarrow> fw_CreateNetworkForward pv (fw_ProjectName pv tenant) (cs_forward s) (addr_text a);
            case r of
              Inl _ \<Rightarrow> ret (''failed'', None)
            | Inr _ \<Rightarrow> ret (''pushed'', Some (cs_forward s)) })"

text \<open>What follows when the address is free and the instance is one of the tenant.\<close>

definition attach_to ::
  "compute_svc \<Rightarrow> ctx \<Rightarrow> uuid \<Rightarrow> uuid \<Rightarrow> floating_row \<Rightarrow> instance_row \<Rightarrow> uuid \<Rightarrow> floating_row result prog" where
  "attach_to s ctx tenant user row x inst = do {
     aid \<leftarrow> Emit_id s (compute_event ''compute.floating_ip.attach'' ''floating_ip'' (Some tenant)
              user (Some (fl_id row)) ''pending''
              (Some [(''address'', JStr (addr_text (fl_address row))), (''instance_id'', JUuid inst)]));
     pushed \<leftarrow> push_forward s tenant (fl_address row);
     let (pushStatus, network) = pushed;
     u \<leftarrow> FloatingIPs_SetInstance ctx
       \<lparr>at_id = fl_id row, at_instance = Some inst, at_push = pushStatus, at_network = network\<rparr>;
     case u of
       Inl e \<Rightarrow> do {
         _ \<leftarrow> mark s aid ''failure'' (failed e);
         fail (Wrap ''compute.floating_ip.attach'' e) }
     | Inr _ \<Rightarrow> do {
         _ \<leftarrow> emitIPEvent s ''compute.ip.assigned'' tenant user (fl_id row)
                (Some [(''trigger'', JStr ''attach''), (''address'', JStr (addr_text (fl_address row))),
                       (''instance_id'', JUuid inst), (''instance_name'', JStr (in_name x)),
                       (''forward_push'', JStr pushStatus)]);
         _ \<leftarrow> mark s aid ''success'' (Some [(''forward_push_status'', JStr pushStatus)]);
         ok (row\<lparr>fl_instance := Some inst, fl_push := pushStatus, fl_network := network\<rparr>) } }"

definition AttachFloatingIP ::
  "compute_svc \<Rightarrow> ctx \<Rightarrow> uuid \<Rightarrow> uuid \<Rightarrow> uuid \<Rightarrow> uuid \<Rightarrow> floating_row result prog" where
  "AttachFloatingIP s ctx tenant user i inst = do {
     f \<leftarrow> floating_with ''compute.floating_ip.attach'' (FloatingIPs_Get ctx i);
     case f of
       Inl e \<Rightarrow> fail e
     | Inr row \<Rightarrow>
         if fl_instance row \<noteq> None then fail (Sentinel ErrFloatingIPAlreadyAttached)
         else do {
           g \<leftarrow> Instances_Get ctx inst;
           case g of
             Inl e \<Rightarrow>
               if IsNoRows e then fail (Sentinel ErrInstanceNotFound)
               else fail (Wrap ''compute.floating_ip.attach: lookup instance'' e)
           | Inr x \<Rightarrow> attach_to s ctx tenant user row x inst } }"

text \<open>The removal of a forward; \<open>warn\<close> says what is done with a failure.\<close>

definition remove_forward ::
  "compute_svc \<Rightarrow> uuid \<Rightarrow> floating_row \<Rightarrow> (goerr \<Rightarrow> unit prog) \<Rightarrow> unit prog" where
  "remove_forward s tenant row warn =
     (case (cs_provider s, fl_network row) of
        (Some pv, Some network) \<Rightarrow>
          if network = '''' then ret ()
          else do {
            r \<leftarrow> fw_DeleteNetworkForward pv (fw_ProjectName pv tenant) network (addr_text (fl_address row));
            case r of Inl e \<Rightarrow> warn e | Inr _ \<Rightarrow> ret () }
      | _ \<Rightarrow> ret ())"

definition DetachFloatingIP ::
  "compute_svc \<Rightarrow> ctx \<Rightarrow> uuid \<Rightarrow> uuid \<Rightarrow> uuid \<Rightarrow> floating_row result prog" where
  "DetachFloatingIP s ctx tenant user i = do {
     f \<leftarrow> floating_with ''compute.floating_ip.detach'' (FloatingIPs_Get ctx i);
     case f of
       Inl e \<Rightarrow> fail e
     | Inr row \<Rightarrow>
         (case fl_instance row of
            None \<Rightarrow> fail (Sentinel ErrFloatingIPNotAttached)
          | Some inst \<Rightarrow> do {
              aid \<leftarrow> Emit_id s (compute_event ''compute.floating_ip.detach'' ''floating_ip'' (Some tenant)
                       user (Some (fl_id row)) ''pending''
                       (Some [(''address'', JStr (addr_text (fl_address row))),
                              (''instance_id'', JUuid inst)]));
              _ \<leftarrow> remove_forward s tenant row (\<lambda>e. mark s aid ''success''
                     (Some [(''warning'', JStr ''forward_delete_failed''), (''forward_error'', JErr e)]));
              u \<leftarrow> FloatingIPs_SetInstance ctx
                \<lparr>at_id = fl_id row, at_instance = None, at_push = ''pending'', at_network = None\<rparr>;
              case u of
                Inl e \<Rightarrow> do {
                  _ \<leftarrow> mark s aid ''failure'' (failed e);
                  fail (Wrap ''compute.floating_ip.detach'' e) }
              | Inr _ \<Rightarrow> do {
                  _ \<leftarrow> emitIPEvent s ''compute.ip.released'' tenant user (fl_id row)
                         (Some [(''trigger'', JStr ''detach''), (''address'', JStr (addr_text (fl_address row)))]);
                  _ \<leftarrow> mark s aid ''success'' None;
                  ok (row\<lparr>fl_instance := None, fl_network := None, fl_push := ''pending''\<rparr>) } }) }"

definition unpublish :: "compute_svc \<Rightarrow> ippool_row result \<Rightarrow> ipaddr \<Rightarrow> unit prog" where
  "unpublish s pool a =
     (case (pool, cs_ptr s) of
        (Inr row, Some pub) \<Rightarrow>
          (case ip_zone row of None \<Rightarrow> ret () | Some zone \<Rightarrow> drop_result (pp_UnpublishPTR pub zone a))
      | _ \<Rightarrow> ret ())"

definition stop_meter :: "compute_svc \<Rightarrow> uuid \<Rightarrow> ipaddr \<Rightarrow> unit prog" where
  "stop_meter s tenant a =
     (case cs_meter s of None \<Rightarrow> ret () | Some m \<Rightarrow> drop_result (im_StopIPUsage m tenant a))"

definition ReleaseFloatingIP :: "compute_svc \<Rightarrow> ctx \<Rightarrow> uuid \<Rightarrow> uuid \<Rightarrow> uuid \<Rightarrow> unit result prog" where
  "ReleaseFloatingIP s ctx tenant user i = do {
     f \<leftarrow> floating_with ''compute.floating_ip.release'' (FloatingIPs_Get ctx i);
     case f of
       Inl e \<Rightarrow> fail e
     | Inr row \<Rightarrow> do {
         aid \<leftarrow> Emit_id s (compute_event ''compute.floating_ip.release'' ''floating_ip'' (Some tenant)
                  user (Some (fl_id row)) ''pending''
                  (Some [(''address'', JStr (addr_text (fl_address row))),
                         (''instance_id'', JUuidOpt (fl_instance row))]));
         _ \<leftarrow> (if fl_instance row \<noteq> None then remove_forward s tenant row (\<lambda>_. ret ()) else ret ());
         pool \<leftarrow> lookupIPPool (fl_pool row);
         _ \<leftarrow> unpublish s pool (fl_address row);
         _ \<leftarrow> stop_meter s tenant (fl_address row);
         u \<leftarrow> FloatingIPs_SoftDelete ctx i;
         case u of
           Inl e \<Rightarrow> do {
             _ \<leftarrow> mark s aid ''failure'' (failed e);
             fail (Wrap ''compute.floating_ip.release'' e) }
         | Inr _ \<Rightarrow> do {
             _ \<leftarrow> emitIPEvent s ''compute.ip.released'' tenant user (fl_id row)
                    (Some [(''trigger'', JStr ''release''), (''address'', JStr (addr_text (fl_address row)))]);
             _ \<leftarrow> mark s aid ''success'' None;
             ok () } } }"

text \<open>The old reverse name is removed and the new one published, when the pool has a zone.\<close>

definition republish :: "compute_svc \<Rightarrow> ippool_row result \<Rightarrow> floating_row \<Rightarrow> string option \<Rightarrow> unit prog" where
  "republish s pool row target =
     (case (pool, cs_ptr s) of
        (Inr prow, Some pub) \<Rightarrow>
          (case ip_zone prow of
             None \<Rightarrow> ret ()
           | Some zone \<Rightarrow> do {
               _ \<leftarrow> (if fl_ptr row \<noteq> None then drop_result (pp_UnpublishPTR pub zone (fl_address row))
                     else ret ());
               case target of
                 None \<Rightarrow> ret ()
               | Some t \<Rightarrow> drop_result (pp_PublishPTR pub zone (fl_address row) t) })
      | _ \<Rightarrow> ret ())"

definition SetFloatingIPPTRTarget ::
  "compute_svc \<Rightarrow> ctx \<Rightarrow> uuid \<Rightarrow> uuid \<Rightarrow> uuid \<Rightarrow> string \<Rightarrow> floating_row result prog" where
  "SetFloatingIPPTRTarget s ctx tenant user i raw = do {
     f \<leftarrow> floating_with ''compute.floating_ip.set_ptr'' (FloatingIPs_Get ctx i);
     case f of
       Inl e \<Rightarrow> fail e
     | Inr row \<Rightarrow>
         (case ptr_target raw of
            Inl e \<Rightarrow> fail (Wrap ''compute.floating_ip.set_ptr'' e)
          | Inr target \<Rightarrow> do {
              aid \<leftarrow> Emit_id s (compute_event ''compute.floating_ip.set_ptr'' ''floating_ip'' (Some tenant)
                       user (Some (fl_id row)) ''pending''
                       (Some [(''address'', JStr (addr_text (fl_address row))),
                              (''ptr_target'', JStrOpt target), (''previous'', JStrOpt (fl_ptr row))]));
              pool \<leftarrow> lookupIPPool (fl_pool row);
              _ \<leftarrow> republish s pool row target;
              u \<leftarrow> FloatingIPs_SetPTRTarget ctx i target;
              case u of
                Inl e \<Rightarrow> do {
                  _ \<leftarrow> mark s aid ''failure'' (failed e);
                  fail (Wrap ''compute.floating_ip.set_ptr'' e) }
              | Inr _ \<Rightarrow> do {
                  _ \<leftarrow> mark s aid ''success'' None;
                  ok (row\<lparr>fl_ptr := target\<rparr>) } }) }"

end
