(* ===== verification/Floating_Inv.thy ===== *)
theory Floating_Inv
  imports FloatingIps
begin

text \<open>
  Invariants of the tables of pools, ranges and floating addresses. \<open>floating_invariant\<close> is the
  contract of an invariant with the statements of these tables, for requests of the tenants \<open>U\<close>;
  inside it every operation is shown to keep the invariant under every schedule. It is interpreted
  for the shape of the tables and for the addresses of a tenant the requests are not of.
\<close>

section \<open>Requests and statements\<close>

datatype floating_request =
    FCreatePool uuid create_pool_params
  | FUpdatePool uuid update_pool_params
  | FDeletePool uuid uuid
  | FAddRange uuid add_range_params
  | FDeleteRange uuid uuid uuid
  | FAllocate ctx uuid uuid allocate_params
  | FAttach ctx uuid uuid uuid uuid
  | FDetach ctx uuid uuid uuid
  | FRelease ctx uuid uuid uuid
  | FSetPTR ctx uuid uuid uuid string

fun floating_serve :: "compute_svc \<Rightarrow> floating_request \<Rightarrow> unit prog" where
  "floating_serve s (FCreatePool u p) = drop_result (CreateIPPool s u p)"
| "floating_serve s (FUpdatePool u p) = drop_result (UpdateIPPool s u p)"
| "floating_serve s (FDeletePool u i) = drop_result (DeleteIPPool s u i)"
| "floating_serve s (FAddRange u p) = drop_result (AddIPPoolRange s u p)"
| "floating_serve s (FDeleteRange u i r) = drop_result (DeleteIPPoolRange s u i r)"
| "floating_serve s (FAllocate ctx t u p) = drop_result (AllocateFloatingIP s ctx t u p)"
| "floating_serve s (FAttach ctx t u i x) = drop_result (AttachFloatingIP s ctx t u i x)"
| "floating_serve s (FDetach ctx t u i) = drop_result (DetachFloatingIP s ctx t u i)"
| "floating_serve s (FRelease ctx t u i) = drop_result (ReleaseFloatingIP s ctx t u i)"
| "floating_serve s (FSetPTR ctx t u i raw) = drop_result (SetFloatingIPPTRTarget s ctx t u i raw)"

text \<open>The tenant whose context a request carries; the pools belong to none.\<close>

fun request_ctx :: "floating_request \<Rightarrow> ctx" where
  "request_ctx (FAllocate ctx _ _ _) = ctx"
| "request_ctx (FAttach ctx _ _ _ _) = ctx"
| "request_ctx (FDetach ctx _ _ _) = ctx"
| "request_ctx (FRelease ctx _ _ _) = ctx"
| "request_ctx (FSetPTR ctx _ _ _ _) = ctx"
| "request_ctx _ = None"

definition of_tenants :: "(uuid \<Rightarrow> bool) \<Rightarrow> ctx \<Rightarrow> bool" where
  "of_tenants U ctx \<longleftrightarrow> (case ctx of None \<Rightarrow> True | Some t \<Rightarrow> U t)"

text \<open>An instance of a tenant, deleted or not.\<close>

definition owned :: "uuid \<Rightarrow> uuid \<Rightarrow> db \<Rightarrow> bool" where
  "owned t i d \<longleftrightarrow> list_ex (\<lambda>x. in_id x = i \<and> in_tenant x = t) (instances d)"

definition excluded_ok :: "ipprefix \<Rightarrow> string \<Rightarrow> bool" where
  "excluded_ok p e \<longleftrightarrow>
     (case ParseAddr e of None \<Rightarrow> False | Some a \<Rightarrow> e = addr_text a \<and> prefix_contains p a)"

text \<open>A range in canonical form with its family and the addresses it excludes.\<close>

definition cidr_ok :: "string \<Rightarrow> int \<Rightarrow> string list \<Rightarrow> bool" where
  "cidr_ok cidr family excluded \<longleftrightarrow>
     (case ParsePrefix cidr of
        None \<Rightarrow> False
      | Some p \<Rightarrow> Masked p = p \<and> cidr = prefix_text p \<and> family = familyOf p \<and>
                  list_all (excluded_ok p) excluded)"

definition range_params_ok :: "range_params \<Rightarrow> bool" where
  "range_params_ok p \<longleftrightarrow> cidr_ok (nr_cidr p) (nr_family p) (nr_excluded p)"

definition addr_family :: "ipaddr \<Rightarrow> int" where
  "addr_family a = (if Is4 a then 4 else 6)"

definition floating_params_ok :: "floating_params \<Rightarrow> bool" where
  "floating_params_ok p \<longleftrightarrow>
     nf_family p = addr_family (nf_address p) \<and> nf_instance p = None \<and> nf_network p = None"

definition attach_params_ok :: "attach_params \<Rightarrow> bool" where
  "attach_params_ok p \<longleftrightarrow>
     (at_network p \<noteq> None \<longrightarrow> at_instance p \<noteq> None \<and> at_push p = ''pushed'')"

text \<open>
  The effects other requests can have between two calls of a request. An address is attached only
  after the instance was seen in the tenant, and no statement changes the tenant of an instance.
\<close>

inductive floating_statement :: "(uuid \<Rightarrow> bool) \<Rightarrow> (db \<Rightarrow> db) \<Rightarrow> bool" for U :: "uuid \<Rightarrow> bool" where
  pool: "floating_statement U (\<lambda>d. snd (sql_create_pool np d))"
| pool_change: "floating_statement U (\<lambda>d. snd (sql_update_pool up d))"
| pool_delete: "floating_statement U (\<lambda>d. snd (sql_delete_pool i d))"
| range: "range_params_ok nr \<Longrightarrow> floating_statement U (\<lambda>d. snd (sql_create_range nr d))"
| range_delete: "floating_statement U (\<lambda>d. snd (sql_delete_range i j d))"
| allocate: "U t \<Longrightarrow> floating_params_ok nf \<Longrightarrow> floating_statement U (\<lambda>d. snd (sql_create_floating nf t d))"
| attach: "U t \<Longrightarrow> attach_params_ok pa \<Longrightarrow> at_instance pa = Some i \<Longrightarrow>
    floating_statement U (\<lambda>d. if owned t i d then snd (sql_set_instance pa t d) else d)"
| detach: "U t \<Longrightarrow> attach_params_ok pa \<Longrightarrow> at_instance pa = None \<Longrightarrow>
    floating_statement U (\<lambda>d. snd (sql_set_instance pa t d))"
| ptr: "U t \<Longrightarrow> floating_statement U (\<lambda>d. snd (sql_set_ptr i name t d))"
| release: "U t \<Longrightarrow> floating_statement U (\<lambda>d. snd (sql_release i t d))"
| instance_new: "floating_statement U (\<lambda>d. d\<lparr>instances := instances d @ [x]\<rparr>)"
| instance_gone: "floating_statement U
    (\<lambda>d. d\<lparr>instances := sql_update hit (\<lambda>x. x\<lparr>in_deleted := Some (db_now d)\<rparr>) (instances d)\<rparr>)"
| audit: "floating_statement U (\<lambda>d. snd (sql_create_audit row d))"
| outcome: "floating_statement U (\<lambda>d. snd (sql_create_outcome i status details d))"
| clock: "floating_statement U (\<lambda>d. d\<lparr>db_now := db_now d + int k\<rparr>)"

definition floating_admissible :: "(uuid \<Rightarrow> bool) \<Rightarrow> disturb list \<Rightarrow> bool" where
  "floating_admissible U ds \<longleftrightarrow> (\<forall>g. Other g \<in> set ds \<longrightarrow> floating_statement U g)"

inductive floating_step :: "compute_svc \<Rightarrow> (uuid \<Rightarrow> bool) \<Rightarrow> db \<Rightarrow> db \<Rightarrow> bool"
  for s :: compute_svc and U :: "uuid \<Rightarrow> bool" where
  request: "floating_admissible U (sched w) \<Longrightarrow> of_tenants U (request_ctx req) \<Longrightarrow>
     floating_step s U (wdb w) (wdb (snd (run_state (floating_serve s req) w)))"
| other: "floating_statement U g \<Longrightarrow> floating_step s U d (g d)"

text \<open>The tables of this component; the hooks of the service leave them alone.\<close>

definition address_tables ::
  "db \<Rightarrow> instance_row list \<times> ippool_row list \<times> iprange_row list \<times> floating_row list" where
  "address_tables d = (instances d, ip_pools d, ip_ranges d, floating_ips d)"

definition framed :: "(db \<Rightarrow> bool) \<Rightarrow> bool" where
  "framed J \<longleftrightarrow> (\<forall>d d'. address_tables d = address_tables d' \<longrightarrow> J d \<longrightarrow> J d')"

definition hooks_framed :: "compute_svc \<Rightarrow> bool" where
  "hooks_framed s \<longleftrightarrow> (\<forall>J. framed J \<longrightarrow>
     (\<forall>pv project network a. cs_provider s = Some pv \<longrightarrow>
        keeps (stable J) (fw_CreateNetworkForward pv project network a) \<and>
        keeps (stable J) (fw_DeleteNetworkForward pv project network a)) \<and>
     (\<forall>pub zone a name. cs_ptr s = Some pub \<longrightarrow>
        keeps (stable J) (pp_PublishPTR pub zone a name) \<and> keeps (stable J) (pp_UnpublishPTR pub zone a)) \<and>
     (\<forall>m t a i. cs_meter s = Some m \<longrightarrow>
        keeps (stable J) (im_StartIPUsage m t a i) \<and> keeps (stable J) (im_StopIPUsage m t a)))"

lemma hooks_framedD:
  assumes "hooks_framed s" "framed J"
  shows "cs_provider s = Some pv \<Longrightarrow> keeps (stable J) (fw_CreateNetworkForward pv project network a)"
    "cs_provider s = Some pv \<Longrightarrow> keeps (stable J) (fw_DeleteNetworkForward pv project network a)"
    "cs_ptr s = Some pub \<Longrightarrow> keeps (stable J) (pp_PublishPTR pub zone b name)"
    "cs_ptr s = Some pub \<Longrightarrow> keeps (stable J) (pp_UnpublishPTR pub zone b)"
    "cs_meter s = Some m \<Longrightarrow> keeps (stable J) (im_StartIPUsage m t b i)"
    "cs_meter s = Some m \<Longrightarrow> keeps (stable J) (im_StopIPUsage m t b)"
  using assms by (auto simp: hooks_framed_def)

lemma framed_ignores_audit: "framed J \<Longrightarrow> ignores_audit J"
  by (auto simp: framed_def ignores_audit_def address_tables_def)

lemma framed_owned: "framed J \<Longrightarrow> framed (\<lambda>d. J d \<and> owned t i d)"
  by (auto simp: framed_def address_tables_def owned_def)

section \<open>The contract\<close>

lemma clear_low_idem: "clear_low n (clear_low n a) = clear_low n (a :: 'a::len word)"
  by (rule word_unat_eq_iff [THEN iffD2]) (simp only: unat_clear_low, simp)

lemma Masked_props:
  "Masked (Masked p) = Masked p" "\<not> hasZone (pf_addr (Masked p))"
  "prefix_valid (Masked p) \<longleftrightarrow> prefix_valid p" "pf_bits (Masked p) = pf_bits p"
  "Is4 (pf_addr (Masked p)) \<longleftrightarrow> Is4 (pf_addr p)"
  by (cases "pf_addr p"; simp add: clear_low_idem prefix_valid_def)+

lemma contains_plain: "prefix_contains p a \<Longrightarrow> \<not> hasZone a"
  by (cases a) (auto split: ipaddr.splits)

lemma clean_excluded_ok: "clean_excluded p es = Inr clean \<Longrightarrow> list_all (excluded_ok p) clean"
  by (induction es arbitrary: clean)
    (auto simp: excluded_ok_def parse_addr_text contains_plain split: option.splits if_splits sum.splits)

lemma canonical_range:
  assumes "ParsePrefix raw = Some p" "clean_excluded (Masked p) es = Inr clean"
  shows "cidr_ok (prefix_text (Masked p)) (familyOf (Masked p)) clean"
  using clean_excluded_ok [OF assms(2)] ParsePrefix_valid [OF assms(1)] parse_prefix_text [of "Masked p"]
  by (simp add: cidr_ok_def Masked_props del: Masked.simps)

text \<open>A program all whose results satisfy a predicate.\<close>

definition yields :: "('a \<Rightarrow> bool) \<Rightarrow> ('s, 'a) state \<Rightarrow> bool" where
  "yields P m \<longleftrightarrow> (\<forall>s. P (fst (run_state m s)))"

lemma yields_return: "P x \<Longrightarrow> yields P (State_Monad.return x)"
  by (simp add: yields_def)

lemma yields_bind: "(\<And>x. yields P (f x)) \<Longrightarrow> yields P (m \<bind> f)"
  by (auto simp: yields_def split: prod.splits)

lemma keeps_bind_yields:
  "keeps I m \<Longrightarrow> yields P m \<Longrightarrow> (\<And>x. P x \<Longrightarrow> keeps I (f x)) \<Longrightarrow> keeps I (m \<bind> f)"
  unfolding keeps_def yields_def by (auto split: prod.splits) (metis fst_conv snd_conv)

definition family_fits :: "(ipaddr \<times> int) result \<Rightarrow> bool" where
  "family_fits r \<longleftrightarrow> (\<forall>a f. r = Inr (a, f) \<longrightarrow> f = addr_family a)"

lemma lowest_family: "lowest_in_ranges rs al = Some (a, f) \<Longrightarrow> f = addr_family a"
  by (erule lowest_in_ranges_Some, erule lowest_usable_Some)
    (simp add: familyOf_def addr_family_def network_family)

lemma yields_pick: "yields family_fits (pickNextFreeAddress coll inet i)"
  unfolding pickNextFreeAddress_def search_ranges_returns
  by (auto intro!: yields_bind yields_return simp: family_fits_def lowest_family split: sum.split option.split)

definition push_fits :: "string \<times> string option \<Rightarrow> bool" where
  "push_fits r \<longleftrightarrow> (snd r \<noteq> None \<longrightarrow> fst r = ''pushed'')"

lemma yields_push: "yields push_fits (push_forward s t a)"
  unfolding push_forward_def
  by (auto intro!: yields_bind yields_return simp: push_fits_def split: sum.split option.split)

lemma sched_db_call: "run_state (db_call f) w = (r, w') \<Longrightarrow> set (sched w') \<subseteq> set (sched w)"
  by (auto simp: db_call_def split: list.splits disturb.splits prod.splits)

lemma sched_tenant_call: "run_state (tenant_call ctx f) w = (r, w') \<Longrightarrow> set (sched w') \<subseteq> set (sched w)"
  by (cases ctx) (auto dest: sched_db_call)

lemma read_result: "run_state (db_call (read_db f)) w = (Inr x, w') \<Longrightarrow> f (wdb w') = Inr x"
  by (auto simp: db_call_def split: list.splits disturb.splits)

lemma sched_floating_with:
  "run_state (floating_with what (FloatingIPs_Get ctx i)) w = (r, w') \<Longrightarrow> set (sched w') \<subseteq> set (sched w)"
  unfolding floating_with_def FloatingIPs_Get_def
  by (auto split: prod.splits sum.splits if_splits dest!: sched_tenant_call)

text \<open>An instance that was found belongs to the tenant of the context.\<close>

lemma found_instance:
  assumes "run_state (Instances_Get ctx i) w = (Inr x, w')"
  obtains t where "ctx = Some t" "owned t i (wdb w')" "x \<in> set (instances (wdb w'))"
    "in_id x = i" "in_tenant x = t" "in_deleted x = None"
proof (cases ctx)
  case None
  then show ?thesis using assms by (simp add: Instances_Get_def)
next
  case (Some t)
  then have "sql_one (\<lambda>r. in_tenant r = t \<and> in_id r = i \<and> in_deleted r = None) (instances (wdb w')) = Inr x"
    using assms read_result by (simp add: Instances_Get_def)
  then show ?thesis
    using Some sql_one_InrD [of _ "instances (wdb w')" x]
    by (intro that [of t]) (force simp: owned_def list_ex_iff)+
qed

lemma admissible_subset: "floating_admissible U ds \<Longrightarrow> set es \<subseteq> set ds \<Longrightarrow> floating_admissible U es"
  by (auto simp: floating_admissible_def)

lemma instances_kept:
  "instances (snd (sql_create_pool np d)) = instances d"
  "instances (snd (sql_update_pool up d)) = instances d"
  "instances (snd (sql_delete_pool i d)) = instances d"
  "instances (snd (sql_create_range nr d)) = instances d"
  "instances (snd (sql_delete_range i j d)) = instances d"
  "instances (snd (sql_create_floating nf t d)) = instances d"
  "instances (snd (sql_set_instance pa t d)) = instances d"
  "instances (snd (sql_set_ptr i name t d)) = instances d"
  "instances (snd (sql_release i t d)) = instances d"
  "instances (snd (sql_create_audit row d)) = instances d"
  "instances (snd (sql_create_outcome i status details d)) = instances d"
  by (simp_all add: sql_create_pool_def sql_update_pool_def sql_delete_pool_def sql_create_range_def
    sql_delete_range_def sql_create_floating_def sql_set_instance_def sql_set_ptr_def sql_release_def
    sql_create_audit_def sql_create_outcome_def Let_def)

lemma owned_kept: "floating_statement U g \<Longrightarrow> owned t i d \<Longrightarrow> owned t i (g d)"
proof (induction rule: floating_statement.induct)
  case (instance_gone hit)
  let ?key = "\<lambda>x. (in_id x, in_tenant x)"
  have "map ?key (sql_update hit (\<lambda>x. x\<lparr>in_deleted := Some (db_now d)\<rparr>) (instances d)) = map ?key (instances d)"
    by (auto simp: sql_update_def)
  then have "?key ` set (sql_update hit (\<lambda>x. x\<lparr>in_deleted := Some (db_now d)\<rparr>) (instances d)) = ?key ` set (instances d)"
    by (simp only: set_map [symmetric])
  moreover have "owned t i e \<longleftrightarrow> (i, t) \<in> ?key ` set (instances e)" for e
    by (auto simp: owned_def list_ex_iff)
  ultimately show ?case using instance_gone by simp
qed (simp_all add: owned_def instances_kept)

locale floating_invariant =
  fixes J :: "db \<Rightarrow> bool" and U :: "uuid \<Rightarrow> bool"
  assumes framed: "framed J"
    and pool_insert: "preserved J (sql_create_pool np)"
    and pool_update: "preserved J (sql_update_pool up)"
    and pool_remove: "preserved J (sql_delete_pool i)"
    and range_insert: "range_params_ok nr \<Longrightarrow> preserved J (sql_create_range nr)"
    and range_remove: "preserved J (sql_delete_range i j)"
    and floating_insert: "U t \<Longrightarrow> floating_params_ok nf \<Longrightarrow> preserved J (sql_create_floating nf t)"
    and floating_attach: "U t \<Longrightarrow> attach_params_ok pa \<Longrightarrow> at_instance pa = Some i \<Longrightarrow>
          J d \<Longrightarrow> owned t i d \<Longrightarrow> J (snd (sql_set_instance pa t d))"
    and floating_detach: "U t \<Longrightarrow> attach_params_ok pa \<Longrightarrow> at_instance pa = None \<Longrightarrow>
          preserved J (sql_set_instance pa t)"
    and floating_ptr: "U t \<Longrightarrow> preserved J (sql_set_ptr i name t)"
    and floating_release: "U t \<Longrightarrow> preserved J (sql_release i t)"
    and instance_insert: "J d \<Longrightarrow> J (d\<lparr>instances := instances d @ [x]\<rparr>)"
    and instance_remove: "J d \<Longrightarrow>
          J (d\<lparr>instances := sql_update hit (\<lambda>x. x\<lparr>in_deleted := Some n\<rparr>) (instances d)\<rparr>)"
begin

lemma clock_tick: "J d \<Longrightarrow> J (d\<lparr>db_now := n\<rparr>)"
  using framed by (auto simp: framed_def address_tables_def)

lemma keeps_audit:
  "framed K \<Longrightarrow> keeps (stable K) (Emit_id s ev)" "framed K \<Longrightarrow> keeps (stable K) (mark s aid st m)"
  unfolding Emit_id_def mark_def drop_result_def by (intro keeps_rules framed_ignores_audit; assumption)+

lemmas keeps_own_audit = keeps_audit [OF framed]

lemma keeps_event: "keeps (stable K) (emitIPEvent s topic t u i m)"
  unfolding emitIPEvent_def compute_emitEvent_def by (intro keeps_rules)

lemma keeps_reads:
  "keeps (stable J) (Pools_Get i)" "keeps (stable J) (Ranges_Get i)"
  "keeps (stable J) (Ranges_ListAllForPool coll i)"
  "keeps (stable J) (FloatingIPs_ListAllAddressesInPool inet i)" "keeps (stable J) (FloatingIPs_Get ctx i)"
  "keeps (stable J) (lookupIPPool i)" "keeps (stable J) (floating_with what (FloatingIPs_Get ctx i))"
  "keeps (stable J) (pickNextFreeAddress coll inet i)"
  unfolding lookupIPPool_def lookup_with_def floating_with_def pickNextFreeAddress_def Pools_Get_def
    Ranges_Get_def Ranges_ListAllForPool_def FloatingIPs_ListAllAddressesInPool_def FloatingIPs_Get_def
  by (intro keeps_rules)+

lemma keeps_pool_admin:
  "keeps (stable J) (CreateIPPool s u cp)" "keeps (stable J) (UpdateIPPool s u up)"
  "keeps (stable J) (DeleteIPPool s u i)" "keeps (stable J) (DeleteIPPoolRange s u i j)"
  unfolding CreateIPPool_def UpdateIPPool_def DeleteIPPool_def DeleteIPPoolRange_def Pools_Create_def
    Pools_Update_def Pools_SoftDelete_def Ranges_Delete_def
  by (intro keeps_rules keeps_reads keeps_own_audit pool_insert pool_update pool_remove range_remove)+

lemma keeps_AddIPPoolRange: "keeps (stable J) (AddIPPoolRange s u p)"
  unfolding AddIPPoolRange_def Ranges_Create_def
  by (intro keeps_rules keeps_reads keeps_own_audit range_insert)
    (use canonical_range in \<open>force simp: range_params_ok_def simp del: Masked.simps\<close>)

lemma keeps_hook_calls:
  assumes "hooks_framed s" "framed K"
  shows "keeps (stable K) (push_forward s t a)"
    "(\<And>e. keeps (stable K) (warn e)) \<Longrightarrow> keeps (stable K) (remove_forward s t row warn)"
    "keeps (stable K) (publish_new s pool aid a target)" "keeps (stable K) (start_meter s t a i)"
    "keeps (stable K) (stop_meter s t a)" "keeps (stable K) (unpublish s r a)"
    "keeps (stable K) (republish s r row target)"
  by (auto simp: push_forward_def remove_forward_def publish_new_def start_meter_def stop_meter_def
      unpublish_def republish_def drop_result_def split: option.splits sum.splits
      intro!: keeps_rules keeps_audit assms hooks_framedD [OF assms])

lemma of_tenantsD: "of_tenants U ctx \<Longrightarrow> ctx = Some t \<Longrightarrow> U t"
  by (simp add: of_tenants_def)

lemma keeps_allocate_at:
  assumes "hooks_framed s" "of_tenants U ctx" "family = addr_family a"
  shows "keeps (stable J) (allocate_at s ctx t u pool i aid target a family)"
  unfolding allocate_at_def FloatingIPs_Create_def
  by (intro keeps_rules keeps_own_audit keeps_event keeps_hook_calls framed floating_insert
      of_tenantsD [OF assms(2)] assms(1)) (simp_all add: floating_params_ok_def assms(3))

lemma keeps_Allocate:
  assumes "hooks_framed s" "of_tenants U ctx"
  shows "keeps (stable J) (AllocateFloatingIP s ctx t u p)"
  unfolding AllocateFloatingIP_def
  by (intro keeps_bind_yields [OF keeps_reads(8) yields_pick] keeps_allocate_at assms
      keeps_reads keeps_own_audit | (simp only: family_fits_def; blast) | rule keeps_rules)+

lemma keeps_Detach:
  assumes "hooks_framed s" "of_tenants U ctx"
  shows "keeps (stable J) (DetachFloatingIP s ctx t u i)"
  unfolding DetachFloatingIP_def FloatingIPs_SetInstance_def
  by (intro keeps_rules keeps_reads keeps_own_audit keeps_event keeps_hook_calls framed
      floating_detach of_tenantsD [OF assms(2)] assms) (simp_all add: attach_params_ok_def)

lemma keeps_Release:
  assumes "hooks_framed s" "of_tenants U ctx"
  shows "keeps (stable J) (ReleaseFloatingIP s ctx t u i)"
  unfolding ReleaseFloatingIP_def FloatingIPs_SoftDelete_def
  by (intro keeps_rules keeps_reads keeps_own_audit keeps_event keeps_hook_calls framed
      floating_release of_tenantsD [OF assms(2)] assms)

lemma keeps_SetPTR:
  assumes "hooks_framed s" "of_tenants U ctx"
  shows "keeps (stable J) (SetFloatingIPPTRTarget s ctx t u i raw)"
  unfolding SetFloatingIPPTRTarget_def FloatingIPs_SetPTRTarget_def
  by (intro keeps_rules keeps_reads keeps_own_audit keeps_event keeps_hook_calls framed
      floating_ptr of_tenantsD [OF assms(2)] assms)

lemma attach_preserved:
  "U t \<Longrightarrow> attach_params_ok pa \<Longrightarrow> at_instance pa = Some i \<Longrightarrow>
     preserved (\<lambda>d. J d \<and> owned t i d) (sql_set_instance pa t)"
  using floating_attach [of t pa i] by (auto simp: preserved_def owned_def instances_kept)

lemma keeps_attach_to:
  assumes "hooks_framed s" "U t"
  shows "keeps (stable (\<lambda>d. J d \<and> owned t inst d)) (attach_to s (Some t) tenant u row x inst)"
proof -
  have set: "push_fits pushed \<Longrightarrow> keeps (stable (\<lambda>d. J d \<and> owned t inst d))
    (let (pushStatus, network) = pushed in FloatingIPs_SetInstance (Some t)
       \<lparr>at_id = i, at_instance = Some inst, at_push = pushStatus, at_network = network\<rparr> \<bind> k pushStatus network)"
    if "\<And>st n v. keeps (stable (\<lambda>d. J d \<and> owned t inst d)) (k st n v)" for pushed i and k :: "_ \<Rightarrow> _ \<Rightarrow> _ \<Rightarrow> 'c prog"
    unfolding FloatingIPs_SetInstance_def Let_def
    by (intro keeps_rules that)
      (use assms(2) in \<open>auto intro!: attach_preserved simp: attach_params_ok_def push_fits_def\<close>)
  show ?thesis
    unfolding attach_to_def
    by (intro keeps_bind_yields [OF keeps_hook_calls(1) yields_push] set keeps_audit keeps_event
        framed_owned [OF framed] assms | assumption | rule keeps_rules)+
qed

lemma floating_statement_keeps: "floating_statement U g \<Longrightarrow> J d \<Longrightarrow> J (g d)"
proof (induction rule: floating_statement.induct)
  case (audit row)
  then show ?case
    using preserved_sql_create_audit [OF framed_ignores_audit [OF framed], of row] by (simp add: preserved_def)
next
  case (outcome i st m)
  then show ?case
    using preserved_sql_create_outcome [OF framed_ignores_audit [OF framed], of i st m] by (simp add: preserved_def)
qed (use pool_insert pool_update pool_remove range_insert range_remove floating_insert floating_detach
  floating_ptr floating_release instance_insert instance_remove clock_tick floating_attach
  in \<open>auto simp: preserved_def\<close>)

lemma floating_admissible_honors: "floating_admissible U ds \<Longrightarrow> honors J ds"
  by (auto simp: floating_admissible_def honors_def floating_statement_keeps)

lemma attach_keeps:
  assumes "hooks_framed s" "of_tenants U ctx" "J (wdb w)" "floating_admissible U (sched w)"
  shows "J (wdb (snd (run_state (AttachFloatingIP s ctx t u i inst) w)))"
proof -
  obtain f w1 where r1: "run_state (floating_with ''compute.floating_ip.attach'' (FloatingIPs_Get ctx i)) w = (f, w1)"
    by (metis surj_pair)
  obtain g w2 where r2: "run_state (Instances_Get ctx inst) w1 = (g, w2)" by (metis surj_pair)
  have s0: "stable J w" using assms(3,4) by (simp add: stable_def floating_admissible_honors)
  have s1: "stable J w1" by (rule keeps_runD [OF keeps_reads(7) s0 r1])
  have get: "keeps (stable J) (Instances_Get ctx inst)" unfolding Instances_Get_def by (intro keeps_rules)
  have s2: "stable J w2" by (rule keeps_runD [OF get s1 r2])
  have "floating_admissible U (sched w1)"
    by (rule admissible_subset [OF assms(4) sched_floating_with [OF r1]])
  then have adm: "floating_admissible U (sched w2)"
    by (rule admissible_subset) (rule sched_tenant_call [OF r2 [unfolded Instances_Get_def]])
  have tail: "J (wdb (snd (run_state (attach_to s ctx t u row x inst) w2)))" if x: "g = Inr x" for row x
  proof -
    obtain t0 where t0: "ctx = Some t0" "owned t0 inst (wdb w2)" by (rule found_instance [OF r2 [unfolded x]])
    have "honors (\<lambda>d. J d \<and> owned t0 inst d) (sched w2)"
      using adm owned_kept by (auto simp: honors_def floating_admissible_def floating_statement_keeps)
    then have "stable (\<lambda>d. J d \<and> owned t0 inst d) w2"
      using t0 stable_db [OF s2] by (simp add: stable_def)
    from keepsD [OF keeps_attach_to [OF assms(1) of_tenantsD [OF assms(2) t0(1)]] this]
    have "stable (\<lambda>d. J d \<and> owned t0 inst d) (snd (run_state (attach_to s ctx t u row x inst) w2))"
      unfolding t0(1) .
    then show ?thesis by (simp add: stable_def)
  qed
  show ?thesis
    using r1 r2 tail stable_db [OF s1] stable_db [OF s2]
    by (auto simp: AttachFloatingIP_def split: sum.split)
qed

lemma run_drop_result: "snd (run_state (drop_result m) v) = snd (run_state m v)"
  by (simp add: drop_result_def split: prod.split)

lemma keeps_drop_result: "keeps (stable J) m \<Longrightarrow> keeps (stable J) (drop_result m)"
  unfolding drop_result_def by (intro keeps_rules)

lemma serve_keeps:
  assumes "hooks_framed s" "of_tenants U (request_ctx req)" "J (wdb w)" "floating_admissible U (sched w)"
  shows "J (wdb (snd (run_state (floating_serve s req) w)))"
proof -
  have stable: "stable J w" using assms(3,4) by (simp add: stable_def floating_admissible_honors)
  show ?thesis
  proof (cases req)
    case (FAttach ctx t u i x)
    then show ?thesis
      using attach_keeps [OF assms(1) _ assms(3,4)] assms(2)
      by (simp add: run_drop_result)
  qed (simp only: floating_serve.simps,
      intro stable_db [OF keepsD [OF keeps_drop_result stable]] keeps_pool_admin keeps_AddIPPoolRange
        keeps_Allocate keeps_Detach keeps_Release keeps_SetPTR assms(1);
      use assms(2) in simp)+
qed

lemma floating_step_keeps:
  assumes "hooks_framed s"
  shows "floating_step s U d d' \<Longrightarrow> J d \<Longrightarrow> J d'"
  by (induction rule: floating_step.induct) (auto intro: serve_keeps [OF assms] floating_statement_keeps)

lemma floating_steps_keep:
  assumes "hooks_framed s" "(floating_step s U)\<^sup>*\<^sup>* d d'" "J d"
  shows "J d'"
  using assms(2,3) by (induction rule: rtranclp_induct) (auto intro: floating_step_keeps [OF assms(1)])

end

section \<open>The shape of the tables\<close>

abbreviation any_tenant :: "uuid \<Rightarrow> bool" where
  "any_tenant \<equiv> \<lambda>_. True"

text \<open>The names of the live pools are distinct.\<close>

definition pool_names_ok :: "db \<Rightarrow> bool" where
  "pool_names_ok d \<longleftrightarrow> distinct (map ip_name (filter live_pool (ip_pools d)))"

text \<open>The ranges are in canonical form and distinct within a pool.\<close>

definition ranges_ok :: "db \<Rightarrow> bool" where
  "ranges_ok d \<longleftrightarrow>
     list_all (\<lambda>r. cidr_ok (ir_cidr r) (ir_family r) (ir_excluded r)) (ip_ranges d) \<and>
     distinct (map (\<lambda>r. (ir_pool r, ir_cidr r)) (ip_ranges d))"

text \<open>No address is taken twice.\<close>

definition addresses_ok :: "db \<Rightarrow> bool" where
  "addresses_ok d \<longleftrightarrow> distinct (map fl_address (filter live_ip (floating_ips d)))"

text \<open>
  The family is that of the address; a released address is attached to nothing; an address is
  attached to an instance of its own tenant; a forward exists only on an attached address whose
  push succeeded.
\<close>

definition floating_row_ok :: "(uuid \<times> uuid) list \<Rightarrow> floating_row \<Rightarrow> bool" where
  "floating_row_ok owners r \<longleftrightarrow>
     fl_family r = addr_family (fl_address r) \<and>
     fl_push r \<in> set push_states \<and>
     (\<not> live_ip r \<longrightarrow> fl_instance r = None) \<and>
     (fl_network r \<noteq> None \<longrightarrow> fl_instance r \<noteq> None \<and> fl_push r = ''pushed'') \<and>
     (case fl_instance r of None \<Rightarrow> True | Some i \<Rightarrow> (i, fl_tenant r) \<in> set owners)"

definition owners :: "db \<Rightarrow> (uuid \<times> uuid) list" where
  "owners d = map (\<lambda>x. (in_id x, in_tenant x)) (instances d)"

definition floating_rows_ok :: "db \<Rightarrow> bool" where
  "floating_rows_ok d \<longleftrightarrow> list_all (floating_row_ok (owners d)) (floating_ips d)"

lemmas pool_statements =
  sql_create_pool_def sql_update_pool_def sql_delete_pool_def sql_create_range_def sql_delete_range_def
  sql_create_floating_def sql_set_instance_def sql_set_ptr_def sql_release_def Let_def

lemma update_live_keys:
  "(\<And>r. L (f r) = L r) \<Longrightarrow> (\<And>r. key (f r) = key r) \<Longrightarrow>
     map key (filter L (sql_update P f rows)) = map key (filter L rows)"
  by (induction rows) (auto simp: sql_update_def)

lemma retire_live_keys:
  "distinct (map key (filter L rows)) \<Longrightarrow> (\<And>r. \<not> L (f r)) \<Longrightarrow>
     distinct (map key (filter L (sql_update P f rows)))"
  by (induction rows) (auto simp: sql_update_def split: if_splits)

lemma list_all_update: "list_all Q rows \<Longrightarrow> (\<And>r. Q r \<Longrightarrow> P r \<Longrightarrow> Q (f r)) \<Longrightarrow> list_all Q (sql_update P f rows)"
  by (induction rows) (auto simp: sql_update_def)

interpretation names_inv: floating_invariant pool_names_ok any_tenant
  by unfold_locales
    (auto simp: framed_def address_tables_def preserved_def pool_names_ok_def pool_statements list_ex_iff
      update_live_keys live_pool_def intro!: retire_live_keys)

interpretation ranges_inv: floating_invariant ranges_ok any_tenant
  by unfold_locales
    (auto simp: framed_def address_tables_def preserved_def ranges_ok_def pool_statements list_ex_iff
      list_all_iff range_params_ok_def distinct_map_filter)

interpretation addresses_inv: floating_invariant addresses_ok any_tenant
  by unfold_locales
    (auto simp: framed_def address_tables_def preserved_def addresses_ok_def pool_statements list_ex_iff
      address_taken_def update_live_keys live_ip_def intro!: retire_live_keys)

lemma owners_grow: "floating_row_ok xs r \<Longrightarrow> set xs \<subseteq> set ys \<Longrightarrow> floating_row_ok ys r"
  by (auto simp: floating_row_ok_def split: option.splits)

lemma owned_owner: "owned t i d \<longleftrightarrow> (i, t) \<in> set (owners d)"
  by (auto simp: owned_def owners_def list_ex_iff)

lemma owners_retired:
  "owners (d\<lparr>instances := sql_update hit (\<lambda>x. x\<lparr>in_deleted := Some n\<rparr>) (instances d)\<rparr>) = owners d"
  by (auto simp: owners_def sql_update_def)

lemma owners_floating [simp]: "owners (d\<lparr>floating_ips := rows\<rparr>) = owners d"
  "owners (d\<lparr>db_next := n\<rparr>) = owners d"
  by (simp_all add: owners_def)

interpretation rows_inv: floating_invariant floating_rows_ok any_tenant
proof unfold_locales
  show "framed floating_rows_ok"
    by (auto simp: framed_def address_tables_def floating_rows_ok_def owners_def)
next
  fix nf t
  assume "floating_params_ok nf"
  then show "preserved floating_rows_ok (sql_create_floating nf t)"
    by (auto simp: preserved_def floating_rows_ok_def sql_create_floating_def Let_def floating_row_ok_def
        floating_params_ok_def live_ip_def)
next
  fix t pa i and d :: db
  assume "attach_params_ok pa" "at_instance pa = Some i" "floating_rows_ok d" "owned t i d"
  then show "floating_rows_ok (snd (sql_set_instance pa t d))"
    by (auto simp: floating_rows_ok_def sql_set_instance_def attach_params_ok_def owned_owner is_floating_def
        live_ip_def floating_row_ok_def intro!: list_all_update)
next
  fix t pa
  assume "attach_params_ok pa" "at_instance pa = None"
  then show "preserved floating_rows_ok (sql_set_instance pa t)"
    by (auto simp: preserved_def floating_rows_ok_def sql_set_instance_def attach_params_ok_def
        live_ip_def floating_row_ok_def intro!: list_all_update)
next
  fix i name t
  show "preserved floating_rows_ok (sql_set_ptr i name t)"
    by (auto simp: preserved_def floating_rows_ok_def sql_set_ptr_def live_ip_def floating_row_ok_def
        split: option.split intro!: list_all_update)
next
  fix i t
  show "preserved floating_rows_ok (sql_release i t)"
    by (auto simp: preserved_def floating_rows_ok_def sql_release_def live_ip_def floating_row_ok_def
        push_states_def intro!: list_all_update)
next
  fix d :: db and x
  assume "floating_rows_ok d"
  then show "floating_rows_ok (d\<lparr>instances := instances d @ [x]\<rparr>)"
    by (auto simp: floating_rows_ok_def list_all_iff owners_def intro: owners_grow)
next
  fix d :: db and hit n
  assume "floating_rows_ok d"
  then show "floating_rows_ok (d\<lparr>instances := sql_update hit (\<lambda>x. x\<lparr>in_deleted := Some n\<rparr>) (instances d)\<rparr>)"
    by (simp add: floating_rows_ok_def owners_retired)
qed (auto simp: preserved_def floating_rows_ok_def owners_def sql_create_pool_def sql_update_pool_def
    sql_delete_pool_def sql_create_range_def sql_delete_range_def Let_def)

text \<open>The addresses of a tenant, for the requests of the others.\<close>

definition tenant_addresses :: "uuid \<Rightarrow> db \<Rightarrow> floating_row list" where
  "tenant_addresses v d = filter (\<lambda>r. fl_tenant r = v) (floating_ips d)"

lemma filter_update_others:
  "(\<And>r. P r \<Longrightarrow> \<not> Q r) \<Longrightarrow> (\<And>r. P r \<Longrightarrow> \<not> Q (f r)) \<Longrightarrow> filter Q (sql_update P f rows) = filter Q rows"
  by (induction rows) (auto simp: sql_update_def)

interpretation others: floating_invariant "\<lambda>d. tenant_addresses v d = x" "\<lambda>t. t \<noteq> v" for v x
  by unfold_locales
    (auto simp: framed_def address_tables_def preserved_def tenant_addresses_def pool_statements
      is_floating_def intro!: filter_update_others)

end
