(* ===== verification/Floating_Claims.thy ===== *)
theory Floating_Claims
  imports Floating_Inv
begin

text \<open>
  What holds of address pools and floating addresses: the search for a free address returns, finds
  the lowest one and stays inside the prefix; the tables keep their shape and the tenants their
  addresses in every reachable database; two pools that overlap and two addresses for one instance.
\<close>

section \<open>A quiet run\<close>

lemma emit_quiet:
  assumes "sched w = []"
  obtains i n a where "run_state (Emit_id s ev) w = (i, w\<lparr>wdb := (wdb w)\<lparr>db_next := n, audits := a\<rparr>\<rparr>)"
  using run_emitter_quiet [OF assms, of "cs_audit s" ev] by (auto simp: Emit_id_def)

lemma mark_quiet:
  assumes "sched w = []"
  obtains n oc where "run_state (mark s i st m) w = ((), w\<lparr>wdb := (wdb w)\<lparr>db_next := n, outcomes := oc\<rparr>\<rparr>)"
  using run_marker_quiet [OF assms, of "cs_audit s" i st m] by (auto simp: mark_def drop_result_def)

text \<open>What the search finds in a database.\<close>

definition pool_pick :: "compute_svc \<Rightarrow> uuid \<Rightarrow> db \<Rightarrow> (ipaddr \<times> int) option" where
  "pool_pick s pool d =
     lowest_in_ranges (pool_ranges (cs_coll s) pool d)
       (allocated_set (map (cs_inet s) (pool_taken pool d)))"

lemma pick_quiet:
  assumes "sched w = []"
  shows "run_state (pickNextFreeAddress (cs_coll s) (cs_inet s) pool) w =
    (case pool_pick s pool (wdb w) of None \<Rightarrow> Inl (Sentinel ErrIPPoolExhausted) | Some x \<Rightarrow> Inr x, w)"
  using assms
  by (simp add: pickNextFreeAddress_def Ranges_ListAllForPool_def FloatingIPs_ListAllAddressesInPool_def
    search_ranges_returns pool_pick_def split: option.split)

lemma pool_pick_audit [simp]: "pool_pick s pool (d\<lparr>db_next := n, audits := a\<rparr>) = pool_pick s pool d"
  "pool_pick s pool (d\<lparr>db_next := n, outcomes := out\<rparr>) = pool_pick s pool d"
  by (simp_all add: pool_pick_def pool_ranges_def pool_taken_def)

lemma pool_pick_Some:
  assumes "pool_pick s pool d = Some (a, f)"
  obtains r p k where "r \<in> set (ip_ranges d)" "ir_pool r = pool" "ParsePrefix (ir_cidr r) = Some p"
    "prefix_valid p" "k < 2 ^ host_bits p" "k < 65536" "a = addr_at (net_addr p) k"
    "usable p (ir_excluded r) (allocated_set (map (cs_inet s) (pool_taken pool d))) k"
  using assms unfolding pool_pick_def
proof (rule lowest_in_ranges_Some)
  fix r p
  assume r: "r \<in> set (pool_ranges (cs_coll s) pool d)" "ParsePrefix (ir_cidr r) = Some p"
    and "lowest_usable p (ir_excluded r) (allocated_set (map (cs_inet s) (pool_taken pool d))) 0 = Some a"
  from this(3) show ?thesis
    by (rule lowest_usable_Some)
      (use r ParsePrefix_valid [OF r(2)] in \<open>auto intro!: that [of r p] simp: pool_ranges_def\<close>)
qed

section \<open>The search for a free address\<close>

text \<open>
  C15. The search for a free address in a prefix returns: its loop over the addresses and the loop
  that computes the broadcast address end on every valid prefix, up to the whole address space of
  either version, and the result is the lowest usable address among the first 65536 of the prefix,
  where the first address, and the last one of version 4, are not usable in prefixes of four or
  more addresses.
\<close>

theorem firstFreeInPrefix_returns:
  "prefix_valid p \<Longrightarrow> firstFreeInPrefix p excluded allocated = Some (lowest_usable p excluded allocated 0)"
  by (rule firstFree_lowest)

definition example_net :: ipprefix where
  "example_net = \<lparr>pf_addr = V4 167772160, pf_bits = 30\<rparr>"

lemma example_net_valid: "prefix_valid example_net" "host_bits example_net = 2"
  "net_addr example_net = V4 167772160" "Is4 (pf_addr example_net)" "\<not> hasZone (pf_addr example_net)"
  by (simp_all add: example_net_def prefix_valid_def host_bits_def net_addr_def clear_low_def)

lemma example_upt: "[0..<4] = [0, 1, 2, 3]"
  by (simp add: upt_rec)

theorem firstFreeInPrefix_returns_witness:
  "firstFreeInPrefix example_net [] [addr_text (V4 167772161)] = Some (Some (V4 167772162)) \<and>
   firstFreeInPrefix example_net [] [] = Some (Some (V4 167772161))"
proof -
  have differ: "addr_text (V4 167772162) \<noteq> addr_text (V4 167772161)"
    using parse_addr_text [of "V4 167772162"] parse_addr_text [of "V4 167772161"] by auto
  then have "lowest_usable example_net [] [addr_text (V4 167772161)] 0 = Some (V4 167772162)"
    by (simp add: lowest_usable_def example_upt usable_def example_net_valid isExcludedOrAllocated_def)
  moreover have "lowest_usable example_net [] [] 0 = Some (V4 167772161)"
    by (simp add: lowest_usable_def example_upt usable_def example_net_valid isExcludedOrAllocated_def)
  ultimately show ?thesis
    using firstFreeInPrefix_returns [OF example_net_valid(1)] by simp
qed

section \<open>The tables\<close>

text \<open>
  C13. In every database reachable from one without pools and addresses, through any requests of any
  tenants in any interleaving of their database calls and with failing calls: the names of the live
  pools are distinct; every range is stored in canonical form, which parses to a prefix of the
  stored family with no bit set behind it, it is there once per pool, and every address it excludes
  is the text of an address inside it; no address is taken twice; and every address has its family,
  is attached at most to an instance of its own tenant, only while it is not released, and carries
  a forward only when attached and pushed.
\<close>

theorem reachable_address_tables_ok:
  assumes "hooks_framed s" "(floating_step s any_tenant)\<^sup>*\<^sup>* d0 d"
    and "ip_pools d0 = []" "ip_ranges d0 = []" "floating_ips d0 = []"
  shows "pool_names_ok d \<and> ranges_ok d \<and> addresses_ok d \<and> floating_rows_ok d"
  using names_inv.floating_steps_keep [OF assms(1,2)] ranges_inv.floating_steps_keep [OF assms(1,2)]
    addresses_inv.floating_steps_keep [OF assms(1,2)] rows_inv.floating_steps_keep [OF assms(1,2)] assms(3-5)
  by (simp add: pool_names_ok_def ranges_ok_def addresses_ok_def floating_rows_ok_def)

definition example_svc :: compute_svc where
  "example_svc = \<lparr>cs_audit = DBEmitter, cs_bus = True, cs_provider = None, cs_forward = '''',
     cs_ptr = None, cs_meter = None, cs_coll = (\<lambda>_. 0), cs_inet = addr_text\<rparr>"

lemma example_framed: "hooks_framed example_svc"
  by (simp add: hooks_framed_def example_svc_def)

definition example_pool :: pool_params where
  "example_pool = \<lparr>np_name = ''edge'', np_desc = None, np_zone = None, np_active = True\<rparr>"

definition example_start :: db where
  "example_start = (empty_db 5 [7, 8] [3])\<lparr>instances :=
     [\<lparr>in_id = 90, in_tenant = 7, in_name = ''web'', in_deleted = None\<rparr>]\<rparr>"

theorem reachable_address_tables_ok_witness:
  "\<exists>d. (floating_step example_svc any_tenant)\<^sup>*\<^sup>* example_start d \<and> length (ip_pools d) = 1 \<and>
     pool_names_ok d \<and> ranges_ok d \<and> addresses_ok d \<and> floating_rows_ok d"
proof -
  let ?d = "snd (sql_create_pool example_pool example_start)"
  have reach: "(floating_step example_svc any_tenant)\<^sup>*\<^sup>* example_start ?d"
    by (intro r_into_rtranclp floating_step.other floating_statement.pool)
  have "length (ip_pools ?d) = 1"
    by (simp add: sql_create_pool_def example_start_def empty_db_def example_pool_def opt_ref_def Let_def)
  moreover have "pool_names_ok ?d \<and> ranges_ok ?d \<and> addresses_ok ?d \<and> floating_rows_ok ?d"
    by (rule reachable_address_tables_ok [OF example_framed reach])
      (simp_all add: example_start_def empty_db_def)
  ultimately show ?thesis using reach by blast
qed

text \<open>
  C16. Whatever the requests of other tenants and the administration of the pools do, in any number
  and interleaving, the rows of the addresses of a tenant stay as they are: nobody else attaches,
  detaches, renames or releases them.
\<close>

theorem addresses_isolated:
  assumes "hooks_framed s" "(floating_step s (\<lambda>t. t \<noteq> v))\<^sup>*\<^sup>* d d'"
  shows "tenant_addresses v d' = tenant_addresses v d"
  by (rule others.floating_steps_keep [OF assms]) (rule refl)

definition example_row :: floating_row where
  "example_row = \<lparr>fl_id = 40, fl_tenant = 7, fl_pool = 20, fl_address = V4 167772161, fl_family = 4,
     fl_ptr = None, fl_instance = None, fl_network = None, fl_push = ''pending'', fl_created = 1,
     fl_deleted = None\<rparr>"

theorem addresses_isolated_witness:
  "\<exists>d'. (floating_step example_svc (\<lambda>t. t \<noteq> 7))\<^sup>*\<^sup>* (example_start\<lparr>floating_ips := [example_row]\<rparr>) d' \<and>
     tenant_addresses 7 d' = [example_row]"
proof -
  let ?d = "example_start\<lparr>floating_ips := [example_row]\<rparr>"
  have reach: "(floating_step example_svc (\<lambda>t. t \<noteq> 7))\<^sup>*\<^sup>* ?d (snd (sql_release 40 8 ?d))"
    by (intro r_into_rtranclp floating_step.other floating_statement.release) simp
  have "tenant_addresses 7 ?d = [example_row]" by (simp add: tenant_addresses_def example_row_def)
  then show ?thesis using addresses_isolated [OF example_framed reach] reach by metis
qed

section \<open>Allocation\<close>

lemma addr_at_inside:
  assumes "prefix_valid p" "k < 2 ^ host_bits p"
  shows "prefix_contains p (addr_at (net_addr p) k)"
  using assms(1)
proof (cases rule: network_cases)
  case (v4 a)
  have "host_bits p \<le> LENGTH(32)" using v4(1) by simp
  from unat_offset [OF this assms(2), of a] show ?thesis
    unfolding v4(3) addr_at.simps v4(4) using assms(2) by simp
next
  case (v6 a)
  have "host_bits p \<le> LENGTH(128)" using v6(1) by simp
  from unat_offset [OF this assms(2), of a] show ?thesis
    unfolding v6(3) addr_at.simps v6(4) using assms(2) by simp
qed

lemma framed_row: "framed (\<lambda>d. row \<in> set (floating_ips d))"
  by (simp add: framed_def address_tables_def)

lemma run_lookup:
  assumes "sched w = []"
  shows "run_state (lookupIPPool i) w =
    (case sql_one (\<lambda>r. ip_id r = i \<and> live_pool r) (ip_pools (wdb w)) of
       Inl e \<Rightarrow> Inl (if IsNoRows e then Sentinel ErrIPPoolNotFound else Wrap ''compute: lookup ip pool'' e)
     | Inr row \<Rightarrow> Inr row, w)"
  using assms by (simp add: lookupIPPool_def lookup_with_def Pools_Get_def split: sum.split)

lemma created_row:
  assumes "sql_create_floating p t d = (Inr row, d')"
  shows "fl_address row = nf_address p" "fl_tenant row = t" "fl_family row = nf_family p"
    "\<not> address_taken (nf_address p) (floating_ips d)" "floating_ips d' = floating_ips d @ [row]"
  using assms by (auto simp: sql_create_floating_def Let_def split: if_splits)

lemma allocate_success:
  assumes quiet: "sched w = []" and hooks: "hooks_framed s"
    and run: "run_state (AllocateFloatingIP s ctx t u p) w = (Inr row, w')"
  obtains a f t0 where "ctx = Some t0" "pool_pick s (lq_PoolID p) (wdb w) = Some (a, f)"
    "fl_address row = a" "fl_tenant row = t0" "fl_family row = f"
    "\<not> address_taken a (floating_ips (wdb w))" "row \<in> set (floating_ips (wdb w'))"
proof -
  obtain pool where pool: "run_state (lookupIPPool (lq_PoolID p)) w = (Inr pool, w)" "ip_active pool"
    using run by (auto simp: AllocateFloatingIP_def run_lookup [OF quiet] split: sum.splits if_splits)
  obtain target where target: "ptr_target (lq_PtrTarget p) = Inr target"
    using run pool by (auto simp: AllocateFloatingIP_def split: sum.splits)
  obtain aid n au where emit: "run_state (Emit_id s (compute_event ''compute.floating_ip.allocate'' ''floating_ip''
        (Some t) u None ''pending'' (Some [(''pool_id'', JUuid (lq_PoolID p)), (''ptr_target'', JStrOpt target)]))) w =
      (aid, w\<lparr>wdb := (wdb w)\<lparr>db_next := n, audits := au\<rparr>\<rparr>)"
    by (rule emit_quiet [OF quiet])
  let ?w1 = "w\<lparr>wdb := (wdb w)\<lparr>db_next := n, audits := au\<rparr>\<rparr>"
  have q1: "sched ?w1 = []" using quiet by simp
  have fails: "fst (run_state (mark s i st m \<bind> (\<lambda>_. fail e)) v) = Inl e" for i st m e v
    by (simp split: prod.split)
  obtain a f where pick: "pool_pick s (lq_PoolID p) (wdb w) = Some (a, f)"
    using run pool target emit fails pick_quiet [OF q1, of s "lq_PoolID p"]
    by (cases "pool_pick s (lq_PoolID p) (wdb w)") (auto simp: AllocateFloatingIP_def split: prod.splits)
  let ?p = "\<lparr>nf_pool = lq_PoolID p, nf_address = a, nf_family = f, nf_ptr = target,
    nf_instance = None, nf_network = None, nf_push = ''pending''\<rparr>"
  have rest: "run_state (allocate_at s ctx t u pool (lq_PoolID p) aid target a f) ?w1 = (Inr row, w')"
    using run pool target emit pick pick_quiet [OF q1, of s "lq_PoolID p"]
    by (simp add: AllocateFloatingIP_def split: prod.splits)
  let ?c = "run_state (FloatingIPs_Create ctx ?p) ?w1"
  obtain r where r: "fst ?c = Inr r"
    using rest fails by (cases "fst ?c") (auto simp: allocate_at_def split: if_splits prod.splits)
  obtain t0 where t0: "ctx = Some t0" using r by (cases ctx) (auto simp: FloatingIPs_Create_def)
  then obtain d' where c: "sql_create_floating ?p t0 (wdb ?w1) = (Inr r, d')" and w2: "snd ?c = ?w1\<lparr>wdb := d'\<rparr>"
    using r quiet by (auto simp: FloatingIPs_Create_def split: prod.splits)
  have row: "row = r" using rest r by (auto simp: allocate_at_def split: prod.splits)
  let ?J = "\<lambda>d. r \<in> set (floating_ips d)"
  have "stable ?J (snd ?c)" using created_row(5) [OF c] quiet by (simp add: w2 stable_def)
  moreover have "keeps (stable ?J) (do {
          _ \<leftarrow> publish_new s pool aid a target;
          _ \<leftarrow> start_meter s t a (fl_id r);
          _ \<leftarrow> emitIPEvent s ''compute.ip.assigned'' t u (fl_id r)
                 (Some [(''trigger'', JStr ''allocate''), (''address'', JStr (addr_text a)),
                        (''family'', JInt f), (''pool_id'', JUuid (lq_PoolID p))]);
          _ \<leftarrow> mark s aid ''success''
                 (Some [(''address'', JStr (addr_text a)), (''family'', JInt f)]);
          ok r })"
    by (intro keeps_rules addresses_inv.keeps_hook_calls addresses_inv.keeps_event
        addresses_inv.keeps_audit framed_row hooks)
  ultimately have "?J (wdb w')"
    using rest r row by (auto simp: allocate_at_def stable_def dest: keepsD split: prod.splits)
  then show ?thesis
    using created_row [OF c] row by (intro that [OF t0 pick]) simp_all
qed

text \<open>
  C14. An address that is allocated lies in a range of the pool, at most 65535 places after the
  first address of the range and never past its end, and the numbers do not wrap around; it is not
  excluded by the range; in a range of four or more addresses it is not the first one, nor the last
  one of version 4; nobody had it; and the row that was stored belongs to the tenant of the request.
\<close>

theorem AllocateFloatingIP_bounds:
  assumes "sched w = []" "hooks_framed s"
    and "run_state (AllocateFloatingIP s ctx t u p) w = (Inr row, w')"
  shows "\<exists>r\<in>set (ip_ranges (wdb w)). \<exists>pre k.
    ir_pool r = lq_PoolID p \<and> ParsePrefix (ir_cidr r) = Some pre \<and>
    prefix_contains pre (fl_address row) \<and> k < 2 ^ host_bits pre \<and> k < 65536 \<and>
    addr_num (fl_address row) = addr_num (net_addr pre) + k \<and>
    addr_text (fl_address row) \<notin> set (ir_excluded r) \<and>
    (2 \<le> host_bits pre \<longrightarrow> k \<noteq> 0 \<and> (Is4 (fl_address row) \<longrightarrow> k \<noteq> 2 ^ host_bits pre - 1)) \<and>
    \<not> address_taken (fl_address row) (floating_ips (wdb w)) \<and>
    ctx = Some (fl_tenant row) \<and> row \<in> set (floating_ips (wdb w'))"
proof (rule allocate_success [OF assms])
  fix a f t0
  assume row: "ctx = Some t0" "fl_address row = a" "fl_tenant row = t0" "\<not> address_taken a (floating_ips (wdb w))"
    "row \<in> set (floating_ips (wdb w'))" and pick: "pool_pick s (lq_PoolID p) (wdb w) = Some (a, f)"
  from pick show ?thesis
  proof (rule pool_pick_Some)
    fix r pre k
    assume r: "r \<in> set (ip_ranges (wdb w))" "ir_pool r = lq_PoolID p" "ParsePrefix (ir_cidr r) = Some pre"
      and k: "prefix_valid pre" "k < 2 ^ host_bits pre" "k < 65536" "a = addr_at (net_addr pre) k"
      and use: "usable pre (ir_excluded r) (allocated_set (map (cs_inet s) (pool_taken (lq_PoolID p) (wdb w)))) k"
    show ?thesis
      by (intro bexI [OF _ r(1)] exI [of _ pre] exI [of _ k])
        (use row r k use addr_at_inside [OF k(1,2)] addr_at_num [OF k(1,2)] in
          \<open>simp add: usable_def isExcludedOrAllocated_def Let_def network_family\<close>)
  qed
qed

definition example_range :: iprange_row where
  "example_range = \<lparr>ir_id = 30, ir_pool = 20, ir_cidr = prefix_text example_net, ir_family = 4,
     ir_excluded = [], ir_created = 1\<rparr>"

definition pool_row :: "uuid \<Rightarrow> string \<Rightarrow> ippool_row" where
  "pool_row i name = \<lparr>ip_id = i, ip_name = name, ip_desc = None, ip_zone = None, ip_active = True,
     ip_created = 1, ip_deleted = None\<rparr>"

definition example_db :: db where
  "example_db = example_start\<lparr>db_next := 100, ip_pools := [pool_row 20 ''edge'', pool_row 21 ''core''],
     ip_ranges := [example_range, example_range\<lparr>ir_id := 31, ir_pool := 21\<rparr>]\<rparr>"

definition example_world :: "db \<Rightarrow> world" where
  "example_world d = \<lparr>wdb = d, sched = [], events = [], pdns = []\<rparr>"

lemma example_parse: "ParsePrefix (ir_cidr example_range) = Some example_net"
  using parse_prefix_text [OF example_net_valid(5,1)] by (simp add: example_range_def)

lemma blank_target [simp]: "ptr_target '''' = Inr None"
  by (simp add: ptr_target_def TrimSpace_def)

text \<open>A request for an address of a pool, without a reverse name.\<close>

definition pool_request :: "uuid \<Rightarrow> allocate_params" where
  "pool_request i = \<lparr>lq_PoolID = i, lq_PtrTarget = ''''\<rparr>"

lemma allocate_until_found:
  assumes "sched w = []" "sql_one (\<lambda>r. ip_id r = i \<and> live_pool r) (ip_pools (wdb w)) = Inr pool"
    "ip_active pool" "pool_pick s i (wdb w) = Some (a, f)"
  obtains aid n au where "run_state (AllocateFloatingIP s ctx t u (pool_request i)) w =
    run_state (allocate_at s ctx t u pool i aid None a f) (w\<lparr>wdb := (wdb w)\<lparr>db_next := n, audits := au\<rparr>\<rparr>)"
proof -
  obtain aid n au where emit: "run_state (Emit_id s (compute_event ''compute.floating_ip.allocate'' ''floating_ip''
        (Some t) u None ''pending'' (Some [(''pool_id'', JUuid i), (''ptr_target'', JStrOpt None)]))) w =
      (aid, w\<lparr>wdb := (wdb w)\<lparr>db_next := n, audits := au\<rparr>\<rparr>)"
    by (rule emit_quiet [OF assms(1)])
  have "run_state (lookupIPPool i) w = (Inr pool, w)"
    using assms(2) by (simp add: run_lookup [OF assms(1)])
  then show ?thesis
    using assms(1,3,4) emit
    by (intro that [where aid = aid and n = n and au = au])
      (simp add: AllocateFloatingIP_def pool_request_def pick_quiet split: prod.split)
qed

text \<open>The address that the search finds is taken from another pool.\<close>

lemma allocate_clash:
  assumes "sched w = []" "sql_one (\<lambda>r. ip_id r = i \<and> live_pool r) (ip_pools (wdb w)) = Inr pool"
    "ip_active pool" "pool_pick s i (wdb w) = Some (a, f)" "address_taken a (floating_ips (wdb w))"
  obtains n au oc where "run_state (AllocateFloatingIP s (Some t) t u (pool_request i)) w =
    (Inl (Wrap ''compute.floating_ip.allocate'' (Sentinel ErrFloatingIPAlreadyAllocated)),
     w\<lparr>wdb := (wdb w)\<lparr>db_next := n, audits := au, outcomes := oc\<rparr>\<rparr>)"
proof (rule allocate_until_found [OF assms(1-4), of "Some t" t u])
  fix aid n au
  let ?w1 = "w\<lparr>wdb := (wdb w)\<lparr>db_next := n, audits := au\<rparr>\<rparr>"
  assume run: "run_state (AllocateFloatingIP s (Some t) t u (pool_request i)) w =
    run_state (allocate_at s (Some t) t u pool i aid None a f) ?w1"
  have "f \<in> {4, 6}" using assms(4) by (auto simp: pool_pick_def addr_family_def dest!: lowest_family split: if_splits)
  then have clash: "sql_create_floating
      \<lparr>nf_pool = i, nf_address = a, nf_family = f, nf_ptr = None, nf_instance = None, nf_network = None,
       nf_push = ''pending''\<rparr> t (wdb ?w1) = (Inl (Pg UniqueViolation), wdb ?w1)"
    using assms(5) by (auto simp: sql_create_floating_def push_states_def)
  obtain m oc where "run_state (mark s aid ''failure''
      (Some [(''error'', JStr ''concurrent allocation race; retry'')])) ?w1 =
      ((), ?w1\<lparr>wdb := (wdb ?w1)\<lparr>db_next := m, outcomes := oc\<rparr>\<rparr>)"
    by (rule mark_quiet [of ?w1]) (use assms(1) in simp_all)
  then show ?thesis
    using run clash assms(1)
    by (intro that [where n = m and au = au and oc = oc]) (simp add: allocate_at_def FloatingIPs_Create_def)
qed

lemma example_lowest: "lowest_usable example_net [] [] 0 = Some (V4 167772161)"
  by (simp add: lowest_usable_def example_upt usable_def example_net_valid isExcludedOrAllocated_def)

lemma example_pick:
  assumes "pool_taken i d = []"
    and "filter (\<lambda>r. ir_pool r = i) (ip_ranges d) = [r]" "ir_cidr r = ir_cidr example_range" "ir_excluded r = []"
  shows "pool_pick example_svc i d = Some (V4 167772161, 4)"
  using assms example_parse
  by (simp add: pool_pick_def pool_ranges_def allocated_set_def example_lowest familyOf_def example_net_valid)

lemma example_pool20: "sql_one (\<lambda>r. ip_id r = 20 \<and> live_pool r) (ip_pools example_db) = Inr (pool_row 20 ''edge'')"
  "pool_pick example_svc 20 example_db = Some (V4 167772161, 4)"
  using example_pick [of 20 example_db example_range]
  by (simp_all add: example_db_def example_start_def empty_db_def pool_row_def live_pool_def sql_one_def
    pool_taken_def example_range_def)

theorem AllocateFloatingIP_bounds_witness:
  "\<exists>row w'. run_state (AllocateFloatingIP example_svc (Some 7) 7 3 (pool_request 20)) (example_world example_db) =
      (Inr row, w') \<and> fl_address row = V4 167772161 \<and> fl_tenant row = 7 \<and> row \<in> set (floating_ips (wdb w')) \<and>
      (\<exists>r\<in>set (ip_ranges example_db). \<exists>pre. ParsePrefix (ir_cidr r) = Some pre \<and> prefix_contains pre (fl_address row))"
proof (rule allocate_until_found [of "example_world example_db" 20 "pool_row 20 ''edge''" example_svc
      "V4 167772161" 4 "Some 7" 7 3])
  fix aid n au
  assume run: "run_state (AllocateFloatingIP example_svc (Some 7) 7 3 (pool_request 20)) (example_world example_db) =
    run_state (allocate_at example_svc (Some 7) 7 3 (pool_row 20 ''edge'') 20 aid None (V4 167772161) 4)
      ((example_world example_db)\<lparr>wdb := (wdb (example_world example_db))\<lparr>db_next := n, audits := au\<rparr>\<rparr>)"
  have "\<exists>row w'. run_state (allocate_at example_svc (Some 7) 7 3 (pool_row 20 ''edge'') 20 aid None (V4 167772161) 4)
      ((example_world example_db)\<lparr>wdb := (wdb (example_world example_db))\<lparr>db_next := n, audits := au\<rparr>\<rparr>) =
      (Inr row, w') \<and> fl_address row = V4 167772161"
    by (simp add: allocate_at_def FloatingIPs_Create_def example_world_def sql_create_floating_def example_db_def
        example_start_def empty_db_def push_states_def address_taken_def pool_row_def opt_ref_def Let_def
        publish_new_def start_meter_def example_svc_def split: prod.split)
  then obtain row w' where row: "run_state (AllocateFloatingIP example_svc (Some 7) 7 3 (pool_request 20))
      (example_world example_db) = (Inr row, w')" "fl_address row = V4 167772161"
    unfolding run by blast
  have "sched (example_world example_db) = []" "wdb (example_world example_db) = example_db"
    by (simp_all add: example_world_def)
  then show ?thesis
    using AllocateFloatingIP_bounds [OF _ example_framed row(1)] row by auto
qed (use example_pool20 in \<open>simp_all add: example_world_def pool_row_def\<close>)

text \<open>Any number of requests for a pool, one after the other.\<close>

fun allocate_all :: "compute_svc \<Rightarrow> uuid \<Rightarrow> (uuid \<times> uuid) list \<Rightarrow> floating_row result list prog" where
  "allocate_all s i [] = ret []"
| "allocate_all s i ((t, u) # rest) = do {
     r \<leftarrow> AllocateFloatingIP s (Some t) t u (pool_request i);
     rs \<leftarrow> allocate_all s i rest;
     ret (r # rs) }"

text \<open>
  C25. Two pools may have ranges that overlap, and the search looks only at the addresses taken from
  its own pool. If the address it finds is taken from the other pool, the insertion is refused, the
  request is answered as if it had lost a race, and so is every later one, by any tenant: the search
  finds the same address each time, although the rest of the range may be free.
\<close>

theorem overlapping_pool_never_allocates:
  assumes "sched w = []" "sql_one (\<lambda>r. ip_id r = i \<and> live_pool r) (ip_pools (wdb w)) = Inr pool"
    "ip_active pool" "pool_pick s i (wdb w) = Some (a, f)" "address_taken a (floating_ips (wdb w))"
  shows "\<forall>r\<in>set (fst (run_state (allocate_all s i requests) w)).
    r = Inl (Wrap ''compute.floating_ip.allocate'' (Sentinel ErrFloatingIPAlreadyAllocated))"
  using assms
proof (induction requests arbitrary: w)
  case (Cons q rest)
  obtain t u where q: "q = (t, u)" by (cases q)
  show ?case
  proof (rule allocate_clash [OF Cons.prems, of t u])
    fix n au oc
    let ?w = "w\<lparr>wdb := (wdb w)\<lparr>db_next := n, audits := au, outcomes := oc\<rparr>\<rparr>"
    assume run: "run_state (AllocateFloatingIP s (Some t) t u (pool_request i)) w =
      (Inl (Wrap ''compute.floating_ip.allocate'' (Sentinel ErrFloatingIPAlreadyAllocated)), ?w)"
    have "pool_pick s i (wdb ?w) = Some (a, f)"
      using Cons.prems(4) by (simp add: pool_pick_def pool_ranges_def pool_taken_def)
    then have "\<forall>r\<in>set (fst (run_state (allocate_all s i rest) ?w)).
        r = Inl (Wrap ''compute.floating_ip.allocate'' (Sentinel ErrFloatingIPAlreadyAllocated))"
      using Cons.prems by (intro Cons.IH) simp_all
    then show ?thesis using run by (simp add: q split: prod.split)
  qed
qed simp

theorem overlapping_pool_never_allocates_witness:
  "let d = example_db\<lparr>floating_ips := [example_row]\<rparr>
   in \<not> address_taken (V4 167772162) (floating_ips d) \<and>
      fst (run_state (allocate_all example_svc 21 [(7, 3), (8, 3), (7, 3)]) (example_world d)) \<noteq> [] \<and>
      (\<forall>r\<in>set (fst (run_state (allocate_all example_svc 21 [(7, 3), (8, 3), (7, 3)]) (example_world d))).
         r = Inl (Wrap ''compute.floating_ip.allocate'' (Sentinel ErrFloatingIPAlreadyAllocated)))"
proof -
  let ?d = "example_db\<lparr>floating_ips := [example_row]\<rparr>"
  have pool: "sql_one (\<lambda>r. ip_id r = 21 \<and> live_pool r) (ip_pools (wdb (example_world ?d))) = Inr (pool_row 21 ''core'')"
    by (simp add: example_world_def example_db_def pool_row_def live_pool_def sql_one_def)
  have pick: "pool_pick example_svc 21 (wdb (example_world ?d)) = Some (V4 167772161, 4)"
    by (rule example_pick [of _ _ "example_range\<lparr>ir_id := 31, ir_pool := 21\<rparr>"])
      (simp_all add: example_world_def example_db_def pool_taken_def example_row_def example_range_def)
  have "\<forall>r\<in>set (fst (run_state (allocate_all example_svc 21 [(7, 3), (8, 3), (7, 3)]) (example_world ?d))).
      r = Inl (Wrap ''compute.floating_ip.allocate'' (Sentinel ErrFloatingIPAlreadyAllocated))"
    by (rule overlapping_pool_never_allocates [OF _ pool _ pick])
      (simp_all add: example_world_def pool_row_def address_taken_def example_row_def live_ip_def)
  moreover have "fst (run_state (allocate_all s i ((t, u) # rest)) w) \<noteq> []" for s i t u rest w
    by (simp split: prod.split)
  moreover have "\<not> address_taken (V4 167772162) (floating_ips ?d)"
    by (simp add: address_taken_def example_row_def)
  ultimately show ?thesis by (simp only: Let_def) blast
qed

section \<open>Attachment\<close>

text \<open>
  An instance may have several floating addresses: an address is attached to an instance of the
  tenant whether or not another one is attached to it already, and afterwards both are.
\<close>

theorem AttachFloatingIP_second_address:
  assumes "sched w = []" "cs_provider s = None"
    and "sql_one (is_floating t i) (floating_ips (wdb w)) = Inr row" "fl_instance row = None"
    and "sql_one (\<lambda>r. in_tenant r = t \<and> in_id r = inst \<and> in_deleted r = None) (instances (wdb w)) = Inr x"
    and "other \<in> set (floating_ips (wdb w))" "fl_instance other = Some inst" "fl_id other \<noteq> i"
  shows "\<exists>row' w'. run_state (AttachFloatingIP s (Some t) t u i inst) w = (Inr row', w') \<and>
    fl_instance row' = Some inst \<and> fl_id row' = i \<and> {row', other} \<subseteq> set (floating_ips (wdb w'))"
proof -
  have id: "is_floating t i row" "row \<in> set (floating_ips (wdb w))" using sql_one_InrD [OF assms(3)] by simp_all
  then have i: "fl_id row = i" by (simp add: is_floating_def)
  have known: "opt_ref (Some inst) (map in_id (instances (wdb w)))"
    using sql_one_InrD [OF assms(5)] by (auto simp: opt_ref_def)
  let ?f = "\<lambda>r. r\<lparr>fl_instance := Some inst, fl_push := ''unsupported'', fl_network := None\<rparr>"
  obtain aid n au where emit: "run_state (Emit_id s (compute_event ''compute.floating_ip.attach'' ''floating_ip'' (Some t)
        u (Some (fl_id row)) ''pending''
        (Some [(''address'', JStr (addr_text (fl_address row))), (''instance_id'', JUuid inst)]))) w =
      (aid, w\<lparr>wdb := (wdb w)\<lparr>db_next := n, audits := au\<rparr>\<rparr>)"
    by (rule emit_quiet [OF assms(1)])
  let ?w1 = "w\<lparr>wdb := (wdb w)\<lparr>db_next := n, audits := au\<rparr>\<rparr>"
  let ?rows = "sql_update (is_floating t i) ?f (floating_ips (wdb w))"
  let ?w2 = "?w1\<lparr>wdb := (wdb ?w1)\<lparr>floating_ips := ?rows\<rparr>\<rparr>"
  have set: "run_state (FloatingIPs_SetInstance (Some t)
      \<lparr>at_id = i, at_instance = Some inst, at_push = ''unsupported'', at_network = None\<rparr>) ?w1 = (Inr (), ?w2)"
    using assms(1) id known
    by (auto simp: FloatingIPs_SetInstance_def sql_set_instance_def push_states_def list_ex_iff)
  let ?meta = "Some [(''trigger'', JStr ''attach''), (''address'', JStr (addr_text (fl_address row))),
    (''instance_id'', JUuid inst), (''instance_name'', JStr (in_name x)), (''forward_push'', JStr ''unsupported'')]"
  obtain es where event: "run_state (emitIPEvent s ''compute.ip.assigned'' t u i ?meta) ?w2 = ((), ?w2\<lparr>events := es\<rparr>)"
    by (cases "cs_bus s") (auto simp: emitIPEvent_def compute_emitEvent_def intro: that [of "events w"])
  let ?w3 = "?w2\<lparr>events := es\<rparr>"
  obtain m oc where mark: "run_state (mark s aid ''success'' (Some [(''forward_push_status'', JStr ''unsupported'')])) ?w3 =
      ((), ?w3\<lparr>wdb := (wdb ?w3)\<lparr>db_next := m, outcomes := oc\<rparr>\<rparr>)"
    by (rule mark_quiet [of ?w3]) (use assms(1) in simp_all)
  have "run_state (AttachFloatingIP s (Some t) t u i inst) w = run_state (attach_to s (Some t) t u row x inst) w"
    using assms(1,3-5) by (simp add: AttachFloatingIP_def floating_with_def FloatingIPs_Get_def Instances_Get_def)
  also have "\<dots> = (Inr (?f row), ?w3\<lparr>wdb := (wdb ?w3)\<lparr>db_next := m, outcomes := oc\<rparr>\<rparr>)"
    using assms(2) emit set event mark by (simp add: attach_to_def i push_forward_def)
  finally have run: "run_state (AttachFloatingIP s (Some t) t u i inst) w =
      (Inr (?f row), ?w3\<lparr>wdb := (wdb ?w3)\<lparr>db_next := m, outcomes := oc\<rparr>\<rparr>)" .
  have rows: "{?f row, other} \<subseteq> set ?rows"
    using id assms(6,8) by (force simp: sql_update_def is_floating_def)
  show ?thesis
    by (intro exI conjI, rule run) (use rows i in \<open>auto\<close>)
qed

definition second_row :: floating_row where
  "second_row = example_row\<lparr>fl_id := 41, fl_address := V4 167772162, fl_instance := Some 90,
     fl_push := ''unsupported''\<rparr>"

theorem AttachFloatingIP_second_address_witness:
  "\<exists>row w'. run_state (AttachFloatingIP example_svc (Some 7) 7 3 40 90)
       (example_world (example_db\<lparr>floating_ips := [example_row, second_row]\<rparr>)) = (Inr row, w') \<and>
     fl_instance row = Some 90 \<and> fl_id row = 40 \<and> fl_instance second_row = Some 90 \<and>
     fl_id second_row = 41 \<and> {row, second_row} \<subseteq> set (floating_ips (wdb w'))"
proof -
  let ?w = "example_world (example_db\<lparr>floating_ips := [example_row, second_row]\<rparr>)"
  let ?x = "\<lparr>in_id = 90, in_tenant = 7, in_name = ''web'', in_deleted = None\<rparr>"
  have row: "sql_one (is_floating 7 40) (floating_ips (wdb ?w)) = Inr example_row"
    by (simp add: example_world_def sql_one_def is_floating_def example_row_def live_ip_def)
  have x: "sql_one (\<lambda>r. in_tenant r = 7 \<and> in_id r = 90 \<and> in_deleted r = None) (instances (wdb ?w)) = Inr ?x"
    by (simp add: example_world_def example_db_def example_start_def sql_one_def)
  have "\<exists>row w'. run_state (AttachFloatingIP example_svc (Some 7) 7 3 40 90) ?w = (Inr row, w') \<and>
    fl_instance row = Some 90 \<and> fl_id row = 40 \<and> {row, second_row} \<subseteq> set (floating_ips (wdb w'))"
    by (rule AttachFloatingIP_second_address [OF _ _ row _ x])
      (simp_all add: example_world_def example_svc_def example_row_def second_row_def)
  then show ?thesis by (simp add: second_row_def example_row_def)
qed

end
