(* ===== verification/DnsRepo.thy ===== *)
theory DnsRepo
  imports Store
begin

text \<open>
  The repositories of zones and records (\<^verbatim>\<open>database/dns_zones_repo.go\<close>,
  \<^verbatim>\<open>database/dns_records_repo.go\<close>) with the statements behind them and the constraints of migrations
  0026, 0032 and 0048. \<open>coll\<close> is the rank of a text in the collation of the database.
\<close>

section \<open>Zones\<close>

definition DNSZoneKinds :: "string list" where
  "DNSZoneKinds = [''Native'', ''Master'', ''Slave'']"

record zone_params =
  nz_canonical :: string
  nz_name :: string
  nz_kind :: string
  nz_desc :: string

definition is_zone :: "uuid \<Rightarrow> uuid \<Rightarrow> zone_row \<Rightarrow> bool" where
  "is_zone t i r \<longleftrightarrow> zn_tenant r = t \<and> zn_id r = i"

definition sql_create_zone :: "zone_params \<Rightarrow> uuid \<Rightarrow> db \<Rightarrow> zone_row result \<times> db" where
  "sql_create_zone p t d =
     (if nz_kind p \<notin> set DNSZoneKinds then (Inl (Pg CheckViolation), d)
      else if list_ex (\<lambda>r. zn_canonical r = nz_canonical p) (dns_zones d) \<or>
              list_ex (\<lambda>r. zn_tenant r = t \<and> zn_name r = nz_name p) (dns_zones d)
      then (Inl (Pg UniqueViolation), d)
      else if t \<notin> set (db_tenants d) then (Inl (Pg ForeignKeyViolation), d)
      else let row = \<lparr>zn_id = db_next d, zn_tenant = t, zn_canonical = nz_canonical p,
                      zn_name = nz_name p, zn_kind = nz_kind p, zn_dnssec = False, zn_axfr = False,
                      zn_desc = nz_desc p, zn_created = db_now d\<rparr>
           in (Inr row, d\<lparr>db_next := Suc (db_next d), dns_zones := dns_zones d @ [row]\<rparr>))"

definition DNSZones_Create :: "ctx \<Rightarrow> zone_params \<Rightarrow> zone_row result prog" where
  "DNSZones_Create ctx p =
     tenant_call ctx (sql_create_zone (p\<lparr>nz_kind := (if nz_kind p = '''' then ''Native'' else nz_kind p)\<rparr>))"

definition DNSZones_Get :: "ctx \<Rightarrow> uuid \<Rightarrow> zone_row result prog" where
  "DNSZones_Get ctx i = tenant_call ctx (\<lambda>t. read_db (\<lambda>d. sql_one (is_zone t i) (dns_zones d)))"

definition DNSZones_GetByCanonical :: "ctx \<Rightarrow> string \<Rightarrow> zone_row result prog" where
  "DNSZones_GetByCanonical ctx c = tenant_call ctx (\<lambda>t. read_db (\<lambda>d.
     sql_one (\<lambda>r. zn_tenant r = t \<and> zn_canonical r = c) (dns_zones d)))"

definition DNSZones_GetByCanonicalGlobal :: "string \<Rightarrow> zone_row result prog" where
  "DNSZones_GetByCanonicalGlobal c =
     db_call (read_db (\<lambda>d. sql_one (\<lambda>r. zn_canonical r = c) (dns_zones d)))"

definition DNSZones_GetByIDGlobal :: "uuid \<Rightarrow> zone_row result prog" where
  "DNSZones_GetByIDGlobal i = db_call (read_db (\<lambda>d. sql_one (\<lambda>r. zn_id r = i) (dns_zones d)))"

definition DNSZones_List :: "ctx \<Rightarrow> int \<Rightarrow> int \<Rightarrow> zone_row list result prog" where
  "DNSZones_List ctx limit offset = tenant_call ctx (\<lambda>t. read_db (\<lambda>d.
     sql_page limit offset (sort_key (\<lambda>r. - zn_created r) (filter (\<lambda>r. zn_tenant r = t) (dns_zones d)))))"

definition DNSZones_Count :: "ctx \<Rightarrow> int result prog" where
  "DNSZones_Count ctx =
     tenant_call ctx (\<lambda>t. read_db (\<lambda>d. Inr (sql_count (\<lambda>r. zn_tenant r = t) (dns_zones d))))"

definition sql_update_zone :: "(zone_row \<Rightarrow> zone_row) \<Rightarrow> uuid \<Rightarrow> uuid \<Rightarrow> db \<Rightarrow> unit result \<times> db" where
  "sql_update_zone f i t d = (Inr (), d\<lparr>dns_zones := sql_update (is_zone t i) f (dns_zones d)\<rparr>)"

definition DNSZones_SetCachedDNSSEC :: "ctx \<Rightarrow> uuid \<Rightarrow> bool \<Rightarrow> unit result prog" where
  "DNSZones_SetCachedDNSSEC ctx i enabled =
     tenant_call ctx (sql_update_zone (\<lambda>r. r\<lparr>zn_dnssec := enabled\<rparr>) i)"

definition DNSZones_SetCachedAXFR :: "ctx \<Rightarrow> uuid \<Rightarrow> bool \<Rightarrow> unit result prog" where
  "DNSZones_SetCachedAXFR ctx i enabled =
     tenant_call ctx (sql_update_zone (\<lambda>r. r\<lparr>zn_axfr := enabled\<rparr>) i)"

definition DNSZones_SetDescription :: "ctx \<Rightarrow> uuid \<Rightarrow> string \<Rightarrow> unit result prog" where
  "DNSZones_SetDescription ctx i s = tenant_call ctx (sql_update_zone (\<lambda>r. r\<lparr>zn_desc := s\<rparr>) i)"

definition sql_zone_kind :: "uuid \<Rightarrow> string \<Rightarrow> uuid \<Rightarrow> db \<Rightarrow> unit result \<times> db" where
  "sql_zone_kind i kind t d =
     (if list_ex (is_zone t i) (dns_zones d) \<and> kind \<notin> set DNSZoneKinds then (Inl (Pg CheckViolation), d)
      else sql_update_zone (\<lambda>r. r\<lparr>zn_kind := kind\<rparr>) i t d)"

definition DNSZones_SetKind :: "ctx \<Rightarrow> uuid \<Rightarrow> string \<Rightarrow> unit result prog" where
  "DNSZones_SetKind ctx i kind = tenant_call ctx (sql_zone_kind i kind)"

text \<open>
  Deleting a zone deletes its records and takes it from the pools of addresses that publish into it.
\<close>

definition sql_delete_zone :: "uuid \<Rightarrow> uuid \<Rightarrow> db \<Rightarrow> unit result \<times> db" where
  "sql_delete_zone i t d =
     (if \<not> list_ex (is_zone t i) (dns_zones d) then (Inr (), d)
      else (Inr (), d\<lparr>dns_zones := filter (\<lambda>r. \<not> is_zone t i r) (dns_zones d),
              dns_records := filter (\<lambda>r. dr_zone r \<noteq> i) (dns_records d),
              ip_pools := sql_update (\<lambda>r. ip_zone r = Some i) (\<lambda>r. r\<lparr>ip_zone := None\<rparr>) (ip_pools d)\<rparr>))"

definition DNSZones_Delete :: "ctx \<Rightarrow> uuid \<Rightarrow> unit result prog" where
  "DNSZones_Delete ctx i = tenant_call ctx (sql_delete_zone i)"

section \<open>Records\<close>

record record_params =
  nd_zone :: uuid
  nd_name :: string
  nd_type :: string
  nd_content :: string
  nd_ttl :: int
  nd_prio :: int
  nd_disabled :: bool

definition default_ttl :: "int \<Rightarrow> int" where
  "default_ttl ttl = (if ttl = 0 then 3600 else ttl)"

definition same_record :: "uuid \<Rightarrow> string \<Rightarrow> string \<Rightarrow> string \<Rightarrow> dnsrec_row \<Rightarrow> bool" where
  "same_record zone name t content r \<longleftrightarrow>
     dr_zone r = zone \<and> dr_name r = name \<and> dr_type r = t \<and> dr_content r = content"

definition sql_create_record :: "record_params \<Rightarrow> uuid \<Rightarrow> db \<Rightarrow> dnsrec_row result \<times> db" where
  "sql_create_record p t d =
     (if list_ex (same_record (nd_zone p) (nd_name p) (nd_type p) (nd_content p)) (dns_records d)
      then (Inl (Pg UniqueViolation), d)
      else if t \<notin> set (db_tenants d) \<or> nd_zone p \<notin> zn_id ` set (dns_zones d)
      then (Inl (Pg ForeignKeyViolation), d)
      else let row = \<lparr>dr_id = db_next d, dr_tenant = t, dr_zone = nd_zone p, dr_name = nd_name p,
                      dr_type = nd_type p, dr_content = nd_content p, dr_ttl = nd_ttl p,
                      dr_prio = nd_prio p, dr_disabled = nd_disabled p, dr_created = db_now d\<rparr>
           in (Inr row, d\<lparr>db_next := Suc (db_next d), dns_records := dns_records d @ [row]\<rparr>))"

definition DNSRecords_Create :: "ctx \<Rightarrow> record_params \<Rightarrow> dnsrec_row result prog" where
  "DNSRecords_Create ctx p = tenant_call ctx (sql_create_record (p\<lparr>nd_ttl := default_ttl (nd_ttl p)\<rparr>))"

definition is_record :: "uuid \<Rightarrow> uuid \<Rightarrow> dnsrec_row \<Rightarrow> bool" where
  "is_record t i r \<longleftrightarrow> dr_tenant r = t \<and> dr_id r = i"

definition DNSRecords_Get :: "ctx \<Rightarrow> uuid \<Rightarrow> dnsrec_row result prog" where
  "DNSRecords_Get ctx i = tenant_call ctx (\<lambda>t. read_db (\<lambda>d. sql_one (is_record t i) (dns_records d)))"

definition DNSRecords_GetByIdentity ::
  "ctx \<Rightarrow> uuid \<Rightarrow> string \<Rightarrow> string \<Rightarrow> string \<Rightarrow> dnsrec_row result prog" where
  "DNSRecords_GetByIdentity ctx zone name t content = tenant_call ctx (\<lambda>tn. read_db (\<lambda>d.
     sql_one (\<lambda>r. dr_tenant r = tn \<and> same_record zone name t content r) (dns_records d)))"

definition DNSRecords_GetByNameGlobal :: "uuid \<Rightarrow> string \<Rightarrow> string \<Rightarrow> dnsrec_row result prog" where
  "DNSRecords_GetByNameGlobal zone name t = db_call (read_db (\<lambda>d.
     sql_one (\<lambda>r. dr_zone r = zone \<and> dr_name r = name \<and> dr_type r = t) (dns_records d)))"

definition in_zone :: "uuid \<Rightarrow> uuid \<Rightarrow> dnsrec_row \<Rightarrow> bool" where
  "in_zone t zone r \<longleftrightarrow> dr_tenant r = t \<and> dr_zone r = zone"

definition DNSRecords_List ::
  "(string \<Rightarrow> nat) \<Rightarrow> ctx \<Rightarrow> uuid \<Rightarrow> int \<Rightarrow> int \<Rightarrow> dnsrec_row list result prog" where
  "DNSRecords_List coll ctx zone limit offset = tenant_call ctx (\<lambda>t. read_db (\<lambda>d.
     sql_page limit offset (sort_key (\<lambda>r. coll (dr_name r)) (sort_key (\<lambda>r. coll (dr_type r))
       (filter (in_zone t zone) (dns_records d))))))"

definition DNSRecords_CountInZone :: "ctx \<Rightarrow> uuid \<Rightarrow> int result prog" where
  "DNSRecords_CountInZone ctx zone =
     tenant_call ctx (\<lambda>t. read_db (\<lambda>d. Inr (sql_count (in_zone t zone) (dns_records d))))"

definition DNSRecords_CountForTenant :: "ctx \<Rightarrow> int result prog" where
  "DNSRecords_CountForTenant ctx =
     tenant_call ctx (\<lambda>t. read_db (\<lambda>d. Inr (sql_count (\<lambda>r. dr_tenant r = t) (dns_records d))))"

record record_update =
  ud_content :: string
  ud_ttl :: int
  ud_prio :: int
  ud_disabled :: bool

definition set_record :: "record_update \<Rightarrow> dnsrec_row \<Rightarrow> dnsrec_row" where
  "set_record u r =
     r\<lparr>dr_content := ud_content u, dr_ttl := ud_ttl u, dr_prio := ud_prio u, dr_disabled := ud_disabled u\<rparr>"

definition sql_update_record :: "uuid \<Rightarrow> record_update \<Rightarrow> uuid \<Rightarrow> db \<Rightarrow> unit result \<times> db" where
  "sql_update_record i u t d =
     (if list_ex (\<lambda>r. is_record t i r \<and>
           list_ex (\<lambda>x. dr_id x \<noteq> dr_id r \<and> same_record (dr_zone r) (dr_name r) (dr_type r) (ud_content u) x)
             (dns_records d)) (dns_records d)
      then (Inl (Pg UniqueViolation), d)
      else (Inr (), d\<lparr>dns_records := sql_update (is_record t i) (set_record u) (dns_records d)\<rparr>))"

definition DNSRecords_Update :: "ctx \<Rightarrow> uuid \<Rightarrow> record_update \<Rightarrow> unit result prog" where
  "DNSRecords_Update ctx i u = tenant_call ctx (sql_update_record i (u\<lparr>ud_ttl := default_ttl (ud_ttl u)\<rparr>))"

definition sql_delete_record :: "uuid \<Rightarrow> uuid \<Rightarrow> db \<Rightarrow> unit result \<times> db" where
  "sql_delete_record i t d =
     (Inr (), d\<lparr>dns_records := filter (\<lambda>r. \<not> is_record t i r) (dns_records d)\<rparr>)"

definition DNSRecords_Delete :: "ctx \<Rightarrow> uuid \<Rightarrow> unit result prog" where
  "DNSRecords_Delete ctx i = tenant_call ctx (sql_delete_record i)"

definition sql_delete_records :: "uuid \<Rightarrow> uuid \<Rightarrow> db \<Rightarrow> unit result \<times> db" where
  "sql_delete_records zone t d =
     (Inr (), d\<lparr>dns_records := filter (\<lambda>r. \<not> in_zone t zone r) (dns_records d)\<rparr>)"

definition DNSRecords_DeleteAllInZone :: "ctx \<Rightarrow> uuid \<Rightarrow> unit result prog" where
  "DNSRecords_DeleteAllInZone ctx zone = tenant_call ctx (sql_delete_records zone)"

end
