(* ===== verification/DnsValidate.thy ===== *)
theory DnsValidate
  imports Netip
begin

text \<open>
  \<^verbatim>\<open>dns/validators.go\<close>: the checks of the content of a record before anything is written, one per
  type of record, and the canonical form of addresses; \<^verbatim>\<open>validateCanonicalZoneName\<close> of
  \<^verbatim>\<open>dns/zones.go\<close> and \<^verbatim>\<open>validateRecordName\<close> of \<^verbatim>\<open>dns/records.go\<close>. An answer \<open>None\<close> accepts. One
  content makes the check of texts panic; that is the error \<open>slice_panic\<close>, which is no error value
  of the package. The texts of some messages are shortened.
\<close>

section \<open>Text\<close>

definition TrimPrefix :: "string \<Rightarrow> string \<Rightarrow> string" where
  "TrimPrefix s p = (if prefix p s then drop (length p) s else s)"

text \<open>\<^verbatim>\<open>strings.Fields\<close>, \<^verbatim>\<open>strconv.ParseUint(s, 10, 32)\<close> and the characters the code calls whitespace.\<close>

function Fields :: "string \<Rightarrow> string list" where
  "Fields [] = []"
| "Fields (c # cs) =
     (if is_space c then Fields cs
      else (c # takeWhile (\<lambda>x. \<not> is_space x) cs) # Fields (dropWhile (\<lambda>x. \<not> is_space x) cs))"
  by pat_completeness auto
termination by (relation "measure length") (auto simp: le_imp_less_Suc length_dropWhile_le)

definition ParseUint32 :: "string \<Rightarrow> nat option" where
  "ParseUint32 s =
     (if s \<noteq> [] \<and> list_all is_digit s \<and> digits_value s < 2 ^ 32 then Some (digits_value s) else None)"

definition white :: "char \<Rightarrow> bool" where
  "white c \<longleftrightarrow> of_char c \<in> {32, 9, 13, 10 :: nat}"

definition blank :: "char \<Rightarrow> bool" where
  "blank c \<longleftrightarrow> of_char c \<in> {32, 9 :: nat}"

definition mustBeCanonicalName :: "string \<Rightarrow> string option" where
  "mustBeCanonicalName s =
     (if s = '''' then Some ''must not be empty''
      else if \<not> HasSuffix s ''.'' then Some (''must end with a dot (canonical form): '' @ quoted s)
      else if list_ex white s then Some (''must not contain whitespace: '' @ quoted s)
      else if ToLower s \<noteq> s then Some (''must be lowercase (canonical form): '' @ quoted s)
      else None)"

definition splitLeadingInt :: "string \<Rightarrow> (int \<times> string) option" where
  "splitLeadingInt s =
     (let t = dropWhile blank s; tok = takeWhile (\<lambda>c. \<not> blank c) t
      in if tok = t \<or> tok = [] then None
         else case ParseInt tok of
           None \<Rightarrow> None
         | Some n \<Rightarrow> Some (n, dropWhile blank (drop (length tok + 1) t)))"

text \<open>\<^verbatim>\<open>net.ParseIP\<close> and its \<^verbatim>\<open>To4\<close>, which also sees an address of version 4 mapped into version 6.\<close>

definition ParseIP :: "string \<Rightarrow> ipaddr option" where
  "ParseIP s = (case ParseAddr s of None \<Rightarrow> None | Some a \<Rightarrow> if hasZone a then None else Some a)"

fun To4 :: "ipaddr \<Rightarrow> nat option" where
  "To4 (V4 a) = Some (unat a)"
| "To4 (V6 a z) = (if is4in6 (places 65536 8 (unat a)) then Some (unat a mod 2 ^ 32) else None)"

section \<open>Types and times to live\<close>

definition SupportedRecordTypes :: "string list" where
  "SupportedRecordTypes =
     [''A'', ''AAAA'', ''CAA'', ''CNAME'', ''DS'', ''MX'', ''NS'', ''PTR'', ''SOA'', ''SRV'', ''TLSA'', ''TXT'']"

definition IsSupportedRecordType :: "string \<Rightarrow> bool" where
  "IsSupportedRecordType t \<longleftrightarrow> t \<in> set SupportedRecordTypes"

definition MinTTL :: int where "MinTTL = 300"
definition MaxTTL :: int where "MaxTTL = 86400"

definition ValidateTTL :: "int \<Rightarrow> goerr option" where
  "ValidateTTL ttl =
     (if ttl < MinTTL \<or> MaxTTL < ttl
      then Some (Wrap (''got '' @ fmt_d ttl @ '', want ['' @ fmt_d MinTTL @ '', '' @ fmt_d MaxTTL @ '']'')
                  (Sentinel ErrInvalidTTL))
      else None)"

section \<open>Contents\<close>

definition bad_content :: "string \<Rightarrow> goerr" where
  "bad_content what = Wrap what (Sentinel ErrInvalidRecordContent)"

definition target_error :: "string \<Rightarrow> string \<Rightarrow> goerr option" where
  "target_error what name = map_option (\<lambda>e. bad_content (what @ '' '' @ e)) (mustBeCanonicalName name)"

definition validateA :: "string \<Rightarrow> goerr option" where
  "validateA s =
     (case ParseIP s of
        None \<Rightarrow> Some (bad_content (''A record content must be a valid IPv4 address, got '' @ quoted s))
      | Some ip \<Rightarrow>
          if To4 ip = None then Some (bad_content (''A record content must be IPv4, got IPv6 '' @ quoted s))
          else None)"

definition validateAAAA :: "string \<Rightarrow> goerr option" where
  "validateAAAA s =
     (case ParseIP s of
        None \<Rightarrow> Some (bad_content (''AAAA record content must be a valid IPv6 address, got '' @ quoted s))
      | Some ip \<Rightarrow>
          if To4 ip \<noteq> None then Some (bad_content (''AAAA record content must be IPv6, got IPv4 '' @ quoted s))
          else None)"

definition validateCNAME :: "string \<Rightarrow> goerr option" where
  "validateCNAME s = target_error ''CNAME target'' s"

definition validateNS :: "string \<Rightarrow> goerr option" where
  "validateNS s = target_error ''NS target'' s"

definition validatePTR :: "string \<Rightarrow> goerr option" where
  "validatePTR s = target_error ''PTR target'' s"

definition validateMX :: "string \<Rightarrow> goerr option" where
  "validateMX s =
     (case splitLeadingInt s of
        None \<Rightarrow> Some (bad_content ''MX content must be <priority> <canonical-name>'')
      | Some (prio, rest) \<Rightarrow>
          if prio < 0 \<or> 65535 < prio
          then Some (bad_content (''MX priority must be in [0, 65535], got '' @ fmt_d prio))
          else target_error ''MX target'' rest)"

definition out_of :: "int \<Rightarrow> int \<Rightarrow> bool" where
  "out_of n most \<longleftrightarrow> n < 0 \<or> most < n"

definition validateSRV :: "string \<Rightarrow> goerr option" where
  "validateSRV s =
     (let parts = Fields s
      in if length parts \<noteq> 4 then Some (bad_content ''SRV content must be <priority> <weight> <port> <target>'')
         else case (ParseInt (parts ! 0), ParseInt (parts ! 1), ParseInt (parts ! 2)) of
           (Some prio, Some weight, Some port) \<Rightarrow>
             if out_of prio 65535 then Some (bad_content ''SRV priority must be in [0, 65535]'')
             else if out_of weight 65535 then Some (bad_content ''SRV weight must be in [0, 65535]'')
             else if out_of port 65535 then Some (bad_content ''SRV port must be in [0, 65535]'')
             else target_error ''SRV target'' (parts ! 3)
         | _ \<Rightarrow> Some (bad_content ''SRV priority/weight/port must be integers''))"

definition validateCAA :: "string \<Rightarrow> goerr option" where
  "validateCAA s =
     (let parts = Fields s
      in if length parts < 3 then Some (bad_content ''CAA content must be <flags> <tag> <value>'')
         else case ParseInt (parts ! 0) of
           None \<Rightarrow> Some (bad_content ''CAA flags must be an integer in [0, 255]'')
         | Some flags \<Rightarrow>
             if out_of flags 255 then Some (bad_content ''CAA flags must be an integer in [0, 255]'')
             else if parts ! 1 = '''' then Some (bad_content ''CAA tag must be non-empty'')
             else if TrimSuffix (TrimPrefix (join (CHR '' '') (drop 2 parts)) [CHR 0x22]) [CHR 0x22] = ''''
             then Some (bad_content ''CAA value must be non-empty'')
             else None)"

text \<open>A quote without a backslash before it, in the text after the character \<open>prev\<close>.\<close>

fun bare_quote :: "char option \<Rightarrow> string \<Rightarrow> bool" where
  "bare_quote prev [] = False"
| "bare_quote prev (c # cs) \<longleftrightarrow> (c = CHR 0x22 \<and> prev \<noteq> Some (CHR 0x5C)) \<or> bare_quote (Some c) cs"

definition slice_panic :: goerr where
  "slice_panic = Msg ''panic: runtime error: slice bounds out of range [1:0]''"

definition validateTXT :: "string \<Rightarrow> goerr option" where
  "validateTXT s =
     (if s = '''' then Some (bad_content ''TXT content must be non-empty'')
      else if \<not> HasPrefix s [CHR 0x22] \<or> \<not> HasSuffix s [CHR 0x22]
      then Some (bad_content ''TXT content must be a quoted string'')
      else if length s - 1 < 1 then Some slice_panic
      else if bare_quote None (drop 1 (take (length s - 1) s))
      then Some (bad_content ''TXT content has an unescaped quote'')
      else None)"

definition validateDS :: "string \<Rightarrow> goerr option" where
  "validateDS s =
     (let parts = Fields s
      in if length parts \<noteq> 4
         then Some (bad_content ''DS content must be <keytag> <algorithm> <digesttype> <digest>'')
         else case (ParseInt (parts ! 0), ParseInt (parts ! 1), ParseInt (parts ! 2)) of
           (Some keyTag, Some algo, Some digestType) \<Rightarrow>
             let digest = parts ! 3
             in if out_of keyTag 65535 then Some (bad_content ''DS keytag must be in [0, 65535]'')
                else if out_of algo 255 then Some (bad_content ''DS algorithm must be in [0, 255]'')
                else if out_of digestType 255 then Some (bad_content ''DS digesttype must be in [0, 255]'')
                else if length digest < 2 \<or> length digest mod 2 \<noteq> 0
                then Some (bad_content ''DS digest must be an even-length hex string'')
                else if list_ex (\<lambda>c. hex_value c = None) digest then Some (bad_content ''DS digest must be hex'')
                else None
         | _ \<Rightarrow> Some (bad_content ''DS keytag/algorithm/digesttype must be integers''))"

definition validateTLSA :: "string \<Rightarrow> goerr option" where
  "validateTLSA s =
     (let parts = Fields s
      in if length parts \<noteq> 4
         then Some (bad_content ''TLSA content must be <usage> <selector> <matchingtype> <certificate>'')
         else case (ParseInt (parts ! 0), ParseInt (parts ! 1), ParseInt (parts ! 2)) of
           (Some usage, Some sel, Some mt) \<Rightarrow>
             let cert = parts ! 3
             in if out_of usage 255 then Some (bad_content ''TLSA usage must be in [0, 255]'')
                else if out_of sel 255 then Some (bad_content ''TLSA selector must be in [0, 255]'')
                else if out_of mt 255 then Some (bad_content ''TLSA matchingtype must be in [0, 255]'')
                else if length cert < 2 \<or> length cert mod 2 \<noteq> 0
                then Some (bad_content ''TLSA certificate must be an even-length hex string'')
                else None
         | _ \<Rightarrow> Some (bad_content ''TLSA usage/selector/matchingtype must be integers''))"

text \<open>The first of the four timers of an SOA record that is no number of 32 bits.\<close>

fun timer_error :: "(string \<times> string) list \<Rightarrow> goerr option" where
  "timer_error [] = None"
| "timer_error ((label, part) # rest) =
     (if ParseUint32 part = None
      then Some (bad_content (''SOA '' @ label @ '' must be a 32-bit unsigned integer''))
      else timer_error rest)"

definition validateSOA :: "string \<Rightarrow> goerr option" where
  "validateSOA s =
     (let parts = Fields s
      in if length parts \<noteq> 7 then Some (bad_content ''SOA content must have seven fields'')
         else case target_error ''SOA primary-ns'' (parts ! 0) of
           Some e \<Rightarrow> Some e
         | None \<Rightarrow>
             (case target_error ''SOA contact'' (parts ! 1) of
                Some e \<Rightarrow> Some e
              | None \<Rightarrow>
                  if ParseUint32 (parts ! 2) = None
                  then Some (bad_content ''SOA serial must be a 32-bit unsigned integer'')
                  else timer_error
                    (zip [''refresh'', ''retry'', ''expire'', ''minimum''] (drop 3 parts))))"

definition ValidateRecordContent :: "string \<Rightarrow> string \<Rightarrow> goerr option" where
  "ValidateRecordContent t s =
     (if s = '''' then Some (bad_content ''content is empty'')
      else if t = ''A'' then validateA s
      else if t = ''AAAA'' then validateAAAA s
      else if t = ''CAA'' then validateCAA s
      else if t = ''CNAME'' then validateCNAME s
      else if t = ''DS'' then validateDS s
      else if t = ''MX'' then validateMX s
      else if t = ''NS'' then validateNS s
      else if t = ''PTR'' then validatePTR s
      else if t = ''SOA'' then validateSOA s
      else if t = ''SRV'' then validateSRV s
      else if t = ''TLSA'' then validateTLSA s
      else if t = ''TXT'' then validateTXT s
      else Some (Wrap (''unsupported record type '' @ quoted t) (Sentinel ErrInvalidRecordType)))"

section \<open>Priorities and canonical contents\<close>

definition wrap32 :: "int \<Rightarrow> int" where
  "wrap32 x = (x + 2147483648) mod 4294967296 - 2147483648"

definition ParseMXPriority :: "string \<Rightarrow> int" where
  "ParseMXPriority s = (case splitLeadingInt s of None \<Rightarrow> 0 | Some (p, _) \<Rightarrow> wrap32 p)"

definition ParseSRVPriority :: "string \<Rightarrow> int" where
  "ParseSRVPriority s =
     (let parts = Fields s
      in if length parts \<noteq> 4 then 0
         else case ParseInt (parts ! 0) of None \<Rightarrow> 0 | Some p \<Rightarrow> wrap32 p)"

definition CanonicalizeIP :: "string \<Rightarrow> string" where
  "CanonicalizeIP s = (case ParseAddr s of None \<Rightarrow> s | Some a \<Rightarrow> addr_text a)"

definition recordPriority :: "string \<Rightarrow> string \<Rightarrow> int" where
  "recordPriority t s =
     (if t = ''MX'' then ParseMXPriority s else if t = ''SRV'' then ParseSRVPriority s else 0)"

definition canonicalisedContent :: "string \<Rightarrow> string \<Rightarrow> string" where
  "canonicalisedContent t s = (if t = ''A'' \<or> t = ''AAAA'' then CanonicalizeIP s else s)"

section \<open>Names\<close>

definition validateCanonicalZoneName :: "string \<Rightarrow> goerr option" where
  "validateCanonicalZoneName name =
     map_option (\<lambda>m. Wrap m (Sentinel ErrInvalidZoneName))
       (if name = '''' then Some ''name is empty''
        else if \<not> HasSuffix name ''.'' then Some (''name '' @ quoted name @ '' must end with a dot'')
        else if list_ex white name then Some (''name '' @ quoted name @ '' must not contain whitespace'')
        else if ToLower name \<noteq> name then Some (''name '' @ quoted name @ '' must be lowercase'')
        else None)"

definition validateRecordName :: "string \<Rightarrow> string \<Rightarrow> goerr option" where
  "validateRecordName name zone =
     map_option (\<lambda>m. Wrap m (Sentinel ErrInvalidRecordName))
       (if name = '''' then Some ''name is empty''
        else if \<not> HasSuffix name ''.'' then Some (''name '' @ quoted name @ '' must end with a dot'')
        else if list_ex white name then Some (''name '' @ quoted name @ '' must not contain whitespace'')
        else if ToLower name \<noteq> name then Some (''name '' @ quoted name @ '' must be lowercase'')
        else if name = zone then None
        else if \<not> HasSuffix name (''.'' @ zone)
        then Some (''name '' @ quoted name @ '' does not belong to zone '' @ quoted zone)
        else None)"

end
