(* ===== verification/Powerdns.thy ===== *)
theory Powerdns
  imports Store
begin

text \<open>
  \<^verbatim>\<open>providers/powerdns\<close>: the driver of the DNS daemon. A call of the driver sends one or more requests
  to the daemon, a parameter of the client, and synthesizes a change event. The requests that the
  daemon carries out are collected in the world, in order; a request whose answer is lost may have
  been carried out. Not modelled: the tracing spans, the timeouts, the headers of the request with
  the key of the API, and the cache of the capabilities.
\<close>

section \<open>The client\<close>

datatype change_meta =
    NoMeta
  | MetaZone pdns_zone
  | MetaUpdate zone_update
  | MetaRRset string string int "pdns_record list"
  | MetaFields meta
  | MetaEntry zone_meta

record bus_event =
  be_topic :: string
  be_actor_type :: string
  be_resource :: string
  be_meta :: change_meta

record pdns_client =
  pc_daemon :: pdns_daemon
  pc_bus :: "(bus_event \<Rightarrow> unit result prog) option"

definition emitChange :: "pdns_client \<Rightarrow> string \<Rightarrow> string \<Rightarrow> change_meta \<Rightarrow> unit prog" where
  "emitChange c topic resource m =
     (case pc_bus c of
        None \<Rightarrow> ret ()
      | Some emit \<Rightarrow> drop_result (emit
          \<lparr>be_topic = topic, be_actor_type = ''system'', be_resource = resource, be_meta = m\<rparr>))"

text \<open>\<^verbatim>\<open>url.PathEscape\<close>.\<close>

definition path_safe :: "char \<Rightarrow> bool" where
  "path_safe c \<longleftrightarrow> is_upper c \<or> is_lower c \<or> is_digit c \<or> c \<in> set ''-_.~$&+:=@''"

definition percent :: "char \<Rightarrow> string" where
  "percent c = CHR ''%'' # ToUpper [hex_digit (of_char c div 16), hex_digit (of_char c mod 16)]"

definition PathEscape :: "string \<Rightarrow> string" where
  "PathEscape s = concat (map (\<lambda>c. if path_safe c then [c] else percent c) s)"

definition zonePath :: "string \<Rightarrow> string" where
  "zonePath z = ''servers/localhost/zones/'' @ PathEscape z"

definition cryptokeysPath :: "string \<Rightarrow> string" where
  "cryptokeysPath z = zonePath z @ ''/cryptokeys''"

definition metadataPath :: "string \<Rightarrow> string" where
  "metadataPath z = zonePath z @ ''/metadata''"

definition metadataKindPath :: "string \<Rightarrow> string \<Rightarrow> string" where
  "metadataKindPath z k = metadataPath z @ ''/'' @ k"

text \<open>The method and the path of a request.\<close>

fun req_line :: "pdns_req \<Rightarrow> string" where
  "req_line GetServer = ''GET servers/localhost''"
| "req_line GetZones = ''GET servers/localhost/zones''"
| "req_line (PostZone _) = ''POST servers/localhost/zones''"
| "req_line (GetZoneReq z rrsets) = ''GET '' @ zonePath z @ (if rrsets then ''?rrsets=true'' else '''')"
| "req_line (PatchZone z _) = ''PATCH '' @ zonePath z"
| "req_line (DeleteZoneReq z) = ''DELETE '' @ zonePath z"
| "req_line (GetKeys z) = ''GET '' @ cryptokeysPath z"
| "req_line (PostKey z _) = ''POST '' @ cryptokeysPath z"
| "req_line (GetKeyReq z i full) =
     ''GET '' @ cryptokeysPath z @ ''/'' @ fmt_d i @ (if full then ''?non-www-enc=false'' else '''')"
| "req_line (PutKey z i _) = ''PUT '' @ cryptokeysPath z @ ''/'' @ fmt_d i"
| "req_line (DeleteKeyReq z i) = ''DELETE '' @ cryptokeysPath z @ ''/'' @ fmt_d i"
| "req_line (GetMetas z) = ''GET '' @ metadataPath z"
| "req_line (GetMeta z k) = ''GET '' @ metadataKindPath z k"
| "req_line (PutMeta z m) = ''PUT '' @ metadataKindPath z (zm_kind m)"
| "req_line (DeleteMeta z k) = ''DELETE '' @ metadataKindPath z k"

text \<open>The error of an answer with a status and the message of its envelope.\<close>

definition APIError_text :: "nat \<Rightarrow> string \<Rightarrow> string" where
  "APIError_text status msg =
     ''powerdns: http '' @ nat_digits status @ (if msg = '''' then '''' else '': '' @ msg)"

definition classify :: "nat \<Rightarrow> string \<Rightarrow> goerr option" where
  "classify status msg =
     (if 200 \<le> status \<and> status < 300 then None
      else if status = 404 then Some (Wrap msg (Sentinel PdnsErrNotFound))
      else if status = 403 then Some (Wrap msg (Sentinel PdnsErrForbidden))
      else if status = 401 then Some (Wrap msg (Sentinel PdnsErrUnauthenticated))
      else if status = 400 then Some (Wrap msg (Sentinel PdnsErrBadRequest))
      else if status = 409
      then (if Contains (ToLower msg) ''exists'' then Some (Wrap msg (Sentinel PdnsErrAlreadyExists))
            else Some (Wrap msg (Sentinel PdnsErrConflict)))
      else Some (Wrap (APIError_text status msg) (Sentinel PdnsErrOperationFailed)))"

definition http_error :: "pdns_req \<Rightarrow> goerr \<Rightarrow> goerr" where
  "http_error r e = Wrap (''powerdns: http '' @ req_line r) e"

text \<open>One request: \<^verbatim>\<open>Provider.do\<close>, up to the decoding of the body.\<close>

definition judge :: "pdns_req \<Rightarrow> pdns_answer \<Rightarrow> pdns_body result" where
  "judge r a =
     (case a of
        Cancelled \<Rightarrow> Inl (http_error r (Wrap ''powerdns: cancelled'' (Msg ''context canceled'')))
      | DeadlineExceeded \<Rightarrow>
          Inl (http_error r (Wrap ''powerdns: deadline'' (Msg ''context deadline exceeded'')))
      | Unreachable why \<Rightarrow> Inl (http_error r (Msg why))
      | Reply status msg body \<Rightarrow>
          (case classify status msg of Some e \<Rightarrow> Inl (http_error r e) | None \<Rightarrow> Inr body))"

definition after :: "pdns_daemon \<Rightarrow> pdns_req list \<Rightarrow> pdns_req \<Rightarrow> pdns_req list" where
  "after dm log r = (if fst (dm log r) then log @ [r] else log)"

definition pdns_do :: "pdns_client \<Rightarrow> pdns_req \<Rightarrow> pdns_body result prog" where
  "pdns_do c r = State (\<lambda>w.
     (judge r (snd (pc_daemon c (pdns w) r)), w\<lparr>pdns := after (pc_daemon c) (pdns w) r\<rparr>))"

definition undecodable :: "pdns_req \<Rightarrow> goerr" where
  "undecodable r = Wrap (''powerdns: decode response '' @ req_line r) (Msg ''json: cannot unmarshal'')"

text \<open>
  A request whose body is decoded: an empty body leaves the zero value, one of another shape is an
  error.
\<close>

definition pdns_get :: "pdns_client \<Rightarrow> pdns_req \<Rightarrow> 'a \<Rightarrow> (pdns_body \<Rightarrow> 'a option) \<Rightarrow> 'a result prog" where
  "pdns_get c r zero decode = do {
     a \<leftarrow> pdns_do c r;
     case a of
       Inl e \<Rightarrow> fail e
     | Inr body \<Rightarrow>
         if body = NoBody then ok zero
         else (case decode body of None \<Rightarrow> fail (undecodable r) | Some x \<Rightarrow> ok x) }"

text \<open>A request that changes something: the event follows a success.\<close>

definition pdns_change ::
  "pdns_client \<Rightarrow> pdns_req \<Rightarrow> string \<Rightarrow> string \<Rightarrow> change_meta \<Rightarrow> unit result prog" where
  "pdns_change c r topic resource m = do {
     a \<leftarrow> pdns_do c r;
     case a of
       Inl e \<Rightarrow> fail e
     | Inr _ \<Rightarrow> do { _ \<leftarrow> emitChange c topic resource m; ok () } }"

fun as_zone :: "pdns_body \<Rightarrow> pdns_zone option" where
  "as_zone (BodyZone z) = Some z" | "as_zone _ = None"

fun as_zones :: "pdns_body \<Rightarrow> pdns_zone list option" where
  "as_zones (BodyZones zs) = Some zs" | "as_zones _ = None"

fun as_key :: "pdns_body \<Rightarrow> crypto_key option" where
  "as_key (BodyKey k) = Some k" | "as_key _ = None"

fun as_keys :: "pdns_body \<Rightarrow> crypto_key list option" where
  "as_keys (BodyKeys ks) = Some ks" | "as_keys _ = None"

fun as_meta :: "pdns_body \<Rightarrow> zone_meta option" where
  "as_meta (BodyMeta m) = Some m" | "as_meta _ = None"

fun as_metas :: "pdns_body \<Rightarrow> zone_meta list option" where
  "as_metas (BodyMetas ms) = Some ms" | "as_metas _ = None"

definition zero_zone :: pdns_zone where
  "zero_zone = \<lparr>pz_id = '''', pz_name = '''', pz_type = '''', pz_kind = '''', pz_serial = 0,
     pz_rrsets = [], pz_soa_edit_api = '''', pz_soa_edit = '''', pz_account = '''', pz_dnssec = False\<rparr>"

definition zero_key :: crypto_key where
  "zero_key = \<lparr>ck_id = 0, ck_keytype = '''', ck_active = False, ck_dnssec = False, ck_bits = 0,
     ck_algorithm = '''', ck_content = '''', ck_published = False\<rparr>"

definition zero_meta :: zone_meta where
  "zero_meta = \<lparr>zm_kind = '''', zm_values = []\<rparr>"

section \<open>Zones\<close>

definition pd_white :: "char \<Rightarrow> bool" where
  "pd_white c \<longleftrightarrow> of_char c \<in> {32, 9, 13, 10 :: nat}"

definition validateCanonicalName :: "string \<Rightarrow> goerr option" where
  "validateCanonicalName name =
     (if name = '''' then Some (Msg ''name is empty'')
      else if \<not> HasSuffix name ''.''
      then Some (Msg (''name '' @ quoted name @ '' must end with a dot (canonical form)''))
      else if list_ex pd_white name then Some (Msg (''name '' @ quoted name @ '' must not contain whitespace''))
      else if ToLower name \<noteq> name
      then Some (Msg (''name '' @ quoted name @ '' must be lowercase (canonical form)''))
      else None)"

record create_zone_params =
  cz_Name :: string
  cz_Kind :: string
  cz_SOAEditAPI :: string
  cz_SOAEdit :: string
  cz_Account :: string
  cz_Nameservers :: "string list"
  cz_RRsets :: "rrset list"

definition or_default :: "string \<Rightarrow> string \<Rightarrow> string" where
  "or_default s d = (if s = '''' then d else s)"

definition Provider_CreateZone :: "pdns_client \<Rightarrow> create_zone_params \<Rightarrow> pdns_zone result prog" where
  "Provider_CreateZone c p =
     (case validateCanonicalName (cz_Name p) of
        Some e \<Rightarrow> fail (Wrap ''powerdns: zone.create'' e)
      | None \<Rightarrow>
          if cz_Nameservers p = [] then fail (Msg ''powerdns: zone.create: at least one nameserver is required'')
          else do {
            a \<leftarrow> pdns_get c (PostZone
                   \<lparr>zc_name = cz_Name p, zc_kind = or_default (cz_Kind p) ''Native'',
                    zc_soa_edit_api = or_default (cz_SOAEditAPI p) ''DEFAULT'', zc_soa_edit = cz_SOAEdit p,
                    zc_account = cz_Account p, zc_nameservers = cz_Nameservers p, zc_rrsets = cz_RRsets p\<rparr>)
                 zero_zone as_zone;
            case a of
              Inl e \<Rightarrow> fail e
            | Inr z \<Rightarrow> do {
                _ \<leftarrow> emitChange c ''dns.zone.created'' (pz_id z) (MetaZone z);
                ok z } })"

definition Provider_GetZone :: "pdns_client \<Rightarrow> string \<Rightarrow> bool \<Rightarrow> pdns_zone result prog" where
  "Provider_GetZone c z rrsets = pdns_get c (GetZoneReq z rrsets) zero_zone as_zone"

definition Provider_ListZones :: "pdns_client \<Rightarrow> pdns_zone list result prog" where
  "Provider_ListZones c = pdns_get c GetZones [] as_zones"

definition Provider_UpdateZone :: "pdns_client \<Rightarrow> string \<Rightarrow> zone_update \<Rightarrow> unit result prog" where
  "Provider_UpdateZone c z u = pdns_change c (PatchZone z u) ''dns.zone.updated'' z (MetaUpdate u)"

definition Provider_DeleteZone :: "pdns_client \<Rightarrow> string \<Rightarrow> unit result prog" where
  "Provider_DeleteZone c z = pdns_change c (DeleteZoneReq z) ''dns.zone.deleted'' z NoMeta"

section \<open>Metadata\<close>

definition Provider_GetMetadata :: "pdns_client \<Rightarrow> string \<Rightarrow> zone_meta list result prog" where
  "Provider_GetMetadata c z = pdns_get c (GetMetas z) [] as_metas"

definition Provider_GetMetadataKind :: "pdns_client \<Rightarrow> string \<Rightarrow> string \<Rightarrow> zone_meta result prog" where
  "Provider_GetMetadataKind c z k = pdns_get c (GetMeta z k) zero_meta as_meta"

definition Provider_PutMetadata :: "pdns_client \<Rightarrow> string \<Rightarrow> zone_meta \<Rightarrow> unit result prog" where
  "Provider_PutMetadata c z m = pdns_change c (PutMeta z m) ''dns.zone.metadata.updated'' z (MetaEntry m)"

definition Provider_DeleteMetadata :: "pdns_client \<Rightarrow> string \<Rightarrow> string \<Rightarrow> unit result prog" where
  "Provider_DeleteMetadata c z k =
     pdns_change c (DeleteMeta z k) ''dns.zone.metadata.deleted'' z (MetaFields [(''kind'', JStr k)])"

definition Provider_SetSOAEdit :: "pdns_client \<Rightarrow> string \<Rightarrow> string \<Rightarrow> unit result prog" where
  "Provider_SetSOAEdit c z policy =
     Provider_PutMetadata c z \<lparr>zm_kind = ''SOA-EDIT'', zm_values = [policy]\<rparr>"

definition Provider_SetAXFR :: "pdns_client \<Rightarrow> string \<Rightarrow> bool \<Rightarrow> string list \<Rightarrow> unit result prog" where
  "Provider_SetAXFR c z allow hosts =
     Provider_PutMetadata c z \<lparr>zm_kind = ''ALLOW-AXFR-FROM'', zm_values = (if allow then hosts else [])\<rparr>"

section \<open>Record sets\<close>

definition pdns_record_types :: "string list" where
  "pdns_record_types =
     [''A'', ''AAAA'', ''CAA'', ''CNAME'', ''DS'', ''MX'', ''NS'', ''PTR'', ''SOA'', ''SRV'', ''TLSA'', ''TXT'']"

definition validateRRsetName :: "string \<Rightarrow> string \<Rightarrow> goerr option" where
  "validateRRsetName name zone =
     (case validateCanonicalName name of
        Some e \<Rightarrow> Some e
      | None \<Rightarrow>
          if name = zone then None
          else if \<not> HasSuffix name (''.'' @ zone)
          then Some (Msg (''name '' @ quoted name @ '' does not belong to zone '' @ quoted zone))
          else None)"

definition rrset_update :: "rrset \<Rightarrow> zone_update" where
  "rrset_update rs = \<lparr>zu_soa_edit_api = '''', zu_soa_edit = '''', zu_account = '''', zu_kind = '''',
     zu_masters = [], zu_rrsets = [rs]\<rparr>"

record rrset_upsert =
  ru_ZoneID :: string
  ru_Name :: string
  ru_Type :: string
  ru_TTL :: int
  ru_Records :: "pdns_record list"

definition replace_req :: "rrset_upsert \<Rightarrow> pdns_req" where
  "replace_req p = PatchZone (ru_ZoneID p) (rrset_update
     \<lparr>rs_name = ru_Name p, rs_type = ru_Type p, rs_ttl = ru_TTL p, rs_change = ''REPLACE'',
      rs_records = ru_Records p\<rparr>)"

definition Provider_ReplaceRRset :: "pdns_client \<Rightarrow> rrset_upsert \<Rightarrow> unit result prog" where
  "Provider_ReplaceRRset c p =
     (case validateRRsetName (ru_Name p) (ru_ZoneID p) of
        Some e \<Rightarrow> fail (Wrap ''powerdns: rrset.replace'' e)
      | None \<Rightarrow>
          if ru_Type p \<notin> set pdns_record_types
          then fail (Msg (''powerdns: rrset.replace: unsupported record type '' @ quoted (ru_Type p)))
          else pdns_change c (replace_req p) ''dns.record.updated'' (ru_ZoneID p)
                 (MetaRRset (ru_Name p) (ru_Type p) (ru_TTL p) (ru_Records p)))"

definition delete_req :: "string \<Rightarrow> string \<Rightarrow> string \<Rightarrow> pdns_req" where
  "delete_req zone name t = PatchZone zone (rrset_update
     \<lparr>rs_name = name, rs_type = t, rs_ttl = 0, rs_change = ''DELETE'', rs_records = []\<rparr>)"

definition Provider_DeleteRRset :: "pdns_client \<Rightarrow> string \<Rightarrow> string \<Rightarrow> string \<Rightarrow> unit result prog" where
  "Provider_DeleteRRset c zone name t =
     (case validateRRsetName name zone of
        Some e \<Rightarrow> fail (Wrap ''powerdns: rrset.delete'' e)
      | None \<Rightarrow>
          if t \<notin> set pdns_record_types
          then fail (Msg (''powerdns: rrset.delete: unsupported record type '' @ quoted t))
          else pdns_change c (delete_req zone name t) ''dns.record.deleted'' zone
                 (MetaFields [(''name'', JStr name), (''type'', JStr t)]))"

definition Provider_SearchRRsets ::
  "pdns_client \<Rightarrow> string \<Rightarrow> string \<Rightarrow> string \<Rightarrow> rrset list result prog" where
  "Provider_SearchRRsets c zone name t = do {
     g \<leftarrow> Provider_GetZone c zone True;
     case g of
       Inl e \<Rightarrow> fail e
     | Inr z \<Rightarrow> ok (filter (\<lambda>rs. (name = '''' \<or> rs_name rs = name) \<and> (t = '''' \<or> rs_type rs = t)) (pz_rrsets z)) }"

definition EnsureZoneApexSOA :: "string \<Rightarrow> string \<Rightarrow> string \<Rightarrow> rrset" where
  "EnsureZoneApexSOA zone primaryNS contact =
     (let c1 = (if contact = '''' then ''hostmaster.'' @ zone else contact);
          c2 = (if HasSuffix c1 ''.'' then c1 else c1 @ ''.'')
      in \<lparr>rs_name = zone, rs_type = ''SOA'', rs_ttl = 3600, rs_change = '''',
          rs_records = [\<lparr>rd_content = primaryNS @ '' '' @ c2 @ '' 1 10800 3600 604800 3600'',
                         rd_disabled = False, rd_setptr = False\<rparr>]\<rparr>)"

section \<open>Reverse names\<close>

definition arpa4 :: string where "arpa4 = ''.in-addr.arpa.''"
definition arpa6 :: string where "arpa6 = ''.ip6.arpa.''"

text \<open>The name of the zone of a network whose bits are the number \<open>n\<close>: its whole octets or nibbles, reversed.\<close>

definition ipv4ReverseZone :: "nat \<Rightarrow> nat \<Rightarrow> string" where
  "ipv4ReverseZone n ones =
     (let octets = max 1 (ones div 8)
      in join (CHR ''.'') (map nat_digits (rev (take octets (places 256 4 n)))) @ arpa4)"

definition ipv6ReverseZone :: "nat \<Rightarrow> nat \<Rightarrow> string" where
  "ipv6ReverseZone n ones =
     (let nibbles = max 1 (ones div 4)
      in join (CHR ''.'') (map (\<lambda>d. [hex_digit d]) (rev (take nibbles (places 16 32 n)))) @ arpa6)"

text \<open>
  \<^verbatim>\<open>PTRName\<close>, on the address that its text denotes. The parser of the code refuses a text with an IPv6
  zone; the model takes addresses without one, and ignores the zone.
\<close>

definition ptr4 :: "nat \<Rightarrow> string" where
  "ptr4 n = join (CHR ''.'') (map nat_digits (rev (places 256 4 n))) @ arpa4"

definition ptr6 :: "nat \<Rightarrow> string" where
  "ptr6 n = join (CHR ''.'') (map (\<lambda>d. [hex_digit d]) (rev (places 16 32 n))) @ arpa6"

fun PTRName :: "ipaddr \<Rightarrow> string" where
  "PTRName (V4 a) = ptr4 (unat a)"
| "PTRName (V6 a z) =
     (if is4in6 (places 65536 8 (unat a)) then ptr4 (unat a mod 2 ^ 32) else ptr6 (unat a))"

section \<open>Signing keys\<close>

record key_params =
  kp_ZoneID :: string
  kp_KeyType :: string
  kp_Bits :: int
  kp_Algorithm :: string
  kp_Active :: bool
  kp_Published :: bool

definition Provider_CreateCryptoKey :: "pdns_client \<Rightarrow> key_params \<Rightarrow> crypto_key result prog" where
  "Provider_CreateCryptoKey c p = do {
     a \<leftarrow> pdns_get c (PostKey (kp_ZoneID p)
            \<lparr>kc_keytype = or_default (kp_KeyType p) ''ksk'', kc_bits = kp_Bits p,
             kc_algorithm = kp_Algorithm p, kc_active = kp_Active p, kc_published = kp_Published p\<rparr>)
          zero_key as_key;
     case a of
       Inl e \<Rightarrow> fail e
     | Inr k \<Rightarrow> do {
         _ \<leftarrow> emitChange c ''dns.zone.dnssec.key_created'' (kp_ZoneID p)
                (MetaFields [(''key_id'', JInt (ck_id k)), (''key_type'', JStr (ck_keytype k)),
                             (''bits'', JInt (ck_bits k))]);
         ok k } }"

definition Provider_ListCryptoKeys :: "pdns_client \<Rightarrow> string \<Rightarrow> crypto_key list result prog" where
  "Provider_ListCryptoKeys c z = pdns_get c (GetKeys z) [] as_keys"

definition Provider_GetCryptoKey :: "pdns_client \<Rightarrow> string \<Rightarrow> int \<Rightarrow> bool \<Rightarrow> crypto_key result prog" where
  "Provider_GetCryptoKey c z i full = pdns_get c (GetKeyReq z i full) zero_key as_key"

definition toggle_req :: "string \<Rightarrow> int \<Rightarrow> bool \<Rightarrow> pdns_req" where
  "toggle_req z i active = PutKey z i (zero_key\<lparr>ck_id := i, ck_active := active\<rparr>)"

definition Provider_ToggleCryptoKey :: "pdns_client \<Rightarrow> string \<Rightarrow> int \<Rightarrow> bool \<Rightarrow> unit result prog" where
  "Provider_ToggleCryptoKey c z i active =
     pdns_change c (toggle_req z i active) ''dns.zone.dnssec.key_toggled'' z
       (MetaFields [(''key_id'', JInt i), (''active'', JBool active)])"

definition Provider_DeleteCryptoKey :: "pdns_client \<Rightarrow> string \<Rightarrow> int \<Rightarrow> unit result prog" where
  "Provider_DeleteCryptoKey c z i =
     pdns_change c (DeleteKeyReq z i) ''dns.zone.dnssec.key_deleted'' z (MetaFields [(''key_id'', JInt i)])"

definition Provider_EnableDNSSEC :: "pdns_client \<Rightarrow> string \<Rightarrow> crypto_key result prog" where
  "Provider_EnableDNSSEC c z = do {
     l \<leftarrow> Provider_ListCryptoKeys c z;
     case l of
       Inl e \<Rightarrow> fail e
     | Inr keys \<Rightarrow>
         (case find ck_active keys of
            Some k \<Rightarrow> ok k
          | None \<Rightarrow> do {
              k \<leftarrow> Provider_CreateCryptoKey c
                \<lparr>kp_ZoneID = z, kp_KeyType = ''csk'', kp_Bits = 256, kp_Algorithm = ''ecdsaP256SHA256'',
                 kp_Active = True, kp_Published = True\<rparr>;
              case k of
                Inl e \<Rightarrow> fail e
              | Inr created \<Rightarrow> do {
                  _ \<leftarrow> emitChange c ''dns.zone.dnssec.enabled'' z NoMeta;
                  ok created } }) }"

text \<open>The deletion of all keys goes on after a failure and reports the first one.\<close>

fun delete_keys :: "pdns_client \<Rightarrow> string \<Rightarrow> crypto_key list \<Rightarrow> goerr option \<Rightarrow> goerr option prog" where
  "delete_keys c z [] first = ret first"
| "delete_keys c z (k # ks) first = do {
     r \<leftarrow> Provider_DeleteCryptoKey c z (ck_id k);
     delete_keys c z ks (case (r, first) of (Inl e, None) \<Rightarrow> Some e | _ \<Rightarrow> first) }"

definition Provider_DisableDNSSEC :: "pdns_client \<Rightarrow> string \<Rightarrow> unit result prog" where
  "Provider_DisableDNSSEC c z = do {
     l \<leftarrow> Provider_ListCryptoKeys c z;
     case l of
       Inl e \<Rightarrow> fail e
     | Inr keys \<Rightarrow> do {
         first \<leftarrow> delete_keys c z keys None;
         case first of
           Some e \<Rightarrow> fail e
         | None \<Rightarrow> do { _ \<leftarrow> emitChange c ''dns.zone.dnssec.disabled'' z NoMeta; ok () } } }"

definition Provider_IsDNSSECEnabled :: "pdns_client \<Rightarrow> string \<Rightarrow> bool result prog" where
  "Provider_IsDNSSECEnabled c z = do {
     l \<leftarrow> Provider_ListCryptoKeys c z;
     case l of Inl e \<Rightarrow> fail e | Inr keys \<Rightarrow> ok (list_ex ck_active keys) }"

end
