(* ===== verification/Dns.thy ===== *)
theory Dns
  imports DnsRepo DnsValidate Powerdns
begin

text \<open>
  The service of package \<^verbatim>\<open>dns\<close>: zones (\<^verbatim>\<open>zones.go\<close>), their records (\<^verbatim>\<open>records.go\<close>), the signing of
  zones (\<^verbatim>\<open>dnssec.go\<close>) and the templates (\<^verbatim>\<open>templates.go\<close>). The interface to the daemon is the driver
  of the theory \<open>Powerdns\<close>; \<open>ds_uuid_str\<close> is the text of an identifier. A panic of a validator leaves the function before anything is written; it
  shows as the error \<open>slice_panic\<close>.
\<close>

section \<open>The service\<close>

record dns_svc =
  ds_provider :: "pdns_client option"
  ds_audit :: emitter
  ds_bus :: bool
  ds_nameservers :: "string list"
  ds_ttl :: int
  ds_dnssec :: bool
  ds_max_records :: int
  ds_coll :: "string \<Rightarrow> nat"
  ds_uuid_str :: "uuid \<Rightarrow> string"

text \<open>\<^verbatim>\<open>New\<close> sets the default of the time to live.\<close>

definition New_dns :: "dns_svc \<Rightarrow> dns_svc" where
  "New_dns s = s\<lparr>ds_ttl := (if ds_ttl s = 0 then 3600 else ds_ttl s)\<rparr>"

definition dns_emit ::
  "dns_svc \<Rightarrow> string \<Rightarrow> string \<Rightarrow> uuid \<Rightarrow> uuid \<Rightarrow> uuid option \<Rightarrow> meta option \<Rightarrow> uuid prog" where
  "dns_emit s action resource tenant user i m = do {
     r \<leftarrow> audit_Emit (ds_audit s)
       \<lparr>ae_tenant = Some tenant, ae_actor = Some user, ae_actor_type = ''user'', ae_action = action,
        ae_resource_type = resource, ae_resource = i, ae_status = ''pending'', ae_meta = m\<rparr>;
     ret (case r of Inl _ \<Rightarrow> uuid_nil | Inr aid \<Rightarrow> aid) }"

definition dns_mark :: "dns_svc \<Rightarrow> uuid \<Rightarrow> string \<Rightarrow> meta option \<Rightarrow> unit prog" where
  "dns_mark s aid status m = drop_result (audit_MarkOutcome (ds_audit s) aid status m)"

text \<open>The end of a failed operation: the outcome with the cause, and the error that is answered.\<close>

definition dns_fail :: "dns_svc \<Rightarrow> uuid \<Rightarrow> goerr \<Rightarrow> goerr \<Rightarrow> 'a result prog" where
  "dns_fail s aid cause e = do {
     _ \<leftarrow> dns_mark s aid ''failure'' (Some [(''error'', JErr cause)]);
     fail e }"

definition dns_emitEvent ::
  "dns_svc \<Rightarrow> string \<Rightarrow> uuid \<Rightarrow> uuid \<Rightarrow> uuid \<Rightarrow> meta option \<Rightarrow> unit prog" where
  "dns_emitEvent s topic tenant user resource m =
     bus_emit (ds_bus s)
       \<lparr>ev_topic = topic, ev_tenant = tenant, ev_actor_type = ''user'', ev_actor = user,
        ev_resource = resource, ev_meta = m, ev_at = zero_time\<rparr>"

definition zone_with :: "zone_row result prog \<Rightarrow> zone_row result prog" where
  "zone_with m = do {
     r \<leftarrow> m;
     case r of
       Inl e \<Rightarrow> if IsNoRows e then fail (Sentinel ErrZoneNotFound) else fail (Wrap ''dns: get zone'' e)
     | Inr row \<Rightarrow> ok row }"

definition lookupZoneForCaller :: "ctx \<Rightarrow> uuid \<Rightarrow> zone_row result prog" where
  "lookupZoneForCaller ctx zone = zone_with (DNSZones_Get ctx zone)"

section \<open>Records\<close>

record record_create =
  rp_Name :: string
  rp_Type :: string
  rp_Content :: string
  rp_TTL :: int
  rp_Disabled :: bool

definition used_ttl :: "dns_svc \<Rightarrow> int \<Rightarrow> int" where
  "used_ttl s ttl = (if ttl = 0 then ds_ttl s else ttl)"

text \<open>The checks of a new record, in the order of the code.\<close>

definition record_problem :: "dns_svc \<Rightarrow> string \<Rightarrow> record_create \<Rightarrow> goerr option" where
  "record_problem s canonical p =
     (case validateRecordName (rp_Name p) canonical of
        Some e \<Rightarrow> Some e
      | None \<Rightarrow>
          if \<not> IsSupportedRecordType (rp_Type p)
          then Some (Wrap (quoted (rp_Type p)) (Sentinel ErrInvalidRecordType))
          else if rp_Type p = ''CNAME'' \<and> rp_Name p = canonical then Some (Sentinel ErrCNAMEAtApex)
          else (case ValidateRecordContent (rp_Type p) (rp_Content p) of
             Some e \<Rightarrow> Some e
           | None \<Rightarrow> ValidateTTL (used_ttl s (rp_TTL p))))"

definition record_quota :: "dns_svc \<Rightarrow> ctx \<Rightarrow> unit result prog" where
  "record_quota s ctx =
     (if 0 < ds_max_records s then do {
        c \<leftarrow> DNSRecords_CountForTenant ctx;
        case c of
          Inl e \<Rightarrow> fail (Wrap ''dns: count records for quota'' e)
        | Inr current \<Rightarrow>
            if ds_max_records s \<le> current
            then fail (Msg (''dns: per-tenant record cap reached ('' @ fmt_d (ds_max_records s) @ '')''))
            else ok () }
      else ok ())"

definition upsert_of :: "string \<Rightarrow> string \<Rightarrow> string \<Rightarrow> int \<Rightarrow> string \<Rightarrow> bool \<Rightarrow> rrset_upsert" where
  "upsert_of canonical name t ttl content disabled =
     \<lparr>ru_ZoneID = canonical, ru_Name = name, ru_Type = t, ru_TTL = ttl,
      ru_Records = [\<lparr>rd_content = content, rd_disabled = disabled, rd_setptr = False\<rparr>]\<rparr>"

text \<open>From the change of the daemon on: the row is written after it, with the canonical content.\<close>

definition publish_record ::
  "dns_svc \<Rightarrow> pdns_client \<Rightarrow> ctx \<Rightarrow> uuid \<Rightarrow> uuid \<Rightarrow> uuid \<Rightarrow> zone_row \<Rightarrow> record_create \<Rightarrow> uuid \<Rightarrow>
     dnsrec_row result prog" where
  "publish_record s pv ctx tenant user zoneID zone p aid = do {
     let ttl = used_ttl s (rp_TTL p);
     let prio = recordPriority (rp_Type p) (rp_Content p);
     r \<leftarrow> Provider_ReplaceRRset pv
            (upsert_of (zn_canonical zone) (rp_Name p) (rp_Type p) ttl (rp_Content p) (rp_Disabled p));
     case r of
       Inl e \<Rightarrow> dns_fail s aid e (Wrap ''dns: pdns replace rrset'' e)
     | Inr _ \<Rightarrow> do {
         c \<leftarrow> DNSRecords_Create ctx
                \<lparr>nd_zone = zoneID, nd_name = rp_Name p, nd_type = rp_Type p,
                 nd_content = canonicalisedContent (rp_Type p) (rp_Content p), nd_ttl = wrap32 ttl,
                 nd_prio = prio, nd_disabled = rp_Disabled p\<rparr>;
         case c of
           Inl e \<Rightarrow> dns_fail s aid e (Wrap ''dns: create record row'' e)
         | Inr row \<Rightarrow> do {
             _ \<leftarrow> dns_emitEvent s ''dns.record.created'' tenant user (dr_id row)
                    (Some [(''zone_id'', JUuid zoneID), (''name'', JStr (dr_name row)),
                           (''type'', JStr (dr_type row)), (''ttl'', JInt (dr_ttl row))]);
             _ \<leftarrow> dns_mark s aid ''success'' (Some [(''record_id'', JUuid (dr_id row))]);
             ok row } } }"

definition CreateRecord ::
  "dns_svc \<Rightarrow> ctx \<Rightarrow> uuid \<Rightarrow> uuid \<Rightarrow> uuid \<Rightarrow> record_create \<Rightarrow> dnsrec_row result prog" where
  "CreateRecord s ctx tenant user zoneID p =
     (case ds_provider s of
        None \<Rightarrow> fail (Sentinel DnsErrProviderDisabled)
      | Some pv \<Rightarrow> do {
          z \<leftarrow> lookupZoneForCaller ctx zoneID;
          case z of
            Inl e \<Rightarrow> fail e
          | Inr zone \<Rightarrow>
              (case record_problem s (zn_canonical zone) p of
                 Some e \<Rightarrow> fail e
               | None \<Rightarrow> do {
                   q \<leftarrow> record_quota s ctx;
                   case q of
                     Inl e \<Rightarrow> fail e
                   | Inr _ \<Rightarrow> do {
                       ex \<leftarrow> DNSRecords_GetByIdentity ctx zoneID (rp_Name p) (rp_Type p) (rp_Content p);
                       if (case ex of Inl _ \<Rightarrow> False | Inr row \<Rightarrow> dr_id row \<noteq> uuid_nil)
                       then fail (Wrap (rp_Name p @ '' '' @ rp_Type p @ '' '' @ rp_Content p)
                              (Sentinel ErrRecordAlreadyExists))
                       else do {
                         aid \<leftarrow> dns_emit s ''dns.record.create'' ''dns_record'' tenant user None
                           (Some [(''zone_id'', JUuid zoneID), (''name'', JStr (rp_Name p)),
                                  (''type'', JStr (rp_Type p)), (''ttl'', JInt (used_ttl s (rp_TTL p))),
                                  (''priority'', JInt (recordPriority (rp_Type p) (rp_Content p)))]);
                         publish_record s pv ctx tenant user zoneID zone p aid } } }) })"

definition record_with :: "ctx \<Rightarrow> uuid \<Rightarrow> uuid \<Rightarrow> dnsrec_row result prog" where
  "record_with ctx zoneID i = do {
     r \<leftarrow> DNSRecords_Get ctx i;
     case r of
       Inl e \<Rightarrow> if IsNoRows e then fail (Sentinel ErrRecordNotFound) else fail (Wrap ''dns: get record'' e)
     | Inr row \<Rightarrow> if dr_zone row \<noteq> zoneID then fail (Sentinel ErrRecordNotFound) else ok row }"

definition GetRecord :: "ctx \<Rightarrow> uuid \<Rightarrow> uuid \<Rightarrow> dnsrec_row result prog" where
  "GetRecord ctx zoneID i = record_with ctx zoneID i"

definition ListRecords :: "dns_svc \<Rightarrow> ctx \<Rightarrow> uuid \<Rightarrow> int \<Rightarrow> int \<Rightarrow> dnsrec_row list result prog" where
  "ListRecords s ctx zoneID limit offset = do {
     r \<leftarrow> DNSRecords_List (ds_coll s) ctx zoneID limit offset;
     case r of Inl e \<Rightarrow> fail (Wrap ''dns: list records'' e) | Inr rows \<Rightarrow> ok rows }"

definition CountRecords :: "ctx \<Rightarrow> uuid \<Rightarrow> int result prog" where
  "CountRecords ctx zoneID = DNSRecords_CountInZone ctx zoneID"

record record_change =
  rc_Content :: "string option"
  rc_TTL :: "int option"
  rc_Disabled :: "bool option"

definition or_old :: "'a option \<Rightarrow> 'a \<Rightarrow> 'a" where
  "or_old new old = (case new of None \<Rightarrow> old | Some x \<Rightarrow> x)"

text \<open>From the change of the daemon on.\<close>

definition republish_record ::
  "dns_svc \<Rightarrow> pdns_client \<Rightarrow> ctx \<Rightarrow> uuid \<Rightarrow> uuid \<Rightarrow> uuid \<Rightarrow> zone_row \<Rightarrow> dnsrec_row \<Rightarrow> string \<Rightarrow> int \<Rightarrow> bool \<Rightarrow>
     uuid \<Rightarrow> dnsrec_row result prog" where
  "republish_record s pv ctx tenant user zoneID zone row content ttl disabled aid = do {
     let prio = recordPriority (dr_type row) content;
     r \<leftarrow> Provider_ReplaceRRset pv
            (upsert_of (zn_canonical zone) (dr_name row) (dr_type row) ttl content disabled);
     case r of
       Inl e \<Rightarrow> dns_fail s aid e (Wrap ''dns: pdns replace rrset'' e)
     | Inr _ \<Rightarrow> do {
         u \<leftarrow> DNSRecords_Update ctx (dr_id row)
                \<lparr>ud_content = content, ud_ttl = wrap32 ttl, ud_prio = prio, ud_disabled = disabled\<rparr>;
         case u of
           Inl e \<Rightarrow> dns_fail s aid e (Wrap ''dns: update record row'' e)
         | Inr _ \<Rightarrow> do {
             _ \<leftarrow> dns_emitEvent s ''dns.record.updated'' tenant user (dr_id row)
                    (Some [(''zone_id'', JUuid zoneID), (''name'', JStr (dr_name row)),
                           (''type'', JStr (dr_type row))]);
             _ \<leftarrow> dns_mark s aid ''success'' None;
             ok (row\<lparr>dr_content := content, dr_ttl := wrap32 ttl, dr_prio := prio, dr_disabled := disabled\<rparr>) } } }"

definition UpdateRecord ::
  "dns_svc \<Rightarrow> ctx \<Rightarrow> uuid \<Rightarrow> uuid \<Rightarrow> uuid \<Rightarrow> uuid \<Rightarrow> record_change \<Rightarrow> dnsrec_row result prog" where
  "UpdateRecord s ctx tenant user zoneID i p =
     (case ds_provider s of
        None \<Rightarrow> fail (Sentinel DnsErrProviderDisabled)
      | Some pv \<Rightarrow> do {
          z \<leftarrow> lookupZoneForCaller ctx zoneID;
          case z of
            Inl e \<Rightarrow> fail e
          | Inr zone \<Rightarrow> do {
              g \<leftarrow> record_with ctx zoneID i;
              case g of
                Inl e \<Rightarrow> fail e
              | Inr row \<Rightarrow>
                  (case ValidateRecordContent (dr_type row) (or_old (rc_Content p) (dr_content row)) of
                     Some e \<Rightarrow> fail e
                   | None \<Rightarrow>
                       (case ValidateTTL (or_old (rc_TTL p) (dr_ttl row)) of
                          Some e \<Rightarrow> fail e
                        | None \<Rightarrow> do {
                            aid \<leftarrow> dns_emit s ''dns.record.update'' ''dns_record'' tenant user (Some (dr_id row)) None;
                            republish_record s pv ctx tenant user zoneID zone row
                              (canonicalisedContent (dr_type row) (or_old (rc_Content p) (dr_content row)))
                              (or_old (rc_TTL p) (dr_ttl row)) (or_old (rc_Disabled p) (dr_disabled row)) aid })) } })"

text \<open>A failure of the daemon is tolerated when it says that there is nothing to delete.\<close>

definition tolerated :: "unit result \<Rightarrow> bool" where
  "tolerated r \<longleftrightarrow> (case r of Inl e \<Rightarrow> errors_is e PdnsErrNotFound | Inr _ \<Rightarrow> True)"

definition the_error :: "unit result \<Rightarrow> goerr" where
  "the_error r = (case r of Inl e \<Rightarrow> e | Inr _ \<Rightarrow> Msg '''')"

definition DeleteRecord :: "dns_svc \<Rightarrow> ctx \<Rightarrow> uuid \<Rightarrow> uuid \<Rightarrow> uuid \<Rightarrow> uuid \<Rightarrow> unit result prog" where
  "DeleteRecord s ctx tenant user zoneID i =
     (case ds_provider s of
        None \<Rightarrow> fail (Sentinel DnsErrProviderDisabled)
      | Some pv \<Rightarrow> do {
          z \<leftarrow> lookupZoneForCaller ctx zoneID;
          case z of
            Inl e \<Rightarrow> fail e
          | Inr zone \<Rightarrow> do {
              g \<leftarrow> record_with ctx zoneID i;
              case g of
                Inl e \<Rightarrow> fail e
              | Inr row \<Rightarrow> do {
                  aid \<leftarrow> dns_emit s ''dns.record.delete'' ''dns_record'' tenant user (Some (dr_id row)) None;
                  r \<leftarrow> Provider_DeleteRRset pv (zn_canonical zone) (dr_name row) (dr_type row);
                  if \<not> tolerated r
                  then dns_fail s aid (the_error r) (Wrap ''dns: pdns delete rrset'' (the_error r))
                  else do {
                    x \<leftarrow> DNSRecords_Delete ctx i;
                    case x of
                      Inl e \<Rightarrow> dns_fail s aid e (Wrap ''dns: delete record row'' e)
                    | Inr _ \<Rightarrow> do {
                        _ \<leftarrow> dns_emitEvent s ''dns.record.deleted'' tenant user (dr_id row)
                               (Some [(''zone_id'', JUuid zoneID), (''name'', JStr (dr_name row)),
                                      (''type'', JStr (dr_type row))]);
                        _ \<leftarrow> dns_mark s aid ''success'' None;
                        ok () } } } } })"

section \<open>Zones\<close>

record create_zone =
  qz_Name :: string
  qz_Description :: string
  qz_Kind :: string

definition pddnsZoneID :: "pdns_zone \<Rightarrow> string" where
  "pddnsZoneID z = (if pz_id z \<noteq> '''' then pz_id z else pz_name z)"

text \<open>Signing a new zone, when the configuration asks for it; a failure is ignored.\<close>

definition sign_new ::
  "dns_svc \<Rightarrow> pdns_client \<Rightarrow> ctx \<Rightarrow> zone_row \<Rightarrow> zone_row prog" where
  "sign_new s pv ctx row =
     (if ds_dnssec s then do {
        r \<leftarrow> Provider_EnableDNSSEC pv (zn_canonical row);
        case r of
          Inl _ \<Rightarrow> ret row
        | Inr _ \<Rightarrow> do {
            _ \<leftarrow> DNSZones_SetCachedDNSSEC ctx (zn_id row) True;
            ret (row\<lparr>zn_dnssec := True\<rparr>) } }
      else ret row)"

text \<open>From the answer of the daemon on: a row that cannot be written takes the zone back from the daemon.\<close>

definition record_zone ::
  "dns_svc \<Rightarrow> pdns_client \<Rightarrow> ctx \<Rightarrow> uuid \<Rightarrow> uuid \<Rightarrow> create_zone \<Rightarrow> string \<Rightarrow> uuid \<Rightarrow> pdns_zone \<Rightarrow>
     zone_row result prog" where
  "record_zone s pv ctx tenant user p kind aid z = do {
     c \<leftarrow> DNSZones_Create ctx \<lparr>nz_canonical = pz_id z, nz_name = pz_name z, nz_kind = kind,
            nz_desc = qz_Description p\<rparr>;
     case c of
       Inl e \<Rightarrow> do {
         _ \<leftarrow> Provider_DeleteZone pv (pddnsZoneID z);
         dns_fail s aid e (Wrap ''dns: create zone row'' e) }
     | Inr row0 \<Rightarrow> do {
         row \<leftarrow> sign_new s pv ctx row0;
         _ \<leftarrow> dns_emitEvent s ''dns.zone.created'' tenant user (zn_id row)
                (Some [(''name'', JStr (zn_name row)), (''canonical_id'', JStr (zn_canonical row)),
                       (''kind'', JStr (zn_kind row))]);
         _ \<leftarrow> dns_mark s aid ''success'' (Some [(''zone_id'', JUuid (zn_id row))]);
         ok row } }"

definition CreateZone :: "dns_svc \<Rightarrow> ctx \<Rightarrow> uuid \<Rightarrow> uuid \<Rightarrow> create_zone \<Rightarrow> zone_row result prog" where
  "CreateZone s ctx tenant user p =
     (case ds_provider s of
        None \<Rightarrow> fail (Sentinel DnsErrProviderDisabled)
      | Some pv \<Rightarrow>
          (case validateCanonicalZoneName (qz_Name p) of
             Some e \<Rightarrow> fail e
           | None \<Rightarrow> do {
               ex \<leftarrow> DNSZones_GetByCanonicalGlobal (qz_Name p);
               if (case ex of Inl _ \<Rightarrow> False | Inr row \<Rightarrow> zn_id row \<noteq> uuid_nil)
               then fail (Wrap (qz_Name p) (Sentinel ErrZoneAlreadyExists))
               else do {
                 let kind = (if qz_Kind p = '''' then ''Native'' else qz_Kind p);
                 let ns = (if ds_nameservers s = [] then [''ns1.'' @ qz_Name p] else ds_nameservers s);
                 aid \<leftarrow> dns_emit s ''dns.zone.create'' ''dns_zone'' tenant user None
                        (Some [(''name'', JStr (qz_Name p)), (''kind'', JStr kind),
                               (''description'', JStr (qz_Description p))]);
                 r \<leftarrow> Provider_CreateZone pv
                        \<lparr>cz_Name = qz_Name p, cz_Kind = kind, cz_SOAEditAPI = '''', cz_SOAEdit = '''',
                         cz_Account = ds_uuid_str s tenant, cz_Nameservers = ns, cz_RRsets = []\<rparr>;
                 case r of
                   Inl e \<Rightarrow>
                     if errors_is e PdnsErrAlreadyExists then do {
                       _ \<leftarrow> dns_mark s aid ''failure''
                              (Some [(''error'', JStr ''zone already exists in PDNS'')]);
                       fail (Wrap (qz_Name p) (Sentinel ErrZoneAlreadyExists)) }
                     else dns_fail s aid e (Wrap ''dns: pdns create zone'' e)
                 | Inr z \<Rightarrow> record_zone s pv ctx tenant user p kind aid z } }))"

definition GetZone :: "ctx \<Rightarrow> uuid \<Rightarrow> zone_row result prog" where
  "GetZone ctx i = zone_with (DNSZones_Get ctx i)"

definition ReconcileZone :: "dns_svc \<Rightarrow> ctx \<Rightarrow> uuid \<Rightarrow> zone_row result prog" where
  "ReconcileZone s ctx i = do {
     z \<leftarrow> zone_with (DNSZones_Get ctx i);
     case z of
       Inl e \<Rightarrow> fail e
     | Inr row \<Rightarrow>
         (case ds_provider s of
            None \<Rightarrow> ok row
          | Some pv \<Rightarrow> do {
              r \<leftarrow> Provider_IsDNSSECEnabled pv (zn_canonical row);
              case r of
                Inl _ \<Rightarrow> ok row
              | Inr enabled \<Rightarrow> do {
                  _ \<leftarrow> DNSZones_SetCachedDNSSEC ctx i enabled;
                  ok (row\<lparr>zn_dnssec := enabled\<rparr>) } }) }"

definition ListZones :: "ctx \<Rightarrow> int \<Rightarrow> int \<Rightarrow> zone_row list result prog" where
  "ListZones ctx limit offset = do {
     r \<leftarrow> DNSZones_List ctx limit offset;
     case r of Inl e \<Rightarrow> fail (Wrap ''dns: list zones'' e) | Inr rows \<Rightarrow> ok rows }"

definition CountZones :: "ctx \<Rightarrow> int result prog" where
  "CountZones ctx = DNSZones_Count ctx"

record zone_change =
  wz_Description :: "string option"
  wz_Kind :: "string option"

definition kind_update :: "string \<Rightarrow> zone_update" where
  "kind_update kind = \<lparr>zu_soa_edit_api = '''', zu_soa_edit = '''', zu_account = '''', zu_kind = kind,
     zu_masters = [], zu_rrsets = []\<rparr>"

definition change_kind ::
  "dns_svc \<Rightarrow> pdns_client \<Rightarrow> ctx \<Rightarrow> uuid \<Rightarrow> string option \<Rightarrow> uuid \<Rightarrow> zone_row \<Rightarrow> zone_row result prog" where
  "change_kind s pv ctx i new aid row =
     (case new of
        None \<Rightarrow> ok row
      | Some kind \<Rightarrow>
          if kind = zn_kind row then ok row
          else do {
            r \<leftarrow> Provider_UpdateZone pv (zn_canonical row) (kind_update kind);
            case r of
              Inl e \<Rightarrow> dns_fail s aid e (Wrap ''dns: pdns update zone'' e)
            | Inr _ \<Rightarrow> do {
                k \<leftarrow> DNSZones_SetKind ctx i kind;
                case k of
                  Inl e \<Rightarrow> dns_fail s aid e (Wrap ''dns: update zone kind'' e)
                | Inr _ \<Rightarrow> ok (row\<lparr>zn_kind := kind\<rparr>) } })"

definition change_description ::
  "dns_svc \<Rightarrow> ctx \<Rightarrow> uuid \<Rightarrow> string option \<Rightarrow> uuid \<Rightarrow> zone_row \<Rightarrow> zone_row result prog" where
  "change_description s ctx i new aid row =
     (case new of
        None \<Rightarrow> ok row
      | Some text \<Rightarrow> do {
          r \<leftarrow> DNSZones_SetDescription ctx i text;
          case r of
            Inl e \<Rightarrow> dns_fail s aid e (Wrap ''dns: update zone description'' e)
          | Inr _ \<Rightarrow> ok (row\<lparr>zn_desc := text\<rparr>) })"

definition UpdateZone :: "dns_svc \<Rightarrow> ctx \<Rightarrow> uuid \<Rightarrow> uuid \<Rightarrow> uuid \<Rightarrow> zone_change \<Rightarrow> zone_row result prog" where
  "UpdateZone s ctx tenant user i p =
     (case ds_provider s of
        None \<Rightarrow> fail (Sentinel DnsErrProviderDisabled)
      | Some pv \<Rightarrow> do {
          z \<leftarrow> zone_with (DNSZones_Get ctx i);
          case z of
            Inl e \<Rightarrow> fail e
          | Inr row \<Rightarrow> do {
              aid \<leftarrow> dns_emit s ''dns.zone.update'' ''dns_zone'' tenant user (Some (zn_id row)) None;
              k \<leftarrow> change_kind s pv ctx i (wz_Kind p) aid row;
              case k of
                Inl e \<Rightarrow> fail e
              | Inr row1 \<Rightarrow> do {
                  d \<leftarrow> change_description s ctx i (wz_Description p) aid row1;
                  case d of
                    Inl e \<Rightarrow> fail e
                  | Inr row2 \<Rightarrow> do {
                      _ \<leftarrow> dns_emitEvent s ''dns.zone.updated'' tenant user (zn_id row2)
                             (Some [(''name'', JStr (zn_name row2)), (''kind'', JStr (zn_kind row2))]);
                      _ \<leftarrow> dns_mark s aid ''success'' None;
                      ok row2 } } } })"

definition DeleteZone :: "dns_svc \<Rightarrow> ctx \<Rightarrow> uuid \<Rightarrow> uuid \<Rightarrow> uuid \<Rightarrow> unit result prog" where
  "DeleteZone s ctx tenant user i =
     (case ds_provider s of
        None \<Rightarrow> fail (Sentinel DnsErrProviderDisabled)
      | Some pv \<Rightarrow> do {
          z \<leftarrow> zone_with (DNSZones_Get ctx i);
          case z of
            Inl e \<Rightarrow> fail e
          | Inr row \<Rightarrow> do {
              let about = [(''name'', JStr (zn_name row)), (''canonical_id'', JStr (zn_canonical row))];
              aid \<leftarrow> dns_emit s ''dns.zone.delete'' ''dns_zone'' tenant user (Some (zn_id row)) (Some about);
              r \<leftarrow> Provider_DeleteZone pv (zn_canonical row);
              if \<not> tolerated r
              then dns_fail s aid (the_error r) (Wrap ''dns: pdns delete zone'' (the_error r))
              else do {
                x \<leftarrow> DNSRecords_DeleteAllInZone ctx i;
                case x of
                  Inl e \<Rightarrow> dns_fail s aid e (Wrap ''dns: delete zone records'' e)
                | Inr _ \<Rightarrow> do {
                    y \<leftarrow> DNSZones_Delete ctx i;
                    case y of
                      Inl e \<Rightarrow> dns_fail s aid e (Wrap ''dns: delete zone row'' e)
                    | Inr _ \<Rightarrow> do {
                        _ \<leftarrow> dns_emitEvent s ''dns.zone.deleted'' tenant user (zn_id row) (Some about);
                        _ \<leftarrow> dns_mark s aid ''success'' None;
                        ok () } } } } })"

section \<open>Signing\<close>

text \<open>Enabling and disabling differ in the call of the driver, the flag and the names.\<close>

definition set_dnssec ::
  "dns_svc \<Rightarrow> ctx \<Rightarrow> uuid \<Rightarrow> uuid \<Rightarrow> uuid \<Rightarrow> bool \<Rightarrow> string \<Rightarrow> string \<Rightarrow> string \<Rightarrow>
     (pdns_client \<Rightarrow> string \<Rightarrow> unit result prog) \<Rightarrow> unit result prog" where
  "set_dnssec s ctx tenant user i enabled action what topic call =
     (case ds_provider s of
        None \<Rightarrow> fail (Sentinel DnsErrProviderDisabled)
      | Some pv \<Rightarrow> do {
          z \<leftarrow> lookupZoneForCaller ctx i;
          case z of
            Inl e \<Rightarrow> fail e
          | Inr zone \<Rightarrow>
              if zn_dnssec zone = enabled then ok ()
              else do {
                aid \<leftarrow> dns_emit s action ''dns_zone'' tenant user (Some (zn_id zone))
                       (Some [(''canonical_id'', JStr (zn_canonical zone))]);
                r \<leftarrow> call pv (zn_canonical zone);
                case r of
                  Inl e \<Rightarrow> dns_fail s aid e (Wrap what e)
                | Inr _ \<Rightarrow> do {
                    c \<leftarrow> DNSZones_SetCachedDNSSEC ctx i enabled;
                    case c of
                      Inl e \<Rightarrow> dns_fail s aid e (Wrap ''dns: cache dnssec flag'' e)
                    | Inr _ \<Rightarrow> do {
                        _ \<leftarrow> dns_emitEvent s topic tenant user (zn_id zone)
                               (Some [(''name'', JStr (zn_name zone)),
                                      (''canonical_id'', JStr (zn_canonical zone))]);
                        _ \<leftarrow> dns_mark s aid ''success'' None;
                        ok () } } } })"

definition forget :: "'a result prog \<Rightarrow> unit result prog" where
  "forget m = do { r \<leftarrow> m; case r of Inl e \<Rightarrow> fail e | Inr _ \<Rightarrow> ok () }"

definition EnableDNSSEC :: "dns_svc \<Rightarrow> ctx \<Rightarrow> uuid \<Rightarrow> uuid \<Rightarrow> uuid \<Rightarrow> unit result prog" where
  "EnableDNSSEC s ctx tenant user i =
     set_dnssec s ctx tenant user i True ''dns.zone.dnssec.enable'' ''dns: pdns enable dnssec''
       ''dns.zone.dnssec.enabled'' (\<lambda>pv z. forget (Provider_EnableDNSSEC pv z))"

definition DisableDNSSEC :: "dns_svc \<Rightarrow> ctx \<Rightarrow> uuid \<Rightarrow> uuid \<Rightarrow> uuid \<Rightarrow> unit result prog" where
  "DisableDNSSEC s ctx tenant user i =
     set_dnssec s ctx tenant user i False ''dns.zone.dnssec.disable'' ''dns: pdns disable dnssec''
       ''dns.zone.dnssec.disabled'' Provider_DisableDNSSEC"

definition deactivateCryptoKey :: "pdns_client \<Rightarrow> string \<Rightarrow> int \<Rightarrow> unit result prog" where
  "deactivateCryptoKey pv z i = Provider_ToggleCryptoKey pv z i False"

text \<open>Deactivating the keys that were active when they were listed; failures are ignored.\<close>

fun deactivate_keys :: "pdns_client \<Rightarrow> string \<Rightarrow> crypto_key list \<Rightarrow> unit prog" where
  "deactivate_keys pv z [] = ret ()"
| "deactivate_keys pv z (k # ks) = do {
     _ \<leftarrow> (if ck_active k then drop_result (deactivateCryptoKey pv z (ck_id k)) else ret ());
     deactivate_keys pv z ks }"

definition RotateDNSSECKey :: "dns_svc \<Rightarrow> ctx \<Rightarrow> uuid \<Rightarrow> uuid \<Rightarrow> uuid \<Rightarrow> unit result prog" where
  "RotateDNSSECKey s ctx tenant user i =
     (case ds_provider s of
        None \<Rightarrow> fail (Sentinel DnsErrProviderDisabled)
      | Some pv \<Rightarrow> do {
          z \<leftarrow> lookupZoneForCaller ctx i;
          case z of
            Inl e \<Rightarrow> fail e
          | Inr zone \<Rightarrow> do {
              aid \<leftarrow> dns_emit s ''dns.zone.dnssec.enable.rotate'' ''dns_zone'' tenant user (Some (zn_id zone)) None;
              l \<leftarrow> Provider_ListCryptoKeys pv (zn_canonical zone);
              case l of
                Inl e \<Rightarrow> dns_fail s aid e (Wrap ''dns: pdns list cryptokeys'' e)
              | Inr keys \<Rightarrow> do {
                  r \<leftarrow> Provider_EnableDNSSEC pv (zn_canonical zone);
                  case r of
                    Inl e \<Rightarrow> dns_fail s aid e (Wrap ''dns: pdns rotate cryptokey'' e)
                  | Inr _ \<Rightarrow> do {
                      _ \<leftarrow> deactivate_keys pv (zn_canonical zone) keys;
                      _ \<leftarrow> (if zn_dnssec zone then ret ()
                            else drop_result (DNSZones_SetCachedDNSSEC ctx i True));
                      _ \<leftarrow> dns_emitEvent s ''dns.zone.dnssec.rotated'' tenant user (zn_id zone)
                             (Some [(''name'', JStr (zn_name zone)),
                                    (''canonical_id'', JStr (zn_canonical zone)),
                                    (''previous_keys'', JInt (int (length keys)))]);
                      _ \<leftarrow> dns_mark s aid ''success'' None;
                      ok () } } } })"

definition IsDNSSECEnabled :: "ctx \<Rightarrow> uuid \<Rightarrow> bool result prog" where
  "IsDNSSECEnabled ctx i = do {
     z \<leftarrow> lookupZoneForCaller ctx i;
     case z of Inl e \<Rightarrow> fail e | Inr zone \<Rightarrow> ok (zn_dnssec zone) }"

section \<open>Templates\<close>

record template_record =
  tr_Name :: string
  tr_Type :: string
  tr_Content :: string
  tr_TTL :: int

record dns_template =
  tp_ID :: string
  tp_Name :: string
  tp_Description :: string
  tp_Records :: "template_record list"

definition at_apex :: "string \<Rightarrow> string \<Rightarrow> template_record" where
  "at_apex t content = \<lparr>tr_Name = ''%s'', tr_Type = t, tr_Content = content, tr_TTL = 3600\<rparr>"

definition builtinTemplates :: "dns_template list" where
  "builtinTemplates =
     [\<lparr>tp_ID = ''google-workspace'', tp_Name = ''Google Workspace setup'',
       tp_Description = ''Adds the MX, SPF, and DKIM (placeholder) records Google Workspace requires to receive mail and verify domain ownership.'',
       tp_Records = [at_apex ''MX'' ''1 aspmx.l.google.com.'',
                     at_apex ''TXT'' (quoted ''v=spf1 include:_spf.google.com ~all'')]\<rparr>,
      \<lparr>tp_ID = ''microsoft-365'', tp_Name = ''Microsoft 365 setup'',
       tp_Description = ''Adds the MX and SPF records Microsoft 365 requires to receive mail.'',
       tp_Records = [at_apex ''MX'' ''0 %w.mail.protection.outlook.com.'',
                     at_apex ''TXT'' (quoted ''v=spf1 include:spf.protection.outlook.com ~all'')]\<rparr>,
      \<lparr>tp_ID = ''verify-google'', tp_Name = ''Google Search Console verification'',
       tp_Description = ''Adds a placeholder TXT record for Google Search Console verification. Replace with the token from the verification wizard.'',
       tp_Records = [at_apex ''TXT'' (quoted ''google-site-verification=REPLACE-WITH-YOUR-TOKEN'')]\<rparr>]"

definition ListTemplates :: "dns_template list" where
  "ListTemplates = builtinTemplates"

definition GetTemplate :: "string \<Rightarrow> dns_template result" where
  "GetTemplate i =
     (case find (\<lambda>t. tp_ID t = i) builtinTemplates of
        None \<Rightarrow> Inl (Wrap i (Sentinel ErrTemplateNotFound))
      | Some t \<Rightarrow> Inr t)"

definition without_dot :: "string \<Rightarrow> string" where
  "without_dot z = (if z \<noteq> '''' \<and> last z = CHR ''.'' then butlast z else z)"

fun expand :: "string \<Rightarrow> string \<Rightarrow> string \<Rightarrow> string" where
  "expand full bare [] = []"
| "expand full bare [c] = [c]"
| "expand full bare (c # d # rest) =
     (if c = CHR ''%'' \<and> d = CHR ''s'' then full @ expand full bare rest
      else if c = CHR ''%'' \<and> d = CHR ''w'' then bare @ expand full bare rest
      else c # expand full bare (d # rest))"

definition expandTemplatePlaceholder :: "string \<Rightarrow> string \<Rightarrow> string" where
  "expandTemplatePlaceholder text zone = (if zone = '''' then text else expand zone (without_dot zone) text)"

definition isAlreadyExists :: "goerr \<Rightarrow> bool" where
  "isAlreadyExists e \<longleftrightarrow> errors_is e ErrRecordAlreadyExists"

definition expanded :: "template_record \<Rightarrow> string \<Rightarrow> record_create" where
  "expanded r zone =
     \<lparr>rp_Name = expandTemplatePlaceholder (tr_Name r) zone, rp_Type = tr_Type r,
      rp_Content = expandTemplatePlaceholder (tr_Content r) zone, rp_TTL = tr_TTL r, rp_Disabled = False\<rparr>"

text \<open>The records of a template, one after the other; \<open>n\<close> counts those that were created.\<close>

fun apply_records ::
  "dns_svc \<Rightarrow> ctx \<Rightarrow> uuid \<Rightarrow> uuid \<Rightarrow> uuid \<Rightarrow> string \<Rightarrow> template_record list \<Rightarrow> nat \<Rightarrow>
     (nat \<times> (record_create \<times> goerr) option) prog" where
  "apply_records s ctx tenant user zoneID canonical [] n = ret (n, None)"
| "apply_records s ctx tenant user zoneID canonical (r # rs) n = do {
     c \<leftarrow> CreateRecord s ctx tenant user zoneID (expanded r canonical);
     case c of
       Inl e \<Rightarrow>
         if isAlreadyExists e then apply_records s ctx tenant user zoneID canonical rs n
         else ret (n, Some (expanded r canonical, e))
     | Inr _ \<Rightarrow> apply_records s ctx tenant user zoneID canonical rs (Suc n) }"

definition ApplyTemplate ::
  "dns_svc \<Rightarrow> ctx \<Rightarrow> uuid \<Rightarrow> uuid \<Rightarrow> uuid \<Rightarrow> string \<Rightarrow> (nat \<times> goerr option) prog" where
  "ApplyTemplate s ctx tenant user zoneID templateID =
     (case ds_provider s of
        None \<Rightarrow> ret (0, Some (Sentinel DnsErrProviderDisabled))
      | Some pv \<Rightarrow>
          (case GetTemplate templateID of
             Inl e \<Rightarrow> ret (0, Some e)
           | Inr tpl \<Rightarrow> do {
               z \<leftarrow> lookupZoneForCaller ctx zoneID;
               case z of
                 Inl e \<Rightarrow> ret (0, Some e)
               | Inr zone \<Rightarrow> do {
                   aid \<leftarrow> dns_emit s ''dns.zone.template.apply'' ''dns_zone'' tenant user (Some (zn_id zone))
                     (Some [(''template_id'', JStr (tp_ID tpl)), (''template'', JStr (tp_Name tpl)),
                            (''canonical_id'', JStr (zn_canonical zone))]);
                   r \<leftarrow> apply_records s ctx tenant user zoneID (zn_canonical zone) (tp_Records tpl) 0;
                   case snd r of
                     Some (p, e) \<Rightarrow> do {
                       _ \<leftarrow> dns_mark s aid ''failure''
                              (Some [(''error'', JErr e), (''applied_count'', JInt (int (fst r)))]);
                       ret (fst r, Some (Wrap (''dns: apply template '' @ quoted (tp_ID tpl) @ '' record '' @
                              rp_Name p @ '' '' @ rp_Type p) e)) }
                   | None \<Rightarrow> do {
                       _ \<leftarrow> dns_emitEvent s ''dns.zone.updated'' tenant user (zn_id zone)
                         (Some [(''template_id'', JStr (tp_ID tpl)), (''template'', JStr (tp_Name tpl)),
                                (''applied'', JInt (int (fst r))), (''canonical_id'', JStr (zn_canonical zone))]);
                       _ \<leftarrow> dns_mark s aid ''success''
                         (Some [(''template_id'', JStr (tp_ID tpl)), (''applied_count'', JInt (int (fst r)))]);
                       ret (fst r, None) } } }))"

end
