(* ===== verification/PtrPublisher.thy ===== *)
theory PtrPublisher
  imports FloatingIps Dns
begin

text \<open>
  \<^verbatim>\<open>program/compute_ip_ptrs.go\<close>: the adapter through which the floating addresses publish their reverse
  names. It is the \<open>ptr_publisher\<close> of the compute service, made of the DNS service.
\<close>

definition splitDot :: "string \<Rightarrow> string list" where
  "splitDot s = (let ps = split_on (CHR ''.'') s in if last ps = [] then butlast ps else ps)"

definition joinDot :: "string list \<Rightarrow> string" where
  "joinDot = join (CHR ''.'')"

definition hostLabelsForV4Zone :: "string \<Rightarrow> nat" where
  "hostLabelsForV4Zone z =
     (let core = take (length z - length ''.in-addr.arpa'') z
      in if length z < length ''.in-addr.arpa'' \<or> core = '''' then 1
         else length (filter (\<lambda>c. c = CHR ''.'') core) + 1)"

fun reverseDNSName :: "ipaddr \<Rightarrow> string \<Rightarrow> string" where
  "reverseDNSName (V4 a) zone =
     (if zone = '''' then ''''
      else let bare = without_dot zone;
               labels = splitDot (join (CHR ''.'') (map nat_digits (rev (places 256 4 (unat a)))));
               n = hostLabelsForV4Zone bare;
               kept = (if 0 < n \<and> n < length labels then take n labels else labels)
           in joinDot kept @ ''.'' @ bare @ ''.'')"
| "reverseDNSName (V6 a z) zone =
     (if zone = '''' then ''''
      else joinDot (map (\<lambda>d. [hex_digit d]) (rev (places 16 32 (unat a)))) @ ''.'' @ without_dot zone @ ''.'')"

definition ptr_record :: "string \<Rightarrow> string \<Rightarrow> record_create" where
  "ptr_record name target =
     \<lparr>rp_Name = name, rp_Type = ''PTR'', rp_Content = target, rp_TTL = 0, rp_Disabled = False\<rparr>"

definition PublishPTR :: "dns_svc \<Rightarrow> uuid \<Rightarrow> ipaddr \<Rightarrow> string \<Rightarrow> unit result prog" where
  "PublishPTR s zoneID ip target = do {
     z \<leftarrow> DNSZones_GetByIDGlobal zoneID;
     case z of
       Inl e \<Rightarrow> fail (Wrap ''compute.ptr_publisher: lookup reverse zone'' e)
     | Inr zone \<Rightarrow> do {
         r \<leftarrow> CreateRecord s (WithTenant None (zn_tenant zone)) (zn_tenant zone) uuid_nil (zn_id zone)
                (ptr_record (reverseDNSName ip (zn_canonical zone)) target);
         case r of
           Inl e \<Rightarrow> fail (Wrap ''compute.ptr_publisher: create ptr'' e)
         | Inr _ \<Rightarrow> ok () } }"

definition UnpublishPTR :: "dns_svc \<Rightarrow> uuid \<Rightarrow> ipaddr \<Rightarrow> unit result prog" where
  "UnpublishPTR s zoneID ip = do {
     z \<leftarrow> DNSZones_GetByIDGlobal zoneID;
     case z of
       Inl e \<Rightarrow> fail (Wrap ''compute.ptr_publisher: lookup reverse zone'' e)
     | Inr zone \<Rightarrow> do {
         g \<leftarrow> DNSRecords_GetByNameGlobal (zn_id zone) (reverseDNSName ip (zn_canonical zone)) ''PTR'';
         case g of
           Inl e \<Rightarrow>
             if IsNoRows e then ok () else fail (Wrap ''compute.ptr_publisher: lookup ptr record'' e)
         | Inr row \<Rightarrow> do {
             r \<leftarrow> DeleteRecord s (WithTenant None (zn_tenant zone)) (zn_tenant zone) uuid_nil (zn_id zone) (dr_id row);
             case r of
               Inl e \<Rightarrow> fail (Wrap ''compute.ptr_publisher: delete ptr'' e)
             | Inr _ \<Rightarrow> ok () } } }"

definition newDNSPTRPublisher :: "dns_svc option \<Rightarrow> ptr_publisher option" where
  "newDNSPTRPublisher svc =
     map_option (\<lambda>s. \<lparr>pp_PublishPTR = PublishPTR s, pp_UnpublishPTR = UnpublishPTR s\<rparr>) svc"

section \<open>The names\<close>

lemma take_places: "k \<le> m \<Longrightarrow> take k (places b m n) = places b k (n div b ^ (m - k))"
proof (induction m arbitrary: n)
  case (Suc m)
  show ?case
  proof (cases "k = Suc m")
    case False
    then have "k \<le> m" using Suc.prems by simp
    then show ?thesis
      using Suc.IH [of "n div b"] by (simp add: Suc_diff_le flip: div_mult2_eq)
  qed simp
qed simp

lemma join_append: "xs \<noteq> [] \<Longrightarrow> ys \<noteq> [] \<Longrightarrow> join c (xs @ ys) = join c xs @ c # join c ys"
proof (induction xs)
  case (Cons x xs)
  then show ?case by (cases xs; cases ys) auto
qed simp

end
