(* ===== verification/Pdns_Fake.thy ===== *)
theory Pdns_Fake
  imports Powerdns "HOL-Library.AList"
begin

text \<open>
  What the callers of the driver rely on, as the locale \<open>pdns_daemon\<close>: how the record sets that a
  daemon serves and the signing keys of a zone follow from the requests it has carried out. Its
  lemmas are about the calls of the driver. The locale is interpreted on the in-memory daemon of the
  repository, \<^verbatim>\<open>providers/powerdns/fake\<close>, for zone identifiers without a slash.
\<close>

section \<open>The contract\<close>

definition success :: "pdns_answer \<Rightarrow> bool" where
  "success a \<longleftrightarrow> (case a of Reply st _ _ \<Rightarrow> 200 \<le> st \<and> st < 300 | _ \<Rightarrow> False)"

definition accepted :: "pdns_daemon \<Rightarrow> pdns_req list \<Rightarrow> pdns_req \<Rightarrow> bool" where
  "accepted dm log r \<longleftrightarrow> success (snd (dm log r))"

fun is_read :: "pdns_req \<Rightarrow> bool" where
  "is_read GetServer = True" | "is_read GetZones = True" | "is_read (GetZoneReq _ _) = True"
| "is_read (GetKeys _) = True" | "is_read (GetKeyReq _ _ _) = True" | "is_read (GetMetas _) = True"
| "is_read (GetMeta _ _) = True" | "is_read _ = False"

text \<open>A name without a space; the daemon of the tests keys a set by the name, a space and the type.\<close>

definition spaceless :: "string \<Rightarrow> bool" where
  "spaceless s \<longleftrightarrow> CHR '' '' \<notin> set s"

definition toggled :: "int \<Rightarrow> bool \<Rightarrow> crypto_key list \<Rightarrow> crypto_key list" where
  "toggled i active ks = map (\<lambda>k. if ck_id k = i then k\<lparr>ck_active := active\<rparr> else k) ks"

text \<open>
  The start of authority of the zone that is written to. A daemon sets a new serial in it on every
  write, by the policy \<^verbatim>\<open>SOA-EDIT-API\<close> of the zone (\<^verbatim>\<open>providers/powerdns/types.go\<close>, \<^verbatim>\<open>metadata.go\<close>), so
  the contract promises nothing about these sets.
\<close>

definition serial_of :: "string \<Rightarrow> string \<Rightarrow> string \<Rightarrow> bool" where
  "serial_of z z' t \<longleftrightarrow> z' = z \<and> t = ''SOA''"

locale pdns_daemon =
  fixes dm :: pdns_daemon
    and served :: "pdns_req list \<Rightarrow> string \<Rightarrow> string \<Rightarrow> string \<Rightarrow> pdns_record list"
    and keys :: "pdns_req list \<Rightarrow> string \<Rightarrow> crypto_key list"
  assumes reads: "is_read r \<Longrightarrow> \<not> fst (dm log r)"
    and replaced: "accepted dm log (PatchZone z (rrset_update rs)) \<Longrightarrow> rs_change rs = ''REPLACE'' \<Longrightarrow>
      spaceless (rs_name rs) \<Longrightarrow> spaceless n \<Longrightarrow> \<not> serial_of z z' t \<Longrightarrow>
      served (after dm log (PatchZone z (rrset_update rs))) z' n t =
        (if z' = z \<and> n = rs_name rs \<and> t = rs_type rs then rs_records rs else served log z' n t)"
    and removed: "accepted dm log (PatchZone z (rrset_update rs)) \<Longrightarrow> rs_change rs = ''DELETE'' \<Longrightarrow>
      spaceless (rs_name rs) \<Longrightarrow> spaceless n \<Longrightarrow> \<not> serial_of z z' t \<Longrightarrow>
      served (after dm log (PatchZone z (rrset_update rs))) z' n t =
        (if z' = z \<and> n = rs_name rs \<and> t = rs_type rs then [] else served log z' n t)"
    and listed: "accepted dm log (GetKeys z) \<Longrightarrow> \<exists>st m. snd (dm log (GetKeys z)) = Reply st m (BodyKeys (keys log z))"
    and toggles: "accepted dm log (PutKey z i k) \<Longrightarrow>
      keys (after dm log (PutKey z i k)) z = toggled i (ck_active k) (keys log z)"
    and deletes: "accepted dm log (DeleteKeyReq z i) \<Longrightarrow>
      keys (after dm log (DeleteKeyReq z i)) z = filter (\<lambda>k. ck_id k \<noteq> i) (keys log z)"
begin

lemma after_read: "is_read r \<Longrightarrow> after dm log r = log"
  by (simp add: after_def reads)

end

section \<open>The daemon of the tests\<close>

record fake_zone =
  fz_zone :: pdns_zone
  fz_rrsets :: "(string \<times> rrset) list"
  fz_keys :: "(int \<times> crypto_key) list"
  fz_metas :: "(string \<times> zone_meta) list"
  fz_next :: int

type_synonym fake_state = "(string \<times> fake_zone) list"

definition rrsetKey :: "string \<Rightarrow> string \<Rightarrow> string" where
  "rrsetKey name t = name @ '' '' @ t"

definition no_zone :: "string \<Rightarrow> pdns_answer" where
  "no_zone z = Reply 404 (''zone '' @ quoted z @ '' not found'') NoBody"

definition dotted :: "string \<Rightarrow> string" where
  "dotted ns = (if HasSuffix ns ''.'' then ns else ns @ ''.'')"

definition plain_record :: "string \<Rightarrow> pdns_record" where
  "plain_record s = \<lparr>rd_content = s, rd_disabled = False, rd_setptr = False\<rparr>"

definition seed_rrsets :: "zone_create \<Rightarrow> (string \<times> rrset) list" where
  "seed_rrsets b =
     (let given = foldl (\<lambda>al rs. AList.update (rrsetKey (rs_name rs) (rs_type rs)) rs al) [] (zc_rrsets b);
          soa = (if map_of given (rrsetKey (zc_name b) ''SOA'') = None \<and> zc_nameservers b \<noteq> []
                 then AList.update (rrsetKey (zc_name b) ''SOA'')
                   \<lparr>rs_name = zc_name b, rs_type = ''SOA'', rs_ttl = 3600, rs_change = '''',
                    rs_records = [plain_record (dotted (hd (zc_nameservers b)) @ '' hostmaster.'' @ zc_name b @
                      '' 1 10800 3600 604800 3600'')]\<rparr> given
                 else given)
      in (if map_of soa (rrsetKey (zc_name b) ''NS'') = None \<and> zc_nameservers b \<noteq> []
          then AList.update (rrsetKey (zc_name b) ''NS'')
            \<lparr>rs_name = zc_name b, rs_type = ''NS'', rs_ttl = 3600, rs_change = '''',
             rs_records = map (\<lambda>ns. plain_record (dotted ns)) (zc_nameservers b)\<rparr> soa
          else soa))"

definition handleZoneCreate :: "fake_state \<Rightarrow> zone_create \<Rightarrow> fake_state \<times> pdns_answer" where
  "handleZoneCreate st b =
     (if zc_name b = '''' then (st, Reply 400 ''name is required'' NoBody)
      else if \<not> HasSuffix (zc_name b) ''.'' then (st, Reply 400 ''name must end with a dot'' NoBody)
      else let kind = or_default (zc_kind b) ''Native''; i = ToLower (zc_name b)
           in if map_of st i \<noteq> None
              then (st, Reply 409 (''zone '' @ quoted i @ '' already exists'') NoBody)
              else let z = \<lparr>pz_id = i, pz_name = zc_name b, pz_type = kind, pz_kind = kind, pz_serial = 1,
                            pz_rrsets = [], pz_soa_edit_api = or_default (zc_soa_edit_api b) ''DEFAULT'',
                            pz_soa_edit = zc_soa_edit b, pz_account = zc_account b, pz_dnssec = False\<rparr>
                   in (AList.update i \<lparr>fz_zone = z, fz_rrsets = seed_rrsets b, fz_keys = [], fz_metas = [],
                         fz_next = 0\<rparr> st,
                       Reply 201 '''' (BodyZone z)))"

text \<open>The changes of record sets, up to the first whose kind is unknown.\<close>

fun apply_rrsets :: "(string \<times> rrset) list \<Rightarrow> rrset list \<Rightarrow> (string \<times> rrset) list \<times> string" where
  "apply_rrsets al [] = (al, '''')"
| "apply_rrsets al (rs # rest) =
     (if rs_change rs = ''DELETE'' then apply_rrsets (AList.delete (rrsetKey (rs_name rs) (rs_type rs)) al) rest
      else if rs_change rs = ''REPLACE'' \<or> rs_change rs = ''''
      then apply_rrsets (AList.update (rrsetKey (rs_name rs) (rs_type rs)) rs al) rest
      else (al, rs_change rs))"

definition patch_zone :: "zone_update \<Rightarrow> pdns_zone \<Rightarrow> pdns_zone" where
  "patch_zone u z =
     z\<lparr>pz_account := or_default (zu_account u) (pz_account z),
       pz_kind := or_default (zu_kind u) (pz_kind z),
       pz_type := or_default (zu_kind u) (pz_type z),
       pz_soa_edit_api := or_default (zu_soa_edit_api u) (pz_soa_edit_api z),
       pz_soa_edit := or_default (zu_soa_edit u) (pz_soa_edit z)\<rparr>"

definition handleZonePatch :: "fake_state \<Rightarrow> string \<Rightarrow> zone_update \<Rightarrow> fake_state \<times> pdns_answer" where
  "handleZonePatch st i u =
     (case map_of st i of
        None \<Rightarrow> (st, no_zone i)
      | Some fz \<Rightarrow>
          (case apply_rrsets (fz_rrsets fz) (zu_rrsets u) of
             (al, bad) \<Rightarrow>
               let z = patch_zone u (fz_zone fz)
               in if bad \<noteq> ''''
                  then (AList.update i (fz\<lparr>fz_zone := z, fz_rrsets := al\<rparr>) st,
                        Reply 400 (''unknown changetype '' @ quoted bad) NoBody)
                  else (AList.update i (fz\<lparr>fz_zone := z\<lparr>pz_serial := pz_serial z + 1\<rparr>, fz_rrsets := al\<rparr>) st,
                        Reply 204 '''' NoBody)))"

definition has_active :: "(int \<times> crypto_key) list \<Rightarrow> bool" where
  "has_active ks \<longleftrightarrow> list_ex (\<lambda>(_, k). ck_active k) ks"

definition with_keys :: "(int \<times> crypto_key) list \<Rightarrow> fake_zone \<Rightarrow> fake_zone" where
  "with_keys ks fz = fz\<lparr>fz_keys := ks, fz_zone := (fz_zone fz)\<lparr>pz_dnssec := has_active ks\<rparr>\<rparr>"

definition no_key :: "int \<Rightarrow> pdns_answer" where
  "no_key k = Reply 404 (''cryptokey '' @ fmt_d k @ '' not found'') NoBody"

definition handleCryptoKeyCreate :: "fake_state \<Rightarrow> string \<Rightarrow> key_create \<Rightarrow> fake_state \<times> pdns_answer" where
  "handleCryptoKeyCreate st i b =
     (case map_of st i of
        None \<Rightarrow> (st, no_zone i)
      | Some fz \<Rightarrow>
          let n = fz_next fz + 1;
              k = \<lparr>ck_id = n, ck_keytype = or_default (kc_keytype b) ''ksk'', ck_active = kc_active b,
                   ck_dnssec = True, ck_bits = (if kc_bits b = 0 then 256 else kc_bits b),
                   ck_algorithm = or_default (kc_algorithm b) ''ecdsaP256SHA256'', ck_content = '''',
                   ck_published = kc_published b\<rparr>
          in (AList.update i (with_keys (AList.update n k (fz_keys fz)) (fz\<lparr>fz_next := n\<rparr>)) st,
              Reply 201 '''' (BodyKey k)))"

definition handleCryptoKeyPut :: "fake_state \<Rightarrow> string \<Rightarrow> int \<Rightarrow> crypto_key \<Rightarrow> fake_state \<times> pdns_answer" where
  "handleCryptoKeyPut st i n b =
     (case map_of st i of
        None \<Rightarrow> (st, no_zone i)
      | Some fz \<Rightarrow>
          (case map_of (fz_keys fz) n of
             None \<Rightarrow> (st, no_key n)
           | Some k \<Rightarrow>
               (AList.update i (with_keys (AList.update n (k\<lparr>ck_active := ck_active b\<rparr>) (fz_keys fz)) fz) st,
                Reply 204 '''' NoBody)))"

definition handleCryptoKeyDelete :: "fake_state \<Rightarrow> string \<Rightarrow> int \<Rightarrow> fake_state \<times> pdns_answer" where
  "handleCryptoKeyDelete st i n =
     (case map_of st i of
        None \<Rightarrow> (st, no_zone i)
      | Some fz \<Rightarrow>
          if map_of (fz_keys fz) n = None then (st, no_key n)
          else (AList.update i (with_keys (AList.delete n (fz_keys fz)) fz) st, Reply 204 '''' NoBody))"

definition handleMetadataPut :: "fake_state \<Rightarrow> string \<Rightarrow> zone_meta \<Rightarrow> fake_state \<times> pdns_answer" where
  "handleMetadataPut st i m =
     (case map_of st i of
        None \<Rightarrow> (st, no_zone i)
      | Some fz \<Rightarrow>
          (AList.update i (fz\<lparr>fz_metas := (if zm_values m = [] then AList.delete (zm_kind m) (fz_metas fz)
             else AList.update (zm_kind m) m (fz_metas fz))\<rparr>) st,
           Reply 200 '''' (BodyMeta m)))"

definition no_meta :: "string \<Rightarrow> pdns_answer" where
  "no_meta k = Reply 404 (''metadata '' @ quoted k @ '' not found'') NoBody"

definition handleMetadataDelete :: "fake_state \<Rightarrow> string \<Rightarrow> string \<Rightarrow> fake_state \<times> pdns_answer" where
  "handleMetadataDelete st i k =
     (case map_of st i of
        None \<Rightarrow> (st, no_zone i)
      | Some fz \<Rightarrow>
          if map_of (fz_metas fz) k = None then (st, no_meta k)
          else (AList.update i (fz\<lparr>fz_metas := AList.delete k (fz_metas fz)\<rparr>) st, Reply 204 '''' NoBody))"

definition look_zone :: "fake_state \<Rightarrow> string \<Rightarrow> (fake_zone \<Rightarrow> pdns_answer) \<Rightarrow> fake_state \<times> pdns_answer" where
  "look_zone st i f = (st, case map_of st i of None \<Rightarrow> no_zone i | Some fz \<Rightarrow> f fz)"

definition snapshotZone :: "bool \<Rightarrow> fake_zone \<Rightarrow> pdns_zone" where
  "snapshotZone rrsets fz =
     (if rrsets then (fz_zone fz)\<lparr>pz_rrsets := map snd (fz_rrsets fz)\<rparr> else fz_zone fz)"

fun zone_of_req :: "pdns_req \<Rightarrow> string option" where
  "zone_of_req (GetZoneReq z _) = Some z" | "zone_of_req (PatchZone z _) = Some z"
| "zone_of_req (DeleteZoneReq z) = Some z" | "zone_of_req (GetKeys z) = Some z"
| "zone_of_req (PostKey z _) = Some z" | "zone_of_req (GetKeyReq z _ _) = Some z"
| "zone_of_req (PutKey z _ _) = Some z" | "zone_of_req (DeleteKeyReq z _) = Some z"
| "zone_of_req (GetMetas z) = Some z" | "zone_of_req (GetMeta z _) = Some z"
| "zone_of_req (PutMeta z _) = Some z" | "zone_of_req (DeleteMeta z _) = Some z"
| "zone_of_req _ = None"

fun dispatch :: "fake_state \<Rightarrow> pdns_req \<Rightarrow> fake_state \<times> pdns_answer" where
  "dispatch st GetServer =
     (st, Reply 200 '''' (BodyServer \<lparr>si_daemon_type = ''authoritative'', si_version = ''4.9.0-fake''\<rparr>))"
| "dispatch st GetZones = (st, Reply 200 '''' (BodyZones (map (fz_zone \<circ> snd) st)))"
| "dispatch st (PostZone b) = handleZoneCreate st b"
| "dispatch st (GetZoneReq i rrsets) = look_zone st i (\<lambda>fz. Reply 200 '''' (BodyZone (snapshotZone rrsets fz)))"
| "dispatch st (PatchZone i u) = handleZonePatch st i u"
| "dispatch st (DeleteZoneReq i) =
     (if map_of st i = None then (st, no_zone i) else (AList.delete i st, Reply 204 '''' NoBody))"
| "dispatch st (GetKeys i) = look_zone st i (\<lambda>fz. Reply 200 '''' (BodyKeys (map snd (fz_keys fz))))"
| "dispatch st (PostKey i b) = handleCryptoKeyCreate st i b"
| "dispatch st (GetKeyReq i n _) = look_zone st i (\<lambda>fz.
     case map_of (fz_keys fz) n of None \<Rightarrow> no_key n | Some k \<Rightarrow> Reply 200 '''' (BodyKey k))"
| "dispatch st (PutKey i n b) = handleCryptoKeyPut st i n b"
| "dispatch st (DeleteKeyReq i n) = handleCryptoKeyDelete st i n"
| "dispatch st (GetMetas i) = look_zone st i (\<lambda>fz. Reply 200 '''' (BodyMetas (map snd (fz_metas fz))))"
| "dispatch st (GetMeta i k) = look_zone st i (\<lambda>fz.
     case map_of (fz_metas fz) k of None \<Rightarrow> no_meta k | Some m \<Rightarrow> Reply 200 '''' (BodyMeta m))"
| "dispatch st (PutMeta i m) = handleMetadataPut st i m"
| "dispatch st (DeleteMeta i k) = handleMetadataDelete st i k"

definition fake_step :: "fake_state \<Rightarrow> pdns_req \<Rightarrow> fake_state \<times> pdns_answer" where
  "fake_step st r =
     (if zone_of_req r = Some '''' then (st, Reply 400 ''missing zone id'' NoBody) else dispatch st r)"

definition fake_after :: "pdns_req list \<Rightarrow> fake_state" where
  "fake_after = foldl (\<lambda>st r. fst (fake_step st r)) []"

text \<open>A request is carried out when it changes the state.\<close>

definition fake_daemon :: pdns_daemon where
  "fake_daemon log r =
     (let st = fake_after log in (fst (fake_step st r) \<noteq> st, snd (fake_step st r)))"

definition fake_served :: "pdns_req list \<Rightarrow> string \<Rightarrow> string \<Rightarrow> string \<Rightarrow> pdns_record list" where
  "fake_served log z name t =
     (case map_of (fake_after log) z of
        None \<Rightarrow> []
      | Some fz \<Rightarrow> (case map_of (fz_rrsets fz) (rrsetKey name t) of None \<Rightarrow> [] | Some rs \<Rightarrow> rs_records rs))"

definition fake_keys :: "pdns_req list \<Rightarrow> string \<Rightarrow> crypto_key list" where
  "fake_keys log z = (case map_of (fake_after log) z of None \<Rightarrow> [] | Some fz \<Rightarrow> map snd (fz_keys fz))"

section \<open>The daemon of the tests honours the contract\<close>

lemma fake_after_snoc: "fake_after (log @ [r]) = fst (fake_step (fake_after log) r)"
  by (simp add: fake_after_def)

lemma fake_after_after: "fake_after (after fake_daemon log r) = fst (fake_step (fake_after log) r)"
  by (simp add: after_def fake_daemon_def fake_after_snoc Let_def)

lemma rrsetKey_inject:
  assumes "spaceless n" "spaceless n'"
  shows "rrsetKey n t = rrsetKey n' t' \<longleftrightarrow> n = n' \<and> t = t'"
proof
  assume eq: "rrsetKey n t = rrsetKey n' t'"
  have "takeWhile (\<lambda>c. c \<noteq> CHR '' '') (rrsetKey m s) = m" if "spaceless m" for m s
    using that by (auto simp: rrsetKey_def spaceless_def takeWhile_append intro!: takeWhile_eq_all_conv [THEN iffD2])
  from this [OF assms(1), of t] this [OF assms(2), of t'] eq have "n = n'" by simp
  then show "n = n' \<and> t = t'" using eq by (simp add: rrsetKey_def)
qed simp

definition keys_ok :: "fake_zone \<Rightarrow> bool" where
  "keys_ok fz \<longleftrightarrow> distinct (map fst (fz_keys fz)) \<and> (\<forall>(n, k)\<in>set (fz_keys fz). ck_id k = n)"

definition fake_ok :: "fake_state \<Rightarrow> bool" where
  "fake_ok st \<longleftrightarrow> (\<forall>i fz. map_of st i = Some fz \<longrightarrow> keys_ok fz)"

lemma fake_okD: "fake_ok st \<Longrightarrow> map_of st i = Some fz \<Longrightarrow> keys_ok fz"
  by (simp add: fake_ok_def)

lemma fake_ok_update: "fake_ok st \<Longrightarrow> keys_ok fz \<Longrightarrow> fake_ok (AList.update i fz st)"
  by (simp add: fake_ok_def update_conv')

lemma fake_ok_delete: "fake_ok st \<Longrightarrow> fake_ok (AList.delete i st)"
  by (simp add: fake_ok_def delete_conv')

lemma set_update_subset: "set (AList.update n k al) \<subseteq> insert (n, k) (set al)"
  by (induction al) auto

lemma keys_ok_update:
  assumes "keys_ok fz" "ck_id k = n"
  shows "keys_ok (with_keys (AList.update n k (fz_keys fz)) fz')"
  using assms set_update_subset [of n k "fz_keys fz"]
  by (auto simp: keys_ok_def with_keys_def distinct_update)

lemma keys_ok_delete: "keys_ok fz \<Longrightarrow> keys_ok (with_keys (AList.delete n (fz_keys fz)) fz')"
  using distinct_delete [of "fz_keys fz" n]
  by (auto simp: keys_ok_def with_keys_def AList.delete_eq)

lemma map_of_key: "keys_ok fz \<Longrightarrow> map_of (fz_keys fz) n = Some k \<Longrightarrow> ck_id k = n"
  by (auto simp: keys_ok_def dest!: map_of_SomeD)

lemma keys_ok_toggle:
  assumes "keys_ok fz" "map_of (fz_keys fz) n = Some k"
  shows "keys_ok (with_keys (AList.update n (k\<lparr>ck_active := b\<rparr>) (fz_keys fz)) fz')"
  by (rule keys_ok_update [OF assms(1)]) (use map_of_key [OF assms] in simp)

lemma keys_ok_same: "keys_ok fz \<Longrightarrow> fz_keys fz' = fz_keys fz \<Longrightarrow> keys_ok fz'"
  by (simp add: keys_ok_def)

lemma fake_ok_dispatch: "fake_ok st \<Longrightarrow> fake_ok (fst (dispatch st r))"
proof (cases r)
  case (PostZone b)
  then show "fake_ok st \<Longrightarrow> ?thesis"
    by (auto simp: handleZoneCreate_def Let_def keys_ok_def intro!: fake_ok_update)
next
  case (PatchZone i u)
  then show "fake_ok st \<Longrightarrow> ?thesis"
    by (auto simp: handleZonePatch_def Let_def split: option.split prod.split
        intro!: fake_ok_update dest: fake_okD elim!: keys_ok_same)
next
  case (PostKey i b)
  then show "fake_ok st \<Longrightarrow> ?thesis"
    by (auto simp: handleCryptoKeyCreate_def Let_def split: option.split
        intro!: fake_ok_update keys_ok_update dest: fake_okD)
next
  case (PutKey i n b)
  then show "fake_ok st \<Longrightarrow> ?thesis"
    by (auto simp: handleCryptoKeyPut_def split: option.split
        intro!: fake_ok_update keys_ok_toggle dest: fake_okD)
next
  case (DeleteKeyReq i n)
  then show "fake_ok st \<Longrightarrow> ?thesis"
    by (auto simp: handleCryptoKeyDelete_def split: option.split
        intro!: fake_ok_update keys_ok_delete dest: fake_okD)
next
  case (PutMeta i m)
  then show "fake_ok st \<Longrightarrow> ?thesis"
    by (auto simp: handleMetadataPut_def split: option.split
        intro!: fake_ok_update dest: fake_okD elim!: keys_ok_same)
next
  case (DeleteMeta i k)
  then show "fake_ok st \<Longrightarrow> ?thesis"
    by (auto simp: handleMetadataDelete_def split: option.split
        intro!: fake_ok_update dest: fake_okD elim!: keys_ok_same)
qed (simp_all add: look_zone_def fake_ok_delete)

lemma fake_ok_after: "fake_ok (fake_after log)"
proof (induction log rule: rev_induct)
  case Nil
  show ?case by (simp add: fake_ok_def fake_after_def)
next
  case (snoc r log)
  then show ?case by (simp add: fake_after_snoc fake_step_def fake_ok_dispatch)
qed

lemma read_unchanged: "is_read r \<Longrightarrow> fst (fake_step st r) = st"
  by (cases r) (simp_all add: fake_step_def look_zone_def)

lemma update_as_map:
  assumes "distinct (map fst al)" "map_of al n = Some v"
  shows "AList.update n w al = map (\<lambda>(m, x). (m, if m = n then w else x)) al"
  using assms
proof (induction al)
  case (Cons p al)
  obtain m x where p: "p = (m, x)" by (cases p)
  show ?case
  proof (cases "m = n")
    case True
    then have "map (\<lambda>(m, x). (m, if m = n then w else x)) al = al"
      using Cons.prems(1) p by (intro map_idI) force
    then show ?thesis using True p by simp
  next
    case False
    then show ?thesis using Cons p by simp
  qed
qed simp

lemma toggled_update:
  assumes "keys_ok fz" "map_of (fz_keys fz) n = Some k"
  shows "map snd (AList.update n (k\<lparr>ck_active := b\<rparr>) (fz_keys fz)) = toggled n b (map snd (fz_keys fz))"
proof -
  have "(if m = n then k\<lparr>ck_active := b\<rparr> else x) = (if ck_id x = n then x\<lparr>ck_active := b\<rparr> else x)"
    if "(m, x) \<in> set (fz_keys fz)" for m x
    using that assms by (auto simp: keys_ok_def dest!: map_of_SomeD dest: eq_key_imp_eq_value)
  then show ?thesis
    using assms by (auto simp: update_as_map keys_ok_def toggled_def)
qed

lemma success_simps [simp]:
  "success (Reply st m b) \<longleftrightarrow> 200 \<le> st \<and> st < 300" "\<not> success Cancelled" "\<not> success DeadlineExceeded"
  "\<not> success (Unreachable e)" "\<not> success (no_zone z)" "\<not> success (no_key k)" "\<not> success (no_meta s)"
  by (simp_all add: success_def no_zone_def no_key_def no_meta_def)

lemma fake_patch:
  assumes "success (snd (fake_step st (PatchZone z (rrset_update rs))))"
  obtains fz where "map_of st z = Some fz"
    "map_of (fst (fake_step st (PatchZone z (rrset_update rs)))) = (map_of st)(z \<mapsto>
       fz\<lparr>fz_zone := (fz_zone fz)\<lparr>pz_serial := pz_serial (fz_zone fz) + 1\<rparr>,
         fz_rrsets := fst (apply_rrsets (fz_rrsets fz) [rs])\<rparr>)"
proof -
  have z: "z \<noteq> ''''" using assms by (auto simp: fake_step_def)
  then obtain fz where fz: "map_of st z = Some fz"
    using assms by (cases "map_of st z") (auto simp: fake_step_def handleZonePatch_def)
  have same: "patch_zone (rrset_update rs) (fz_zone fz) = fz_zone fz"
    by (simp add: patch_zone_def rrset_update_def or_default_def)
  show ?thesis
    using assms z fz same
    by (intro that [OF fz])
      (auto simp: fake_step_def handleZonePatch_def update_conv' rrset_update_def Let_def split: prod.splits if_splits)
qed

interpretation fake: pdns_daemon fake_daemon fake_served fake_keys
proof
  fix r log
  show "is_read r \<Longrightarrow> \<not> fst (fake_daemon log r)"
    by (simp add: fake_daemon_def read_unchanged Let_def)
next
  fix log z rs z' n t
  assume ok: "accepted fake_daemon log (PatchZone z (rrset_update rs))"
    and "spaceless (rs_name rs)" "spaceless n"
  then have key: "rrsetKey (rs_name rs) (rs_type rs) = rrsetKey n t \<longleftrightarrow> n = rs_name rs \<and> t = rs_type rs"
    using rrsetKey_inject by metis
  have "success (snd (fake_step (fake_after log) (PatchZone z (rrset_update rs))))"
    using ok by (simp add: accepted_def fake_daemon_def Let_def)
  then obtain fz where fz: "map_of (fake_after log) z = Some fz"
    and new: "map_of (fst (fake_step (fake_after log) (PatchZone z (rrset_update rs)))) = (map_of (fake_after log))(z \<mapsto>
       fz\<lparr>fz_zone := (fz_zone fz)\<lparr>pz_serial := pz_serial (fz_zone fz) + 1\<rparr>,
         fz_rrsets := fst (apply_rrsets (fz_rrsets fz) [rs])\<rparr>)"
    by (rule fake_patch)
  { assume "rs_change rs = ''REPLACE''"
    then show "fake_served (after fake_daemon log (PatchZone z (rrset_update rs))) z' n t =
        (if z' = z \<and> n = rs_name rs \<and> t = rs_type rs then rs_records rs else fake_served log z' n t)"
      using fz key unfolding fake_served_def fake_after_after new by (auto simp: update_conv') }
  { assume "rs_change rs = ''DELETE''"
    then show "fake_served (after fake_daemon log (PatchZone z (rrset_update rs))) z' n t =
        (if z' = z \<and> n = rs_name rs \<and> t = rs_type rs then [] else fake_served log z' n t)"
      using fz key unfolding fake_served_def fake_after_after new by (auto simp: delete_conv') }
next
  fix log z
  show "accepted fake_daemon log (GetKeys z) \<Longrightarrow>
      \<exists>st m. snd (fake_daemon log (GetKeys z)) = Reply st m (BodyKeys (fake_keys log z))"
    by (auto simp: accepted_def fake_daemon_def fake_step_def look_zone_def fake_keys_def Let_def split: if_splits option.splits)
next
  fix log z i k
  assume "accepted fake_daemon log (PutKey z i k)"
  then obtain fz x where fz: "map_of (fake_after log) z = Some fz" "map_of (fz_keys fz) i = Some x" "z \<noteq> ''''"
    by (auto simp: accepted_def fake_daemon_def fake_step_def handleCryptoKeyPut_def Let_def split: if_splits option.splits)
  then show "fake_keys (after fake_daemon log (PutKey z i k)) z = toggled i (ck_active k) (fake_keys log z)"
    using toggled_update [OF fake_okD [OF fake_ok_after fz(1)] fz(2)]
    unfolding fake_keys_def fake_after_after
    by (simp add: fake_step_def handleCryptoKeyPut_def update_conv' with_keys_def)
next
  fix log z i
  assume "accepted fake_daemon log (DeleteKeyReq z i)"
  then obtain fz x where fz: "map_of (fake_after log) z = Some fz" "map_of (fz_keys fz) i = Some x" "z \<noteq> ''''"
    by (auto simp: accepted_def fake_daemon_def fake_step_def handleCryptoKeyDelete_def Let_def split: if_splits option.splits)
  have "map snd (AList.delete i (fz_keys fz)) = filter (\<lambda>k. ck_id k \<noteq> i) (map snd (fz_keys fz))"
    using fake_okD [OF fake_ok_after fz(1)]
    by (auto simp: keys_ok_def AList.delete_eq filter_map intro!: arg_cong [where f = "map snd"] filter_cong)
  then show "fake_keys (after fake_daemon log (DeleteKeyReq z i)) z = filter (\<lambda>k. ck_id k \<noteq> i) (fake_keys log z)"
    using fz unfolding fake_keys_def fake_after_after
    by (simp add: fake_step_def handleCryptoKeyDelete_def update_conv' with_keys_def)
qed

end
