(* ===== verification/Dns_Claims.thy ===== *)
theory Dns_Claims
  imports PtrPublisher Pdns_Fake
begin

text \<open>
  Properties of the DNS service, its driver and the publisher of reverse names. The daemon is any
  that honours the contract \<open>pdns_daemon\<close>; the witnesses use the daemon of the tests.
\<close>

section \<open>Undisturbed runs\<close>

text \<open>A program that goes on only after a success, and succeeds.\<close>

definition fails :: "('s, 'a result) state \<Rightarrow> bool" where
  "fails m \<longleftrightarrow> (\<forall>w. \<exists>e. fst (run_state m w) = Inl e)"

lemma fails_fail [simp]: "fails (fail e)"
  by (simp add: fails_def)

lemma fails_dns_fail [simp]: "fails (dns_fail s aid c e)"
  by (simp add: fails_def dns_fail_def split: prod.split)

lemma bind_succeeds:
  assumes "run_state (m \<bind> case_sum F G) w = (Inr x, w')" "\<And>e. fails (F e)"
  obtains y w1 where "run_state m w = (Inr y, w1)" "run_state (G y) w1 = (Inr x, w')"
proof -
  obtain r w1 where m: "run_state m w = (r, w1)" by (cases "run_state m w")
  show ?thesis
  proof (cases r)
    case (Inl e)
    obtain e' where "fst (run_state (F e) w1) = Inl e'" using assms(2) [of e] by (auto simp: fails_def)
    then show ?thesis using assms(1) m Inl by simp
  next
    case (Inr y)
    then show ?thesis using assms(1) m by (intro that) simp_all
  qed
qed

text \<open>The bus of the driver takes an event and changes nothing but the events.\<close>

definition quiet_bus :: "pdns_client \<Rightarrow> bool" where
  "quiet_bus pv \<longleftrightarrow> (\<forall>emit e w. pc_bus pv = Some emit \<longrightarrow>
     (\<exists>ev. snd (run_state (emit e) w) = w\<lparr>events := ev\<rparr>))"

text \<open>What the operations of the service depend on, beside the audit trail and the events.\<close>

definition dns_view ::
  "world \<Rightarrow> disturb list \<times> uuid list \<times> zone_row list \<times> dnsrec_row list \<times> pdns_req list" where
  "dns_view w = (sched w, db_tenants (wdb w), dns_zones (wdb w), dns_records (wdb w), pdns w)"

lemma view_emit: "sched w = [] \<Longrightarrow> dns_view (snd (run_state (dns_emit s a r tn u i m) w)) = dns_view w"
  by (rule exE [OF run_emitter_quiet [of w "ds_audit s" "\<lparr>ae_tenant = Some tn, ae_actor = Some u,
        ae_actor_type = ''user'', ae_action = a, ae_resource_type = r, ae_resource = i,
        ae_status = ''pending'', ae_meta = m\<rparr>"]])
    (auto simp: dns_emit_def dns_view_def)

lemma view_mark: "sched w = [] \<Longrightarrow> dns_view (snd (run_state (dns_mark s aid st m) w)) = dns_view w"
  by (rule exE [OF run_marker_quiet [of w "ds_audit s" aid st m]])
    (auto simp: dns_mark_def drop_result_def dns_view_def)

lemma view_event: "dns_view (snd (run_state (dns_emitEvent s topic tn u i m) w)) = dns_view w"
  by (simp add: dns_emitEvent_def dns_view_def)

lemma view_change_event:
  assumes "quiet_bus pv"
  shows "dns_view (snd (run_state (emitChange pv topic i m) w)) = dns_view w"
proof (cases "pc_bus pv")
  case (Some emit)
  let ?e = "\<lparr>be_topic = topic, be_actor_type = ''system'', be_resource = i, be_meta = m\<rparr>"
  obtain ev where "snd (run_state (emit ?e) w) = w\<lparr>events := ev\<rparr>"
    using assms Some unfolding quiet_bus_def by blast
  then show ?thesis
    using Some
    by (cases "run_state (emit ?e) w") (simp add: emitChange_def drop_result_def dns_view_def)
qed (simp add: emitChange_def)

lemma view_sched: "dns_view w' = dns_view w \<Longrightarrow> sched w' = sched w"
  by (simp add: dns_view_def)

lemma view_finish:
  assumes "sched w = []"
    and "run_state (dns_emitEvent s topic tn u i m \<bind> (\<lambda>_. dns_mark s aid st mm \<bind> (\<lambda>_. ok y))) w = (x, w')"
  shows "x = Inr y" "dns_view w' = dns_view w"
proof -
  let ?w1 = "snd (run_state (dns_emitEvent s topic tn u i m) w)"
  have "x = Inr y \<and> w' = snd (run_state (dns_mark s aid st mm) ?w1)"
    using assms(2) by (simp split: prod.splits)
  moreover have "sched ?w1 = []" using assms(1) view_sched [OF view_event] by simp
  ultimately show "x = Inr y" "dns_view w' = dns_view w"
    by (simp_all add: view_mark view_event)
qed

text \<open>The requests of the driver: success means that the daemon accepted, and it moves on.\<close>

lemma judge_accepted: "judge r (snd (dm log r)) = Inr body \<Longrightarrow> accepted dm log r"
  by (auto simp: judge_def accepted_def success_def classify_def split: pdns_answer.splits option.splits if_splits)

lemma run_pdns_do:
  "run_state (pdns_do pv r) w =
     (judge r (snd (pc_daemon pv (pdns w) r)), w\<lparr>pdns := after (pc_daemon pv) (pdns w) r\<rparr>)"
  by (simp add: pdns_do_def)

lemma change_succeeds:
  assumes "quiet_bus pv" "run_state (pdns_change pv r topic i m) w = (Inr x, w')"
  shows "accepted (pc_daemon pv) (pdns w) r"
    and "dns_view w' = dns_view (w\<lparr>pdns := after (pc_daemon pv) (pdns w) r\<rparr>)"
proof -
  obtain body where body: "judge r (snd (pc_daemon pv (pdns w) r)) = Inr body"
    using assms(2) by (cases "judge r (snd (pc_daemon pv (pdns w) r))") (simp_all add: pdns_change_def run_pdns_do)
  then show "accepted (pc_daemon pv) (pdns w) r" by (rule judge_accepted)
  have "w' = snd (run_state (emitChange pv topic i m) (w\<lparr>pdns := after (pc_daemon pv) (pdns w) r\<rparr>))"
    using assms(2) body by (simp add: pdns_change_def run_pdns_do split: prod.splits)
  then show "dns_view w' = dns_view (w\<lparr>pdns := after (pc_daemon pv) (pdns w) r\<rparr>)"
    using view_change_event [OF assms(1)] by simp
qed

lemma run_zone_lookup:
  assumes "sched w = []"
  shows "run_state (lookupZoneForCaller ctx i) w =
    (case ctx of
       None \<Rightarrow> Inl (Wrap ''dns: get zone'' (Sentinel ErrNoTenantInContext))
     | Some t \<Rightarrow>
         (case find (is_zone t i) (dns_zones (wdb w)) of
            None \<Rightarrow> Inl (Sentinel ErrZoneNotFound)
          | Some zone \<Rightarrow> Inr zone), w)"
  using assms
  by (auto simp: lookupZoneForCaller_def zone_with_def DNSZones_Get_def sql_one_def split: option.split)

lemma quiet_quota: "sched w = [] \<Longrightarrow> snd (run_state (record_quota s ctx) w) = w"
  by (cases ctx) (auto simp: record_quota_def DNSRecords_CountForTenant_def split: prod.split sum.split)

lemma quiet_identity: "sched w = [] \<Longrightarrow> snd (run_state (DNSRecords_GetByIdentity ctx zone n t c) w) = w"
  by (cases ctx) (simp_all add: DNSRecords_GetByIdentity_def)

lemma replace_succeeds:
  assumes "quiet_bus pv" "run_state (Provider_ReplaceRRset pv p) w = (Inr x, w')"
  shows "accepted (pc_daemon pv) (pdns w) (replace_req p)"
    and "dns_view w' = dns_view (w\<lparr>pdns := after (pc_daemon pv) (pdns w) (replace_req p)\<rparr>)"
  using change_succeeds [OF assms(1)] assms(2)
  by (auto simp: Provider_ReplaceRRset_def split: option.splits if_splits)

lemma create_row_quiet:
  assumes "sched w = []" "run_state (DNSRecords_Create (Some t) p) w = (Inr row, w')"
  shows "row = \<lparr>dr_id = db_next (wdb w), dr_tenant = t, dr_zone = nd_zone p, dr_name = nd_name p,
      dr_type = nd_type p, dr_content = nd_content p, dr_ttl = default_ttl (nd_ttl p), dr_prio = nd_prio p,
      dr_disabled = nd_disabled p, dr_created = db_now (wdb w)\<rparr>"
    and "dns_records (wdb w') = dns_records (wdb w) @ [row]" "pdns w' = pdns w" "sched w' = []"
    and "\<forall>r\<in>set (dns_records (wdb w)). \<not> same_record (nd_zone p) (nd_name p) (nd_type p) (nd_content p) r"
  using assms
  by (auto simp: DNSRecords_Create_def sql_create_record_def Let_def list_ex_iff split: if_splits prod.splits)

lemma publish_succeeds:
  assumes "quiet_bus pv" "sched w = []"
    and run: "run_state (publish_record s pv (Some t) tn u i zone p aid) w = (Inr row, w')"
  shows "accepted (pc_daemon pv) (pdns w) (replace_req (upsert_of (zn_canonical zone) (rp_Name p) (rp_Type p)
      (used_ttl s (rp_TTL p)) (rp_Content p) (rp_Disabled p)))" 
    and "pdns w' = after (pc_daemon pv) (pdns w) (replace_req (upsert_of (zn_canonical zone) (rp_Name p)
      (rp_Type p) (used_ttl s (rp_TTL p)) (rp_Content p) (rp_Disabled p)))"
    and "dns_records (wdb w') = dns_records (wdb w) @ [row]"
    and "dr_tenant row = t" "dr_zone row = i" "dr_name row = rp_Name p" "dr_type row = rp_Type p"
      "dr_content row = canonicalisedContent (rp_Type p) (rp_Content p)"
      "dr_ttl row = default_ttl (wrap32 (used_ttl s (rp_TTL p)))"
      "dr_prio row = recordPriority (rp_Type p) (rp_Content p)"
proof -
  let ?up = "upsert_of (zn_canonical zone) (rp_Name p) (rp_Type p) (used_ttl s (rp_TTL p)) (rp_Content p) (rp_Disabled p)"
  let ?np = "\<lparr>nd_zone = i, nd_name = rp_Name p, nd_type = rp_Type p,
    nd_content = canonicalisedContent (rp_Type p) (rp_Content p), nd_ttl = wrap32 (used_ttl s (rp_TTL p)),
    nd_prio = recordPriority (rp_Type p) (rp_Content p), nd_disabled = rp_Disabled p\<rparr>"
  obtain x w1 where a: "run_state (Provider_ReplaceRRset pv ?up) w = (Inr x, w1)"
    and rest: "run_state (DNSRecords_Create (Some t) ?np \<bind> case_sum
        (\<lambda>e. dns_fail s aid e (Wrap ''dns: create record row'' e))
        (\<lambda>row. do {
           _ \<leftarrow> dns_emitEvent s ''dns.record.created'' tn u (dr_id row)
                  (Some [(''zone_id'', JUuid i), (''name'', JStr (dr_name row)),
                         (''type'', JStr (dr_type row)), (''ttl'', JInt (dr_ttl row))]);
           _ \<leftarrow> dns_mark s aid ''success'' (Some [(''record_id'', JUuid (dr_id row))]);
           ok row })) w1 = (Inr row, w')"
    using run unfolding publish_record_def Let_def by (elim bind_succeeds) simp_all
  note replace = replace_succeeds [OF assms(1) a]
  have q: "sched w1 = []" using replace(2) assms(2) by (simp add: dns_view_def)
  obtain y w2 where b: "run_state (DNSRecords_Create (Some t) ?np) w1 = (Inr y, w2)"
    and fin: "run_state (dns_emitEvent s ''dns.record.created'' tn u (dr_id y)
                  (Some [(''zone_id'', JUuid i), (''name'', JStr (dr_name y)),
                         (''type'', JStr (dr_type y)), (''ttl'', JInt (dr_ttl y))]) \<bind> (\<lambda>_.
           dns_mark s aid ''success'' (Some [(''record_id'', JUuid (dr_id y))]) \<bind> (\<lambda>_. ok y))) w2 = (Inr row, w')"
    using rest by (elim bind_succeeds) simp_all
  note create = create_row_quiet [OF q b]
  have row: "row = y" and "dns_view w' = dns_view w2"
    using view_finish [OF create(4) fin] by simp_all
  then show "accepted (pc_daemon pv) (pdns w) (replace_req ?up)"
    "pdns w' = after (pc_daemon pv) (pdns w) (replace_req ?up)"
    "dns_records (wdb w') = dns_records (wdb w) @ [row]"
    "dr_tenant row = t" "dr_zone row = i" "dr_name row = rp_Name p" "dr_type row = rp_Type p"
    "dr_content row = canonicalisedContent (rp_Type p) (rp_Content p)"
    "dr_ttl row = default_ttl (wrap32 (used_ttl s (rp_TTL p)))"
    "dr_prio row = recordPriority (rp_Type p) (rp_Content p)"
    using replace create by (simp_all add: dns_view_def)
qed

section \<open>New records\<close>

lemma named_spaceless: "validateRecordName n z = None \<Longrightarrow> spaceless n"
  by (auto simp: validateRecordName_def spaceless_def list_ex_iff white_def split: if_splits)

lemma problem_free:
  assumes "record_problem s z p = None"
  shows "validateRecordName (rp_Name p) z = None" "IsSupportedRecordType (rp_Type p)"
    "ValidateRecordContent (rp_Type p) (rp_Content p) = None"
    "MinTTL \<le> used_ttl s (rp_TTL p)" "used_ttl s (rp_TTL p) \<le> MaxTTL"
    "rp_Type p = ''CNAME'' \<longrightarrow> rp_Name p \<noteq> z"
  using assms by (auto simp: record_problem_def ValidateTTL_def split: option.splits if_splits)

lemma stored_ttl: "MinTTL \<le> ttl \<Longrightarrow> ttl \<le> MaxTTL \<Longrightarrow> default_ttl (wrap32 ttl) = ttl"
  by (simp add: default_ttl_def wrap32_def MinTTL_def MaxTTL_def)

lemma creation_succeeds:
  assumes "ds_provider s = Some pv" "quiet_bus pv" "sched w = []"
    and run: "run_state (CreateRecord s ctx tn u i p) w = (Inr row, w')"
  obtains zone t where "ctx = Some t" "find (is_zone t i) (dns_zones (wdb w)) = Some zone"
    "record_problem s (zn_canonical zone) p = None"
    "accepted (pc_daemon pv) (pdns w) (replace_req (upsert_of (zn_canonical zone) (rp_Name p) (rp_Type p)
      (used_ttl s (rp_TTL p)) (rp_Content p) (rp_Disabled p)))"
    "pdns w' = after (pc_daemon pv) (pdns w) (replace_req (upsert_of (zn_canonical zone) (rp_Name p)
      (rp_Type p) (used_ttl s (rp_TTL p)) (rp_Content p) (rp_Disabled p)))"
    "dns_records (wdb w') = dns_records (wdb w) @ [row]"
    "dr_tenant row = t" "dr_zone row = i" "dr_name row = rp_Name p" "dr_type row = rp_Type p"
    "dr_content row = canonicalisedContent (rp_Type p) (rp_Content p)"
    "dr_ttl row = used_ttl s (rp_TTL p)"
    "dr_prio row = recordPriority (rp_Type p) (rp_Content p)"
proof -
  obtain t zone where zone: "ctx = Some t" "find (is_zone t i) (dns_zones (wdb w)) = Some zone"
    using run by (auto simp: CreateRecord_def assms(1) run_zone_lookup [OF assms(3)] split: option.splits)
  then have problem: "record_problem s (zn_canonical zone) p = None"
    using run by (auto simp: CreateRecord_def assms(1) run_zone_lookup [OF assms(3)] split: option.splits)
  obtain q where quota: "run_state (record_quota s ctx) w = (Inr q, w)"
    and free: "run_state (DNSRecords_GetByIdentity ctx i (rp_Name p) (rp_Type p) (rp_Content p) \<bind> (\<lambda>ex.
      if case ex of Inl _ \<Rightarrow> False | Inr row \<Rightarrow> dr_id row \<noteq> uuid_nil
      then fail (Wrap (rp_Name p @ '' '' @ rp_Type p @ '' '' @ rp_Content p) (Sentinel ErrRecordAlreadyExists))
      else dns_emit s ''dns.record.create'' ''dns_record'' tn u None
             (Some [(''zone_id'', JUuid i), (''name'', JStr (rp_Name p)),
                    (''type'', JStr (rp_Type p)), (''ttl'', JInt (used_ttl s (rp_TTL p))),
                    (''priority'', JInt (recordPriority (rp_Type p) (rp_Content p)))]) \<bind>
           publish_record s pv ctx tn u i zone p)) w = (Inr row, w')"
    using run zone problem quiet_quota [OF assms(3), of s ctx]
    by (auto simp: CreateRecord_def assms(1) run_zone_lookup [OF assms(3)] split: prod.splits sum.splits)
  let ?e = "dns_emit s ''dns.record.create'' ''dns_record'' tn u None
             (Some [(''zone_id'', JUuid i), (''name'', JStr (rp_Name p)),
                    (''type'', JStr (rp_Type p)), (''ttl'', JInt (used_ttl s (rp_TTL p))),
                    (''priority'', JInt (recordPriority (rp_Type p) (rp_Content p)))])"
  obtain aid w1 where emit: "run_state ?e w = (aid, w1)" by (cases "run_state ?e w")
  have pub: "run_state (publish_record s pv (Some t) tn u i zone p aid) w1 = (Inr row, w')"
    using free quiet_identity [OF assms(3), of ctx i "rp_Name p" "rp_Type p" "rp_Content p"] zone emit
    by (auto split: prod.splits if_splits)
  have view: "dns_view w1 = dns_view w" using view_emit [OF assms(3)] emit by (metis snd_conv)
  then have "sched w1 = []" "pdns w1 = pdns w" "dns_records (wdb w1) = dns_records (wdb w)"
    using assms(3) by (simp_all add: dns_view_def)
  then show ?thesis
    using publish_succeeds [OF assms(2) _ pub] stored_ttl problem_free(4,5) [OF problem]
    by (intro that [OF zone problem]) simp_all
qed

text \<open>
  C17. A record set at the daemon has one record. When a record is created, undisturbed, the row is
  appended to the table, with a supported type, a time to live within the bounds and the canonical
  content; and the daemon then serves, under this name and type, the new record alone, and everything
  else as before. Nothing is said of the start of authority of the zone, where the daemon sets a new
  serial. So a second address of a name, or a second mail exchanger, takes the place of the first
  one, whose row stays in the table.
\<close>

theorem CreateRecord_replaces_set:
  assumes "pdns_daemon (pc_daemon pv) served keys" "ds_provider s = Some pv" "quiet_bus pv" "sched w = []"
    and "run_state (CreateRecord s ctx tn u i p) w = (Inr row, w')"
  shows "\<exists>zone\<in>set (dns_zones (wdb w)). zn_id zone = i \<and> ctx = Some (zn_tenant zone) \<and>
    dns_records (wdb w') = dns_records (wdb w) @ [row] \<and>
    dr_tenant row = zn_tenant zone \<and> dr_zone row = i \<and> dr_name row = rp_Name p \<and> dr_type row = rp_Type p \<and>
    dr_content row = canonicalisedContent (rp_Type p) (rp_Content p) \<and>
    IsSupportedRecordType (dr_type row) \<and> MinTTL \<le> dr_ttl row \<and> dr_ttl row \<le> MaxTTL \<and>
    (\<forall>z n t. spaceless n \<longrightarrow> \<not> serial_of (zn_canonical zone) z t \<longrightarrow> served (pdns w') z n t =
       (if z = zn_canonical zone \<and> n = rp_Name p \<and> t = rp_Type p
        then [\<lparr>rd_content = rp_Content p, rd_disabled = rp_Disabled p, rd_setptr = False\<rparr>]
        else served (pdns w) z n t)) \<and>
    (\<forall>r\<in>set (dns_records (wdb w)).
       dr_zone r = i \<and> dr_name r = rp_Name p \<and> dr_type r = rp_Type p \<and> dr_type r \<noteq> ''SOA'' \<and>
       dr_content r \<noteq> rp_Content p \<longrightarrow>
       r \<in> set (dns_records (wdb w')) \<and>
       dr_content r \<notin> rd_content ` set (served (pdns w') (zn_canonical zone) (dr_name r) (dr_type r)))"
proof (rule creation_succeeds [OF assms(2-5)])
  fix zone t
  assume zone: "ctx = Some t" "find (is_zone t i) (dns_zones (wdb w)) = Some zone"
    and problem: "record_problem s (zn_canonical zone) p = None"
    and acc: "accepted (pc_daemon pv) (pdns w) (replace_req (upsert_of (zn_canonical zone) (rp_Name p) (rp_Type p)
      (used_ttl s (rp_TTL p)) (rp_Content p) (rp_Disabled p)))"
    and log: "pdns w' = after (pc_daemon pv) (pdns w) (replace_req (upsert_of (zn_canonical zone) (rp_Name p)
      (rp_Type p) (used_ttl s (rp_TTL p)) (rp_Content p) (rp_Disabled p)))"
    and row: "dns_records (wdb w') = dns_records (wdb w) @ [row]" "dr_tenant row = t" "dr_zone row = i"
      "dr_name row = rp_Name p" "dr_type row = rp_Type p"
      "dr_content row = canonicalisedContent (rp_Type p) (rp_Content p)" "dr_ttl row = used_ttl s (rp_TTL p)"
  have mem: "zone \<in> set (dns_zones (wdb w))" "zn_tenant zone = t" "zn_id zone = i"
    using find_SomeD [OF zone(2)] by (auto simp: is_zone_def)
  have name: "spaceless (rp_Name p)" by (rule named_spaceless [OF problem_free(1) [OF problem]])
  have serve: "served (pdns w') z n ty =
       (if z = zn_canonical zone \<and> n = rp_Name p \<and> ty = rp_Type p
        then [\<lparr>rd_content = rp_Content p, rd_disabled = rp_Disabled p, rd_setptr = False\<rparr>]
        else served (pdns w) z n ty)" if "spaceless n" "\<not> serial_of (zn_canonical zone) z ty" for z n ty
    unfolding log using pdns_daemon.replaced [OF assms(1) acc [unfolded replace_req_def]] name that
    by (simp add: replace_req_def upsert_of_def)
  show ?thesis
    by (rule bexI [OF _ mem(1)]) (use mem zone row problem_free [OF problem] serve name in \<open>auto simp: serial_of_def\<close>)
qed

text \<open>A zone of the tenant 7 with one text at the name \<^verbatim>\<open>a.e.\<close>, and a service on the daemon of the tests.\<close>

definition wit_client :: pdns_client where
  "wit_client = \<lparr>pc_daemon = fake_daemon, pc_bus = None\<rparr>"

definition wit_dns :: dns_svc where
  "wit_dns = \<lparr>ds_provider = Some wit_client, ds_audit = DBEmitter, ds_bus = True, ds_nameservers = [],
     ds_ttl = 3600, ds_dnssec = False, ds_max_records = 0, ds_coll = length, ds_uuid_str = nat_digits\<rparr>"

definition wit_post :: "string \<Rightarrow> pdns_req" where
  "wit_post z = PostZone \<lparr>zc_name = z, zc_kind = ''Native'', zc_soa_edit_api = '''', zc_soa_edit = '''',
     zc_account = '''', zc_nameservers = [''ns.''], zc_rrsets = []\<rparr>"

definition wit_zone :: "string \<Rightarrow> zone_row" where
  "wit_zone z = \<lparr>zn_id = 40, zn_tenant = 7, zn_canonical = z, zn_name = z, zn_kind = ''Native'',
     zn_dnssec = True, zn_axfr = False, zn_desc = '''', zn_created = 1\<rparr>"

definition wit_record :: dnsrec_row where
  "wit_record = \<lparr>dr_id = 41, dr_tenant = 7, dr_zone = 40, dr_name = ''a.e.'', dr_type = ''TXT'',
     dr_content = quoted ''x'', dr_ttl = 3600, dr_prio = 0, dr_disabled = False, dr_created = 1\<rparr>"

definition wit_world :: "string \<Rightarrow> dnsrec_row list \<Rightarrow> pdns_req list \<Rightarrow> world" where
  "wit_world z rows reqs = \<lparr>wdb = (empty_db 1000 [7] [3])\<lparr>db_next := 100, dns_zones := [wit_zone z],
     dns_records := rows\<rparr>, sched = [], events = [], pdns = wit_post z # reqs\<rparr>"

definition wit_create :: record_create where
  "wit_create = \<lparr>rp_Name = ''a.e.'', rp_Type = ''TXT'', rp_Content = quoted ''y'', rp_TTL = 0, rp_Disabled = False\<rparr>"

definition wit_start :: world where
  "wit_start = wit_world ''e.'' [wit_record]
     [replace_req (upsert_of ''e.'' ''a.e.'' ''TXT'' 3600 (quoted ''x'') False)]"

lemma wit_setup:
  "pdns_daemon (pc_daemon wit_client) fake_served fake_keys" "ds_provider wit_dns = Some wit_client"
  "quiet_bus wit_client" "sched (wit_world z rows reqs) = []" "sched wit_start = []"
  by (simp_all add: wit_client_def fake.pdns_daemon_axioms wit_dns_def quiet_bus_def wit_world_def wit_start_def)

lemma wit_created: "\<exists>row w'. run_state (CreateRecord wit_dns (Some 7) 7 3 40 wit_create) wit_start = (Inr row, w')"
proof -
  have "case fst (run_state (CreateRecord wit_dns (Some 7) 7 3 40 wit_create) wit_start) of Inl _ \<Rightarrow> False | Inr _ \<Rightarrow> True"
    by code_simp
  then show ?thesis by (cases "run_state (CreateRecord wit_dns (Some 7) 7 3 40 wit_create) wit_start") (auto split: sum.splits)
qed

theorem CreateRecord_replaces_set_witness:
  "\<exists>row w'. run_state (CreateRecord wit_dns (Some 7) 7 3 40 wit_create) wit_start = (Inr row, w') \<and>
     wit_record \<in> set (dns_records (wdb w')) \<and> row \<in> set (dns_records (wdb w')) \<and>
     fake_served (pdns wit_start) ''e.'' ''a.e.'' ''TXT'' =
       [\<lparr>rd_content = dr_content wit_record, rd_disabled = False, rd_setptr = False\<rparr>] \<and>
     fake_served (pdns w') ''e.'' ''a.e.'' ''TXT'' =
       [\<lparr>rd_content = quoted ''y'', rd_disabled = False, rd_setptr = False\<rparr>]"
proof -
  obtain row w' where run: "run_state (CreateRecord wit_dns (Some 7) 7 3 40 wit_create) wit_start = (Inr row, w')"
    using wit_created by blast
  have before: "fake_served (pdns wit_start) ''e.'' ''a.e.'' ''TXT'' =
       [\<lparr>rd_content = dr_content wit_record, rd_disabled = False, rd_setptr = False\<rparr>]"
    by code_simp
  have "dns_zones (wdb wit_start) = [wit_zone ''e.'']" "dns_records (wdb wit_start) = [wit_record]"
    by (simp_all add: wit_start_def wit_world_def)
  then show ?thesis
    using CreateRecord_replaces_set [OF wit_setup(1-3,5) run] run before
    by (auto simp: wit_zone_def wit_create_def spaceless_def serial_of_def intro!: exI [of _ row] exI [of _ w'])
qed

section \<open>Signing keys\<close>

lemma list_keys_succeeds:
  assumes "pdns_daemon (pc_daemon pv) served keys"
    and "run_state (Provider_ListCryptoKeys pv z) w = (Inr ks, w')"
  shows "ks = keys (pdns w) z" "w' = w"
proof -
  have same: "after (pc_daemon pv) (pdns w) (GetKeys z) = pdns w"
    using pdns_daemon.after_read [OF assms(1)] by simp
  show "w' = w" "ks = keys (pdns w) z"
    using assms(2) pdns_daemon.listed [OF assms(1), of "pdns w" z] judge_accepted [of "GetKeys z" "pc_daemon pv" "pdns w"]
    by (auto simp: Provider_ListCryptoKeys_def pdns_get_def run_pdns_do same judge_def
        split: sum.splits if_splits option.splits)
qed

text \<open>Enabling is idempotent: with an active key nothing is created.\<close>

lemma enable_idempotent:
  assumes "pdns_daemon (pc_daemon pv) served keys" "list_ex ck_active (keys (pdns w) z)"
    and "run_state (Provider_EnableDNSSEC pv z) w = (Inr k, w')"
  shows "w' = w"
proof -
  obtain l w1 where l: "run_state (Provider_ListCryptoKeys pv z) w = (Inr l, w1)"
    and rest: "run_state (case find ck_active l of Some k \<Rightarrow> ok k
          | None \<Rightarrow> do {
              k \<leftarrow> Provider_CreateCryptoKey pv
                \<lparr>kp_ZoneID = z, kp_KeyType = ''csk'', kp_Bits = 256, kp_Algorithm = ''ecdsaP256SHA256'',
                 kp_Active = True, kp_Published = True\<rparr>;
              case k of
                Inl e \<Rightarrow> fail e
              | Inr created \<Rightarrow> do {
                  _ \<leftarrow> emitChange pv ''dns.zone.dnssec.enabled'' z NoMeta;
                  ok created } }) w1 = (Inr k, w')"
    using assms(3) unfolding Provider_EnableDNSSEC_def by (elim bind_succeeds) simp_all
  have "find ck_active l \<noteq> None"
    using assms(2) list_keys_succeeds(1) [OF assms(1) l] by (auto simp: find_None_iff list_ex_iff)
  then show ?thesis
    using rest list_keys_succeeds(2) [OF assms(1) l] by auto
qed

lemma toggle_runs:
  assumes "quiet_bus pv"
  shows "dns_view (snd (run_state (drop_result (deactivateCryptoKey pv z i)) w)) =
    dns_view (w\<lparr>pdns := after (pc_daemon pv) (pdns w) (toggle_req z i False)\<rparr>)"
  using view_change_event [OF assms]
  by (simp add: drop_result_def deactivateCryptoKey_def Provider_ToggleCryptoKey_def pdns_change_def
      run_pdns_do split: prod.split sum.split) (metis prod.inject prod.collapse)

lemma toggled_ids: "map ck_id (toggled i b ks) = map ck_id ks"
  by (simp add: toggled_def)

lemma toggled_inactive: "k \<in> set (toggled i False ks) \<Longrightarrow> ck_active k \<Longrightarrow> k \<in> set ks \<and> ck_id k \<noteq> i"
  by (auto simp: toggled_def split: if_splits)

lemma deactivate_runs:
  assumes "pdns_daemon (pc_daemon pv) served keys" "quiet_bus pv"
    and ready: "\<And>log j k. j \<in> ck_id ` set (keys log z) \<Longrightarrow> accepted (pc_daemon pv) log (PutKey z j k)"
    and "ck_id ` set ks \<subseteq> ck_id ` set (keys (pdns w) z)"
  shows "\<exists>log. dns_view (snd (run_state (deactivate_keys pv z ks) w)) = dns_view (w\<lparr>pdns := log\<rparr>) \<and>
    map ck_id (keys log z) = map ck_id (keys (pdns w) z) \<and>
    (\<forall>k\<in>set (keys log z). ck_active k \<longrightarrow> k \<in> set (keys (pdns w) z) \<and>
       (\<forall>x\<in>set ks. ck_active x \<longrightarrow> ck_id x \<noteq> ck_id k))"
  using assms(4)
proof (induction ks arbitrary: w)
  case Nil
  show ?case by (intro exI [of _ "pdns w"]) simp
next
  case (Cons k ks)
  define w1 where "w1 = snd (run_state (if ck_active k then drop_result (deactivateCryptoKey pv z (ck_id k)) else ret ()) w)"
  let ?l1 = "if ck_active k then after (pc_daemon pv) (pdns w) (toggle_req z (ck_id k) False) else pdns w"
  have acc: "accepted (pc_daemon pv) (pdns w) (PutKey z (ck_id k) (zero_key\<lparr>ck_id := ck_id k, ck_active := False\<rparr>))"
    by (rule ready) (use Cons.prems in auto)
  have l1: "keys ?l1 z = (if ck_active k then toggled (ck_id k) False (keys (pdns w) z) else keys (pdns w) z)"
    using pdns_daemon.toggles [OF assms(1) acc] by (simp add: toggle_req_def)
  have v1: "dns_view w1 = dns_view (w\<lparr>pdns := ?l1\<rparr>)"
    using toggle_runs [OF assms(2), of z "ck_id k" w] by (simp add: w1_def)
  then have p1: "pdns w1 = ?l1" by (simp add: dns_view_def)
  have ids: "map ck_id (keys ?l1 z) = map ck_id (keys (pdns w) z)"
    using l1 by (simp add: toggled_ids)
  then have "ck_id ` set (keys ?l1 z) = ck_id ` set (keys (pdns w) z)" by (metis set_map)
  then have "ck_id ` set ks \<subseteq> ck_id ` set (keys (pdns w1) z)"
    using Cons.prems unfolding p1 by auto
  from Cons.IH [OF this] obtain log where log:
    "dns_view (snd (run_state (deactivate_keys pv z ks) w1)) = dns_view (w1\<lparr>pdns := log\<rparr>)"
    "map ck_id (keys log z) = map ck_id (keys ?l1 z)"
    "\<forall>x\<in>set (keys log z). ck_active x \<longrightarrow> x \<in> set (keys ?l1 z) \<and> (\<forall>y\<in>set ks. ck_active y \<longrightarrow> ck_id y \<noteq> ck_id x)"
    unfolding p1 by blast
  have "snd (run_state (deactivate_keys pv z (k # ks)) w) = snd (run_state (deactivate_keys pv z ks) w1)"
    by (simp add: w1_def split: prod.split)
  moreover have "dns_view (w1\<lparr>pdns := log\<rparr>) = dns_view (w\<lparr>pdns := log\<rparr>)"
    using v1 by (simp add: dns_view_def)
  moreover have "x \<in> set (keys (pdns w) z) \<and> (\<forall>y\<in>set (k # ks). ck_active y \<longrightarrow> ck_id y \<noteq> ck_id x)"
    if "x \<in> set (keys log z)" "ck_active x" for x
    using log(3) l1 that toggled_inactive [of x "ck_id k" "keys (pdns w) z"] by (auto split: if_splits)
  ultimately show ?case
    using log(1,2) ids by (intro exI [of _ log]) simp
qed

lemma find_updated: "(\<And>r. P r \<Longrightarrow> P (f r)) \<Longrightarrow> find P (sql_update P f rows) = map_option f (find P rows)"
  by (induction rows) (auto simp: sql_update_def)

text \<open>A daemon that answers the list of keys.\<close>

lemma list_keys_runs:
  assumes "pdns_daemon (pc_daemon pv) served keys" "accepted (pc_daemon pv) (pdns w) (GetKeys z)"
  shows "run_state (Provider_ListCryptoKeys pv z) w = (Inr (keys (pdns w) z), w)"
proof -
  obtain st m where reply: "snd (pc_daemon pv (pdns w) (GetKeys z)) = Reply st m (BodyKeys (keys (pdns w) z))"
    using pdns_daemon.listed [OF assms] by blast
  moreover have "classify st m = None"
    using assms(2) reply by (simp add: accepted_def success_def classify_def)
  ultimately show ?thesis
    using pdns_daemon.after_read [OF assms(1), of "GetKeys z" "pdns w"]
    by (simp add: Provider_ListCryptoKeys_def pdns_get_def run_pdns_do judge_def)
qed

lemma rotation_succeeds:
  assumes "pdns_daemon (pc_daemon pv) served keys" "ds_provider s = Some pv" "sched w = []"
    and "find (is_zone t i) (dns_zones (wdb w)) = Some zone"
    and "list_ex ck_active (keys (pdns w) (zn_canonical zone))"
    and "accepted (pc_daemon pv) (pdns w) (GetKeys (zn_canonical zone))"
  shows "\<exists>w'. run_state (RotateDNSSECKey s (Some t) tn u i) w = (Inr (), w')"
proof -
  let ?e = "dns_emit s ''dns.zone.dnssec.enable.rotate'' ''dns_zone'' tn u (Some (zn_id zone)) None"
  obtain aid w1 where emit: "run_state ?e w = (aid, w1)" by (cases "run_state ?e w")
  have "dns_view w1 = dns_view w" using view_emit [OF assms(3)] emit by (metis snd_conv)
  then have p1: "pdns w1 = pdns w" by (simp add: dns_view_def)
  note list = list_keys_runs [OF assms(1), of w1, unfolded p1, OF assms(6)]
  obtain k where "find ck_active (keys (pdns w) (zn_canonical zone)) = Some k"
    using assms(5) by (cases "find ck_active (keys (pdns w) (zn_canonical zone))") (auto simp: find_None_iff list_ex_iff)
  then have "run_state (Provider_EnableDNSSEC pv (zn_canonical zone)) w1 = (Inr k, w1)"
    using list by (simp add: Provider_EnableDNSSEC_def)
  then show ?thesis
    using list emit
    by (simp add: RotateDNSSECKey_def assms(2) run_zone_lookup [OF assms(3)] assms(4) split: prod.split)
qed

lemma rotation_unsigns:
  assumes "pdns_daemon (pc_daemon pv) served keys" "ds_provider s = Some pv" "quiet_bus pv" "sched w = []"
    and "find (is_zone t i) (dns_zones (wdb w)) = Some zone"
    and "list_ex ck_active (keys (pdns w) (zn_canonical zone))"
    and "\<And>log j k. j \<in> ck_id ` set (keys log (zn_canonical zone)) \<Longrightarrow>
      accepted (pc_daemon pv) log (PutKey (zn_canonical zone) j k)"
    and "run_state (RotateDNSSECKey s (Some t) tn u i) w = (Inr (), w')"
  shows "map ck_id (keys (pdns w') (zn_canonical zone)) = map ck_id (keys (pdns w) (zn_canonical zone)) \<and>
    (\<forall>k\<in>set (keys (pdns w') (zn_canonical zone)). \<not> ck_active k) \<and>
    fst (run_state (IsDNSSECEnabled (Some t) i) w') = Inr True"
proof -
  let ?c = "zn_canonical zone"
  define e where "e = dns_emit s ''dns.zone.dnssec.enable.rotate'' ''dns_zone'' tn u (Some (zn_id zone)) None"
  obtain aid w1 where emit: "run_state e w = (aid, w1)" by (cases "run_state e w")
  have v1: "dns_view w1 = dns_view w" using view_emit [OF assms(4)] emit unfolding e_def by (metis snd_conv)
  then have p1: "pdns w1 = pdns w" "sched w1 = []" using assms(4) by (simp_all add: dns_view_def)
  define flag where "flag = (if zn_dnssec zone then ret () else drop_result (DNSZones_SetCachedDNSSEC (Some t) i True))"
  define fin where "fin ks = dns_emitEvent s ''dns.zone.dnssec.rotated'' tn u (zn_id zone)
       (Some [(''name'', JStr (zn_name zone)), (''canonical_id'', JStr ?c), (''previous_keys'', JInt (int (length ks)))]) \<bind>
     (\<lambda>_. dns_mark s aid ''success'' None \<bind> (\<lambda>_. ok ()))" for ks :: "crypto_key list"
  have "run_state (Provider_ListCryptoKeys pv ?c \<bind> case_sum
      (\<lambda>e. dns_fail s aid e (Wrap ''dns: pdns list cryptokeys'' e))
      (\<lambda>ks. Provider_EnableDNSSEC pv ?c \<bind> case_sum
        (\<lambda>e. dns_fail s aid e (Wrap ''dns: pdns rotate cryptokey'' e))
        (\<lambda>_. deactivate_keys pv ?c ks \<bind> (\<lambda>_. flag \<bind> (\<lambda>_. fin ks))))) w1 = (Inr (), w')"
    using assms(8) emit
    by (simp add: RotateDNSSECKey_def assms(2) run_zone_lookup [OF assms(4)] assms(5) e_def flag_def fin_def)
  then obtain ks wa x wb where ks: "run_state (Provider_ListCryptoKeys pv ?c) w1 = (Inr ks, wa)"
    and en: "run_state (Provider_EnableDNSSEC pv ?c) wa = (Inr x, wb)"
    and rest: "run_state (deactivate_keys pv ?c ks \<bind> (\<lambda>_. flag \<bind> (\<lambda>_. fin ks))) wb = (Inr (), w')"
    by (elim bind_succeeds) simp_all
  have keys: "ks = keys (pdns w) ?c" "wa = w1" using list_keys_succeeds [OF assms(1) ks] p1 by simp_all
  have wb: "wb = w1" using enable_idempotent [OF assms(1) _ en] assms(6) p1 keys by simp
  have sub: "ck_id ` set ks \<subseteq> ck_id ` set (keys (pdns w1) ?c)" using keys p1 by simp
  let ?w2 = "snd (run_state (deactivate_keys pv ?c ks) w1)"
  obtain log where log: "dns_view ?w2 = dns_view (w1\<lparr>pdns := log\<rparr>)"
    "map ck_id (keys log ?c) = map ck_id (keys (pdns w1) ?c)"
    "\<forall>k\<in>set (keys log ?c). ck_active k \<longrightarrow> k \<in> set (keys (pdns w1) ?c) \<and> (\<forall>x\<in>set ks. ck_active x \<longrightarrow> ck_id x \<noteq> ck_id k)"
    using deactivate_runs [OF assms(1,3,7) sub] by blast
  let ?w3 = "snd (run_state flag ?w2)"
  have q2: "sched ?w2 = []" "dns_zones (wdb ?w2) = dns_zones (wdb w)" "pdns ?w2 = log"
    using log(1) v1 p1 by (simp_all add: dns_view_def)
  have z3: "sched ?w3 = []" "pdns ?w3 = log"
    "dns_zones (wdb ?w3) = (if zn_dnssec zone then dns_zones (wdb w)
       else sql_update (is_zone t i) (\<lambda>r. r\<lparr>zn_dnssec := True\<rparr>) (dns_zones (wdb w)))"
    using q2 by (simp_all add: flag_def drop_result_def DNSZones_SetCachedDNSSEC_def sql_update_zone_def)
  have last: "run_state (fin ks) ?w3 = (Inr (), w')" using rest unfolding wb by (simp split: prod.splits)
  have "dns_view w' = dns_view ?w3" by (rule view_finish(2) [OF z3(1) last [unfolded fin_def]])
  then have "sched w' = []" "pdns w' = log" "dns_zones (wdb w') = dns_zones (wdb ?w3)"
    using z3 by (simp_all add: dns_view_def)
  moreover have "find (is_zone t i) (dns_zones (wdb ?w3)) = Some (zone\<lparr>zn_dnssec := True\<rparr>)"
    using assms(5) find_updated [of "is_zone t i" "\<lambda>r. r\<lparr>zn_dnssec := True\<rparr>" "dns_zones (wdb w)"]
    by (auto simp: z3(3) is_zone_def)
  ultimately show ?thesis
    using log(2,3) keys p1 by (auto simp: IsDNSSECEnabled_def run_zone_lookup)
qed

text \<open>
  C28. Rotation takes a signed zone out of service. \<^verbatim>\<open>RotateDNSSECKey\<close> means to create a new signing key
  and then to retire the old ones, but the call that creates it is idempotent and returns an active key
  when there is one. So on a zone with an active key, when the run is not disturbed and the daemon
  lists the keys of the zone and carries out the changes of existing ones, the answer is a success,
  no key is created and every key is deactivated: the zone has the keys it had and none of them
  signs. The cached flag of the zone says that it is signed.
\<close>

theorem RotateDNSSECKey_unsigns:
  assumes "pdns_daemon (pc_daemon pv) served keys" "ds_provider s = Some pv" "quiet_bus pv" "sched w = []"
    and "find (is_zone t i) (dns_zones (wdb w)) = Some zone"
    and "list_ex ck_active (keys (pdns w) (zn_canonical zone))"
    and "accepted (pc_daemon pv) (pdns w) (GetKeys (zn_canonical zone))"
    and "\<And>log j k. j \<in> ck_id ` set (keys log (zn_canonical zone)) \<Longrightarrow>
      accepted (pc_daemon pv) log (PutKey (zn_canonical zone) j k)"
  shows "\<exists>w'. run_state (RotateDNSSECKey s (Some t) tn u i) w = (Inr (), w') \<and>
    map ck_id (keys (pdns w') (zn_canonical zone)) = map ck_id (keys (pdns w) (zn_canonical zone)) \<and>
    (\<forall>k\<in>set (keys (pdns w') (zn_canonical zone)). \<not> ck_active k) \<and>
    fst (run_state (IsDNSSECEnabled (Some t) i) w') = Inr True"
  using rotation_succeeds [OF assms(1,2,4-7)] rotation_unsigns [OF assms(1-6,8)] by blast

lemma fake_accepts_key:
  assumes "z \<noteq> ''''" "j \<in> ck_id ` set (fake_keys log z)"
  shows "accepted fake_daemon log (PutKey z j k)"
proof -
  obtain fz where fz: "map_of (fake_after log) z = Some fz" "j \<in> ck_id ` snd ` set (fz_keys fz)"
    using assms(2) by (cases "map_of (fake_after log) z") (auto simp: fake_keys_def)
  then have "j \<in> fst ` set (fz_keys fz)"
    using fake_okD [OF fake_ok_after fz(1)] by (force simp: keys_ok_def)
  then obtain x where "map_of (fz_keys fz) j = Some x"
    by (metis domD dom_map_of_conv_image_fst)
  then show ?thesis
    using assms(1) fz(1)
    by (simp add: accepted_def fake_daemon_def fake_step_def handleCryptoKeyPut_def Let_def)
qed

definition wit_signed :: world where
  "wit_signed = wit_world ''e.'' [] [PostKey ''e.'' \<lparr>kc_keytype = ''csk'', kc_bits = 256,
     kc_algorithm = ''ecdsaP256SHA256'', kc_active = True, kc_published = True\<rparr>]"

theorem RotateDNSSECKey_unsigns_witness:
  "\<exists>w'. run_state (RotateDNSSECKey wit_dns (Some 7) 7 3 40) wit_signed = (Inr (), w') \<and>
     map ck_active (fake_keys (pdns wit_signed) ''e.'') = [True] \<and>
     length (fake_keys (pdns w') ''e.'') = 1 \<and> (\<forall>k\<in>set (fake_keys (pdns w') ''e.''). \<not> ck_active k) \<and>
     fst (run_state (IsDNSSECEnabled (Some 7) 40) w') = Inr True"
proof -
  have act: "map ck_active (fake_keys (pdns wit_signed) ''e.'') = [True]" by code_simp
  have len: "length (fake_keys (pdns wit_signed) ''e.'') = 1" using act by (metis length_map length_Cons list.size(3) One_nat_def)
  have lists: "accepted fake_daemon (pdns wit_signed) (GetKeys ''e.'')" by code_simp
  have zone: "find (is_zone 7 40) (dns_zones (wdb wit_signed)) = Some (wit_zone ''e.'')" "sched wit_signed = []"
    by (simp_all add: wit_signed_def wit_world_def wit_zone_def is_zone_def)
  have "\<exists>w'. run_state (RotateDNSSECKey wit_dns (Some 7) 7 3 40) wit_signed = (Inr (), w') \<and>
    map ck_id (fake_keys (pdns w') ''e.'') = map ck_id (fake_keys (pdns wit_signed) ''e.'') \<and>
    (\<forall>k\<in>set (fake_keys (pdns w') ''e.''). \<not> ck_active k) \<and>
    fst (run_state (IsDNSSECEnabled (Some 7) 40) w') = Inr True"
    using RotateDNSSECKey_unsigns [OF wit_setup(1-3) zone(2,1), of 7 3] act lists fake_accepts_key
    by (force simp: wit_zone_def wit_client_def list_ex_iff)
  then show ?thesis using act len by (metis length_map)
qed

section \<open>Reverse names\<close>

definition octet_labels :: "nat list \<Rightarrow> string list" where
  "octet_labels ds = map nat_digits (rev ds)"

lemma plain_labels: "\<forall>x\<in>set (octet_labels ds). CHR ''.'' \<notin> set x" "\<forall>x\<in>set (octet_labels ds). x \<noteq> []"
  by (auto simp: octet_labels_def digit_chars nat_digits_digits nat_digits_nonempty)

lemma length_octet_labels [simp]: "length (octet_labels ds) = length ds" "octet_labels ds = [] \<longleftrightarrow> ds = []"
  by (simp_all add: octet_labels_def)

lemma octets_nonempty: "places 256 4 n \<noteq> []"
  by (metis length_places list.size(3) zero_neq_numeral)

lemma dots_join:
  "xs \<noteq> [] \<Longrightarrow> \<forall>x\<in>set xs. c \<notin> set x \<Longrightarrow> length (filter (\<lambda>y. y = c) (join c xs)) = length xs - 1"
proof (induction c xs rule: join.induct)
  case (2 c s)
  then show ?case by (auto simp: filter_empty_conv)
next
  case (3 c s t ss)
  then have "filter (\<lambda>y. y = c) s = []" by (auto simp: filter_empty_conv)
  then show ?case using 3 by simp
qed simp

lemma join_nonempty: "xs \<noteq> [] \<Longrightarrow> \<forall>x\<in>set xs. x \<noteq> [] \<Longrightarrow> join c xs \<noteq> []"
  by (induction c xs rule: join.induct) auto

lemma join_inject:
  "xs \<noteq> [] \<Longrightarrow> ys \<noteq> [] \<Longrightarrow> \<forall>x\<in>set xs. c \<notin> set x \<Longrightarrow> \<forall>x\<in>set ys. c \<notin> set x \<Longrightarrow>
     join c xs = join c ys \<longleftrightarrow> xs = ys"
  by (metis split_on_join)

lemma splitDot_join:
  assumes "xs \<noteq> []" "\<forall>x\<in>set xs. CHR ''.'' \<notin> set x" "\<forall>x\<in>set xs. x \<noteq> []"
  shows "splitDot (join (CHR ''.'') xs) = xs"
  using assms by (simp add: splitDot_def split_on_join)

lemma without_arpa [simp]: "without_dot (s @ arpa4) = s @ ''.in-addr.arpa''" "without_dot (s @ arpa6) = s @ ''.ip6.arpa''"
  by (simp_all add: without_dot_def arpa4_def arpa6_def butlast_append)

lemma host_labels:
  assumes "xs \<noteq> []" "\<forall>x\<in>set xs. CHR ''.'' \<notin> set x" "\<forall>x\<in>set xs. x \<noteq> []"
  shows "hostLabelsForV4Zone (join (CHR ''.'') xs @ ''.in-addr.arpa'') = length xs"
  using assms join_nonempty [OF assms(1,3), of "CHR ''.''"] dots_join [OF assms(1,2)]
  by (simp add: hostLabelsForV4Zone_def Let_def)

text \<open>The name the publisher makes of an address in a zone of \<open>length ds\<close> octets.\<close>

lemma reverse_in_zone:
  assumes "ds \<noteq> []"
  shows "reverseDNSName (V4 a) (join (CHR ''.'') (octet_labels ds) @ arpa4) =
    join (CHR ''.'') (take (if length ds < 4 then length ds else 4) (octet_labels (places 256 4 (unat a))) @
      octet_labels ds) @ arpa4"
proof -
  let ?H = "octet_labels (places 256 4 (unat a))" and ?L = "octet_labels ds"
  have ne: "?L \<noteq> []" "?H \<noteq> []" using assms octets_nonempty by (simp_all add: octet_labels_def)
  have split: "splitDot (join (CHR ''.'') (map nat_digits (rev (places 256 4 (unat a))))) = ?H"
    using splitDot_join [OF ne(2) plain_labels] by (simp only: octet_labels_def)
  have host: "hostLabelsForV4Zone (without_dot (join (CHR ''.'') ?L @ arpa4)) = length ds"
    using host_labels [OF ne(1) plain_labels] by simp
  have "reverseDNSName (V4 a) (join (CHR ''.'') ?L @ arpa4) =
      join (CHR ''.'') (if 0 < length ds \<and> length ds < length ?H then take (length ds) ?H else ?H) @ ''.'' @
      join (CHR ''.'') ?L @ arpa4"
    unfolding reverseDNSName.simps Let_def split host joinDot_def
    by (simp only: without_arpa) (simp add: arpa4_def)
  moreover have "(if 0 < length ds \<and> length ds < length ?H then take (length ds) ?H else ?H) =
      take (if length ds < 4 then length ds else 4) ?H" (is "_ = ?K")
    using assms by simp
  moreover have "?K \<noteq> []" using ne assms by simp
  ultimately show ?thesis using join_append [OF _ ne(1)] by simp
qed

lemma octets_of:
  "places 256 4 n = [n div 256 div 256 div 256 mod 256, n div 256 div 256 mod 256, n div 256 mod 256, n mod 256]"
proof -
  have four: "(4 :: nat) = Suc (Suc (Suc (Suc 0)))" by simp
  show ?thesis unfolding four places.simps by simp
qed

lemma ipv4_zone_labels:
  "ipv4ReverseZone n ones = join (CHR ''.'') (octet_labels (take (max 1 (ones div 8)) (places 256 4 n))) @ arpa4"
  by (simp add: ipv4ReverseZone_def octet_labels_def Let_def)

lemma PTRName_labels: "PTRName (V4 a) = join (CHR ''.'') (octet_labels (places 256 4 (unat a))) @ arpa4"
  by (simp add: ptr4_def octet_labels_def)

text \<open>A network of at least 16 bits has the first two octets of its addresses.\<close>

lemma network_octets:
  assumes "16 \<le> ones" "ones \<le> 32"
  shows "take 2 (places 256 4 (unat (clear_low (32 - ones) (a :: 32 word)))) = take 2 (places 256 4 (unat a))"
proof -
  have "(256::nat) ^ 2 = 2 ^ (32 - ones) * 2 ^ (ones - 16)"
    using assms by (simp flip: power_add)
  then have "unat a div 2 ^ (32 - ones) * 2 ^ (32 - ones) div 256 ^ 2 = unat a div 256 ^ 2"
    by (simp only: div_mult2_eq) simp
  then show ?thesis by (simp add: take_places unat_clear_low)
qed

lemma v6_never:
  "reverseDNSName (V6 b z) (ipv6ReverseZone n bits) \<noteq> PTRName (V6 b z)"
proof
  assume eq: "reverseDNSName (V6 b z) (ipv6ReverseZone n bits) = PTRName (V6 b z)"
  define N where "N = join (CHR ''.'') (map (\<lambda>d. [hex_digit d]) (rev (places 16 32 (unat b))))"
  define L where "L = join (CHR ''.'') (map (\<lambda>d. [hex_digit d]) (rev (take (max 1 (bits div 4)) (places 16 32 n))))"
  have "ipv6ReverseZone n bits = L @ arpa6"
    by (simp add: ipv6ReverseZone_def L_def Let_def)
  moreover have "L @ arpa6 \<noteq> ''''" by (simp add: arpa6_def)
  ultimately have name: "reverseDNSName (V6 b z) (ipv6ReverseZone n bits) = N @ ''.'' @ L @ arpa6"
    by (simp add: joinDot_def N_def) (simp add: arpa6_def)
  show False
  proof (cases "is4in6 (places 65536 8 (unat b))")
    case False
    then have "PTRName (V6 b z) = N @ arpa6" by (simp add: ptr6_def N_def)
    then show ?thesis using eq name by simp
  next
    case True
    then obtain M where "PTRName (V6 b z) = M @ arpa4" by (simp add: ptr4_def)
    then have "N @ ''.'' @ L @ arpa6 = M @ arpa4" using eq name by simp
    then have "suffix arpa6 (M @ arpa4)" by (metis append_assoc suffixI)
    moreover have "suffix arpa4 (M @ arpa4)" by (simp add: suffix_def)
    ultimately have "suffix arpa6 arpa4"
      by (rule suffix_length_suffix) (simp add: arpa4_def arpa6_def)
    then show ?thesis by (simp add: arpa4_def arpa6_def suffix_to_prefix)
  qed
qed

text \<open>
  C29. The publisher of reverse names computes the right name only in zones of two octets. In the
  reverse zone of the network of an address of version 4, as the driver names it, the name of the
  publisher is the reverse name of the address exactly when the zone covers 16 to 23 bits: in the zone
  of a /24 it puts three labels in front of the three of the zone. For an address of version 6 it puts
  all 32 nibbles in front of the zone, and the name is never right.
\<close>

theorem reverseDNSName_right_for_two_octets:
  assumes "ones \<le> 32"
  shows "(reverseDNSName (V4 a) (ipv4ReverseZone (unat (clear_low (32 - ones) a)) ones) = PTRName (V4 a) \<longleftrightarrow>
      ones div 8 = 2) \<and>
    reverseDNSName (V6 b z) (ipv6ReverseZone n bits) \<noteq> PTRName (V6 b z)"
proof -
  define ds where "ds = take (max 1 (ones div 8)) (places 256 4 (unat (clear_low (32 - ones) a)))"
  let ?H = "octet_labels (places 256 4 (unat a))" and ?K = "if length ds < 4 then length ds else 4"
  have len: "length ds = max 1 (ones div 8)" using assms by (simp add: ds_def)
  then have ne: "ds \<noteq> []" by auto
  have "take ?K ?H @ octet_labels ds = ?H \<longleftrightarrow> ones div 8 = 2"
  proof
    assume "take ?K ?H @ octet_labels ds = ?H"
    then have "length (take ?K ?H @ octet_labels ds) = 4" by simp
    then show "ones div 8 = 2" using len by (simp split: if_splits)
  next
    assume two: "ones div 8 = 2"
    then have "ds = take 2 (places 256 4 (unat a))"
      using network_octets [of ones a] assms by (simp add: ds_def flip: numeral_2_eq_2)
    moreover have "length ds = 2" using len two by simp
    ultimately have "octet_labels ds = drop 2 ?H" by (simp add: octet_labels_def rev_take drop_map)
    then show "take ?K ?H @ octet_labels ds = ?H" using \<open>length ds = 2\<close> by simp
  qed
  moreover have "reverseDNSName (V4 a) (ipv4ReverseZone (unat (clear_low (32 - ones) a)) ones) = PTRName (V4 a)
      \<longleftrightarrow> take ?K ?H @ octet_labels ds = ?H"
  proof -
    have "\<forall>x\<in>set (take ?K ?H @ octet_labels ds). CHR ''.'' \<notin> set x"
      using plain_labels(1) by (auto dest: in_set_takeD)
    then have "join (CHR ''.'') (take ?K ?H @ octet_labels ds) = join (CHR ''.'') ?H \<longleftrightarrow> take ?K ?H @ octet_labels ds = ?H"
      using plain_labels(1) by (intro join_inject) (simp_all add: ne octets_nonempty)
    then show ?thesis
      unfolding ipv4_zone_labels PTRName_labels ds_def [symmetric] reverse_in_zone [OF ne] by simp
  qed
  ultimately show ?thesis using v6_never by blast
qed

theorem reverseDNSName_right_for_two_octets_witness:
  "reverseDNSName (V4 3221225989) ''2.0.192.in-addr.arpa.'' = ''5.2.0.2.0.192.in-addr.arpa.'' \<and>
   PTRName (V4 3221225989) = ''5.2.0.192.in-addr.arpa.'' \<and>
   ipv4ReverseZone (unat (clear_low (32 - 24) (3221225989 :: 32 word))) 24 = ''2.0.192.in-addr.arpa.'' \<and>
   reverseDNSName (V4 3221225989) ''2.0.192.in-addr.arpa.'' \<noteq> PTRName (V4 3221225989)"
proof -
  have net: "unat (clear_low (32 - 24) (3221225989 :: 32 word)) = 3221225984" "unat (3221225989 :: 32 word) = 3221225989"
    by (simp_all add: unat_clear_low)
  have octets: "places 256 4 3221225984 = [192, 0, 2, 0]" "places 256 4 3221225989 = [192, 0, 2, 5]"
    by (simp_all add: octets_of)
  have texts: "join (CHR ''.'') (octet_labels [192, 0, 2]) @ arpa4 = ''2.0.192.in-addr.arpa.''"
    "join (CHR ''.'') (octet_labels [192, 0, 2, 5]) @ arpa4 = ''5.2.0.192.in-addr.arpa.''"
    "join (CHR ''.'') (take (length [192 :: nat, 0, 2]) (octet_labels [192, 0, 2, 5]) @ octet_labels [192, 0, 2]) @ arpa4 = ''5.2.0.2.0.192.in-addr.arpa.''"
    by code_simp+
  have zone: "ipv4ReverseZone (unat (clear_low (32 - 24) (3221225989 :: 32 word))) 24 = ''2.0.192.in-addr.arpa.''"
    unfolding net ipv4_zone_labels octets by (simp flip: texts(1))
  have name: "PTRName (V4 3221225989) = ''5.2.0.192.in-addr.arpa.''"
    unfolding PTRName_labels net octets by (rule texts)
  have "length [192 :: nat, 0, 2] < 4" by simp
  then have "reverseDNSName (V4 3221225989) ''2.0.192.in-addr.arpa.'' = ''5.2.0.2.0.192.in-addr.arpa.''"
    using reverse_in_zone [of "[192, 0, 2]" 3221225989] unfolding net octets texts by (simp only: if_True texts not_Cons_self2 simp_thms list.distinct)
  then show ?thesis
    using reverseDNSName_right_for_two_octets [of 24 3221225989] zone name by simp
qed

end
