(* ===== verification/Spec2Isabelle.thy ===== *)
theory Spec2Isabelle
  imports Billing_System Jobs_Claims Payments_System Rbac_Claims Gate_Claims Auth_System
    Floating_Claims Dns_Claims
begin

text \<open>
  Lahijan is a self-hosted cloud platform: one Go process that serves an HTTP API for compute,
  storage, DNS and billing, keeps its state in PostgreSQL, runs periodic jobs and drives external
  systems (Incus, SeaweedFS, PowerDNS, Stripe). Every request is tenant-scoped: the tenant is a
  value in the request's context, and the repositories add it to each statement. This library
  models the parts of the program where a mistake costs money or gives away access: who a request
  speaks for, what it may do, what it is charged, and which public address and name it is given. File names
  below are relative to \<^verbatim>\<open>src/internal/app/lahijan/\<close>.

  \<^bold>\<open>How the parts interact.\<close> The tenant and authentication slots of the middleware turn headers and
  cookies into the locals of a request (\<open>TenantWithResolver\<close>, \<open>AuthWithResolver\<close>); the permission gate
  reads the path and the locals and asks the policy evaluator (\<open>AuditGate\<close>, \<open>RequirePerm\<close>,
  \<open>HasPermission\<close>); the handlers call the services (\<open>Login\<close>, \<open>Refresh\<close>, \<open>Topup\<close>, ...), and the services
  the repositories, whose statements are the only code that changes the database.

  \<^bold>\<open>How the program is modelled.\<close> A Go function is a HOL function of the same name. A Go method
  that touches the database or the event bus is a program of the state monad over the record
  \<open>world\<close>: the database, the event log and a schedule. A result \<open>(T, error)\<close> is the sum
  \<open>goerr + 'a\<close>; sentinels, driver errors and the wrapping of \<^verbatim>\<open>fmt.Errorf\<close> are constructors of
  \<open>goerr\<close>, so every early return of the source is a branch of the model. The database is a record
  of tables; a generated query (\<^verbatim>\<open>database/gen/*.sql.go\<close>) is a function on it that carries the
  constraints of the migrations: a violated check, unique index or foreign key is an error value
  and leaves the tables alone. A call is one atomic statement. Between two calls of a request the
  schedule may let other transactions commit or may break the connection; a claim without an
  assumption on the schedule holds under all of them. An \<open>int64\<close> is an integer, and Go arithmetic
  on it is followed by the wrap-around \<open>wrap64\<close>; an \<open>int32\<close> conversion is \<open>int32\<close>; sums computed
  by the server that do not fit are its out-of-range error. Strings are byte strings, on which the
  functions of case and of white space (\<^verbatim>\<open>ToLower\<close>, \<^verbatim>\<open>ToUpper\<close>, \<^verbatim>\<open>TrimSpace\<close>) treat ASCII only.

  \<^bold>\<open>The theories.\<close>
  \<^item> \<open>Prelude\<close>: the runtime (identifiers, instants, integers, errors, the part of \<^verbatim>\<open>strings\<close> in use)
    and the calculus \<open>keeps\<close> of invariants of programs; \<open>Store\<close>: the tables, the world, database
    calls and the audit trail (\<^verbatim>\<open>auth/audit\<close>, \<^verbatim>\<open>database/tenant.go\<close>).
  \<^item> \<open>BillingRepo\<close>, \<open>Billing\<close>: the repositories of prices, ledger, balances, usage and receipts
    (\<^verbatim>\<open>database/billing_repo.go\<close>) and the billing service (\<^verbatim>\<open>billing/service.go\<close>, \<^verbatim>\<open>ledger.go\<close>,
    \<^verbatim>\<open>usage.go\<close>, \<^verbatim>\<open>catalog.go\<close>, \<^verbatim>\<open>meter.go\<close>, \<^verbatim>\<open>enforce.go\<close>). The ledger is the truth, the balance row a
    cache of its sum; the idempotency key is a unique index; the current price is the row without
    an end.
  \<^item> \<open>BillingJobs\<close>: the workers of \<^verbatim>\<open>billing/jobs.go\<close>; \<open>Receipts\<close>: \<^verbatim>\<open>billing/receipts.go\<close> with the PDF
    writer byte by byte, UTF-8 decoding included.
  \<^item> \<open>PaymentsRepo\<close>, \<open>StripeHook\<close>, \<open>Payments\<close>: plans, payment methods, subscriptions, promo codes and
    webhook events (\<^verbatim>\<open>database/billing_payments_repo.go\<close>), the signature check and the decoding of
    events (\<^verbatim>\<open>providers/stripe/webhooks.go\<close>, \<^verbatim>\<open>types.go\<close>), and the payments service
    (\<^verbatim>\<open>billing/payments.go\<close>, \<^verbatim>\<open>subscriptions.go\<close>, \<^verbatim>\<open>promo_codes.go\<close>).
  \<^item> \<open>AuthRepo\<close>: users, tenants, roles, memberships, sessions, refresh tokens, access tokens and email
    tokens (\<^verbatim>\<open>database/users_repo.go\<close>, \<^verbatim>\<open>sessions_repo.go\<close>, \<^verbatim>\<open>tokens_repo.go\<close>, ...). \<open>Rbac\<close>: the catalog of
    permissions, the default roles, the evaluator, the seeder and the provisioning of a new account
    (\<^verbatim>\<open>auth/rbac/\<close>, \<^verbatim>\<open>program/signup.go\<close>). \<open>Gate\<close>: the switch of \<^verbatim>\<open>api/router.go\<close> with its path helpers,
    \<^verbatim>\<open>RequirePerm\<close>, and the table of routes of the generated server; \<open>Gate_Trees\<close>, \<open>Gate_Paths\<close> and
    \<open>Gate_Table\<close> decide the switch for each route and each filling of its parameters by identifiers
    (texts of hexadecimal digits and dashes; for other texts nothing is shown, and \<open>Gate_Claims\<close> has
    a name of a log file with which a guarded route is left open).
  \<^item> \<open>Encoding\<close>, \<open>Utf8\<close>: decimal, hexadecimal, base64 and UTF-8 as the Go library has them. \<open>Secrets\<close>,
    \<open>Password\<close>: signed tokens and password hashes (\<^verbatim>\<open>auth/secrets/secrets.go\<close>,
    \<^verbatim>\<open>auth/password/password.go\<close>). \<open>EmailFlows\<close>, \<open>Sessions\<close>: links in mails, and registration, sign-in,
    sign-out and refresh (\<^verbatim>\<open>auth/email/email.go\<close>, \<^verbatim>\<open>auth/session/session.go\<close>). \<open>Principals\<close>: access tokens
    and the two slots of the middleware (\<^verbatim>\<open>auth/pat/pat.go\<close>, \<^verbatim>\<open>api/middleware/\<close>). \<open>AuthHttp\<close>: the
    handlers around them and those of the administration of users.
  \<^item> \<open>Rbac_Inv\<close>, \<open>Auth_Inv\<close>: the well-formedness of the tables of access rights, and the locale
    \<open>auth_invariant\<close>: an invariant that the statements of authentication keep is kept by every
    request; its interpretations are the four ways a credential is dead. \<open>Rbac_Bundles\<close>,
    \<open>Rbac_Claims\<close>, \<open>Gate_Claims\<close> and \<open>Auth_Claims\<close> state the properties; \<open>Auth_System\<close> those of tokens,
    gate and handlers together.
  \<^item> \<open>Billing_Inv\<close>, \<open>Payments_Inv\<close>: the contracts. \<open>cache_invariant\<close>, \<open>ledger_invariant\<close>,
    \<open>billing_invariant\<close> and \<open>payments_invariant\<close> are locales, each extending the one before, whose
    assumptions are that the statements of a part of the program keep an invariant; inside them
    every operation of the service is shown to keep it under every schedule. The interpretations
    discharge the assumptions for the invariants of the tables and for the frames (append-only,
    nobody else's account, a taken key stays taken) the claims use.
  \<^item> \<open>Billing_Props\<close>: the evaluation of each operation on an undisturbed request; the theories
    \<open>Billing_Claims\<close>, \<open>Jobs_Claims\<close>, \<open>Receipts_Claims\<close>, \<open>StripeHook_Claims\<close> and \<open>Payments_Claims\<close> state
    the properties. \<open>Billing_System\<close> and \<open>Payments_System\<close> put the services together as transition
    systems, requests interleaved with the statements of others, and prove the invariants of every
    reachable database.

  \<^item> \<open>Netip\<close>: the addresses and prefixes of \<^verbatim>\<open>net/netip\<close> as words, their text forms and parsers, with the
    round trip between them. \<open>IpRepo\<close>, \<open>IpAlloc\<close>, \<open>FloatingIps\<close>: the tables of pools, ranges and floating
    addresses (\<^verbatim>\<open>database/ippools_repo.go\<close>, \<^verbatim>\<open>floatingips_repo.go\<close>), the search for a free address
    (\<^verbatim>\<open>compute/ip_allocation.go\<close>), and the services (\<^verbatim>\<open>compute/ip_pools.go\<close>, \<^verbatim>\<open>floating_ips.go\<close>).
    \<open>Floating_Inv\<close>: the locale \<open>floating_invariant\<close>, its interpretations for the shape of the tables and
    for the addresses of another tenant, and the requests as a transition system; \<open>Floating_Claims\<close>
    states the properties.

  \<^item> \<open>PdnsTypes\<close>, \<open>Powerdns\<close>: the driver of the PowerDNS daemon (\<^verbatim>\<open>providers/powerdns/\<close>). Its requests
    and answers are values; the daemon is a function of the requests it carried out before, which the
    field \<open>pdns\<close> of the world collects. \<open>Pdns_Fake\<close>: the locale \<open>pdns_daemon\<close>, what the program relies
    on of a daemon (what it serves after a replacement or a deletion, how its keys change), and its
    interpretation on the in-memory daemon of \<^verbatim>\<open>providers/powerdns/fake/\<close>. The contract says nothing
    of the SOA record set of a zone that is written to, whose serial the daemon may advance.
    \<open>DnsValidate\<close>, \<open>DnsRepo\<close>,
    \<open>Dns\<close>: the checks of names, contents and times to live (\<^verbatim>\<open>dns/validators.go\<close>), the repositories
    (\<^verbatim>\<open>database/dns_zones_repo.go\<close>, \<^verbatim>\<open>dns_records_repo.go\<close>) and the service (\<^verbatim>\<open>dns/zones.go\<close>,
    \<^verbatim>\<open>records.go\<close>, \<^verbatim>\<open>dnssec.go\<close>, \<^verbatim>\<open>templates.go\<close>). \<open>PtrPublisher\<close>: the adapter
    \<^verbatim>\<open>program/compute_ip_ptrs.go\<close>, by which the floating addresses publish their names. \<open>Dns_Claims\<close>
    states the properties.

  \<^bold>\<open>What is a parameter.\<close> Code outside the repository is an argument of the definitions that use it:
  HMAC-SHA256, SHA-256, argon2id and the random source, the sender of mail and the message catalog,
  the external directory, the JSON syntax of the webhook, the text form of UUIDs, the encryption envelope,
  the Stripe API (a record of programs), the compute enforcer and the meters, the forwards of the
  Incus daemon, the PowerDNS daemon and the bus of its driver, the collation of the database. Claims state what they
  need of it as hypotheses, and the witnesses instantiate it with concrete functions.

  \<^bold>\<open>Bounds.\<close> No definition uses fuel: the loops of the modelled code are over lists, the UTF-8
  decoder terminates because every rune takes a byte. The two loops that walk over the addresses of
  a prefix are partial functions, shown to return on every prefix that parses (\<open>search_ranges_returns\<close>):
  that is why the value of the search may be taken in \<open>pickNextFreeAddress\<close>. Addresses are words of
  32 and 128 bits whose successor wraps around; the cap of 65536 steps is the code's. A generated
  identifier or random draw is numbered by the counter \<open>db_next\<close>, so no two draws of a run are the
  same draw.

  \<^bold>\<open>Not modelled.\<close> Listings that order by a text column, where the order is the collation of the
  database and no list order is taken from it; the sign-in handler with its multi-factor branch,
  and the providers behind it (TOTP, WebAuthn, OAuth, OIDC, SAML), which are glue around
  third-party protocol libraries; the handlers of the other services and the generated API code;
  logging; the registration of jobs; the JSON, headers and spans of the PowerDNS driver; the rest of the compute module, and the other modules (storage,
  registrar and domains, agent, plugins), which the manifest lists with the reason.
\<close>

end
